(* ===== verification/Prelude.thy ===== *)
theory Prelude
  imports Complex_Main "HOL-Library.AList" "HOL-Library.List_Lexorder" "HOL-Library.Char_ord"
begin

text \<open>
  The vocabulary every component shares: Python exceptions as values, the part of
  \<open>str\<close>, \<open>int\<close>, \<open>dict\<close> and \<open>round\<close> the sources use, and the collections of
  rewrite rules the component theories draw on.

  Python text is modelled as \<^typ>\<open>string\<close> restricted to ASCII by convention: \<open>lower\<close>,
  \<open>strip\<close> and \<open>isdigit\<close> act on the ASCII range, which is what device names,
  interface labels, fault names and addresses are made of.  A Python \<open>dict\<close> keeps
  insertion order, so it is an association list updated with \<^const>\<open>AList.update\<close>
  (which overwrites in place and appends a new key at the end).  Python \<open>float\<close>
  values are exact rationals: rounding errors of IEEE arithmetic are not modelled.
\<close>

named_theorems str_simps \<open>evaluation of the string helpers\<close>
named_theorems dict_simps \<open>lookups in updated dictionaries\<close>
named_theorems result_simps \<open>reasoning about operations that may raise\<close>

section \<open>Exceptions\<close>

text \<open>
  The exception classes raised by the modelled code, with the text the code formats.
  Errors raised inside the standard library carry the offending input instead of the
  library's own wording.
\<close>

datatype exc =
    ValueError string
  | RuntimeError string
  | TypeError string
  | LookupKeyError string
  | ValidationError string
  | BaselineNotReady string
  | FileNotFoundError string
  | IndexError string
  | AttributeError string
  | OSError string
  | JSONDecodeError string

type_synonym 'a result = "exc + 'a"

definition bindE :: "'a result \<Rightarrow> ('a \<Rightarrow> 'b result) \<Rightarrow> 'b result" where
  "bindE m f = (case m of Inl e \<Rightarrow> Inl e | Inr x \<Rightarrow> f x)"

fun exc_message :: "exc \<Rightarrow> string" where
  "exc_message (ValueError m) = m"
| "exc_message (RuntimeError m) = m"
| "exc_message (TypeError m) = m"
| "exc_message (LookupKeyError m) = m"
| "exc_message (ValidationError m) = m"
| "exc_message (BaselineNotReady m) = m"
| "exc_message (FileNotFoundError m) = m"
| "exc_message (IndexError m) = m"
| "exc_message (AttributeError m) = m"
| "exc_message (OSError m) = m"
| "exc_message (JSONDecodeError m) = m"

fun exc_type :: "exc \<Rightarrow> string" where
  "exc_type (ValueError m) = ''ValueError''"
| "exc_type (RuntimeError m) = ''RuntimeError''"
| "exc_type (TypeError m) = ''TypeError''"
| "exc_type (LookupKeyError m) = ''KeyError''"
| "exc_type (ValidationError m) = ''ValidationError''"
| "exc_type (BaselineNotReady m) = ''_BaselineNotReadyError''"
| "exc_type (FileNotFoundError m) = ''FileNotFoundError''"
| "exc_type (IndexError m) = ''IndexError''"
| "exc_type (AttributeError m) = ''AttributeError''"
| "exc_type (OSError m) = ''OSError''"
| "exc_type (JSONDecodeError m) = ''JSONDecodeError''"

lemma bindE_simps [simp, result_simps]:
  "bindE (Inl e) f = Inl e"
  "bindE (Inr x) f = f x"
  by (simp_all add: bindE_def)

lemma bindE_Inr_conv [result_simps]: "bindE m f = Inr y \<longleftrightarrow> (\<exists>x. m = Inr x \<and> f x = Inr y)"
  by (cases m) simp_all

lemma bindE_Inl_conv [result_simps]:
  "bindE m f = Inl e \<longleftrightarrow> m = Inl e \<or> (\<exists>x. m = Inr x \<and> f x = Inl e)"
  by (cases m) simp_all

text \<open>A loop whose body may raise: the results in order, or the first exception.\<close>

fun mapE :: "('a \<Rightarrow> 'b result) \<Rightarrow> 'a list \<Rightarrow> 'b list result" where
  "mapE f [] = Inr []"
| "mapE f (x # xs) = bindE (f x) (\<lambda>y. bindE (mapE f xs) (\<lambda>ys. Inr (y # ys)))"

lemma mapE_Inr_map: "(\<And>x. x \<in> set xs \<Longrightarrow> f x = Inr (g x)) \<Longrightarrow> mapE f xs = Inr (map g xs)"
  by (induction xs) auto

lemma mapE_length: "mapE f xs = Inr ys \<Longrightarrow> length ys = length xs"
  by (induction xs arbitrary: ys) (auto simp: bindE_Inr_conv)

lemma mapE_Inr_all: "mapE f xs = Inr ys \<Longrightarrow> x \<in> set xs \<Longrightarrow> \<exists>y. f x = Inr y \<and> y \<in> set ys"
  by (induction xs arbitrary: ys) (auto simp: bindE_Inr_conv)

lemma mapE_eq_map:
  "mapE f xs = Inr ys \<Longrightarrow> (\<And>x y. x \<in> set xs \<Longrightarrow> f x = Inr y \<Longrightarrow> h y = g x) \<Longrightarrow> map h ys = map g xs"
  by (induction xs arbitrary: ys) (auto simp: bindE_Inr_conv)

lemma mapE_cong [fundef_cong]:
  "xs = ys \<Longrightarrow> (\<And>x. x \<in> set ys \<Longrightarrow> f x = g x) \<Longrightarrow> mapE f xs = mapE g ys"
  by (induction xs arbitrary: ys) auto

section \<open>Strings\<close>

definition is_digit :: "char \<Rightarrow> bool" where
  "is_digit c \<longleftrightarrow> c \<in> set ''0123456789''"

definition is_space :: "char \<Rightarrow> bool" where
  "is_space c \<longleftrightarrow> c \<in> {CHR '' '', CHR 0x09, CHR 0x0A, CHR 0x0B, CHR 0x0C, CHR 0x0D,
                      CHR 0x1C, CHR 0x1D, CHR 0x1E, CHR 0x1F}"

definition lower_char :: "char \<Rightarrow> char" where
  "lower_char c = (if CHR ''A'' \<le> c \<and> c \<le> CHR ''Z'' then char_of (of_char c + (32::nat)) else c)"

definition upper_char :: "char \<Rightarrow> char" where
  "upper_char c = (if CHR ''a'' \<le> c \<and> c \<le> CHR ''z'' then char_of (of_char c - (32::nat)) else c)"

definition str_lower :: "string \<Rightarrow> string" where
  "str_lower = map lower_char"

definition str_upper :: "string \<Rightarrow> string" where
  "str_upper = map upper_char"

definition str_strip :: "string \<Rightarrow> string" where
  "str_strip s = rev (dropWhile is_space (rev (dropWhile is_space s)))"

definition str_rstrip :: "string \<Rightarrow> string" where
  "str_rstrip s = rev (dropWhile is_space (rev s))"

fun starts_with :: "string \<Rightarrow> string \<Rightarrow> bool" where
  "starts_with [] s = True"
| "starts_with (p # ps) [] = False"
| "starts_with (p # ps) (c # cs) = (p = c \<and> starts_with ps cs)"

text \<open>
  \<open>s.replace(old, new)\<close> for a non-empty \<open>old\<close>: occurrences are taken from the left and do
  not overlap.  The first argument counts down the characters of an occurrence that has
  just been replaced.
\<close>

fun replace_from :: "nat \<Rightarrow> string \<Rightarrow> string \<Rightarrow> string \<Rightarrow> string" where
  "replace_from n old new [] = []"
| "replace_from (Suc n) old new (c # cs) = replace_from n old new cs"
| "replace_from 0 old new (c # cs) =
     (if starts_with old (c # cs) then new @ replace_from (length old - 1) old new cs
      else c # replace_from 0 old new cs)"

definition str_replace :: "string \<Rightarrow> string \<Rightarrow> string \<Rightarrow> string" where
  "str_replace old new s = replace_from 0 old new s"

fun str_join :: "string \<Rightarrow> string list \<Rightarrow> string" where
  "str_join sep [] = []"
| "str_join sep [x] = x"
| "str_join sep (x # y # ys) = x @ sep @ str_join sep (y # ys)"

text \<open>\<open>s.split(c)\<close> for a one-character separator: always at least one field.\<close>

fun str_split :: "char \<Rightarrow> string \<Rightarrow> string list" where
  "str_split c [] = [[]]"
| "str_split c (x # xs) =
     (if x = c then [] # str_split c xs
      else (case str_split c xs of [] \<Rightarrow> [[x]] | f # fs \<Rightarrow> (x # f) # fs))"

text \<open>\<open>repr(s)\<close> of a printable string without quotes or backslashes.\<close>

definition py_repr :: "string \<Rightarrow> string" where
  "py_repr s = CHR 0x27 # s @ [CHR 0x27]"

lemma starts_with_append [simp, str_simps]: "starts_with p (p @ s)"
  by (induction p) auto

lemma starts_with_iff: "starts_with p s \<longleftrightarrow> (\<exists>r. s = p @ r)"
  by (induction p s rule: starts_with.induct) auto

lemma str_replace_char:
  "str_replace [c] new s = concat (map (\<lambda>x. if x = c then new else [x]) s)"
proof -
  have "replace_from 0 [c] new s = concat (map (\<lambda>x. if x = c then new else [x]) s)"
    by (induction s) auto
  then show ?thesis by (simp add: str_replace_def)
qed

lemma str_replace_absent:
  assumes "c \<in> set old" "c \<notin> set s"
  shows "str_replace old new s = s"
proof -
  have "replace_from 0 old new s = s"
    using assms(2)
  proof (induction s)
    case Nil
    then show ?case by simp
  next
    case (Cons x xs)
    have "c \<in> set (x # xs)" if "starts_with old (x # xs)"
    proof -
      from that obtain r where "x # xs = old @ r" by (auto simp: starts_with_iff)
      then show ?thesis using assms(1) by (metis UnI1 set_append)
    qed
    then have "\<not> starts_with old (x # xs)" using Cons.prems by blast
    then show ?case using Cons by simp
  qed
  then show ?thesis by (simp add: str_replace_def)
qed

lemma str_strip_nonspace:
  assumes "s \<noteq> []" "\<not> is_space (hd s)" "\<not> is_space (last s)"
  shows "str_strip s = s"
proof -
  have 1: "dropWhile is_space s = s" using assms by (cases s) auto
  have "rev s \<noteq> []" "\<not> is_space (hd (rev s))" using assms by (auto simp: hd_rev)
  then have "dropWhile is_space (rev s) = rev s" by (cases "rev s") auto
  then show ?thesis by (simp add: str_strip_def 1)
qed

lemma dropWhile_rev_dropWhile_last:
  "s \<noteq> [] \<Longrightarrow> \<not> P (last s) \<Longrightarrow> dropWhile P (rev s) = rev s"
  by (cases s rule: rev_cases) auto

lemma str_strip_idem [simp]: "str_strip (str_strip s) = str_strip s"
proof -
  let ?t = "dropWhile is_space s"
  let ?u = "rev (dropWhile is_space (rev ?t))"
  show ?thesis
  proof (cases "?u = []")
    case True
    then have e: "str_strip s = []" by (simp only: str_strip_def)
    have "str_strip [] = []" by (simp add: str_strip_def)
    with e show ?thesis by simp
  next
    case False
    have last: "\<not> is_space (last ?u)"
      using hd_dropWhile [of is_space "rev ?t"] False by (simp only: last_rev rev_is_Nil_conv simp_thms)
    have "\<exists>v. ?t = ?u @ v"
      using takeWhile_dropWhile_id [of is_space "rev ?t"] by (metis rev_append rev_rev_ident)
    then have "hd ?u = hd ?t" using False by (metis hd_append2)
    moreover have "?t \<noteq> []" using False by (metis dropWhile.simps(1) rev.simps(1))
    then have "\<not> is_space (hd ?t)" by (rule hd_dropWhile)
    ultimately show ?thesis
      using str_strip_nonspace [OF False] last by (simp only: str_strip_def simp_thms)
  qed
qed

lemma str_strip_ends:
  assumes "str_strip s \<noteq> []"
  shows "\<not> is_space (hd (str_strip s))" "\<not> is_space (last (str_strip s))"
proof -
  let ?t = "dropWhile is_space s"
  have u: "str_strip s = rev (dropWhile is_space (rev ?t))" by (simp only: str_strip_def)
  show "\<not> is_space (last (str_strip s))"
    using hd_dropWhile [of is_space "rev ?t"] assms unfolding u by (simp only: last_rev rev_is_Nil_conv simp_thms)
  obtain v where "?t = str_strip s @ v"
    unfolding u using takeWhile_dropWhile_id [of is_space "rev ?t"] by (metis rev_append rev_rev_ident)
  then have "hd (str_strip s) = hd ?t" "?t \<noteq> []" using assms by (auto simp: hd_append2)
  then show "\<not> is_space (hd (str_strip s))" using hd_dropWhile [of is_space s] by simp
qed

lemma str_strip_map: "(\<And>c. is_space (f c) = is_space c) \<Longrightarrow> str_strip (map f s) = map f (str_strip s)"
  by (simp add: str_strip_def dropWhile_map comp_def rev_map)

lemma str_rstrip_length: "length (str_rstrip s) \<le> length s"
  using length_dropWhile_le [of is_space "rev s"] by (simp add: str_rstrip_def)

section \<open>Decimal numbers\<close>

definition digit_char :: "nat \<Rightarrow> char" where
  "digit_char d = char_of (48 + d)"

definition digit_val :: "char \<Rightarrow> nat" where
  "digit_val c = of_char c - 48"

fun nat_str :: "nat \<Rightarrow> string" where
  "nat_str n = (if n < 10 then [digit_char n] else nat_str (n div 10) @ [digit_char (n mod 10)])"

declare nat_str.simps [simp del]

definition int_str :: "int \<Rightarrow> string" where
  "int_str i = (if i < 0 then CHR ''-'' # nat_str (nat (- i)) else nat_str (nat i))"

text \<open>\<open>int(s)\<close> on a string of decimal digits.\<close>

definition digits_val :: "string \<Rightarrow> nat" where
  "digits_val s = foldl (\<lambda>n c. 10 * n + digit_val c) 0 s"

lemma digit_val_char [simp]: "d < 10 \<Longrightarrow> digit_val (digit_char d) = d"
  by (simp add: digit_val_def digit_char_def)

lemma is_digit_char [simp]:
  assumes "d < 10"
  shows "is_digit (digit_char d)"
proof -
  have "d = 0 \<or> d = 1 \<or> d = 2 \<or> d = 3 \<or> d = 4 \<or> d = 5 \<or> d = 6 \<or> d = 7 \<or> d = 8 \<or> d = 9"
    using assms by presburger
  then show ?thesis
    by (elim disjE) (simp_all add: is_digit_def digit_char_def char_of_def bit_0)
qed

lemma nat_str_digits: "c \<in> set (nat_str n) \<Longrightarrow> is_digit c"
proof (induction n rule: nat_str.induct)
  case (1 n)
  then show ?case by (cases "n < 10") (auto simp: nat_str.simps [of n])
qed

lemma nat_str_not_Nil [simp]: "nat_str n \<noteq> []"
  by (subst nat_str.simps) simp

lemma digits_val_nat_str [simp]: "digits_val (nat_str n) = n"
proof (induction n rule: nat_str.induct)
  case (1 n)
  then show ?case
    by (cases "n < 10") (auto simp: nat_str.simps [of n] digits_val_def)
qed

lemma nat_str_inject [simp]: "nat_str m = nat_str n \<longleftrightarrow> m = n"
  by (metis digits_val_nat_str)

lemma digit_not_special:
  "is_digit c \<Longrightarrow> \<not> is_space c \<and> lower_char c = c \<and> c \<noteq> CHR ''.'' \<and> c \<noteq> CHR ''-'' \<and> c \<noteq> CHR ''/''
     \<and> c \<noteq> CHR 0x0A \<and> c \<noteq> CHR ''e'' \<and> c \<noteq> CHR '':''"
  unfolding is_digit_def by (auto simp: is_space_def lower_char_def less_eq_char_def)

lemma nat_str_length: "n < 10 ^ k \<Longrightarrow> 1 \<le> k \<Longrightarrow> length (nat_str n) \<le> k"
proof (induction n arbitrary: k rule: nat_str.induct)
  case (1 n)
  show ?case
  proof (cases "n < 10")
    case True
    then show ?thesis using "1.prems" by (simp add: nat_str.simps [of n])
  next
    case False
    then obtain j where k: "k = Suc j" and j: "1 \<le> j"
      using "1.prems" by (cases k; cases "k - 1") auto
    have "n div 10 < 10 ^ j" using "1.prems"(1) k by (simp add: less_mult_imp_div_less mult.commute)
    then show ?thesis using "1.IH" [OF False, of j] j k False by (simp add: nat_str.simps [of n])
  qed
qed

lemma nat_str_hd_zero: "hd (nat_str n) = CHR ''0'' \<Longrightarrow> n = 0"
proof (induction n rule: nat_str.induct)
  case (1 n)
  show ?case
  proof (cases "n < 10")
    case True
    then have "digit_val (hd (nat_str n)) = n" by (simp add: nat_str.simps [of n])
    then show ?thesis using "1.prems" by (simp add: digit_val_def)
  next
    case False
    then have "hd (nat_str n) = hd (nat_str (n div 10))" by (simp add: nat_str.simps [of n])
    then have "n div 10 = 0" using "1.IH" [OF False] "1.prems" by simp
    then show ?thesis using False by simp
  qed
qed

lemma nat_str_list_all [simp, str_simps]: "list_all is_digit (nat_str n)"
  by (auto simp: list_all_iff dest: nat_str_digits)

text \<open>A string cut at a separator that its first piece does not contain.\<close>

lemma str_split_absent [simp]: "c \<notin> set xs \<Longrightarrow> str_split c xs = [xs]"
  by (induction xs) auto

lemma str_split_append [simp]: "c \<notin> set xs \<Longrightarrow> str_split c (xs @ c # ys) = xs # str_split c ys"
  by (induction xs) auto

lemma int_str_not_Nil [simp]: "int_str i \<noteq> []"
  by (simp add: int_str_def)

lemma int_str_inject [simp]: "int_str i = int_str j \<longleftrightarrow> i = j"
proof
  assume eq: "int_str i = int_str j"
  have dash: "CHR ''-'' \<notin> set (nat_str n)" for n
    using nat_str_digits digit_not_special by blast
  show "i = j"
  proof (cases "i < 0 \<longleftrightarrow> j < 0")
    case True
    then show ?thesis using eq by (auto simp: int_str_def split: if_splits)
  next
    case False
    then have False using eq dash by (auto simp: int_str_def split: if_splits) (metis list.set_intros(1))+
    then show ?thesis ..
  qed
qed simp

lemma int_str_nonneg: "0 \<le> i \<Longrightarrow> int_str i = nat_str (nat i)"
  by (simp add: int_str_def)

lemma int_str_chars: "c \<in> set (int_str i) \<Longrightarrow> is_digit c \<or> c = CHR ''-''"
  by (auto simp: int_str_def split: if_splits dest: nat_str_digits)

lemma int_str_no_sep [simp]:
  "CHR ''.'' \<notin> set (int_str i)" "CHR ''/'' \<notin> set (int_str i)"
  using int_str_chars digit_not_special by fastforce+

text \<open>
  Two concatenations around the same separator are equal only if both halves are, when the
  left halves do not contain it: dotted addresses and prefixed names are read back uniquely.
\<close>

lemma sep_append_inject:
  assumes "c \<notin> set xs" "c \<notin> set xs'"
  shows "xs @ c # ys = xs' @ c # ys' \<longleftrightarrow> xs = xs' \<and> ys = ys'"
proof
  assume "xs @ c # ys = xs' @ c # ys'"
  then show "xs = xs' \<and> ys = ys'"
    using assms
  proof (induction xs arbitrary: xs')
    case Nil
    then show ?case by (cases xs') auto
  next
    case (Cons x xs)
    then show ?case by (cases xs') auto
  qed
qed simp

section \<open>Dictionaries\<close>

type_synonym ('k, 'v) dict = "('k \<times> 'v) list"

abbreviation dict_get :: "('k, 'v) dict \<Rightarrow> 'k \<Rightarrow> 'v option" where
  "dict_get d k \<equiv> map_of d k"

abbreviation dict_set :: "('k, 'v) dict \<Rightarrow> 'k \<Rightarrow> 'v \<Rightarrow> ('k, 'v) dict" where
  "dict_set d k v \<equiv> AList.update k v d"

definition dict_get_default :: "('k, 'v) dict \<Rightarrow> 'k \<Rightarrow> 'v \<Rightarrow> 'v" where
  "dict_get_default d k v = (case map_of d k of None \<Rightarrow> v | Some x \<Rightarrow> x)"

definition dict_of :: "('k \<times> 'v) list \<Rightarrow> ('k, 'v) dict" where
  "dict_of kvs = fold (\<lambda>(k, v) d. AList.update k v d) kvs []"

lemma dict_get_set [simp, dict_simps]:
  "map_of (AList.update k v d) k' = (if k' = k then Some v else map_of d k')"
  by (simp add: update_conv')

lemma keys_update: "map fst (AList.update k v d) = (if k \<in> set (map fst d) then map fst d else map fst d @ [k])"
  by (induction d) auto

lemma update_absent: "k \<notin> set (map fst d) \<Longrightarrow> AList.update k v d = d @ [(k, v)]"
  by (induction d) auto

lemma set_update_subset: "set (AList.update k v d) \<subseteq> insert (k, v) (set d)"
  by (induction d) auto

lemma distinct_keys_update [simp]:
  "distinct (map fst (AList.update k v d)) = distinct (map fst d)"
  by (simp add: keys_update) 

lemma distinct_keys_dict_of [simp]: "distinct (map fst (dict_of kvs))"
proof -
  have "distinct (map fst d) \<Longrightarrow> distinct (map fst (fold (\<lambda>(k, v) d. AList.update k v d) kvs d))" for d
    by (induction kvs arbitrary: d) auto
  then show ?thesis by (simp add: dict_of_def)
qed

section \<open>Rounding and integer division\<close>

text \<open>
  \<open>round(x, n)\<close>: to \<open>n\<close> decimals, a tie going to the even neighbour.
\<close>

definition round_half_even :: "rat \<Rightarrow> int" where
  "round_half_even x =
     (let f = \<lfloor>x\<rfloor>; d = x - of_int f
      in if d < 1 / 2 then f else if 1 / 2 < d then f + 1 else if even f then f else f + 1)"

definition py_round :: "nat \<Rightarrow> rat \<Rightarrow> rat" where
  "py_round n x = of_int (round_half_even (x * 10 ^ n)) / 10 ^ n"

lemma round_half_even_of_int [simp]: "round_half_even (of_int i) = i"
  by (simp add: round_half_even_def)

lemma round_half_even_mono_nonneg: "0 \<le> x \<Longrightarrow> 0 \<le> round_half_even x"
  by (auto simp: round_half_even_def Let_def)

lemma round_half_even_le: "x \<le> of_int i \<Longrightarrow> round_half_even x \<le> i"
proof -
  assume le: "x \<le> of_int i"
  then have fl: "\<lfloor>x\<rfloor> \<le> i" by (simp add: floor_le_iff)
  show ?thesis
  proof (cases "\<lfloor>x\<rfloor> = i")
    case True
    then have "x - of_int \<lfloor>x\<rfloor> \<le> 0" using le by simp
    then show ?thesis using True by (auto simp: round_half_even_def Let_def)
  next
    case False
    then have "\<lfloor>x\<rfloor> + 1 \<le> i" using fl by simp
    then show ?thesis by (auto simp: round_half_even_def Let_def)
  qed
qed

lemma py_round_nonneg [simp]: "0 \<le> x \<Longrightarrow> 0 \<le> py_round n x"
  by (simp add: py_round_def round_half_even_mono_nonneg)

lemma py_round_le_one: "x \<le> 1 \<Longrightarrow> py_round n x \<le> 1"
proof -
  assume "x \<le> 1"
  then have "x * 10 ^ n \<le> of_int (10 ^ n)" by simp
  then have "round_half_even (x * 10 ^ n) \<le> 10 ^ n" by (rule round_half_even_le)
  then have "of_int (round_half_even (x * 10 ^ n)) \<le> (of_int (10 ^ n) :: rat)"
    by (simp only: of_int_le_iff)
  then show ?thesis by (simp add: py_round_def)
qed

lemma py_round_of_int [simp]: "py_round n (of_int i) = of_int i"
proof -
  have "of_int i * 10 ^ n = (of_int (i * 10 ^ n) :: rat)" by simp
  then have "round_half_even (of_int i * 10 ^ n) = i * 10 ^ n"
    by (simp only: round_half_even_of_int)
  then show ?thesis by (simp add: py_round_def)
qed

lemma py_round_0_1 [simp]: "py_round n 0 = 0" "py_round n 1 = 1"
  using py_round_of_int [of n 0] py_round_of_int [of n 1] by simp_all

text \<open>\<open>math.ceil(a / b)\<close> on integers with a positive divisor.\<close>

definition ceil_div :: "int \<Rightarrow> int \<Rightarrow> int" where
  "ceil_div a b = - ((- a) div b)"

lemma ceil_div_bounds:
  assumes "0 < b"
  shows "a \<le> ceil_div a b * b" "(ceil_div a b - 1) * b < a"
proof -
  have m: "(- a) div b * b + (- a) mod b = - a" by simp
  have r: "0 \<le> (- a) mod b" "(- a) mod b < b" using assms by simp_all
  have "ceil_div a b * b = - ((- a) div b * b)" by (simp add: ceil_div_def)
  then have q: "ceil_div a b * b = a + (- a) mod b" using m by linarith
  then show "a \<le> ceil_div a b * b" using r by linarith
  have "(ceil_div a b - 1) * b = ceil_div a b * b - b" by (simp add: algebra_simps)
  then show "(ceil_div a b - 1) * b < a" using q r by linarith
qed

section \<open>Lists\<close>

text \<open>\<open>next((x for x in xs if p x), None)\<close>.\<close>

lemma find_Some_set: "find P xs = Some x \<Longrightarrow> x \<in> set xs \<and> P x"
  by (induction xs) (auto split: if_splits)

lemma find_None_all: "find P xs = None \<longleftrightarrow> (\<forall>x \<in> set xs. \<not> P x)"
  by (induction xs) auto

definition count_where :: "('a \<Rightarrow> bool) \<Rightarrow> 'a list \<Rightarrow> nat" where
  "count_where P xs = length (filter P xs)"

lemma count_where_le: "count_where P xs \<le> length xs"
  by (simp add: count_where_def)

lemma count_where_mono: "(\<And>x. x \<in> set xs \<Longrightarrow> P x \<Longrightarrow> Q x) \<Longrightarrow> count_where P xs \<le> count_where Q xs"
  by (induction xs) (auto simp: count_where_def)

lemma distinct_map_inj: "distinct xs \<Longrightarrow> (\<And>x y. x \<in> set xs \<Longrightarrow> y \<in> set xs \<Longrightarrow> f x = f y \<Longrightarrow> x = y) \<Longrightarrow> distinct (map f xs)"
  by (auto simp: distinct_map inj_on_def)

section \<open>Interfaces\<close>

text \<open>
  A store of values that know their own key.  The provider says how one insertion changes
  lookups; the client learns what a whole batch of insertions does: the last value stored
  under a key wins, and every other key keeps its old value.
\<close>

locale keyed_store =
  fixes lookup :: "'s \<Rightarrow> 'k \<Rightarrow> 'v option"
    and put :: "'v \<Rightarrow> 's \<Rightarrow> 's"
    and key_of :: "'v \<Rightarrow> 'k"
    and wf :: "'s \<Rightarrow> bool"
  assumes wf_put: "wf s \<Longrightarrow> wf (put v s)"
    and lookup_put: "wf s \<Longrightarrow> lookup (put v s) k = (if k = key_of v then Some v else lookup s k)"
begin

lemma wf_puts: "wf s \<Longrightarrow> wf (fold put vs s)"
  by (induction vs arbitrary: s) (auto intro: wf_put)

lemma lookup_puts:
  "wf s \<Longrightarrow> lookup (fold put vs s) k =
     (case find (\<lambda>v. key_of v = k) (rev vs) of Some v \<Rightarrow> Some v | None \<Rightarrow> lookup s k)"
proof (induction vs rule: rev_induct)
  case Nil
  then show ?case by simp
next
  case (snoc v vs)
  then show ?case by (simp add: lookup_put wf_puts)
qed

lemma lookup_puts_other: "wf s \<Longrightarrow> k \<notin> key_of ` set vs \<Longrightarrow> lookup (fold put vs s) k = lookup s k"
  by (induction vs arbitrary: s) (auto simp: lookup_put wf_put)

end

end
