(* ===== verification/Interface_Names.thy ===== *)
theory Interface_Names
  imports Prelude
begin

text \<open>
  \<open>netopsbench/platform/utils/interface_names.py\<close>: one front-panel port has a SONiC label
  (\<open>Ethernet0\<close>, \<open>Ethernet4\<close>, \<dots>), a Linux label (\<open>eth1\<close>, \<open>eth2\<close>, \<dots>) and two vendor
  spellings.  The regular expressions are written out as matchers on ASCII text that
  return the captured number; \<open>$\<close> also matches before one final newline, as in Python.
\<close>

section \<open>The regular expressions\<close>

text \<open>\<open>(\d+)$\<close> at the current position.\<close>

definition digits_end :: "string \<Rightarrow> nat option" where
  "digits_end s =
     (let t = (if s \<noteq> [] \<and> last s = CHR 0x0A then butlast s else s)
      in if t \<noteq> [] \<and> list_all is_digit t then Some (digits_val t) else None)"

text \<open>\<open>^ethernet(\d+)$\<close>, ignoring case.\<close>

definition sonic_interface_re :: "string \<Rightarrow> nat option" where
  "sonic_interface_re s =
     (if starts_with ''ethernet'' (str_lower s) then digits_end (drop 8 s) else None)"

text \<open>\<open>^eth(\d+)$\<close>, ignoring case.\<close>

definition linux_interface_re :: "string \<Rightarrow> nat option" where
  "linux_interface_re s =
     (if starts_with ''eth'' (str_lower s) then digits_end (drop 3 s) else None)"

text \<open>The second group of a pattern \<open>(\d+)c(\d+)$\<close> for a separator character \<open>c\<close>.\<close>

definition second_group :: "char \<Rightarrow> string \<Rightarrow> nat option" where
  "second_group c s =
     (case dropWhile is_digit s of
        [] \<Rightarrow> None
      | x # rest \<Rightarrow> if takeWhile is_digit s \<noteq> [] \<and> x = c then digits_end rest else None)"

text \<open>\<open>^e(\d+)-(\d+)$\<close> and \<open>^ethernet-(\d+)/(\d+)$\<close>, ignoring case; only group 2 is used.\<close>

definition e_style_interface_re :: "string \<Rightarrow> nat option" where
  "e_style_interface_re s =
     (if starts_with ''e'' (str_lower s) then second_group (CHR ''-'') (drop 1 s) else None)"

definition vendor_style_interface_re :: "string \<Rightarrow> nat option" where
  "vendor_style_interface_re s =
     (if starts_with ''ethernet-'' (str_lower s) then second_group (CHR ''/'') (drop 9 s) else None)"

section \<open>Normalisation\<close>

definition eth_name :: "nat \<Rightarrow> string" where
  "eth_name n = ''eth'' @ nat_str n"

definition sonic_name :: "nat \<Rightarrow> string" where
  "sonic_name n = ''Ethernet'' @ nat_str n"

definition slot_name :: "nat \<Rightarrow> string" where
  "slot_name n = ''e1-'' @ nat_str n"

definition vendor_name :: "nat \<Rightarrow> string" where
  "vendor_name n = ''ethernet-1/'' @ nat_str n"

text \<open>\<open>str(x or "").strip()\<close> for an optional label.\<close>

definition raw_label :: "string option \<Rightarrow> string" where
  "raw_label interface_name = (case interface_name of None \<Rightarrow> [] | Some s \<Rightarrow> str_strip s)"

definition normalize_raw :: "string \<Rightarrow> string" where
  "normalize_raw raw_name =
     (case sonic_interface_re raw_name of
        Some port_idx \<Rightarrow>
          if port_idx mod 4 = 0 then eth_name (port_idx div 4 + 1) else str_lower raw_name
      | None \<Rightarrow>
     (case linux_interface_re raw_name of
        Some n \<Rightarrow> eth_name n
      | None \<Rightarrow>
     (case e_style_interface_re raw_name of
        Some n \<Rightarrow> eth_name n
      | None \<Rightarrow>
     (case vendor_style_interface_re raw_name of
        Some n \<Rightarrow> eth_name n
      | None \<Rightarrow>
          str_replace ''-'' [] (str_replace ''/'' []
            (str_replace ''ethernet'' ''eth''
              (str_replace ''ethernet-'' ''eth'' (str_lower raw_name))))))))"

definition normalize_interface_name :: "string option \<Rightarrow> string" where
  "normalize_interface_name interface_name =
     (case interface_name of
        None \<Rightarrow> []
      | Some s \<Rightarrow>
          if s = [] then []
          else (let raw_name = str_strip s
                in if raw_name = [] then [] else normalize_raw raw_name))"

definition to_linux_interface :: "string option \<Rightarrow> string" where
  "to_linux_interface interface_name =
     (case linux_interface_re (normalize_interface_name interface_name) of
        Some n \<Rightarrow> eth_name n
      | None \<Rightarrow> raw_label interface_name)"

definition to_sonic_interface :: "string option \<Rightarrow> string" where
  "to_sonic_interface interface_name =
     (let fallback =
        (case sonic_interface_re (raw_label interface_name) of
           Some n \<Rightarrow> sonic_name n
         | None \<Rightarrow> raw_label interface_name)
      in case linux_interface_re (normalize_interface_name interface_name) of
           Some eth_idx \<Rightarrow> if eth_idx \<ge> 1 then sonic_name ((eth_idx - 1) * 4) else fallback
         | None \<Rightarrow> fallback)"

section \<open>Aliases and equivalence\<close>

definition nonempty :: "string \<Rightarrow> string set" where
  "nonempty s = (if s = [] then {} else {s})"

definition interface_aliases :: "string option \<Rightarrow> string set" where
  "interface_aliases interface_name =
     (let raw_name = raw_label interface_name
      in if raw_name = [] then {}
         else (let normalized = normalize_interface_name (Some raw_name)
               in {raw_name} \<union> nonempty normalized
                  \<union> (case linux_interface_re normalized of
                       Some eth_idx \<Rightarrow>
                         if eth_idx \<ge> 1 then
                           {eth_name eth_idx, slot_name eth_idx, vendor_name eth_idx,
                            sonic_name ((eth_idx - 1) * 4)}
                         else {}
                     | None \<Rightarrow> {})
                  \<union> nonempty (to_sonic_interface (Some raw_name))
                  \<union> nonempty (to_linux_interface (Some raw_name))))"

definition are_interfaces_equivalent :: "string option \<Rightarrow> string option \<Rightarrow> bool" where
  "are_interfaces_equivalent left right =
     (if left = None \<or> left = Some [] \<or> right = None \<or> right = Some [] then False
      else if normalize_interface_name left = normalize_interface_name right then True
      else interface_aliases left \<inter> interface_aliases right \<noteq> {})"

record metric_identities =
  mi_names :: "string list"
  mi_paths :: "string list"

text \<open>\<open>fullmatch\<close> leaves no room for the newline that \<open>$\<close> alone tolerates.\<close>

definition resolve_interface_metric_identities :: "string option \<Rightarrow> metric_identities" where
  "resolve_interface_metric_identities interface_name =
     (let names = sorted_list_of_set (interface_aliases interface_name);
          sonic_names = sort (filter (\<lambda>n. sonic_interface_re n \<noteq> None \<and> last n \<noteq> CHR 0x0A) names)
      in \<lparr>mi_names = names,
          mi_paths = concat (map (\<lambda>n. [''COUNTERS/'' @ n, ''/COUNTERS/'' @ n]) sonic_names)\<rparr>)"

section \<open>Labels of one port\<close>

lemma nat_str_last_not_space [simp]: "\<not> is_space (last (nat_str n))"
  using nat_str_digits [of "last (nat_str n)" n] digit_not_special by simp

lemma nat_str_hd_digit: "is_digit (hd (nat_str n))"
  using nat_str_digits [of "hd (nat_str n)" n] by simp

lemma nat_str_no_newline: "last (nat_str n) \<noteq> CHR 0x0A"
  using nat_str_digits [of "last (nat_str n)" n] digit_not_special by simp

lemma digits_end_nat_str [simp, str_simps]: "digits_end (nat_str n) = Some n"
  by (simp add: digits_end_def nat_str_no_newline)

lemma str_lower_append [simp]: "str_lower (xs @ ys) = str_lower xs @ str_lower ys"
  by (simp add: str_lower_def)

lemma str_lower_nat_str [simp]: "str_lower (nat_str n) = nat_str n"
proof -
  have "map lower_char (nat_str n) = map (\<lambda>c. c) (nat_str n)"
    by (rule map_cong) (auto dest: nat_str_digits digit_not_special)
  then show ?thesis by (simp add: str_lower_def)
qed

lemma nat_str_first:
  "starts_with (c # p) (nat_str n @ s) \<Longrightarrow> is_digit c"
  using nat_str_hd_digit [of n] by (cases "nat_str n") auto

lemma second_group_nat_str [simp]:
  "is_digit c \<Longrightarrow> \<not> is_digit d \<Longrightarrow> second_group d (c # d # nat_str n) = Some n"
  by (simp add: second_group_def)

lemma second_group_digits [simp]: "second_group d (nat_str n) = None"
proof -
  have d: "dropWhile is_digit (nat_str n) = []"
    using nat_str_digits [of _ n] by (simp add: dropWhile_eq_Nil_conv)
  show ?thesis by (simp add: second_group_def d)
qed

lemma str_strip_label: "p \<noteq> [] \<Longrightarrow> \<not> is_space (hd p) \<Longrightarrow> str_strip (p @ nat_str n) = p @ nat_str n"
  by (rule str_strip_nonspace) simp_all

lemma letter_e_not_space [simp]: "\<not> is_space (CHR ''e'')" "\<not> is_space (CHR ''E'')"
  by (simp_all add: is_space_def)

lemma port_label_strip [simp]:
  "str_strip (eth_name n) = eth_name n" "str_strip (sonic_name n) = sonic_name n"
  using str_strip_label [of "''eth''" n] str_strip_label [of "''Ethernet''" n]
  by (simp_all add: eth_name_def sonic_name_def)

lemma vendor_label_strip [simp]:
  "str_strip (slot_name n) = slot_name n" "str_strip (vendor_name n) = vendor_name n"
  using str_strip_label [of "''e1-''" n] str_strip_label [of "''ethernet-1/''" n]
  by (simp_all add: slot_name_def vendor_name_def)

lemma port_label_nonempty [simp]: "eth_name n \<noteq> []" "sonic_name n \<noteq> []"
  by (simp_all add: eth_name_def sonic_name_def)

lemma eth_name_inject [simp]: "eth_name m = eth_name n \<longleftrightarrow> m = n"
  by (simp add: eth_name_def)

lemma sonic_name_inject [simp]: "sonic_name m = sonic_name n \<longleftrightarrow> m = n"
  by (simp add: sonic_name_def)

lemma lower_ethernet [simp]:
  "str_lower ''Ethernet'' = ''ethernet''" "str_lower ''ethernet'' = ''ethernet''"
  "str_lower ''eth'' = ''eth''" "str_lower ''ethernet-1/'' = ''ethernet-1/''" "str_lower ''e1-'' = ''e1-''"
  by (simp_all add: str_lower_def lower_char_def char_of_def less_eq_char_def bit_0)

lemma nat_str_not_prefix [simp]: "\<not> is_digit c \<Longrightarrow> starts_with (c # p) (nat_str n) = False"
  using nat_str_first [of c p n "[]"] by auto

lemma not_digits [simp]:
  "\<not> is_digit (CHR ''e'')" "\<not> is_digit (CHR ''r'')" "\<not> is_digit (CHR ''n'')" "\<not> is_digit (CHR ''-'')"
  "\<not> is_digit (CHR ''/'')" "\<not> is_digit (CHR ''t'')" "\<not> is_digit (CHR ''h'')" "is_digit (CHR ''1'')"
  by (simp_all add: is_digit_def)

lemma digits_end_nondigit: "\<not> is_digit c \<Longrightarrow> c \<noteq> CHR 0x0A \<Longrightarrow> digits_end (c # s) = None"
  by (auto simp: digits_end_def Let_def)

lemma lower_labels [simp]:
  "str_lower (eth_name n) = eth_name n" "str_lower (sonic_name n) = ''ethernet'' @ nat_str n"
  "str_lower (slot_name n) = slot_name n" "str_lower (vendor_name n) = vendor_name n"
  by (simp_all only: eth_name_def sonic_name_def slot_name_def vendor_name_def
      str_lower_append lower_ethernet str_lower_nat_str)

lemma sonic_re_labels [simp]:
  "sonic_interface_re (sonic_name n) = Some n" "sonic_interface_re (eth_name n) = None"
  "sonic_interface_re (slot_name n) = None" "sonic_interface_re (vendor_name n) = None"
  by (simp_all add: sonic_interface_re_def digits_end_nondigit)
    (simp_all add: sonic_name_def eth_name_def slot_name_def vendor_name_def digits_end_nondigit)

lemma linux_re_labels [simp]:
  "linux_interface_re (eth_name n) = Some n" "linux_interface_re (slot_name n) = None"
  "linux_interface_re (vendor_name n) = None" "linux_interface_re (sonic_name n) = None"
  by (simp_all add: linux_interface_re_def)
    (simp_all add: sonic_name_def eth_name_def slot_name_def vendor_name_def digits_end_nondigit)

lemma slot_re_labels [simp]:
  "e_style_interface_re (slot_name n) = Some n" "e_style_interface_re (vendor_name n) = None"
  by (simp_all add: e_style_interface_re_def)
    (simp_all add: slot_name_def vendor_name_def second_group_def)

lemma vendor_re_labels [simp]: "vendor_style_interface_re (vendor_name n) = Some n"
  by (simp add: vendor_style_interface_re_def) (simp add: vendor_name_def)

lemma label_nonempty [simp]: "slot_name n \<noteq> []" "vendor_name n \<noteq> []"
  by (simp_all add: slot_name_def vendor_name_def)

lemma normalize_labels [simp]:
  "normalize_interface_name (Some (eth_name n)) = eth_name n"
  "normalize_interface_name (Some (slot_name n)) = eth_name n"
  "normalize_interface_name (Some (vendor_name n)) = eth_name n"
  "normalize_interface_name (Some (sonic_name (n * 4))) = eth_name (n + 1)"
  by (simp_all add: normalize_interface_name_def normalize_raw_def)

text \<open>
  The labels of front-panel port \<open>n\<close>, counted from one: every one of them is an alias of
  every other, and no label of another port is.
\<close>

definition port_labels :: "nat \<Rightarrow> string set" where
  "port_labels n = {eth_name n, slot_name n, vendor_name n, sonic_name ((n - 1) * 4)}"

lemma normalize_port_label:
  "1 \<le> n \<Longrightarrow> l \<in> port_labels n \<Longrightarrow> normalize_interface_name (Some l) = eth_name n"
  by (auto simp: port_labels_def)

lemma port_label_raw: "l \<in> port_labels n \<Longrightarrow> str_strip l = l \<and> l \<noteq> []"
  by (auto simp: port_labels_def)

lemma conversions_of_port_label:
  assumes "1 \<le> n" "l \<in> port_labels n"
  shows "to_sonic_interface (Some l) = sonic_name ((n - 1) * 4)"
    and "to_linux_interface (Some l) = eth_name n"
  using normalize_port_label [OF assms] assms(1)
  by (simp_all add: to_sonic_interface_def to_linux_interface_def)

lemma aliases_of_port_label:
  assumes "1 \<le> n" "l \<in> port_labels n"
  shows "interface_aliases (Some l) = port_labels n"
proof -
  have "interface_aliases (Some l) = insert l (port_labels n)"
    using normalize_port_label [OF assms] port_label_raw [OF assms(2)] assms(1)
      conversions_of_port_label [OF assms]
    by (simp add: interface_aliases_def raw_label_def nonempty_def port_labels_def Let_def insert_commute)
  then show ?thesis using assms(2) by (simp add: insert_absorb)
qed

section \<open>Properties\<close>

lemma labels_equivalent_iff:
  assumes "1 \<le> m" "1 \<le> n" "l \<in> port_labels m" "r \<in> port_labels n"
  shows "are_interfaces_equivalent (Some l) (Some r) \<longleftrightarrow> m = n"
proof -
  have ne: "l \<noteq> []" "r \<noteq> []" using assms port_label_raw by auto
  have disj: "port_labels m \<inter> port_labels n = {}" if "m \<noteq> n"
    using normalize_port_label [OF assms(1)] normalize_port_label [OF assms(2)] that by fastforce
  show ?thesis
    using ne disj assms
    by (auto simp: are_interfaces_equivalent_def normalize_port_label aliases_of_port_label)
qed

text \<open>
  Whatever label of a front-panel port is given (Linux, slot, vendor or SONiC), its alias
  set is exactly the four labels of that port and its normal form is the port's Linux name.
\<close>

theorem port_aliases_exact:
  assumes "1 \<le> n" "l \<in> port_labels n"
  shows "interface_aliases (Some l) = port_labels n \<and> normalize_interface_name (Some l) = eth_name n"
  using aliases_of_port_label [OF assms] normalize_port_label [OF assms] by simp

theorem port_aliases_exact_witness:
  "interface_aliases (Some ''e1-3'') = {''eth3'', ''e1-3'', ''ethernet-1/3'', ''Ethernet8''}"
proof -
  have n: "nat_str 3 = ''3''" "nat_str 8 = ''8''" by code_simp+
  have l: "''e1-3'' \<in> port_labels 3" by (simp add: port_labels_def slot_name_def n)
  show ?thesis
    using port_aliases_exact [OF _ l]
    by (simp add: port_labels_def slot_name_def vendor_name_def eth_name_def sonic_name_def n)
qed

text \<open>
  Two labels of front-panel ports are equivalent exactly when they name the same port:
  no label of one port is ever taken for another port's.
\<close>

theorem equivalent_iff_same_port:
  assumes "1 \<le> m" "1 \<le> n" "l \<in> port_labels m" "r \<in> port_labels n"
  shows "are_interfaces_equivalent (Some l) (Some r) \<longleftrightarrow> m = n"
  by (rule labels_equivalent_iff [OF assms])

theorem equivalent_iff_same_port_witness:
  "are_interfaces_equivalent (Some (sonic_name 4)) (Some (eth_name 2))
   \<and> \<not> are_interfaces_equivalent (Some (sonic_name 4)) (Some (eth_name 3))"
  using equivalent_iff_same_port [of 2 2 "sonic_name 4" "eth_name 2"]
    equivalent_iff_same_port [of 2 3 "sonic_name 4" "eth_name 3"]
  by (simp add: port_labels_def)

text \<open>
  Converting between the SONiC and the Linux name of a port goes back and forth without
  loss, in both directions, for every port.
\<close>

theorem sonic_linux_roundtrip:
  "to_sonic_interface (Some (to_linux_interface (Some (sonic_name (n * 4))))) = sonic_name (n * 4)
   \<and> to_linux_interface (Some (to_sonic_interface (Some (eth_name (n + 1))))) = eth_name (n + 1)"
proof -
  have s: "sonic_name (n * 4) \<in> port_labels (n + 1)" and e: "eth_name (n + 1) \<in> port_labels (n + 1)"
    by (simp_all add: port_labels_def)
  show ?thesis
    using conversions_of_port_label [OF _ s] conversions_of_port_label [OF _ e] by simp
qed

end
