(* ===== verification/Scale_Profiles.thy ===== *)
theory Scale_Profiles
  imports Prelude
begin

text \<open>
  \<open>netopsbench/models/profiles.py\<close>: validated scale profiles and the ordered registry that
  resolves a scale name.  A pydantic model is a record or datatype whose validator
  (\<open>validate_\<dots>\<close>) returns the value or raises; the message of a field error is the name
  of the field.  The default registry read from \<open>scale_profiles.yaml\<close> is the parameter
  \<open>default_profiles\<close> of the functions that fall back on it, and \<open>builtin_profiles\<close> is
  the content of that file.
\<close>

section \<open>Profiles\<close>

datatype topology_profile =
    ClosTopologyProfile (clos_spines: int) (clos_leafs: int) (clos_clients_per_leaf: int)
  | FatTreeTopologyProfile (ft_k: int) (ft_clients_per_edge: int)

record management_profile =
  mp_prefix :: int
  mp_subnet_base :: int

record pingmesh_profile =
  pp_destination_batch_size :: "int option"
  pp_rtt_port_pool_size :: int
  pp_rtt_ports_per_cycle :: int
  pp_cycle_interval_seconds :: int

record traffic_profile =
  tp_max_pps_per_client :: int

record runtime_profile =
  rp_deploy_timeout_seconds :: int
  rp_worker_deploy_parallelism :: int
  rp_health_timeout_seconds :: int
  rp_containerlab_max_workers :: "int option"

record scale_profile =
  sp_name :: string
  sp_topology :: topology_profile
  sp_management :: management_profile
  sp_pingmesh :: pingmesh_profile
  sp_traffic :: traffic_profile
  sp_runtime :: runtime_profile

text \<open>Field constraints \<open>gt=0\<close>, checked in field order, then the model validators.\<close>

fun check_fields :: "(string \<times> bool) list \<Rightarrow> unit result" where
  "check_fields [] = Inr ()"
| "check_fields ((field, ok) # fs) = (if ok then check_fields fs else Inl (ValidationError field))"

fun validate_topology_profile :: "topology_profile \<Rightarrow> topology_profile result" where
  "validate_topology_profile (ClosTopologyProfile spines leafs clients) =
     bindE (check_fields [(''spines'', 0 < spines), (''leafs'', 0 < leafs), (''clients_per_leaf'', 0 < clients)])
       (\<lambda>_. Inr (ClosTopologyProfile spines leafs clients))"
| "validate_topology_profile (FatTreeTopologyProfile k clients) =
     bindE (check_fields [(''k'', 0 < k), (''clients_per_edge'', 0 < clients)])
       (\<lambda>_. if k mod 2 \<noteq> 0 then Inl (ValidationError ''fat-tree k must be even'')
            else if clients > k div 2 then Inl (ValidationError ''clients_per_edge cannot exceed k/2'')
            else Inr (FatTreeTopologyProfile k clients))"

definition validate_management_profile :: "management_profile \<Rightarrow> management_profile result" where
  "validate_management_profile m =
     bindE (check_fields [(''prefix'', 16 \<le> mp_prefix m \<and> mp_prefix m \<le> 30),
                          (''subnet_base'', 0 \<le> mp_subnet_base m \<and> mp_subnet_base m \<le> 255)])
       (\<lambda>_. Inr m)"

definition optional_positive :: "int option \<Rightarrow> bool" where
  "optional_positive x = (case x of None \<Rightarrow> True | Some n \<Rightarrow> 0 < n)"

definition validate_pingmesh_profile :: "pingmesh_profile \<Rightarrow> pingmesh_profile result" where
  "validate_pingmesh_profile p =
     bindE (check_fields [(''destination_batch_size'', optional_positive (pp_destination_batch_size p)),
                          (''rtt_port_pool_size'', 0 < pp_rtt_port_pool_size p),
                          (''rtt_ports_per_cycle'', 0 < pp_rtt_ports_per_cycle p),
                          (''cycle_interval_seconds'', 0 < pp_cycle_interval_seconds p)])
       (\<lambda>_. if pp_rtt_ports_per_cycle p > pp_rtt_port_pool_size p
            then Inl (ValidationError ''rtt_ports_per_cycle cannot exceed rtt_port_pool_size'')
            else Inr p)"

definition validate_traffic_profile :: "traffic_profile \<Rightarrow> traffic_profile result" where
  "validate_traffic_profile t =
     bindE (check_fields [(''max_pps_per_client'', 0 < tp_max_pps_per_client t)]) (\<lambda>_. Inr t)"

definition validate_runtime_profile :: "runtime_profile \<Rightarrow> runtime_profile result" where
  "validate_runtime_profile r =
     bindE (check_fields [(''deploy_timeout_seconds'', 0 < rp_deploy_timeout_seconds r),
                          (''worker_deploy_parallelism'', 0 < rp_worker_deploy_parallelism r),
                          (''health_timeout_seconds'', 0 < rp_health_timeout_seconds r),
                          (''containerlab_max_workers'', optional_positive (rp_containerlab_max_workers r))])
       (\<lambda>_. Inr r)"

definition validate_scale_profile :: "scale_profile \<Rightarrow> scale_profile result" where
  "validate_scale_profile p =
     bindE (check_fields [(''name'', sp_name p \<noteq> [])]) (\<lambda>_.
     bindE (validate_topology_profile (sp_topology p)) (\<lambda>_.
     bindE (validate_management_profile (sp_management p)) (\<lambda>_.
     bindE (validate_pingmesh_profile (sp_pingmesh p)) (\<lambda>_.
     bindE (validate_traffic_profile (sp_traffic p)) (\<lambda>_.
     bindE (validate_runtime_profile (sp_runtime p)) (\<lambda>_. Inr p))))))"

section \<open>Derived facts of a profile\<close>

definition family :: "scale_profile \<Rightarrow> string" where
  "family p = (case sp_topology p of ClosTopologyProfile _ _ _ \<Rightarrow> ''clos'' | FatTreeTopologyProfile _ _ \<Rightarrow> ''fat-tree'')"

definition num_spines :: "scale_profile \<Rightarrow> int option" where
  "num_spines p = (case sp_topology p of ClosTopologyProfile s _ _ \<Rightarrow> Some s | FatTreeTopologyProfile _ _ \<Rightarrow> None)"

definition num_leafs :: "scale_profile \<Rightarrow> int option" where
  "num_leafs p = (case sp_topology p of ClosTopologyProfile _ l _ \<Rightarrow> Some l | FatTreeTopologyProfile _ _ \<Rightarrow> None)"

definition fat_tree_k :: "scale_profile \<Rightarrow> int option" where
  "fat_tree_k p = (case sp_topology p of ClosTopologyProfile _ _ _ \<Rightarrow> None | FatTreeTopologyProfile k _ \<Rightarrow> Some k)"

definition num_cores :: "scale_profile \<Rightarrow> int option" where
  "num_cores p = (case sp_topology p of ClosTopologyProfile _ _ _ \<Rightarrow> None
                  | FatTreeTopologyProfile k _ \<Rightarrow> Some ((k div 2) ^ 2))"

definition num_aggs :: "scale_profile \<Rightarrow> int option" where
  "num_aggs p = (case sp_topology p of ClosTopologyProfile _ _ _ \<Rightarrow> None
                 | FatTreeTopologyProfile k _ \<Rightarrow> Some (k * (k div 2)))"

definition num_edges :: "scale_profile \<Rightarrow> int option" where
  "num_edges p = num_aggs p"

definition clients_per_attached_switch :: "scale_profile \<Rightarrow> int" where
  "clients_per_attached_switch p =
     (case sp_topology p of ClosTopologyProfile _ _ c \<Rightarrow> c | FatTreeTopologyProfile _ c \<Rightarrow> c)"

definition clients_per_leaf :: "scale_profile \<Rightarrow> int option" where
  "clients_per_leaf p = (case sp_topology p of ClosTopologyProfile _ _ c \<Rightarrow> Some c | FatTreeTopologyProfile _ _ \<Rightarrow> None)"

definition clients_per_edge :: "scale_profile \<Rightarrow> int option" where
  "clients_per_edge p = (case sp_topology p of ClosTopologyProfile _ _ _ \<Rightarrow> None | FatTreeTopologyProfile _ c \<Rightarrow> Some c)"

text \<open>\<open>int(x or 0)\<close>.\<close>

definition int_or_0 :: "int option \<Rightarrow> int" where
  "int_or_0 x = (case x of None \<Rightarrow> 0 | Some n \<Rightarrow> n)"

definition total_clients :: "scale_profile \<Rightarrow> int" where
  "total_clients p =
     (let attached_switches = (if family p = ''clos'' then num_leafs p else num_edges p)
      in int_or_0 attached_switches * clients_per_attached_switch p)"

definition total_switches :: "scale_profile \<Rightarrow> int" where
  "total_switches p =
     (if family p = ''clos'' then int_or_0 (num_spines p) + int_or_0 (num_leafs p)
      else int_or_0 (num_cores p) + int_or_0 (num_aggs p) + int_or_0 (num_edges p))"

section \<open>The registry\<close>

record scale_document =
  doc_override :: bool
  doc_profiles :: "scale_profile list"

type_synonym scale_registry = "scale_profile list"

text \<open>\<open>ScaleRegistry(profiles=...)\<close>: names unique, at least one profile.\<close>

fun duplicate_name :: "string list \<Rightarrow> scale_profile list \<Rightarrow> string option" where
  "duplicate_name names [] = None"
| "duplicate_name names (p # ps) =
     (if sp_name p \<in> set names then Some (sp_name p) else duplicate_name (sp_name p # names) ps)"

definition make_registry :: "scale_profile list \<Rightarrow> scale_registry result" where
  "make_registry profiles =
     (case duplicate_name [] profiles of
        Some n \<Rightarrow> Inl (ValidationError (''Duplicate scale profile: '' @ n))
      | None \<Rightarrow> if profiles = [] then Inl (ValidationError ''Scale registry must contain at least one profile'')
               else Inr profiles)"

definition put_profile :: "scale_profile \<Rightarrow> (string, scale_profile) dict \<Rightarrow> (string, scale_profile) dict" where
  "put_profile p d = dict_set d (sp_name p) p"

definition profile_map :: "scale_registry \<Rightarrow> (string, scale_profile) dict" where
  "profile_map r = fold put_profile r []"

fun merge_profiles ::
  "bool \<Rightarrow> scale_profile list \<Rightarrow> (string, scale_profile) dict \<Rightarrow> (string, scale_profile) dict result" where
  "merge_profiles override [] profiles = Inr profiles"
| "merge_profiles override (p # ps) profiles =
     (if sp_name p \<in> set (map fst profiles) \<and> \<not> override
      then Inl (ValueError (''Scale profile '' @ py_repr (sp_name p)
             @ '' already exists; set override: true in the profile file''))
      else merge_profiles override ps (put_profile p profiles))"

definition merged :: "scale_registry \<Rightarrow> scale_document \<Rightarrow> scale_registry result" where
  "merged registry document =
     bindE (merge_profiles (doc_override document) (doc_profiles document) (profile_map registry))
       (\<lambda>profiles. make_registry (map snd profiles))"

fun merge_documents :: "scale_registry \<Rightarrow> scale_document list \<Rightarrow> scale_registry result" where
  "merge_documents registry [] = Inr registry"
| "merge_documents registry (d # ds) = bindE (merged registry d) (\<lambda>r. merge_documents r ds)"

definition with_builtins :: "scale_profile list \<Rightarrow> scale_document list \<Rightarrow> scale_registry result" where
  "with_builtins default_profiles documents =
     bindE (make_registry default_profiles) (\<lambda>r. merge_documents r documents)"

definition registry_get :: "scale_registry \<Rightarrow> string \<Rightarrow> scale_profile result" where
  "registry_get registry name =
     (case dict_get (profile_map registry) name of
        Some p \<Rightarrow> Inr p
      | None \<Rightarrow> Inl (ValueError (''Unknown scale: '' @ name)))"

definition registry_names :: "scale_registry \<Rightarrow> string list" where
  "registry_names registry = map fst (profile_map registry)"

definition registry_values :: "scale_registry \<Rightarrow> scale_profile list" where
  "registry_values registry = map snd (profile_map registry)"

text \<open>\<open>registry or _DEFAULT_REGISTRY\<close>.\<close>

definition get_scale_profile :: "scale_registry \<Rightarrow> string \<Rightarrow> scale_registry option \<Rightarrow> scale_profile result" where
  "get_scale_profile default_profiles name registry =
     registry_get (case registry of None \<Rightarrow> default_profiles | Some r \<Rightarrow> r) name"

definition supported_scales :: "scale_registry \<Rightarrow> scale_registry option \<Rightarrow> string list" where
  "supported_scales default_profiles registry =
     registry_names (case registry of None \<Rightarrow> default_profiles | Some r \<Rightarrow> r)"

section \<open>The registry as a keyed store\<close>

text \<open>A dictionary whose keys are the names of the profiles stored under them.\<close>

definition keyed :: "(string, scale_profile) dict \<Rightarrow> bool" where
  "keyed d \<longleftrightarrow> distinct (map fst d) \<and> (\<forall>(k, p) \<in> set d. k = sp_name p)"

definition wf_registry :: "scale_registry \<Rightarrow> bool" where
  "wf_registry r \<longleftrightarrow> distinct (map sp_name r) \<and> r \<noteq> []"

interpretation profiles: keyed_store map_of put_profile sp_name keyed
proof
  fix d p k
  assume "keyed d"
  then show "keyed (put_profile p d)"
    using set_update_subset [of "sp_name p" p d] by (auto simp: keyed_def put_profile_def)
  show "map_of (put_profile p d) k = (if k = sp_name p then Some p else map_of d k)"
    by (simp add: put_profile_def)
qed

lemma keyed_Nil [simp]: "keyed []"
  by (simp add: keyed_def)

lemma keyed_names: "keyed d \<Longrightarrow> map sp_name (map snd d) = map fst d"
  by (auto simp: keyed_def)

lemma keyed_values_distinct: "keyed d \<Longrightarrow> distinct (map sp_name (map snd d))"
  using keyed_names [of d] unfolding keyed_def by metis

lemma put_profiles_append:
  "distinct (map fst d @ map sp_name ps) \<Longrightarrow> fold put_profile ps d = d @ map (\<lambda>p. (sp_name p, p)) ps"
proof (induction ps arbitrary: d)
  case (Cons p ps)
  then have "put_profile p d = d @ [(sp_name p, p)]"
    by (auto simp: put_profile_def intro!: update_absent)
  then show ?case using Cons.IH [of "d @ [(sp_name p, p)]"] Cons.prems by simp
qed simp

lemma profile_map_wf: "distinct (map sp_name r) \<Longrightarrow> profile_map r = map (\<lambda>p. (sp_name p, p)) r"
  using put_profiles_append [of "[]" r] by (simp add: profile_map_def)

lemma profile_map_keyed [simp]: "keyed (profile_map r)"
  by (simp add: profile_map_def profiles.wf_puts)

lemma profile_map_of_keyed: "keyed d \<Longrightarrow> profile_map (map snd d) = d"
proof -
  assume k: "keyed d"
  then have "distinct (map sp_name (map snd d))"
    by (rule keyed_values_distinct)
  then have "profile_map (map snd d) = map (\<lambda>p. (sp_name p, p)) (map snd d)"
    by (rule profile_map_wf)
  also have "\<dots> = map (\<lambda>x. x) d"
    using k unfolding map_map by (intro map_cong) (auto simp: keyed_def)
  finally show ?thesis by simp
qed

lemma duplicate_name_None: "duplicate_name ns ps = None \<longleftrightarrow> distinct (map sp_name ps) \<and> set ns \<inter> sp_name ` set ps = {}"
  by (induction ns ps rule: duplicate_name.induct) auto

lemma make_registry_wf: "make_registry ps = Inr r \<longleftrightarrow> wf_registry ps \<and> r = ps"
  using duplicate_name_None [of "[]" ps]
  by (auto simp: make_registry_def wf_registry_def split: option.splits)

lemma merge_profiles_result:
  "merge_profiles override ps d = Inr d' \<Longrightarrow> d' = fold put_profile ps d"
  by (induction override ps d rule: merge_profiles.induct) (auto split: if_splits)

lemma merge_profiles_override: "merge_profiles True ps d = Inr (fold put_profile ps d)"
  by (induction ps arbitrary: d) auto

lemma put_profile_keys: "set (map fst (put_profile p d)) = insert (sp_name p) (set (map fst d))"
  by (simp add: put_profile_def keys_update insert_absorb del: set_map)

lemma merge_profiles_strict_iff:
  "(\<exists>d'. merge_profiles False ps d = Inr d') \<longleftrightarrow>
     distinct (map sp_name ps) \<and> set (map sp_name ps) \<inter> set (map fst d) = {}"
proof (induction ps arbitrary: d)
  case (Cons p ps)
  then show ?case using put_profile_keys [of p d] by (auto simp del: set_map)
qed simp

lemma put_profiles_keys_prefix: "\<exists>new. map fst (fold put_profile ps d) = map fst d @ new"
proof (induction ps arbitrary: d)
  case (Cons p ps)
  have "\<exists>a. map fst (put_profile p d) = map fst d @ a"
    by (cases "sp_name p \<in> set (map fst d)") (auto simp: put_profile_def keys_update)
  then obtain a where a: "map fst (put_profile p d) = map fst d @ a" ..
  obtain b where "map fst (fold put_profile ps (put_profile p d)) = map fst (put_profile p d) @ b"
    using Cons.IH by blast
  then show ?case by (simp add: a)
qed simp

lemma merged_result:
  assumes "merged r doc = Inr r'"
  shows "profile_map r' = fold put_profile (doc_profiles doc) (profile_map r)" "wf_registry r'"
proof -
  obtain d where d: "merge_profiles (doc_override doc) (doc_profiles doc) (profile_map r) = Inr d"
    and r': "wf_registry (map snd d)" "r' = map snd d"
    using assms by (auto simp: merged_def bindE_Inr_conv make_registry_wf)
  have eq: "d = fold put_profile (doc_profiles doc) (profile_map r)"
    using merge_profiles_result [OF d] .
  then have "keyed d" by (simp add: profiles.wf_puts)
  then show "profile_map r' = fold put_profile (doc_profiles doc) (profile_map r)"
    using r' eq profile_map_of_keyed by simp
  show "wf_registry r'" using r' by simp
qed

text \<open>The content of \<open>scale_profiles.yaml\<close>.\<close>

definition profile_row ::
  "string \<Rightarrow> topology_profile \<Rightarrow> int \<times> int \<Rightarrow> int option \<times> int \<times> int \<times> int \<Rightarrow> int \<Rightarrow> int \<times> int \<times> int \<times> int option
   \<Rightarrow> scale_profile" where
  "profile_row name topology m p t r =
     \<lparr>sp_name = name, sp_topology = topology,
      sp_management = \<lparr>mp_prefix = fst m, mp_subnet_base = snd m\<rparr>,
      sp_pingmesh = \<lparr>pp_destination_batch_size = fst p, pp_rtt_port_pool_size = fst (snd p),
                     pp_rtt_ports_per_cycle = fst (snd (snd p)), pp_cycle_interval_seconds = snd (snd (snd p))\<rparr>,
      sp_traffic = \<lparr>tp_max_pps_per_client = t\<rparr>,
      sp_runtime = \<lparr>rp_deploy_timeout_seconds = fst r, rp_worker_deploy_parallelism = fst (snd r),
                    rp_health_timeout_seconds = fst (snd (snd r)), rp_containerlab_max_workers = snd (snd (snd r))\<rparr>\<rparr>"

definition builtin_profiles :: "scale_profile list" where
  "builtin_profiles =
     [profile_row ''xs'' (ClosTopologyProfile 2 2 1) (24, 100) (None, 16, 8, 1) 250 (1800, 2, 60, None),
      profile_row ''small'' (ClosTopologyProfile 2 4 2) (24, 120) (None, 16, 8, 1) 250 (1800, 2, 60, None),
      profile_row ''medium'' (ClosTopologyProfile 4 8 2) (24, 140) (None, 16, 6, 1) 200 (1800, 2, 60, None),
      profile_row ''large'' (ClosTopologyProfile 4 16 4) (24, 160) (Some 16, 16, 4, 3) 100 (2700, 1, 180, Some 16),
      profile_row ''xlarge'' (ClosTopologyProfile 16 128 1) (23, 180) (Some 16, 16, 4, 3) 100 (3600, 1, 240, Some 16),
      profile_row ''fat-tree-k8'' (FatTreeTopologyProfile 8 4) (24, 200) (Some 16, 16, 4, 3) 100 (3600, 1, 240, Some 1),
      profile_row ''fat-tree-k12'' (FatTreeTopologyProfile 12 2) (23, 220) (Some 16, 16, 4, 3) 50 (5400, 1, 300, Some 1)]"

lemma builtin_registry: "make_registry builtin_profiles = Inr builtin_profiles"
  by (simp add: make_registry_wf wf_registry_def builtin_profiles_def profile_row_def)

lemma builtin_profiles_validate: "list_all (\<lambda>p. validate_scale_profile p = Inr p) builtin_profiles"
  by (simp add: builtin_profiles_def profile_row_def validate_scale_profile_def
      validate_management_profile_def validate_pingmesh_profile_def validate_traffic_profile_def
      validate_runtime_profile_def optional_positive_def)

section \<open>Properties\<close>

text \<open>
  Merging a profile document into a registry: a merged registry still has unique names and
  keeps the old names first and in order; a name the document defines resolves to the
  document's last profile of that name, and every other name resolves as before.
\<close>

theorem merged_lookup:
  assumes "merged r doc = Inr r'"
  shows "wf_registry r' \<and> (\<exists>new. registry_names r' = registry_names r @ new) \<and>
    registry_get r' n =
      (case find (\<lambda>p. sp_name p = n) (rev (doc_profiles doc)) of
         Some p \<Rightarrow> Inr p | None \<Rightarrow> registry_get r n)"
  using merged_result [OF assms] put_profiles_keys_prefix [of "doc_profiles doc" "profile_map r"]
  by (auto simp: registry_names_def registry_get_def profiles.lookup_puts split: option.split)

theorem merged_lookup_witness:
  "\<exists>r'. merged builtin_profiles \<lparr>doc_override = True, doc_profiles = [hd builtin_profiles]\<rparr> = Inr r'
     \<and> registry_get r' ''xs'' = Inr (hd builtin_profiles)"
proof -
  let ?doc = "\<lparr>doc_override = True, doc_profiles = [hd builtin_profiles]\<rparr>"
  have hd: "sp_name (hd builtin_profiles) = ''xs''"
    by (simp add: builtin_profiles_def profile_row_def)
  have "\<exists>r'. merged builtin_profiles ?doc = Inr r'"
    by (simp add: merged_def builtin_profiles_def profile_row_def profile_map_def put_profile_def
        make_registry_wf wf_registry_def)
  then obtain r' where r': "merged builtin_profiles ?doc = Inr r'" by blast
  then show ?thesis using merged_lookup [OF r', of "''xs''"] hd by auto
qed

text \<open>
  Without \<open>override: true\<close> a document is accepted exactly when its names are new to the
  registry and pairwise different; with it, every document is accepted.
\<close>

theorem merged_accepts_iff:
  assumes "wf_registry r"
  shows "(\<exists>r'. merged r doc = Inr r') \<longleftrightarrow>
     doc_override doc \<or>
     (distinct (map sp_name (doc_profiles doc)) \<and>
      sp_name ` set (doc_profiles doc) \<inter> set (registry_names r) = {})"
proof -
  let ?d = "profile_map r" and ?ps = "doc_profiles doc"
  have wf: "wf_registry (map snd (fold put_profile ?ps ?d))"
  proof -
    let ?e = "fold put_profile ?ps ?d"
    have k: "keyed ?e" by (simp add: profiles.wf_puts)
    obtain new where "map fst ?e = map fst ?d @ new" using put_profiles_keys_prefix by blast
    moreover have "?d \<noteq> []" using assms profile_map_wf by (auto simp: wf_registry_def)
    ultimately have "?e \<noteq> []" by auto
    then show ?thesis using keyed_values_distinct [OF k] by (simp only: wf_registry_def) simp
  qed
  have "(\<exists>r'. merged r doc = Inr r') \<longleftrightarrow> (\<exists>d. merge_profiles (doc_override doc) ?ps ?d = Inr d)"
    using merge_profiles_result wf by (auto simp: merged_def bindE_Inr_conv make_registry_wf)
  then show ?thesis
    using merge_profiles_strict_iff [of ?ps ?d] merge_profiles_override [of ?ps ?d]
    by (cases "doc_override doc") (auto simp: registry_names_def)
qed

theorem merged_accepts_iff_witness:
  "\<not> (\<exists>r'. merged builtin_profiles \<lparr>doc_override = False, doc_profiles = [hd builtin_profiles]\<rparr> = Inr r')"
proof -
  have wf: "wf_registry builtin_profiles" using builtin_registry make_registry_wf by blast
  have "sp_name (hd builtin_profiles) \<in> set (registry_names builtin_profiles)"
    by (simp add: registry_names_def profile_map_def put_profile_def builtin_profiles_def profile_row_def)
  then show ?thesis using merged_accepts_iff [OF wf] by simp
qed

text \<open>
  The sizes derived from a validated fat-tree profile are those of the k-ary fat-tree:
  \<open>5k\<^sup>2/4\<close> switches, and at most \<open>k\<^sup>3/4\<close> clients, with equality at full host density.
\<close>

theorem fat_tree_profile_sizes:
  assumes "validate_topology_profile (sp_topology p) = Inr (FatTreeTopologyProfile k c)"
  shows "4 * total_switches p = 5 * k ^ 2 \<and> 4 * total_clients p \<le> k ^ 3
    \<and> (4 * total_clients p = k ^ 3 \<longleftrightarrow> 2 * c = k)"
proof -
  have t: "sp_topology p = FatTreeTopologyProfile k c" and k: "0 < k" "k mod 2 = 0" and c: "c \<le> k div 2"
    using assms by (cases "sp_topology p"; auto simp: bindE_Inr_conv split: if_splits)+
  obtain h where h: "k = 2 * h" using k by (metis mod_0_imp_dvd dvdE)
  have s: "total_switches p = h ^ 2 + 2 * (2 * h * h)" and cl: "total_clients p = 2 * h * h * c"
    using t h by (simp_all add: total_switches_def total_clients_def family_def num_cores_def
        num_aggs_def num_edges_def int_or_0_def clients_per_attached_switch_def)
  have "c \<le> h" "0 < h" using c k h by simp_all
  then have "h * h * c \<le> h * h * h" and eq: "h * h * c = h * h * h \<longleftrightarrow> c = h"
    by (simp_all add: mult_left_mono)
  then show ?thesis using s cl h by (simp add: power2_eq_square power3_eq_cube)
qed

theorem fat_tree_profile_sizes_witness:
  "total_switches (profile_row ''ft'' (FatTreeTopologyProfile 8 4) (24, 200) (Some 16, 16, 4, 3) 100 (3600, 1, 240, Some 1)) = 80"
  using fat_tree_profile_sizes [of "profile_row ''ft'' (FatTreeTopologyProfile 8 4) (24, 200)
      (Some 16, 16, 4, 3) 100 (3600, 1, 240, Some 1)" 8 4]
  by (simp add: profile_row_def)

end
