(* ===== verification/Json_Payloads.thy ===== *)
theory Json_Payloads
  imports Prelude
begin

text \<open>
  \<open>netopsbench/platform/incident/payloads.py\<close>: the size bound put on everything an agent is
  shown.  A JSON value is a datatype; an object keeps its insertion order.  A float is
  represented by the text \<open>json.dumps\<close> writes for it, and a string by its UTF-8 bytes.
\<close>

datatype json =
    JNull
  | JBool bool
  | JInt int
  | JFloat string
  | JStr string
  | JList "json list"
  | JObj "(string \<times> json) list"

section \<open>Serialised size\<close>

definition escaped_size :: "char \<Rightarrow> nat" where
  "escaped_size c =
     (if c \<in> {CHR 0x22, CHR 0x5C, CHR 0x08, CHR 0x09, CHR 0x0A, CHR 0x0C, CHR 0x0D} then 2
      else if (of_char c :: nat) < 32 then 6 else 1)"

definition json_str_size :: "string \<Rightarrow> nat" where
  "json_str_size s = 2 + sum_list (map escaped_size s)"

text \<open>
  \<open>len(json.dumps(value, ensure_ascii=False, separators=(",", ":"), sort_keys=True))\<close>: the
  order of keys does not change the length.  \<open>n\<close> items are joined by \<open>n - 1\<close> commas.
\<close>

fun json_size :: "json \<Rightarrow> nat" where
  "json_size JNull = 4"
| "json_size (JBool b) = (if b then 4 else 5)"
| "json_size (JInt i) = length (int_str i)"
| "json_size (JFloat t) = length t"
| "json_size (JStr s) = json_str_size s"
| "json_size (JList xs) = 2 + sum_list (map json_size xs) + (length xs - 1)"
| "json_size (JObj kvs) =
     2 + sum_list (map (\<lambda>(k, v). json_str_size k + 1 + json_size v) kvs) + (length kvs - 1)"

section \<open>Compaction\<close>

text \<open>\<open>{**marker, ...}\<close> with the marker's two entries and possibly the number of omitted items.\<close>

definition marker_fields :: "nat \<Rightarrow> (string \<times> json) list" where
  "marker_fields original_bytes =
     [(''truncated'', JBool True), (''original_bytes'', JInt (int original_bytes))]"

definition omission :: "nat \<Rightarrow> nat \<Rightarrow> json" where
  "omission original_bytes omitted =
     JObj (marker_fields original_bytes @ [(''omitted_items'', JInt (int omitted))])"

definition remaining_budget :: "int \<Rightarrow> nat \<Rightarrow> int" where
  "remaining_budget budget used = max 128 (budget - int used - 256)"

text \<open>
  The loop over the sorted items of an object.  An item is its key and the compaction of its
  value under a budget; \<open>index\<close> and \<open>n_items\<close> count items.
\<close>

fun compact_object :: "int \<Rightarrow> nat \<Rightarrow> nat \<Rightarrow> nat \<Rightarrow> (string \<times> json) list
    \<Rightarrow> (string \<times> (int \<Rightarrow> json)) list \<Rightarrow> (string \<times> json) list" where
  "compact_object budget marker n_items index out [] = out"
| "compact_object budget marker n_items index out ((key, child) # items) =
     (let out' = dict_set out key (child (remaining_budget budget (json_size (JObj out))));
          candidate = dict_set out' ''_truncation'' (omission marker (n_items - index - 1))
      in if int (json_size (JObj candidate)) > budget then AList.delete key out'
         else compact_object budget marker n_items (index + 1) out' items)"

fun compact_array :: "int \<Rightarrow> nat \<Rightarrow> nat \<Rightarrow> nat \<Rightarrow> json list \<Rightarrow> (int \<Rightarrow> json) list \<Rightarrow> json list" where
  "compact_array budget marker n_items index out [] = out"
| "compact_array budget marker n_items index out (child # items) =
     (let out' = out @ [child (remaining_budget budget (json_size (JList out)))];
          candidate = out' @ [JObj [(''_truncation'', omission marker (n_items - index - 1))]]
      in if int (json_size (JList candidate)) > budget then butlast out'
         else compact_array budget marker n_items (index + 1) out' items)"

fun compact :: "json \<Rightarrow> int \<Rightarrow> nat \<Rightarrow> json" where
  "compact (JObj kvs) budget marker =
     (let items = sort_key fst (map (\<lambda>(k, child). (k, \<lambda>b. compact child b marker)) kvs);
          out = compact_object budget marker (length items) 0 [] items
      in JObj (dict_set out ''_truncation'' (omission marker (length items - length out))))"
| "compact (JList xs) budget marker =
     (let items = map (\<lambda>child b. compact child b marker) xs;
          out = compact_array budget marker (length items) 0 [] items
      in JList (out @ [JObj [(''_truncation'', omission marker (length items - length out))]]))"
| "compact (JStr s) budget marker =
     JObj [(''_truncated_text'', JStr (take (nat (max 0 (budget - 160))) s)),
           (''original_chars'', JInt (int (length s)))]"
| "compact v budget marker = v"

definition compact_json :: "json \<Rightarrow> int \<Rightarrow> json" where
  "compact_json v max_bytes =
     (let original_bytes = json_size v
      in if int original_bytes \<le> max_bytes then v
         else (let compacted = compact v max_bytes original_bytes
               in if int (json_size compacted) \<le> max_bytes then compacted
                  else JObj [(''_truncation'', JObj (marker_fields original_bytes))]))"

section \<open>Size and shape of the result\<close>

lemma marker_size: "json_size (JObj [(''_truncation'', JObj (marker_fields n))]) = 52 + length (nat_str n)"
  by (simp add: marker_fields_def json_str_size_def escaped_size_def int_str_def)

lemma compact_json_small: "int (json_size v) \<le> max_bytes \<Longrightarrow> compact_json v max_bytes = v"
  by (simp add: compact_json_def)

lemma compact_object_keys:
  "fst ` set (compact_object budget marker n_items index out items) \<subseteq> fst ` set out \<union> fst ` set items"
proof (induction budget marker n_items index out items rule: compact_object.induct)
  case (2 budget marker n_items index out key child items)
  define out' where "out' = dict_set out key (child (remaining_budget budget (json_size (JObj out))))"
  have k: "fst ` set out' \<subseteq> insert key (fst ` set out)"
    using set_update_subset [of key "child (remaining_budget budget (json_size (JObj out)))" out]
    by (auto simp: out'_def)
  have "fst ` set (AList.delete key out') \<subseteq> fst ` set out'" by (auto simp: AList.delete_eq)
  then have d: "fst ` set (AList.delete key out') \<subseteq> insert key (fst ` set out)" using k by blast
  show ?case
  proof (cases "int (json_size (JObj (dict_set out' ''_truncation'' (omission marker (n_items - index - 1))))) > budget")
    case True
    then have "compact_object budget marker n_items index out ((key, child) # items) = AList.delete key out'"
      by (simp only: compact_object.simps Let_def out'_def [symmetric] if_True)
    then show ?thesis using d by auto
  next
    case False
    then have eq: "compact_object budget marker n_items index out ((key, child) # items) =
        compact_object budget marker n_items (index + 1) out' items"
      by (simp only: compact_object.simps Let_def out'_def [symmetric] if_False)
    show ?thesis using "2" [OF out'_def refl False] k unfolding eq by auto
  qed
qed simp

lemma compact_keys:
  assumes "compact (JObj kvs) budget marker = r"
  shows "\<exists>out. r = JObj out \<and> fst ` set out \<subseteq> insert ''_truncation'' (fst ` set kvs)"
proof -
  define items where "items = sort_key fst (map (\<lambda>(k, child). (k, \<lambda>b. compact child b marker)) kvs)"
  define out where "out = compact_object budget marker (length items) 0 [] items"
  have "fst ` set items = fst ` set kvs" by (force simp: items_def)
  then have "fst ` set out \<subseteq> fst ` set kvs"
    using compact_object_keys [of budget marker "length items" 0 "[]" items] by (simp add: out_def)
  moreover have "r = JObj (dict_set out ''_truncation'' (omission marker (length items - length out)))"
    using assms by (simp add: items_def out_def Let_def)
  ultimately show ?thesis
    using set_update_subset [of "''_truncation''" "omission marker (length items - length out)" out] by force
qed

section \<open>Properties\<close>

text \<open>
  C34. The bound on agent-facing payloads: with the least limit a session may configure
  (1024 bytes), the compacted value never serialises to more than the limit, whatever its
  size (the original size may have up to 900 digits); a value within the limit is unchanged.
\<close>

theorem compact_json_bounded:
  assumes "1024 \<le> max_bytes" "json_size v < 10 ^ 900"
  shows "int (json_size (compact_json v max_bytes)) \<le> max_bytes
    \<and> (int (json_size v) \<le> max_bytes \<longrightarrow> compact_json v max_bytes = v)"
proof -
  have "length (nat_str (json_size v)) \<le> 900" using nat_str_length [OF assms(2)] by simp
  then have "int (json_size (JObj [(''_truncation'', JObj (marker_fields (json_size v)))])) \<le> max_bytes"
    using assms(1) by (simp only: marker_size)
  then show ?thesis by (simp add: compact_json_def Let_def del: json_size.simps)
qed

theorem compact_json_bounded_witness:
  "int (json_size (compact_json (JStr (replicate 2000 (CHR ''a''))) 1024)) \<le> 1024"
proof -
  have "json_size (JStr (replicate 2000 (CHR ''a''))) = 2002"
    by (simp add: json_str_size_def escaped_size_def sum_list_replicate)
  moreover have "(2002::nat) < 10 ^ 4" by simp
  moreover have "(10::nat) ^ 4 \<le> 10 ^ 900" by (rule power_increasing) simp_all
  ultimately have "json_size (JStr (replicate 2000 (CHR ''a''))) < 10 ^ 900"
    by (simp only: less_le_trans)
  from compact_json_bounded [OF order_refl this] show ?thesis by (rule conjunct1)
qed

text \<open>
  Compacting an object gives an object, and the only key it can add is the truncation
  marker: a bounded observation shows the agent nothing that was not in the original.
\<close>

theorem compact_json_object_keys:
  "\<exists>out. compact_json (JObj kvs) max_bytes = JObj out \<and> fst ` set out \<subseteq> insert ''_truncation'' (fst ` set kvs)"
  using compact_keys [of kvs max_bytes "json_size (JObj kvs)"]
  by (auto simp: compact_json_def Let_def simp del: compact.simps json_size.simps)

end
