(* ===== verification/Topology_Model.thy ===== *)
theory Topology_Model
  imports Json_Payloads
begin

text \<open>
  \<open>netopsbench/models/topology.py\<close>: the canonical topology manifest, its cross-reference
  validator, the probe-coverage arithmetic of the Pingmesh policy and the projection shown
  to agents.  A manifest value is a record; \<open>make_manifest\<close> is the model constructor, which
  runs the validator and returns the manifest or the validation error.
\<close>

section \<open>Data\<close>

datatype device_role = SPINE | LEAF | CORE | AGG | EDGE | CLIENT

fun role_value :: "device_role \<Rightarrow> string" where
  "role_value SPINE = ''spine''"
| "role_value LEAF = ''leaf''"
| "role_value CORE = ''core''"
| "role_value AGG = ''agg''"
| "role_value EDGE = ''edge''"
| "role_value CLIENT = ''client''"

record device =
  dev_name :: string
  dev_role :: device_role
  dev_mgmt_ip :: "string option"
  dev_data_ip :: "string option"
  dev_attached_switch :: "string option"
  dev_asn :: "int option"
  dev_router_id :: "string option"
  dev_metadata :: "(string, json) dict"

record link_endpoint =
  ep_device :: string
  ep_interface :: string

record link =
  link_kind :: string
  link_endpoints :: "link_endpoint \<times> link_endpoint"
  link_mtu :: int

record management =
  mgmt_network :: string
  mgmt_ipv4_subnet :: string

record pingmesh_policy =
  pol_destination_batch_size :: "int option"
  pol_rtt_port_pool_size :: int
  pol_rtt_ports_per_cycle :: int
  pol_cycle_interval_seconds :: int
  pol_df_payload_size :: int

definition default_link_mtu :: int where
  "default_link_mtu = 9232"

definition default_sonic_port_mtu :: int where
  "default_sonic_port_mtu = 9100"

record topology_facts =
  tf_num_spines :: int
  tf_num_leafs :: int
  tf_num_cores :: int
  tf_num_aggs :: int
  tf_num_edges :: int
  tf_num_pods :: int
  tf_clients_per_attached_switch :: int
  tf_total_clients :: int
  tf_total_switches :: int
  tf_fat_tree_k :: "int option"
  tf_full_density :: "int option"
  tf_host_density :: "string option"

record routing_metadata =
  rt_spine_asn :: "int option"
  rt_leaf_asn_range :: "string option"
  rt_core_asn_range :: "string option"
  rt_agg_asn_range :: "string option"
  rt_edge_asn_range :: "string option"
  rt_ecmp_policy :: "(device_role, int) dict"
  rt_ecmp :: bool
  rt_bfd :: bool

record manifest =
  mf_topology_id :: string
  mf_name :: string
  mf_scale :: string
  mf_family :: string
  mf_management :: management
  mf_collector :: string
  mf_link_mtu :: int
  mf_sonic_port_mtu :: int
  mf_facts :: topology_facts
  mf_devices :: "device list"
  mf_links :: "link list"
  mf_routing :: routing_metadata
  mf_pingmesh :: pingmesh_policy

section \<open>Probe coverage of the Pingmesh policy\<close>

definition validate_policy :: "pingmesh_policy \<Rightarrow> bool" where
  "validate_policy p \<longleftrightarrow>
     (case pol_destination_batch_size p of None \<Rightarrow> True | Some n \<Rightarrow> 1 \<le> n) \<and>
     1 \<le> pol_rtt_port_pool_size p \<and> 1 \<le> pol_rtt_ports_per_cycle p \<and>
     1 \<le> pol_cycle_interval_seconds p \<and> 1 \<le> pol_df_payload_size p"

definition destinations :: "int \<Rightarrow> int" where
  "destinations client_count = max 0 (client_count - 1)"

text \<open>\<open>self.destination_batch_size or max(1, destinations)\<close>.\<close>

definition batch_size :: "pingmesh_policy \<Rightarrow> int \<Rightarrow> int" where
  "batch_size p client_count =
     (case pol_destination_batch_size p of
        Some n \<Rightarrow> if n = 0 then max 1 (destinations client_count) else n
      | None \<Rightarrow> max 1 (destinations client_count))"

definition destination_batch_count :: "pingmesh_policy \<Rightarrow> int \<Rightarrow> int" where
  "destination_batch_count p client_count =
     max 1 (ceil_div (destinations client_count) (batch_size p client_count))"

definition port_batch_count :: "pingmesh_policy \<Rightarrow> int" where
  "port_batch_count p = max 1 (ceil_div (pol_rtt_port_pool_size p) (pol_rtt_ports_per_cycle p))"

definition coverage_epoch_cycles :: "pingmesh_policy \<Rightarrow> int \<Rightarrow> int" where
  "coverage_epoch_cycles p client_count = destination_batch_count p client_count * port_batch_count p"

definition coverage_epoch_seconds :: "pingmesh_policy \<Rightarrow> int \<Rightarrow> int" where
  "coverage_epoch_seconds p client_count =
     coverage_epoch_cycles p client_count * pol_cycle_interval_seconds p"

definition coverage_grace_seconds :: "pingmesh_policy \<Rightarrow> int" where
  "coverage_grace_seconds p = max 5 (2 * pol_cycle_interval_seconds p)"

definition complete_window_seconds :: "pingmesh_policy \<Rightarrow> int \<Rightarrow> int" where
  "complete_window_seconds p client_count =
     coverage_epoch_seconds p client_count + coverage_grace_seconds p"

section \<open>Queries\<close>

definition device_named :: "manifest \<Rightarrow> string \<Rightarrow> device option" where
  "device_named m name = find (\<lambda>d. dev_name d = name) (mf_devices m)"

definition devices_by_role :: "manifest \<Rightarrow> device_role \<Rightarrow> device list" where
  "devices_by_role m role = filter (\<lambda>d. dev_role d = role) (mf_devices m)"

definition switches :: "manifest \<Rightarrow> device list" where
  "switches m = filter (\<lambda>d. dev_role d \<noteq> CLIENT) (mf_devices m)"

definition routing_devices :: "manifest \<Rightarrow> device list" where
  "routing_devices m = switches m"

definition edge_devices :: "manifest \<Rightarrow> device list" where
  "edge_devices m =
     (let edges = devices_by_role m EDGE in if edges \<noteq> [] then edges else devices_by_role m LEAF)"

definition clients :: "manifest \<Rightarrow> device list" where
  "clients m = devices_by_role m CLIENT"

definition client_attached_devices :: "manifest \<Rightarrow> device list" where
  "client_attached_devices m =
     (let attached_names = concat (map (\<lambda>c. case dev_attached_switch c of
                                              Some n \<Rightarrow> if n = [] then [] else [n] | None \<Rightarrow> []) (clients m))
      in filter (\<lambda>d. dev_name d \<in> set attached_names) (switches m))"

section \<open>Validation of the references\<close>

text \<open>The values that occur again later in the list, as the sorted set of duplicates.\<close>

fun repeated :: "string list \<Rightarrow> string list \<Rightarrow> string list" where
  "repeated seen [] = []"
| "repeated seen (x # xs) = (if x \<in> set seen then x # repeated seen xs else repeated (x # seen) xs)"

definition present :: "('a \<Rightarrow> string option) \<Rightarrow> 'a list \<Rightarrow> string list" where
  "present field xs = concat (map (\<lambda>d. case field d of Some v \<Rightarrow> [v] | None \<Rightarrow> []) xs)"

definition unique_field :: "string \<Rightarrow> (device \<Rightarrow> string option) \<Rightarrow> device list \<Rightarrow> unit result" where
  "unique_field field_name field devices =
     (let duplicates = repeated [] (present field devices)
      in if duplicates \<noteq> [] then
           Inl (ValidationError (field_name @ '' values must be unique: ''
             @ str_join '', '' (sorted_list_of_set (set duplicates))))
         else Inr ())"

definition role_names :: "device_role set \<Rightarrow> string list" where
  "role_names roles = sorted_list_of_set (role_value ` roles)"

definition check_policy_roles :: "manifest \<Rightarrow> unit result" where
  "check_policy_roles m =
     (let switch_roles = dev_role ` set (switches m);
          policy_roles = fst ` set (rt_ecmp_policy (mf_routing m));
          missing = role_names (switch_roles - policy_roles);
          unexpected = role_names (policy_roles - switch_roles);
          details = (if missing \<noteq> [] then [''missing roles: '' @ str_join '', '' missing] else [])
                    @ (if unexpected \<noteq> [] then [''unexpected roles: '' @ str_join '', '' unexpected] else [])
      in if policy_roles \<noteq> switch_roles then
           Inl (ValidationError (''ecmp_hash_policy_by_role must match switch roles (''
             @ str_join ''; '' details @ '')''))
         else Inr ())"

fun check_endpoints :: "string list \<Rightarrow> link_endpoint list \<Rightarrow> unit result" where
  "check_endpoints names [] = Inr ()"
| "check_endpoints names (e # es) =
     (if ep_device e \<notin> set names
      then Inl (ValidationError (''link endpoint references unknown device: '' @ ep_device e))
      else check_endpoints names es)"

fun check_clients :: "manifest \<Rightarrow> device list \<Rightarrow> unit result" where
  "check_clients m [] = Inr ()"
| "check_clients m (c # cs) =
     (case dev_attached_switch c of
        None \<Rightarrow> Inl (ValidationError (''client '' @ dev_name c @ '' must define attached_switch''))
      | Some a \<Rightarrow>
          if a = [] then Inl (ValidationError (''client '' @ dev_name c @ '' must define attached_switch''))
          else (case device_named m a of
                  None \<Rightarrow> Inl (ValidationError (''client attached_switch references unknown device: '' @ a))
                | Some d \<Rightarrow>
                    if dev_role d = CLIENT
                    then Inl (ValidationError ''client attached_switch must reference a non-client device'')
                    else check_clients m cs))"

definition link_ends :: "manifest \<Rightarrow> link_endpoint list" where
  "link_ends m = concat (map (\<lambda>l. [fst (link_endpoints l), snd (link_endpoints l)]) (mf_links m))"

definition validate_topology_references :: "manifest \<Rightarrow> unit result" where
  "validate_topology_references m =
     (let names = map dev_name (mf_devices m)
      in if length names \<noteq> card (set names) then Inl (ValidationError ''device names must be unique'')
         else
           bindE (unique_field ''mgmt_ip'' dev_mgmt_ip (mf_devices m)) (\<lambda>_.
           bindE (unique_field ''data_ip'' dev_data_ip (mf_devices m)) (\<lambda>_.
           bindE (unique_field ''router_id'' dev_router_id (mf_devices m)) (\<lambda>_.
           bindE (check_policy_roles m) (\<lambda>_.
           bindE (check_endpoints names (link_ends m)) (\<lambda>_.
           check_clients m (clients m)))))))"

definition make_manifest :: "manifest \<Rightarrow> manifest result" where
  "make_manifest m = bindE (validate_topology_references m) (\<lambda>_. Inr m)"

section \<open>The projection shown to agents\<close>

definition jstr_opt :: "string option \<Rightarrow> json" where
  "jstr_opt x = (case x of None \<Rightarrow> JNull | Some s \<Rightarrow> JStr s)"

definition jint_opt :: "int option \<Rightarrow> json" where
  "jint_opt x = (case x of None \<Rightarrow> JNull | Some i \<Rightarrow> JInt i)"

definition without_none :: "(string \<times> json) list \<Rightarrow> (string \<times> json) list" where
  "without_none kvs = filter (\<lambda>(k, v). v \<noteq> JNull) kvs"

definition device_model_fields :: "string list" where
  "device_model_fields =
     [''name'', ''role'', ''mgmt_ip'', ''data_ip'', ''attached_switch'', ''asn'', ''router_id'', ''metadata'']"

text \<open>\<open>device.model_dump(exclude={"role", "metadata"}, exclude_none=True)\<close>.\<close>

definition device_dump :: "device \<Rightarrow> (string \<times> json) list" where
  "device_dump d =
     without_none
       [(''name'', JStr (dev_name d)), (''mgmt_ip'', jstr_opt (dev_mgmt_ip d)),
        (''data_ip'', jstr_opt (dev_data_ip d)), (''attached_switch'', jstr_opt (dev_attached_switch d)),
        (''asn'', jint_opt (dev_asn d)), (''router_id'', jstr_opt (dev_router_id d))]"

definition dict_update :: "('k, 'v) dict \<Rightarrow> ('k, 'v) dict \<Rightarrow> ('k, 'v) dict" where
  "dict_update d other = fold (\<lambda>(k, v) acc. dict_set acc k v) other d"

definition device_to_agent_entry :: "manifest \<Rightarrow> device \<Rightarrow> (string, json) dict" where
  "device_to_agent_entry m d =
     (let entry = dict_update (device_dump d)
                    (filter (\<lambda>(k, v). k \<notin> set device_model_fields) (dev_metadata d))
      in case dev_attached_switch d of
           Some a \<Rightarrow>
             if dev_role d = CLIENT \<and> a \<noteq> [] then
               dict_set entry (if mf_family m = ''fat-tree'' then ''edge'' else ''leaf'') (JStr a)
             else entry
         | None \<Rightarrow> entry)"

definition agent_scale_facts :: "manifest \<Rightarrow> json" where
  "agent_scale_facts m =
     (let f = mf_facts m
      in if mf_family m = ''clos'' then
           JObj [(''name'', JStr (mf_scale m)), (''num_spines'', JInt (tf_num_spines f)),
                 (''num_leafs'', JInt (tf_num_leafs f)),
                 (''clients_per_leaf'', JInt (tf_clients_per_attached_switch f)),
                 (''total_clients'', JInt (tf_total_clients f)), (''total_devices'', JInt (tf_total_switches f))]
         else
           JObj [(''name'', JStr (mf_scale m)), (''num_core'', JInt (tf_num_cores f)),
                 (''num_agg'', JInt (tf_num_aggs f)), (''num_edge'', JInt (tf_num_edges f)),
                 (''num_pods'', JInt (tf_num_pods f)),
                 (''clients_per_edge'', JInt (tf_clients_per_attached_switch f)),
                 (''full_density_clients_per_edge'', jint_opt (tf_full_density f)),
                 (''host_density'', jstr_opt (tf_host_density f)),
                 (''total_clients'', JInt (tf_total_clients f)), (''total_devices'', JInt (tf_total_switches f))])"

definition agent_groups :: "manifest \<Rightarrow> (string \<times> device list) list" where
  "agent_groups m =
     (if mf_family m = ''clos'' then
        [(''spines'', devices_by_role m SPINE), (''leafs'', devices_by_role m LEAF), (''clients'', clients m)]
      else
        [(''cores'', devices_by_role m CORE), (''aggs'', devices_by_role m AGG),
         (''edges'', devices_by_role m EDGE), (''clients'', clients m)])"

definition policy_dump :: "pingmesh_policy \<Rightarrow> (string \<times> json) list" where
  "policy_dump p =
     [(''destination_batch_size'', jint_opt (pol_destination_batch_size p)),
      (''rtt_port_pool_size'', JInt (pol_rtt_port_pool_size p)),
      (''rtt_ports_per_cycle'', JInt (pol_rtt_ports_per_cycle p)),
      (''cycle_interval_seconds'', JInt (pol_cycle_interval_seconds p)),
      (''df_payload_size'', JInt (pol_df_payload_size p))]"

definition routing_dump :: "routing_metadata \<Rightarrow> (string \<times> json) list" where
  "routing_dump r =
     without_none
       [(''protocol'', JStr ''BGP''), (''spine_asn'', jint_opt (rt_spine_asn r)),
        (''leaf_asn_range'', jstr_opt (rt_leaf_asn_range r)), (''core_asn_range'', jstr_opt (rt_core_asn_range r)),
        (''agg_asn_range'', jstr_opt (rt_agg_asn_range r)), (''edge_asn_range'', jstr_opt (rt_edge_asn_range r)),
        (''ecmp_hash_policy_by_role'', JObj (map (\<lambda>(k, v). (role_value k, JInt v)) (rt_ecmp_policy r))),
        (''ecmp'', JBool (rt_ecmp r)), (''bfd'', JBool (rt_bfd r))]"

definition to_agent_topology :: "manifest \<Rightarrow> (string \<times> json) list" where
  "to_agent_topology m =
     [(''name'', JStr (mf_name m)), (''topology_id'', JStr (mf_topology_id m)),
      (''topology_scale'', JStr (mf_scale m)), (''topology_type'', JStr (mf_family m)),
      (''management'', JObj [(''network'', JStr (mgmt_network (mf_management m))),
                           (''ipv4_subnet'', JStr (mgmt_ipv4_subnet (mf_management m)))]),
      (''collector'', JObj [(''ipv4'', JStr (mf_collector m))]),
      (''defaults'', JObj [(''link_mtu'', JInt (mf_link_mtu m)), (''sonic_port_mtu'', JInt (mf_sonic_port_mtu m))]),
      (''mtu_semantics'', JObj [(''link_mtu_scope'', JStr ''containerlab/client link MTU''),
         (''sonic_port_mtu_scope'', JStr ''SONiC front-panel interface MTU''),
         (''note'', JStr (''Do not compare link_mtu 9232 directly against healthy SONiC port MTU 9100 ''
                        @ ''when diagnosing faults.''))]),
      (''scale'', agent_scale_facts m),
      (''devices'', JObj (map (\<lambda>(g, ds). (g, JList (map (\<lambda>d. JObj (device_to_agent_entry m d)) ds))) (agent_groups m))),
      (''links'', JList (map (\<lambda>l. JObj [(''type'', JStr (link_kind l)),
         (''endpoints'', JList [JStr (ep_device (fst (link_endpoints l))),
                              JStr (ep_device (snd (link_endpoints l)))])]) (mf_links m))),
      (''routing'', JObj (routing_dump (mf_routing m))),
      (''pingmesh'', JObj (policy_dump (mf_pingmesh m) @
         [(''destination_batch_count'', JInt (destination_batch_count (mf_pingmesh m) (tf_total_clients (mf_facts m)))),
          (''port_batch_count'', JInt (port_batch_count (mf_pingmesh m))),
          (''coverage_epoch_cycles'', JInt (coverage_epoch_cycles (mf_pingmesh m) (tf_total_clients (mf_facts m)))),
          (''coverage_epoch_seconds'', JInt (coverage_epoch_seconds (mf_pingmesh m) (tf_total_clients (mf_facts m))))]))]
     @ (if mf_family m = ''fat-tree'' then [(''fat_tree_k'', jint_opt (tf_fat_tree_k (mf_facts m)))] else [])"

section \<open>The validator decides well-formedness\<close>

text \<open>What a validated manifest promises to the rest of the system.\<close>

definition wf_manifest :: "manifest \<Rightarrow> bool" where
  "wf_manifest m \<longleftrightarrow>
     distinct (map dev_name (mf_devices m)) \<and>
     distinct (present dev_mgmt_ip (mf_devices m)) \<and>
     distinct (present dev_data_ip (mf_devices m)) \<and>
     distinct (present dev_router_id (mf_devices m)) \<and>
     fst ` set (rt_ecmp_policy (mf_routing m)) = dev_role ` set (switches m) \<and>
     (\<forall>e \<in> set (link_ends m). ep_device e \<in> dev_name ` set (mf_devices m)) \<and>
     (\<forall>c \<in> set (mf_devices m). dev_role c = CLIENT \<longrightarrow>
        (\<exists>s \<in> set (mf_devices m). dev_attached_switch c = Some (dev_name s) \<and> dev_name s \<noteq> [] \<and> dev_role s \<noteq> CLIENT))"

lemma repeated_Nil_iff: "repeated seen xs = [] \<longleftrightarrow> distinct xs \<and> set seen \<inter> set xs = {}"
  by (induction seen xs rule: repeated.induct) auto

lemma unique_field_iff: "unique_field n field ds = Inr () \<longleftrightarrow> distinct (present field ds)"
  by (simp add: unique_field_def Let_def repeated_Nil_iff)

lemma check_endpoints_iff: "check_endpoints names es = Inr () \<longleftrightarrow> (\<forall>e \<in> set es. ep_device e \<in> set names)"
  by (induction names es rule: check_endpoints.induct) auto

lemma device_named_iff:
  "distinct (map dev_name (mf_devices m)) \<Longrightarrow>
   device_named m n = Some d \<longleftrightarrow> d \<in> set (mf_devices m) \<and> dev_name d = n"
proof -
  have "distinct (map dev_name ds) \<Longrightarrow> find (\<lambda>d. dev_name d = n) ds = Some d \<longleftrightarrow> d \<in> set ds \<and> dev_name d = n" for ds
    by (induction ds) auto
  then show "distinct (map dev_name (mf_devices m)) \<Longrightarrow>
   device_named m n = Some d \<longleftrightarrow> d \<in> set (mf_devices m) \<and> dev_name d = n"
    by (simp add: device_named_def)
qed

lemma check_clients_iff:
  assumes "distinct (map dev_name (mf_devices m))"
  shows "check_clients m cs = Inr () \<longleftrightarrow>
     (\<forall>c \<in> set cs. \<exists>s \<in> set (mf_devices m).
        dev_attached_switch c = Some (dev_name s) \<and> dev_name s \<noteq> [] \<and> dev_role s \<noteq> CLIENT)"
proof (induction cs)
  case (Cons c cs)
  show ?case
  proof (cases "dev_attached_switch c")
    case None
    then show ?thesis by simp
  next
    case (Some a)
    show ?thesis
    proof (cases "device_named m a")
      case None
      then have "a \<notin> dev_name ` set (mf_devices m)"
        by (auto simp: device_named_def find_None_all)
      then show ?thesis using Some None by auto
    next
      case (Some d)
      then have "d \<in> set (mf_devices m)" "dev_name d = a"
        using device_named_iff [OF assms] by auto
      moreover from this have "s = d" if "s \<in> set (mf_devices m)" "dev_name s = a" for s
        using assms that by (auto simp: distinct_map inj_on_def)
      ultimately have ex: "(\<exists>s \<in> set (mf_devices m). dev_attached_switch c = Some (dev_name s) \<and>
          dev_name s \<noteq> [] \<and> dev_role s \<noteq> CLIENT) \<longleftrightarrow> a \<noteq> [] \<and> dev_role d \<noteq> CLIENT"
        using \<open>dev_attached_switch c = Some a\<close> by (metis option.inject)
      have "check_clients m (c # cs) = Inr () \<longleftrightarrow>
          a \<noteq> [] \<and> dev_role d \<noteq> CLIENT \<and> check_clients m cs = Inr ()"
        by (simp add: \<open>dev_attached_switch c = Some a\<close> Some)
      then show ?thesis unfolding list.set(2) ball_simps ex Cons.IH by blast
    qed
  qed
qed simp

lemma check_policy_roles_iff:
  "check_policy_roles m = Inr () \<longleftrightarrow>
     fst ` set (rt_ecmp_policy (mf_routing m)) = dev_role ` set (switches m)"
  by (simp add: check_policy_roles_def Let_def)

lemma unit_result_bind: "bindE m (\<lambda>_. k) = Inr y \<longleftrightarrow> m = Inr () \<and> k = Inr y" for m :: "unit result"
  by (cases m) auto

lemma clients_attached_iff:
  "(\<forall>c \<in> set (clients m). P c) \<longleftrightarrow> (\<forall>c \<in> set (mf_devices m). dev_role c = CLIENT \<longrightarrow> P c)"
  by (auto simp: clients_def devices_by_role_def)

lemma validate_references_iff: "validate_topology_references m = Inr () \<longleftrightarrow> wf_manifest m"
proof (cases "distinct (map dev_name (mf_devices m))")
  case True
  then have "length (map dev_name (mf_devices m)) = card (set (map dev_name (mf_devices m)))"
    by (simp only: distinct_card)
  then show ?thesis
    by (simp only: validate_topology_references_def Let_def not_True_eq_False if_False unit_result_bind
        unique_field_iff check_policy_roles_iff check_endpoints_iff check_clients_iff [OF True]
        clients_attached_iff wf_manifest_def True set_map simp_thms)
next
  case False
  then have "length (map dev_name (mf_devices m)) \<noteq> card (set (map dev_name (mf_devices m)))"
    using card_distinct by metis
  then show ?thesis using False by (simp add: validate_topology_references_def wf_manifest_def)
qed

lemma make_manifest_iff: "make_manifest m = Inr m' \<longleftrightarrow> wf_manifest m \<and> m' = m"
  using validate_references_iff [of m]
  by (cases "validate_topology_references m") (auto simp: make_manifest_def)

section \<open>Properties\<close>


text \<open>
  A complete Pingmesh window is long enough: it lasts at least one full coverage epoch
  plus five seconds of grace; in that epoch the destination batches reach every other client
  and no batch is superfluous, and the port batches cover the whole source-port pool.
\<close>

theorem complete_window_covers:
  assumes "validate_policy p" "2 \<le> n"
  shows "n - 1 \<le> destination_batch_count p n * batch_size p n
     \<and> (destination_batch_count p n - 1) * batch_size p n < n - 1
     \<and> pol_rtt_port_pool_size p \<le> port_batch_count p * pol_rtt_ports_per_cycle p
     \<and> destination_batch_count p n * port_batch_count p * pol_cycle_interval_seconds p + 5
         \<le> complete_window_seconds p n"
proof -
  have b: "0 < batch_size p n"
    using assms by (auto simp: validate_policy_def batch_size_def split: option.splits)
  have d: "destinations n = n - 1" using assms(2) by (simp add: destinations_def)
  have c: "n - 1 \<le> ceil_div (n - 1) (batch_size p n) * batch_size p n"
      "(ceil_div (n - 1) (batch_size p n) - 1) * batch_size p n < n - 1"
    using ceil_div_bounds [OF b] by auto
  have "0 < ceil_div (n - 1) (batch_size p n)"
  proof (rule ccontr)
    assume "\<not> 0 < ceil_div (n - 1) (batch_size p n)"
    then have "ceil_div (n - 1) (batch_size p n) * batch_size p n \<le> 0"
      using b by (simp add: mult_nonpos_nonneg)
    then show False using c(1) assms(2) by simp
  qed
  then have "destination_batch_count p n = ceil_div (n - 1) (batch_size p n)"
    by (simp add: destination_batch_count_def d)
  moreover have "pol_rtt_port_pool_size p \<le> port_batch_count p * pol_rtt_ports_per_cycle p"
  proof -
    have q: "0 < pol_rtt_ports_per_cycle p" using assms(1) by (simp add: validate_policy_def)
    have "ceil_div (pol_rtt_port_pool_size p) (pol_rtt_ports_per_cycle p) * pol_rtt_ports_per_cycle p
        \<le> port_batch_count p * pol_rtt_ports_per_cycle p"
      using q by (intro mult_right_mono) (simp_all add: port_batch_count_def)
    then show ?thesis using ceil_div_bounds(1) [OF q] order_trans by blast
  qed
  ultimately show ?thesis
    using c by (simp add: complete_window_seconds_def coverage_epoch_seconds_def
        coverage_epoch_cycles_def coverage_grace_seconds_def)
qed

theorem complete_window_covers_witness:
  "complete_window_seconds \<lparr>pol_destination_batch_size = Some 16, pol_rtt_port_pool_size = 16,
     pol_rtt_ports_per_cycle = 4, pol_cycle_interval_seconds = 3, pol_df_payload_size = 9072\<rparr> 128 = 102
   \<and> 16 \<le> (4::int) * 4"
  using complete_window_covers [of "\<lparr>pol_destination_batch_size = Some 16, pol_rtt_port_pool_size = 16,
     pol_rtt_ports_per_cycle = 4, pol_cycle_interval_seconds = 3, pol_df_payload_size = 9072\<rparr>" 128]
  by (simp add: validate_policy_def complete_window_seconds_def coverage_epoch_seconds_def
      coverage_epoch_cycles_def coverage_grace_seconds_def destination_batch_count_def
      port_batch_count_def batch_size_def destinations_def ceil_div_def)

lemma dict_update_other: "k \<notin> fst ` set other \<Longrightarrow> map_of (dict_update d other) k = map_of d k"
proof -
  have "k \<notin> fst ` set other \<Longrightarrow> map_of (fold (\<lambda>(k, v) acc. dict_set acc k v) other d) k = map_of d k"
    by (induction other arbitrary: d) auto
  then show "k \<notin> fst ` set other \<Longrightarrow> map_of (dict_update d other) k = map_of d k"
    by (simp add: dict_update_def)
qed

lemma device_entry_field:
  assumes "k \<in> set device_model_fields"
  shows "map_of (device_to_agent_entry m d) k = map_of (device_dump d) k"
proof -
  have "k \<notin> fst ` set (filter (\<lambda>(k, v). k \<notin> set device_model_fields) (dev_metadata d))"
    using assms by auto
  then have "map_of (dict_update (device_dump d)
      (filter (\<lambda>(k, v). k \<notin> set device_model_fields) (dev_metadata d))) k = map_of (device_dump d) k"
    by (rule dict_update_other)
  moreover have "k \<noteq> ''edge''" "k \<noteq> ''leaf''" using assms by (auto simp: device_model_fields_def)
  ultimately show ?thesis by (simp add: device_to_agent_entry_def Let_def split: option.split)
qed

text \<open>
  The agent's view cannot be spoofed through free-form metadata: whatever metadata a
  device carries, its entry shows the canonical name, addresses, ASN and router id, and a
  client's entry names its attached switch.
\<close>

theorem agent_entry_faithful:
  "map_of (device_to_agent_entry m d) ''name'' = Some (JStr (dev_name d))
   \<and> map_of (device_to_agent_entry m d) ''mgmt_ip'' = map_option JStr (dev_mgmt_ip d)
   \<and> map_of (device_to_agent_entry m d) ''data_ip'' = map_option JStr (dev_data_ip d)
   \<and> map_of (device_to_agent_entry m d) ''attached_switch'' = map_option JStr (dev_attached_switch d)
   \<and> map_of (device_to_agent_entry m d) ''asn'' = map_option JInt (dev_asn d)
   \<and> map_of (device_to_agent_entry m d) ''router_id'' = map_option JStr (dev_router_id d)
   \<and> map_of (device_to_agent_entry m d) ''role'' = None"
  by (cases "dev_mgmt_ip d"; cases "dev_data_ip d"; cases "dev_attached_switch d"; cases "dev_asn d";
      cases "dev_router_id d")
    (simp_all add: device_entry_field device_model_fields_def device_dump_def without_none_def
      jstr_opt_def jint_opt_def)

end
