(* ===== verification/Addressing.thy ===== *)
theory Addressing
  imports Prelude
begin

text \<open>
  The management-address allocator of \<open>netopsbench/platform/topology/planning.py\<close> with the
  part of the standard library's \<open>ipaddress\<close> it uses.  An IPv4 address is its integer
  value; an address of a larger value, which Python would make an IPv6 address, lies in no
  IPv4 network.  The set of allocated offsets is the list of its elements in iteration order.
\<close>

section \<open>IPv4 addresses and networks\<close>

definition quad :: "int \<Rightarrow> int \<Rightarrow> int \<Rightarrow> int \<Rightarrow> string" where
  "quad a b c d = int_str a @ ''.'' @ int_str b @ ''.'' @ int_str c @ ''.'' @ int_str d"

definition ip_str :: "int \<Rightarrow> string" where
  "ip_str n = quad (n div 2 ^ 24 mod 256) (n div 2 ^ 16 mod 256) (n div 2 ^ 8 mod 256) (n mod 256)"

text \<open>One octet: at most three ASCII digits, no leading zero, at most 255.\<close>

definition parse_octet :: "string \<Rightarrow> int option" where
  "parse_octet s =
     (if s \<noteq> [] \<and> list_all is_digit s \<and> length s \<le> 3 \<and> \<not> (s \<noteq> ''0'' \<and> hd s = CHR ''0'')
         \<and> digits_val s \<le> 255
      then Some (int (digits_val s)) else None)"

definition parse_ipv4 :: "string \<Rightarrow> int option" where
  "parse_ipv4 s =
     (case str_split (CHR ''.'') s of
        [a, b, c, d] \<Rightarrow>
          (case (parse_octet a, parse_octet b, parse_octet c, parse_octet d) of
             (Some w, Some x, Some y, Some z) \<Rightarrow> Some (((w * 256 + x) * 256 + y) * 256 + z)
           | _ \<Rightarrow> None)
      | _ \<Rightarrow> None)"

record ipv4_network =
  net_address :: int
  net_prefix :: nat

definition net_size :: "ipv4_network \<Rightarrow> int" where
  "net_size n = 2 ^ (32 - net_prefix n)"

definition broadcast_address :: "ipv4_network \<Rightarrow> int" where
  "broadcast_address n = net_address n + net_size n - 1"

definition in_network :: "int \<Rightarrow> ipv4_network \<Rightarrow> bool" where
  "in_network ip n \<longleftrightarrow> net_address n \<le> ip \<and> ip \<le> broadcast_address n"

definition network_str :: "ipv4_network \<Rightarrow> string" where
  "network_str n = ip_str (net_address n) @ ''/'' @ nat_str (net_prefix n)"

text \<open>
  The part after the slash: a prefix length, else a netmask (ones then zeros), else a
  host mask (zeros then ones).
\<close>

definition netmask :: "nat \<Rightarrow> int" where
  "netmask p = 2 ^ 32 - 2 ^ (32 - p)"

definition parse_prefix :: "string \<Rightarrow> nat option" where
  "parse_prefix s =
     (if s \<noteq> [] \<and> list_all is_digit s \<and> digits_val s \<le> 32 then Some (digits_val s)
      else (case parse_ipv4 s of
              None \<Rightarrow> None
            | Some m \<Rightarrow>
                (case find (\<lambda>p. netmask p = m) [0..<33] of
                   Some p \<Rightarrow> Some p
                 | None \<Rightarrow> find (\<lambda>p. 2 ^ 32 - 1 - netmask p = m) [0..<33])))"

text \<open>\<open>ip_network(subnet, strict=False)\<close>, which clears the host bits.\<close>

definition masked_network :: "int \<Rightarrow> nat \<Rightarrow> ipv4_network" where
  "masked_network ip p = \<lparr>net_address = ip - ip mod 2 ^ (32 - p), net_prefix = p\<rparr>"

definition ip_network :: "string \<Rightarrow> ipv4_network result" where
  "ip_network subnet =
     (case str_split (CHR ''/'') subnet of
        [a] \<Rightarrow> (case parse_ipv4 a of Some ip \<Rightarrow> Inr (masked_network ip 32) | None \<Rightarrow> Inl (ValueError subnet))
      | [a, m] \<Rightarrow>
          (case (parse_ipv4 a, parse_prefix m) of
             (Some ip, Some p) \<Rightarrow> Inr (masked_network ip p)
           | _ \<Rightarrow> Inl (ValueError subnet))
      | _ \<Rightarrow> Inl (ValueError subnet))"

section \<open>Management addressing\<close>

record management_addressing =
  ma_network :: ipv4_network
  ma_allocated_offsets :: "int list"

definition reserved :: "ipv4_network \<Rightarrow> int \<Rightarrow> bool" where
  "reserved n ip \<longleftrightarrow> ip = net_address n \<or> ip = broadcast_address n"

definition host_ip :: "management_addressing \<Rightarrow> int \<Rightarrow> string result" where
  "host_ip a offset =
     (let n = ma_network a; candidate = net_address n + offset
      in if offset \<le> 0 then
           Inl (ValueError (''Management host offset must be positive, got '' @ int_str offset))
         else if \<not> in_network candidate n then
           Inl (ValueError (''Management host offset '' @ int_str offset @ '' falls outside subnet '' @ network_str n))
         else if reserved n candidate then
           Inl (ValueError (''Management host offset '' @ int_str offset @ '' resolves to reserved address '' @ ip_str candidate))
         else Inr (ip_str candidate))"

definition create_addressing :: "string \<Rightarrow> int list \<Rightarrow> management_addressing result" where
  "create_addressing subnet allocated_offsets =
     bindE (ip_network subnet) (\<lambda>n.
       let a = \<lparr>ma_network = n, ma_allocated_offsets = allocated_offsets\<rparr>
       in bindE (mapE (host_ip a) allocated_offsets) (\<lambda>_. Inr a))"

definition allocated_ips :: "management_addressing \<Rightarrow> int set" where
  "allocated_ips a = (\<lambda>offset. net_address (ma_network a) + offset) ` set (ma_allocated_offsets a)"

definition validate_collector :: "management_addressing \<Rightarrow> string \<Rightarrow> string result" where
  "validate_collector a collector_ip =
     (case parse_ipv4 collector_ip of
        None \<Rightarrow> Inl (ValueError collector_ip)
      | Some candidate \<Rightarrow>
          (let n = ma_network a
           in if \<not> in_network candidate n then
                Inl (ValueError (''Collector IP '' @ collector_ip @ '' falls outside management subnet '' @ network_str n))
              else if reserved n candidate then
                Inl (ValueError (''Collector IP '' @ collector_ip @ '' is reserved in management subnet '' @ network_str n))
              else if candidate \<in> allocated_ips a then
                Inl (ValueError (''Collector IP '' @ collector_ip @ '' overlaps a generated device management address''))
              else Inr (ip_str candidate)))"

definition default_collector :: "management_addressing \<Rightarrow> int \<Rightarrow> bool \<Rightarrow> string result" where
  "default_collector a last_device_offset prefer_offset_200 =
     (let n = ma_network a; preferred = net_address n + 200;
          first_free = net_address n + last_device_offset + 1
      in if prefer_offset_200 \<and> last_device_offset < 200 \<and> in_network preferred n \<and> \<not> reserved n preferred
         then validate_collector a (ip_str preferred)
         else (let fallback = (if \<not> in_network first_free n \<or> reserved n first_free
                               then broadcast_address n - 1 else first_free)
               in validate_collector a (ip_str fallback)))"

section \<open>Addresses are read back\<close>

lemma int_div_less: "0 < q \<Longrightarrow> m < n * q \<Longrightarrow> m div q < n" for m n q :: int
proof (rule ccontr)
  assume q: "0 < q" "m < n * q" and "\<not> m div q < n"
  then have "n * q \<le> m div q * q" by (intro mult_right_mono) simp_all
  moreover have "m div q * q \<le> m" using q(1) div_mult_mod_eq [of m q] pos_mod_sign [of q m] by linarith
  ultimately show False using q(2) by linarith
qed

lemma parse_octet_int_str: "0 \<le> x \<Longrightarrow> x \<le> 255 \<Longrightarrow> parse_octet (int_str x) = Some x"
proof -
  assume x: "0 \<le> x" "x \<le> 255"
  have "length (nat_str (nat x)) \<le> 3" using x by (intro nat_str_length) auto
  moreover have "nat_str (nat x) \<noteq> ''0'' \<Longrightarrow> hd (nat_str (nat x)) \<noteq> CHR ''0''"
  proof
    assume ne: "nat_str (nat x) \<noteq> ''0''" and z: "hd (nat_str (nat x)) = CHR ''0''"
    from z have "nat x = 0" by (rule nat_str_hd_zero)
    moreover have "nat_str 0 = ''0''" by (simp add: nat_str.simps digit_char_def char_of_def bit_0)
    ultimately show False using ne by simp
  qed
  moreover have "nat x \<le> 255" using x by simp
  ultimately show ?thesis using x by (auto simp: parse_octet_def int_str_nonneg)
qed

lemma parse_quad:
  assumes "0 \<le> a" "a \<le> 255" "0 \<le> b" "b \<le> 255" "0 \<le> c" "c \<le> 255" "0 \<le> d" "d \<le> 255"
  shows "parse_ipv4 (quad a b c d) = Some (((a * 256 + b) * 256 + c) * 256 + d)"
  using assms by (simp add: parse_ipv4_def quad_def parse_octet_int_str)

lemma base256_digits:
  "n = q1 * 256 + r1 \<Longrightarrow> q1 = q2 * 256 + r2 \<Longrightarrow> q2 = q3 * 256 + r3 \<Longrightarrow>
   ((q3 * 256 + r3) * 256 + r2) * 256 + r1 = n" for n :: int
  by simp

lemma parse_ip_str: "0 \<le> n \<Longrightarrow> n < 2 ^ 32 \<Longrightarrow> parse_ipv4 (ip_str n) = Some n"
proof -
  assume n: "0 \<le> n" "n < 2 ^ 32"
  let ?a = "n div 2 ^ 24 mod 256" and ?b = "n div 2 ^ 16 mod 256" and ?c = "n div 2 ^ 8 mod 256" and ?d = "n mod 256"
  have r: "0 \<le> m mod 256 \<and> m mod 256 \<le> 255" for m :: int
    using pos_mod_bound [of 256 m] by simp
  have "parse_ipv4 (ip_str n) = Some (((?a * 256 + ?b) * 256 + ?c) * 256 + ?d)"
    unfolding ip_str_def by (rule parse_quad) (use r in blast)+
  moreover have "((?a * 256 + ?b) * 256 + ?c) * 256 + ?d = n"
  proof -
    have d: "n div 2 ^ 8 = n div 256" "n div 2 ^ 16 = n div 256 div 256" "n div 2 ^ 24 = n div 256 div 256 div 256"
      using zdiv_zmult2_eq [of 256 n 256] zdiv_zmult2_eq [of 256 n 65536] zdiv_zmult2_eq [of 256 "n div 256" 256]
      by simp_all
    have "n div 2 ^ 24 < 256" by (rule int_div_less) (use n in simp_all)
    moreover have "0 \<le> n div 2 ^ 24" using n by (intro pos_imp_zdiv_nonneg_iff [THEN iffD2]) simp_all
    ultimately have top: "n div 256 div 256 div 256 mod 256 = n div 256 div 256 div 256"
      unfolding d by (rule mod_pos_pos_trivial [rotated])
    show ?thesis unfolding d top by (rule base256_digits) (rule div_mult_mod_eq [symmetric])+
  qed
  ultimately show ?thesis by (simp only:)
qed

lemma quad_inject: "quad a b c d = quad a' b' c' d' \<longleftrightarrow> a = a' \<and> b = b' \<and> c = c' \<and> d = d'"
  by (simp add: quad_def sep_append_inject)

lemma quad_slash_inject:
  "quad a b c d @ CHR ''/'' # s = quad a' b' c' d' @ CHR ''/'' # s' \<longleftrightarrow> quad a b c d = quad a' b' c' d' \<and> s = s'"
  by (rule sep_append_inject) (simp_all add: quad_def)

text \<open>The networks the library makes: the address is aligned to the prefix and fits 32 bits.\<close>

definition wf_network :: "ipv4_network \<Rightarrow> bool" where
  "wf_network n \<longleftrightarrow> net_prefix n \<le> 32 \<and> 0 \<le> net_address n \<and> net_address n mod net_size n = 0
     \<and> net_address n + net_size n \<le> 2 ^ 32"

lemma parse_octet_range: "parse_octet s = Some x \<Longrightarrow> 0 \<le> x \<and> x \<le> 255"
  by (auto simp: parse_octet_def split: if_splits)

lemma parse_ipv4_range: "parse_ipv4 s = Some n \<Longrightarrow> 0 \<le> n \<and> n < 2 ^ 32"
  by (auto simp: parse_ipv4_def split: list.splits option.splits dest!: parse_octet_range)

lemma masked_network_wf:
  assumes "0 \<le> ip" "ip < 2 ^ 32" "p \<le> 32"
  shows "wf_network (masked_network ip p)"
proof -
  let ?s = "2 ^ (32 - p) :: int"
  have split: "(2::int) ^ 32 = 2 ^ p * ?s" using assms(3) by (simp flip: power_add)
  have q: "ip - ip mod ?s = ip div ?s * ?s" by (simp add: minus_mod_eq_div_mult)
  have "ip < 2 ^ p * ?s" using assms(2) split by simp
  then have "ip div ?s < 2 ^ p" by (intro int_div_less) simp_all
  then have "(ip div ?s + 1) * ?s \<le> 2 ^ p * ?s" by (intro mult_right_mono) simp_all
  then have "ip - ip mod ?s + ?s \<le> 2 ^ 32" unfolding q split by (simp add: algebra_simps)
  moreover have "0 \<le> ip - ip mod ?s" unfolding q using assms(1) by (simp add: pos_imp_zdiv_nonneg_iff)
  ultimately show ?thesis using assms(3) q by (simp add: wf_network_def masked_network_def net_size_def)
qed

lemma parse_prefix_range: "parse_prefix s = Some p \<Longrightarrow> p \<le> 32"
  by (auto simp: parse_prefix_def split: if_splits option.splits dest!: find_Some_set)

lemma ip_network_wf: "ip_network s = Inr n \<Longrightarrow> wf_network n"
  by (auto simp: ip_network_def split: list.splits option.splits
      intro!: masked_network_wf dest: parse_ipv4_range parse_prefix_range)

lemma parse_nat_prefix: "p \<le> 32 \<Longrightarrow> parse_prefix (nat_str p) = Some p"
  by (simp add: parse_prefix_def)

section \<open>Allocation\<close>

text \<open>
  What a builder relies on: an offset that the allocator deems usable gets an address, and
  different usable offsets get different addresses.
\<close>

locale address_allocator =
  fixes host :: "'a \<Rightarrow> int \<Rightarrow> string result"
    and usable :: "'a \<Rightarrow> int \<Rightarrow> bool"
  assumes host_usable: "usable a i \<Longrightarrow> \<exists>s. host a i = Inr s"
    and host_inj: "usable a i \<Longrightarrow> usable a j \<Longrightarrow> host a i = host a j \<Longrightarrow> i = j"
begin

definition addr :: "'a \<Rightarrow> int \<Rightarrow> string" where
  "addr a i = (case host a i of Inr s \<Rightarrow> s | Inl e \<Rightarrow> [])"

lemma host_addr: "usable a i \<Longrightarrow> host a i = Inr (addr a i)"
  using host_usable by (fastforce simp: addr_def)

lemma hosts_succeed: "(\<And>i. i \<in> set xs \<Longrightarrow> usable a i) \<Longrightarrow> mapE (host a) xs = Inr (map (addr a) xs)"
  by (rule mapE_Inr_map) (rule host_addr)

lemma addrs_distinct: "distinct xs \<Longrightarrow> (\<And>i. i \<in> set xs \<Longrightarrow> usable a i) \<Longrightarrow> distinct (map (addr a) xs)"
proof (rule distinct_map_inj)
  fix x y
  assume "\<And>i. i \<in> set xs \<Longrightarrow> usable a i" "x \<in> set xs" "y \<in> set xs" "addr a x = addr a y"
  then show "x = y" using host_inj [of a x y] host_addr [of a x] host_addr [of a y] by simp
qed

end

definition usable_offset :: "management_addressing \<Rightarrow> int \<Rightarrow> bool" where
  "usable_offset a i \<longleftrightarrow> wf_network (ma_network a) \<and> 0 < i \<and> i < net_size (ma_network a) - 1"

lemma host_ip_usable: "usable_offset a i \<Longrightarrow> host_ip a i = Inr (ip_str (net_address (ma_network a) + i))"
  by (simp add: host_ip_def usable_offset_def in_network_def broadcast_address_def reserved_def)

lemma usable_address_range:
  "usable_offset a i \<Longrightarrow> 0 \<le> net_address (ma_network a) + i \<and> net_address (ma_network a) + i < 2 ^ 32"
  by (auto simp: usable_offset_def wf_network_def)

lemma ip_str_inj: "0 \<le> m \<Longrightarrow> m < 2 ^ 32 \<Longrightarrow> 0 \<le> n \<Longrightarrow> n < 2 ^ 32 \<Longrightarrow> ip_str m = ip_str n \<Longrightarrow> m = n"
  using parse_ip_str by (metis option.inject)

interpretation mgmt: address_allocator host_ip usable_offset
proof
  fix a i j
  show "\<exists>s. host_ip a i = Inr s" if "usable_offset a i"
    using host_ip_usable [OF that] by blast
  show "i = j" if "usable_offset a i" "usable_offset a j" "host_ip a i = host_ip a j"
    using that usable_address_range [of a i] usable_address_range [of a j]
      ip_str_inj [of "net_address (ma_network a) + i" "net_address (ma_network a) + j"]
    by (simp add: host_ip_usable)
qed

lemma host_ip_Inr_iff:
  assumes "wf_network (ma_network a)"
  shows "(\<exists>s. host_ip a i = Inr s) \<longleftrightarrow> usable_offset a i"
  using assms
  by (auto simp: host_ip_def usable_offset_def Let_def in_network_def broadcast_address_def reserved_def)

lemma create_addressing_network:
  "create_addressing subnet offsets = Inr a \<Longrightarrow>
     ip_network subnet = Inr (ma_network a) \<and> ma_allocated_offsets a = offsets
     \<and> (\<forall>i \<in> set offsets. usable_offset a i)"
proof -
  assume c: "create_addressing subnet offsets = Inr a"
  then obtain n xs where n: "ip_network subnet = Inr n" "a = \<lparr>ma_network = n, ma_allocated_offsets = offsets\<rparr>"
    and xs: "mapE (host_ip a) offsets = Inr xs"
    by (auto simp: create_addressing_def bindE_Inr_conv Let_def)
  have "usable_offset a i" if "i \<in> set offsets" for i
    using mapE_Inr_all [OF xs that] host_ip_Inr_iff [of a i] ip_network_wf [OF n(1)] n(2) by auto
  then show ?thesis using n by simp
qed

lemma validate_collector_Inr:
  assumes "validate_collector a ip = Inr s"
  shows "\<exists>c. parse_ipv4 ip = Some c \<and> s = ip_str c \<and> in_network c (ma_network a) \<and>
    \<not> reserved (ma_network a) c \<and> c \<notin> allocated_ips a"
  using assms by (auto simp: validate_collector_def Let_def split: option.splits if_splits)

lemma validate_collector_free:
  assumes "validate_collector a ip = Inr s" "create_addressing subnet offsets = Inr a" "i \<in> set offsets"
  shows "host_ip a i \<noteq> Inr s"
proof
  assume h: "host_ip a i = Inr s"
  obtain c where c: "parse_ipv4 ip = Some c" "s = ip_str c" "c \<notin> allocated_ips a"
    using validate_collector_Inr [OF assms(1)] by blast
  have a: "usable_offset a i" "ma_allocated_offsets a = offsets"
    using create_addressing_network [OF assms(2)] assms(3) by auto
  have "ip_str (net_address (ma_network a) + i) = ip_str c"
    using h host_ip_usable [OF a(1)] c(2) by simp
  then have "net_address (ma_network a) + i = c"
    using usable_address_range [OF a(1)] parse_ipv4_range [OF c(1)] by (intro ip_str_inj) auto
  then show False using c(3) a(2) assms(3) by (auto simp: allocated_ips_def)
qed

lemma validate_collector_of_int:
  assumes "wf_network (ma_network a)" "in_network c (ma_network a)" "\<not> reserved (ma_network a) c"
    "c \<notin> allocated_ips a"
  shows "validate_collector a (ip_str c) = Inr (ip_str c)"
proof -
  have "parse_ipv4 (ip_str c) = Some c"
    using assms(1,2) by (intro parse_ip_str) (auto simp: wf_network_def in_network_def broadcast_address_def)
  then show ?thesis using assms by (simp add: validate_collector_def)
qed

lemma default_collector_succeeds:
  assumes "wf_network (ma_network a)" "0 < ldo" "ldo + 1 < net_size (ma_network a) - 1"
    and "\<And>i. i \<in> set (ma_allocated_offsets a) \<Longrightarrow> i \<le> ldo"
  shows "\<exists>c. default_collector a ldo pref = Inr c \<and> validate_collector a c = Inr c"
proof -
  let ?n = "ma_network a"
  have free: "net_address ?n + i \<notin> allocated_ips a" if "ldo < i" for i
    using that assms(4) by (force simp: allocated_ips_def)
  have ok: "validate_collector a (ip_str (net_address ?n + i)) = Inr (ip_str (net_address ?n + i))"
    if "ldo < i" "in_network (net_address ?n + i) ?n" "\<not> reserved ?n (net_address ?n + i)" for i
    using that free assms(1) by (intro validate_collector_of_int) auto
  have f: "in_network (net_address ?n + ldo + 1) ?n" "\<not> reserved ?n (net_address ?n + ldo + 1)"
    using assms(2,3) by (auto simp: in_network_def reserved_def broadcast_address_def)
  show ?thesis
    using ok [of 200] ok [of "ldo + 1"] f
    by (auto simp: default_collector_def Let_def add.assoc)
qed

lemma example_network: "ip_network ''172.20.20.0/24'' = Inr \<lparr>net_address = 2886996992, net_prefix = 24\<rparr>"
  by code_simp

section \<open>Properties\<close>

text \<open>
  Management addresses: in a network made from a subnet string, an offset gets an address
  exactly when it lies strictly between the network and the broadcast address; the address
  parses back to network plus offset, and two offsets never share one.
\<close>

theorem host_ip_allocates:
  assumes "ip_network subnet = Inr (ma_network a)"
  shows "(isl (host_ip a i) \<longleftrightarrow> i \<le> 0 \<or> net_size (ma_network a) - 1 \<le> i) \<and>
    (\<not> isl (host_ip a i) \<longrightarrow> parse_ipv4 (projr (host_ip a i)) = Some (net_address (ma_network a) + i)) \<and>
    (host_ip a i = host_ip a j \<and> \<not> isl (host_ip a i) \<longrightarrow> i = j)"
proof -
  have wf: "wf_network (ma_network a)" using ip_network_wf [OF assms] .
  have iff: "\<not> isl (host_ip a k) \<longleftrightarrow> usable_offset a k" for k
    using host_ip_Inr_iff [OF wf, of k] by (cases "host_ip a k") auto
  show ?thesis
    using iff [of i] iff [of j] mgmt.host_inj [of a i j] wf host_ip_usable [of a i] usable_address_range [of a i]
    by (auto simp: usable_offset_def parse_ip_str)
qed

theorem host_ip_allocates_witness:
  "parse_ipv4 (projr (host_ip \<lparr>ma_network = \<lparr>net_address = 2886996992, net_prefix = 24\<rparr>,
     ma_allocated_offsets = []\<rparr> 11)) = Some 2886997003"
proof -
  have "ip_network ''172.20.20.0/24'' = Inr (ma_network \<lparr>ma_network = \<lparr>net_address = 2886996992, net_prefix = 24\<rparr>,
     ma_allocated_offsets = []\<rparr>)" by (simp add: example_network)
  from host_ip_allocates [OF this, of 11] show ?thesis by (simp add: net_size_def)
qed

text \<open>
  The telemetry collector never takes a device's management address, whether it was
  configured or chosen by default; and the default choice succeeds whenever one more address
  fits behind the last device.
\<close>

theorem collector_address_free:
  assumes "create_addressing subnet offsets = Inr a"
  shows "(\<forall>ip s i. validate_collector a ip = Inr s \<and> i \<in> set offsets \<longrightarrow> host_ip a i \<noteq> Inr s) \<and>
    (\<forall>ldo pref s i. default_collector a ldo pref = Inr s \<and> i \<in> set offsets \<longrightarrow> host_ip a i \<noteq> Inr s) \<and>
    (\<forall>ldo pref. 0 < ldo \<and> ldo + 1 < net_size (ma_network a) - 1 \<and> (\<forall>i \<in> set offsets. i \<le> ldo)
       \<longrightarrow> \<not> isl (default_collector a ldo pref))"
proof (intro conjI allI impI; (elim conjE)?)
  show "host_ip a i \<noteq> Inr s" if "validate_collector a ip = Inr s" "i \<in> set offsets" for ip s i
    using validate_collector_free [OF that(1) assms that(2)] .
  show "host_ip a i \<noteq> Inr s" if "default_collector a ldo pref = Inr s" "i \<in> set offsets" for ldo pref s i
    using that validate_collector_free [OF _ assms that(2)]
    by (auto simp: default_collector_def Let_def split: if_splits)
  show "\<not> isl (default_collector a ldo pref)"
    if "0 < ldo" "ldo + 1 < net_size (ma_network a) - 1" "\<forall>i \<in> set offsets. i \<le> ldo" for ldo pref
    using that default_collector_succeeds [of a ldo pref] create_addressing_network [OF assms] ip_network_wf
    by fastforce
qed

theorem collector_address_free_witness:
  "let a = \<lparr>ma_network = \<lparr>net_address = 2886996992, net_prefix = 24\<rparr>, ma_allocated_offsets = [11, 12]\<rparr>
   in \<not> isl (default_collector a 12 True) \<and> host_ip a 11 \<noteq> default_collector a 12 True"
proof -
  let ?a = "\<lparr>ma_network = \<lparr>net_address = 2886996992, net_prefix = 24\<rparr>, ma_allocated_offsets = [11, 12]\<rparr>"
  have "create_addressing ''172.20.20.0/24'' [11, 12] = Inr ?a" by code_simp
  note c = collector_address_free [OF this]
  have "\<not> isl (default_collector ?a 12 True)" using c by (simp add: net_size_def)
  then obtain s where "default_collector ?a 12 True = Inr s" by (cases "default_collector ?a 12 True") auto
  then show ?thesis using c by auto
qed

end
