(* ===== verification/Fabric_Plan.thy ===== *)
theory Fabric_Plan
  imports Topology_Model Addressing Scale_Profiles Interface_Names
begin

text \<open>
  The fabric-planning vocabulary both topology builders share: \<open>topology/plan.py\<close> (device
  and fabric plans with their consistency check), \<open>topology/config.py\<close> (the two configuration
  classes and their derivation from a scale profile) and the remaining helpers of
  \<open>topology/planning.py\<close>.
\<close>

section \<open>Plans\<close>

record bgp_neighbor_plan =
  bn_peer_ip :: string
  bn_remote_as :: int

record device_plan =
  dp_device :: device
  dp_required_ports :: int
  dp_interface_cidrs :: "(string, string list) dict"
  dp_bgp_asn :: "int option"
  dp_bgp_router_id :: "string option"
  dp_bgp_neighbors :: "bgp_neighbor_plan list"
  dp_bgp_networks :: "string list"
  dp_client_commands :: "string list"

definition plan_is_client :: "device_plan \<Rightarrow> bool" where
  "plan_is_client dp \<longleftrightarrow> dev_role (dp_device dp) = CLIENT"

definition plan_name :: "device_plan \<Rightarrow> string" where
  "plan_name dp = dev_name (dp_device dp)"

record fabric_plan =
  fp_manifest :: manifest
  fp_device_plans :: "device_plan list"
  fp_nos_kind :: string
  fp_nos_image :: string
  fp_client_image :: string
  fp_syslog_collector :: string
  fp_yaml_header :: string

fun check_switch_plans :: "device_plan list \<Rightarrow> unit result" where
  "check_switch_plans [] = Inr ()"
| "check_switch_plans (dp # dps) =
     (if plan_is_client dp then check_switch_plans dps
      else if dp_required_ports dp \<le> 0 then
        Inl (ValueError (''switch '' @ plan_name dp @ '' must define required_ports''))
      else if dp_bgp_asn dp = None \<or> dp_bgp_router_id dp = None then
        Inl (ValueError (''switch '' @ plan_name dp @ '' must define BGP identity''))
      else check_switch_plans dps)"

definition make_fabric_plan :: "fabric_plan \<Rightarrow> fabric_plan result" where
  "make_fabric_plan fp =
     (if map dev_name (mf_devices (fp_manifest fp)) \<noteq> map plan_name (fp_device_plans fp) then
        Inl (ValueError ''FabricPlan device plans must match canonical manifest device order'')
      else bindE (check_switch_plans (fp_device_plans fp)) (\<lambda>_. Inr fp))"

lemma check_switch_plans_ok:
  "check_switch_plans dps = Inr () \<longleftrightarrow>
     (\<forall>dp \<in> set dps. \<not> plan_is_client dp \<longrightarrow>
        0 < dp_required_ports dp \<and> dp_bgp_asn dp \<noteq> None \<and> dp_bgp_router_id dp \<noteq> None)"
  by (induction dps rule: check_switch_plans.induct) auto

lemma make_fabric_plan_iff:
  "make_fabric_plan fp = Inr fp' \<longleftrightarrow>
     fp' = fp \<and> map dev_name (mf_devices (fp_manifest fp)) = map plan_name (fp_device_plans fp)
     \<and> check_switch_plans (fp_device_plans fp) = Inr ()"
  by (cases "check_switch_plans (fp_device_plans fp)") (auto simp: make_fabric_plan_def)

section \<open>Configurations\<close>

definition default_sonic_vs_image :: string where
  "default_sonic_vs_image =
     ''yyyyyt123/netopsbench-sonic-vs-202505-telemetry''
     @ ''@sha256:0e039d2fea3f85788f15db8ebad27cf5bd5b2cdaf17e8c31eab852021e23ea73''"

definition default_client_image :: string where
  "default_client_image =
     ''docker.io/yyyyyt123/netopsbench-client''
     @ ''@sha256:8c3c2997cac3796f9145a5a88f038a86c026972fa5594e157c7d7c323bd9dbd7''"

record topology_config =
  tc_name :: string
  tc_num_spines :: int
  tc_num_leafs :: int
  tc_clients_per_leaf :: int
  tc_nos_kind :: string
  tc_nos_image :: string
  tc_client_image :: string
  tc_mgmt_ipv4_subnet :: string
  tc_mgmt_network_name :: "string option"
  tc_collector_ip :: "string option"
  tc_spine_asn :: int
  tc_leaf_asn_start :: int
  tc_scale_name :: "string option"
  tc_pingmesh_policy :: "pingmesh_policy option"

definition default_topology_config :: topology_config where
  "default_topology_config =
     \<lparr>tc_name = ''dcn'', tc_num_spines = 2, tc_num_leafs = 2, tc_clients_per_leaf = 1,
      tc_nos_kind = ''sonic-vs'', tc_nos_image = default_sonic_vs_image,
      tc_client_image = default_client_image, tc_mgmt_ipv4_subnet = ''172.20.20.0/24'',
      tc_mgmt_network_name = None, tc_collector_ip = None, tc_spine_asn = 65001,
      tc_leaf_asn_start = 65011, tc_scale_name = None, tc_pingmesh_policy = None\<rparr>"

record fat_tree_config =
  fc_k :: int
  fc_name :: string
  fc_nos_kind :: string
  fc_nos_image :: string
  fc_client_image :: string
  fc_mgmt_ipv4_subnet :: string
  fc_mgmt_network_name :: "string option"
  fc_collector_ip :: "string option"
  fc_core_asn_start :: int
  fc_agg_asn_start :: int
  fc_edge_asn_start :: int
  fc_clients_per_edge :: "int option"
  fc_scale_name :: "string option"
  fc_pingmesh_policy :: "pingmesh_policy option"

definition default_fat_tree_config :: "int \<Rightarrow> fat_tree_config" where
  "default_fat_tree_config k =
     \<lparr>fc_k = k, fc_name = ''dcn'', fc_nos_kind = ''sonic-vs'', fc_nos_image = default_sonic_vs_image,
      fc_client_image = default_client_image, fc_mgmt_ipv4_subnet = ''172.20.20.0/24'',
      fc_mgmt_network_name = None, fc_collector_ip = None, fc_core_asn_start = 65001,
      fc_agg_asn_start = 65101, fc_edge_asn_start = 65201, fc_clients_per_edge = None,
      fc_scale_name = None, fc_pingmesh_policy = None\<rparr>"

definition half :: "fat_tree_config \<Rightarrow> int" where
  "half c = fc_k c div 2"

definition num_core :: "fat_tree_config \<Rightarrow> int" where
  "num_core c = half c * half c"

definition num_pods :: "fat_tree_config \<Rightarrow> int" where
  "num_pods c = fc_k c"

definition num_total_agg :: "fat_tree_config \<Rightarrow> int" where
  "num_total_agg c = fc_k c * half c"

definition num_total_edge :: "fat_tree_config \<Rightarrow> int" where
  "num_total_edge c = fc_k c * half c"

definition num_total_clients :: "fat_tree_config \<Rightarrow> int" where
  "num_total_clients c = num_total_edge c * int_or_0 (fc_clients_per_edge c)"

definition host_density :: "fat_tree_config \<Rightarrow> string" where
  "host_density c = (if fc_clients_per_edge c = Some (half c) then ''standard'' else ''sparse'')"

text \<open>\<open>__post_init__\<close>.\<close>

definition make_fat_tree_config :: "fat_tree_config \<Rightarrow> fat_tree_config result" where
  "make_fat_tree_config c =
     (if fc_k c < 2 \<or> fc_k c mod 2 \<noteq> 0 then
        Inl (ValueError (''fat-tree k must be a positive even integer, got '' @ int_str (fc_k c)))
      else
        (let clients = (case fc_clients_per_edge c of None \<Rightarrow> half c | Some n \<Rightarrow> n)
         in if \<not> (1 \<le> clients \<and> clients \<le> half c) then
              Inl (ValueError (''clients_per_edge must be between 1 and k/2 ('' @ int_str (half c)
                @ ''), got '' @ int_str clients))
            else Inr (c\<lparr>fc_clients_per_edge := Some clients\<rparr>)))"

section \<open>From a scale profile to a configuration\<close>

definition make_policy :: "pingmesh_policy \<Rightarrow> pingmesh_policy result" where
  "make_policy p = (if validate_policy p then Inr p else Inl (ValidationError ''PingmeshPolicy''))"

definition pingmesh_policy_for_profile :: "scale_profile \<Rightarrow> pingmesh_policy result" where
  "pingmesh_policy_for_profile p =
     (let pp = sp_pingmesh p
      in make_policy
           \<lparr>pol_destination_batch_size = pp_destination_batch_size pp,
            pol_rtt_port_pool_size = pp_rtt_port_pool_size pp,
            pol_rtt_ports_per_cycle = pp_rtt_ports_per_cycle pp,
            pol_cycle_interval_seconds = pp_cycle_interval_seconds pp,
            pol_df_payload_size = default_sonic_port_mtu - 28\<rparr>)"

definition pingmesh_policy_for_scale ::
  "scale_registry \<Rightarrow> string \<Rightarrow> scale_registry option \<Rightarrow> pingmesh_policy result" where
  "pingmesh_policy_for_scale default_profiles scale registry =
     bindE (get_scale_profile default_profiles scale registry) pingmesh_policy_for_profile"

definition topology_mgmt_subnet :: "scale_profile \<Rightarrow> string" where
  "topology_mgmt_subnet p = ''172.20.20.0/'' @ int_str (mp_prefix (sp_management p))"

definition clos_config_from_profile :: "scale_profile \<Rightarrow> topology_config result" where
  "clos_config_from_profile p =
     bindE (pingmesh_policy_for_profile p) (\<lambda>policy.
       Inr (default_topology_config
         \<lparr>tc_num_spines := int_or_0 (num_spines p), tc_num_leafs := int_or_0 (num_leafs p),
          tc_clients_per_leaf := clients_per_attached_switch p,
          tc_mgmt_ipv4_subnet := topology_mgmt_subnet p, tc_scale_name := Some (sp_name p),
          tc_pingmesh_policy := Some policy\<rparr>))"

definition fat_tree_config_from_profile :: "scale_profile \<Rightarrow> fat_tree_config result" where
  "fat_tree_config_from_profile p =
     bindE (pingmesh_policy_for_profile p) (\<lambda>policy.
       make_fat_tree_config ((default_fat_tree_config (int_or_0 (fat_tree_k p)))
         \<lparr>fc_clients_per_edge := Some (clients_per_attached_switch p),
          fc_mgmt_ipv4_subnet := topology_mgmt_subnet p, fc_scale_name := Some (sp_name p),
          fc_pingmesh_policy := Some policy\<rparr>))"

datatype fabric_config = ClosConfig topology_config | FatTree fat_tree_config

definition config_for_scale ::
  "scale_registry \<Rightarrow> string \<Rightarrow> scale_registry option \<Rightarrow> fabric_config result" where
  "config_for_scale default_profiles scale registry =
     bindE (get_scale_profile default_profiles scale registry) (\<lambda>p.
       if family p = ''clos'' then bindE (clos_config_from_profile p) (\<lambda>c. Inr (ClosConfig c))
       else bindE (fat_tree_config_from_profile p) (\<lambda>c. Inr (FatTree c)))"

section \<open>Names, ports and client commands\<close>

definition build_render_settings :: "management_addressing \<Rightarrow> string \<Rightarrow> string result" where
  "build_render_settings a collector_ip = validate_collector a collector_ip"

definition sonic_port_name :: "int \<Rightarrow> string" where
  "sonic_port_name eth_index = ''Ethernet'' @ int_str ((eth_index - 1) * 4)"

definition client_commands :: "string \<Rightarrow> string \<Rightarrow> string list" where
  "client_commands client_ip gateway =
     [''ip link set dev eth1 mtu 9232'',
      ''ip addr add '' @ client_ip @ ''/30 dev eth1'',
      ''ip route add 192.168.0.0/16 via '' @ gateway,
      ''ethtool -K eth1 rx off tx off tso off gso off gro off sg off tx-udp-segmentation off'']"

text \<open>\<open>prefix + str(i)\<close> and \<open>/30\<close> interface addresses.\<close>

definition numbered :: "string \<Rightarrow> int \<Rightarrow> string" where
  "numbered base i = base @ int_str i"

definition cidr30 :: "string \<Rightarrow> string" where
  "cidr30 ip = ip @ ''/30''"

definition eth :: "int \<Rightarrow> string" where
  "eth i = numbered ''eth'' i"

lemma numbered_inject [simp]: "numbered base i = numbered base j \<longleftrightarrow> i = j"
  by (simp add: numbered_def)

lemma numbered_not_Nil [simp]: "base \<noteq> [] \<Longrightarrow> numbered base i \<noteq> []"
  by (simp add: numbered_def)

lemma sonic_port_name_inject [simp]: "sonic_port_name i = sonic_port_name j \<longleftrightarrow> i = j"
  by (simp add: sonic_port_name_def)

lemma cidr30_inject [simp]: "cidr30 a = cidr30 b \<longleftrightarrow> a = b"
  by (simp add: cidr30_def)

text \<open>A name is never that of another kind of device: the first characters differ.\<close>

lemma numbered_neq: "hd base \<noteq> hd base' \<Longrightarrow> base \<noteq> [] \<Longrightarrow> base' \<noteq> [] \<Longrightarrow> numbered base i \<noteq> numbered base' j"
  by (cases base; cases base') (auto simp: numbered_def)

text \<open>A dictionary comprehension with pairwise different keys is just its list of entries.\<close>

lemma dict_of_distinct: "distinct (map fst kvs) \<Longrightarrow> dict_of kvs = kvs"
proof -
  have "distinct (map fst d @ map fst kvs) \<Longrightarrow> fold (\<lambda>(k, v) d. AList.update k v d) kvs d = d @ kvs" for d
  proof (induction kvs arbitrary: d)
    case (Cons p kvs)
    obtain k v where p: "p = (k, v)" by (cases p)
    then have "AList.update k v d = d @ [(k, v)]" using Cons.prems by (intro update_absent) auto
    then show ?case using Cons.IH [of "d @ [(k, v)]"] Cons.prems p by simp
  qed simp
  from this [of "[]"] show "distinct (map fst kvs) \<Longrightarrow> dict_of kvs = kvs"
    by (simp add: dict_of_def)
qed

lemma present_map: "present field (map f xs) = concat (map (\<lambda>x. case field (f x) of Some v \<Rightarrow> [v] | None \<Rightarrow> []) xs)"
  by (simp add: present_def comp_def)

lemma present_append [simp]: "present field (xs @ ys) = present field xs @ present field ys"
  by (simp add: present_def)

lemma present_Nil [simp]: "present field [] = []"
  by (simp add: present_def)

lemma present_Cons: "present field (x # xs) = (case field x of Some v \<Rightarrow> [v] | None \<Rightarrow> []) @ present field xs"
  by (simp add: present_def)

lemma present_concat: "present field (concat xss) = concat (map (present field) xss)"
  by (induction xss) simp_all

lemma present_some: "(\<And>x. x \<in> set xs \<Longrightarrow> field (f x) = Some (g x)) \<Longrightarrow> present field (map f xs) = map g xs"
  by (induction xs) (simp_all add: present_def)

lemma present_none: "(\<And>x. x \<in> set xs \<Longrightarrow> field (f x) = None) \<Longrightarrow> present field (map f xs) = []"
  by (induction xs) (simp_all add: present_def)

section \<open>What a fabric plan promises about its routing sessions\<close>

text \<open>
  The two addresses are the two usable hosts of one \<open>/30\<close> subnet, so they can reach each
  other over the link.
\<close>

definition same_slash30 :: "string \<Rightarrow> string \<Rightarrow> bool" where
  "same_slash30 x y \<longleftrightarrow>
     (\<exists>m n. parse_ipv4 x = Some m \<and> parse_ipv4 y = Some n \<and> m div 4 = n div 4 \<and>
        {m mod 4, n mod 4} = {1, 2})"

text \<open>
  A link between two switches carries a consistent eBGP session: each end has configured its
  own address on exactly the port the link names, and lists the other end's address and
  autonomous system among its neighbours.
\<close>

definition bgp_session_ok :: "device_plan \<Rightarrow> string \<Rightarrow> device_plan \<Rightarrow> string \<Rightarrow> bool" where
  "bgp_session_ok A ifA B ifB \<longleftrightarrow>
     (\<exists>x y asnA asnB.
        dict_get (dp_interface_cidrs A) (to_sonic_interface (Some ifA)) = Some [cidr30 x] \<and>
        dict_get (dp_interface_cidrs B) (to_sonic_interface (Some ifB)) = Some [cidr30 y] \<and>
        dp_bgp_asn A = Some asnA \<and> dp_bgp_asn B = Some asnB \<and>
        \<lparr>bn_peer_ip = y, bn_remote_as = asnB\<rparr> \<in> set (dp_bgp_neighbors A) \<and>
        \<lparr>bn_peer_ip = x, bn_remote_as = asnA\<rparr> \<in> set (dp_bgp_neighbors B) \<and>
        same_slash30 x y)"

definition plan_named :: "fabric_plan \<Rightarrow> string \<Rightarrow> device_plan option" where
  "plan_named fp n = find (\<lambda>dp. plan_name dp = n) (fp_device_plans fp)"

definition sessions_ok :: "fabric_plan \<Rightarrow> bool" where
  "sessions_ok fp \<longleftrightarrow>
     (\<forall>k \<in> set (mf_links (fp_manifest fp)). \<exists>A B.
        plan_named fp (ep_device (fst (link_endpoints k))) = Some A \<and>
        plan_named fp (ep_device (snd (link_endpoints k))) = Some B \<and>
        (plan_is_client A \<or> plan_is_client B \<or>
         bgp_session_ok A (ep_interface (fst (link_endpoints k))) B (ep_interface (snd (link_endpoints k)))))"

lemma find_by_name:
  "distinct (map plan_name dps) \<Longrightarrow> dp \<in> set dps \<Longrightarrow> find (\<lambda>d. plan_name d = plan_name dp) dps = Some dp"
  by (induction dps) auto

lemma eth_port_sonic: "1 \<le> i \<Longrightarrow> to_sonic_interface (Some (eth i)) = sonic_port_name i"
proof -
  assume i: "1 \<le> i"
  then have e: "eth i = eth_name (nat i)"
    by (simp add: eth_def numbered_def eth_name_def int_str_nonneg)
  have "nat ((i - 1) * 4) = (nat i - 1) * 4" using i by simp
  then have s: "sonic_port_name i = sonic_name ((nat i - 1) * 4)"
    using i by (simp add: sonic_port_name_def sonic_name_def int_str_nonneg)
  have "eth_name (nat i) \<in> port_labels (nat i)" by (simp add: port_labels_def)
  then show ?thesis unfolding e s using i by (intro conversions_of_port_label(1)) simp_all
qed

lemma map_of_map_inj:
  "inj_on k (set xs) \<Longrightarrow> x \<in> set xs \<Longrightarrow> map_of (map (\<lambda>l. (k l, v l)) xs) (k x) = Some (v x)"
  by (induction xs) (auto simp: inj_on_def)

lemma same_slash30_quads:
  assumes "0 \<le> a" "a \<le> 255" "0 \<le> b" "b \<le> 255" "0 \<le> c" "c \<le> 255" "0 \<le> d" "4 * d + 2 \<le> 255"
  shows "same_slash30 (quad a b c (4 * d + 1)) (quad a b c (4 * d + 2))"
proof -
  define h where "h = ((a * 256 + b) * 256 + c) * 64 + d"
  have "parse_ipv4 (quad a b c (4 * d + 1)) = Some (((a * 256 + b) * 256 + c) * 256 + (4 * d + 1))"
    by (rule parse_quad) (use assms in linarith)+
  then have m: "parse_ipv4 (quad a b c (4 * d + 1)) = Some (4 * h + 1)" by (simp add: h_def)
  have "parse_ipv4 (quad a b c (4 * d + 2)) = Some (((a * 256 + b) * 256 + c) * 256 + (4 * d + 2))"
    by (rule parse_quad) (use assms in linarith)+
  then have n: "parse_ipv4 (quad a b c (4 * d + 2)) = Some (4 * h + 2)" by (simp add: h_def)
  have "(4 * h + 1) div 4 = (4 * h + 2) div 4" "(4 * h + 1) mod 4 = 1" "(4 * h + 2) mod 4 = 2"
    by presburger+
  then have "(4 * h + 1) div 4 = (4 * h + 2) div 4 \<and> {(4 * h + 1) mod 4, (4 * h + 2) mod 4} = {1, 2}"
    by (simp only: simp_thms)
  with m n show ?thesis unfolding same_slash30_def by blast
qed

end
