(* ===== verification/Builder_Lib.thy ===== *)
theory Builder_Lib
  imports Fabric_Plan
begin

text \<open>
  What the two fabric builders share: the link constructor, the client subnet arithmetic, the
  \<open>or\<close> default of Python strings, and the lemmas on numbering, addressing and distinctness
  that both manifests rest on.
\<close>

section \<open>Shared pieces of the builders\<close>

definition subnet_base :: "int \<Rightarrow> int" where
  "subnet_base client_position = (client_position - 1) * 4"

definition client_index :: "int \<Rightarrow> int \<Rightarrow> int \<Rightarrow> int" where
  "client_index clients_per_switch i client_position = (i - 1) * clients_per_switch + client_position"

definition make_link :: "string \<Rightarrow> string \<times> string \<Rightarrow> string \<times> string \<Rightarrow> link" where
  "make_link kind left right =
     \<lparr>link_kind = kind,
      link_endpoints = (\<lparr>ep_device = fst left, ep_interface = snd left\<rparr>, \<lparr>ep_device = fst right, ep_interface = snd right\<rparr>),
      link_mtu = default_link_mtu\<rparr>"

definition newline :: string where
  "newline = [CHR 0x0A]"

definition or_default :: "string option \<Rightarrow> string \<Rightarrow> string" where
  "or_default x d = (case x of Some s \<Rightarrow> if s = [] then d else s | None \<Rightarrow> d)"

text \<open>The plan of each device once its management address is known.\<close>

definition the_plan :: "device_plan result \<Rightarrow> device_plan" where
  "the_plan r = projr r"

section \<open>Numbering and addressing\<close>

lemma map_plus_upto: "map (\<lambda>i. k + i) [a..b] = [k + a..k + b]" for k a b :: int
proof (induction a b rule: upto.induct)
  case (1 a b)
  show ?case
  proof (cases "a \<le> b")
    case True
    then show ?thesis using "1" by (simp add: upto_rec1 [of a b] upto_rec1 [of "k + a" "k + b"] add.assoc)
  next
    case False
    then show ?thesis by simp
  qed
qed

lemma upto_append: "a \<le> b + 1 \<Longrightarrow> b \<le> c \<Longrightarrow> [a..b] @ [b + 1..c] = [a..c]" for a b c :: int
proof -
  assume "a \<le> b + 1" "b \<le> c"
  moreover have "a = b + 1" if "\<not> a \<le> b" using calculation that by simp
  ultimately show ?thesis by (cases "a \<le> b") (simp_all add: upto_split2 [of a b c])
qed

text \<open>Numbering the clients switch by switch counts them from one without gaps.\<close>

lemma client_indices_nat:
  "0 \<le> k \<Longrightarrow> concat (map (\<lambda>l. map (client_index k l) [1..k]) [1..int m]) = [1..int m * k]"
proof (induction m)
  case (Suc m)
  have "map (client_index k (int (Suc m))) [1..k] = [int m * k + 1..int m * k + k]"
    by (simp add: client_index_def [abs_def] map_plus_upto)
  then show ?case
    using Suc upto_append [of 1 "int m * k" "int m * k + k"]
    by (simp add: upto_rec2 [of 1 "1 + int m"] algebra_simps)
qed simp

lemma client_indices:
  "0 \<le> k \<Longrightarrow> 0 \<le> n \<Longrightarrow> concat (map (\<lambda>l. map (\<lambda>p. f (client_index k l p)) [1..k]) [1..n]) = map f [1..n * k]"
proof -
  assume "0 \<le> k" "0 \<le> n"
  then have "map f (concat (map (\<lambda>l. map (client_index k l) [1..k]) [1..n])) = map f [1..n * k]"
    using client_indices_nat [of k "nat n"] by simp
  then show ?thesis by (simp add: map_concat comp_def)
qed

lemma client_index_inj:
  assumes "1 \<le> p" "p \<le> k" "1 \<le> p'" "p' \<le> k" "client_index k l p = client_index k l' p'"
  shows "l = l' \<and> p = p'"
proof -
  have "((l - 1) * k + (p - 1)) div k = l - 1" "((l' - 1) * k + (p' - 1)) div k = l' - 1"
    using assms by (simp_all add: div_pos_pos_trivial)
  moreover have "(l - 1) * k + (p - 1) = (l' - 1) * k + (p' - 1)"
    using assms(5) by (simp add: client_index_def)
  ultimately have "l - 1 = l' - 1" by metis
  then show ?thesis using assms(5) by (simp add: client_index_def)
qed

lemma client_index_range:
  assumes "1 \<le> l" "l \<le> n" "1 \<le> p" "p \<le> k"
  shows "1 \<le> client_index k l p \<and> client_index k l p \<le> n * k"
proof -
  have "(l - 1) * k \<le> (n - 1) * k" "0 \<le> (l - 1) * k" using assms by (simp_all add: mult_right_mono)
  moreover have "(n - 1) * k = n * k - k" by (simp add: left_diff_distrib)
  ultimately show ?thesis using assms(3,4) unfolding client_index_def by linarith
qed

lemma subnet_base_inject [simp]: "subnet_base p = subnet_base q \<longleftrightarrow> p = q"
  by (simp add: subnet_base_def)

lemma distinct_quads:
  "distinct xs \<Longrightarrow> distinct ys \<Longrightarrow> inj_on g (set xs) \<Longrightarrow> inj_on h (set ys) \<Longrightarrow>
   distinct (concat (map (\<lambda>x. map (\<lambda>y. quad a b (g x) (h y)) ys) xs))"
proof (induction xs)
  case (Cons x xs)
  have "distinct (map (\<lambda>y. quad a b (g x) (h y)) ys)"
    using Cons.prems by (auto simp: distinct_map inj_on_def quad_inject)
  then show ?case using Cons by (auto simp: quad_inject inj_on_def)
qed simp

lemma create_addressing_Inr:
  assumes "ip_network subnet = Inr n" "\<And>i. i \<in> set offsets \<Longrightarrow> 0 < i \<and> i < net_size n - 1"
  shows "create_addressing subnet offsets = Inr \<lparr>ma_network = n, ma_allocated_offsets = offsets\<rparr>"
proof -
  let ?a = "\<lparr>ma_network = n, ma_allocated_offsets = offsets\<rparr>"
  have "usable_offset ?a i" if "i \<in> set offsets" for i
    using assms(2) [OF that] ip_network_wf [OF assms(1)] by (simp add: usable_offset_def)
  from mgmt.hosts_succeed [OF this] show ?thesis
    using assms(1) by (simp add: create_addressing_def bindE_Inr_conv Let_def)
qed

lemma length_concat_const: "length (concat (map (\<lambda>x. map (g x) ys) xs)) = length xs * length ys"
  by (induction xs) auto

lemma present_all_some:
  "(\<And>d. d \<in> set ds \<Longrightarrow> field d \<noteq> None) \<Longrightarrow> present field ds = map (\<lambda>d. the (field d)) ds"
  by (induction ds) (fastforce simp: present_def split: option.splits)+

lemma distinct_concat_map2:
  "distinct xs \<Longrightarrow> distinct ys \<Longrightarrow> inj_on (\<lambda>(x, y). f x y) (set xs \<times> set ys) \<Longrightarrow>
   distinct (concat (map (\<lambda>x. map (f x) ys) xs))"
proof (induction xs)
  case (Cons x xs)
  have "inj_on (\<lambda>(x, y). f x y) (set xs \<times> set ys)" using Cons.prems(3) by (rule inj_on_subset) auto
  moreover have "distinct (map (f x) ys)" using Cons.prems by (auto simp: distinct_map inj_on_def)
  moreover have "set (map (f x) ys) \<inter> set (concat (map (\<lambda>x. map (f x) ys) xs)) = {}"
    using Cons.prems(1,3) by (auto simp: inj_on_def)
  ultimately show ?case using Cons by simp
qed simp

lemma dict_lookup: "distinct (map fst kvs) \<Longrightarrow> (k, v) \<in> set kvs \<Longrightarrow> dict_get (dict_of kvs) k = Some v"
  by (simp add: dict_of_distinct)

end
