(* ===== verification/Clos_Builder.thy ===== *)
theory Clos_Builder
  imports Builder_Lib
begin

text \<open>
  \<open>netopsbench/platform/topology/clos_builder.py\<close>: the complete plan of a two-tier CLOS
  fabric.  Spine \<open>s\<close> and leaf \<open>l\<close> share the subnet \<open>10.s.l.0/30\<close>; the clients of leaf \<open>l\<close>
  live in \<open>192.168.(100+l).0/24\<close>, four addresses each.
\<close>

section \<open>The builder\<close>

definition validate_clos_config :: "topology_config \<Rightarrow> unit result" where
  "validate_clos_config c =
     (if \<not> (1 \<le> tc_num_spines c \<and> tc_num_spines c \<le> 255) then
        Inl (ValueError (''num_spines must fit in one IPv4 octet (1-255), got '' @ int_str (tc_num_spines c)))
      else if \<not> (1 \<le> tc_num_leafs c \<and> tc_num_leafs c \<le> 155) then
        Inl (ValueError (''num_leafs must fit the client subnet scheme 192.168.(100+leaf).0/24 ''
          @ ''(1-155), got '' @ int_str (tc_num_leafs c)))
      else if \<not> (1 \<le> tc_clients_per_leaf c \<and> tc_clients_per_leaf c \<le> 64) then
        Inl (ValueError (''clients_per_leaf must fit the per-leaf /30 allocation (1-64), got ''
          @ int_str (tc_clients_per_leaf c)))
      else Inr ())"

text \<open>Offsets of the management addresses: spines, then leafs, then clients.\<close>

definition spine_mgmt_offset :: int where
  "spine_mgmt_offset = 10"

definition leaf_mgmt_offset :: "topology_config \<Rightarrow> int" where
  "leaf_mgmt_offset c = spine_mgmt_offset + tc_num_spines c"

definition client_mgmt_offset :: "topology_config \<Rightarrow> int" where
  "client_mgmt_offset c = leaf_mgmt_offset c + tc_num_leafs c"

definition clos_total_clients :: "topology_config \<Rightarrow> int" where
  "clos_total_clients c = tc_num_leafs c * tc_clients_per_leaf c"

definition clos_last_device_offset :: "topology_config \<Rightarrow> int" where
  "clos_last_device_offset c = client_mgmt_offset c + clos_total_clients c"

definition clos_allocated_offsets :: "topology_config \<Rightarrow> int list" where
  "clos_allocated_offsets c =
     map (\<lambda>i. spine_mgmt_offset + i) [1..tc_num_spines c]
     @ map (\<lambda>i. leaf_mgmt_offset c + i) [1..tc_num_leafs c]
     @ map (\<lambda>i. client_mgmt_offset c + i) [1..clos_total_clients c]"

definition spine_plan :: "topology_config \<Rightarrow> management_addressing \<Rightarrow> int \<Rightarrow> device_plan result" where
  "spine_plan c a s =
     bindE (host_ip a (spine_mgmt_offset + s)) (\<lambda>ip.
       Inr \<lparr>dp_device = \<lparr>dev_name = numbered ''spine'' s, dev_role = SPINE, dev_mgmt_ip = Some ip,
              dev_data_ip = None, dev_attached_switch = None, dev_asn = Some (tc_spine_asn c),
              dev_router_id = Some (quad 10 0 0 s), dev_metadata = []\<rparr>,
            dp_required_ports = tc_num_leafs c,
            dp_interface_cidrs = dict_of (map (\<lambda>l. (sonic_port_name l, [cidr30 (quad 10 s l 1)])) [1..tc_num_leafs c]),
            dp_bgp_asn = Some (tc_spine_asn c), dp_bgp_router_id = Some (quad 10 0 0 s),
            dp_bgp_neighbors = map (\<lambda>l. \<lparr>bn_peer_ip = quad 10 s l 2, bn_remote_as = tc_leaf_asn_start c + l - 1\<rparr>)
                                 [1..tc_num_leafs c],
            dp_bgp_networks = [], dp_client_commands = []\<rparr>)"

definition leaf_plan :: "topology_config \<Rightarrow> management_addressing \<Rightarrow> int \<Rightarrow> device_plan result" where
  "leaf_plan c a l =
     bindE (host_ip a (leaf_mgmt_offset c + l)) (\<lambda>ip.
       let octet = 100 + l; asn = tc_leaf_asn_start c + l - 1
       in Inr \<lparr>dp_device = \<lparr>dev_name = numbered ''leaf'' l, dev_role = LEAF, dev_mgmt_ip = Some ip,
                dev_data_ip = None, dev_attached_switch = None, dev_asn = Some asn,
                dev_router_id = Some (quad 10 0 1 l),
                dev_metadata = [(''client_subnet'', JStr (quad 192 168 octet 0 @ ''/24''))]\<rparr>,
              dp_required_ports = tc_num_spines c + tc_clients_per_leaf c,
              dp_interface_cidrs = dict_of
                (map (\<lambda>s. (sonic_port_name s, [cidr30 (quad 10 s l 2)])) [1..tc_num_spines c]
                 @ map (\<lambda>p. (sonic_port_name (tc_num_spines c + p), [cidr30 (quad 192 168 octet (subnet_base p + 1))]))
                     [1..tc_clients_per_leaf c]),
              dp_bgp_asn = Some asn, dp_bgp_router_id = Some (quad 10 0 1 l),
              dp_bgp_neighbors = map (\<lambda>s. \<lparr>bn_peer_ip = quad 10 s l 1, bn_remote_as = tc_spine_asn c\<rparr>)
                                   [1..tc_num_spines c],
              dp_bgp_networks = map (\<lambda>p. cidr30 (quad 192 168 octet (subnet_base p))) [1..tc_clients_per_leaf c],
              dp_client_commands = []\<rparr>)"

definition clos_client_plan ::
  "topology_config \<Rightarrow> management_addressing \<Rightarrow> int \<Rightarrow> int \<Rightarrow> device_plan result" where
  "clos_client_plan c a l p =
     (let idx = client_index (tc_clients_per_leaf c) l p; octet = 100 + l;
          client_ip = quad 192 168 octet (subnet_base p + 2);
          gateway = quad 192 168 octet (subnet_base p + 1)
      in bindE (host_ip a (client_mgmt_offset c + idx)) (\<lambda>ip.
        Inr \<lparr>dp_device = \<lparr>dev_name = numbered ''client'' idx, dev_role = CLIENT, dev_mgmt_ip = Some ip,
               dev_data_ip = Some client_ip, dev_attached_switch = Some (numbered ''leaf'' l), dev_asn = None,
               dev_router_id = None, dev_metadata = [(''rack'', JStr (numbered ''rack'' l))]\<rparr>,
             dp_required_ports = 0, dp_interface_cidrs = [], dp_bgp_asn = None, dp_bgp_router_id = None,
             dp_bgp_neighbors = [], dp_bgp_networks = [],
             dp_client_commands = client_commands client_ip gateway\<rparr>))"

definition leaf_block :: "topology_config \<Rightarrow> management_addressing \<Rightarrow> int \<Rightarrow> device_plan list result" where
  "leaf_block c a l =
     bindE (leaf_plan c a l) (\<lambda>leaf.
     bindE (mapE (clos_client_plan c a l) [1..tc_clients_per_leaf c]) (\<lambda>clients. Inr (leaf # clients)))"

definition clos_device_plans :: "topology_config \<Rightarrow> management_addressing \<Rightarrow> device_plan list result" where
  "clos_device_plans c a =
     bindE (mapE (spine_plan c a) [1..tc_num_spines c]) (\<lambda>spines.
     bindE (mapE (leaf_block c a) [1..tc_num_leafs c]) (\<lambda>blocks. Inr (spines @ concat blocks)))"

definition clos_links :: "topology_config \<Rightarrow> link list" where
  "clos_links c =
     concat (map (\<lambda>s. map (\<lambda>l. make_link ''spine-leaf'' (numbered ''spine'' s, eth l) (numbered ''leaf'' l, eth s))
                        [1..tc_num_leafs c]) [1..tc_num_spines c])
     @ concat (map (\<lambda>l. map (\<lambda>p. make_link ''leaf-client'' (numbered ''leaf'' l, eth (tc_num_spines c + p))
                          (numbered ''client'' (client_index (tc_clients_per_leaf c) l p), eth 1))
                        [1..tc_clients_per_leaf c]) [1..tc_num_leafs c])"

definition clos_header :: "topology_config \<Rightarrow> string" where
  "clos_header c =
     ''# '' @ str_upper (tc_name c) @ '' Topology Configuration'' @ newline
     @ ''# Generated by NetOpsBench Topology Generator'' @ newline
     @ ''# Scale: '' @ int_str (tc_num_spines c) @ '' spines, '' @ int_str (tc_num_leafs c) @ '' leafs, ''
     @ int_str (tc_clients_per_leaf c) @ '' clients/leaf'' @ newline
     @ ''#'' @ newline @ ''# Features:'' @ newline @ ''# - BGP with ECMP'' @ newline
     @ ''# - Observability: Syslog and gNMI'' @ newline @ newline"

definition clos_manifest ::
  "topology_config \<Rightarrow> management_addressing \<Rightarrow> string \<Rightarrow> pingmesh_policy \<Rightarrow> device_plan list \<Rightarrow> manifest" where
  "clos_manifest c a collector policy plans =
     \<lparr>mf_topology_id = tc_name c, mf_name = tc_name c, mf_scale = or_default (tc_scale_name c) ''custom'',
      mf_family = ''clos'',
      mf_management = \<lparr>mgmt_network = or_default (tc_mgmt_network_name c) (''clab-mgmt-'' @ tc_name c),
                       mgmt_ipv4_subnet = network_str (ma_network a)\<rparr>,
      mf_collector = collector, mf_link_mtu = default_link_mtu, mf_sonic_port_mtu = default_sonic_port_mtu,
      mf_facts = \<lparr>tf_num_spines = tc_num_spines c, tf_num_leafs = tc_num_leafs c, tf_num_cores = 0,
                  tf_num_aggs = 0, tf_num_edges = 0, tf_num_pods = 0,
                  tf_clients_per_attached_switch = tc_clients_per_leaf c,
                  tf_total_clients = clos_total_clients c,
                  tf_total_switches = tc_num_spines c + tc_num_leafs c, tf_fat_tree_k = None,
                  tf_full_density = None, tf_host_density = None\<rparr>,
      mf_devices = map dp_device plans, mf_links = clos_links c,
      mf_routing = \<lparr>rt_spine_asn = Some (tc_spine_asn c),
                    rt_leaf_asn_range = Some (int_str (tc_leaf_asn_start c) @ ''-''
                      @ int_str (tc_leaf_asn_start c + tc_num_leafs c - 1)),
                    rt_core_asn_range = None, rt_agg_asn_range = None, rt_edge_asn_range = None,
                    rt_ecmp_policy = [(SPINE, 1), (LEAF, 1)], rt_ecmp = True, rt_bfd = True\<rparr>,
      mf_pingmesh = policy\<rparr>"

definition build_clos_plan :: "scale_registry \<Rightarrow> topology_config \<Rightarrow> fabric_plan result" where
  "build_clos_plan default_profiles c =
     bindE (validate_clos_config c) (\<lambda>_.
     bindE (create_addressing (tc_mgmt_ipv4_subnet c) (clos_allocated_offsets c)) (\<lambda>a.
     bindE (case tc_collector_ip c of
              Some ip \<Rightarrow> if ip = [] then default_collector a (clos_last_device_offset c) True else Inr ip
            | None \<Rightarrow> default_collector a (clos_last_device_offset c) True) (\<lambda>collector_ip.
     bindE (validate_collector a collector_ip) (\<lambda>_.
     bindE (build_render_settings a collector_ip) (\<lambda>syslog_collector.
     bindE (clos_device_plans c a) (\<lambda>plans.
     bindE (case tc_pingmesh_policy c of
              Some p \<Rightarrow> Inr p
            | None \<Rightarrow> pingmesh_policy_for_scale default_profiles (or_default (tc_scale_name c) ''custom'') None) (\<lambda>policy.
     bindE (make_manifest (clos_manifest c a syslog_collector policy plans)) (\<lambda>m.
     make_fabric_plan
       \<lparr>fp_manifest = m, fp_device_plans = plans, fp_nos_kind = tc_nos_kind c, fp_nos_image = tc_nos_image c,
        fp_client_image = tc_client_image c, fp_syslog_collector = syslog_collector,
        fp_yaml_header = clos_header c\<rparr>))))))))"

lemma distinct_interleave:
  "distinct (concat (map (\<lambda>l. a l # bs l) ls)) \<longleftrightarrow> distinct (map a ls @ concat (map bs ls))"
  by (induction ls) auto

section \<open>The planned devices\<close>

definition clos_valid :: "topology_config \<Rightarrow> bool" where
  "clos_valid c \<longleftrightarrow> 1 \<le> tc_num_spines c \<and> tc_num_spines c \<le> 255 \<and> 1 \<le> tc_num_leafs c \<and> tc_num_leafs c \<le> 155
     \<and> 1 \<le> tc_clients_per_leaf c \<and> tc_clients_per_leaf c \<le> 64"

lemma validate_clos_config_iff: "validate_clos_config c = Inr () \<longleftrightarrow> clos_valid c"
  by (auto simp: validate_clos_config_def clos_valid_def)

definition clos_addressed :: "topology_config \<Rightarrow> management_addressing \<Rightarrow> bool" where
  "clos_addressed c a \<longleftrightarrow> (\<forall>i \<in> set (clos_allocated_offsets c). usable_offset a i)"

lemma clos_offset_usable:
  assumes "clos_valid c" "clos_addressed c a"
  shows "s \<in> {1..tc_num_spines c} \<Longrightarrow> usable_offset a (spine_mgmt_offset + s)"
    and "l \<in> {1..tc_num_leafs c} \<Longrightarrow> usable_offset a (leaf_mgmt_offset c + l)"
    and "l \<in> {1..tc_num_leafs c} \<Longrightarrow> p \<in> {1..tc_clients_per_leaf c} \<Longrightarrow>
      usable_offset a (client_mgmt_offset c + client_index (tc_clients_per_leaf c) l p)"
  using assms client_index_range [of l "tc_num_leafs c" p "tc_clients_per_leaf c"]
  by (auto simp: clos_addressed_def clos_allocated_offsets_def clos_total_clients_def)

lemma spine_plan_Inr:
  "clos_valid c \<Longrightarrow> clos_addressed c a \<Longrightarrow> s \<in> {1..tc_num_spines c} \<Longrightarrow> spine_plan c a s = Inr (the_plan (spine_plan c a s))"
  by (simp add: spine_plan_def the_plan_def mgmt.host_addr [OF clos_offset_usable(1)])

lemma leaf_plan_Inr:
  "clos_valid c \<Longrightarrow> clos_addressed c a \<Longrightarrow> l \<in> {1..tc_num_leafs c} \<Longrightarrow> leaf_plan c a l = Inr (the_plan (leaf_plan c a l))"
  by (simp add: leaf_plan_def the_plan_def Let_def mgmt.host_addr [OF clos_offset_usable(2)])

lemma clos_client_plan_Inr:
  "clos_valid c \<Longrightarrow> clos_addressed c a \<Longrightarrow> l \<in> {1..tc_num_leafs c} \<Longrightarrow> p \<in> {1..tc_clients_per_leaf c} \<Longrightarrow>
   clos_client_plan c a l p = Inr (the_plan (clos_client_plan c a l p))"
  by (simp add: clos_client_plan_def the_plan_def Let_def mgmt.host_addr [OF clos_offset_usable(3)])

definition clos_plans :: "topology_config \<Rightarrow> management_addressing \<Rightarrow> device_plan list" where
  "clos_plans c a =
     map (\<lambda>s. the_plan (spine_plan c a s)) [1..tc_num_spines c]
     @ concat (map (\<lambda>l. the_plan (leaf_plan c a l)
         # map (\<lambda>p. the_plan (clos_client_plan c a l p)) [1..tc_clients_per_leaf c]) [1..tc_num_leafs c])"

lemma clos_device_plans_Inr:
  assumes "clos_valid c" "clos_addressed c a"
  shows "clos_device_plans c a = Inr (clos_plans c a)"
proof -
  have s: "mapE (spine_plan c a) [1..tc_num_spines c] = Inr (map (\<lambda>s. the_plan (spine_plan c a s)) [1..tc_num_spines c])"
    by (rule mapE_Inr_map) (use spine_plan_Inr [OF assms] in auto)
  have cl: "mapE (clos_client_plan c a l) [1..tc_clients_per_leaf c] =
      Inr (map (\<lambda>p. the_plan (clos_client_plan c a l p)) [1..tc_clients_per_leaf c])"
    if "l \<in> {1..tc_num_leafs c}" for l
    by (rule mapE_Inr_map) (use clos_client_plan_Inr [OF assms that] in auto)
  have l: "leaf_block c a l = Inr (the_plan (leaf_plan c a l)
      # map (\<lambda>p. the_plan (clos_client_plan c a l p)) [1..tc_clients_per_leaf c])"
    if "l \<in> {1..tc_num_leafs c}" for l
    unfolding leaf_block_def cl [OF that] by (subst leaf_plan_Inr [OF assms that]) simp
  have "mapE (leaf_block c a) [1..tc_num_leafs c] = Inr (map (\<lambda>l. the_plan (leaf_plan c a l)
      # map (\<lambda>p. the_plan (clos_client_plan c a l p)) [1..tc_clients_per_leaf c]) [1..tc_num_leafs c])"
    by (rule mapE_Inr_map) (use l in auto)
  then show ?thesis by (simp add: clos_device_plans_def clos_plans_def s)
qed

text \<open>The planned values, field by field.\<close>

lemma spine_fields:
  assumes "clos_valid c" "clos_addressed c a" "s \<in> {1..tc_num_spines c}"
  defines "P \<equiv> the_plan (spine_plan c a s)"
  shows "dp_device P = \<lparr>dev_name = numbered ''spine'' s, dev_role = SPINE,
            dev_mgmt_ip = Some (mgmt.addr a (spine_mgmt_offset + s)), dev_data_ip = None,
            dev_attached_switch = None, dev_asn = Some (tc_spine_asn c),
            dev_router_id = Some (quad 10 0 0 s), dev_metadata = []\<rparr>"
    and "dp_interface_cidrs P = dict_of (map (\<lambda>l. (sonic_port_name l, [cidr30 (quad 10 s l 1)])) [1..tc_num_leafs c])"
    and "dp_bgp_neighbors P = map (\<lambda>l. \<lparr>bn_peer_ip = quad 10 s l 2, bn_remote_as = tc_leaf_asn_start c + l - 1\<rparr>) [1..tc_num_leafs c]"
    and "dp_bgp_asn P = Some (tc_spine_asn c)" "dp_bgp_router_id P = Some (quad 10 0 0 s)"
    and "dp_required_ports P = tc_num_leafs c"
  using mgmt.host_addr [OF clos_offset_usable(1) [OF assms(1-3)]]
  by (simp_all add: P_def spine_plan_def the_plan_def)

lemma leaf_fields:
  assumes "clos_valid c" "clos_addressed c a" "l \<in> {1..tc_num_leafs c}"
  defines "P \<equiv> the_plan (leaf_plan c a l)"
  shows "dp_device P = \<lparr>dev_name = numbered ''leaf'' l, dev_role = LEAF,
            dev_mgmt_ip = Some (mgmt.addr a (leaf_mgmt_offset c + l)), dev_data_ip = None,
            dev_attached_switch = None, dev_asn = Some (tc_leaf_asn_start c + l - 1),
            dev_router_id = Some (quad 10 0 1 l),
            dev_metadata = [(''client_subnet'', JStr (quad 192 168 (100 + l) 0 @ ''/24''))]\<rparr>"
    and "dp_interface_cidrs P = dict_of
           (map (\<lambda>s. (sonic_port_name s, [cidr30 (quad 10 s l 2)])) [1..tc_num_spines c]
            @ map (\<lambda>p. (sonic_port_name (tc_num_spines c + p), [cidr30 (quad 192 168 (100 + l) (subnet_base p + 1))]))
                [1..tc_clients_per_leaf c])"
    and "dp_bgp_neighbors P = map (\<lambda>s. \<lparr>bn_peer_ip = quad 10 s l 1, bn_remote_as = tc_spine_asn c\<rparr>) [1..tc_num_spines c]"
    and "dp_bgp_asn P = Some (tc_leaf_asn_start c + l - 1)" "dp_bgp_router_id P = Some (quad 10 0 1 l)"
    and "dp_required_ports P = tc_num_spines c + tc_clients_per_leaf c"
  using mgmt.host_addr [OF clos_offset_usable(2) [OF assms(1-3)]]
  by (simp_all add: P_def leaf_plan_def the_plan_def Let_def)

lemma clos_client_fields:
  assumes "clos_valid c" "clos_addressed c a" "l \<in> {1..tc_num_leafs c}" "p \<in> {1..tc_clients_per_leaf c}"
  shows "dp_device (the_plan (clos_client_plan c a l p)) =
      \<lparr>dev_name = numbered ''client'' (client_index (tc_clients_per_leaf c) l p), dev_role = CLIENT,
       dev_mgmt_ip = Some (mgmt.addr a (client_mgmt_offset c + client_index (tc_clients_per_leaf c) l p)),
       dev_data_ip = Some (quad 192 168 (100 + l) (subnet_base p + 2)),
       dev_attached_switch = Some (numbered ''leaf'' l), dev_asn = None, dev_router_id = None,
       dev_metadata = [(''rack'', JStr (numbered ''rack'' l))]\<rparr>"
  using mgmt.host_addr [OF clos_offset_usable(3) [OF assms]]
  by (simp add: clos_client_plan_def the_plan_def Let_def)

section \<open>The manifest is well-formed\<close>

definition spine_dev :: "topology_config \<Rightarrow> management_addressing \<Rightarrow> int \<Rightarrow> device" where
  "spine_dev c a s = \<lparr>dev_name = numbered ''spine'' s, dev_role = SPINE,
     dev_mgmt_ip = Some (mgmt.addr a (spine_mgmt_offset + s)), dev_data_ip = None,
     dev_attached_switch = None, dev_asn = Some (tc_spine_asn c),
     dev_router_id = Some (quad 10 0 0 s), dev_metadata = []\<rparr>"

definition leaf_dev :: "topology_config \<Rightarrow> management_addressing \<Rightarrow> int \<Rightarrow> device" where
  "leaf_dev c a l = \<lparr>dev_name = numbered ''leaf'' l, dev_role = LEAF,
     dev_mgmt_ip = Some (mgmt.addr a (leaf_mgmt_offset c + l)), dev_data_ip = None,
     dev_attached_switch = None, dev_asn = Some (tc_leaf_asn_start c + l - 1),
     dev_router_id = Some (quad 10 0 1 l),
     dev_metadata = [(''client_subnet'', JStr (quad 192 168 (100 + l) 0 @ ''/24''))]\<rparr>"

definition client_dev :: "topology_config \<Rightarrow> management_addressing \<Rightarrow> int \<Rightarrow> int \<Rightarrow> device" where
  "client_dev c a l p =
     \<lparr>dev_name = numbered ''client'' (client_index (tc_clients_per_leaf c) l p), dev_role = CLIENT,
      dev_mgmt_ip = Some (mgmt.addr a (client_mgmt_offset c + client_index (tc_clients_per_leaf c) l p)),
      dev_data_ip = Some (quad 192 168 (100 + l) (subnet_base p + 2)),
      dev_attached_switch = Some (numbered ''leaf'' l), dev_asn = None, dev_router_id = None,
      dev_metadata = [(''rack'', JStr (numbered ''rack'' l))]\<rparr>"

lemmas clos_dev_defs = spine_dev_def leaf_dev_def client_dev_def

lemma clos_dev_fields [simp]:
  "dev_name (spine_dev c a s) = numbered ''spine'' s" "dev_role (spine_dev c a s) = SPINE"
  "dev_mgmt_ip (spine_dev c a s) = Some (mgmt.addr a (spine_mgmt_offset + s))"
  "dev_data_ip (spine_dev c a s) = None" "dev_router_id (spine_dev c a s) = Some (quad 10 0 0 s)"
  "dev_name (leaf_dev c a l) = numbered ''leaf'' l" "dev_role (leaf_dev c a l) = LEAF"
  "dev_mgmt_ip (leaf_dev c a l) = Some (mgmt.addr a (leaf_mgmt_offset c + l))"
  "dev_data_ip (leaf_dev c a l) = None" "dev_router_id (leaf_dev c a l) = Some (quad 10 0 1 l)"
  "dev_name (client_dev c a l p) = numbered ''client'' (client_index (tc_clients_per_leaf c) l p)"
  "dev_role (client_dev c a l p) = CLIENT"
  "dev_mgmt_ip (client_dev c a l p) =
     Some (mgmt.addr a (client_mgmt_offset c + client_index (tc_clients_per_leaf c) l p))"
  "dev_data_ip (client_dev c a l p) = Some (quad 192 168 (100 + l) (subnet_base p + 2))"
  "dev_router_id (client_dev c a l p) = None"
  "dev_attached_switch (client_dev c a l p) = Some (numbered ''leaf'' l)"
  by (simp_all add: clos_dev_defs)

definition clos_devs :: "topology_config \<Rightarrow> management_addressing \<Rightarrow> device list" where
  "clos_devs c a = map (spine_dev c a) [1..tc_num_spines c]
     @ concat (map (\<lambda>l. leaf_dev c a l # map (client_dev c a l) [1..tc_clients_per_leaf c]) [1..tc_num_leafs c])"

lemma clos_plans_devices:
  assumes "clos_valid c" "clos_addressed c a"
  shows "map dp_device (clos_plans c a) = clos_devs c a"
proof -
  have "map (\<lambda>s. dp_device (the_plan (spine_plan c a s))) [1..tc_num_spines c] = map (spine_dev c a) [1..tc_num_spines c]"
    by (rule map_cong) (use spine_fields(1) [OF assms] in \<open>auto simp: spine_dev_def\<close>)
  moreover have "map (\<lambda>l. dp_device (the_plan (leaf_plan c a l))
        # map (\<lambda>p. dp_device (the_plan (clos_client_plan c a l p))) [1..tc_clients_per_leaf c]) [1..tc_num_leafs c]
      = map (\<lambda>l. leaf_dev c a l # map (client_dev c a l) [1..tc_clients_per_leaf c]) [1..tc_num_leafs c]"
    by (rule map_cong)
      (use leaf_fields(1) [OF assms] clos_client_fields [OF assms] in \<open>auto simp: leaf_dev_def client_dev_def\<close>)
  ultimately show ?thesis
    unfolding clos_plans_def clos_devs_def map_append map_concat map_map comp_def list.map(2) by (simp only:)
qed

text \<open>A field read off the devices, with the blocks of leafs and clients taken apart.\<close>

lemma clos_devs_distinct:
  assumes "clos_valid c"
    and f: "\<And>s. f (spine_dev c a s) = fs s" "\<And>l. f (leaf_dev c a l) = fl l"
      "\<And>l p. f (client_dev c a l p) = fc (client_index (tc_clients_per_leaf c) l p)"
    and d: "distinct (map fs [1..tc_num_spines c] @ map fl [1..tc_num_leafs c] @ map fc [1..clos_total_clients c])"
  shows "distinct (map f (clos_devs c a))"
proof -
  let ?S = "map fs [1..tc_num_spines c]"
  let ?b = "\<lambda>l. fl l # map (\<lambda>p. fc (client_index (tc_clients_per_leaf c) l p)) [1..tc_clients_per_leaf c]"
  have m: "map f (clos_devs c a) = ?S @ concat (map ?b [1..tc_num_leafs c])"
    by (simp add: clos_devs_def f map_concat comp_def)
  have cl: "concat (map (\<lambda>l. map (\<lambda>p. fc (client_index (tc_clients_per_leaf c) l p)) [1..tc_clients_per_leaf c])
      [1..tc_num_leafs c]) = map fc [1..clos_total_clients c]"
    unfolding clos_total_clients_def using assms(1) by (intro client_indices) (auto simp: clos_valid_def)
  have s: "set (concat (map ?b [1..tc_num_leafs c])) = set (map fl [1..tc_num_leafs c] @ map fc [1..clos_total_clients c])"
    unfolding cl [symmetric] by auto
  have "distinct (concat (map ?b [1..tc_num_leafs c]))"
    using d unfolding distinct_interleave cl by simp
  then show ?thesis using d s unfolding m distinct_append by auto
qed

lemma clos_names_distinct: "clos_valid c \<Longrightarrow> distinct (map dev_name (clos_devs c a))"
proof (rule clos_devs_distinct)
  show "distinct (map (numbered ''spine'') [1..tc_num_spines c] @ map (numbered ''leaf'') [1..tc_num_leafs c]
      @ map (numbered ''client'') [1..clos_total_clients c])"
    using numbered_neq [of "''spine''" "''leaf''"] numbered_neq [of "''spine''" "''client''"]
      numbered_neq [of "''leaf''" "''client''"]
    by (auto simp: distinct_map inj_on_def)
qed simp_all

lemma clos_offsets_distinct: "clos_valid c \<Longrightarrow> distinct (clos_allocated_offsets c)"
  by (auto simp: clos_allocated_offsets_def map_plus_upto leaf_mgmt_offset_def client_mgmt_offset_def clos_valid_def)

lemma clos_mgmt_distinct:
  assumes "clos_valid c" "clos_addressed c a"
  shows "distinct (present dev_mgmt_ip (clos_devs c a))"
proof -
  have p: "present dev_mgmt_ip (clos_devs c a) = map (\<lambda>d. the (dev_mgmt_ip d)) (clos_devs c a)"
    by (rule present_all_some) (auto simp: clos_devs_def)
  have "distinct (map (mgmt.addr a) (clos_allocated_offsets c))"
    using mgmt.addrs_distinct [OF clos_offsets_distinct [OF assms(1)]] assms(2) by (simp add: clos_addressed_def)
  then have "distinct (map (\<lambda>s. mgmt.addr a (spine_mgmt_offset + s)) [1..tc_num_spines c]
      @ map (\<lambda>l. mgmt.addr a (leaf_mgmt_offset c + l)) [1..tc_num_leafs c]
      @ map (\<lambda>i. mgmt.addr a (client_mgmt_offset c + i)) [1..clos_total_clients c])"
    by (simp add: clos_allocated_offsets_def comp_def)
  then show ?thesis
    unfolding p by (rule clos_devs_distinct [OF assms(1), rotated -1]) simp_all
qed

lemma clos_present:
  "present field (clos_devs c a) = present field (map (spine_dev c a) [1..tc_num_spines c])
     @ concat (map (\<lambda>l. present field [leaf_dev c a l]
         @ present field (map (client_dev c a l) [1..tc_clients_per_leaf c])) [1..tc_num_leafs c])"
  by (simp add: clos_devs_def present_concat comp_def present_Cons [of field "leaf_dev c a _"])

lemma clos_present_data_ip:
  "present dev_data_ip (clos_devs c a) =
     concat (map (\<lambda>l. map (\<lambda>p. quad 192 168 (100 + l) (subnet_base p + 2)) [1..tc_clients_per_leaf c]) [1..tc_num_leafs c])"
  by (simp add: clos_present present_none present_Cons
      present_some [where g = "\<lambda>p. quad 192 168 (100 + _) (subnet_base p + 2)"])

lemma clos_present_router_id:
  "present dev_router_id (clos_devs c a) =
     map (quad 10 0 0) [1..tc_num_spines c] @ map (quad 10 0 1) [1..tc_num_leafs c]"
  by (simp add: clos_present present_none present_Cons present_some [where g = "quad 10 0 0"])

lemma set_clos_devs:
  "set (clos_devs c a) = spine_dev c a ` {1..tc_num_spines c} \<union> leaf_dev c a ` {1..tc_num_leafs c}
     \<union> (\<Union>l \<in> {1..tc_num_leafs c}. client_dev c a l ` {1..tc_clients_per_leaf c})"
  by (auto simp: clos_devs_def)

lemma clos_wf_manifest:
  assumes v: "clos_valid c" and ad: "clos_addressed c a"
  shows "wf_manifest (clos_manifest c a collector policy (clos_plans c a))"
proof -
  let ?m = "clos_manifest c a collector policy (clos_plans c a)"
  have devs: "mf_devices ?m = clos_devs c a"
    by (simp add: clos_manifest_def clos_plans_devices [OF assms])
  have pos: "1 \<in> {1..tc_num_spines c}" "1 \<in> {1..tc_num_leafs c}" "1 \<in> {1..tc_clients_per_leaf c}"
    using v by (auto simp: clos_valid_def)
  have data: "distinct (present dev_data_ip (clos_devs c a))"
    unfolding clos_present_data_ip by (rule distinct_quads) (auto simp: inj_on_def)
  have router: "distinct (present dev_router_id (clos_devs c a))"
    unfolding clos_present_router_id by (auto simp: distinct_map inj_on_def quad_inject)
  have roles: "dev_role ` set (switches ?m) = {SPINE, LEAF}"
  proof
    show "dev_role ` set (switches ?m) \<subseteq> {SPINE, LEAF}"
      by (auto simp: switches_def devs set_clos_devs)
    have "spine_dev c a 1 \<in> set (switches ?m)" "leaf_dev c a 1 \<in> set (switches ?m)"
      using pos by (auto simp: switches_def devs set_clos_devs)
    then show "{SPINE, LEAF} \<subseteq> dev_role ` set (switches ?m)" by (auto intro: rev_image_eqI)
  qed
  have names: "numbered ''spine'' s \<in> dev_name ` set (clos_devs c a)" if "s \<in> {1..tc_num_spines c}" for s
    using that by (auto simp: set_clos_devs image_Un image_image)
  have namel: "numbered ''leaf'' l \<in> dev_name ` set (clos_devs c a)" if "l \<in> {1..tc_num_leafs c}" for l
    using that by (auto simp: set_clos_devs image_Un image_image)
  have namec: "numbered ''client'' (client_index (tc_clients_per_leaf c) l p) \<in> dev_name ` set (clos_devs c a)"
    if "l \<in> {1..tc_num_leafs c}" "p \<in> {1..tc_clients_per_leaf c}" for l p
  proof (rule image_eqI)
    show "client_dev c a l p \<in> set (clos_devs c a)" unfolding set_clos_devs using that by blast
  qed simp
  have ends: "ep_device e \<in> dev_name ` set (clos_devs c a)" if "e \<in> set (link_ends ?m)" for e
    using that names namel namec
    by (auto simp: link_ends_def clos_manifest_def clos_links_def make_link_def)
  have cl: "\<exists>s \<in> set (clos_devs c a). dev_attached_switch d = Some (dev_name s) \<and> dev_name s \<noteq> [] \<and> dev_role s \<noteq> CLIENT"
    if "d \<in> set (clos_devs c a)" "dev_role d = CLIENT" for d
    using that by (auto simp: set_clos_devs bex_Un)
  show ?thesis
    unfolding wf_manifest_def devs roles
    using clos_names_distinct [OF v] clos_mgmt_distinct [OF v ad] data router ends cl
    by (simp add: clos_manifest_def)
qed

lemma clos_plan_names:
  "clos_valid c \<Longrightarrow> clos_addressed c a \<Longrightarrow> map plan_name (clos_plans c a) = map dev_name (clos_devs c a)"
  by (simp add: plan_name_def comp_def flip: clos_plans_devices)

lemma set_clos_plans:
  "set (clos_plans c a) = (\<lambda>s. the_plan (spine_plan c a s)) ` {1..tc_num_spines c}
     \<union> (\<lambda>l. the_plan (leaf_plan c a l)) ` {1..tc_num_leafs c}
     \<union> (\<Union>l \<in> {1..tc_num_leafs c}. (\<lambda>p. the_plan (clos_client_plan c a l p)) ` {1..tc_clients_per_leaf c})"
  by (auto simp: clos_plans_def)

lemma clos_switch_plans_ok:
  assumes "clos_valid c" "clos_addressed c a"
  shows "check_switch_plans (clos_plans c a) = Inr ()"
  using spine_fields(4-6) [OF assms] leaf_fields(4-6) [OF assms] clos_client_fields [OF assms] assms(1)
  unfolding check_switch_plans_ok set_clos_plans
  by (fastforce simp: plan_is_client_def clos_valid_def)

text \<open>Everything a successful build went through.\<close>

lemma build_clos_plan_Inr:
  assumes "build_clos_plan d c = Inr fp"
  shows "\<exists>a collector policy. clos_valid c \<and> create_addressing (tc_mgmt_ipv4_subnet c) (clos_allocated_offsets c) = Inr a
    \<and> clos_addressed c a \<and> fp_device_plans fp = clos_plans c a
    \<and> fp_manifest fp = clos_manifest c a collector policy (clos_plans c a)"
proof -
  obtain a where v: "clos_valid c"
    and a: "create_addressing (tc_mgmt_ipv4_subnet c) (clos_allocated_offsets c) = Inr a"
    using assms validate_clos_config_iff by (auto simp: build_clos_plan_def bindE_Inr_conv)
  have ad: "clos_addressed c a"
    using create_addressing_network [OF a] by (simp add: clos_addressed_def)
  obtain collector policy where
    "make_manifest (clos_manifest c a collector policy (clos_plans c a)) =
       Inr (clos_manifest c a collector policy (clos_plans c a))"
    "fp_device_plans fp = clos_plans c a" "fp_manifest fp = clos_manifest c a collector policy (clos_plans c a)"
    using assms v a
    by (auto simp: build_clos_plan_def bindE_Inr_conv clos_device_plans_Inr [OF v ad] make_fabric_plan_iff
        make_manifest_iff)
  then show ?thesis using v a ad by blast
qed

lemma clos_session:
  assumes v: "clos_valid c" and ad: "clos_addressed c a"
    and s: "s \<in> {1..tc_num_spines c}" and l: "l \<in> {1..tc_num_leafs c}"
  shows "bgp_session_ok (the_plan (spine_plan c a s)) (eth l) (the_plan (leaf_plan c a l)) (eth s)"
proof -
  have d1: "distinct (map fst (map (\<lambda>l. (sonic_port_name l, [cidr30 (quad 10 s l 1)])) [1..tc_num_leafs c]))"
    by (auto simp: distinct_map inj_on_def)
  have d2: "distinct (map fst (map (\<lambda>s. (sonic_port_name s, [cidr30 (quad 10 s l 2)])) [1..tc_num_spines c]
            @ map (\<lambda>p. (sonic_port_name (tc_num_spines c + p), [cidr30 (quad 192 168 (100 + l) (subnet_base p + 1))]))
                [1..tc_clients_per_leaf c]))"
    by (auto simp: distinct_map inj_on_def)
  have A: "dict_get (dp_interface_cidrs (the_plan (spine_plan c a s))) (sonic_port_name l) = Some [cidr30 (quad 10 s l 1)]"
    unfolding spine_fields(2) [OF v ad s] dict_of_distinct [OF d1]
    by (rule map_of_map_inj) (use l in \<open>auto simp: inj_on_def\<close>)
  have B: "dict_get (dp_interface_cidrs (the_plan (leaf_plan c a l))) (sonic_port_name s) = Some [cidr30 (quad 10 s l 2)]"
    unfolding leaf_fields(2) [OF v ad l] dict_of_distinct [OF d2] map_of_append
    by (rule map_add_find_right, rule map_of_map_inj) (use s in \<open>auto simp: inj_on_def\<close>)
  have "same_slash30 (quad 10 s l (4 * 0 + 1)) (quad 10 s l (4 * 0 + 2))"
    using s l v by (intro same_slash30_quads) (auto simp: clos_valid_def)
  then have "same_slash30 (quad 10 s l 1) (quad 10 s l 2)" by simp
  moreover have "\<lparr>bn_peer_ip = quad 10 s l 2, bn_remote_as = tc_leaf_asn_start c + l - 1\<rparr>
      \<in> set (dp_bgp_neighbors (the_plan (spine_plan c a s)))"
    unfolding spine_fields(3) [OF v ad s] using l by auto
  moreover have "\<lparr>bn_peer_ip = quad 10 s l 1, bn_remote_as = tc_spine_asn c\<rparr>
      \<in> set (dp_bgp_neighbors (the_plan (leaf_plan c a l)))"
    unfolding leaf_fields(3) [OF v ad l] using s by auto
  moreover have "to_sonic_interface (Some (eth l)) = sonic_port_name l" "to_sonic_interface (Some (eth s)) = sonic_port_name s"
    using s l by (auto intro: eth_port_sonic)
  ultimately show ?thesis
    unfolding bgp_session_ok_def using A B spine_fields(4) [OF v ad s] leaf_fields(4) [OF v ad l] by metis
qed

lemma clos_plan_distinct:
  "clos_valid c \<Longrightarrow> clos_addressed c a \<Longrightarrow> distinct (map plan_name (clos_plans c a))"
  by (simp add: clos_plan_names clos_names_distinct)

lemma clos_named:
  assumes "clos_valid c" "clos_addressed c a" "fp_device_plans fp = clos_plans c a"
    and "P \<in> set (clos_plans c a)" "n = plan_name P"
  shows "plan_named fp n = Some P"
  using find_by_name [OF clos_plan_distinct [OF assms(1,2)] assms(4)] assms(3,5) by (simp add: plan_named_def)

lemma clos_plan_name_of:
  assumes "clos_valid c" "clos_addressed c a"
  shows "s \<in> {1..tc_num_spines c} \<Longrightarrow> plan_name (the_plan (spine_plan c a s)) = numbered ''spine'' s"
    and "l \<in> {1..tc_num_leafs c} \<Longrightarrow> plan_name (the_plan (leaf_plan c a l)) = numbered ''leaf'' l"
    and "l \<in> {1..tc_num_leafs c} \<Longrightarrow> p \<in> {1..tc_clients_per_leaf c} \<Longrightarrow>
      plan_name (the_plan (clos_client_plan c a l p)) = numbered ''client'' (client_index (tc_clients_per_leaf c) l p)"
  using spine_fields(1) [OF assms, of s] leaf_fields(1) [OF assms, of l] clos_client_fields [OF assms, of l p]
  by (simp_all add: plan_name_def)

lemma clos_sessions:
  assumes v: "clos_valid c" and ad: "clos_addressed c a" and dps: "fp_device_plans fp = clos_plans c a"
    and m: "fp_manifest fp = clos_manifest c a collector policy (clos_plans c a)"
  shows "sessions_ok fp"
  unfolding sessions_ok_def
proof
  fix k assume k: "k \<in> set (mf_links (fp_manifest fp))"
  let ?S = "\<lambda>s. the_plan (spine_plan c a s)" and ?L = "\<lambda>l. the_plan (leaf_plan c a l)"
    and ?C = "\<lambda>l p. the_plan (clos_client_plan c a l p)"
  note nm = clos_plan_name_of [OF v ad]
  have S: "plan_named fp (numbered ''spine'' s) = Some (?S s)" if "s \<in> {1..tc_num_spines c}" for s
    by (rule clos_named [OF v ad dps]) (use that nm(1) in \<open>auto simp: set_clos_plans\<close>)
  have L: "plan_named fp (numbered ''leaf'' l) = Some (?L l)" if "l \<in> {1..tc_num_leafs c}" for l
    by (rule clos_named [OF v ad dps]) (use that nm(2) in \<open>auto simp: set_clos_plans\<close>)
  have C: "plan_named fp (numbered ''client'' (client_index (tc_clients_per_leaf c) l p)) = Some (?C l p)"
    if "l \<in> {1..tc_num_leafs c}" "p \<in> {1..tc_clients_per_leaf c}" for l p
  proof (rule clos_named [OF v ad dps])
    show "?C l p \<in> set (clos_plans c a)" unfolding set_clos_plans using that by blast
  qed (use that nm(3) in simp)
  consider s l where "s \<in> {1..tc_num_spines c}" "l \<in> {1..tc_num_leafs c}"
      "k = make_link ''spine-leaf'' (numbered ''spine'' s, eth l) (numbered ''leaf'' l, eth s)"
    | l p where "l \<in> {1..tc_num_leafs c}" "p \<in> {1..tc_clients_per_leaf c}"
      "k = make_link ''leaf-client'' (numbered ''leaf'' l, eth (tc_num_spines c + p))
             (numbered ''client'' (client_index (tc_clients_per_leaf c) l p), eth 1)"
    using k unfolding m by (auto simp: clos_manifest_def clos_links_def)
  then show "\<exists>A B. plan_named fp (ep_device (fst (link_endpoints k))) = Some A \<and>
        plan_named fp (ep_device (snd (link_endpoints k))) = Some B \<and>
        (plan_is_client A \<or> plan_is_client B \<or>
         bgp_session_ok A (ep_interface (fst (link_endpoints k))) B (ep_interface (snd (link_endpoints k))))"
  proof cases
    case 1
    then show ?thesis using S L clos_session [OF v ad] by (simp add: make_link_def)
  next
    case 2
    then show ?thesis
      using L C clos_client_fields [OF v ad] by (simp add: make_link_def plan_is_client_def)
  qed
qed

text \<open>A valid configuration whose devices fit the management subnet is always built.\<close>

lemma clos_offsets_range:
  "clos_valid c \<Longrightarrow> i \<in> set (clos_allocated_offsets c) \<Longrightarrow> 0 < i \<and> i \<le> clos_last_device_offset c"
proof -
  assume v: "clos_valid c" and i: "i \<in> set (clos_allocated_offsets c)"
  have "0 \<le> clos_total_clients c" using v by (simp add: clos_total_clients_def clos_valid_def)
  then show ?thesis using v i
    by (auto simp: clos_allocated_offsets_def clos_last_device_offset_def spine_mgmt_offset_def leaf_mgmt_offset_def
        client_mgmt_offset_def clos_valid_def)
qed

lemma build_clos_plan_succeeds:
  assumes "clos_valid c" "ip_network (tc_mgmt_ipv4_subnet c) = Inr n"
    and "clos_last_device_offset c + 1 < net_size n - 1"
    and "tc_collector_ip c = None" "tc_pingmesh_policy c = Some policy"
  shows "\<exists>fp. build_clos_plan d c = Inr fp"
proof -
  define a where "a = \<lparr>ma_network = n, ma_allocated_offsets = clos_allocated_offsets c\<rparr>"
  have a: "create_addressing (tc_mgmt_ipv4_subnet c) (clos_allocated_offsets c) = Inr a"
    unfolding a_def using clos_offsets_range [OF assms(1)] assms(2,3) by (intro create_addressing_Inr) fastforce+
  then have ad: "clos_addressed c a" using create_addressing_network by (simp add: clos_addressed_def)
  have "0 < clos_last_device_offset c"
    using assms(1) clos_offsets_range [of c 11]
    by (auto simp: clos_allocated_offsets_def spine_mgmt_offset_def clos_valid_def)
  then obtain col where "default_collector a (clos_last_device_offset c) True = Inr col"
      "validate_collector a col = Inr col"
    using default_collector_succeeds [of a "clos_last_device_offset c" True] assms(2,3)
      clos_offsets_range [OF assms(1)] ip_network_wf by (auto simp: a_def)
  moreover have "make_manifest (clos_manifest c a col policy (clos_plans c a)) =
      Inr (clos_manifest c a col policy (clos_plans c a))"
    using clos_wf_manifest [OF assms(1) ad] by (simp add: make_manifest_iff)
  moreover have "map dev_name (mf_devices (clos_manifest c a col policy (clos_plans c a))) = map plan_name (clos_plans c a)"
    by (simp add: clos_manifest_def plan_name_def)
  ultimately show ?thesis
    using a assms(4,5) clos_switch_plans_ok [OF assms(1) ad] clos_device_plans_Inr [OF assms(1) ad] assms(1)
    by (simp add: build_clos_plan_def validate_clos_config_iff [THEN iffD2] build_render_settings_def
        make_fabric_plan_def)
qed

text \<open>How many devices and links there are.\<close>

lemma length_filter_blocks:
  "length (filter P (concat (map (\<lambda>l. f l # map (g l) ps) ls))) =
     length (filter P (map f ls)) + length (filter P (concat (map (\<lambda>l. map (g l) ps) ls)))"
  by (induction ls) auto

lemma clos_role_counts:
  assumes v: "clos_valid c" and ad: "clos_addressed c a"
    and m: "m = clos_manifest c a collector policy (clos_plans c a)"
  shows "int (length (devices_by_role m SPINE)) = tc_num_spines c"
    and "int (length (devices_by_role m LEAF)) = tc_num_leafs c"
    and "int (length (clients m)) = tc_num_leafs c * tc_clients_per_leaf c"
proof -
  have d: "mf_devices m = clos_devs c a" by (simp add: m clos_manifest_def clos_plans_devices [OF v ad])
  have n: "0 \<le> tc_num_spines c" "0 \<le> tc_num_leafs c" "0 \<le> tc_clients_per_leaf c"
    using v by (auto simp: clos_valid_def)
  show "int (length (devices_by_role m SPINE)) = tc_num_spines c"
    "int (length (devices_by_role m LEAF)) = tc_num_leafs c"
    "int (length (clients m)) = tc_num_leafs c * tc_clients_per_leaf c"
    using n by (simp_all add: clients_def devices_by_role_def d clos_devs_def length_filter_blocks filter_map
        comp_def filter_concat length_concat_const)
qed

lemma clos_link_count:
  "clos_valid c \<Longrightarrow> int (length (mf_links (clos_manifest c a collector policy plans))) =
     tc_num_leafs c * (tc_num_spines c + tc_clients_per_leaf c)"
  by (simp add: clos_manifest_def clos_links_def length_concat_const clos_valid_def distrib_left)

section \<open>Properties\<close>

definition default_clos_example :: topology_config where
  "default_clos_example = default_topology_config
     \<lparr>tc_pingmesh_policy := Some \<lparr>pol_destination_batch_size = None, pol_rtt_port_pool_size = 8,
        pol_rtt_ports_per_cycle = 4, pol_cycle_interval_seconds = 10, pol_df_payload_size = 9072\<rparr>\<rparr>"

lemma example_fields [simp]:
  "tc_num_spines default_clos_example = 2" "tc_num_leafs default_clos_example = 2"
  "tc_clients_per_leaf default_clos_example = 1" "tc_mgmt_ipv4_subnet default_clos_example = ''172.20.20.0/24''"
  "tc_collector_ip default_clos_example = None" "clos_valid default_clos_example"
  "clos_last_device_offset default_clos_example = 16"
  "tc_pingmesh_policy default_clos_example = Some \<lparr>pol_destination_batch_size = None, pol_rtt_port_pool_size = 8,
     pol_rtt_ports_per_cycle = 4, pol_cycle_interval_seconds = 10, pol_df_payload_size = 9072\<rparr>"
  by (simp_all add: default_clos_example_def default_topology_config_def clos_valid_def clos_last_device_offset_def
      clos_total_clients_def client_mgmt_offset_def leaf_mgmt_offset_def spine_mgmt_offset_def)

text \<open>
  C9. Building a CLOS fabric: a configuration with 1 to 255 spines, 1 to 155 leafs and 1 to 64
  clients per leaf, whose devices and collector fit the management subnet, always yields a
  plan; every plan yields a well-formed manifest with the configured numbers of devices of
  each role, one link per spine and leaf and per client; other sizes are refused.
\<close>

theorem build_clos_plan_correct:
  "(validate_clos_config c = Inr () \<and> ip_network (tc_mgmt_ipv4_subnet c) = Inr n \<and>
      clos_last_device_offset c + 1 < net_size n - 1 \<and> tc_collector_ip c = None \<and>
      tc_pingmesh_policy c = Some policy \<longrightarrow> (\<exists>fp. build_clos_plan d c = Inr fp)) \<and>
   (build_clos_plan d c = Inr fp \<longrightarrow>
      wf_manifest (fp_manifest fp) \<and>
      int (length (devices_by_role (fp_manifest fp) SPINE)) = tc_num_spines c \<and>
      int (length (devices_by_role (fp_manifest fp) LEAF)) = tc_num_leafs c \<and>
      int (length (clients (fp_manifest fp))) = tc_num_leafs c * tc_clients_per_leaf c \<and>
      int (length (mf_links (fp_manifest fp))) =
        tc_num_leafs c * (tc_num_spines c + tc_clients_per_leaf c)) \<and>
   (isl (validate_clos_config c) \<longleftrightarrow>
      \<not> (tc_num_spines c \<in> {1..255} \<and> tc_num_leafs c \<in> {1..155} \<and> tc_clients_per_leaf c \<in> {1..64}))"
proof (intro conjI)
  show "validate_clos_config c = Inr () \<and> ip_network (tc_mgmt_ipv4_subnet c) = Inr n \<and>
      clos_last_device_offset c + 1 < net_size n - 1 \<and> tc_collector_ip c = None \<and>
      tc_pingmesh_policy c = Some policy \<longrightarrow> (\<exists>fp. build_clos_plan d c = Inr fp)"
    using build_clos_plan_succeeds validate_clos_config_iff by blast
  show "build_clos_plan d c = Inr fp \<longrightarrow> wf_manifest (fp_manifest fp) \<and>
      int (length (devices_by_role (fp_manifest fp) SPINE)) = tc_num_spines c \<and>
      int (length (devices_by_role (fp_manifest fp) LEAF)) = tc_num_leafs c \<and>
      int (length (clients (fp_manifest fp))) = tc_num_leafs c * tc_clients_per_leaf c \<and>
      int (length (mf_links (fp_manifest fp))) = tc_num_leafs c * (tc_num_spines c + tc_clients_per_leaf c)"
    (is "_ \<longrightarrow> ?Q")
  proof
    assume "build_clos_plan d c = Inr fp"
    then obtain a collector pol where v: "clos_valid c" and ad: "clos_addressed c a"
      and m: "fp_manifest fp = clos_manifest c a collector pol (clos_plans c a)"
      using build_clos_plan_Inr by blast
    show ?Q
      using clos_wf_manifest [OF v ad] clos_role_counts [OF v ad m] clos_link_count [OF v] m by simp
  qed
  show "isl (validate_clos_config c) \<longleftrightarrow>
      \<not> (tc_num_spines c \<in> {1..255} \<and> tc_num_leafs c \<in> {1..155} \<and> tc_clients_per_leaf c \<in> {1..64})"
    by (auto simp: validate_clos_config_def)
qed

theorem build_clos_plan_correct_witness:
  "\<exists>fp. build_clos_plan [] default_clos_example = Inr fp \<and> wf_manifest (fp_manifest fp)
     \<and> length (clients (fp_manifest fp)) = 2 \<and> length (mf_links (fp_manifest fp)) = 6"
proof -
  have v: "validate_clos_config default_clos_example = Inr ()" by (simp add: validate_clos_config_iff)
  obtain fp where fp: "build_clos_plan [] default_clos_example = Inr fp"
    using build_clos_plan_correct [where c = default_clos_example and d = "[]"
        and n = "\<lparr>net_address = 2886996992, net_prefix = 24\<rparr>"] v example_network
    by (auto simp: net_size_def)
  then show ?thesis
    using build_clos_plan_correct [THEN conjunct2, THEN conjunct1, of "[]" default_clos_example fp] by simp
qed

text \<open>
  C12. Routing sessions of a CLOS fabric: in every plan the builder returns, each link names two
  planned devices, and each link between a spine and a leaf carries a consistent eBGP
  session: both ends own their address of the link's /30 subnet on the very port the link
  plugs into (after the Linux to SONiC port translation), and list each other's address and
  autonomous system as neighbour.
\<close>

theorem clos_sessions_consistent:
  assumes "build_clos_plan d c = Inr fp"
  shows "sessions_ok fp"
  using build_clos_plan_Inr [OF assms] clos_sessions by blast

theorem clos_sessions_consistent_witness:
  "\<exists>fp. build_clos_plan [] default_clos_example = Inr fp \<and> sessions_ok fp"
proof -
  obtain fp where "build_clos_plan [] default_clos_example = Inr fp"
    using build_clos_plan_succeeds [of default_clos_example "\<lparr>net_address = 2886996992, net_prefix = 24\<rparr>" _ "[]"]
      example_network by (auto simp: net_size_def)
  with clos_sessions_consistent [OF this] show ?thesis by blast
qed

end
