(* ===== verification/Fat_Tree_Builder.thy ===== *)
theory Fat_Tree_Builder
  imports Builder_Lib "HOL-Library.Product_Lexorder"
begin

text \<open>
  \<open>netopsbench/platform/topology/fat_tree_builder.py\<close>: the complete plan of a k-ary fat tree.
  Pod \<open>p\<close> has \<open>k/2\<close> aggregation and \<open>k/2\<close> edge switches; the \<open>j\<close>-th aggregation switch of
  every pod connects to the \<open>j\<close>-th group of \<open>k/2\<close> cores.  The wiring loops are modelled as
  folds over the state they fill, and the links get their \<open>/30\<close> subnets in sorted order.
\<close>

section \<open>The wiring loops\<close>

definition validate_fat_tree_config :: "fat_tree_config \<Rightarrow> unit result" where
  "validate_fat_tree_config c =
     (if 155 < num_total_edge c then
        Inl (ValueError (''num_total_edge must fit the client subnet scheme 192.168.(100+edge).0/24 ''
          @ ''(1-155), got '' @ int_str (num_total_edge c)))
      else if 64 < int_or_0 (fc_clients_per_edge c) then
        Inl (ValueError ''clients_per_edge must fit the per-edge /30 allocation'')
      else Inr ())"

type_synonym adjacency = "(int, int list) dict"

record wiring =
  w_core_agg :: "(int \<times> int) list"
  w_agg_edge :: "(int \<times> int) list"
  w_core_neighbors :: adjacency
  w_agg_core :: adjacency
  w_agg_edges :: adjacency
  w_edge_agg :: adjacency
  w_agg_pod :: "(int, int) dict"
  w_edge_pod :: "(int, int) dict"

definition empty_wiring :: wiring where
  "empty_wiring = \<lparr>w_core_agg = [], w_agg_edge = [], w_core_neighbors = [], w_agg_core = [],
     w_agg_edges = [], w_edge_agg = [], w_agg_pod = [], w_edge_pod = []\<rparr>"

text \<open>The neighbours recorded so far; \<open>setdefault(key, []).append(x)\<close>; \<open>setdefault(key, x)\<close>.\<close>

definition nbrs :: "adjacency \<Rightarrow> int \<Rightarrow> int list" where
  "nbrs d i = dict_get_default d i []"

definition append_to :: "adjacency \<Rightarrow> int \<Rightarrow> int \<Rightarrow> adjacency" where
  "append_to d i x = dict_set d i (nbrs d i @ [x])"

definition setdefault :: "(int, int) dict \<Rightarrow> int \<Rightarrow> int \<Rightarrow> (int, int) dict" where
  "setdefault d i x = (case dict_get d i of Some _ \<Rightarrow> d | None \<Rightarrow> dict_set d i x)"

definition wire_core :: "int \<Rightarrow> int \<Rightarrow> wiring \<Rightarrow> wiring" where
  "wire_core g core w =
     w\<lparr>w_core_agg := w_core_agg w @ [(core, g)],
       w_core_neighbors := append_to (w_core_neighbors w) core g,
       w_agg_core := append_to (w_agg_core w) g core\<rparr>"

definition wire_edge :: "int \<Rightarrow> int \<Rightarrow> int \<Rightarrow> wiring \<Rightarrow> wiring" where
  "wire_edge pod g edge w =
     w\<lparr>w_agg_edge := w_agg_edge w @ [(g, edge)],
       w_agg_edges := append_to (w_agg_edges w) g edge,
       w_edge_agg := append_to (w_edge_agg w) edge g,
       w_edge_pod := setdefault (w_edge_pod w) edge pod\<rparr>"

definition global_index :: "int \<Rightarrow> int \<Rightarrow> int \<Rightarrow> int" where
  "global_index h pod local = (pod - 1) * h + local"

definition start_agg :: "int \<Rightarrow> int \<Rightarrow> wiring \<Rightarrow> wiring" where
  "start_agg pod g w =
     w\<lparr>w_agg_pod := dict_set (w_agg_pod w) g pod, w_agg_core := dict_set (w_agg_core w) g [],
       w_agg_edges := dict_set (w_agg_edges w) g []\<rparr>"

definition wire_agg :: "int \<Rightarrow> int \<Rightarrow> int \<Rightarrow> wiring \<Rightarrow> wiring" where
  "wire_agg h pod local_agg w =
     (let g = global_index h pod local_agg;
          w1 = start_agg pod g w;
          w2 = fold (\<lambda>off. wire_core g (global_index h local_agg off)) [1..h] w1
      in fold (\<lambda>le. wire_edge pod g (global_index h pod le)) [1..h] w2)"

definition wire :: "fat_tree_config \<Rightarrow> wiring" where
  "wire c = fold (\<lambda>pod. fold (wire_agg (half c) pod) [1..half c]) [1..fc_k c] empty_wiring"

section \<open>Link subnets\<close>

text \<open>
  The \<open>n\<close>-th \<open>/30\<close> of \<open>10.b.0.0/16\<close> has the hosts \<open>base + 4n + 1\<close> and \<open>base + 4n + 2\<close>.  Of the
  16384 subnets at most 1240 are used (\<open>links_bounded\<close>), so the iterator never runs dry.
\<close>

definition subnet_hosts :: "int \<Rightarrow> int \<Rightarrow> string \<times> string" where
  "subnet_hosts b n = (let base = (10 * 256 + b) * 65536 in (ip_str (base + 4 * n + 1), ip_str (base + 4 * n + 2)))"

definition link_ips :: "int \<Rightarrow> (int \<times> int) list \<Rightarrow> (int \<times> int, string \<times> string) dict" where
  "link_ips b ls = dict_of (map (\<lambda>(n, l). (l, subnet_hosts b n)) (zip [0..int (length ls) - 1] (sort ls)))"

definition link_ip :: "(int \<times> int, string \<times> string) dict \<Rightarrow> int \<Rightarrow> int \<Rightarrow> string \<times> string" where
  "link_ip d i j = dict_get_default d (i, j) ([], [])"

section \<open>Management addresses\<close>

definition ft_core_offset :: int where
  "ft_core_offset = 10"

definition ft_agg_offset :: "fat_tree_config \<Rightarrow> int" where
  "ft_agg_offset c = ft_core_offset + num_core c"

definition ft_edge_offset :: "fat_tree_config \<Rightarrow> int" where
  "ft_edge_offset c = ft_agg_offset c + num_total_agg c"

definition ft_client_offset :: "fat_tree_config \<Rightarrow> int" where
  "ft_client_offset c = ft_edge_offset c + num_total_edge c"

definition ft_last_device_offset :: "fat_tree_config \<Rightarrow> int" where
  "ft_last_device_offset c = ft_client_offset c + num_total_clients c"

definition ft_allocated_offsets :: "fat_tree_config \<Rightarrow> int list" where
  "ft_allocated_offsets c =
     map (\<lambda>i. ft_core_offset + i) [1..num_core c] @ map (\<lambda>i. ft_agg_offset c + i) [1..num_total_agg c]
     @ map (\<lambda>i. ft_edge_offset c + i) [1..num_total_edge c]
     @ map (\<lambda>i. ft_client_offset c + i) [1..num_total_clients c]"

section \<open>Device plans\<close>

text \<open>\<open>enumerate(xs, start=1)\<close> and \<open>xs.index(x) + 1\<close>.\<close>

definition numbered_from_1 :: "'a list \<Rightarrow> (int \<times> 'a) list" where
  "numbered_from_1 xs = zip [1..int (length xs)] xs"

fun port_of :: "'a list \<Rightarrow> 'a \<Rightarrow> int" where
  "port_of [] x = 1"
| "port_of (y # ys) x = (if y = x then 1 else 1 + port_of ys x)"

definition core_agg_ips :: "fat_tree_config \<Rightarrow> int \<Rightarrow> int \<Rightarrow> string \<times> string" where
  "core_agg_ips c = link_ip (link_ips 1 (w_core_agg (wire c)))"

definition agg_edge_ips :: "fat_tree_config \<Rightarrow> int \<Rightarrow> int \<Rightarrow> string \<times> string" where
  "agg_edge_ips c = link_ip (link_ips 2 (w_agg_edge (wire c)))"

definition core_plan :: "fat_tree_config \<Rightarrow> management_addressing \<Rightarrow> int \<Rightarrow> device_plan result" where
  "core_plan c a i =
     (let asn = fc_core_asn_start c + i - 1; router_id = quad 10 0 1 i
      in bindE (host_ip a (ft_core_offset + i)) (\<lambda>ip.
        let peers = sort (nbrs (w_core_neighbors (wire c)) i) in
        Inr \<lparr>dp_device = \<lparr>dev_name = numbered ''core'' i, dev_role = CORE, dev_mgmt_ip = Some ip,
               dev_data_ip = None, dev_attached_switch = None, dev_asn = Some asn,
               dev_router_id = Some router_id, dev_metadata = []\<rparr>,
             dp_required_ports = fc_k c,
             dp_interface_cidrs = dict_of (map (\<lambda>(port, g). (sonic_port_name port, [cidr30 (fst (core_agg_ips c i g))]))
               (numbered_from_1 peers)),
             dp_bgp_asn = Some asn, dp_bgp_router_id = Some router_id,
             dp_bgp_neighbors = map (\<lambda>g. \<lparr>bn_peer_ip = snd (core_agg_ips c i g),
               bn_remote_as = fc_agg_asn_start c + g - 1\<rparr>) peers,
             dp_bgp_networks = [], dp_client_commands = []\<rparr>))"

definition agg_plan :: "fat_tree_config \<Rightarrow> management_addressing \<Rightarrow> int \<Rightarrow> device_plan result" where
  "agg_plan c a g =
     (let asn = fc_agg_asn_start c + g - 1; router_id = quad 10 0 2 g
      in bindE (host_ip a (ft_agg_offset c + g)) (\<lambda>ip.
        let core_peers = sort (nbrs (w_agg_core (wire c)) g);
            edge_peers = sort (nbrs (w_agg_edges (wire c)) g) in
        Inr \<lparr>dp_device = \<lparr>dev_name = numbered ''agg'' g, dev_role = AGG, dev_mgmt_ip = Some ip,
               dev_data_ip = None, dev_attached_switch = None, dev_asn = Some asn,
               dev_router_id = Some router_id,
               dev_metadata = [(''pod'', JInt (dict_get_default (w_agg_pod (wire c)) g 0))]\<rparr>,
             dp_required_ports = fc_k c,
             dp_interface_cidrs = dict_of
               (map (\<lambda>(port, i). (sonic_port_name port, [cidr30 (snd (core_agg_ips c i g))])) (numbered_from_1 core_peers)
                @ map (\<lambda>(port, e). (sonic_port_name (half c + port), [cidr30 (fst (agg_edge_ips c g e))]))
                    (numbered_from_1 edge_peers)),
             dp_bgp_asn = Some asn, dp_bgp_router_id = Some router_id,
             dp_bgp_neighbors =
               map (\<lambda>i. \<lparr>bn_peer_ip = fst (core_agg_ips c i g), bn_remote_as = fc_core_asn_start c + i - 1\<rparr>) core_peers
               @ map (\<lambda>e. \<lparr>bn_peer_ip = snd (agg_edge_ips c g e), bn_remote_as = fc_edge_asn_start c + e - 1\<rparr>) edge_peers,
             dp_bgp_networks = [], dp_client_commands = []\<rparr>))"

definition edge_plan :: "fat_tree_config \<Rightarrow> management_addressing \<Rightarrow> int \<Rightarrow> device_plan result" where
  "edge_plan c a e =
     (let asn = fc_edge_asn_start c + e - 1; router_id = quad 10 0 3 e;
          clients_per_edge = int_or_0 (fc_clients_per_edge c)
      in bindE (host_ip a (ft_edge_offset c + e)) (\<lambda>ip.
        let agg_peers = sort (nbrs (w_edge_agg (wire c)) e) in
        Inr \<lparr>dp_device = \<lparr>dev_name = numbered ''edge'' e, dev_role = EDGE, dev_mgmt_ip = Some ip,
               dev_data_ip = None, dev_attached_switch = None, dev_asn = Some asn,
               dev_router_id = Some router_id,
               dev_metadata = [(''pod'', JInt (dict_get_default (w_edge_pod (wire c)) e 0)),
                               (''client_subnet'', JStr (quad 192 168 (100 + e) 0 @ ''/24''))]\<rparr>,
             dp_required_ports = half c + clients_per_edge,
             dp_interface_cidrs = dict_of
               (map (\<lambda>(port, g). (sonic_port_name port, [cidr30 (snd (agg_edge_ips c g e))])) (numbered_from_1 agg_peers)
                @ map (\<lambda>p. (sonic_port_name (half c + p), [cidr30 (quad 192 168 (100 + e) (subnet_base p + 1))]))
                    [1..clients_per_edge]),
             dp_bgp_asn = Some asn, dp_bgp_router_id = Some router_id,
             dp_bgp_neighbors = map (\<lambda>g. \<lparr>bn_peer_ip = fst (agg_edge_ips c g e),
               bn_remote_as = fc_agg_asn_start c + g - 1\<rparr>) agg_peers,
             dp_bgp_networks = map (\<lambda>p. cidr30 (quad 192 168 (100 + e) (subnet_base p))) [1..clients_per_edge],
             dp_client_commands = []\<rparr>))"

text \<open>The pairs of an edge switch and a client position, in the order the client counter runs.\<close>

definition ft_client_slots :: "fat_tree_config \<Rightarrow> (int \<times> int) list" where
  "ft_client_slots c =
     concat (map (\<lambda>e. map (Pair e) [1..int_or_0 (fc_clients_per_edge c)]) [1..num_total_edge c])"

definition ft_client_plan ::
  "fat_tree_config \<Rightarrow> management_addressing \<Rightarrow> int \<times> int \<times> int \<Rightarrow> device_plan result" where
  "ft_client_plan c a slot =
     (case slot of (idx, e, p) \<Rightarrow>
        let client_ip = quad 192 168 (100 + e) (subnet_base p + 2);
            gateway = quad 192 168 (100 + e) (subnet_base p + 1)
        in bindE (host_ip a (ft_client_offset c + idx)) (\<lambda>ip.
          Inr \<lparr>dp_device = \<lparr>dev_name = numbered ''client'' idx, dev_role = CLIENT, dev_mgmt_ip = Some ip,
                 dev_data_ip = Some client_ip, dev_attached_switch = Some (numbered ''edge'' e), dev_asn = None,
                 dev_router_id = None,
                 dev_metadata = [(''rack'', JStr (''pod'' @ int_str (dict_get_default (w_edge_pod (wire c)) e 0)
                   @ ''-edge'' @ int_str e))]\<rparr>,
               dp_required_ports = 0, dp_interface_cidrs = [], dp_bgp_asn = None, dp_bgp_router_id = None,
               dp_bgp_neighbors = [], dp_bgp_networks = [],
               dp_client_commands = client_commands client_ip gateway\<rparr>))"

definition ft_device_plans :: "fat_tree_config \<Rightarrow> management_addressing \<Rightarrow> device_plan list result" where
  "ft_device_plans c a =
     bindE (mapE (core_plan c a) [1..num_core c]) (\<lambda>cores.
     bindE (mapE (agg_plan c a) [1..num_total_agg c]) (\<lambda>aggs.
     bindE (mapE (edge_plan c a) [1..num_total_edge c]) (\<lambda>edges.
     bindE (mapE (ft_client_plan c a) (numbered_from_1 (ft_client_slots c))) (\<lambda>cs.
       Inr (cores @ aggs @ edges @ cs)))))"

section \<open>Links, manifest and plan\<close>

definition ft_links :: "fat_tree_config \<Rightarrow> link list" where
  "ft_links c =
     (let w = wire c in
      map (\<lambda>(i, g). make_link ''core-agg''
             (numbered ''core'' i, eth (port_of (sort (nbrs (w_core_neighbors w) i)) g))
             (numbered ''agg'' g, eth (port_of (sort (nbrs (w_agg_core w) g)) i)))
        (sort (w_core_agg w))
      @ map (\<lambda>(g, e). make_link ''agg-edge''
             (numbered ''agg'' g, eth (half c + port_of (sort (nbrs (w_agg_edges w) g)) e))
             (numbered ''edge'' e, eth (port_of (sort (nbrs (w_edge_agg w) e)) g)))
        (sort (w_agg_edge w))
      @ map (\<lambda>(idx, e, p). make_link ''edge-client''
             (numbered ''edge'' e, eth (half c + p)) (numbered ''client'' idx, eth 1))
        (numbered_from_1 (ft_client_slots c)))"

definition asn_range :: "int \<Rightarrow> int \<Rightarrow> string" where
  "asn_range start n = int_str start @ ''-'' @ int_str (start + n - 1)"

definition ft_scale :: "fat_tree_config \<Rightarrow> string" where
  "ft_scale c = or_default (fc_scale_name c) (''fat-tree-k'' @ int_str (fc_k c))"

definition ft_manifest ::
  "fat_tree_config \<Rightarrow> management_addressing \<Rightarrow> string \<Rightarrow> pingmesh_policy \<Rightarrow> device_plan list \<Rightarrow> manifest" where
  "ft_manifest c a collector policy plans =
     \<lparr>mf_topology_id = fc_name c, mf_name = fc_name c, mf_scale = ft_scale c, mf_family = ''fat-tree'',
      mf_management = \<lparr>mgmt_network = or_default (fc_mgmt_network_name c) (''clab-mgmt-'' @ fc_name c),
                       mgmt_ipv4_subnet = network_str (ma_network a)\<rparr>,
      mf_collector = collector, mf_link_mtu = default_link_mtu, mf_sonic_port_mtu = default_sonic_port_mtu,
      mf_facts = \<lparr>tf_num_spines = 0, tf_num_leafs = 0, tf_num_cores = num_core c,
                  tf_num_aggs = num_total_agg c, tf_num_edges = num_total_edge c, tf_num_pods = num_pods c,
                  tf_clients_per_attached_switch = int_or_0 (fc_clients_per_edge c),
                  tf_total_clients = num_total_clients c,
                  tf_total_switches = num_core c + num_total_agg c + num_total_edge c,
                  tf_fat_tree_k = Some (fc_k c), tf_full_density = Some (half c),
                  tf_host_density = Some (host_density c)\<rparr>,
      mf_devices = map dp_device plans, mf_links = ft_links c,
      mf_routing = \<lparr>rt_spine_asn = None, rt_leaf_asn_range = None,
                    rt_core_asn_range = Some (asn_range (fc_core_asn_start c) (num_core c)),
                    rt_agg_asn_range = Some (asn_range (fc_agg_asn_start c) (num_total_agg c)),
                    rt_edge_asn_range = Some (asn_range (fc_edge_asn_start c) (num_total_edge c)),
                    rt_ecmp_policy = [(CORE, 1), (AGG, 0), (EDGE, 1)], rt_ecmp = True, rt_bfd = True\<rparr>,
      mf_pingmesh = policy\<rparr>"

definition ft_header :: "fat_tree_config \<Rightarrow> string" where
  "ft_header c =
     ''# '' @ str_upper (fc_name c) @ '' Fat-tree Topology Configuration'' @ newline
     @ ''# Generated by NetOpsBench Topology Generator'' @ newline
     @ ''# Scale: k='' @ int_str (fc_k c) @ '', '' @ int_str (num_core c) @ '' core, ''
     @ int_str (num_total_agg c) @ '' agg, '' @ int_str (num_total_edge c) @ '' edge, ''
     @ int_str (int_or_0 (fc_clients_per_edge c)) @ '' clients/edge'' @ newline
     @ ''#'' @ newline @ ''# Features:'' @ newline @ ''# - BGP with ECMP'' @ newline
     @ ''# - Preseeded SONiC startup artifacts'' @ newline @ newline"

definition build_fat_tree_plan :: "scale_registry \<Rightarrow> fat_tree_config \<Rightarrow> fabric_plan result" where
  "build_fat_tree_plan default_profiles c =
     bindE (validate_fat_tree_config c) (\<lambda>_.
     bindE (create_addressing (fc_mgmt_ipv4_subnet c) (ft_allocated_offsets c)) (\<lambda>a.
     bindE (case fc_collector_ip c of
              Some ip \<Rightarrow> if ip = [] then default_collector a (ft_last_device_offset c) False else Inr ip
            | None \<Rightarrow> default_collector a (ft_last_device_offset c) False) (\<lambda>collector_ip.
     bindE (validate_collector a collector_ip) (\<lambda>_.
     bindE (build_render_settings a collector_ip) (\<lambda>syslog_collector.
     bindE (ft_device_plans c a) (\<lambda>plans.
     bindE (case fc_pingmesh_policy c of
              Some p \<Rightarrow> Inr p
            | None \<Rightarrow> pingmesh_policy_for_scale default_profiles (ft_scale c) None) (\<lambda>policy.
     bindE (make_manifest (ft_manifest c a syslog_collector policy plans)) (\<lambda>m.
     make_fabric_plan
       \<lparr>fp_manifest = m, fp_device_plans = plans, fp_nos_kind = fc_nos_kind c, fp_nos_image = fc_nos_image c,
        fp_client_image = fc_client_image c, fp_syslog_collector = syslog_collector,
        fp_yaml_header = ft_header c\<rparr>))))))))"

section \<open>What the wiring loops compute\<close>

lemma global_index_client_index: "global_index h i j = client_index h i j"
  by (simp add: global_index_def client_index_def)

lemma nbrs_append_to [simp]: "nbrs (append_to d i x) j = (if j = i then nbrs d i @ [x] else nbrs d j)"
  by (simp add: nbrs_def append_to_def dict_get_default_def)

lemma nbrs_reset [simp]: "nbrs (dict_set d i xs) j = (if j = i then xs else nbrs d j)"
  by (simp add: nbrs_def dict_get_default_def)

text \<open>The neighbour dictionaries are the projections of the link lists.\<close>

definition wired :: "wiring \<Rightarrow> bool" where
  "wired w \<longleftrightarrow> (\<forall>i.
     nbrs (w_core_neighbors w) i = map snd (filter (\<lambda>l. fst l = i) (w_core_agg w)) \<and>
     nbrs (w_agg_core w) i = map fst (filter (\<lambda>l. snd l = i) (w_core_agg w)) \<and>
     nbrs (w_agg_edges w) i = map snd (filter (\<lambda>l. fst l = i) (w_agg_edge w)) \<and>
     nbrs (w_edge_agg w) i = map fst (filter (\<lambda>l. snd l = i) (w_agg_edge w)))"

definition fresh_agg :: "int \<Rightarrow> wiring \<Rightarrow> bool" where
  "fresh_agg g w \<longleftrightarrow> (\<forall>l \<in> set (w_core_agg w). snd l \<noteq> g) \<and> (\<forall>l \<in> set (w_agg_edge w). fst l \<noteq> g)"

lemma wired_core: "wired w \<Longrightarrow> wired (wire_core g i w)"
  by (simp add: wired_def wire_core_def)

lemma wired_edge: "wired w \<Longrightarrow> wired (wire_edge pod g e w)"
  by (simp add: wired_def wire_edge_def)

lemma wired_start: "wired w \<Longrightarrow> fresh_agg g w \<Longrightarrow> wired (start_agg pod g w)"
  by (auto simp: wired_def start_agg_def fresh_agg_def filter_empty_conv)

lemma fold_preserves: "(\<And>x s. P s \<Longrightarrow> P (f x s)) \<Longrightarrow> P s \<Longrightarrow> P (fold f xs s)"
  by (induction xs arbitrary: s) auto

lemma fold_core_links:
  "w_core_agg (fold (\<lambda>x. wire_core g (f x)) xs w) = w_core_agg w @ map (\<lambda>x. (f x, g)) xs"
  "w_agg_edge (fold (\<lambda>x. wire_core g (f x)) xs w) = w_agg_edge w"
  by (induction xs arbitrary: w) (simp_all add: wire_core_def)

lemma fold_edge_links:
  "w_agg_edge (fold (\<lambda>x. wire_edge pod g (f x)) xs w) = w_agg_edge w @ map (\<lambda>x. (g, f x)) xs"
  "w_core_agg (fold (\<lambda>x. wire_edge pod g (f x)) xs w) = w_core_agg w"
  by (induction xs arbitrary: w) (simp_all add: wire_edge_def)

lemma wire_agg_links:
  "w_core_agg (wire_agg h pod la w) =
     w_core_agg w @ map (\<lambda>off. (global_index h la off, global_index h pod la)) [1..h]"
  "w_agg_edge (wire_agg h pod la w) =
     w_agg_edge w @ map (\<lambda>le. (global_index h pod la, global_index h pod le)) [1..h]"
  by (simp_all add: wire_agg_def Let_def fold_core_links fold_edge_links start_agg_def)

lemma wired_wire_agg: "wired w \<Longrightarrow> fresh_agg (global_index h pod la) w \<Longrightarrow> wired (wire_agg h pod la w)"
  unfolding wire_agg_def Let_def
  by (intro fold_preserves [where P = wired] wired_core wired_edge wired_start)

lemma wired_fold:
  "wired w \<Longrightarrow> distinct (map (\<lambda>(pod, la). global_index h pod la) ps) \<Longrightarrow>
   (\<And>pod la. (pod, la) \<in> set ps \<Longrightarrow> fresh_agg (global_index h pod la) w) \<Longrightarrow>
   wired (fold (\<lambda>(pod, la). wire_agg h pod la) ps w)"
proof (induction ps arbitrary: w)
  case (Cons p ps)
  obtain pod la where p: "p = (pod, la)" by (cases p)
  have "wired (wire_agg h pod la w)" using Cons.prems p by (intro wired_wire_agg) auto
  moreover have "fresh_agg (global_index h pod' la') (wire_agg h pod la w)" if "(pod', la') \<in> set ps" for pod' la'
  proof -
    have "global_index h pod' la' \<noteq> global_index h pod la" using Cons.prems(2) that p by (auto simp: rev_image_eqI)
    moreover have "fresh_agg (global_index h pod' la') w" using Cons.prems(3) that by auto
    ultimately show ?thesis by (auto simp: fresh_agg_def wire_agg_links)
  qed
  ultimately show ?case using Cons.IH Cons.prems(2) p by simp
qed simp

lemma fold_wire_agg_links:
  "w_core_agg (fold (\<lambda>(pod, la). wire_agg h pod la) ps w) = w_core_agg w
     @ concat (map (\<lambda>(pod, la). map (\<lambda>off. (global_index h la off, global_index h pod la)) [1..h]) ps)"
  "w_agg_edge (fold (\<lambda>(pod, la). wire_agg h pod la) ps w) = w_agg_edge w
     @ concat (map (\<lambda>(pod, la). map (\<lambda>le. (global_index h pod la, global_index h pod le)) [1..h]) ps)"
  by (induction ps arbitrary: w) (auto simp: wire_agg_links)

definition agg_slots :: "fat_tree_config \<Rightarrow> (int \<times> int) list" where
  "agg_slots c = concat (map (\<lambda>pod. map (Pair pod) [1..half c]) [1..fc_k c])"

lemma wire_slots: "wire c = fold (\<lambda>(pod, la). wire_agg (half c) pod la) (agg_slots c) empty_wiring"
proof -
  have "fold (\<lambda>(pod, la). wire_agg h pod la) (concat (map (\<lambda>pod. map (Pair pod) ls) ps)) w =
      fold (\<lambda>pod. fold (wire_agg h pod) ls) ps w" for h ls ps w
    by (induction ps arbitrary: w) (simp_all add: fold_map comp_def)
  then show ?thesis by (simp add: wire_def agg_slots_def)
qed

lemma global_index_inj:
  "j \<in> {1..h} \<Longrightarrow> j' \<in> {1..h} \<Longrightarrow> global_index h i j = global_index h i' j' \<longleftrightarrow> i = i' \<and> j = j'"
  using client_index_inj [of j h j' i i'] by (auto simp: global_index_client_index)

lemma set_agg_slots: "set (agg_slots c) = {1..fc_k c} \<times> {1..half c}"
  by (auto simp: agg_slots_def)

lemma distinct_agg_slots: "distinct (map (\<lambda>(pod, la). global_index (half c) pod la) (agg_slots c))"
proof -
  have "distinct (agg_slots c)" unfolding agg_slots_def by (rule distinct_concat_map2) (auto simp: inj_on_def)
  then show ?thesis by (auto simp: distinct_map inj_on_def set_agg_slots global_index_inj)
qed

lemma wired_wire: "wired (wire c)"
  unfolding wire_slots by (rule wired_fold) (auto simp: distinct_agg_slots wired_def empty_wiring_def fresh_agg_def
      nbrs_def dict_get_default_def)

lemma distinct_slot_map:
  "distinct ps \<Longrightarrow> distinct ys \<Longrightarrow> inj_on (\<lambda>(p, y). f p y) (set ps \<times> set ys) \<Longrightarrow>
   distinct (concat (map (\<lambda>(a, b). map (f (a, b)) ys) ps))"
  using distinct_concat_map2 [of ps ys f] by (simp add: case_prod_beta')

lemma distinct_links: "distinct (w_core_agg (wire c))" "distinct (w_agg_edge (wire c))"
proof -
  have d: "distinct (agg_slots c)" using distinct_agg_slots by (simp add: distinct_map)
  show "distinct (w_core_agg (wire c))"
    using distinct_slot_map [OF d, of "[1..half c]"
        "\<lambda>p off. (global_index (half c) (snd p) off, global_index (half c) (fst p) (snd p))"]
    by (auto simp: wire_slots fold_wire_agg_links empty_wiring_def inj_on_def set_agg_slots global_index_inj)
  show "distinct (w_agg_edge (wire c))"
    using distinct_slot_map [OF d, of "[1..half c]"
        "\<lambda>p le. (global_index (half c) (fst p) (snd p), global_index (half c) (fst p) le)"]
    by (auto simp: wire_slots fold_wire_agg_links empty_wiring_def inj_on_def set_agg_slots global_index_inj)
qed

lemma core_link_iff:
  "(i, g) \<in> set (w_core_agg (wire c)) \<longleftrightarrow>
     (\<exists>pod \<in> {1..fc_k c}. \<exists>la \<in> {1..half c}. \<exists>off \<in> {1..half c}.
        i = global_index (half c) la off \<and> g = global_index (half c) pod la)"
  by (force simp: wire_slots fold_wire_agg_links empty_wiring_def set_agg_slots)

lemma edge_link_iff:
  "(g, e) \<in> set (w_agg_edge (wire c)) \<longleftrightarrow>
     (\<exists>pod \<in> {1..fc_k c}. \<exists>la \<in> {1..half c}. \<exists>le \<in> {1..half c}.
        g = global_index (half c) pod la \<and> e = global_index (half c) pod le)"
  by (force simp: wire_slots fold_wire_agg_links empty_wiring_def set_agg_slots)

lemma index_digits:
  assumes "j \<in> {1..h}"
  shows "(global_index h i j - 1) div h = i - 1" "(global_index h i j - 1) mod h = j - 1"
proof -
  have e: "global_index h i j - 1 = (j - 1) + (i - 1) * h" by (simp add: global_index_def)
  have j: "0 \<le> j - 1" "j - 1 < h" using assms by auto
  show "(global_index h i j - 1) div h = i - 1"
    unfolding e using j div_pos_pos_trivial [OF j] div_mult_self1 [of h "j - 1" "i - 1"] by simp
  show "(global_index h i j - 1) mod h = j - 1"
    unfolding e using j by (simp only: mod_mult_self1 mod_pos_pos_trivial)
qed

lemma index_surj:
  assumes "1 \<le> h" "x \<in> {1..n * h}"
  shows "\<exists>i \<in> {1..n}. \<exists>j \<in> {1..h}. x = global_index h i j"
proof (intro bexI)
  have "0 \<le> (x - 1) div h" using assms by (simp add: pos_imp_zdiv_nonneg_iff)
  moreover have "(x - 1) div h < n" using assms by (intro int_div_less) auto
  ultimately show "(x - 1) div h + 1 \<in> {1..n}" by simp
  show "(x - 1) mod h + 1 \<in> {1..h}" using assms pos_mod_bound [of h "x - 1"] by (simp add: zless_imp_add1_zle)
  show "x = global_index h ((x - 1) div h + 1) ((x - 1) mod h + 1)"
    using div_mult_mod_eq [of "x - 1" h] by (simp add: global_index_def)
qed

lemma index_range: "i \<in> {1..n} \<Longrightarrow> j \<in> {1..h} \<Longrightarrow> global_index h i j \<in> {1..n * h}"
  using client_index_range [of i n j h] by (simp add: global_index_client_index)

definition ft_valid :: "fat_tree_config \<Rightarrow> bool" where
  "ft_valid c \<longleftrightarrow> fc_k c = 2 * half c \<and> 1 \<le> half c \<and> num_total_edge c \<le> 155
     \<and> (\<exists>n. fc_clients_per_edge c = Some n \<and> 1 \<le> n \<and> n \<le> half c)"

lemma ft_half_bound: "ft_valid c \<Longrightarrow> half c \<le> 8"
proof (rule ccontr)
  assume v: "ft_valid c" and "\<not> half c \<le> 8"
  then have "9 * 9 \<le> half c * half c" by (intro mult_mono) auto
  moreover have "2 * (half c * half c) \<le> 155" using v by (auto simp: ft_valid_def num_total_edge_def)
  ultimately show False by simp
qed

lemma core_link_digits:
  assumes "ft_valid c"
  shows "(i, g) \<in> set (w_core_agg (wire c)) \<longleftrightarrow>
     i \<in> {1..num_core c} \<and> g \<in> {1..num_total_agg c} \<and> (i - 1) div half c = (g - 1) mod half c"
proof
  assume "(i, g) \<in> set (w_core_agg (wire c))"
  then show "i \<in> {1..num_core c} \<and> g \<in> {1..num_total_agg c} \<and> (i - 1) div half c = (g - 1) mod half c"
    unfolding core_link_iff num_core_def num_total_agg_def
    by (elim bexE conjE) (simp only: index_range index_digits simp_thms)
next
  assume r: "i \<in> {1..num_core c} \<and> g \<in> {1..num_total_agg c} \<and> (i - 1) div half c = (g - 1) mod half c"
  have h: "1 \<le> half c" using assms by (simp add: ft_valid_def)
  obtain a off where i: "a \<in> {1..half c}" "off \<in> {1..half c}" "i = global_index (half c) a off"
    using index_surj [OF h, of i "half c"] r by (auto simp: num_core_def)
  obtain pod la where g: "pod \<in> {1..fc_k c}" "la \<in> {1..half c}" "g = global_index (half c) pod la"
    using index_surj [OF h, of g "fc_k c"] r by (auto simp: num_total_agg_def)
  have "a = la" using r index_digits(1) [OF i(2), of a] index_digits(2) [OF g(2), of pod] i(3) g(3) by simp
  then show "(i, g) \<in> set (w_core_agg (wire c))" unfolding core_link_iff using i g by blast
qed

lemma edge_link_digits:
  assumes "ft_valid c"
  shows "(g, e) \<in> set (w_agg_edge (wire c)) \<longleftrightarrow>
     g \<in> {1..num_total_agg c} \<and> e \<in> {1..num_total_edge c} \<and> (g - 1) div half c = (e - 1) div half c"
proof
  assume "(g, e) \<in> set (w_agg_edge (wire c))"
  then show "g \<in> {1..num_total_agg c} \<and> e \<in> {1..num_total_edge c} \<and> (g - 1) div half c = (e - 1) div half c"
    unfolding edge_link_iff num_total_edge_def num_total_agg_def
    by (elim bexE conjE) (simp only: index_range index_digits simp_thms)
next
  assume r: "g \<in> {1..num_total_agg c} \<and> e \<in> {1..num_total_edge c} \<and> (g - 1) div half c = (e - 1) div half c"
  have h: "1 \<le> half c" using assms by (simp add: ft_valid_def)
  obtain pod la where g: "pod \<in> {1..fc_k c}" "la \<in> {1..half c}" "g = global_index (half c) pod la"
    using index_surj [OF h, of g "fc_k c"] r by (auto simp: num_total_agg_def)
  obtain pod' le where e: "pod' \<in> {1..fc_k c}" "le \<in> {1..half c}" "e = global_index (half c) pod' le"
    using index_surj [OF h, of e "fc_k c"] r by (auto simp: num_total_edge_def)
  have "pod = pod'" using r index_digits(1) [OF g(2), of pod] index_digits(1) [OF e(2), of pod'] g(3) e(3) by simp
  then show "(g, e) \<in> set (w_agg_edge (wire c))" unfolding edge_link_iff using g e by blast
qed

text \<open>Neighbour lists, by membership, without repetition and with the exact number of ports.\<close>

lemma set_nbrs:
  "g \<in> set (nbrs (w_core_neighbors (wire c)) i) \<longleftrightarrow> (i, g) \<in> set (w_core_agg (wire c))"
  "i \<in> set (nbrs (w_agg_core (wire c)) g) \<longleftrightarrow> (i, g) \<in> set (w_core_agg (wire c))"
  "e \<in> set (nbrs (w_agg_edges (wire c)) g) \<longleftrightarrow> (g, e) \<in> set (w_agg_edge (wire c))"
  "g \<in> set (nbrs (w_edge_agg (wire c)) e) \<longleftrightarrow> (g, e) \<in> set (w_agg_edge (wire c))"
  using wired_wire [of c] unfolding wired_def by (force simp: image_iff)+

lemma distinct_proj:
  "distinct ls \<Longrightarrow> distinct (map snd (filter (\<lambda>l. fst l = i) ls))"
  "distinct ls \<Longrightarrow> distinct (map fst (filter (\<lambda>l. snd l = j) ls))"
  by (auto simp: distinct_map inj_on_def)

lemma distinct_nbrs:
  "distinct (nbrs (w_core_neighbors (wire c)) i)" "distinct (nbrs (w_agg_core (wire c)) i)"
  "distinct (nbrs (w_agg_edges (wire c)) i)" "distinct (nbrs (w_edge_agg (wire c)) i)"
  using wired_wire [of c] distinct_proj distinct_links [of c] unfolding wired_def by metis+

lemma length_distinct_image:
  "distinct xs \<Longrightarrow> set xs = f ` {1..n} \<Longrightarrow> inj_on f {1..n} \<Longrightarrow> 0 \<le> n \<Longrightarrow> int (length xs) = n" for n :: int
  using distinct_card [of xs] by (simp add: card_image)

lemma nbrs_lengths:
  assumes v: "ft_valid c"
  shows "i \<in> {1..num_core c} \<Longrightarrow> int (length (nbrs (w_core_neighbors (wire c)) i)) = fc_k c"
    and "g \<in> {1..num_total_agg c} \<Longrightarrow> int (length (nbrs (w_agg_core (wire c)) g)) = half c"
    and "g \<in> {1..num_total_agg c} \<Longrightarrow> int (length (nbrs (w_agg_edges (wire c)) g)) = half c"
    and "e \<in> {1..num_total_edge c} \<Longrightarrow> int (length (nbrs (w_edge_agg (wire c)) e)) = half c"
proof -
  have h: "1 \<le> half c" "fc_k c = 2 * half c" using v by (auto simp: ft_valid_def)
  show "int (length (nbrs (w_core_neighbors (wire c)) i)) = fc_k c" if i: "i \<in> {1..num_core c}"
  proof -
    obtain a off where a: "a \<in> {1..half c}" "off \<in> {1..half c}" "i = global_index (half c) a off"
      using index_surj [OF h(1), of i "half c"] i by (auto simp: num_core_def)
    have "set (nbrs (w_core_neighbors (wire c)) i) = (\<lambda>pod. global_index (half c) pod a) ` {1..fc_k c}"
      by (rule set_eqI) (use a in \<open>auto simp: set_nbrs core_link_iff global_index_inj\<close>)
    from length_distinct_image [OF distinct_nbrs(1) this] show ?thesis
      using a h by (auto simp: inj_on_def global_index_inj)
  qed
  show "int (length (nbrs (w_agg_core (wire c)) g)) = half c"
    "int (length (nbrs (w_agg_edges (wire c)) g)) = half c" if g: "g \<in> {1..num_total_agg c}"
  proof -
    obtain pod la where a: "pod \<in> {1..fc_k c}" "la \<in> {1..half c}" "g = global_index (half c) pod la"
      using index_surj [OF h(1), of g "fc_k c"] g by (auto simp: num_total_agg_def)
    have "set (nbrs (w_agg_core (wire c)) g) = global_index (half c) la ` {1..half c}"
      by (rule set_eqI) (use a in \<open>auto simp: set_nbrs core_link_iff global_index_inj\<close>)
    from length_distinct_image [OF distinct_nbrs(2) this]
    show "int (length (nbrs (w_agg_core (wire c)) g)) = half c"
      using a h by (auto simp: inj_on_def global_index_inj)
    have "set (nbrs (w_agg_edges (wire c)) g) = global_index (half c) pod ` {1..half c}"
      by (rule set_eqI) (use a in \<open>auto simp: set_nbrs edge_link_iff global_index_inj\<close>)
    from length_distinct_image [OF distinct_nbrs(3) this]
    show "int (length (nbrs (w_agg_edges (wire c)) g)) = half c"
      using a h by (auto simp: inj_on_def global_index_inj)
  qed
  show "int (length (nbrs (w_edge_agg (wire c)) e)) = half c" if e: "e \<in> {1..num_total_edge c}"
  proof -
    obtain pod le where a: "pod \<in> {1..fc_k c}" "le \<in> {1..half c}" "e = global_index (half c) pod le"
      using index_surj [OF h(1), of e "fc_k c"] e by (auto simp: num_total_edge_def)
    have "set (nbrs (w_edge_agg (wire c)) e) = global_index (half c) pod ` {1..half c}"
      by (rule set_eqI) (use a in \<open>auto simp: set_nbrs edge_link_iff global_index_inj\<close>)
    from length_distinct_image [OF distinct_nbrs(4) this] show ?thesis
      using a h by (auto simp: inj_on_def global_index_inj)
  qed
qed

section \<open>Subnets and ports\<close>

lemma subnet_hosts_slash30:
  assumes "0 \<le> b" "b \<le> 255" "0 \<le> n" "n < 16384"
  shows "same_slash30 (fst (subnet_hosts b n)) (snd (subnet_hosts b n))"
proof -
  define q where "q = (10 * 256 + b) * 16384 + n"
  have q: "(10 * 256 + b) * 65536 + 4 * n = 4 * q" by (simp add: q_def)
  have r: "0 \<le> 4 * q + 1" "4 * q + 2 < 2 ^ 32" using assms by (auto simp: q_def)
  have "parse_ipv4 (ip_str (4 * q + 1)) = Some (4 * q + 1)" "parse_ipv4 (ip_str (4 * q + 2)) = Some (4 * q + 2)"
    using r by (auto intro!: parse_ip_str)
  moreover have "(4 * q + 1) div 4 = (4 * q + 2) div 4 \<and> {(4 * q + 1) mod 4, (4 * q + 2) mod 4} = {1, 2}"
  proof -
    have "(4 * q + 1) div 4 = (4 * q + 2) div 4" "(4 * q + 1) mod 4 = 1" "(4 * q + 2) mod 4 = 2"
      by presburger+
    then show ?thesis by (simp only: simp_thms)
  qed
  ultimately show ?thesis unfolding same_slash30_def subnet_hosts_def Let_def fst_conv snd_conv q by blast
qed

lemma zip_numbered: "x \<in> set xs \<Longrightarrow> \<exists>n \<in> {a..a + int (length xs) - 1}. (n, x) \<in> set (zip [a..a + int (length xs) - 1] xs)"
proof (induction xs arbitrary: a)
  case (Cons y ys)
  have u: "[a..a + int (length (y # ys)) - 1] = a # [a + 1..a + 1 + int (length ys) - 1]"
    by (simp add: upto_rec1 add.commute add.left_commute)
  show ?case
  proof (cases "x = y")
    case True
    then show ?thesis unfolding u by (intro bexI [of _ a]) simp_all
  next
    case False
    then obtain n where "n \<in> {a + 1..a + 1 + int (length ys) - 1}" "(n, x) \<in> set (zip [a + 1..a + 1 + int (length ys) - 1] ys)"
      using Cons by (metis set_ConsD)
    then show ?thesis unfolding u by (intro bexI [of _ n]) simp_all
  qed
qed simp

lemma fst_numbered: "map fst (zip [a..a + int (length xs) - 1] xs) = [a..a + int (length xs) - 1]"
  by (rule map_fst_zip) simp

lemma snd_numbered: "map snd (zip [a..a + int (length xs) - 1] xs) = xs"
  by (rule map_snd_zip) simp

lemma link_ip_subnet:
  assumes "distinct ls" "(i, j) \<in> set ls"
  shows "\<exists>n. 0 \<le> n \<and> n < int (length ls) \<and> link_ip (link_ips b ls) i j = subnet_hosts b n"
proof -
  let ?z = "zip [0..int (length ls) - 1] (sort ls)"
  obtain n where n: "n \<in> {0..int (length ls) - 1}" "(n, (i, j)) \<in> set ?z"
    using zip_numbered [of "(i, j)" "sort ls" 0] assms(2) by auto
  have "map fst (map (\<lambda>(n, l). (l, subnet_hosts b n)) ?z) = sort ls"
    using snd_numbered [of 0 "sort ls"] by (simp add: comp_def case_prod_beta')
  then have "dict_get (link_ips b ls) (i, j) = Some (subnet_hosts b n)"
    unfolding link_ips_def by (intro dict_lookup) (use assms(1) n(2) in \<open>auto intro: rev_image_eqI\<close>)
  then show ?thesis using n(1) by (auto simp: link_ip_def dict_get_default_def)
qed

lemma numbered_from_1_zip: "numbered_from_1 xs = zip [1..1 + int (length xs) - 1] xs"
  by (simp add: numbered_from_1_def)

lemma port_of_shift: "x \<in> set xs \<Longrightarrow> (a + port_of xs x - 1, x) \<in> set (zip [a..a + int (length xs) - 1] xs)"
proof (induction xs arbitrary: a)
  case (Cons y ys)
  have u: "[a..a + int (length (y # ys)) - 1] = a # [a + 1..a + 1 + int (length ys) - 1]"
    by (simp add: upto_rec1 add.commute add.left_commute)
  show ?case
  proof (cases "x = y")
    case True
    then show ?thesis unfolding u by simp
  next
    case False
    then have "(a + 1 + port_of ys x - 1, x) \<in> set (zip [a + 1..a + 1 + int (length ys) - 1] ys)"
      using Cons by (metis set_ConsD)
    then show ?thesis unfolding u using False by (simp add: add.assoc)
  qed
qed simp

lemma port_of_numbered: "x \<in> set xs \<Longrightarrow> (port_of xs x, x) \<in> set (numbered_from_1 xs)"
  using port_of_shift [of x xs 1] by (simp add: numbered_from_1_def)

lemma port_of_range: "x \<in> set xs \<Longrightarrow> 1 \<le> port_of xs x \<and> port_of xs x \<le> int (length xs)"
  by (induction xs) auto

lemma fst_numbered_from_1 [simp]: "map fst (numbered_from_1 xs) = [1..int (length xs)]"
  using fst_numbered [of 1 xs] by (simp add: numbered_from_1_def)

lemma snd_numbered_from_1 [simp]: "map snd (numbered_from_1 xs) = xs"
  using snd_numbered [of 1 xs] by (simp add: numbered_from_1_def)

lemma fst_numbered_map: "map fst (map (\<lambda>(port, x). (f port, v x)) (numbered_from_1 xs)) = map f [1..int (length xs)]"
  by (simp add: comp_def case_prod_beta' flip: fst_numbered_from_1)

lemma links_bounded:
  assumes "ft_valid c"
  shows "int (length (w_core_agg (wire c))) \<le> 1240" "int (length (w_agg_edge (wire c))) \<le> 1240"
proof -
  have f: "length (concat (map (\<lambda>(pod, la). map (f pod la) ys) ps)) = length ps * length ys" for f :: "int \<Rightarrow> int \<Rightarrow> int \<Rightarrow> int \<times> int" and ps ys
    by (induction ps) auto
  have "length (agg_slots c) = length [1..fc_k c] * length [1..half c]"
    unfolding agg_slots_def by (rule length_concat_const)
  moreover have h: "half c \<le> 8" "0 \<le> half c" "num_total_edge c \<le> 155" "fc_k c = 2 * half c"
    using ft_half_bound [OF assms] assms by (auto simp: ft_valid_def)
  ultimately have s: "int (length (agg_slots c)) = num_total_edge c" by (simp add: num_total_edge_def)
  have "num_total_edge c * half c \<le> 155 * 8" using h by (intro mult_mono) auto
  then show "int (length (w_core_agg (wire c))) \<le> 1240" "int (length (w_agg_edge (wire c))) \<le> 1240"
    using s h by (simp_all add: wire_slots fold_wire_agg_links empty_wiring_def f)
qed

section \<open>The planned devices\<close>

definition ft_addressed :: "fat_tree_config \<Rightarrow> management_addressing \<Rightarrow> bool" where
  "ft_addressed c a \<longleftrightarrow> (\<forall>i \<in> set (ft_allocated_offsets c). usable_offset a i)"

lemma length_ft_client_slots: "ft_valid c \<Longrightarrow> int (length (ft_client_slots c)) = num_total_clients c"
  by (auto simp: ft_client_slots_def length_concat_const num_total_clients_def num_total_edge_def ft_valid_def int_or_0_def)

lemma numbered_slot_range:
  "(idx, e, p) \<in> set (numbered_from_1 (ft_client_slots c)) \<Longrightarrow> ft_valid c \<Longrightarrow>
   idx \<in> {1..num_total_clients c} \<and> e \<in> {1..num_total_edge c} \<and> p \<in> {1..int_or_0 (fc_clients_per_edge c)}"
proof -
  assume m: "(idx, e, p) \<in> set (numbered_from_1 (ft_client_slots c))" and v: "ft_valid c"
  have "idx \<in> set (map fst (numbered_from_1 (ft_client_slots c)))" using m by (force simp del: fst_numbered_from_1)
  then have "idx \<in> {1..num_total_clients c}" using length_ft_client_slots [OF v] by simp
  moreover have "(e, p) \<in> set (map snd (numbered_from_1 (ft_client_slots c)))" using m by (force simp del: snd_numbered_from_1)
  then have "(e, p) \<in> set (ft_client_slots c)" by simp
  ultimately show ?thesis by (auto simp: ft_client_slots_def)
qed

lemma ft_offset_usable:
  assumes "ft_valid c" "ft_addressed c a"
  shows "i \<in> {1..num_core c} \<Longrightarrow> usable_offset a (ft_core_offset + i)"
    and "g \<in> {1..num_total_agg c} \<Longrightarrow> usable_offset a (ft_agg_offset c + g)"
    and "e \<in> {1..num_total_edge c} \<Longrightarrow> usable_offset a (ft_edge_offset c + e)"
    and "idx \<in> {1..num_total_clients c} \<Longrightarrow> usable_offset a (ft_client_offset c + idx)"
  using assms by (auto simp: ft_addressed_def ft_allocated_offsets_def)

lemma core_plan_Inr:
  "ft_valid c \<Longrightarrow> ft_addressed c a \<Longrightarrow> i \<in> {1..num_core c} \<Longrightarrow> core_plan c a i = Inr (the_plan (core_plan c a i))"
  by (simp add: core_plan_def the_plan_def Let_def mgmt.host_addr [OF ft_offset_usable(1)])

lemma agg_plan_Inr:
  "ft_valid c \<Longrightarrow> ft_addressed c a \<Longrightarrow> g \<in> {1..num_total_agg c} \<Longrightarrow> agg_plan c a g = Inr (the_plan (agg_plan c a g))"
  by (simp add: agg_plan_def the_plan_def Let_def mgmt.host_addr [OF ft_offset_usable(2)])

lemma edge_plan_Inr:
  "ft_valid c \<Longrightarrow> ft_addressed c a \<Longrightarrow> e \<in> {1..num_total_edge c} \<Longrightarrow> edge_plan c a e = Inr (the_plan (edge_plan c a e))"
  by (simp add: edge_plan_def the_plan_def Let_def mgmt.host_addr [OF ft_offset_usable(3)])

lemma ft_client_plan_Inr:
  "ft_valid c \<Longrightarrow> ft_addressed c a \<Longrightarrow> s \<in> set (numbered_from_1 (ft_client_slots c)) \<Longrightarrow>
   ft_client_plan c a s = Inr (the_plan (ft_client_plan c a s))"
  using numbered_slot_range [of "fst s" "fst (snd s)" "snd (snd s)" c]
  by (simp add: ft_client_plan_def the_plan_def Let_def case_prod_beta' mgmt.host_addr [OF ft_offset_usable(4)])

definition ft_plans :: "fat_tree_config \<Rightarrow> management_addressing \<Rightarrow> device_plan list" where
  "ft_plans c a =
     map (\<lambda>i. the_plan (core_plan c a i)) [1..num_core c]
     @ map (\<lambda>g. the_plan (agg_plan c a g)) [1..num_total_agg c]
     @ map (\<lambda>e. the_plan (edge_plan c a e)) [1..num_total_edge c]
     @ map (\<lambda>s. the_plan (ft_client_plan c a s)) (numbered_from_1 (ft_client_slots c))"

lemma ft_device_plans_Inr:
  assumes "ft_valid c" "ft_addressed c a"
  shows "ft_device_plans c a = Inr (ft_plans c a)"
proof -
  have "mapE (core_plan c a) [1..num_core c] = Inr (map (\<lambda>i. the_plan (core_plan c a i)) [1..num_core c])"
    by (rule mapE_Inr_map) (use core_plan_Inr [OF assms] in auto)
  moreover have "mapE (agg_plan c a) [1..num_total_agg c] = Inr (map (\<lambda>i. the_plan (agg_plan c a i)) [1..num_total_agg c])"
    by (rule mapE_Inr_map) (use agg_plan_Inr [OF assms] in auto)
  moreover have "mapE (edge_plan c a) [1..num_total_edge c] = Inr (map (\<lambda>i. the_plan (edge_plan c a i)) [1..num_total_edge c])"
    by (rule mapE_Inr_map) (use edge_plan_Inr [OF assms] in auto)
  moreover have "mapE (ft_client_plan c a) (numbered_from_1 (ft_client_slots c)) =
      Inr (map (\<lambda>i. the_plan (ft_client_plan c a i)) (numbered_from_1 (ft_client_slots c)))"
    by (rule mapE_Inr_map) (use ft_client_plan_Inr [OF assms] in auto)
  ultimately show ?thesis by (simp add: ft_device_plans_def ft_plans_def)
qed

text \<open>The planned values, field by field.\<close>

lemma core_fields:
  assumes "ft_valid c" "ft_addressed c a" "i \<in> {1..num_core c}"
  defines "P \<equiv> the_plan (core_plan c a i)" and "peers \<equiv> sort (nbrs (w_core_neighbors (wire c)) i)"
  shows "dp_interface_cidrs P = dict_of (map (\<lambda>(port, g). (sonic_port_name port, [cidr30 (fst (core_agg_ips c i g))]))
            (numbered_from_1 peers))"
    and "dp_bgp_neighbors P = map (\<lambda>g. \<lparr>bn_peer_ip = snd (core_agg_ips c i g),
            bn_remote_as = fc_agg_asn_start c + g - 1\<rparr>) peers"
    and "dp_bgp_asn P = Some (fc_core_asn_start c + i - 1)" "dp_bgp_router_id P = Some (quad 10 0 1 i)"
    and "dp_required_ports P = fc_k c"
    and "dev_name (dp_device P) = numbered ''core'' i" "dev_role (dp_device P) = CORE"
    and "dev_mgmt_ip (dp_device P) = Some (mgmt.addr a (ft_core_offset + i))" "dev_data_ip (dp_device P) = None"
    and "dev_router_id (dp_device P) = Some (quad 10 0 1 i)" "dev_asn (dp_device P) = Some (fc_core_asn_start c + i - 1)"
  using mgmt.host_addr [OF ft_offset_usable(1) [OF assms(1-3)]]
  by (simp_all add: P_def peers_def core_plan_def the_plan_def Let_def)

lemma agg_fields:
  assumes "ft_valid c" "ft_addressed c a" "g \<in> {1..num_total_agg c}"
  defines "P \<equiv> the_plan (agg_plan c a g)" and "cores \<equiv> sort (nbrs (w_agg_core (wire c)) g)"
    and "edges \<equiv> sort (nbrs (w_agg_edges (wire c)) g)"
  shows "dp_interface_cidrs P = dict_of
           (map (\<lambda>(port, i). (sonic_port_name port, [cidr30 (snd (core_agg_ips c i g))])) (numbered_from_1 cores)
            @ map (\<lambda>(port, e). (sonic_port_name (half c + port), [cidr30 (fst (agg_edge_ips c g e))])) (numbered_from_1 edges))"
    and "dp_bgp_neighbors P =
           map (\<lambda>i. \<lparr>bn_peer_ip = fst (core_agg_ips c i g), bn_remote_as = fc_core_asn_start c + i - 1\<rparr>) cores
           @ map (\<lambda>e. \<lparr>bn_peer_ip = snd (agg_edge_ips c g e), bn_remote_as = fc_edge_asn_start c + e - 1\<rparr>) edges"
    and "dp_bgp_asn P = Some (fc_agg_asn_start c + g - 1)" "dp_bgp_router_id P = Some (quad 10 0 2 g)"
    and "dp_required_ports P = fc_k c"
    and "dev_name (dp_device P) = numbered ''agg'' g" "dev_role (dp_device P) = AGG"
    and "dev_mgmt_ip (dp_device P) = Some (mgmt.addr a (ft_agg_offset c + g))" "dev_data_ip (dp_device P) = None"
    and "dev_router_id (dp_device P) = Some (quad 10 0 2 g)" "dev_asn (dp_device P) = Some (fc_agg_asn_start c + g - 1)"
  using mgmt.host_addr [OF ft_offset_usable(2) [OF assms(1-3)]]
  by (simp_all add: P_def cores_def edges_def agg_plan_def the_plan_def Let_def)

lemma edge_fields:
  assumes "ft_valid c" "ft_addressed c a" "e \<in> {1..num_total_edge c}"
  defines "P \<equiv> the_plan (edge_plan c a e)" and "aggs \<equiv> sort (nbrs (w_edge_agg (wire c)) e)"
  shows "dp_interface_cidrs P = dict_of
           (map (\<lambda>(port, g). (sonic_port_name port, [cidr30 (snd (agg_edge_ips c g e))])) (numbered_from_1 aggs)
            @ map (\<lambda>p. (sonic_port_name (half c + p), [cidr30 (quad 192 168 (100 + e) (subnet_base p + 1))]))
                [1..int_or_0 (fc_clients_per_edge c)])"
    and "dp_bgp_neighbors P = map (\<lambda>g. \<lparr>bn_peer_ip = fst (agg_edge_ips c g e),
            bn_remote_as = fc_agg_asn_start c + g - 1\<rparr>) aggs"
    and "dp_bgp_asn P = Some (fc_edge_asn_start c + e - 1)" "dp_bgp_router_id P = Some (quad 10 0 3 e)"
    and "dp_required_ports P = half c + int_or_0 (fc_clients_per_edge c)"
    and "dev_name (dp_device P) = numbered ''edge'' e" "dev_role (dp_device P) = EDGE"
    and "dev_mgmt_ip (dp_device P) = Some (mgmt.addr a (ft_edge_offset c + e))" "dev_data_ip (dp_device P) = None"
    and "dev_router_id (dp_device P) = Some (quad 10 0 3 e)" "dev_asn (dp_device P) = Some (fc_edge_asn_start c + e - 1)"
  using mgmt.host_addr [OF ft_offset_usable(3) [OF assms(1-3)]]
  by (simp_all add: P_def aggs_def edge_plan_def the_plan_def Let_def)

lemma ft_client_fields:
  assumes "ft_valid c" "ft_addressed c a" "(idx, e, p) \<in> set (numbered_from_1 (ft_client_slots c))"
  defines "D \<equiv> dp_device (the_plan (ft_client_plan c a (idx, e, p)))"
  shows "dev_name D = numbered ''client'' idx" "dev_role D = CLIENT"
    and "dev_mgmt_ip D = Some (mgmt.addr a (ft_client_offset c + idx))"
    and "dev_data_ip D = Some (quad 192 168 (100 + e) (subnet_base p + 2))"
    and "dev_attached_switch D = Some (numbered ''edge'' e)" "dev_router_id D = None"
  using mgmt.host_addr [OF ft_offset_usable(4) [OF assms(1,2)], of idx] numbered_slot_range [OF assms(3,1)]
  by (simp_all add: D_def ft_client_plan_def the_plan_def Let_def)

text \<open>A field read off all devices in their order.\<close>

lemma ft_map_devices:
  assumes "ft_valid c" "ft_addressed c a"
    and "\<And>i. i \<in> {1..num_core c} \<Longrightarrow> f (dp_device (the_plan (core_plan c a i))) = fi i"
    and "\<And>g. g \<in> {1..num_total_agg c} \<Longrightarrow> f (dp_device (the_plan (agg_plan c a g))) = fg g"
    and "\<And>e. e \<in> {1..num_total_edge c} \<Longrightarrow> f (dp_device (the_plan (edge_plan c a e))) = fe e"
    and "\<And>idx e p. (idx, e, p) \<in> set (numbered_from_1 (ft_client_slots c)) \<Longrightarrow>
      f (dp_device (the_plan (ft_client_plan c a (idx, e, p)))) = fc (idx, e, p)"
  shows "map (\<lambda>P. f (dp_device P)) (ft_plans c a) = map fi [1..num_core c] @ map fg [1..num_total_agg c]
    @ map fe [1..num_total_edge c] @ map fc (numbered_from_1 (ft_client_slots c))"
  using assms(3-6) by (auto simp: ft_plans_def)

lemma map_fst_slots: "ft_valid c \<Longrightarrow> map (\<lambda>s. f (fst s)) (numbered_from_1 (ft_client_slots c)) = map f [1..num_total_clients c]"
proof -
  assume "ft_valid c"
  then have "map fst (numbered_from_1 (ft_client_slots c)) = [1..num_total_clients c]"
    by (simp only: fst_numbered_from_1 length_ft_client_slots)
  then have "map f (map fst (numbered_from_1 (ft_client_slots c))) = map f [1..num_total_clients c]" by (simp only:)
  then show ?thesis by (simp only: map_map comp_def)
qed

lemma ft_names:
  assumes "ft_valid c" "ft_addressed c a"
  shows "map plan_name (ft_plans c a) = map (numbered ''core'') [1..num_core c] @ map (numbered ''agg'') [1..num_total_agg c]
    @ map (numbered ''edge'') [1..num_total_edge c] @ map (numbered ''client'') [1..num_total_clients c]"
  unfolding plan_name_def map_fst_slots [OF assms(1), symmetric]
  using core_fields(6) [OF assms] agg_fields(6) [OF assms] edge_fields(6) [OF assms] ft_client_fields(1) [OF assms]
  by (intro ft_map_devices [OF assms, where f = dev_name]) simp_all

lemma ft_names_distinct: "ft_valid c \<Longrightarrow> ft_addressed c a \<Longrightarrow> distinct (map plan_name (ft_plans c a))"
  unfolding ft_names
  using numbered_neq [of "''core''" "''agg''"] numbered_neq [of "''core''" "''edge''"] numbered_neq [of "''agg''" "''edge''"]
    numbered_neq [of "''edge''" "''client''"] numbered_neq [of "''agg''" "''client''"]
  by (auto simp: distinct_map inj_on_def numbered_def)

lemma ft_mgmt_ips:
  assumes "ft_valid c" "ft_addressed c a"
  shows "map (\<lambda>P. the (dev_mgmt_ip (dp_device P))) (ft_plans c a) = map (mgmt.addr a) (ft_allocated_offsets c)"
  unfolding ft_allocated_offsets_def map_append map_map comp_def map_fst_slots [OF assms(1), symmetric]
  using core_fields(8) [OF assms] agg_fields(8) [OF assms] edge_fields(8) [OF assms] ft_client_fields(3) [OF assms]
  by (intro ft_map_devices [OF assms, where f = "\<lambda>d. the (dev_mgmt_ip d)"]) simp_all

lemma ft_offsets_distinct: "ft_valid c \<Longrightarrow> distinct (ft_allocated_offsets c)"
  by (auto simp: ft_allocated_offsets_def map_plus_upto ft_agg_offset_def ft_edge_offset_def ft_client_offset_def
      ft_core_offset_def num_core_def num_total_agg_def num_total_edge_def ft_valid_def)

lemma set_ft_plans:
  "set (ft_plans c a) = (\<lambda>i. the_plan (core_plan c a i)) ` {1..num_core c}
     \<union> (\<lambda>g. the_plan (agg_plan c a g)) ` {1..num_total_agg c}
     \<union> (\<lambda>e. the_plan (edge_plan c a e)) ` {1..num_total_edge c}
     \<union> (\<lambda>s. the_plan (ft_client_plan c a s)) ` set (numbered_from_1 (ft_client_slots c))"
  by (auto simp: ft_plans_def)

lemma ft_plan_cases:
  assumes "P \<in> set (ft_plans c a)"
  obtains i where "i \<in> {1..num_core c}" "P = the_plan (core_plan c a i)"
    | g where "g \<in> {1..num_total_agg c}" "P = the_plan (agg_plan c a g)"
    | e where "e \<in> {1..num_total_edge c}" "P = the_plan (edge_plan c a e)"
    | idx e p where "(idx, e, p) \<in> set (numbered_from_1 (ft_client_slots c))" "P = the_plan (ft_client_plan c a (idx, e, p))"
  using assms unfolding set_ft_plans by (auto simp del: atLeastAtMost_iff)

lemma ft_mgmt_distinct:
  assumes "ft_valid c" "ft_addressed c a"
  shows "distinct (present dev_mgmt_ip (map dp_device (ft_plans c a)))"
proof -
  have "present dev_mgmt_ip (map dp_device (ft_plans c a)) = map (\<lambda>d. the (dev_mgmt_ip d)) (map dp_device (ft_plans c a))"
  proof (rule present_all_some)
    fix d assume "d \<in> set (map dp_device (ft_plans c a))"
    then obtain P where P: "d = dp_device P" "P \<in> set (ft_plans c a)" by auto
    from P(2) show "dev_mgmt_ip d \<noteq> None"
      by (cases rule: ft_plan_cases)
        (use P(1) core_fields(8) [OF assms] agg_fields(8) [OF assms] edge_fields(8) [OF assms]
          ft_client_fields(3) [OF assms] in simp_all)
  qed
  also have "\<dots> = map (mgmt.addr a) (ft_allocated_offsets c)" using ft_mgmt_ips [OF assms] by (simp add: comp_def)
  also have "distinct \<dots>"
    using mgmt.addrs_distinct [OF ft_offsets_distinct [OF assms(1)]] assms(2) by (simp add: ft_addressed_def)
  finally show ?thesis .
qed

lemma ft_present:
  assumes "ft_valid c" "ft_addressed c a"
    and "\<And>i. i \<in> {1..num_core c} \<Longrightarrow> f (dp_device (the_plan (core_plan c a i))) = fi i"
    and "\<And>g. g \<in> {1..num_total_agg c} \<Longrightarrow> f (dp_device (the_plan (agg_plan c a g))) = fg g"
    and "\<And>e. e \<in> {1..num_total_edge c} \<Longrightarrow> f (dp_device (the_plan (edge_plan c a e))) = fe e"
    and "\<And>idx e p. (idx, e, p) \<in> set (numbered_from_1 (ft_client_slots c)) \<Longrightarrow>
      f (dp_device (the_plan (ft_client_plan c a (idx, e, p)))) = fc (idx, e, p)"
  shows "present f (map dp_device (ft_plans c a)) = present fi [1..num_core c] @ present fg [1..num_total_agg c]
    @ present fe [1..num_total_edge c] @ present fc (numbered_from_1 (ft_client_slots c))"
proof -
  have p: "present g xs = concat (map (case_option [] (\<lambda>v. [v])) (map g xs))" for g :: "'b \<Rightarrow> string option" and xs
    by (simp add: present_def comp_def)
  have "map f (map dp_device (ft_plans c a)) = map fi [1..num_core c] @ map fg [1..num_total_agg c]
      @ map fe [1..num_total_edge c] @ map fc (numbered_from_1 (ft_client_slots c))"
    using ft_map_devices [OF assms(1,2), of f fi fg fe fc] assms(3-6) by (simp add: comp_def)
  then show ?thesis unfolding p [of f] by (simp add: present_def comp_def)
qed

lemma present_Some: "present (\<lambda>x. Some (g x)) xs = map g xs"
  by (induction xs) (simp_all add: present_def)

lemma present_None: "present (\<lambda>x. None) xs = []"
  by (induction xs) (simp_all add: present_def)

lemma ft_data_distinct:
  assumes "ft_valid c" "ft_addressed c a"
  shows "distinct (present dev_data_ip (map dp_device (ft_plans c a)))"
proof -
  let ?q = "\<lambda>s. quad 192 168 (100 + fst s) (subnet_base (snd s) + 2)"
  have "present dev_data_ip (map dp_device (ft_plans c a)) = present (\<lambda>_. None) [1..num_core c]
      @ present (\<lambda>_. None) [1..num_total_agg c] @ present (\<lambda>_. None) [1..num_total_edge c]
      @ present (\<lambda>s. Some (?q (snd s))) (numbered_from_1 (ft_client_slots c))"
    using core_fields(9) [OF assms] agg_fields(9) [OF assms] edge_fields(9) [OF assms] ft_client_fields(4) [OF assms]
    by (intro ft_present [OF assms]) simp_all
  also have "\<dots> = map ?q (map snd (numbered_from_1 (ft_client_slots c)))"
    by (simp only: present_Some present_None append_Nil map_map comp_def)
  also have "\<dots> = concat (map (\<lambda>e. map (\<lambda>p. quad 192 168 (100 + e) (subnet_base p + 2))
      [1..int_or_0 (fc_clients_per_edge c)]) [1..num_total_edge c])"
    by (simp add: ft_client_slots_def map_concat comp_def)
  also have "distinct \<dots>" by (rule distinct_quads) (auto simp: inj_on_def)
  finally show ?thesis .
qed

lemma ft_router_distinct:
  assumes "ft_valid c" "ft_addressed c a"
  shows "distinct (present dev_router_id (map dp_device (ft_plans c a)))"
proof -
  have "present dev_router_id (map dp_device (ft_plans c a)) = present (\<lambda>i. Some (quad 10 0 1 i)) [1..num_core c]
      @ present (\<lambda>i. Some (quad 10 0 2 i)) [1..num_total_agg c] @ present (\<lambda>i. Some (quad 10 0 3 i)) [1..num_total_edge c]
      @ present (\<lambda>_. None) (numbered_from_1 (ft_client_slots c))"
    using core_fields(10) [OF assms] agg_fields(10) [OF assms] edge_fields(10) [OF assms] ft_client_fields(6) [OF assms]
    by (intro ft_present [OF assms]) simp_all
  then show ?thesis by (auto simp: present_Some present_None distinct_map inj_on_def quad_inject)
qed

section \<open>Sessions\<close>

lemma core_interface:
  assumes "ft_valid c" "ft_addressed c a" "(i, g) \<in> set (w_core_agg (wire c))"
  shows "dict_get (dp_interface_cidrs (the_plan (core_plan c a i)))
      (sonic_port_name (port_of (sort (nbrs (w_core_neighbors (wire c)) i)) g)) = Some [cidr30 (fst (core_agg_ips c i g))]"
proof -
  have i: "i \<in> {1..num_core c}" using assms(3) unfolding core_link_digits [OF assms(1)] by blast
  have "(port_of (sort (nbrs (w_core_neighbors (wire c)) i)) g, g) \<in> set (numbered_from_1 (sort (nbrs (w_core_neighbors (wire c)) i)))"
    using assms(3) by (intro port_of_numbered) (simp add: set_nbrs)
  then show ?thesis
    unfolding core_fields(1) [OF assms(1,2) i]
    by (intro dict_lookup) (unfold fst_numbered_map, auto simp: distinct_map inj_on_def intro: rev_image_eqI)
qed

lemma two_blocks_distinct:
  "int (length xs) \<le> h \<Longrightarrow> distinct (map fst (map (\<lambda>(port, i). (sonic_port_name port, v i)) (numbered_from_1 xs)
      @ map (\<lambda>(port, e). (sonic_port_name (h + port), u e)) (numbered_from_1 ys)))"
  unfolding map_append fst_numbered_map fst_numbered_map [where f = "\<lambda>p. sonic_port_name (h + p)"]
  by (auto simp: distinct_map inj_on_def)

lemma agg_keys_distinct:
  assumes "ft_valid c" "g \<in> {1..num_total_agg c}"
  shows "distinct (map fst (map (\<lambda>(port, i). (sonic_port_name port, v i)) (numbered_from_1 (sort (nbrs (w_agg_core (wire c)) g)))
      @ map (\<lambda>(port, e). (sonic_port_name (half c + port), u e)) (numbered_from_1 (sort (nbrs (w_agg_edges (wire c)) g)))))"
  using nbrs_lengths(2) [OF assms] by (intro two_blocks_distinct) simp

lemma agg_core_interface:
  assumes "ft_valid c" "ft_addressed c a" "(i, g) \<in> set (w_core_agg (wire c))"
  shows "dict_get (dp_interface_cidrs (the_plan (agg_plan c a g)))
      (sonic_port_name (port_of (sort (nbrs (w_agg_core (wire c)) g)) i)) = Some [cidr30 (snd (core_agg_ips c i g))]"
proof -
  have g: "g \<in> {1..num_total_agg c}" using assms(3) unfolding core_link_digits [OF assms(1)] by blast
  have "(port_of (sort (nbrs (w_agg_core (wire c)) g)) i, i) \<in> set (numbered_from_1 (sort (nbrs (w_agg_core (wire c)) g)))"
    using assms(3) by (intro port_of_numbered) (simp add: set_nbrs)
  then show ?thesis
    unfolding agg_fields(1) [OF assms(1,2) g]
    by (intro dict_lookup agg_keys_distinct [OF assms(1) g]) (auto intro: rev_image_eqI)
qed

lemma agg_edge_interface:
  assumes "ft_valid c" "ft_addressed c a" "(g, e) \<in> set (w_agg_edge (wire c))"
  shows "dict_get (dp_interface_cidrs (the_plan (agg_plan c a g)))
      (sonic_port_name (half c + port_of (sort (nbrs (w_agg_edges (wire c)) g)) e)) = Some [cidr30 (fst (agg_edge_ips c g e))]"
proof -
  have g: "g \<in> {1..num_total_agg c}" using assms(3) unfolding edge_link_digits [OF assms(1)] by blast
  have "(port_of (sort (nbrs (w_agg_edges (wire c)) g)) e, e) \<in> set (numbered_from_1 (sort (nbrs (w_agg_edges (wire c)) g)))"
    using assms(3) by (intro port_of_numbered) (simp add: set_nbrs)
  then show ?thesis
    unfolding agg_fields(1) [OF assms(1,2) g]
    by (intro dict_lookup agg_keys_distinct [OF assms(1) g]) (auto intro: rev_image_eqI)
qed

lemma edge_interface:
  assumes "ft_valid c" "ft_addressed c a" "(g, e) \<in> set (w_agg_edge (wire c))"
  shows "dict_get (dp_interface_cidrs (the_plan (edge_plan c a e)))
      (sonic_port_name (port_of (sort (nbrs (w_edge_agg (wire c)) e)) g)) = Some [cidr30 (snd (agg_edge_ips c g e))]"
proof -
  let ?xs = "sort (nbrs (w_edge_agg (wire c)) e)"
  have e: "e \<in> {1..num_total_edge c}" using assms(3) unfolding edge_link_digits [OF assms(1)] by blast
  have m: "(port_of ?xs g, g) \<in> set (numbered_from_1 ?xs)"
    using assms(3) by (intro port_of_numbered) (simp add: set_nbrs)
  have d: "distinct (map fst (map (\<lambda>(port, g). (sonic_port_name port, v g)) (numbered_from_1 ?xs)
      @ map (\<lambda>p. (sonic_port_name (half c + p), u p)) ps))" if "distinct ps" "\<forall>p \<in> set ps. 1 \<le> p"
    for v :: "int \<Rightarrow> string list" and u ps
    unfolding map_append fst_numbered_map using that nbrs_lengths(4) [OF assms(1) e]
    by (auto simp: distinct_map inj_on_def)
  show ?thesis
    unfolding edge_fields(1) [OF assms(1,2) e]
    by (rule dict_lookup, rule d) (use m in \<open>auto intro: rev_image_eqI\<close>)
qed

lemma ft_link_slash30:
  assumes "ft_valid c"
  shows "(i, g) \<in> set (w_core_agg (wire c)) \<Longrightarrow> same_slash30 (fst (core_agg_ips c i g)) (snd (core_agg_ips c i g))"
    and "(g, e) \<in> set (w_agg_edge (wire c)) \<Longrightarrow> same_slash30 (fst (agg_edge_ips c g e)) (snd (agg_edge_ips c g e))"
proof -
  show "same_slash30 (fst (core_agg_ips c i g)) (snd (core_agg_ips c i g))" if "(i, g) \<in> set (w_core_agg (wire c))"
    using link_ip_subnet [OF distinct_links(1) that, of 1] links_bounded(1) [OF assms]
    by (auto simp: core_agg_ips_def intro!: subnet_hosts_slash30)
  show "same_slash30 (fst (agg_edge_ips c g e)) (snd (agg_edge_ips c g e))" if "(g, e) \<in> set (w_agg_edge (wire c))"
    using link_ip_subnet [OF distinct_links(2) that, of 2] links_bounded(2) [OF assms]
    by (auto simp: agg_edge_ips_def intro!: subnet_hosts_slash30)
qed

lemma core_agg_session:
  assumes v: "ft_valid c" and ad: "ft_addressed c a" and l: "(i, g) \<in> set (w_core_agg (wire c))"
  shows "bgp_session_ok (the_plan (core_plan c a i)) (eth (port_of (sort (nbrs (w_core_neighbors (wire c)) i)) g))
     (the_plan (agg_plan c a g)) (eth (port_of (sort (nbrs (w_agg_core (wire c)) g)) i))"
proof -
  have r: "i \<in> {1..num_core c}" "g \<in> {1..num_total_agg c}" using l unfolding core_link_digits [OF v] by blast+
  have m: "g \<in> set (nbrs (w_core_neighbors (wire c)) i)" "i \<in> set (nbrs (w_agg_core (wire c)) g)"
    using l by (simp_all add: set_nbrs)
  have "\<lparr>bn_peer_ip = snd (core_agg_ips c i g), bn_remote_as = fc_agg_asn_start c + g - 1\<rparr>
      \<in> set (dp_bgp_neighbors (the_plan (core_plan c a i)))"
    unfolding core_fields(2) [OF v ad r(1)] using m(1) by auto
  moreover have "\<lparr>bn_peer_ip = fst (core_agg_ips c i g), bn_remote_as = fc_core_asn_start c + i - 1\<rparr>
      \<in> set (dp_bgp_neighbors (the_plan (agg_plan c a g)))"
    unfolding agg_fields(2) [OF v ad r(2)] using m(2) by auto
  moreover have "1 \<le> port_of (sort (nbrs (w_core_neighbors (wire c)) i)) g" "1 \<le> port_of (sort (nbrs (w_agg_core (wire c)) g)) i"
    using m port_of_range by (metis set_sort)+
  ultimately show ?thesis
    unfolding bgp_session_ok_def
    using core_interface [OF assms] agg_core_interface [OF assms] core_fields(3) [OF v ad r(1)] agg_fields(3) [OF v ad r(2)]
      ft_link_slash30(1) [OF v l] eth_port_sonic by metis
qed

lemma agg_edge_session:
  assumes v: "ft_valid c" and ad: "ft_addressed c a" and l: "(g, e) \<in> set (w_agg_edge (wire c))"
  shows "bgp_session_ok (the_plan (agg_plan c a g)) (eth (half c + port_of (sort (nbrs (w_agg_edges (wire c)) g)) e))
     (the_plan (edge_plan c a e)) (eth (port_of (sort (nbrs (w_edge_agg (wire c)) e)) g))"
proof -
  have r: "g \<in> {1..num_total_agg c}" "e \<in> {1..num_total_edge c}" using l unfolding edge_link_digits [OF v] by blast+
  have m: "e \<in> set (nbrs (w_agg_edges (wire c)) g)" "g \<in> set (nbrs (w_edge_agg (wire c)) e)"
    using l by (simp_all add: set_nbrs)
  have "\<lparr>bn_peer_ip = snd (agg_edge_ips c g e), bn_remote_as = fc_edge_asn_start c + e - 1\<rparr>
      \<in> set (dp_bgp_neighbors (the_plan (agg_plan c a g)))"
    unfolding agg_fields(2) [OF v ad r(1)] using m(1) by auto
  moreover have "\<lparr>bn_peer_ip = fst (agg_edge_ips c g e), bn_remote_as = fc_agg_asn_start c + g - 1\<rparr>
      \<in> set (dp_bgp_neighbors (the_plan (edge_plan c a e)))"
    unfolding edge_fields(2) [OF v ad r(2)] using m(2) by auto
  moreover have "1 \<le> half c + port_of (sort (nbrs (w_agg_edges (wire c)) g)) e" "1 \<le> port_of (sort (nbrs (w_edge_agg (wire c)) e)) g"
    using m port_of_range [of e "sort (nbrs (w_agg_edges (wire c)) g)"] port_of_range [of g "sort (nbrs (w_edge_agg (wire c)) e)"] v
    by (auto simp: ft_valid_def)
  ultimately show ?thesis
    unfolding bgp_session_ok_def
    using agg_edge_interface [OF assms] edge_interface [OF assms] agg_fields(3) [OF v ad r(1)] edge_fields(3) [OF v ad r(2)]
      ft_link_slash30(2) [OF v l] eth_port_sonic by metis
qed

section \<open>The manifest and the plan\<close>

lemma ft_link_cases:
  assumes "k \<in> set (ft_links c)"
  obtains i g where "(i, g) \<in> set (w_core_agg (wire c))" "k = make_link ''core-agg''
      (numbered ''core'' i, eth (port_of (sort (nbrs (w_core_neighbors (wire c)) i)) g))
      (numbered ''agg'' g, eth (port_of (sort (nbrs (w_agg_core (wire c)) g)) i))"
    | g e where "(g, e) \<in> set (w_agg_edge (wire c))" "k = make_link ''agg-edge''
      (numbered ''agg'' g, eth (half c + port_of (sort (nbrs (w_agg_edges (wire c)) g)) e))
      (numbered ''edge'' e, eth (port_of (sort (nbrs (w_edge_agg (wire c)) e)) g))"
    | idx e p where "(idx, e, p) \<in> set (numbered_from_1 (ft_client_slots c))" "k = make_link ''edge-client''
      (numbered ''edge'' e, eth (half c + p)) (numbered ''client'' idx, eth 1)"
  using assms unfolding ft_links_def Let_def by auto

lemma ft_plan_named:
  assumes "ft_valid c" "ft_addressed c a" "fp_device_plans fp = ft_plans c a"
  shows "i \<in> {1..num_core c} \<Longrightarrow> plan_named fp (numbered ''core'' i) = Some (the_plan (core_plan c a i))"
    and "g \<in> {1..num_total_agg c} \<Longrightarrow> plan_named fp (numbered ''agg'' g) = Some (the_plan (agg_plan c a g))"
    and "e \<in> {1..num_total_edge c} \<Longrightarrow> plan_named fp (numbered ''edge'' e) = Some (the_plan (edge_plan c a e))"
    and "(idx, e', p) \<in> set (numbered_from_1 (ft_client_slots c)) \<Longrightarrow>
      plan_named fp (numbered ''client'' idx) = Some (the_plan (ft_client_plan c a (idx, e', p)))"
proof -
  have f: "plan_named fp (plan_name P) = Some P" if "P \<in> set (ft_plans c a)" for P
    unfolding plan_named_def assms(3) by (rule find_by_name [OF ft_names_distinct [OF assms(1,2)] that])
  show "i \<in> {1..num_core c} \<Longrightarrow> plan_named fp (numbered ''core'' i) = Some (the_plan (core_plan c a i))"
    using f [of "the_plan (core_plan c a i)"] core_fields(6) [OF assms(1,2)] by (simp add: plan_name_def set_ft_plans)
  show "g \<in> {1..num_total_agg c} \<Longrightarrow> plan_named fp (numbered ''agg'' g) = Some (the_plan (agg_plan c a g))"
    using f [of "the_plan (agg_plan c a g)"] agg_fields(6) [OF assms(1,2)] by (simp add: plan_name_def set_ft_plans)
  show "e \<in> {1..num_total_edge c} \<Longrightarrow> plan_named fp (numbered ''edge'' e) = Some (the_plan (edge_plan c a e))"
    using f [of "the_plan (edge_plan c a e)"] edge_fields(6) [OF assms(1,2)] by (simp add: plan_name_def set_ft_plans)
  show "(idx, e', p) \<in> set (numbered_from_1 (ft_client_slots c)) \<Longrightarrow>
      plan_named fp (numbered ''client'' idx) = Some (the_plan (ft_client_plan c a (idx, e', p)))"
    using f [of "the_plan (ft_client_plan c a (idx, e', p))"] ft_client_fields(1) [OF assms(1,2)]
    by (simp add: plan_name_def set_ft_plans)
qed

lemma ft_sessions:
  assumes v: "ft_valid c" and ad: "ft_addressed c a" and dps: "fp_device_plans fp = ft_plans c a"
    and m: "fp_manifest fp = ft_manifest c a collector policy (ft_plans c a)"
  shows "sessions_ok fp"
  unfolding sessions_ok_def
proof
  note nm = ft_plan_named [OF v ad dps]
  fix k assume "k \<in> set (mf_links (fp_manifest fp))"
  then have "k \<in> set (ft_links c)" by (simp add: m ft_manifest_def)
  then show "\<exists>A B. plan_named fp (ep_device (fst (link_endpoints k))) = Some A \<and>
        plan_named fp (ep_device (snd (link_endpoints k))) = Some B \<and>
        (plan_is_client A \<or> plan_is_client B \<or>
         bgp_session_ok A (ep_interface (fst (link_endpoints k))) B (ep_interface (snd (link_endpoints k))))"
  proof (cases rule: ft_link_cases)
    case (1 i g)
    then have "i \<in> {1..num_core c}" "g \<in> {1..num_total_agg c}" unfolding core_link_digits [OF v] by blast+
    then show ?thesis using nm(1,2) core_agg_session [OF v ad 1(1)] 1(2) by (simp add: make_link_def)
  next
    case (2 g e)
    then have "g \<in> {1..num_total_agg c}" "e \<in> {1..num_total_edge c}" unfolding edge_link_digits [OF v] by blast+
    then show ?thesis using nm(2,3) agg_edge_session [OF v ad 2(1)] 2(2) by (simp add: make_link_def)
  next
    case (3 idx e p)
    then have "e \<in> {1..num_total_edge c}" using numbered_slot_range [OF 3(1) v] by blast
    then show ?thesis
      using nm(3) nm(4) [OF 3(1)] ft_client_fields(2) [OF v ad 3(1)] 3(2) by (simp add: make_link_def plan_is_client_def)
  qed
qed

lemma ft_plan_devices: "mf_devices (ft_manifest c a collector policy (ft_plans c a)) = map dp_device (ft_plans c a)"
  by (simp add: ft_manifest_def)

lemma ft_wf_manifest:
  assumes v: "ft_valid c" and ad: "ft_addressed c a"
  shows "wf_manifest (ft_manifest c a collector policy (ft_plans c a))"
proof -
  let ?m = "ft_manifest c a collector policy (ft_plans c a)"
  have pos: "1 \<in> {1..num_core c}" "1 \<in> {1..num_total_agg c}" "1 \<in> {1..num_total_edge c}"
    using v mult_mono [of 1 "half c" 1 "half c"]
    by (auto simp: ft_valid_def num_core_def num_total_agg_def num_total_edge_def)
  note role = core_fields(7) [OF v ad] agg_fields(7) [OF v ad] edge_fields(7) [OF v ad] ft_client_fields(2) [OF v ad]
  note name = core_fields(6) [OF v ad] agg_fields(6) [OF v ad] edge_fields(6) [OF v ad] ft_client_fields(1) [OF v ad]
  have roles: "dev_role ` set (switches ?m) = {CORE, AGG, EDGE}"
  proof
    show "dev_role ` set (switches ?m) \<subseteq> {CORE, AGG, EDGE}"
    proof
      fix r assume "r \<in> dev_role ` set (switches ?m)"
      then obtain P where P: "P \<in> set (ft_plans c a)" "r = dev_role (dp_device P)" "r \<noteq> CLIENT"
        by (auto simp: switches_def ft_plan_devices)
      from P(1) show "r \<in> {CORE, AGG, EDGE}" by (cases rule: ft_plan_cases) (use P role in simp_all)
    qed
    have "dp_device P \<in> set (switches ?m)" if "P \<in> set (ft_plans c a)" "dev_role (dp_device P) \<noteq> CLIENT" for P
      using that by (simp add: switches_def ft_plan_devices)
    then have "dp_device (the_plan (core_plan c a 1)) \<in> set (switches ?m)"
      "dp_device (the_plan (agg_plan c a 1)) \<in> set (switches ?m)" "dp_device (the_plan (edge_plan c a 1)) \<in> set (switches ?m)"
      using pos role by (simp_all add: set_ft_plans)
    then show "{CORE, AGG, EDGE} \<subseteq> dev_role ` set (switches ?m)"
      using role(1) [OF pos(1)] role(2) [OF pos(2)] role(3) [OF pos(3)]
      by (metis image_eqI insert_subset empty_subsetI)
  qed
  have nm: "dev_name ` set (map dp_device (ft_plans c a)) = set (map plan_name (ft_plans c a))"
    by (force simp: plan_name_def)
  have ends: "ep_device e \<in> set (map plan_name (ft_plans c a))" if e: "e \<in> set (link_ends ?m)" for e
  proof -
    obtain k where k: "k \<in> set (ft_links c)" "e = fst (link_endpoints k) \<or> e = snd (link_endpoints k)"
      using e by (auto simp: link_ends_def ft_manifest_def)
    from k(1) show ?thesis
    proof (cases rule: ft_link_cases)
      case (1 i g)
      then show ?thesis using k(2) unfolding core_link_digits [OF v] ft_names [OF v ad] by (auto simp: make_link_def)
    next
      case (2 g e)
      then show ?thesis using k(2) unfolding edge_link_digits [OF v] ft_names [OF v ad] by (auto simp: make_link_def)
    next
      case (3 idx e p)
      then show ?thesis using k(2) numbered_slot_range [OF 3(1) v] unfolding ft_names [OF v ad] by (auto simp: make_link_def)
    qed
  qed
  have cl: "\<exists>s \<in> set (map dp_device (ft_plans c a)). dev_attached_switch d = Some (dev_name s) \<and> dev_name s \<noteq> [] \<and> dev_role s \<noteq> CLIENT"
    if d: "d \<in> set (map dp_device (ft_plans c a))" "dev_role d = CLIENT" for d
  proof -
    obtain P where P: "P \<in> set (ft_plans c a)" "d = dp_device P" using d by auto
    from P(1) obtain idx e p where s: "(idx, e, p) \<in> set (numbered_from_1 (ft_client_slots c))"
        "P = the_plan (ft_client_plan c a (idx, e, p))"
      by (cases rule: ft_plan_cases) (use P d(2) role in simp_all)
    have e: "e \<in> {1..num_total_edge c}" using numbered_slot_range [OF s(1) v] by blast
    have "the_plan (edge_plan c a e) \<in> set (ft_plans c a)" using e by (simp add: set_ft_plans)
    then show ?thesis
      using ft_client_fields(5) [OF v ad s(1)] s(2) P(2) name(3) [OF e] role(3) [OF e]
      by (intro bexI [of _ "dp_device (the_plan (edge_plan c a e))"]) auto
  qed
  show ?thesis
    unfolding wf_manifest_def ft_plan_devices roles nm
    using ft_names_distinct [OF v ad] ft_mgmt_distinct [OF v ad] ft_data_distinct [OF v ad] ft_router_distinct [OF v ad]
      ends cl
    by (simp add: ft_manifest_def plan_name_def [abs_def] comp_def)
qed

lemma ft_switch_plans_ok:
  assumes v: "ft_valid c" and ad: "ft_addressed c a"
  shows "check_switch_plans (ft_plans c a) = Inr ()"
  unfolding check_switch_plans_ok
proof (intro ballI impI)
  fix P assume P: "P \<in> set (ft_plans c a)" "\<not> plan_is_client P"
  have pos: "0 < fc_k c" "0 < half c + int_or_0 (fc_clients_per_edge c)"
    using v by (auto simp: ft_valid_def int_or_0_def)
  from P(1) show "0 < dp_required_ports P \<and> dp_bgp_asn P \<noteq> None \<and> dp_bgp_router_id P \<noteq> None"
    by (cases rule: ft_plan_cases)
      (use P(2) pos core_fields(3-5) [OF v ad] agg_fields(3-5) [OF v ad] edge_fields(3-5) [OF v ad]
        ft_client_fields(2) [OF v ad] in \<open>simp_all add: plan_is_client_def\<close>)
qed

lemma make_fat_tree_config_facts:
  assumes "make_fat_tree_config c0 = Inr c"
  shows "fc_k c = fc_k c0" "fc_k c = 2 * half c" "1 \<le> half c"
    "\<exists>n. fc_clients_per_edge c = Some n \<and> 1 \<le> n \<and> n \<le> half c"
  using assms by (auto simp: make_fat_tree_config_def half_def Let_def split: if_splits)

lemma ft_valid_iff:
  assumes "make_fat_tree_config c0 = Inr c"
  shows "validate_fat_tree_config c = Inr () \<longleftrightarrow> ft_valid c"
proof -
  have "int_or_0 (fc_clients_per_edge c) \<le> 64" if "num_total_edge c \<le> 155"
    using make_fat_tree_config_facts [OF assms] ft_half_bound [of c] that by (auto simp: ft_valid_def int_or_0_def)
  then show ?thesis
    using make_fat_tree_config_facts [OF assms]
    by (auto simp: validate_fat_tree_config_def ft_valid_def not_less [symmetric])
qed

lemma build_fat_tree_plan_Inr:
  assumes "build_fat_tree_plan d c = Inr fp" "make_fat_tree_config c0 = Inr c"
  shows "\<exists>a collector policy. ft_valid c \<and> ft_addressed c a \<and> fp_device_plans fp = ft_plans c a
    \<and> fp_manifest fp = ft_manifest c a collector policy (ft_plans c a)"
proof -
  obtain a where v: "ft_valid c"
    and a: "create_addressing (fc_mgmt_ipv4_subnet c) (ft_allocated_offsets c) = Inr a"
    using assms(1) ft_valid_iff [OF assms(2)] by (auto simp: build_fat_tree_plan_def bindE_Inr_conv)
  have ad: "ft_addressed c a" using create_addressing_network [OF a] by (simp add: ft_addressed_def)
  obtain collector policy where
    "make_manifest (ft_manifest c a collector policy (ft_plans c a)) = Inr (ft_manifest c a collector policy (ft_plans c a))"
    "fp_device_plans fp = ft_plans c a" "fp_manifest fp = ft_manifest c a collector policy (ft_plans c a)"
    using assms(1) v a
    by (auto simp: build_fat_tree_plan_def bindE_Inr_conv ft_device_plans_Inr [OF v ad] make_fabric_plan_iff
        make_manifest_iff)
  then show ?thesis using v ad by blast
qed

lemma ft_offsets_range: "ft_valid c \<Longrightarrow> i \<in> set (ft_allocated_offsets c) \<Longrightarrow> 0 < i \<and> i \<le> ft_last_device_offset c"
proof -
  assume v: "ft_valid c" and i: "i \<in> set (ft_allocated_offsets c)"
  have "0 \<le> num_core c" "0 \<le> num_total_agg c" "0 \<le> num_total_edge c" "0 \<le> num_total_clients c"
    using v by (auto simp: ft_valid_def num_core_def num_total_agg_def num_total_edge_def num_total_clients_def int_or_0_def)
  then show ?thesis using i
    by (auto simp: ft_allocated_offsets_def ft_last_device_offset_def ft_client_offset_def ft_edge_offset_def
        ft_agg_offset_def ft_core_offset_def)
qed

lemma build_fat_tree_plan_succeeds:
  assumes "make_fat_tree_config c0 = Inr c" "num_total_edge c \<le> 155"
    and "ip_network (fc_mgmt_ipv4_subnet c) = Inr n" "ft_last_device_offset c + 1 < net_size n - 1"
    and "fc_collector_ip c = None" "fc_pingmesh_policy c = Some policy"
  shows "\<exists>fp. build_fat_tree_plan d c = Inr fp"
proof -
  have v: "ft_valid c" using make_fat_tree_config_facts [OF assms(1)] assms(2) by (simp add: ft_valid_def)
  have val: "validate_fat_tree_config c = Inr ()" using ft_valid_iff [OF assms(1)] v by simp
  define a where "a = \<lparr>ma_network = n, ma_allocated_offsets = ft_allocated_offsets c\<rparr>"
  have a: "create_addressing (fc_mgmt_ipv4_subnet c) (ft_allocated_offsets c) = Inr a"
    unfolding a_def using ft_offsets_range [OF v] assms(3,4) by (intro create_addressing_Inr) fastforce+
  then have ad: "ft_addressed c a" using create_addressing_network by (simp add: ft_addressed_def)
  have "1 \<le> num_core c" using v mult_mono [of 1 "half c" 1 "half c"] by (auto simp: ft_valid_def num_core_def)
  then have "ft_core_offset + 1 \<in> set (ft_allocated_offsets c)" by (auto simp: ft_allocated_offsets_def)
  from ft_offsets_range [OF v this] have "0 < ft_last_device_offset c" by simp
  then obtain col where "default_collector a (ft_last_device_offset c) False = Inr col" "validate_collector a col = Inr col"
    using default_collector_succeeds [of a "ft_last_device_offset c" False] assms(3,4)
      ft_offsets_range [OF v] ip_network_wf by (auto simp: a_def)
  moreover have "make_manifest (ft_manifest c a col policy (ft_plans c a)) = Inr (ft_manifest c a col policy (ft_plans c a))"
    using ft_wf_manifest [OF v ad] by (simp add: make_manifest_iff)
  moreover have "map dev_name (mf_devices (ft_manifest c a col policy (ft_plans c a))) = map plan_name (ft_plans c a)"
    by (simp add: ft_manifest_def plan_name_def)
  ultimately show ?thesis
    using a assms(5,6) ft_switch_plans_ok [OF v ad] ft_device_plans_Inr [OF v ad] val
    by (simp add: build_fat_tree_plan_def build_render_settings_def make_fabric_plan_def)
qed

lemma ft_role_counts:
  assumes v: "ft_valid c" and ad: "ft_addressed c a" and m: "m = ft_manifest c a collector policy (ft_plans c a)"
  shows "int (length (devices_by_role m CORE)) = num_core c" "int (length (devices_by_role m AGG)) = num_total_agg c"
    and "int (length (devices_by_role m EDGE)) = num_total_edge c" "int (length (clients m)) = num_total_clients c"
proof -
  have roles: "map dev_role (mf_devices m) = map (\<lambda>_. CORE) [1..num_core c] @ map (\<lambda>_. AGG) [1..num_total_agg c]
      @ map (\<lambda>_. EDGE) [1..num_total_edge c] @ map (\<lambda>_. CLIENT) (numbered_from_1 (ft_client_slots c))"
    using ft_map_devices [OF v ad, of dev_role "\<lambda>_. CORE" "\<lambda>_. AGG" "\<lambda>_. EDGE" "\<lambda>_. CLIENT"]
      core_fields(7) [OF v ad] agg_fields(7) [OF v ad] edge_fields(7) [OF v ad] ft_client_fields(2) [OF v ad]
    by (simp add: m ft_manifest_def comp_def)
  have cnt: "length (devices_by_role m r) = length (filter (\<lambda>x. x = r) (map dev_role (mf_devices m)))" for r
    by (simp add: devices_by_role_def filter_map comp_def)
  have "length (numbered_from_1 (ft_client_slots c)) = length (ft_client_slots c)" by (simp add: numbered_from_1_def)
  moreover have "0 \<le> num_core c" "0 \<le> num_total_agg c" "0 \<le> num_total_edge c"
    using v by (auto simp: ft_valid_def num_core_def num_total_agg_def num_total_edge_def)
  ultimately show "int (length (devices_by_role m CORE)) = num_core c" "int (length (devices_by_role m AGG)) = num_total_agg c"
    "int (length (devices_by_role m EDGE)) = num_total_edge c" "int (length (clients m)) = num_total_clients c"
    using length_ft_client_slots [OF v] unfolding clients_def cnt roles by (simp_all add: filter_map comp_def)
qed

text \<open>The autonomous systems the switches of a plan announce.\<close>

definition switch_asns :: "fabric_plan \<Rightarrow> int option list" where
  "switch_asns fp = map dp_bgp_asn (filter (\<lambda>P. \<not> plan_is_client P) (fp_device_plans fp))"

lemma ft_switch_asns:
  assumes v: "ft_valid c" and ad: "ft_addressed c a" and dps: "fp_device_plans fp = ft_plans c a"
  shows "switch_asns fp = map (\<lambda>i. Some (fc_core_asn_start c + i - 1)) [1..num_core c]
    @ map (\<lambda>i. Some (fc_agg_asn_start c + i - 1)) [1..num_total_agg c]
    @ map (\<lambda>i. Some (fc_edge_asn_start c + i - 1)) [1..num_total_edge c]"
proof -
  have all: "filter Q (map f xs) = map f xs" if "\<And>x. x \<in> set xs \<Longrightarrow> Q (f x)" for Q :: "device_plan \<Rightarrow> bool" and f and xs :: "int list"
    using that by (auto intro: filter_True)
  have none: "filter (\<lambda>P. \<not> plan_is_client P) (map (\<lambda>s. the_plan (ft_client_plan c a s)) (numbered_from_1 (ft_client_slots c))) = []"
    using ft_client_fields(2) [OF v ad] by (auto simp: filter_empty_conv plan_is_client_def)
  have "filter (\<lambda>P. \<not> plan_is_client P) (ft_plans c a) = map (\<lambda>i. the_plan (core_plan c a i)) [1..num_core c]
      @ map (\<lambda>g. the_plan (agg_plan c a g)) [1..num_total_agg c] @ map (\<lambda>e. the_plan (edge_plan c a e)) [1..num_total_edge c]"
    unfolding ft_plans_def filter_append none
    using core_fields(7) [OF v ad] agg_fields(7) [OF v ad] edge_fields(7) [OF v ad]
    by (simp add: all plan_is_client_def)
  then show ?thesis
    using core_fields(3) [OF v ad] agg_fields(3) [OF v ad] edge_fields(3) [OF v ad]
    by (simp add: switch_asns_def dps)
qed

lemma half_small_iff: "1 \<le> h \<Longrightarrow> h \<le> 8 \<Longrightarrow> 2 * h * h \<le> 100 \<longleftrightarrow> 2 * h < 16" for h :: int
proof
  assume "1 \<le> h" "h \<le> 8" and s: "2 * h * h \<le> 100"
  show "2 * h < 16"
  proof (rule ccontr)
    assume "\<not> 2 * h < 16"
    then have "h = 8" using \<open>h \<le> 8\<close> by simp
    then show False using s by simp
  qed
next
  assume "1 \<le> h" "2 * h < 16"
  then have "2 * h * h \<le> 14 * 7" by (intro mult_mono) auto
  then show "2 * h * h \<le> 100" by simp
qed

lemma default_asns_distinct:
  assumes v: "ft_valid c" and ad: "ft_addressed c a" and dps: "fp_device_plans fp = ft_plans c a"
    and "fc_core_asn_start c = 65001" "fc_agg_asn_start c = 65101" "fc_edge_asn_start c = 65201"
  shows "distinct (switch_asns fp) \<longleftrightarrow> fc_k c < 16"
proof -
  have h: "1 \<le> half c" "half c \<le> 8" "fc_k c = 2 * half c" using ft_half_bound [OF v] v by (auto simp: ft_valid_def)
  have "half c * half c \<le> 8 * 8" using h by (intro mult_mono) auto
  then have core: "num_core c \<le> 100" by (simp add: num_core_def)
  have pos: "num_total_agg c = num_total_edge c" "num_total_agg c \<le> 200"
    using v h by (auto simp: num_total_agg_def num_total_edge_def ft_valid_def)
  have "distinct (switch_asns fp) \<longleftrightarrow> num_total_agg c \<le> 100"
  proof
    assume d: "distinct (switch_asns fp)"
    show "num_total_agg c \<le> 100"
    proof (rule ccontr)
      assume "\<not> num_total_agg c \<le> 100"
      then have r: "101 \<in> {1..num_total_agg c}" "1 \<in> {1..num_total_edge c}" using pos by auto
      have "Some (65201 :: int) = Some (65101 + 101 - 1)" "Some (65201 :: int) = Some (65201 + 1 - 1)" by simp_all
      from image_eqI [where f = "\<lambda>i. Some (65101 + i - 1)", OF this(1) r(1)]
        image_eqI [where f = "\<lambda>i. Some (65201 + i - 1)", OF this(2) r(2)]
      have "Some 65201 \<in> (\<lambda>i. Some (65101 + i - 1)) ` {1..num_total_agg c}"
        "Some 65201 \<in> (\<lambda>i. Some (65201 + i - 1)) ` {1..num_total_edge c}" .
      then have "Some 65201 \<in> set (map (\<lambda>i. Some (65101 + i - 1)) [1..num_total_agg c])
          \<inter> set (map (\<lambda>i. Some (65201 + i - 1)) [1..num_total_edge c])"
        by (simp only: set_map set_upto Int_iff simp_thms)
      then show False using d unfolding ft_switch_asns [OF v ad dps] assms(4-6) distinct_append by blast
    qed
  next
    assume "num_total_agg c \<le> 100"
    then show "distinct (switch_asns fp)"
      unfolding ft_switch_asns [OF v ad dps] assms(4-6) using core by (auto simp: distinct_map inj_on_def)
  qed
  then show ?thesis using half_small_iff [OF h(1,2)] h(3) by (simp add: num_total_agg_def)
qed

section \<open>Properties\<close>

definition fat_tree_example :: "int \<Rightarrow> string \<Rightarrow> fat_tree_config" where
  "fat_tree_example k subnet = (default_fat_tree_config k)
     \<lparr>fc_mgmt_ipv4_subnet := subnet, fc_clients_per_edge := Some 1,
      fc_pingmesh_policy := Some \<lparr>pol_destination_batch_size = None, pol_rtt_port_pool_size = 8,
        pol_rtt_ports_per_cycle = 4, pol_cycle_interval_seconds = 10, pol_df_payload_size = 9072\<rparr>\<rparr>"

lemma fat_tree_example_fields [simp]:
  "fc_k (fat_tree_example k s) = k" "half (fat_tree_example k s) = k div 2"
  "fc_clients_per_edge (fat_tree_example k s) = Some 1" "fc_mgmt_ipv4_subnet (fat_tree_example k s) = s"
  "fc_collector_ip (fat_tree_example k s) = None" "fc_core_asn_start (fat_tree_example k s) = 65001"
  "fc_agg_asn_start (fat_tree_example k s) = 65101" "fc_edge_asn_start (fat_tree_example k s) = 65201"
  "fc_pingmesh_policy (fat_tree_example k s) = Some \<lparr>pol_destination_batch_size = None, pol_rtt_port_pool_size = 8,
     pol_rtt_ports_per_cycle = 4, pol_cycle_interval_seconds = 10, pol_df_payload_size = 9072\<rparr>"
  by (simp_all add: fat_tree_example_def default_fat_tree_config_def half_def)

lemma fat_tree_example_made:
  "2 \<le> k \<Longrightarrow> k mod 2 = 0 \<Longrightarrow> make_fat_tree_config (fat_tree_example k s) = Inr (fat_tree_example k s)"
proof -
  assume k: "2 \<le> k" "k mod 2 = 0"
  have "(fat_tree_example k s)\<lparr>fc_clients_per_edge := Some 1\<rparr> = fat_tree_example k s"
    by (simp add: fat_tree_example_def)
  then show ?thesis using k by (simp add: make_fat_tree_config_def Let_def)
qed

lemma fat_tree_example_sizes:
  "ft_last_device_offset (fat_tree_example 16 s) = 458" "num_total_edge (fat_tree_example 16 s) = 128"
  "ft_last_device_offset (fat_tree_example 4 s) = 38" "num_total_edge (fat_tree_example 4 s) = 8"
  by (simp_all add: ft_last_device_offset_def ft_client_offset_def ft_edge_offset_def ft_agg_offset_def ft_core_offset_def
      num_core_def num_total_agg_def num_total_edge_def num_total_clients_def int_or_0_def)

lemma example_network_23: "ip_network ''172.20.20.0/23'' = Inr \<lparr>net_address = 2886996992, net_prefix = 23\<rparr>"
  by code_simp

lemma fat_tree_example_builds:
  "\<exists>fp. build_fat_tree_plan [] (fat_tree_example 4 ''172.20.20.0/24'') = Inr fp"
  "\<exists>fp. build_fat_tree_plan [] (fat_tree_example 16 ''172.20.20.0/23'') = Inr fp"
proof -
  show "\<exists>fp. build_fat_tree_plan [] (fat_tree_example 4 ''172.20.20.0/24'') = Inr fp"
    by (rule build_fat_tree_plan_succeeds [OF fat_tree_example_made _ _ _ _ fat_tree_example_fields(9)])
      (simp_all add: fat_tree_example_sizes example_network, simp add: net_size_def)
  show "\<exists>fp. build_fat_tree_plan [] (fat_tree_example 16 ''172.20.20.0/23'') = Inr fp"
    by (rule build_fat_tree_plan_succeeds [OF fat_tree_example_made _ _ _ _ fat_tree_example_fields(9)])
      (simp_all add: fat_tree_example_sizes example_network_23, simp add: net_size_def)
qed

text \<open>
  C11. The fat-tree wiring loops build the k-ary fat tree: core \<open>i\<close> is linked to aggregation
  switch \<open>g\<close> exactly when the core's group equals \<open>g\<close>'s position in its pod, an aggregation
  and an edge switch exactly when they share a pod; the four neighbour dictionaries agree with the
  two link lists, and every core has \<open>k\<close>, every aggregation switch \<open>k/2 + k/2\<close> and every edge
  switch \<open>k/2\<close> switch ports in use, each towards a different neighbour.
\<close>

theorem fat_tree_wiring:
  assumes "make_fat_tree_config c0 = Inr c" "validate_fat_tree_config c = Inr ()"
  shows "let w = wire c in
    ((i, g) \<in> set (w_core_agg w) \<longleftrightarrow>
      i \<in> {1..num_core c} \<and> g \<in> {1..num_total_agg c} \<and> (i - 1) div half c = (g - 1) mod half c) \<and>
    ((g, e) \<in> set (w_agg_edge w) \<longleftrightarrow>
      g \<in> {1..num_total_agg c} \<and> e \<in> {1..num_total_edge c} \<and> (g - 1) div half c = (e - 1) div half c) \<and>
    (g \<in> set (nbrs (w_core_neighbors w) i) \<longleftrightarrow> (i, g) \<in> set (w_core_agg w)) \<and>
    (i \<in> set (nbrs (w_agg_core w) g) \<longleftrightarrow> (i, g) \<in> set (w_core_agg w)) \<and>
    (e \<in> set (nbrs (w_agg_edges w) g) \<longleftrightarrow> (g, e) \<in> set (w_agg_edge w)) \<and>
    (g \<in> set (nbrs (w_edge_agg w) e) \<longleftrightarrow> (g, e) \<in> set (w_agg_edge w)) \<and>
    (i \<in> {1..num_core c} \<longrightarrow> int (length (nbrs (w_core_neighbors w) i)) = fc_k c) \<and>
    (g \<in> {1..num_total_agg c} \<longrightarrow> int (length (nbrs (w_agg_core w) g)) = half c \<and>
      int (length (nbrs (w_agg_edges w) g)) = half c) \<and>
    (e \<in> {1..num_total_edge c} \<longrightarrow> int (length (nbrs (w_edge_agg w) e)) = half c) \<and>
    distinct (nbrs (w_core_neighbors w) i) \<and> distinct (nbrs (w_agg_core w) g) \<and>
    distinct (nbrs (w_agg_edges w) g) \<and> distinct (nbrs (w_edge_agg w) e)"
proof -
  have v: "ft_valid c" using ft_valid_iff [OF assms(1)] assms(2) by simp
  show ?thesis
    unfolding Let_def
    by (intro conjI impI core_link_digits [OF v] edge_link_digits [OF v] set_nbrs nbrs_lengths [OF v] distinct_nbrs)
qed

theorem fat_tree_wiring_witness:
  "(1, 1) \<in> set (w_core_agg (wire (fat_tree_example 4 []))) \<and> (1, 2) \<notin> set (w_core_agg (wire (fat_tree_example 4 [])))
   \<and> length (nbrs (w_core_neighbors (wire (fat_tree_example 4 []))) 1) = 4"
proof -
  have "validate_fat_tree_config (fat_tree_example 4 []) = Inr ()"
    by (simp add: validate_fat_tree_config_def fat_tree_example_sizes int_or_0_def)
  note w = fat_tree_wiring [OF fat_tree_example_made this]
  show ?thesis using w [of 1 1] w [of 1 2] by (simp add: Let_def num_core_def num_total_agg_def)
qed

text \<open>
  C10. Building a fat tree: a configuration accepted by its constructor with at most 155 edge
  switches, whose devices and collector fit the management subnet, always yields a plan; every plan has
  a well-formed manifest with \<open>(k/2)\<^sup>2\<close> cores, \<open>k\<^sup>2/2\<close> aggregation and edge switches and
  the configured clients, and every link between two switches carries a consistent eBGP
  session over its own /30 subnet.
\<close>

theorem build_fat_tree_plan_correct:
  assumes "make_fat_tree_config c0 = Inr c"
  shows "(num_total_edge c \<le> 155 \<and> ip_network (fc_mgmt_ipv4_subnet c) = Inr n \<and>
      ft_last_device_offset c + 1 < net_size n - 1 \<and> fc_collector_ip c = None \<and>
      fc_pingmesh_policy c = Some policy \<longrightarrow> (\<exists>fp. build_fat_tree_plan d c = Inr fp)) \<and>
    (build_fat_tree_plan d c = Inr fp \<longrightarrow>
      wf_manifest (fp_manifest fp) \<and> sessions_ok fp \<and>
      int (length (devices_by_role (fp_manifest fp) CORE)) = half c * half c \<and>
      int (length (devices_by_role (fp_manifest fp) AGG)) = fc_k c * half c \<and>
      int (length (devices_by_role (fp_manifest fp) EDGE)) = fc_k c * half c \<and>
      int (length (clients (fp_manifest fp))) = fc_k c * half c * int_or_0 (fc_clients_per_edge c))"
proof (intro conjI impI)
  show "\<exists>fp. build_fat_tree_plan d c = Inr fp"
    if "num_total_edge c \<le> 155 \<and> ip_network (fc_mgmt_ipv4_subnet c) = Inr n \<and>
      ft_last_device_offset c + 1 < net_size n - 1 \<and> fc_collector_ip c = None \<and> fc_pingmesh_policy c = Some policy"
    using build_fat_tree_plan_succeeds [OF assms] that by blast
  assume "build_fat_tree_plan d c = Inr fp"
  then obtain a col pol where v: "ft_valid c" and ad: "ft_addressed c a" and dps: "fp_device_plans fp = ft_plans c a"
    and m: "fp_manifest fp = ft_manifest c a col pol (ft_plans c a)"
    using build_fat_tree_plan_Inr [OF _ assms] by blast
  note counts = ft_role_counts [OF v ad m]
  show "wf_manifest (fp_manifest fp)" unfolding m by (rule ft_wf_manifest [OF v ad])
  show "sessions_ok fp" by (rule ft_sessions [OF v ad dps m])
  show "int (length (devices_by_role (fp_manifest fp) CORE)) = half c * half c" using counts(1) by (simp add: num_core_def)
  show "int (length (devices_by_role (fp_manifest fp) AGG)) = fc_k c * half c" using counts(2) by (simp add: num_total_agg_def)
  show "int (length (devices_by_role (fp_manifest fp) EDGE)) = fc_k c * half c" using counts(3) by (simp add: num_total_edge_def)
  show "int (length (clients (fp_manifest fp))) = fc_k c * half c * int_or_0 (fc_clients_per_edge c)"
    using counts(4) by (simp add: num_total_clients_def num_total_edge_def)
qed

theorem build_fat_tree_plan_correct_witness:
  "\<exists>fp. build_fat_tree_plan [] (fat_tree_example 4 ''172.20.20.0/24'') = Inr fp \<and> sessions_ok fp
     \<and> length (devices_by_role (fp_manifest fp) AGG) = 8"
proof -
  obtain fp where fp: "build_fat_tree_plan [] (fat_tree_example 4 ''172.20.20.0/24'') = Inr fp"
    using fat_tree_example_builds(1) by blast
  from build_fat_tree_plan_correct [OF fat_tree_example_made, of 4 "''172.20.20.0/24''" _ _ "[]" fp] fp
  show ?thesis by (intro exI [of _ fp]) simp
qed

text \<open>
  Autonomous systems of a fat tree: with the default numbering every switch of a plan
  announces an autonomous system of its own exactly for \<open>k < 16\<close>.  The builder also accepts
  \<open>k = 16\<close>, where the aggregation range 65101-65228 runs into the edge range
  65201-65328 and switches of different pods share a number.
\<close>

theorem fat_tree_asns_distinct_iff:
  assumes "make_fat_tree_config c0 = Inr c" "build_fat_tree_plan d c = Inr fp"
    and "fc_core_asn_start c = 65001" "fc_agg_asn_start c = 65101" "fc_edge_asn_start c = 65201"
  shows "distinct (switch_asns fp) \<longleftrightarrow> fc_k c < 16"
  using build_fat_tree_plan_Inr [OF assms(2,1)] default_asns_distinct [OF _ _ _ assms(3-5)] by blast

theorem fat_tree_asns_distinct_iff_witness:
  "\<exists>fp. build_fat_tree_plan [] (fat_tree_example 16 ''172.20.20.0/23'') = Inr fp \<and> \<not> distinct (switch_asns fp)"
proof -
  obtain fp where fp: "build_fat_tree_plan [] (fat_tree_example 16 ''172.20.20.0/23'') = Inr fp"
    using fat_tree_example_builds(2) by blast
  from fat_tree_asns_distinct_iff [OF fat_tree_example_made fp] show ?thesis using fp by simp
qed

end
