(* ===== verification/Fault_Types.thy ===== *)
theory Fault_Types
  imports Json_Payloads
begin

text \<open>
  The fault vocabulary: \<open>platform/faults/specs.py\<close> (the registry that maps names and aliases to
  canonical specifications, and the cached index of builtin names), \<open>faults/models.py\<close> (the
  episode check of a specification), the builtin specifications under \<open>faults/builtin/\<close>, and
  the scenario model of \<open>models/scenario.py\<close>.  The inject and recover callables of a
  specification are not part of the record; the handlers they call are outside this theory.
\<close>

section \<open>Scenarios\<close>

record episode =
  ep_id :: string
  ep_fault_type :: string
  ep_target_device :: "string option"
  ep_target_interface :: "string option"
  ep_target_prefix :: "string option"
  ep_mtu :: "int option"
  ep_duration_seconds :: int
  ep_stabilization_time :: int
  ep_metadata :: "(string, json) dict"
  ep_parameters :: "(string, json) dict"

record scenario =
  sc_id :: string
  sc_name :: string
  sc_topology_scale :: string
  sc_traffic_profile :: string
  sc_episode :: episode
  sc_metadata :: "(string, json) dict"

definition is_healthy :: "episode \<Rightarrow> bool" where
  "is_healthy e \<longleftrightarrow> ep_fault_type e = ''none''"

text \<open>Truth of an optional string: \<open>None\<close> and the empty string are false.\<close>

definition given :: "string option \<Rightarrow> bool" where
  "given x \<longleftrightarrow> (case x of None \<Rightarrow> False | Some s \<Rightarrow> s \<noteq> [])"

section \<open>Specifications\<close>

datatype spec_flag = RequiresInterface | RequiresPrefix | ScenarioSupported

record fault_spec =
  fs_name :: string
  fs_requires_interface :: bool
  fs_requires_prefix :: bool
  fs_required_parameters :: "string list"
  fs_episode_validator :: "(episode \<Rightarrow> string list) option"
  fs_aliases :: "string list"
  fs_scenario_supported :: bool

definition plain_spec :: "string \<Rightarrow> fault_spec" where
  "plain_spec name =
     \<lparr>fs_name = name, fs_requires_interface = False, fs_requires_prefix = False, fs_required_parameters = [],
      fs_episode_validator = None, fs_aliases = [], fs_scenario_supported = True\<rparr>"

text \<open>\<open>value in (None, "", [], {}, ())\<close>.\<close>

definition blank_value :: "json \<Rightarrow> bool" where
  "blank_value v \<longleftrightarrow> v \<in> {JNull, JStr [], JList [], JObj []}"

definition episode_value :: "episode \<Rightarrow> string \<Rightarrow> json" where
  "episode_value e key =
     (case dict_get (ep_parameters e) key of Some v \<Rightarrow> v
      | None \<Rightarrow> dict_get_default (ep_metadata e) key JNull)"

definition validate_episode :: "fault_spec \<Rightarrow> episode \<Rightarrow> int option \<Rightarrow> string list" where
  "validate_episode spec e episode_index =
     (let prefix = (case episode_index of Some i \<Rightarrow> ''Episode '' @ int_str i @ '': '' | None \<Rightarrow> [])
      in (if fs_requires_interface spec \<and> \<not> given (ep_target_interface e)
          then [prefix @ fs_name spec @ '' requires target_interface''] else [])
         @ (if fs_requires_prefix spec \<and> \<not> given (ep_target_prefix e)
            then [prefix @ fs_name spec @ '' requires target_prefix''] else [])
         @ map (\<lambda>key. prefix @ fs_name spec @ '' requires parameter '' @ py_repr key)
             (filter (\<lambda>key. blank_value (episode_value e key)) (fs_required_parameters spec))
         @ (case fs_episode_validator spec of Some f \<Rightarrow> f e | None \<Rightarrow> []))"

section \<open>Builtin specifications\<close>

definition build_link_fault_specs :: "fault_spec list" where
  "build_link_fault_specs =
     [(plain_spec ''link_down'')\<lparr>fs_requires_interface := True\<rparr>, plain_spec ''link_flapping'']"

definition build_routing_fault_specs :: "fault_spec list" where
  "build_routing_fault_specs =
     [plain_spec ''blackhole_route'',
      (plain_spec ''static_route_misconfig'')\<lparr>fs_aliases := [''static_route_misconfiguration'']\<rparr>,
      plain_spec ''bgp_neighbor_misconfig'', plain_spec ''route_policy_misconfig'']"

definition build_impairment_fault_specs :: "fault_spec list" where
  "build_impairment_fault_specs =
     [(plain_spec ''mtu_mismatch'')\<lparr>fs_requires_interface := True\<rparr>, plain_spec ''packet_corruption'',
      plain_spec ''packet_loss'', plain_spec ''high_latency'']"

definition build_system_fault_specs :: "fault_spec list" where
  "build_system_fault_specs = [plain_spec ''device_down'']"

definition build_acl_fault_specs :: "fault_spec list" where
  "build_acl_fault_specs = [(plain_spec ''acl_misconfig'')\<lparr>fs_aliases := [''acl_misconfiguration'']\<rparr>]"

definition build_builtin_fault_specs :: "fault_spec list" where
  "build_builtin_fault_specs =
     build_link_fault_specs @ build_routing_fault_specs @ build_impairment_fault_specs
     @ build_system_fault_specs @ build_acl_fault_specs"

definition canonical_fault_aliases :: "(string, string) dict" where
  "canonical_fault_aliases = [(''static_route_misconfiguration'', ''static_route_misconfig'')]"

section \<open>The registry\<close>

record fault_registry =
  fr_specs :: "(string, fault_spec) dict"
  fr_aliases :: "(string, string) dict"
  fr_schema_defaults :: "(string, (spec_flag \<times> bool) list) dict"
  fr_builtin_names :: "string list option"

definition new_registry :: fault_registry where
  "new_registry =
     \<lparr>fr_specs = [], fr_aliases = canonical_fault_aliases,
      fr_schema_defaults = [(''blackhole_route'', [(RequiresPrefix, True)])], fr_builtin_names = None\<rparr>"

text \<open>\<open>str(name or "").strip()\<close>.\<close>

definition raw_fault_name :: "string option \<Rightarrow> string" where
  "raw_fault_name name = str_strip (case name of Some s \<Rightarrow> s | None \<Rightarrow> [])"

definition canonicalize :: "fault_registry \<Rightarrow> string option \<Rightarrow> string" where
  "canonicalize r name =
     (let raw = raw_fault_name name
      in if raw = [] then [] else dict_get_default (fr_aliases r) raw raw)"

text \<open>A schema default replaces only a flag that is still false.\<close>

fun apply_default :: "fault_spec \<Rightarrow> spec_flag \<times> bool \<Rightarrow> fault_spec" where
  "apply_default s (RequiresInterface, v) =
     (if fs_requires_interface s then s else s\<lparr>fs_requires_interface := v\<rparr>)"
| "apply_default s (RequiresPrefix, v) = (if fs_requires_prefix s then s else s\<lparr>fs_requires_prefix := v\<rparr>)"
| "apply_default s (ScenarioSupported, v) =
     (if fs_scenario_supported s then s else s\<lparr>fs_scenario_supported := v\<rparr>)"

definition normalized_aliases :: "fault_spec \<Rightarrow> string \<Rightarrow> string list" where
  "normalized_aliases spec canonical =
     sort (remdups (filter (\<lambda>a. a \<noteq> [] \<and> a \<noteq> canonical) (fs_name spec # fs_aliases spec @ [canonical])))"

definition normalized_spec :: "fault_registry \<Rightarrow> fault_spec \<Rightarrow> fault_spec" where
  "normalized_spec r spec =
     (let c = canonicalize r (Some (fs_name spec));
          canonical = (if c = [] then fs_name spec else c);
          defaults = dict_get_default (fr_schema_defaults r) canonical []
      in (foldl apply_default spec defaults)
           \<lparr>fs_name := canonical, fs_aliases := normalized_aliases spec canonical\<rparr>)"

definition register :: "fault_spec \<Rightarrow> fault_registry \<Rightarrow> fault_registry" where
  "register spec r =
     (let n = normalized_spec r spec
      in r\<lparr>fr_specs := dict_set (fr_specs r) (fs_name n) n,
           fr_aliases := fold (\<lambda>a d. dict_set d a (fs_name n)) (fs_aliases n)
                           (dict_set (fr_aliases r) (fs_name n) (fs_name n))\<rparr>)"

definition load_builtins :: "fault_registry \<Rightarrow> fault_registry" where
  "load_builtins r =
     (case fr_builtin_names r of
        Some _ \<Rightarrow> r
      | None \<Rightarrow>
          (let r' = fold register build_builtin_fault_specs r
           in r'\<lparr>fr_builtin_names := Some (sort (map fst (fr_specs r')))\<rparr>))"

definition get_spec :: "fault_registry \<Rightarrow> string \<Rightarrow> fault_registry \<times> fault_spec option" where
  "get_spec r name =
     (let r' = load_builtins r in (r', dict_get (fr_specs r') (canonicalize r' (Some name))))"

definition list_all_specs :: "fault_registry \<Rightarrow> fault_spec list" where
  "list_all_specs r = map snd (sort_key fst (fr_specs (load_builtins r)))"

definition registry_scenario_faults :: "fault_registry \<Rightarrow> string list" where
  "registry_scenario_faults r = map fs_name (filter fs_scenario_supported (list_all_specs r))"

definition create_fault_registry :: fault_registry where
  "create_fault_registry = load_builtins new_registry"

section \<open>The cached index of builtin names\<close>

definition index_spec :: "fault_spec \<Rightarrow> (string, string) dict \<Rightarrow> (string, string) dict" where
  "index_spec spec d =
     (let canonical = dict_get_default d (fs_name spec) (fs_name spec);
          d1 = dict_set d canonical canonical;
          d2 = dict_set d1 (fs_name spec) canonical
      in fold (\<lambda>a d. dict_set d a canonical) (fs_aliases spec) d2)"

definition builtin_alias_index :: "(string, string) dict" where
  "builtin_alias_index = fold index_spec build_builtin_fault_specs canonical_fault_aliases"

definition canonicalize_fault_name :: "string option \<Rightarrow> string" where
  "canonicalize_fault_name name =
     (let raw = raw_fault_name name in dict_get_default builtin_alias_index raw raw)"

definition get_supported_scenario_faults :: "string list" where
  "get_supported_scenario_faults = registry_scenario_faults create_fault_registry"

section \<open>Evaluating the builtin tables\<close>

lemma builtin_index_eval:
  "builtin_alias_index =
     [(''static_route_misconfiguration'', ''static_route_misconfig''), (''link_down'', ''link_down''),
      (''link_flapping'', ''link_flapping''), (''blackhole_route'', ''blackhole_route''),
      (''static_route_misconfig'', ''static_route_misconfig''),
      (''bgp_neighbor_misconfig'', ''bgp_neighbor_misconfig''),
      (''route_policy_misconfig'', ''route_policy_misconfig''), (''mtu_mismatch'', ''mtu_mismatch''),
      (''packet_corruption'', ''packet_corruption''), (''packet_loss'', ''packet_loss''),
      (''high_latency'', ''high_latency''), (''device_down'', ''device_down''),
      (''acl_misconfig'', ''acl_misconfig''), (''acl_misconfiguration'', ''acl_misconfig'')]"
  by code_simp

lemma builtin_registry_aliases: "fr_aliases create_fault_registry = builtin_alias_index"
  unfolding builtin_index_eval by code_simp

section \<open>Canonical names\<close>

text \<open>Every alias leads, in one step, to a name without surrounding space that stays put.\<close>

definition reg_ok :: "fault_registry \<Rightarrow> bool" where
  "reg_ok r \<longleftrightarrow> (\<forall>a c. dict_get (fr_aliases r) a = Some c \<longrightarrow>
     c \<noteq> [] \<and> str_strip c = c \<and> dict_get (fr_aliases r) c \<in> {None, Some c})"

lemma raw_fault_name_strip [simp]: "str_strip (raw_fault_name x) = raw_fault_name x"
  by (simp add: raw_fault_name_def)

lemma raw_fault_name_Some: "raw_fault_name (Some s) = str_strip s"
  by (simp add: raw_fault_name_def)

lemma canonicalize_cases:
  "canonicalize r x = (if raw_fault_name x = [] then [] else
     case dict_get (fr_aliases r) (raw_fault_name x) of Some c \<Rightarrow> c | None \<Rightarrow> raw_fault_name x)"
  by (simp add: canonicalize_def Let_def dict_get_default_def split: option.splits)

lemma str_strip_Nil [simp]: "str_strip [] = []"
  by (simp add: str_strip_def)

lemma canonicalize_stripped: "reg_ok r \<Longrightarrow> str_strip (canonicalize r x) = canonicalize r x"
  by (auto simp: canonicalize_cases reg_ok_def split: option.splits)

lemma canonicalize_nonempty: "reg_ok r \<Longrightarrow> canonicalize r x = [] \<longleftrightarrow> raw_fault_name x = []"
  by (auto simp: canonicalize_cases reg_ok_def split: option.splits)

lemma canonicalize_idem: "reg_ok r \<Longrightarrow> canonicalize r (Some (canonicalize r x)) = canonicalize r x"
proof -
  assume ok: "reg_ok r"
  have s: "raw_fault_name (Some (canonicalize r x)) = canonicalize r x"
    by (simp add: raw_fault_name_Some canonicalize_stripped [OF ok])
  show ?thesis
  proof (cases "raw_fault_name x = []")
    case True
    then show ?thesis using s by (simp add: canonicalize_cases)
  next
    case False
    then have "dict_get (fr_aliases r) (canonicalize r x) \<in> {None, Some (canonicalize r x)}"
      using ok unfolding reg_ok_def canonicalize_cases [of r x] by (auto split: option.splits)
    then show ?thesis unfolding canonicalize_cases [of r "Some _"] s by auto
  qed
qed

lemma fold_alias: "dict_get (fold (\<lambda>a d. dict_set d a c) as d) k = (if k \<in> set as then Some c else dict_get d k)"
  by (induction as arbitrary: d) auto

lemma register_aliases:
  "dict_get (fr_aliases (register spec r)) k =
     (if k \<in> set (fs_name (normalized_spec r spec) # fs_aliases (normalized_spec r spec))
      then Some (fs_name (normalized_spec r spec)) else dict_get (fr_aliases r) k)"
  by (simp add: register_def Let_def fold_alias)

lemma normalized_name:
  "reg_ok r \<Longrightarrow> str_strip (fs_name spec) \<noteq> [] \<Longrightarrow> fs_name (normalized_spec r spec) = canonicalize r (Some (fs_name spec))"
  by (simp add: normalized_spec_def Let_def canonicalize_nonempty raw_fault_name_Some)

lemma set_normalized_aliases:
  "set (fs_aliases (normalized_spec r spec)) =
     {a \<in> insert (fs_name spec) (set (fs_aliases spec)). a \<noteq> [] \<and> a \<noteq> fs_name (normalized_spec r spec)}"
  by (auto simp: normalized_spec_def Let_def normalized_aliases_def)

lemma register_reg_ok:
  assumes "reg_ok r" "str_strip (fs_name spec) \<noteq> []"
    and "\<And>a c. dict_get (fr_aliases r) a = Some c \<Longrightarrow> c \<notin> set (fs_aliases (normalized_spec r spec))"
  shows "reg_ok (register spec r)"
proof -
  have "fs_name (normalized_spec r spec) \<noteq> []" "str_strip (fs_name (normalized_spec r spec)) = fs_name (normalized_spec r spec)"
    using assms(1,2) canonicalize_stripped canonicalize_nonempty by (auto simp: normalized_name raw_fault_name_Some)
  then show ?thesis
    using assms(1,3) set_normalized_aliases [of r spec] unfolding reg_ok_def register_aliases by (auto split: if_splits)
qed

lemma builtin_reg_ok: "reg_ok create_fault_registry"
proof -
  have "\<forall>(a, c) \<in> set builtin_alias_index. c \<noteq> [] \<and> str_strip c = c \<and> dict_get builtin_alias_index c = Some c"
    unfolding builtin_index_eval by code_simp
  then show ?thesis unfolding reg_ok_def builtin_registry_aliases by (auto dest!: map_of_SomeD)
qed

lemma new_registry_ok: "reg_ok new_registry"
proof -
  have "\<forall>(a, c) \<in> set canonical_fault_aliases. c \<noteq> [] \<and> str_strip c = c \<and> dict_get canonical_fault_aliases c = None"
    by code_simp
  then show ?thesis by (auto simp: reg_ok_def new_registry_def dest!: map_of_SomeD)
qed

lemma canonicalize_fault_name_registry: "canonicalize_fault_name x = canonicalize create_fault_registry x"
proof -
  have "dict_get builtin_alias_index [] = None" by code_simp
  then show ?thesis
    by (auto simp: canonicalize_fault_name_def canonicalize_cases builtin_registry_aliases Let_def
        dict_get_default_def split: option.splits)
qed

section \<open>Properties\<close>

text \<open>
  Registering a fault specification: its name and all its proper aliases resolve to the
  canonical name, under which the normalised specification is stored; every unrelated name resolves as
  before and every other specification stays; resolving a resolved name changes nothing, and that survives
  the registration unless one of the new aliases is the canonical name of another fault.
\<close>

theorem register_resolves:
  assumes "reg_ok r" "str_strip (fs_name spec) \<noteq> []"
  shows "let n = normalized_spec r spec; r' = register spec r in
    fs_name n = canonicalize r (Some (fs_name spec)) \<and>
    dict_get (fr_specs r') (fs_name n) = Some n \<and>
    (\<forall>a \<in> set (fs_name spec # fs_aliases spec). str_strip a = a \<and> a \<noteq> [] \<longrightarrow> canonicalize r' (Some a) = fs_name n) \<and>
    (\<forall>x. raw_fault_name x \<notin> set (fs_name n # fs_aliases n) \<longrightarrow> canonicalize r' x = canonicalize r x) \<and>
    (\<forall>c. c \<noteq> fs_name n \<longrightarrow> dict_get (fr_specs r') c = dict_get (fr_specs r) c) \<and>
    canonicalize r (Some (canonicalize r x)) = canonicalize r x \<and>
    ((\<forall>a c. dict_get (fr_aliases r) a = Some c \<longrightarrow> c \<notin> set (fs_aliases n)) \<longrightarrow> reg_ok r')"
  unfolding Let_def
proof (intro conjI)
  let ?n = "normalized_spec r spec"
  show "fs_name ?n = canonicalize r (Some (fs_name spec))" using normalized_name [OF assms] .
  show "dict_get (fr_specs (register spec r)) (fs_name ?n) = Some ?n" by (simp add: register_def Let_def)
  show "\<forall>a \<in> set (fs_name spec # fs_aliases spec). str_strip a = a \<and> a \<noteq> [] \<longrightarrow>
      canonicalize (register spec r) (Some a) = fs_name ?n"
    using set_normalized_aliases [of r spec]
    by (auto simp: canonicalize_cases [of "register spec r"] register_aliases raw_fault_name_Some)
  show "\<forall>x. raw_fault_name x \<notin> set (fs_name ?n # fs_aliases ?n) \<longrightarrow> canonicalize (register spec r) x = canonicalize r x"
    by (simp add: canonicalize_cases register_aliases)
  show "\<forall>c. c \<noteq> fs_name ?n \<longrightarrow> dict_get (fr_specs (register spec r)) c = dict_get (fr_specs r) c"
    by (simp add: register_def Let_def)
  show "canonicalize r (Some (canonicalize r x)) = canonicalize r x" using canonicalize_idem [OF assms(1)] .
  show "(\<forall>a c. dict_get (fr_aliases r) a = Some c \<longrightarrow> c \<notin> set (fs_aliases ?n)) \<longrightarrow> reg_ok (register spec r)"
    using register_reg_ok [OF assms] by blast
qed

theorem register_resolves_witness:
  "canonicalize (register ((plain_spec ''fan_failure'')\<lparr>fs_aliases := [''fan_down'']\<rparr>) create_fault_registry)
     (Some ''fan_down'') = ''fan_failure''
   \<and> canonicalize (register ((plain_spec ''fan_failure'')\<lparr>fs_aliases := [''fan_down'']\<rparr>) create_fault_registry)
     (Some '' acl_misconfiguration'') = ''acl_misconfig''"
proof -
  let ?s = "(plain_spec ''fan_failure'')\<lparr>fs_aliases := [''fan_down'']\<rparr>"
  have s: "str_strip (fs_name ?s) \<noteq> []" by code_simp
  note f = register_resolves [OF builtin_reg_ok s, unfolded Let_def]
  have c: "canonicalize create_fault_registry (Some (fs_name ?s)) = ''fan_failure''"
    "canonicalize create_fault_registry (Some '' acl_misconfiguration'') = ''acl_misconfig''"
    "str_strip ''fan_down'' = ''fan_down''" "raw_fault_name (Some '' acl_misconfiguration'') = ''acl_misconfiguration''"
    by code_simp+
  have as: "set (fs_aliases (normalized_spec create_fault_registry ?s)) \<subseteq> {''fan_failure'', ''fan_down''}"
    by (auto simp: set_normalized_aliases plain_spec_def)
  have n: "fs_name (normalized_spec create_fault_registry ?s) = ''fan_failure''"
    using f [THEN conjunct1] c(1) by simp
  have "canonicalize (register ?s create_fault_registry) (Some ''fan_down'') = ''fan_failure''"
    using f [THEN conjunct2, THEN conjunct2, THEN conjunct1] n c(3) by simp
  moreover have "raw_fault_name (Some '' acl_misconfiguration'')
      \<notin> set (fs_name (normalized_spec create_fault_registry ?s) # fs_aliases (normalized_spec create_fault_registry ?s))"
    using as unfolding c(4) n by auto
  then have "canonicalize (register ?s create_fault_registry) (Some '' acl_misconfiguration'') = ''acl_misconfig''"
    using f [THEN conjunct2, THEN conjunct2, THEN conjunct2, THEN conjunct1, rule_format] c(2) by simp
  ultimately show ?thesis by (rule conjI)
qed

text \<open>
  The builtin fault vocabulary: the registry holds exactly the twelve builtin faults, all
  usable in scenarios; only a blackhole route needs a prefix and only a downed link and an MTU
  mismatch need an interface; the cached index resolves every name exactly like a registry,
  and resolving twice is resolving once.
\<close>

theorem builtin_vocabulary:
  "map fs_name (list_all_specs create_fault_registry) =
     [''acl_misconfig'', ''bgp_neighbor_misconfig'', ''blackhole_route'', ''device_down'', ''high_latency'',
      ''link_down'', ''link_flapping'', ''mtu_mismatch'', ''packet_corruption'', ''packet_loss'',
      ''route_policy_misconfig'', ''static_route_misconfig'']
   \<and> get_supported_scenario_faults = map fs_name (list_all_specs create_fault_registry)
   \<and> map fs_name (filter fs_requires_prefix (list_all_specs create_fault_registry)) = [''blackhole_route'']
   \<and> map fs_name (filter fs_requires_interface (list_all_specs create_fault_registry)) = [''link_down'', ''mtu_mismatch'']
   \<and> canonicalize_fault_name x = canonicalize create_fault_registry x
   \<and> canonicalize_fault_name (Some (canonicalize_fault_name x)) = canonicalize_fault_name x"
proof (intro conjI)
  show "map fs_name (list_all_specs create_fault_registry) =
     [''acl_misconfig'', ''bgp_neighbor_misconfig'', ''blackhole_route'', ''device_down'', ''high_latency'',
      ''link_down'', ''link_flapping'', ''mtu_mismatch'', ''packet_corruption'', ''packet_loss'',
      ''route_policy_misconfig'', ''static_route_misconfig'']" by code_simp
  show "get_supported_scenario_faults = map fs_name (list_all_specs create_fault_registry)" by code_simp
  show "map fs_name (filter fs_requires_prefix (list_all_specs create_fault_registry)) = [''blackhole_route'']" by code_simp
  show "map fs_name (filter fs_requires_interface (list_all_specs create_fault_registry)) = [''link_down'', ''mtu_mismatch'']"
    by code_simp
  show "canonicalize_fault_name x = canonicalize create_fault_registry x" by (rule canonicalize_fault_name_registry)
  show "canonicalize_fault_name (Some (canonicalize_fault_name x)) = canonicalize_fault_name x"
    using canonicalize_idem [OF builtin_reg_ok] by (simp add: canonicalize_fault_name_registry)
qed

end
