(* ===== verification/Fault_Judge.thy ===== *)
theory Fault_Judge
  imports Fault_Types
begin

text \<open>
  \<open>netopsbench/evaluator/fault_type_judge.py\<close>: does the agent's fault type name the same
  canonical fault as the ground truth?  A semantic judge (a language model) may be asked for
  names the taxonomy does not resolve; it is a parameter of the model, as is the decoding of
  its JSON text.
\<close>

section \<open>Canonical fault types\<close>

definition legacy_fault_type_aliases :: "(string, string) dict" where
  "legacy_fault_type_aliases =
     [(''link_failure'', ''link_down''), (''linkdown'', ''link_down''), (''link failure'', ''link_down''),
      (''blackhole'', ''blackhole_route''), (''black_hole'', ''blackhole_route''),
      (''static_route_error'', ''static_route_misconfig''),
      (''static_route_misconfiguration'', ''static_route_misconfig''),
      (''route_misconfig'', ''static_route_misconfig''), (''mtu_error'', ''mtu_mismatch''),
      (''bgp_peer_misconfig'', ''bgp_neighbor_misconfig''),
      (''bgp_peer_config_error'', ''bgp_neighbor_misconfig''),
      (''bgp_session_misconfig'', ''bgp_neighbor_misconfig''),
      (''bgp_neighbor_config_error'', ''bgp_neighbor_misconfig''),
      (''route_policy_error'', ''route_policy_misconfig''),
      (''route_policy_misconfiguration'', ''route_policy_misconfig''),
      (''bgp_policy_misconfig'', ''route_policy_misconfig''),
      (''route_origination_missing'', ''route_policy_misconfig''),
      (''network_statement_missing'', ''route_policy_misconfig''),
      (''prefix_filter_misconfig'', ''route_policy_misconfig''),
      (''outbound_prefix_filter'', ''route_policy_misconfig''),
      (''acl_misconfiguration'', ''acl_misconfig'')]"

definition unknown_fault_type :: string where
  "unknown_fault_type = ''unknown''"

definition supported_fault_types :: "string list" where
  "supported_fault_types = sort (remdups get_supported_scenario_faults)"

definition canonicalize_fault_type :: "string option \<Rightarrow> string" where
  "canonicalize_fault_type fault_type =
     (let raw = raw_fault_name fault_type
      in if raw = [] then []
         else (let n0 = str_replace '' '' ''_'' (str_strip (str_lower raw));
                   normalized = dict_get_default legacy_fault_type_aliases n0 n0;
                   c = canonicalize_fault_name (Some normalized)
               in if c = [] then normalized else c))"

section \<open>Requests and answers\<close>

text \<open>\<open>_truncate_text\<close>, used with the limits 240 and 1200.\<close>

definition truncate_text :: "string \<Rightarrow> nat \<Rightarrow> string" where
  "truncate_text value limit =
     (let text = str_strip value
      in if length text \<le> limit then text else str_rstrip (take (limit - 3) text) @ ''...'')"

definition compact_evidence :: "string list \<Rightarrow> string list" where
  "compact_evidence evidence = map (\<lambda>item. truncate_text item 240) (take 6 evidence)"

record judge_request =
  jq_agent_fault_type :: string
  jq_ground_truth_fault_type :: string
  jq_canonical_agent :: string
  jq_canonical_ground_truth :: string
  jq_allowed_fault_types :: "string list"
  jq_agent_reasoning :: string
  jq_evidence :: "string list"

record judge_result =
  jr_canonical_agent :: string
  jr_canonical_ground_truth :: string
  jr_is_match :: bool
  jr_confidence :: rat
  jr_reasoning :: string
  jr_alias :: "string option"
  jr_taxonomy_violation :: bool
  jr_judge_model :: "string option"

text \<open>The validators pydantic runs when a result is constructed.\<close>

definition normalize_canonical_field :: "string \<Rightarrow> string" where
  "normalize_canonical_field value =
     (let c = canonicalize_fault_type (Some value) in if c = [] then unknown_fault_type else c)"

definition validate_taxonomy :: "judge_result \<Rightarrow> judge_result" where
  "validate_taxonomy r =
     (let allowed = set supported_fault_types \<union> {unknown_fault_type, []}
      in if jr_canonical_agent r \<notin> allowed \<or> jr_canonical_ground_truth r \<notin> allowed
         then r\<lparr>jr_taxonomy_violation := True, jr_is_match := False\<rparr> else r)"

definition make_judge_result :: "judge_result \<Rightarrow> judge_result result" where
  "make_judge_result r =
     (if \<not> (0 \<le> jr_confidence r \<and> jr_confidence r \<le> 1) then Inl (ValidationError ''confidence'')
      else Inr (validate_taxonomy
        (r\<lparr>jr_canonical_agent := normalize_canonical_field (jr_canonical_agent r),
           jr_canonical_ground_truth := normalize_canonical_field (jr_canonical_ground_truth r)\<rparr>)))"

text \<open>\<open>StructuredFaultTypeJudge.judge\<close>: the callable answers with a result, a JSON text or a mapping.\<close>

datatype raw_judgment = AsResult judge_result | AsJson string | AsMapping judge_result

type_synonym judge = "judge_request \<Rightarrow> judge_result result"

definition structured_judge ::
  "(string \<Rightarrow> judge_result result) \<Rightarrow> (judge_request \<Rightarrow> raw_judgment result) \<Rightarrow> string option \<Rightarrow> judge" where
  "structured_judge decode judge_fn model request =
     bindE (judge_fn request) (\<lambda>raw.
     bindE (case raw of
              AsResult r \<Rightarrow> Inr r
            | AsJson s \<Rightarrow> bindE (decode s) make_judge_result
            | AsMapping r \<Rightarrow> make_judge_result r) (\<lambda>r.
       Inr (case jr_judge_model r of None \<Rightarrow> r\<lparr>jr_judge_model := model\<rparr> | Some _ \<Rightarrow> r)))"

definition build_fault_type_judge_request ::
  "string option \<Rightarrow> string \<Rightarrow> string \<Rightarrow> string list \<Rightarrow> judge_request" where
  "build_fault_type_judge_request agent_fault_type ground_truth agent_reasoning evidence =
     \<lparr>jq_agent_fault_type = (case agent_fault_type of Some s \<Rightarrow> s | None \<Rightarrow> []),
      jq_ground_truth_fault_type = ground_truth,
      jq_canonical_agent = canonicalize_fault_type agent_fault_type,
      jq_canonical_ground_truth = canonicalize_fault_type (Some ground_truth),
      jq_allowed_fault_types = supported_fault_types,
      jq_agent_reasoning = truncate_text agent_reasoning 1200,
      jq_evidence = compact_evidence evidence\<rparr>"

section \<open>The decision\<close>

text \<open>The details returned with the decision; \<open>jd_judgment\<close> is the judge's answer, when it was used.\<close>

record judgment_details =
  jd_mode :: string
  jd_is_match :: bool
  jd_confidence :: rat
  jd_reasoning :: string
  jd_judgment :: "judge_result option"
  jd_ground_truth_mismatch :: bool
  jd_agent_mismatch :: bool

definition plain_details :: "string \<Rightarrow> bool \<Rightarrow> rat \<Rightarrow> string \<Rightarrow> judgment_details" where
  "plain_details mode is_match confidence reasoning =
     \<lparr>jd_mode = mode, jd_is_match = is_match, jd_confidence = confidence, jd_reasoning = reasoning,
      jd_judgment = None, jd_ground_truth_mismatch = False, jd_agent_mismatch = False\<rparr>"

text \<open>The exceptions the \<open>except\<close> clause names.\<close>

fun judge_catches :: "exc \<Rightarrow> bool" where
  "judge_catches (ValueError _) = True"
| "judge_catches (ValidationError _) = True"
| "judge_catches (TypeError _) = True"
| "judge_catches _ = False"

definition review_judgment :: "judge_request \<Rightarrow> judge_result \<Rightarrow> judgment_details" where
  "review_judgment request r =
     (let gt_mismatch = jr_canonical_ground_truth r \<noteq> jq_canonical_ground_truth request;
          m1 = (jr_is_match r \<and> \<not> jr_taxonomy_violation r \<and> \<not> gt_mismatch);
          agent_mismatch = (m1 \<and> jr_canonical_agent r \<noteq> jq_canonical_ground_truth request)
      in \<lparr>jd_mode = ''llm_judge'', jd_is_match = (m1 \<and> \<not> agent_mismatch), jd_confidence = jr_confidence r,
          jd_reasoning = jr_reasoning r, jd_judgment = Some r, jd_ground_truth_mismatch = gt_mismatch,
          jd_agent_mismatch = agent_mismatch\<rparr>)"

definition judge_fault_type_match ::
  "judge option \<Rightarrow> string option \<Rightarrow> string \<Rightarrow> string \<Rightarrow> string list \<Rightarrow> (bool \<times> judgment_details) result" where
  "judge_fault_type_match judge agent_fault_type ground_truth agent_reasoning evidence =
     (let request = build_fault_type_judge_request agent_fault_type ground_truth agent_reasoning evidence
      in if jq_canonical_agent request \<noteq> [] \<and> jq_canonical_agent request = jq_canonical_ground_truth request then
           Inr (True, plain_details ''deterministic'' True 1 ''canonical fault types match'')
         else (case judge of
             None \<Rightarrow> Inr (False, plain_details ''deterministic'' False 1 ''canonical fault types differ'')
           | Some j \<Rightarrow>
               (case j request of
                  Inl e \<Rightarrow>
                    if judge_catches e then
                      Inr (False, plain_details ''judge_error'' False 0 (''fault type judge failed: '' @ exc_type e))
                    else Inl e
                | Inr r \<Rightarrow> (let d = review_judgment request r in Inr (jd_is_match d, d)))))"

section \<open>Normal forms of fault types\<close>

definition fold_char :: "char \<Rightarrow> char" where
  "fold_char c = (if lower_char c = CHR '' '' then CHR ''_'' else lower_char c)"

lemma code_lower_char: "(of_char (lower_char c) :: nat) =
    (if 65 \<le> (of_char c :: nat) \<and> of_char c \<le> (90 :: nat) then of_char c + 32 else of_char c)"
  by (simp add: lower_char_def less_eq_char_def of_char_of)

lemma char_eq_code: "c = d \<longleftrightarrow> (of_char c :: nat) = of_char d"
  by simp

lemma is_space_code: "is_space c \<longleftrightarrow> (of_char c :: nat) \<in> {32, 9, 10, 11, 12, 13, 28, 29, 30, 31}"
  unfolding is_space_def by (simp add: char_eq_code del: of_char_eq_iff)

lemma lower_char_facts:
  "is_space (lower_char c) = is_space c" "lower_char (lower_char c) = lower_char c"
  by (auto simp: is_space_code code_lower_char char_eq_code [of "lower_char _"] simp del: of_char_eq_iff)

lemma fold_char_code: "(of_char (fold_char c) :: nat) =
    (if of_char c = (32 :: nat) then 95 else of_char (lower_char c))"
  by (simp add: fold_char_def char_eq_code [of "lower_char _"] code_lower_char del: of_char_eq_iff)

lemma fold_char_facts:
  "lower_char (fold_char c) = fold_char c" "fold_char c \<noteq> CHR '' ''"
  "\<not> is_space c \<Longrightarrow> \<not> is_space (fold_char c)"
  by (auto simp: is_space_code fold_char_code code_lower_char char_eq_code [of "lower_char _"]
      char_eq_code [of "fold_char _"] simp del: of_char_eq_iff)

definition folded :: "string \<Rightarrow> string" where
  "folded s = str_replace '' '' ''_'' (str_strip (str_lower s))"

lemma folded_map: "folded s = map fold_char (str_strip s)"
proof -
  have "str_strip (str_lower s) = str_lower (str_strip s)"
    unfolding str_lower_def by (rule str_strip_map) (rule lower_char_facts)
  moreover have "concat (map (\<lambda>x. if x = CHR '' '' then ''_'' else [x]) (map lower_char u)) = map fold_char u" for u
    by (induction u) (simp_all add: fold_char_def)
  ultimately show ?thesis by (simp add: folded_def str_replace_char str_lower_def comp_def)
qed

lemma folded_stable: "str_strip (folded s) = folded s" "folded (folded s) = folded s"
proof -
  show s: "str_strip (folded s) = folded s"
  proof (cases "str_strip s = []")
    case True
    then show ?thesis by (simp add: folded_map)
  next
    case False
    have "\<not> is_space (hd (folded s))" "\<not> is_space (last (folded s))"
      using str_strip_ends [OF False] False by (simp_all add: folded_map hd_map last_map fold_char_facts)
    then show ?thesis using False by (intro str_strip_nonspace) (simp_all add: folded_map)
  qed
  have "map fold_char (folded s) = folded s"
    by (simp add: folded_map comp_def) (simp add: fold_char_def [of "fold_char _"] fold_char_facts)
  then show "folded (folded s) = folded s" using s by (simp add: folded_map [of "folded s"])
qed

lemma folded_empty: "folded (raw_fault_name x) = [] \<longleftrightarrow> raw_fault_name x = []"
  by (simp add: folded_map)

lemma canonicalize_fault_type_folded:
  "canonicalize_fault_type x =
     (if raw_fault_name x = [] then []
      else (let n = dict_get_default legacy_fault_type_aliases (folded (raw_fault_name x)) (folded (raw_fault_name x));
                c = canonicalize_fault_name (Some n) in if c = [] then n else c))"
  by (simp add: canonicalize_fault_type_def folded_def Let_def)

lemma canonicalize_fault_type_stable:
  assumes "str_strip t = t" "folded t = t" "t \<noteq> []"
  shows "canonicalize_fault_type (Some t) =
    (case dict_get legacy_fault_type_aliases t of Some v \<Rightarrow> dict_get_default builtin_alias_index (str_strip v) (str_strip v)
     | None \<Rightarrow> dict_get_default builtin_alias_index t t)"
proof -
  have ne: "\<forall>(a, c) \<in> set builtin_alias_index. c \<noteq> []" unfolding builtin_index_eval by simp
  have v: "\<forall>(a, v) \<in> set legacy_fault_type_aliases. str_strip v \<noteq> []" by code_simp
  have i: "dict_get_default builtin_alias_index u u \<noteq> []" if "u \<noteq> []" for u
    using that ne by (auto simp: dict_get_default_def dest!: map_of_SomeD split: option.splits)
  show ?thesis
    using assms i v
    by (auto simp: canonicalize_fault_type_folded raw_fault_name_Some Let_def dict_get_default_def [of legacy_fault_type_aliases]
        canonicalize_fault_name_def dest!: map_of_SomeD split: option.splits)
qed

lemma canonical_values_fixed:
  "\<forall>c \<in> snd ` set builtin_alias_index. canonicalize_fault_type (Some c) = c"
  "\<forall>(a, v) \<in> set legacy_fault_type_aliases. dict_get builtin_alias_index (str_strip v) = Some v"
  by code_simp+

lemma canonicalize_fault_type_idem:
  "canonicalize_fault_type (Some (canonicalize_fault_type x)) = canonicalize_fault_type x"
proof (cases "raw_fault_name x = []")
  case True
  then show ?thesis by (simp add: canonicalize_fault_type_folded raw_fault_name_Some)
next
  case False
  let ?t = "folded (raw_fault_name x)"
  have t: "str_strip ?t = ?t" "folded ?t = ?t" "?t \<noteq> []" using folded_stable False folded_empty by auto
  have e: "canonicalize_fault_type x = canonicalize_fault_type (Some ?t)"
    using False t by (simp add: canonicalize_fault_type_folded raw_fault_name_Some)
  have "canonicalize_fault_type (Some ?t) \<in> insert ?t (snd ` set builtin_alias_index)"
  proof (cases "dict_get legacy_fault_type_aliases ?t")
    case None
    then show ?thesis
      unfolding canonicalize_fault_type_stable [OF t] by (auto simp: dict_get_default_def dest!: map_of_SomeD split: option.splits)
        (metis image_eqI snd_conv)
  next
    case (Some v)
    then have "dict_get builtin_alias_index (str_strip v) = Some v"
      using canonical_values_fixed(2) by (auto dest!: map_of_SomeD)
    then show ?thesis
      unfolding canonicalize_fault_type_stable [OF t] using Some by (auto simp: dict_get_default_def dest!: map_of_SomeD)
        (metis image_eqI snd_conv)
  qed
  then show ?thesis unfolding e
  proof
    assume "canonicalize_fault_type (Some ?t) = ?t"
    then show "canonicalize_fault_type (Some (canonicalize_fault_type (Some ?t))) = canonicalize_fault_type (Some ?t)" by simp
  next
    assume "canonicalize_fault_type (Some ?t) \<in> snd ` set builtin_alias_index"
    then show "canonicalize_fault_type (Some (canonicalize_fault_type (Some ?t))) = canonicalize_fault_type (Some ?t)"
      using canonical_values_fixed(1) by blast
  qed
qed

lemma truncate_text_length: "3 \<le> limit \<Longrightarrow> length (truncate_text s limit) \<le> limit"
  using str_rstrip_length [of "take (limit - 3) (str_strip s)"] by (auto simp: truncate_text_def Let_def)

section \<open>Properties\<close>

text \<open>
  Canonical fault types are normal forms: canonicalising twice changes nothing, and two
  spellings that differ in letter case, in surrounding white space or in blanks against underscores get the
  same canonical type; the request shown to a judge carries canonical types and at most six
  evidence items of at most 240 characters and 1200 characters of reasoning.
\<close>

theorem canonicalize_fault_type_normal_form:
  "canonicalize_fault_type (Some (canonicalize_fault_type x)) = canonicalize_fault_type x \<and>
   (map fold_char (raw_fault_name x) = map fold_char (raw_fault_name y) \<longrightarrow>
      canonicalize_fault_type x = canonicalize_fault_type y) \<and>
   (let q = build_fault_type_judge_request x gt reasoning evidence in
      length (jq_agent_reasoning q) \<le> 1200 \<and> length (jq_evidence q) \<le> 6 \<and>
      list_all (\<lambda>e. length e \<le> 240) (jq_evidence q) \<and>
      canonicalize_fault_type (Some (jq_canonical_agent q)) = jq_canonical_agent q \<and>
      canonicalize_fault_type (Some (jq_canonical_ground_truth q)) = jq_canonical_ground_truth q)"
proof (intro conjI impI)
  show "canonicalize_fault_type (Some (canonicalize_fault_type x)) = canonicalize_fault_type x"
    by (rule canonicalize_fault_type_idem)
  show "canonicalize_fault_type x = canonicalize_fault_type y"
    if e: "map fold_char (raw_fault_name x) = map fold_char (raw_fault_name y)"
  proof -
    have "folded (raw_fault_name x) = folded (raw_fault_name y)" using e by (simp add: folded_map)
    moreover have "raw_fault_name x = [] \<longleftrightarrow> raw_fault_name y = []" using e by auto
    ultimately show ?thesis by (simp add: canonicalize_fault_type_folded)
  qed
  show "let q = build_fault_type_judge_request x gt reasoning evidence in
      length (jq_agent_reasoning q) \<le> 1200 \<and> length (jq_evidence q) \<le> 6 \<and>
      list_all (\<lambda>e. length e \<le> 240) (jq_evidence q) \<and>
      canonicalize_fault_type (Some (jq_canonical_agent q)) = jq_canonical_agent q \<and>
      canonicalize_fault_type (Some (jq_canonical_ground_truth q)) = jq_canonical_ground_truth q"
    by (simp add: build_fault_type_judge_request_def truncate_text_length compact_evidence_def list_all_iff
        canonicalize_fault_type_idem)
qed

theorem canonicalize_fault_type_normal_form_witness:
  "canonicalize_fault_type (Some '' Link Failure'') = canonicalize_fault_type (Some ''link_FAILURE '')
   \<and> canonicalize_fault_type (Some ''link_FAILURE '') = ''link_down''"
proof -
  have "map fold_char (raw_fault_name (Some '' Link Failure'')) = map fold_char (raw_fault_name (Some ''link_FAILURE ''))"
    by code_simp
  moreover have "canonicalize_fault_type (Some ''link_FAILURE '') = ''link_down''" by code_simp
  ultimately show ?thesis
    using canonicalize_fault_type_normal_form [of "Some '' Link Failure''" "Some ''link_FAILURE ''"] by blast
qed

text \<open>
  C32. Judging a fault type: equal canonical types always match and no judge is consulted;
  without a judge nothing else matches; a judge's answer counts only when it claims a match inside the
  taxonomy and maps both sides to the canonical ground truth of the request; an answer that
  fails validation counts as no match, and only an exception the code does not name escapes.
\<close>

theorem judge_fault_type_match_sound:
  "let q = build_fault_type_judge_request agent gt reasoning evidence;
       equal = (jq_canonical_agent q \<noteq> [] \<and> jq_canonical_agent q = jq_canonical_ground_truth q) in
   (equal \<longrightarrow> judge_fault_type_match judge agent gt reasoning evidence =
      Inr (True, plain_details ''deterministic'' True 1 ''canonical fault types match'')) \<and>
   (judge_fault_type_match judge agent gt reasoning evidence = Inr (ok, d) \<longrightarrow>
      ok = jd_is_match d \<and>
      (ok \<longrightarrow> equal \<or> (\<exists>j r. judge = Some j \<and> j q = Inr r \<and> jr_is_match r \<and> \<not> jr_taxonomy_violation r \<and>
         jr_canonical_agent r = jq_canonical_ground_truth q \<and>
         jr_canonical_ground_truth r = jq_canonical_ground_truth q))) \<and>
   (judge_fault_type_match judge agent gt reasoning evidence = Inl e \<longleftrightarrow>
      \<not> equal \<and> (\<exists>j. judge = Some j \<and> j q = Inl e \<and> \<not> judge_catches e))"
  by (auto simp: judge_fault_type_match_def Let_def review_judgment_def plain_details_def
      split: if_splits option.splits sum.splits)

theorem judge_fault_type_match_sound_witness:
  "judge_fault_type_match (Some (\<lambda>q. Inl (RuntimeError ''offline''))) (Some ''Link Failure'') ''link_down'' [] [] =
     Inr (True, plain_details ''deterministic'' True 1 ''canonical fault types match'')"
proof -
  have "jq_canonical_agent (build_fault_type_judge_request (Some ''Link Failure'') ''link_down'' [] []) = ''link_down''"
    "jq_canonical_ground_truth (build_fault_type_judge_request (Some ''Link Failure'') ''link_down'' [] []) = ''link_down''"
    by code_simp+
  then show ?thesis
    using judge_fault_type_match_sound [of "Some ''Link Failure''" "''link_down''" "[]" "[]"] unfolding Let_def by simp
qed

text \<open>
  Results accepted from a judge stay inside the taxonomy: a constructed result has a confidence
  between 0 and 1, non-empty canonical types, and claims a match only between supported fault
  types or "unknown"; a structured judge hands out only such results unless its callable
  already returned a result object.
\<close>

theorem judge_results_in_taxonomy:
  "(make_judge_result raw = Inr r \<longrightarrow>
      0 \<le> jr_confidence r \<and> jr_confidence r \<le> 1 \<and> jr_canonical_agent r \<noteq> [] \<and> jr_canonical_ground_truth r \<noteq> [] \<and>
      (jr_is_match r \<longrightarrow> jr_is_match raw \<and>
         jr_canonical_agent r \<in> set supported_fault_types \<union> {unknown_fault_type} \<and>
         jr_canonical_ground_truth r \<in> set supported_fault_types \<union> {unknown_fault_type})) \<and>
   (isl (make_judge_result raw) \<longleftrightarrow> \<not> (0 \<le> jr_confidence raw \<and> jr_confidence raw \<le> 1)) \<and>
   (structured_judge decode f model q = Inr r \<longrightarrow>
      (\<exists>a. f q = Inr (AsResult a) \<and> jr_is_match r = jr_is_match a) \<or>
      (\<exists>raw r'. make_judge_result raw = Inr r' \<and> r = r'\<lparr>jr_judge_model := jr_judge_model r\<rparr>))"
proof (intro conjI impI)
  have ne: "normalize_canonical_field v \<noteq> []" for v
    by (simp add: normalize_canonical_field_def Let_def unknown_fault_type_def)
  show "0 \<le> jr_confidence r" "jr_confidence r \<le> 1" "jr_canonical_agent r \<noteq> []" "jr_canonical_ground_truth r \<noteq> []"
    "jr_is_match r \<Longrightarrow> jr_is_match raw"
    "jr_is_match r \<Longrightarrow> jr_canonical_agent r \<in> set supported_fault_types \<union> {unknown_fault_type}"
    "jr_is_match r \<Longrightarrow> jr_canonical_ground_truth r \<in> set supported_fault_types \<union> {unknown_fault_type}"
    if "make_judge_result raw = Inr r"
    using that ne by (auto simp: make_judge_result_def validate_taxonomy_def Let_def split: if_splits)
  show "isl (make_judge_result raw) \<longleftrightarrow> \<not> (0 \<le> jr_confidence raw \<and> jr_confidence raw \<le> 1)"
    by (simp add: make_judge_result_def)
  show "(\<exists>a. f q = Inr (AsResult a) \<and> jr_is_match r = jr_is_match a) \<or>
      (\<exists>raw r'. make_judge_result raw = Inr r' \<and> r = r'\<lparr>jr_judge_model := jr_judge_model r\<rparr>)"
    if h: "structured_judge decode f model q = Inr r"
  proof -
    obtain raw a where f: "f q = Inr raw" and a: "(case raw of AsResult r \<Rightarrow> Inr r
        | AsJson s \<Rightarrow> bindE (decode s) make_judge_result | AsMapping r \<Rightarrow> make_judge_result r) = Inr a"
      and r: "r = (case jr_judge_model a of None \<Rightarrow> a\<lparr>jr_judge_model := model\<rparr> | Some _ \<Rightarrow> a)"
      using h by (auto simp: structured_judge_def bindE_Inr_conv)
    have e: "r = a\<lparr>jr_judge_model := jr_judge_model r\<rparr>" "jr_is_match r = jr_is_match a"
      using r by (auto split: option.splits)
    show ?thesis
    proof (cases raw)
      case (AsResult b)
      then show ?thesis using f a e by auto
    next
      case (AsJson s)
      then show ?thesis using a e by (auto simp: bindE_Inr_conv)
    next
      case (AsMapping b)
      then show ?thesis using a e by auto
    qed
  qed
qed

theorem judge_results_in_taxonomy_witness:
  "let raw = \<lparr>jr_canonical_agent = ''loop'', jr_canonical_ground_truth = ''link_down'', jr_is_match = True,
      jr_confidence = 1, jr_reasoning = [], jr_alias = None, jr_taxonomy_violation = False, jr_judge_model = None\<rparr>
   in \<exists>r. make_judge_result raw = Inr r \<and> jr_confidence r \<le> 1 \<and> \<not> jr_is_match r"
proof -
  let ?raw = "\<lparr>jr_canonical_agent = ''loop'', jr_canonical_ground_truth = ''link_down'', jr_is_match = True,
      jr_confidence = 1, jr_reasoning = [], jr_alias = None, jr_taxonomy_violation = False, jr_judge_model = None\<rparr>"
  have "\<not> isl (make_judge_result ?raw)" using judge_results_in_taxonomy [of ?raw] by simp
  then obtain r where r: "make_judge_result ?raw = Inr r" by (cases "make_judge_result ?raw") auto
  have "normalize_canonical_field ''loop'' = ''loop''" by code_simp
  then have "jr_canonical_agent r = ''loop''"
    using r by (auto simp: make_judge_result_def validate_taxonomy_def Let_def split: if_splits)
  moreover have "''loop'' \<notin> set supported_fault_types \<union> {unknown_fault_type}" by code_simp
  ultimately have "\<not> jr_is_match r" using judge_results_in_taxonomy [of ?raw r, THEN conjunct1] r by metis
  moreover have "jr_confidence r \<le> 1" using judge_results_in_taxonomy [of ?raw r, THEN conjunct1] r by blast
  ultimately show ?thesis using r unfolding Let_def by blast
qed

end
