(* ===== verification/Scenario_Validation.thy ===== *)
theory Scenario_Validation
  imports Fault_Types Topology_Model Scale_Profiles Interface_Names
begin

text \<open>
  \<open>netopsbench/platform/scenario/validator.py\<close>: the checks a scenario passes before it runs, against
  the fault vocabulary and against the deployed topology, with the reader of ConfigDB
  interface names in \<open>topology/configdb_payload.py\<close>.  The ConfigDB files are a parameter: \<open>None\<close> for
  a missing file, the parsed payload otherwise (an unreadable file loads as an empty object).
\<close>

section \<open>Schema checks\<close>

definition supported_scenario_faults :: "fault_registry \<Rightarrow> string list" where
  "supported_scenario_faults registry = ''none'' # sort (remdups (registry_scenario_faults registry))"

definition py_str_list :: "string list \<Rightarrow> string" where
  "py_str_list xs = ''['' @ str_join '', '' (map py_repr xs) @ '']''"

definition validate_scenario :: "scenario \<Rightarrow> fault_registry \<Rightarrow> scale_registry \<Rightarrow> string list" where
  "validate_scenario sc registry scales =
     (let e = sc_episode sc;
          canonical = canonicalize registry (Some (ep_fault_type e));
          supported = supported_scenario_faults registry
      in (if sc_id sc = [] then [''Missing scenario_id''] else [])
         @ (if sc_name sc = [] then [''Missing scenario name''] else [])
         @ (if sc_topology_scale sc \<notin> set (registry_names scales)
            then [''Invalid topology_scale: '' @ sc_topology_scale sc] else [])
         @ (if sc_traffic_profile sc \<noteq> ''standard''
            then [''Invalid traffic_profile: '' @ sc_traffic_profile sc @ ''; only '' @ py_repr ''standard''
                  @ '' is supported''] else [])
         @ (if canonical \<noteq> ''none'' \<and> dict_get_default (sc_metadata sc) ''difficulty'' JNull
                  \<notin> {JStr ''easy'', JStr ''medium'', JStr ''hard''}
            then [''Scenario metadata requires difficulty in [easy, medium, hard] for benchmark scoring''] else [])
         @ (if canonical = [] then [''Episode: Missing fault_type''] else [])
         @ (if canonical \<notin> set supported
            then [''Episode: Unsupported fault_type '' @ py_repr canonical @ ''. Supported values: ''
                  @ py_str_list supported] else [])
         @ (if canonical \<noteq> ''none'' \<and> \<not> given (ep_target_device e) then [''Episode: Missing target_device''] else [])
         @ (case snd (get_spec registry canonical) of
              Some spec \<Rightarrow> validate_episode spec (e\<lparr>ep_fault_type := canonical\<rparr>) (Some 0)
            | None \<Rightarrow> []))"

section \<open>Interfaces in a ConfigDB payload\<close>

text \<open>\<open>{str(name).split("|", 1)[0] for name in payload["INTERFACE"]}\<close>; the callers only use the set.\<close>

definition interface_names_from_payload :: "json \<Rightarrow> string set" where
  "interface_names_from_payload payload =
     (case payload of
        JObj kvs \<Rightarrow> (case map_of kvs ''INTERFACE'' of
            Some (JObj entries) \<Rightarrow> (\<lambda>(name, v). hd (str_split (CHR ''|'') name)) ` set entries
          | _ \<Rightarrow> {})
      | _ \<Rightarrow> {})"

definition episode_tag :: "scenario \<Rightarrow> string" where
  "episode_tag sc = ''[scenario='' @ sc_id sc @ '' episode='' @ ep_id (sc_episode sc) @ ''] ''"

definition config_path :: "string \<Rightarrow> string \<Rightarrow> string" where
  "config_path topology_dir device = topology_dir @ ''/configs/sonic/'' @ device @ ''/config_db.json''"

definition allowed_aliases :: "json \<Rightarrow> string set" where
  "allowed_aliases payload = (\<Union>iface \<in> interface_names_from_payload payload. interface_aliases (Some iface))"

definition validate_target_interface ::
  "(string \<Rightarrow> json option) \<Rightarrow> string \<Rightarrow> scenario \<Rightarrow> string \<Rightarrow> string \<Rightarrow> bool \<Rightarrow> string list" where
  "validate_target_interface configdb topology_dir sc device iface is_network_device =
     (if iface = [] then []
      else if \<not> is_network_device then []
      else (let path = config_path topology_dir device in
        case configdb path of
          None \<Rightarrow> [episode_tag sc @ ''Required ConfigDB artifact is missing: '' @ path]
        | Some payload \<Rightarrow>
            if interface_names_from_payload payload = {} then
              [episode_tag sc @ ''ConfigDB artifact has no interfaces for device '' @ py_repr device @ '': '' @ path]
            else if iface \<in> allowed_aliases payload then []
            else [episode_tag sc @ ''target_interface '' @ py_repr iface @ '' not found on device '' @ py_repr device
                  @ '' in topology config. Examples: ''
                  @ py_str_list (take 6 (sorted_list_of_set (allowed_aliases payload)))]))"

section \<open>Topology checks\<close>

record topology_check =
  tk_status :: string
  tk_declared_scale :: string
  tk_actual_scale :: string
  tk_errors :: "string list"
  tk_topology_devices :: "string list"

definition topology_errors :: "(string \<Rightarrow> json option) \<Rightarrow> scenario \<Rightarrow> manifest \<Rightarrow> string \<Rightarrow> string list" where
  "topology_errors configdb sc m topology_dir =
     (let e = sc_episode sc; names = map dev_name (mf_devices m);
          required = complete_window_seconds (mf_pingmesh m) (tf_total_clients (mf_facts m))
      in (if mf_scale m = ''unknown'' then
            [''[scenario='' @ sc_id sc @ ''] Could not infer actual topology scale from '' @ topology_dir @ ''/topology.json'']
          else if sc_topology_scale sc \<noteq> mf_scale m then
            [''[scenario='' @ sc_id sc @ ''] topology_scale mismatch: declared='' @ py_repr (sc_topology_scale sc)
             @ '' actual='' @ py_repr (mf_scale m) @ ''. Use matching scenario files or redeploy the topology.'']
          else [])
         @ (if ep_duration_seconds e < required then
              [episode_tag sc @ ''duration_seconds='' @ int_str (ep_duration_seconds e)
               @ '' is shorter than the topology-derived Pingmesh complete window ('' @ int_str required @ ''s)'']
            else [])
         @ (if ep_fault_type e \<noteq> ''none'' \<and>
                 (case ep_target_device e of Some d \<Rightarrow> d \<notin> set names | None \<Rightarrow> True) then
              [episode_tag sc @ ''target_device '' @ py_repr (case ep_target_device e of Some d \<Rightarrow> d | None \<Rightarrow> ''None'')
               @ '' not found in topology devices '' @ py_str_list (sort (remdups names))]
            else [])
         @ (case (ep_target_interface e, ep_target_device e) of
              (Some iface, Some d) \<Rightarrow>
                if iface = [] \<or> d = [] then []
                else validate_target_interface configdb topology_dir sc d iface
                       (case device_named m d of Some t \<Rightarrow> dev_role t \<noteq> CLIENT | None \<Rightarrow> False)
            | _ \<Rightarrow> []))"

definition validate_scenario_topology ::
  "(string \<Rightarrow> json option) \<Rightarrow> scenario \<Rightarrow> manifest \<Rightarrow> string \<Rightarrow> topology_check" where
  "validate_scenario_topology configdb sc m topology_dir =
     (let errors = topology_errors configdb sc m topology_dir
      in \<lparr>tk_status = (if errors \<noteq> [] then ''fail'' else ''pass''), tk_declared_scale = sc_topology_scale sc,
          tk_actual_scale = mf_scale m, tk_errors = errors,
          tk_topology_devices = sort (remdups (map dev_name (mf_devices m)))\<rparr>)"

definition require_scenario_topology ::
  "(string \<Rightarrow> json option) \<Rightarrow> scenario \<Rightarrow> manifest \<Rightarrow> string \<Rightarrow> unit result" where
  "require_scenario_topology configdb sc m topology_dir =
     (let r = validate_scenario_topology configdb sc m topology_dir
      in if tk_status r \<noteq> ''pass'' then
           Inl (ValueError (''Scenario is incompatible with the runtime topology: '' @ str_join ''; '' (tk_errors r)))
         else Inr ())"

section \<open>What the checks decide\<close>

lemma target_interface_ok_iff:
  "validate_target_interface configdb dir sc d iface net = [] \<longleftrightarrow>
     (iface \<noteq> [] \<and> net \<longrightarrow> (\<exists>payload. configdb (config_path dir d) = Some payload \<and> iface \<in> allowed_aliases payload))"
  by (auto simp: validate_target_interface_def Let_def allowed_aliases_def episode_tag_def split: option.splits)

lemma validate_episode_ok_iff:
  "validate_episode spec e i = [] \<longleftrightarrow>
     (fs_requires_interface spec \<longrightarrow> given (ep_target_interface e)) \<and>
     (fs_requires_prefix spec \<longrightarrow> given (ep_target_prefix e)) \<and>
     (\<forall>key \<in> set (fs_required_parameters spec). \<not> blank_value (episode_value e key)) \<and>
     (\<forall>f. fs_episode_validator spec = Some f \<longrightarrow> f e = [])"
  by (auto simp: validate_episode_def Let_def filter_empty_conv split: option.splits)

section \<open>Properties\<close>

text \<open>
  A scenario passes the schema check exactly when it names itself, a known scale and the
  standard traffic profile, and its fault type resolves to "none" or a supported fault; a
  faulty scenario then also states its difficulty and target device and meets every requirement of its
  fault's specification.
\<close>

theorem validate_scenario_iff:
  "validate_scenario sc registry scales = [] \<longleftrightarrow>
     (let e = sc_episode sc; fault = canonicalize registry (Some (ep_fault_type e)) in
      sc_id sc \<noteq> [] \<and> sc_name sc \<noteq> [] \<and> sc_topology_scale sc \<in> set (registry_names scales) \<and>
      sc_traffic_profile sc = ''standard'' \<and> fault \<noteq> [] \<and>
      fault \<in> insert ''none'' (set (registry_scenario_faults registry)) \<and>
      (fault \<noteq> ''none'' \<longrightarrow> given (ep_target_device e) \<and>
         dict_get_default (sc_metadata sc) ''difficulty'' JNull \<in> {JStr ''easy'', JStr ''medium'', JStr ''hard''}) \<and>
      (\<forall>spec. snd (get_spec registry fault) = Some spec \<longrightarrow>
         (fs_requires_interface spec \<longrightarrow> given (ep_target_interface e)) \<and>
         (fs_requires_prefix spec \<longrightarrow> given (ep_target_prefix e)) \<and>
         (\<forall>key \<in> set (fs_required_parameters spec). \<not> blank_value (episode_value e key)) \<and>
         (\<forall>f. fs_episode_validator spec = Some f \<longrightarrow> f (e\<lparr>ep_fault_type := fault\<rparr>) = [])))"
proof -
  have u: "given (ep_target_interface (e\<lparr>ep_fault_type := x\<rparr>)) = given (ep_target_interface e)"
    "given (ep_target_prefix (e\<lparr>ep_fault_type := x\<rparr>)) = given (ep_target_prefix e)"
    "episode_value (e\<lparr>ep_fault_type := x\<rparr>) k = episode_value e k" for e x k
    by (simp_all add: episode_value_def split: option.split)
  have s: "set (supported_scenario_faults registry) = insert ''none'' (set (registry_scenario_faults registry))"
    by (simp add: supported_scenario_faults_def)
  have one: "(if P then [x] else []) = [] \<longleftrightarrow> \<not> P" for P and x :: string by simp
  have ep: "(case snd (get_spec registry fault) of Some spec \<Rightarrow> validate_episode spec (e\<lparr>ep_fault_type := fault\<rparr>) (Some 0)
       | None \<Rightarrow> []) = [] \<longleftrightarrow>
      (\<forall>spec. snd (get_spec registry fault) = Some spec \<longrightarrow>
         (fs_requires_interface spec \<longrightarrow> given (ep_target_interface e)) \<and>
         (fs_requires_prefix spec \<longrightarrow> given (ep_target_prefix e)) \<and>
         (\<forall>key \<in> set (fs_required_parameters spec). \<not> blank_value (episode_value e key)) \<and>
         (\<forall>f. fs_episode_validator spec = Some f \<longrightarrow> f (e\<lparr>ep_fault_type := fault\<rparr>) = []))" for fault e
    by (simp add: validate_episode_ok_iff u split: option.split)
  show ?thesis
    unfolding validate_scenario_def Let_def append_is_Nil_conv one ep s by blast
qed

definition example_episode :: episode where
  "example_episode =
     \<lparr>ep_id = ''ep1'', ep_fault_type = ''link_down'', ep_target_device = Some ''leaf1'',
      ep_target_interface = Some ''eth1'', ep_target_prefix = None, ep_mtu = None, ep_duration_seconds = 60,
      ep_stabilization_time = 10, ep_metadata = [], ep_parameters = []\<rparr>"

definition example_scenario :: scenario where
  "example_scenario =
     \<lparr>sc_id = ''s1'', sc_name = ''link down'', sc_topology_scale = ''xs'', sc_traffic_profile = ''standard'',
      sc_episode = example_episode, sc_metadata = [(''difficulty'', JStr ''easy'')]\<rparr>"

theorem validate_scenario_iff_witness:
  "validate_scenario example_scenario create_fault_registry builtin_profiles = []
   \<and> validate_scenario (example_scenario\<lparr>sc_episode := example_episode\<lparr>ep_target_interface := None\<rparr>\<rparr>)
       create_fault_registry builtin_profiles \<noteq> []"
proof -
  have c: "canonicalize create_fault_registry (Some ''link_down'') = ''link_down''"
    "''link_down'' \<in> set (registry_scenario_faults create_fault_registry)"
    "''xs'' \<in> set (registry_names builtin_profiles)" by code_simp+
  obtain spec where spec: "snd (get_spec create_fault_registry ''link_down'') = Some spec"
      "fs_requires_interface spec" "\<not> fs_requires_prefix spec" "fs_required_parameters spec = []"
      "fs_episode_validator spec = None"
  proof -
    have "map_option (\<lambda>s. (fs_requires_interface s, fs_requires_prefix s, fs_required_parameters s,
        Option.is_none (fs_episode_validator s))) (snd (get_spec create_fault_registry ''link_down'')) =
        Some (True, False, [], True)" by code_simp
    then show ?thesis using that by (auto simp: Option.is_none_def)
  qed
  show ?thesis
    unfolding validate_scenario_iff
    using c spec by (simp add: example_scenario_def example_episode_def given_def dict_get_default_def Let_def)
qed

text \<open>
  C35. A scenario may run on a deployed topology exactly when the scales agree and are known,
  the episode lasts at least the complete Pingmesh window of the topology, a fault targets a
  planned device, and a target interface on a switch is an alias of an interface in that switch's
  ConfigDB file; so an accepted episode is long enough for one full probe coverage epoch.
\<close>

theorem require_scenario_topology_iff:
  "(require_scenario_topology configdb sc m dir = Inr () \<longleftrightarrow>
     (let e = sc_episode sc in
      mf_scale m \<noteq> ''unknown'' \<and> sc_topology_scale sc = mf_scale m \<and>
      complete_window_seconds (mf_pingmesh m) (tf_total_clients (mf_facts m)) \<le> ep_duration_seconds e \<and>
      (\<not> is_healthy e \<longrightarrow> (\<exists>d. ep_target_device e = Some d \<and> d \<in> dev_name ` set (mf_devices m))) \<and>
      (\<forall>d iface t. ep_target_device e = Some d \<and> ep_target_interface e = Some iface \<and> d \<noteq> [] \<and> iface \<noteq> [] \<and>
         device_named m d = Some t \<and> dev_role t \<noteq> CLIENT \<longrightarrow>
         (\<exists>payload. configdb (config_path dir d) = Some payload \<and> iface \<in> allowed_aliases payload)))) \<and>
   (require_scenario_topology configdb sc m dir = Inr () \<longrightarrow>
      coverage_epoch_seconds (mf_pingmesh m) (tf_total_clients (mf_facts m)) + 5 \<le> ep_duration_seconds (sc_episode sc))"
proof -
  let ?e = "sc_episode sc"
  have r: "require_scenario_topology configdb sc m dir = Inr () \<longleftrightarrow> topology_errors configdb sc m dir = []"
    by (simp add: require_scenario_topology_def validate_scenario_topology_def Let_def)
  have i: "(case (ep_target_interface ?e, ep_target_device ?e) of
              (Some iface, Some d) \<Rightarrow>
                if iface = [] \<or> d = [] then []
                else validate_target_interface configdb dir sc d iface
                       (case device_named m d of Some t \<Rightarrow> dev_role t \<noteq> CLIENT | None \<Rightarrow> False)
            | _ \<Rightarrow> []) = [] \<longleftrightarrow>
      (\<forall>d iface t. ep_target_device ?e = Some d \<and> ep_target_interface ?e = Some iface \<and> d \<noteq> [] \<and> iface \<noteq> [] \<and>
         device_named m d = Some t \<and> dev_role t \<noteq> CLIENT \<longrightarrow>
         (\<exists>payload. configdb (config_path dir d) = Some payload \<and> iface \<in> allowed_aliases payload))"
    by (auto simp: target_interface_ok_iff split: option.splits)
  have d: "(ep_fault_type ?e \<noteq> ''none'' \<and> (case ep_target_device ?e of Some d \<Rightarrow> d \<notin> set (map dev_name (mf_devices m)) | None \<Rightarrow> True))
      \<longleftrightarrow> \<not> (\<not> is_healthy ?e \<longrightarrow> (\<exists>d. ep_target_device ?e = Some d \<and> d \<in> dev_name ` set (mf_devices m)))"
    by (auto simp: is_healthy_def split: option.splits)
  have iff: "topology_errors configdb sc m dir = [] \<longleftrightarrow>
      (mf_scale m \<noteq> ''unknown'' \<and> sc_topology_scale sc = mf_scale m \<and>
      complete_window_seconds (mf_pingmesh m) (tf_total_clients (mf_facts m)) \<le> ep_duration_seconds ?e \<and>
      (\<not> is_healthy ?e \<longrightarrow> (\<exists>d. ep_target_device ?e = Some d \<and> d \<in> dev_name ` set (mf_devices m))) \<and>
      (\<forall>d iface t. ep_target_device ?e = Some d \<and> ep_target_interface ?e = Some iface \<and> d \<noteq> [] \<and> iface \<noteq> [] \<and>
         device_named m d = Some t \<and> dev_role t \<noteq> CLIENT \<longrightarrow>
         (\<exists>payload. configdb (config_path dir d) = Some payload \<and> iface \<in> allowed_aliases payload)))"
    unfolding topology_errors_def Let_def append_is_Nil_conv i d by (simp add: episode_tag_def not_less)
  show ?thesis
    unfolding r iff Let_def
    by (auto simp: complete_window_seconds_def coverage_grace_seconds_def)
qed

definition example_manifest :: manifest where
  "example_manifest =
     \<lparr>mf_topology_id = ''t'', mf_name = ''t'', mf_scale = ''xs'', mf_family = ''clos'',
      mf_management = \<lparr>mgmt_network = ''n'', mgmt_ipv4_subnet = ''172.20.20.0/24''\<rparr>, mf_collector = ''172.20.20.200'',
      mf_link_mtu = 9232, mf_sonic_port_mtu = 9100,
      mf_facts = \<lparr>tf_num_spines = 0, tf_num_leafs = 1, tf_num_cores = 0, tf_num_aggs = 0, tf_num_edges = 0,
        tf_num_pods = 0, tf_clients_per_attached_switch = 2, tf_total_clients = 2, tf_total_switches = 1,
        tf_fat_tree_k = None, tf_full_density = None, tf_host_density = None\<rparr>,
      mf_devices = [\<lparr>dev_name = ''leaf1'', dev_role = LEAF, dev_mgmt_ip = None, dev_data_ip = None,
        dev_attached_switch = None, dev_asn = None, dev_router_id = None, dev_metadata = []\<rparr>],
      mf_links = [],
      mf_routing = \<lparr>rt_spine_asn = None, rt_leaf_asn_range = None, rt_core_asn_range = None, rt_agg_asn_range = None,
        rt_edge_asn_range = None, rt_ecmp_policy = [(LEAF, 1)], rt_ecmp = True, rt_bfd = True\<rparr>,
      mf_pingmesh = \<lparr>pol_destination_batch_size = None, pol_rtt_port_pool_size = 4, pol_rtt_ports_per_cycle = 4,
        pol_cycle_interval_seconds = 10, pol_df_payload_size = 9072\<rparr>\<rparr>"

theorem require_scenario_topology_iff_witness:
  "require_scenario_topology (\<lambda>_. Some (JObj [(''INTERFACE'', JObj [(''Ethernet0|10.1.1.2/30'', JNull)])]))
     example_scenario example_manifest [] = Inr ()
   \<and> require_scenario_topology (\<lambda>_. None) example_scenario example_manifest [] \<noteq> Inr ()"
proof -
  let ?p = "JObj [(''INTERFACE'', JObj [(''Ethernet0|10.1.1.2/30'', JNull)])]"
  have n: "nat_str (Suc 0) = ''1''" "nat_str 0 = ''0''" by code_simp+
  have "interface_names_from_payload ?p = {''Ethernet0''}" by (simp add: interface_names_from_payload_def)
  moreover have "interface_aliases (Some ''Ethernet0'') = port_labels 1"
    using aliases_of_port_label [of 1 "sonic_name 0"] by (simp add: port_labels_def sonic_name_def n)
  ultimately have a: "''eth1'' \<in> allowed_aliases ?p" by (simp add: allowed_aliases_def port_labels_def eth_name_def n)
  have w: "complete_window_seconds (mf_pingmesh example_manifest) 2 \<le> 60" by code_simp
  have f: "mf_scale example_manifest = ''xs''" "tf_total_clients (mf_facts example_manifest) = 2"
    "device_named example_manifest ''leaf1'' = Some (hd (mf_devices example_manifest))"
    "dev_role (hd (mf_devices example_manifest)) = LEAF" "dev_name ` set (mf_devices example_manifest) = {''leaf1''}"
    by (simp_all add: example_manifest_def device_named_def)
  show ?thesis
    using require_scenario_topology_iff [of "\<lambda>_. Some ?p" example_scenario example_manifest "[]", THEN conjunct1]
      require_scenario_topology_iff [of "\<lambda>_. None" example_scenario example_manifest "[]", THEN conjunct1] a w f
    by (simp add: Let_def example_scenario_def example_episode_def is_healthy_def)
qed

end
