(* ===== verification/Scorer.thy ===== *)
theory Scorer
  imports Fault_Judge Interface_Names
begin

text \<open>
  \<open>netopsbench/evaluator/scorer.py\<close>: the score of one diagnosis against the ground truth and the
  benchmark report over many.  Floating-point values are rationals, rounded with Python's
  half-to-even rule where the code calls \<open>round\<close>.
\<close>

section \<open>Diagnoses and results\<close>

record location =
  loc_device :: "string option"
  loc_interface :: "string option"

record agent_output =
  ao_verdict :: string
  ao_fault_type :: "string option"
  ao_location :: "location option"
  ao_evidence :: "string list"
  ao_confidence :: rat
  ao_reasoning :: string
  ao_tool_calls :: "json list"
  ao_time_taken_seconds :: rat
  ao_input_tokens :: int
  ao_output_tokens :: int

text \<open>A non-empty ground truth; a healthy sample has \<open>None\<close> (the empty dictionary).\<close>

record ground_truth =
  gt_fault_type :: string
  gt_location :: location
  gt_equivalent_locations :: "location list"

record evaluation_result =
  ev_testcase_id :: string
  ev_correct_verdict :: bool
  ev_correct_device :: bool
  ev_correct_interface :: bool
  ev_correct_fault_type :: bool
  ev_score :: rat
  ev_agent_output :: agent_output
  ev_negative_sample :: bool
  ev_false_positive :: bool
  ev_ground_truth :: "ground_truth option"
  ev_matched_location :: "location option"
  ev_location_match_mode :: string
  ev_fault_type_judgment :: "judgment_details option"
  ev_difficulty :: "string option"

definition device_localization_weight :: rat where
  "device_localization_weight = 1 / 2"

definition interface_localization_weight :: rat where
  "interface_localization_weight = 1 / 2"

section \<open>Matching a location\<close>

definition normalize_name :: "string \<Rightarrow> string" where
  "normalize_name name =
     (if name = [] then [] else str_replace ''_'' [] (str_replace ''-'' [] (str_strip (str_lower name))))"

definition or_empty :: "string option \<Rightarrow> string" where
  "or_empty x = (case x of Some s \<Rightarrow> s | None \<Rightarrow> [])"

definition device_match :: "string \<Rightarrow> location \<Rightarrow> bool" where
  "device_match agent_device l \<longleftrightarrow> normalize_name agent_device = normalize_name (or_empty (loc_device l))"

definition interface_match :: "bool \<Rightarrow> string option \<Rightarrow> location \<Rightarrow> bool" where
  "interface_match applicable agent_interface l \<longleftrightarrow>
     (applicable \<longrightarrow> normalize_interface_name agent_interface = normalize_interface_name (loc_interface l))"

type_synonym rank = "int \<times> int \<times> int"

definition is_better_location_rank :: "rank \<Rightarrow> rank \<Rightarrow> bool" where
  "is_better_location_rank r b =
     (case r of (r1, r2, r3) \<Rightarrow> case b of (b1, b2, b3) \<Rightarrow>
        if r1 > b1 then True else if r1 < b1 then False
        else if r2 > b2 then True else if r2 < b2 then False
        else if r3 > b3 then True else False)"

record best_match =
  bm_rank :: rank
  bm_device :: bool
  bm_interface :: bool
  bm_location :: "location option"
  bm_mode :: string

definition no_match :: "bool \<Rightarrow> best_match" where
  "no_match applicable =
     \<lparr>bm_rank = (-1, -1, -1), bm_device = False, bm_interface = (\<not> applicable), bm_location = None,
      bm_mode = ''no_match''\<rparr>"

definition match_step :: "string \<Rightarrow> string option \<Rightarrow> bool \<Rightarrow> nat \<times> location \<Rightarrow> best_match \<Rightarrow> best_match" where
  "match_step agent_device agent_interface applicable il best =
     (case il of (index, l) \<Rightarrow>
        let dm = device_match agent_device l; im = interface_match applicable agent_interface l;
            rank = (of_bool dm, of_bool im, of_bool (index = 0))
        in if \<not> is_better_location_rank rank (bm_rank best) then best
           else \<lparr>bm_rank = rank, bm_device = dm, bm_interface = im, bm_location = Some l,
                 bm_mode = (if dm \<and> im then (if index = 0 then ''exact'' else ''equivalent'') else ''partial'')\<rparr>)"

definition match_location :: "string \<Rightarrow> string option \<Rightarrow> location list \<Rightarrow> bool \<Rightarrow> best_match" where
  "match_location agent_device agent_interface candidates applicable =
     fold (match_step agent_device agent_interface applicable) (enumerate 0 candidates) (no_match applicable)"

section \<open>Scoring one diagnosis\<close>

definition evaluate ::
  "judge option \<Rightarrow> agent_output \<Rightarrow> ground_truth option \<Rightarrow> string \<Rightarrow> evaluation_result result" where
  "evaluate judge out ground_truth testcase_id =
     (case ground_truth of
        None \<Rightarrow>
          (let correct_verdict = (ao_verdict out = ''network_healthy'')
           in Inr \<lparr>ev_testcase_id = testcase_id, ev_correct_verdict = correct_verdict, ev_correct_device = True,
                ev_correct_interface = True, ev_correct_fault_type = True,
                ev_score = (if correct_verdict then 1 else 0), ev_agent_output = out, ev_negative_sample = True,
                ev_false_positive = (\<not> correct_verdict), ev_ground_truth = None, ev_matched_location = None,
                ev_location_match_mode = [], ev_fault_type_judgment = None, ev_difficulty = None\<rparr>)
      | Some gt \<Rightarrow>
          (let correct_verdict = (ao_verdict out = ''fault_detected'');
               agent_device = (case ao_location out of Some l \<Rightarrow> or_empty (loc_device l) | None \<Rightarrow> []);
               agent_interface = (case ao_location out of Some l \<Rightarrow> loc_interface l | None \<Rightarrow> None);
               applicable = given (loc_interface (gt_location gt));
               best = match_location agent_device agent_interface
                        (gt_location gt # gt_equivalent_locations gt) applicable
           in bindE (judge_fault_type_match judge (Some (or_empty (ao_fault_type out))) (gt_fault_type gt)
                (ao_reasoning out) (ao_evidence out)) (\<lambda>(correct_fault_type, judgment).
              let score = (if \<not> correct_verdict then 0
                           else if applicable then
                             (if bm_device best then device_localization_weight else 0)
                             + (if bm_interface best then interface_localization_weight else 0)
                           else (if bm_device best then 1 else 0))
              in Inr \<lparr>ev_testcase_id = testcase_id, ev_correct_verdict = correct_verdict,
                   ev_correct_device = bm_device best, ev_correct_interface = bm_interface best,
                   ev_correct_fault_type = correct_fault_type, ev_score = py_round 3 score, ev_agent_output = out,
                   ev_negative_sample = False, ev_false_positive = False, ev_ground_truth = Some gt,
                   ev_matched_location = bm_location best, ev_location_match_mode = bm_mode best,
                   ev_fault_type_judgment = Some judgment, ev_difficulty = None\<rparr>)))"

definition interface_case :: "evaluation_result \<Rightarrow> bool" where
  "interface_case r \<longleftrightarrow> (case ev_ground_truth r of Some gt \<Rightarrow> given (loc_interface (gt_location gt)) | None \<Rightarrow> False)"

definition is_fully_correct_case :: "evaluation_result \<Rightarrow> bool" where
  "is_fully_correct_case r =
     (if ev_negative_sample r then ev_correct_verdict r
      else ev_correct_verdict r \<and> ev_correct_device r \<and> ev_correct_fault_type r
           \<and> (interface_case r \<longrightarrow> ev_correct_interface r))"

section \<open>The report\<close>

record difficulty_stats =
  ds_total :: int
  ds_score_sum :: rat
  ds_avg_score :: rat

record fault_type_stats =
  fts_total :: int
  fts_correct :: int
  fts_score_sum :: rat
  fts_accuracy :: rat
  fts_avg_score :: rat

record report =
  rp_total_cases :: int
  rp_correct_verdict :: int
  rp_correct_device :: int
  rp_correct_interface :: int
  rp_correct_fault_type :: int
  rp_overall_accuracy :: rat
  rp_detection_accuracy :: rat
  rp_detection_precision :: rat
  rp_detection_recall :: rat
  rp_detection_f1 :: rat
  rp_detection_macro_f1 :: "rat option"
  rp_localization_success_rate :: rat
  rp_interface_localization_rate :: rat
  rp_interface_applicable_cases :: int
  rp_localization_composite_score :: rat
  rp_fault_type_accuracy :: rat
  rp_average_score :: rat
  rp_avg_tool_calls :: rat
  rp_avg_time_seconds :: rat
  rp_total_input_tokens :: int
  rp_avg_input_tokens :: rat
  rp_total_output_tokens :: int
  rp_avg_output_tokens :: rat
  rp_false_positive_rate :: "rat option"
  rp_false_negative_rate :: "rat option"
  rp_negative_sample_cases :: int
  rp_positive_sample_cases :: int
  rp_by_difficulty :: "(string, difficulty_stats) dict"
  rp_by_fault_type :: "(string, fault_type_stats) dict"
  rp_detailed_results :: "evaluation_result list"

definition count :: "('a \<Rightarrow> bool) \<Rightarrow> 'a list \<Rightarrow> int" where
  "count P xs = int (count_where P xs)"

text \<open>\<open>a / b if b else 0.0\<close>.\<close>

definition ratio :: "int \<Rightarrow> int \<Rightarrow> rat" where
  "ratio a b = (if b = 0 then 0 else of_int a / of_int b)"

text \<open>\<open>2pr / (p + r)\<close>, and 0 when both are 0.\<close>

definition harmonic_mean :: "rat \<Rightarrow> rat \<Rightarrow> rat" where
  "harmonic_mean p r = (if p + r > 0 then 2 * p * r / (p + r) else 0)"

definition add_difficulty ::
  "evaluation_result \<Rightarrow> (string, difficulty_stats) dict \<Rightarrow> (string, difficulty_stats) dict" where
  "add_difficulty r d =
     (let key = (case ev_difficulty r of Some s \<Rightarrow> s | None \<Rightarrow> ''unknown'');
          old = dict_get_default d key \<lparr>ds_total = 0, ds_score_sum = 0, ds_avg_score = 0\<rparr>
      in dict_set d key (old\<lparr>ds_total := ds_total old + 1, ds_score_sum := ds_score_sum old + ev_score r\<rparr>))"

definition by_difficulty :: "evaluation_result list \<Rightarrow> (string, difficulty_stats) dict" where
  "by_difficulty results =
     map (\<lambda>(k, s). (k, s\<lparr>ds_avg_score := py_round 3 (ds_score_sum s / of_int (ds_total s))\<rparr>))
       (fold add_difficulty results [])"

definition add_fault_type ::
  "evaluation_result \<Rightarrow> (string, fault_type_stats) dict \<Rightarrow> (string, fault_type_stats) dict" where
  "add_fault_type r d =
     (let key = (case ev_ground_truth r of Some gt \<Rightarrow> gt_fault_type gt | None \<Rightarrow> ''unknown'');
          old = dict_get_default d key \<lparr>fts_total = 0, fts_correct = 0, fts_score_sum = 0, fts_accuracy = 0, fts_avg_score = 0\<rparr>
      in dict_set d key (old\<lparr>fts_total := fts_total old + 1, fts_score_sum := fts_score_sum old + ev_score r,
           fts_correct := fts_correct old + of_bool (ev_correct_fault_type r)\<rparr>))"

definition by_fault_type :: "evaluation_result list \<Rightarrow> (string, fault_type_stats) dict" where
  "by_fault_type results =
     map (\<lambda>(k, s). (k, s\<lparr>fts_accuracy := py_round 3 (of_int (fts_correct s) / of_int (fts_total s)),
                       fts_avg_score := py_round 3 (fts_score_sum s / of_int (fts_total s))\<rparr>))
       (fold add_fault_type results [])"

text \<open>\<open>generate_report\<close>; \<open>None\<close> stands for the error payload of an empty run.\<close>

definition generate_report :: "evaluation_result list \<Rightarrow> report option" where
  "generate_report results =
     (if results = [] then None
      else
       (let total = int (length results);
            negative_cases = filter ev_negative_sample results;
            positive_cases = filter (\<lambda>r. \<not> ev_negative_sample r) results;
            positive_total = int (length positive_cases);
            correct_verdict = count ev_correct_verdict results;
            correct_device = count (\<lambda>r. ev_correct_verdict r \<and> ev_correct_device r) positive_cases;
            correct_fault_type = count ev_correct_fault_type positive_cases;
            localization = py_round 3 (ratio correct_device positive_total);
            applicable = count interface_case positive_cases;
            correct_interface = count (\<lambda>r. interface_case r \<and> ev_correct_verdict r \<and> ev_correct_interface r) positive_cases;
            interface_rate = py_round 3 (ratio correct_interface applicable);
            false_positives = count ev_false_positive negative_cases;
            false_negatives = count (\<lambda>r. ao_verdict (ev_agent_output r) = ''network_healthy'') positive_cases;
            tp = count ev_correct_verdict positive_cases;
            fn = positive_total - tp;
            fp = false_positives;
            tn = int (length negative_cases) - fp;
            precision = py_round 3 (ratio tp (tp + fp));
            recall = py_round 3 (ratio tp (tp + fn));
            f1_pos = harmonic_mean precision recall;
            f1_neg = harmonic_mean (ratio tn (tn + fn)) (ratio tn (tn + fp));
            input_tokens = sum_list (map (\<lambda>r. ao_input_tokens (ev_agent_output r)) results);
            output_tokens = sum_list (map (\<lambda>r. ao_output_tokens (ev_agent_output r)) results);
            tool_calls = sum_list (map (\<lambda>r. int (length (ao_tool_calls (ev_agent_output r)))) results);
            time = sum_list (map (\<lambda>r. ao_time_taken_seconds (ev_agent_output r)) results)
        in Some
          \<lparr>rp_total_cases = total, rp_correct_verdict = correct_verdict, rp_correct_device = correct_device,
           rp_correct_interface = correct_interface, rp_correct_fault_type = correct_fault_type,
           rp_overall_accuracy = py_round 3 (ratio (count is_fully_correct_case results) total),
           rp_detection_accuracy = py_round 3 (ratio correct_verdict total),
           rp_detection_precision = precision, rp_detection_recall = recall, rp_detection_f1 = py_round 3 f1_pos,
           rp_detection_macro_f1 = (if negative_cases \<noteq> [] then Some (py_round 3 ((f1_pos + f1_neg) / 2)) else None),
           rp_localization_success_rate = localization, rp_interface_localization_rate = interface_rate,
           rp_interface_applicable_cases = applicable,
           rp_localization_composite_score =
             py_round 3 (device_localization_weight * localization + interface_localization_weight * interface_rate),
           rp_fault_type_accuracy = py_round 3 (ratio correct_fault_type positive_total),
           rp_average_score = py_round 3 (sum_list (map ev_score results) / of_int total),
           rp_avg_tool_calls = py_round 1 (ratio tool_calls total),
           rp_avg_time_seconds = py_round 1 (time / of_int total),
           rp_total_input_tokens = input_tokens, rp_avg_input_tokens = py_round 1 (ratio input_tokens total),
           rp_total_output_tokens = output_tokens, rp_avg_output_tokens = py_round 1 (ratio output_tokens total),
           rp_false_positive_rate =
             (if negative_cases \<noteq> [] then Some (py_round 3 (ratio false_positives (int (length negative_cases)))) else None),
           rp_false_negative_rate =
             (if positive_cases \<noteq> [] then Some (py_round 3 (ratio false_negatives positive_total)) else None),
           rp_negative_sample_cases = int (length negative_cases), rp_positive_sample_cases = positive_total,
           rp_by_difficulty = by_difficulty results, rp_by_fault_type = by_fault_type positive_cases,
           rp_detailed_results = results\<rparr>))"

section \<open>The best location\<close>

lemma is_better_iff:
  "is_better_location_rank (a, b, c) (a', b', c') \<longleftrightarrow> a > a' \<or> (a = a' \<and> (b > b' \<or> (b = b' \<and> c > c')))"
  by (auto simp: is_better_location_rank_def)

lemma is_better_chain:
  "is_better_location_rank n b \<Longrightarrow> \<not> is_better_location_rank r b \<Longrightarrow> \<not> is_better_location_rank r n"
  by (cases n; cases b; cases r) (auto simp: is_better_iff)

definition rank_of :: "string \<Rightarrow> string option \<Rightarrow> bool \<Rightarrow> nat \<times> location \<Rightarrow> rank" where
  "rank_of d i app p = (of_bool (device_match d (snd p)), of_bool (interface_match app i (snd p)), of_bool (fst p = 0))"

definition best_of :: "string \<Rightarrow> string option \<Rightarrow> bool \<Rightarrow> nat \<times> location \<Rightarrow> best_match" where
  "best_of d i app p =
     \<lparr>bm_rank = rank_of d i app p, bm_device = device_match d (snd p), bm_interface = interface_match app i (snd p),
      bm_location = Some (snd p),
      bm_mode = (if device_match d (snd p) \<and> interface_match app i (snd p)
                 then (if fst p = 0 then ''exact'' else ''equivalent'') else ''partial'')\<rparr>"

lemma match_step_best:
  "match_step d i app p best = (if is_better_location_rank (rank_of d i app p) (bm_rank best) then best_of d i app p else best)"
  by (cases p) (simp add: match_step_def best_of_def rank_of_def Let_def)

lemma better_than_none: "is_better_location_rank (rank_of d i app p) (-1, -1, -1)"
  by (simp add: rank_of_def is_better_iff)

lemma match_fold:
  "ps \<noteq> [] \<Longrightarrow> \<exists>p \<in> set ps. fold (match_step d i app) ps (no_match app) = best_of d i app p
     \<and> (\<forall>q \<in> set ps. \<not> is_better_location_rank (rank_of d i app q) (rank_of d i app p))"
proof (induction ps rule: rev_induct)
  case (snoc q ps)
  have irrefl: "\<not> is_better_location_rank r r" for r by (cases r) (simp add: is_better_iff)
  show ?case
  proof (cases "ps = []")
    case True
    then show ?thesis using better_than_none irrefl by (simp add: match_step_best no_match_def)
  next
    case False
    then obtain p where p: "p \<in> set ps" "fold (match_step d i app) ps (no_match app) = best_of d i app p"
      and m: "\<forall>q \<in> set ps. \<not> is_better_location_rank (rank_of d i app q) (rank_of d i app p)" using snoc.IH by blast
    have r: "bm_rank (best_of d i app p) = rank_of d i app p" by (simp add: best_of_def)
    have st: "fold (match_step d i app) (ps @ [q]) (no_match app) =
        (if is_better_location_rank (rank_of d i app q) (rank_of d i app p) then best_of d i app q else best_of d i app p)"
      by (simp only: fold_append comp_apply p(2) fold_simps match_step_best r)
    show ?thesis
    proof (cases "is_better_location_rank (rank_of d i app q) (rank_of d i app p)")
      case True
      then show ?thesis
        unfolding st using m is_better_chain [OF True] irrefl by (intro bexI [of _ q]) auto
    next
      case False
      then show ?thesis unfolding st using p(1) m by (intro bexI [of _ p]) auto
    qed
  qed
qed simp

lemma match_location_best:
  "\<exists>p \<in> set (enumerate 0 (c # cs)). match_location d i (c # cs) app = best_of d i app p \<and>
     (\<forall>q \<in> set (enumerate 0 (c # cs)). \<not> is_better_location_rank (rank_of d i app q) (rank_of d i app p))"
  unfolding match_location_def by (rule match_fold) simp

lemma enumerate_members: "l \<in> set xs \<longleftrightarrow> (\<exists>n. (n, l) \<in> set (enumerate 0 xs))"
proof -
  have "set xs = snd ` set (enumerate 0 xs)" using map_snd_enumerate [of 0 xs] by (metis list.set_map)
  then show ?thesis by (force simp: image_iff)
qed

lemma enumerate_first: "(0, l) \<in> set (enumerate 0 (c # cs)) \<Longrightarrow> l = c"
  by (simp only: in_set_enumerate_eq) simp

lemma match_location_exact:
  fixes c cs app d i
  defines "cands \<equiv> set (c # cs)" and "best \<equiv> match_location d i (c # cs) app"
  shows "bm_device best \<longleftrightarrow> (\<exists>l \<in> cands. device_match d l)" (is ?D)
    and "bm_interface best \<longleftrightarrow> (\<exists>l \<in> cands. interface_match app i l \<and> (device_match d l \<or> \<not> (\<exists>k \<in> cands. device_match d k)))" (is ?I)
    and "\<exists>l \<in> cands. bm_location best = Some l \<and> bm_device best = device_match d l \<and> bm_interface best = interface_match app i l" (is ?L)
    and "bm_mode best = (if device_match d c \<and> interface_match app i c then ''exact''
           else if \<exists>l \<in> cands. device_match d l \<and> interface_match app i l then ''equivalent'' else ''partial'')" (is ?M)
proof -
  obtain p where p: "p \<in> set (enumerate 0 (c # cs))" "best = best_of d i app p"
    and pmax: "\<forall>q \<in> set (enumerate 0 (c # cs)). \<not> is_better_location_rank (rank_of d i app q) (rank_of d i app p)"
    unfolding best_def using match_location_best [of c cs d i app] by blast
  define n l where "n = fst p" and "l = snd p"
  then have pe: "p = (n, l)" by simp
  have l: "(n, l) \<in> set (enumerate 0 (c # cs))" "best = best_of d i app (n, l)" using p unfolding pe by blast+
  have max: "\<not> is_better_location_rank (rank_of d i app (m, k)) (rank_of d i app (n, l))"
    if "(m, k) \<in> set (enumerate 0 (c # cs))" for m k using pmax that unfolding pe by blast
  have lc: "l \<in> cands" unfolding cands_def by (rule enumerate_members [THEN iffD2, OF exI, OF l(1)])
  have dom: "(device_match d k \<longrightarrow> device_match d l) \<and>
      ((device_match d l \<longrightarrow> device_match d k) \<longrightarrow> interface_match app i k \<longrightarrow> interface_match app i l)"
    if "k \<in> cands" for k
  proof -
    have "\<exists>m. (m, k) \<in> set (enumerate 0 (c # cs))"
      by (rule enumerate_members [THEN iffD1]) (use that in \<open>simp only: cands_def\<close>)
    then obtain m where "(m, k) \<in> set (enumerate 0 (c # cs))" ..
    from max [OF this] show ?thesis by (auto simp: rank_of_def is_better_iff)
  qed
  have c0: "(0, c) \<in> set (enumerate 0 (c # cs))" by simp
  have first: "n = 0" if "device_match d c" "interface_match app i c"
    using max [OF c0] dom [of c] that by (auto simp: rank_of_def is_better_iff cands_def split: if_splits)
  have f: "bm_device best = device_match d l" "bm_interface best = interface_match app i l" "bm_location best = Some l"
    "bm_mode best = (if device_match d l \<and> interface_match app i l then (if n = 0 then ''exact'' else ''equivalent'') else ''partial'')"
    using l(2) by (simp_all add: best_of_def)
  show ?D using f(1) dom lc by blast
  show ?I unfolding f(2) using dom lc by blast
  show ?L using f lc by blast
  have n0: "l = c" if "n = 0" by (rule enumerate_first) (use l(1) that in \<open>simp only:\<close>)
  show ?M
  proof (cases "device_match d c \<and> interface_match app i c")
    case True
    then show ?thesis using first n0 f(4) by simp
  next
    case False
    have "(\<exists>k \<in> cands. device_match d k \<and> interface_match app i k) \<longleftrightarrow> device_match d l \<and> interface_match app i l"
      using dom lc by blast
    moreover have "\<not> (device_match d l \<and> interface_match app i l \<and> n = 0)" using n0 False by blast
    ultimately show ?thesis unfolding f(4) using False by (simp only: if_False split: if_split) blast
  qed
qed

section \<open>Bounds\<close>

lemma py_round_half [simp]: "py_round 3 (1 / 2) = 1 / 2"
  by (simp add: py_round_def round_half_even_def)

lemma ratio_bounds: "0 \<le> a \<Longrightarrow> a \<le> b \<Longrightarrow> 0 \<le> ratio a b \<and> ratio a b \<le> 1"
  by (auto simp: ratio_def)

lemma rounded_ratio: "0 \<le> a \<Longrightarrow> a \<le> b \<Longrightarrow> 0 \<le> py_round n (ratio a b) \<and> py_round n (ratio a b) \<le> 1"
  using ratio_bounds [of a b] py_round_le_one by simp

lemma harmonic_mean_bounds:
  assumes "0 \<le> p" "p \<le> 1" "0 \<le> r" "r \<le> 1"
  shows "0 \<le> harmonic_mean p r \<and> harmonic_mean p r \<le> 1"
proof -
  have "p * r \<le> p" "p * r \<le> r" using assms by (simp_all add: mult_left_le mult_left_le_one_le)
  then have "2 * p * r \<le> p + r" by simp
  then show ?thesis using assms by (auto simp: harmonic_mean_def divide_le_eq)
qed

lemma count_nonneg [simp]: "0 \<le> count P xs"
  by (simp add: count_def)

lemma count_le_length: "count P xs \<le> int (length xs)"
  using count_where_le [of P xs] by (simp add: count_def)

lemma count_mono: "(\<And>x. x \<in> set xs \<Longrightarrow> P x \<Longrightarrow> Q x) \<Longrightarrow> count P xs \<le> count Q xs"
  using count_where_mono [of xs P Q] by (simp add: count_def)

lemma sum_scores:
  "(\<And>r. r \<in> set rs \<Longrightarrow> 0 \<le> f r \<and> f r \<le> 1) \<Longrightarrow> 0 \<le> sum_list (map f rs) \<and> sum_list (map f rs) \<le> of_nat (length rs)"
  for f :: "'a \<Rightarrow> rat"
proof (induction rs)
  case (Cons r rs)
  have "0 \<le> f r \<and> f r \<le> 1" using Cons.prems by simp
  moreover have "0 \<le> sum_list (map f rs) \<and> sum_list (map f rs) \<le> of_nat (length rs)" using Cons by simp
  ultimately show ?case by simp
qed simp

text \<open>The breakdowns count every case exactly once.\<close>

lemma sum_update:
  "distinct (map fst d) \<Longrightarrow> sum_list (map (\<lambda>(k, s). f s) (AList.update k v d)) =
     sum_list (map (\<lambda>(k, s). f s) d) - (case map_of d k of Some s \<Rightarrow> f s | None \<Rightarrow> 0) + f v"
  for f :: "'b \<Rightarrow> int"
  by (induction d) (auto simp: map_of_eq_None_iff split: option.splits)

lemma by_difficulty_total: "sum_list (map (\<lambda>(k, s). ds_total s) (by_difficulty rs)) = int (length rs)"
proof -
  have "distinct (map fst d) \<Longrightarrow> distinct (map fst (fold add_difficulty rs d)) \<and>
      sum_list (map (\<lambda>(k, s). ds_total s) (fold add_difficulty rs d)) = sum_list (map (\<lambda>(k, s). ds_total s) d) + int (length rs)" for d
  proof (induction rs arbitrary: d)
    case (Cons r rs)
    have "distinct (map fst (add_difficulty r d))" using Cons.prems by (simp add: add_difficulty_def Let_def)
    moreover have "sum_list (map (\<lambda>(k, s). ds_total s) (add_difficulty r d)) = sum_list (map (\<lambda>(k, s). ds_total s) d) + 1"
      using Cons.prems by (simp add: add_difficulty_def Let_def sum_update dict_get_default_def split: option.splits)
    ultimately show ?case using Cons.IH by simp
  qed simp
  from this [of "[]"] show ?thesis by (simp add: by_difficulty_def comp_def case_prod_beta')
qed

lemma by_fault_type_total: "sum_list (map (\<lambda>(k, s). fts_total s) (by_fault_type rs)) = int (length rs)"
proof -
  have "distinct (map fst d) \<Longrightarrow> distinct (map fst (fold add_fault_type rs d)) \<and>
      sum_list (map (\<lambda>(k, s). fts_total s) (fold add_fault_type rs d)) = sum_list (map (\<lambda>(k, s). fts_total s) d) + int (length rs)" for d
  proof (induction rs arbitrary: d)
    case (Cons r rs)
    have "distinct (map fst (add_fault_type r d))" using Cons.prems by (simp add: add_fault_type_def Let_def)
    moreover have "sum_list (map (\<lambda>(k, s). fts_total s) (add_fault_type r d)) = sum_list (map (\<lambda>(k, s). fts_total s) d) + 1"
      using Cons.prems by (simp add: add_fault_type_def Let_def sum_update dict_get_default_def split: option.splits)
    ultimately show ?case using Cons.IH by simp
  qed simp
  from this [of "[]"] show ?thesis by (simp add: by_fault_type_def comp_def case_prod_beta')
qed

section \<open>Evaluation\<close>

lemma evaluate_raises:
  "evaluate judge out ground_truth tc = Inl e \<Longrightarrow>
     \<exists>gt j q. ground_truth = Some gt \<and> judge = Some j \<and> j q = Inl e \<and> \<not> judge_catches e"
  by (auto simp: evaluate_def Let_def bindE_Inl_conv judge_fault_type_match_def split: option.splits if_splits sum.splits)

lemma evaluate_facts:
  "evaluate judge out ground_truth tc = Inr r \<Longrightarrow>
     ev_score r \<in> {0, 1 / 2, 1} \<and> (\<not> ev_correct_verdict r \<longrightarrow> ev_score r = 0) \<and>
      (ev_score r = 1 \<longleftrightarrow> ev_correct_verdict r \<and> ev_correct_device r \<and> (interface_case r \<longrightarrow> ev_correct_interface r)) \<and>
      (is_fully_correct_case r \<longrightarrow> ev_score r = 1) \<and>
      (case ground_truth of
         None \<Rightarrow> ev_negative_sample r \<and> ev_correct_verdict r = (ao_verdict out = ''network_healthy'') \<and>
           ev_false_positive r = (ev_score r = 0)
       | Some gt \<Rightarrow> \<not> ev_negative_sample r \<and> \<not> ev_false_positive r \<and>
           ev_correct_verdict r = (ao_verdict out = ''fault_detected''))"
proof (cases ground_truth)
  case None
  assume "evaluate judge out ground_truth tc = Inr r"
  then show ?thesis using None
    by (auto simp: evaluate_def Let_def is_fully_correct_case_def interface_case_def split: if_splits)
next
  case (Some gt)
  assume "evaluate judge out ground_truth tc = Inr r"
  then show ?thesis using Some
    by (auto simp: evaluate_def Let_def bindE_Inr_conv is_fully_correct_case_def interface_case_def
        device_localization_weight_def interface_localization_weight_def split: if_splits)
qed

section \<open>Properties\<close>




definition example_output :: "string \<Rightarrow> agent_output" where
  "example_output verdict =
     \<lparr>ao_verdict = verdict, ao_fault_type = Some ''linkdown'',
      ao_location = Some \<lparr>loc_device = Some ''leaf1'', loc_interface = Some ''Ethernet0''\<rparr>, ao_evidence = [],
      ao_confidence = 1, ao_reasoning = [], ao_tool_calls = [], ao_time_taken_seconds = 5, ao_input_tokens = 100,
      ao_output_tokens = 20\<rparr>"

definition example_truth :: ground_truth where
  "example_truth =
     \<lparr>gt_fault_type = ''link_down'', gt_location = \<lparr>loc_device = Some ''leaf1'', loc_interface = Some ''eth1''\<rparr>,
      gt_equivalent_locations = []\<rparr>"


lemma sum_list_div_bounds:
  "(\<And>r. r \<in> set rs \<Longrightarrow> 0 \<le> f r \<and> f r \<le> 1) \<Longrightarrow> rs \<noteq> [] \<Longrightarrow>
   0 \<le> sum_list (map f rs) / of_int (int (length rs)) \<and> sum_list (map f rs) / of_int (int (length rs)) \<le> 1"
  for f :: "'a \<Rightarrow> rat"
  using sum_scores [of rs f] by (auto simp: divide_le_eq)

lemma count_filter: "count P (filter Q xs) = count (\<lambda>x. Q x \<and> P x) xs"
  by (simp add: count_def count_where_def)

lemma length_split: "int (length (filter P xs)) + int (length (filter (\<lambda>x. \<not> P x) xs)) = int (length xs)"
  by (induction xs) auto

text \<open>
  The benchmark report: it exists exactly for a non-empty run; positive and negative cases add up, and
  so do the breakdowns; no counter exceeds its base; and for scores between 0 and 1 every rate, accuracy,
  precision, recall, F1 and average score of the summary lies between 0 and 1.
\<close>

theorem generate_report_consistent:
  "(generate_report results = None \<longleftrightarrow> results = []) \<and>
   (generate_report results = Some rp \<longrightarrow>
      rp_total_cases rp = int (length results) \<and>
      rp_positive_sample_cases rp + rp_negative_sample_cases rp = rp_total_cases rp \<and>
      sum_list (map (\<lambda>(k, s). ds_total s) (rp_by_difficulty rp)) = rp_total_cases rp \<and>
      sum_list (map (\<lambda>(k, s). fts_total s) (rp_by_fault_type rp)) = rp_positive_sample_cases rp \<and>
      rp_correct_interface rp \<le> rp_interface_applicable_cases rp \<and>
      rp_interface_applicable_cases rp \<le> rp_positive_sample_cases rp \<and>
      rp_correct_device rp \<le> rp_positive_sample_cases rp \<and> rp_correct_device rp \<le> rp_correct_verdict rp \<and>
      (\<forall>x \<in> {rp_overall_accuracy rp, rp_detection_accuracy rp, rp_detection_precision rp, rp_detection_recall rp,
              rp_detection_f1 rp, rp_localization_success_rate rp, rp_interface_localization_rate rp,
              rp_localization_composite_score rp, rp_fault_type_accuracy rp}
            \<union> set_option (rp_detection_macro_f1 rp) \<union> set_option (rp_false_positive_rate rp)
            \<union> set_option (rp_false_negative_rate rp). 0 \<le> x \<and> x \<le> 1) \<and>
      ((\<forall>r \<in> set results. 0 \<le> ev_score r \<and> ev_score r \<le> 1) \<longrightarrow> 0 \<le> rp_average_score rp \<and> rp_average_score rp \<le> 1))"
proof (cases "results = []")
  case True
  then show ?thesis by (simp add: generate_report_def)
next
  case False
  let ?neg = "filter ev_negative_sample results" and ?pos = "filter (\<lambda>r. \<not> ev_negative_sample r) results"
  let ?tp = "count ev_correct_verdict ?pos" and ?fp = "count ev_false_positive ?neg"
  let ?n = "int (length ?neg)" and ?p = "int (length ?pos)"
  let ?pr = "py_round 3 (ratio ?tp (?tp + ?fp))" and ?re = "py_round 3 (ratio ?tp (?tp + (?p - ?tp)))"
  have split: "?p + ?n = int (length results)" using length_split [of ev_negative_sample results] by simp
  have tp: "0 \<le> ?tp" "?tp \<le> ?p" "0 \<le> ?fp" "?fp \<le> ?n" using count_le_length count_nonneg by blast+
  have pr: "0 \<le> ?pr" "?pr \<le> 1" and re: "0 \<le> ?re" "?re \<le> 1"
    using rounded_ratio [of ?tp "?tp + ?fp" 3] rounded_ratio [of ?tp "?tp + (?p - ?tp)" 3] tp by auto
  have f1: "0 \<le> harmonic_mean ?pr ?re \<and> harmonic_mean ?pr ?re \<le> 1"
    using harmonic_mean_bounds [OF pr re] .
  let ?tn = "?n - ?fp"
  let ?neg_f1 = "harmonic_mean (ratio ?tn (?tn + (?p - ?tp))) (ratio ?tn (?tn + ?fp))"
  have "0 \<le> ratio ?tn (?tn + (?p - ?tp)) \<and> ratio ?tn (?tn + (?p - ?tp)) \<le> 1"
    "0 \<le> ratio ?tn (?tn + ?fp) \<and> ratio ?tn (?tn + ?fp) \<le> 1" using tp by (intro ratio_bounds; simp)+
  then have f1n: "0 \<le> ?neg_f1 \<and> ?neg_f1 \<le> 1" using harmonic_mean_bounds by blast
  have macro: "0 \<le> py_round 3 ((harmonic_mean ?pr ?re + ?neg_f1) / 2) \<and> py_round 3 ((harmonic_mean ?pr ?re + ?neg_f1) / 2) \<le> 1"
    using f1 f1n by (intro conjI py_round_nonneg py_round_le_one) auto
  have f1r: "0 \<le> py_round 3 (harmonic_mean ?pr ?re) \<and> py_round 3 (harmonic_mean ?pr ?re) \<le> 1"
    using f1 py_round_le_one by simp
  let ?dev = "\<lambda>r. ev_correct_verdict r \<and> ev_correct_device r"
    and ?ifc = "\<lambda>r. interface_case r \<and> ev_correct_verdict r \<and> ev_correct_interface r"
  have rates: "0 \<le> py_round 3 (ratio (count P xs) (int (length xs))) \<and> py_round 3 (ratio (count P xs) (int (length xs))) \<le> 1"
    for P and xs :: "evaluation_result list" using rounded_ratio [OF count_nonneg count_le_length] .
  have ci: "count ?ifc ?pos \<le> count interface_case ?pos" by (rule count_mono) simp
  have ir: "0 \<le> py_round 3 (ratio (count ?ifc ?pos) (count interface_case ?pos)) \<and>
      py_round 3 (ratio (count ?ifc ?pos) (count interface_case ?pos)) \<le> 1"
    using rounded_ratio [OF count_nonneg ci] .
  let ?loc = "py_round 3 (ratio (count ?dev ?pos) ?p)" and ?ifr = "py_round 3 (ratio (count ?ifc ?pos) (count interface_case ?pos))"
  have comp: "0 \<le> py_round 3 (device_localization_weight * ?loc + interface_localization_weight * ?ifr) \<and>
      py_round 3 (device_localization_weight * ?loc + interface_localization_weight * ?ifr) \<le> 1"
    using rates [of ?dev ?pos] ir
    by (intro conjI py_round_nonneg py_round_le_one)
      (simp_all add: device_localization_weight_def interface_localization_weight_def)
  have cd: "count ?dev ?pos \<le> count ev_correct_verdict results" unfolding count_filter by (rule count_mono) simp
  have avg: "0 \<le> py_round 3 (sum_list (map ev_score results) / of_int (int (length results))) \<and>
      py_round 3 (sum_list (map ev_score results) / of_int (int (length results))) \<le> 1"
    if "\<forall>r \<in> set results. 0 \<le> ev_score r \<and> ev_score r \<le> 1"
    using sum_list_div_bounds [of results ev_score] that False by (intro conjI py_round_nonneg py_round_le_one) auto
  have rp: "rp_total_cases rp = int (length results)" "rp_correct_verdict rp = count ev_correct_verdict results"
    "rp_positive_sample_cases rp = ?p" "rp_negative_sample_cases rp = ?n"
    "rp_correct_device rp = count ?dev ?pos" "rp_correct_interface rp = count ?ifc ?pos"
    "rp_interface_applicable_cases rp = count interface_case ?pos"
    "rp_by_difficulty rp = by_difficulty results" "rp_by_fault_type rp = by_fault_type ?pos"
    "rp_overall_accuracy rp = py_round 3 (ratio (count is_fully_correct_case results) (int (length results)))"
    "rp_detection_accuracy rp = py_round 3 (ratio (count ev_correct_verdict results) (int (length results)))"
    "rp_detection_precision rp = ?pr" "rp_detection_recall rp = ?re" "rp_detection_f1 rp = py_round 3 (harmonic_mean ?pr ?re)"
    "rp_localization_success_rate rp = ?loc" "rp_interface_localization_rate rp = ?ifr"
    "rp_localization_composite_score rp =
       py_round 3 (device_localization_weight * ?loc + interface_localization_weight * ?ifr)"
    "rp_fault_type_accuracy rp = py_round 3 (ratio (count ev_correct_fault_type ?pos) ?p)"
    "rp_average_score rp = py_round 3 (sum_list (map ev_score results) / of_int (int (length results)))"
    "rp_detection_macro_f1 rp = (if ?neg \<noteq> [] then Some (py_round 3 ((harmonic_mean ?pr ?re + ?neg_f1) / 2)) else None)"
    "rp_false_positive_rate rp = (if ?neg \<noteq> [] then Some (py_round 3 (ratio ?fp ?n)) else None)"
    "rp_false_negative_rate rp = (if ?pos \<noteq> []
       then Some (py_round 3 (ratio (count (\<lambda>r. ao_verdict (ev_agent_output r) = ''network_healthy'') ?pos) ?p)) else None)"
    if "generate_report results = Some rp"
    using that [unfolded generate_report_def Let_def if_not_P [OF False] option.inject, symmetric]
    by (simp_all only: report.select_convs)
  have opt: "(\<forall>x \<in> set_option (if c then Some v else None). P x) \<longleftrightarrow> (c \<longrightarrow> P v)" for c and v :: rat and P by simp
  have all: "\<forall>x \<in> {rp_overall_accuracy rp, rp_detection_accuracy rp, rp_detection_precision rp, rp_detection_recall rp,
              rp_detection_f1 rp, rp_localization_success_rate rp, rp_interface_localization_rate rp,
              rp_localization_composite_score rp, rp_fault_type_accuracy rp}
            \<union> set_option (rp_detection_macro_f1 rp) \<union> set_option (rp_false_positive_rate rp)
            \<union> set_option (rp_false_negative_rate rp). 0 \<le> x \<and> x \<le> 1" if s: "generate_report results = Some rp"
    unfolding ball_Un ball_simps(7) rp(10-18) [OF s] rp(20-22) [OF s] opt
    by (intro conjI impI rates rates [THEN conjunct1] rates [THEN conjunct2] pr re f1r comp ir macro ballI;
        elim emptyE)
  have some: "generate_report results \<noteq> None" using False by (simp add: generate_report_def Let_def)
  show ?thesis
  proof (intro conjI impI)
    assume s: "generate_report results = Some rp"
    note f = rp [OF s]
    show "rp_total_cases rp = int (length results)" by (rule f(1))
    show "rp_positive_sample_cases rp + rp_negative_sample_cases rp = rp_total_cases rp" using split f(1,3,4) by simp
    show "sum_list (map (\<lambda>(k, s). ds_total s) (rp_by_difficulty rp)) = rp_total_cases rp"
      unfolding f(1,8) by (rule by_difficulty_total)
    show "sum_list (map (\<lambda>(k, s). fts_total s) (rp_by_fault_type rp)) = rp_positive_sample_cases rp"
      unfolding f(3,9) by (rule by_fault_type_total)
    show "rp_correct_interface rp \<le> rp_interface_applicable_cases rp" unfolding f(6,7) by (rule ci)
    show "rp_interface_applicable_cases rp \<le> rp_positive_sample_cases rp" unfolding f(3,7) by (rule count_le_length)
    show "rp_correct_device rp \<le> rp_positive_sample_cases rp" unfolding f(3,5) by (rule count_le_length)
    show "rp_correct_device rp \<le> rp_correct_verdict rp" unfolding f(2,5) by (rule cd)
    assume "\<forall>r \<in> set results. 0 \<le> ev_score r \<and> ev_score r \<le> 1"
    then show "0 \<le> rp_average_score rp" "rp_average_score rp \<le> 1" unfolding f(19) using avg by blast+
  qed (use all some False in blast)+
qed

theorem generate_report_consistent_witness:
  "\<exists>r rp. evaluate None (example_output ''network_healthy'') None ''h1'' = Inr r \<and> generate_report [r] = Some rp \<and>
     rp_positive_sample_cases rp + rp_negative_sample_cases rp = 1 \<and> rp_average_score rp \<le> 1"
proof -
  obtain r where r: "evaluate None (example_output ''network_healthy'') None ''h1'' = Inr r" "ev_score r = 1"
    by (auto simp: evaluate_def example_output_def)
  obtain rp where rp: "generate_report [r] = Some rp"
    using generate_report_consistent [of "[r]"] by (cases "generate_report [r]") auto
  show ?thesis using generate_report_consistent [of "[r]" rp] r rp by (intro exI [of _ r] exI [of _ rp]) simp
qed

end
