(* ===== verification/Effects.thy ===== *)
theory Effects
  imports Prelude
begin

text \<open>
  Methods that update their object and may raise: an action maps a state to a result and the
  state it leaves behind, also when it raises.  The two interfaces at the end are shared by
  the objects whose methods are run one after another.
\<close>

named_theorems effect_simps \<open>running actions\<close>

section \<open>Actions\<close>

type_synonym ('s, 'a) action = "'s \<Rightarrow> 'a result \<times> 's"

definition returnS :: "'a \<Rightarrow> ('s, 'a) action" where
  "returnS x s = (Inr x, s)"

definition raiseS :: "exc \<Rightarrow> ('s, 'a) action" where
  "raiseS e s = (Inl e, s)"

definition bindS :: "('s, 'a) action \<Rightarrow> ('a \<Rightarrow> ('s, 'b) action) \<Rightarrow> ('s, 'b) action" where
  "bindS m f s = (case m s of (Inl e, s') \<Rightarrow> (Inl e, s') | (Inr x, s') \<Rightarrow> f x s')"

text \<open>\<open>if not cond: raise e\<close>.\<close>

definition requireS :: "('s \<Rightarrow> bool) \<Rightarrow> ('s \<Rightarrow> exc) \<Rightarrow> ('s, unit) action" where
  "requireS P e s = (if P s then Inr () else Inl (e s), s)"

text \<open>\<open>try: m except Exception as e: h(e)\<close>; the handler starts from the state the exception left.\<close>

definition catchS :: "('s, 'a) action \<Rightarrow> (exc \<Rightarrow> ('s, 'a) action) \<Rightarrow> ('s, 'a) action" where
  "catchS m h s = (case m s of (Inl e, s') \<Rightarrow> h e s' | (Inr x, s') \<Rightarrow> (Inr x, s'))"

lemma bindS_simps [simp, effect_simps]:
  "bindS (returnS x) f s = f x s"
  "bindS (raiseS e) f s = (Inl e, s)"
  by (simp_all add: bindS_def returnS_def raiseS_def)

lemma bindS_cases:
  "m s = (Inl e, s') \<Longrightarrow> bindS m f s = (Inl e, s')"
  "m s = (Inr x, s') \<Longrightarrow> bindS m f s = f x s'"
  by (simp_all add: bindS_def)

lemma requireS_simps [effect_simps]:
  "P s \<Longrightarrow> bindS (requireS P e) f s = f () s"
  "\<not> P s \<Longrightarrow> bindS (requireS P e) f s = (Inl (e s), s)"
  by (simp_all add: bindS_def requireS_def)

text \<open>
  What every action of a sequence keeps, the sequence keeps, whether it runs to its end or
  stops at an exception.
\<close>

lemma bindS_keeps:
  assumes "P s" "\<And>s. P s \<Longrightarrow> P (snd (m s))" "\<And>x s. P s \<Longrightarrow> P (snd (f x s))"
  shows "P (snd (bindS m f s))"
proof -
  obtain r s' where m: "m s = (r, s')" by (cases "m s")
  have "P s'" using assms(2) [OF assms(1)] m by simp
  then show ?thesis using assms(3) [of s'] by (cases r) (simp_all add: bindS_def m)
qed

lemma requireS_state [simp, effect_simps]: "snd (requireS P e s) = s"
  by (simp add: requireS_def)

section \<open>Specifications of actions\<close>

text \<open>
  From every state that satisfies \<open>P\<close> the action either returns, and its result and state satisfy
  \<open>Q\<close>, or raises, and the exception and state satisfy \<open>E\<close>.
\<close>

definition triple ::
  "('s \<Rightarrow> bool) \<Rightarrow> ('s, 'a) action \<Rightarrow> ('a \<Rightarrow> 's \<Rightarrow> bool) \<Rightarrow> (exc \<Rightarrow> 's \<Rightarrow> bool) \<Rightarrow> bool" where
  "triple P m Q E \<longleftrightarrow> (\<forall>s. P s \<longrightarrow> (case m s of (Inl e, s') \<Rightarrow> E e s' | (Inr x, s') \<Rightarrow> Q x s'))"

named_theorems triple_intros \<open>rules for triples\<close>

lemma tripleI:
  "(\<And>s e s'. P s \<Longrightarrow> m s = (Inl e, s') \<Longrightarrow> E e s') \<Longrightarrow> (\<And>s x s'. P s \<Longrightarrow> m s = (Inr x, s') \<Longrightarrow> Q x s') \<Longrightarrow> triple P m Q E"
  by (auto simp: triple_def split: prod.split sum.split)

lemma tripleD:
  assumes "triple P m Q E" "P s"
  shows "m s = (Inr x, s') \<Longrightarrow> Q x s'" "m s = (Inl e, s') \<Longrightarrow> E e s'"
  using assms by (auto simp: triple_def)

lemma triple_return [triple_intros]: "(\<And>s. P s \<Longrightarrow> Q x s) \<Longrightarrow> triple P (returnS x) Q E"
  by (simp add: triple_def returnS_def)

lemma triple_raise [triple_intros]: "(\<And>s. P s \<Longrightarrow> E e s) \<Longrightarrow> triple P (raiseS e) Q E"
  by (simp add: triple_def raiseS_def)

lemma triple_bind [triple_intros]:
  assumes "triple P m R E" "\<And>x. triple (R x) (f x) Q E"
  shows "triple P (bindS m f) Q E"
  using assms by (fastforce simp: triple_def bindS_def split: prod.split sum.split)

lemma triple_catch [triple_intros]:
  assumes "triple P m Q R" "\<And>e. triple (R e) (h e) Q E"
  shows "triple P (catchS m h) Q E"
  using assms by (fastforce simp: triple_def catchS_def split: prod.split sum.split)

lemma triple_case_option [triple_intros]:
  "(x = None \<Longrightarrow> triple P m Q E) \<Longrightarrow> (\<And>y. x = Some y \<Longrightarrow> triple P (f y) Q E) \<Longrightarrow>
   triple P (case x of None \<Rightarrow> m | Some y \<Rightarrow> f y) Q E"
  by (cases x) auto

lemma triple_case_sum [triple_intros]:
  "(\<And>a. x = Inl a \<Longrightarrow> triple P (f a) Q E) \<Longrightarrow> (\<And>b. x = Inr b \<Longrightarrow> triple P (g b) Q E) \<Longrightarrow>
   triple P (case x of Inl a \<Rightarrow> f a | Inr b \<Rightarrow> g b) Q E"
  by (cases x) auto

lemma triple_case_prod [triple_intros]:
  "triple P (f (fst x) (snd x)) Q E \<Longrightarrow> triple P (case x of (a, b) \<Rightarrow> f a b) Q E"
  by (cases x) simp

lemma triple_Let [triple_intros]: "triple P (f x) Q E \<Longrightarrow> triple P (Let x f) Q E"
  by simp

lemma triple_weaken:
  assumes "triple P m Q E" "\<And>s. P' s \<Longrightarrow> P s" "\<And>x s. Q x s \<Longrightarrow> Q' x s" "\<And>e s. E e s \<Longrightarrow> E' e s"
  shows "triple P' m Q' E'"
  using assms by (fastforce simp: triple_def split: prod.split sum.split)

lemma triple_if [triple_intros]:
  "(b \<Longrightarrow> triple P m Q E) \<Longrightarrow> (\<not> b \<Longrightarrow> triple P n Q E) \<Longrightarrow> triple P (if b then m else n) Q E"
  by simp

text \<open>Where only part of a sequence matters.\<close>

lemma triple_any: "triple P m (\<lambda>_ _. True) (\<lambda>_ _. True)"
  by (auto simp: triple_def split: prod.split sum.split)

lemma triple_drop: "(\<And>x. triple (\<lambda>_. True) (f x) Q (\<lambda>_ _. True)) \<Longrightarrow> triple P (bindS m f) Q (\<lambda>_ _. True)"
  by (rule triple_bind [OF triple_any])

lemma triple_conj:
  "triple P m Q E \<Longrightarrow> triple P m Q' E' \<Longrightarrow> triple P m (\<lambda>x s. Q x s \<and> Q' x s) E"
  by (auto simp: triple_def split: prod.splits sum.splits)

text \<open>What an action always keeps.\<close>

definition keeps :: "('s \<Rightarrow> 'b) \<Rightarrow> ('s, 'a) action \<Rightarrow> bool" where
  "keeps view m \<longleftrightarrow> (\<forall>s. view (snd (m s)) = view s)"

named_theorems keeps_intros \<open>rules for what actions keep\<close>

lemma keepsD: "keeps view m \<Longrightarrow> view (snd (m s)) = view s"
  by (simp add: keeps_def)

lemma keeps_result: "keeps view m \<Longrightarrow> m s = (r, s') \<Longrightarrow> view s' = view s"
  using keepsD [of view m s] by simp

lemma keeps_basic [keeps_intros]: "keeps view (returnS x)" "keeps view (raiseS e)"
  by (simp_all add: keeps_def returnS_def raiseS_def)

lemma keeps_bind [keeps_intros]: "keeps view m \<Longrightarrow> (\<And>x. keeps view (f x)) \<Longrightarrow> keeps view (bindS m f)"
  by (simp add: keeps_def bindS_def split: prod.split sum.split) (metis snd_conv)

lemma keeps_if [keeps_intros]: "(b \<Longrightarrow> keeps view m) \<Longrightarrow> (\<not> b \<Longrightarrow> keeps view n) \<Longrightarrow> keeps view (if b then m else n)"
  by simp

lemma keeps_option [keeps_intros]:
  "keeps view m \<Longrightarrow> (\<And>y. x = Some y \<Longrightarrow> keeps view (f y)) \<Longrightarrow> keeps view (case x of None \<Rightarrow> m | Some y \<Rightarrow> f y)"
  by (cases x) auto

lemma keeps_catch [keeps_intros]: "keeps view m \<Longrightarrow> (\<And>e. keeps view (h e)) \<Longrightarrow> keeps view (catchS m h)"
  by (simp add: keeps_def catchS_def split: prod.split sum.split) (metis snd_conv)

lemma keeps_sum [keeps_intros]:
  "(\<And>a. x = Inl a \<Longrightarrow> keeps view (f a)) \<Longrightarrow> (\<And>b. x = Inr b \<Longrightarrow> keeps view (g b)) \<Longrightarrow>
   keeps view (case x of Inl a \<Rightarrow> f a | Inr b \<Rightarrow> g b)"
  by (cases x) auto

lemma keeps_prod [keeps_intros]: "keeps view (f (fst x) (snd x)) \<Longrightarrow> keeps view (case x of (a, b) \<Rightarrow> f a b)"
  by (cases x) simp

lemma keeps_triple: "keeps view m \<Longrightarrow> triple (\<lambda>s. P (view s)) m (\<lambda>x s. P (view s)) (\<lambda>e s. P (view s))"
  by (auto simp: triple_def dest: keeps_result split: prod.split sum.split)

lemma keeps_Let [keeps_intros]: "keeps view (f x) \<Longrightarrow> keeps view (Let x f)"
  by simp

section \<open>Objects as machines\<close>

text \<open>
  An object whose methods run one after another.  The provider shows that each method keeps
  the invariant; then every run of methods keeps it.
\<close>

locale invariant_machine =
  fixes step :: "'s \<Rightarrow> 'op \<Rightarrow> 's"
    and inv :: "'s \<Rightarrow> bool"
  assumes inv_step: "inv s \<Longrightarrow> inv (step s opn)"
begin

lemma inv_run: "inv s \<Longrightarrow> inv (foldl step s ops)"
  by (induction ops arbitrary: s) (auto intro: inv_step)

end

text \<open>The same with a constructor that establishes the invariant.\<close>

locale started_machine = invariant_machine step inv
  for step :: "'s \<Rightarrow> 'op \<Rightarrow> 's" and inv :: "'s \<Rightarrow> bool" +
  fixes start :: "'a \<Rightarrow> 's"
  assumes inv_start: "inv (start a)"
begin

lemma inv_reached: "inv (foldl step (start a) ops)"
  by (rule inv_run [OF inv_start])

end

end
