(* ===== verification/Tool_Registry.thy ===== *)
theory Tool_Registry
  imports Json_Payloads
begin

text \<open>
  \<open>netopsbench/platform/toolkit/mcp/registry.py\<close>: the registry of diagnosis tools and the check of a
  tool call.  A tool is known by its name, its group and its parameters; the strict check of
  one argument against a type annotation is done by pydantic and is a field of the parameter.
\<close>

section \<open>Tool specifications\<close>

record tool_parameter =
  tp_name :: string
  tp_default :: "json option"
  tp_accepts :: "json \<Rightarrow> bool"

record tool_spec =
  ts_name :: string
  ts_group :: string
  ts_parameters :: "tool_parameter list"

text \<open>A tool call: \<open>ToolAction\<close> of \<open>platform/incident/contracts.py\<close>.\<close>

record tool_action =
  ta_name :: string
  ta_arguments :: "(string, json) dict"

section \<open>Operations\<close>

definition load_tool_specs :: "tool_spec list \<Rightarrow> tool_spec list \<Rightarrow> tool_spec list \<Rightarrow> tool_spec list result" where
  "load_tool_specs inventory_tools observability_tools connectivity_tools =
     (let merged = inventory_tools @ observability_tools @ connectivity_tools
      in if \<not> distinct (map ts_name merged)
         then Inl (ValueError ''Duplicate MCP tool names detected in toolkit registry'')
         else Inr merged)"

definition group_step :: "tool_spec \<Rightarrow> (string, string list) dict \<Rightarrow> (string, string list) dict" where
  "group_step spec grouped =
     dict_set grouped (ts_group spec) (dict_get_default grouped (ts_group spec) [] @ [ts_name spec])"

definition group_tool_names :: "tool_spec list \<Rightarrow> (string, string list) dict" where
  "group_tool_names specs = fold group_step specs []"

text \<open>One parameter of the loop: it must be given unless it has a default, and have its type.\<close>

definition parameter_ok :: "(string, json) dict \<Rightarrow> tool_parameter \<Rightarrow> bool" where
  "parameter_ok arguments p =
     (case dict_get arguments (tp_name p) of
        None \<Rightarrow> tp_default p \<noteq> None
      | Some v \<Rightarrow> tp_accepts p v)"

definition validate_tool_call :: "tool_spec list \<Rightarrow> string \<Rightarrow> (string, json) dict \<Rightarrow> bool" where
  "validate_tool_call specs name arguments =
     (case find (\<lambda>s. ts_name s = name) specs of
        None \<Rightarrow> False
      | Some spec \<Rightarrow>
          if \<not> set (map fst arguments) \<subseteq> set (map tp_name (ts_parameters spec)) then False
          else list_all (parameter_ok arguments) (ts_parameters spec))"

section \<open>Properties of the operations\<close>

text \<open>Grouping keeps the order of the tools inside each group.\<close>

lemma group_tool_names_lookup:
  "dict_get_default (fold group_step specs d) g [] =
     dict_get_default d g [] @ map ts_name (filter (\<lambda>s. ts_group s = g) specs)"
  by (induction specs arbitrary: d) (auto simp: group_step_def dict_get_default_def)

lemma load_tool_specs_Inr:
  "load_tool_specs a b c = Inr specs \<Longrightarrow> specs = a @ b @ c \<and> distinct (map ts_name specs)"
  by (auto simp: load_tool_specs_def Let_def split: if_splits)

lemma find_distinct_name:
  "distinct (map ts_name specs) \<Longrightarrow> spec \<in> set specs \<Longrightarrow> find (\<lambda>s. ts_name s = ts_name spec) specs = Some spec"
  by (induction specs) (auto simp: image_iff)

lemma validate_tool_call_iff:
  assumes "distinct (map ts_name specs)"
  shows "validate_tool_call specs name arguments \<longleftrightarrow>
    (\<exists>spec \<in> set specs. ts_name spec = name \<and>
       fst ` set arguments \<subseteq> tp_name ` set (ts_parameters spec) \<and>
       (\<forall>p \<in> set (ts_parameters spec). parameter_ok arguments p))"
proof
  assume "validate_tool_call specs name arguments"
  then show "\<exists>spec \<in> set specs. ts_name spec = name \<and>
       fst ` set arguments \<subseteq> tp_name ` set (ts_parameters spec) \<and>
       (\<forall>p \<in> set (ts_parameters spec). parameter_ok arguments p)"
    by (auto simp: validate_tool_call_def list_all_iff dest!: find_Some_set split: option.splits if_splits)
next
  assume "\<exists>spec \<in> set specs. ts_name spec = name \<and>
       fst ` set arguments \<subseteq> tp_name ` set (ts_parameters spec) \<and>
       (\<forall>p \<in> set (ts_parameters spec). parameter_ok arguments p)"
  then show "validate_tool_call specs name arguments"
    using find_distinct_name [OF assms] by (auto simp: validate_tool_call_def list_all_iff)
qed

end
