(* ===== verification/Incident_Scoring.thy ===== *)
theory Incident_Scoring
  imports Scorer Topology_Model Fault_Types
begin

text \<open>
  \<open>netopsbench/platform/incident/scoring.py\<close>: the ground truth of an episode.  For a fault that
  is visible at both ends of a link, the far end of the link is an equivalent answer.  Reading
  the manifest of a topology directory is a parameter.
\<close>

section \<open>The far end of a link\<close>

definition interface_symmetric_fault_types :: "string set" where
  "interface_symmetric_fault_types = {''link_down'', ''link_flapping''}"

text \<open>The inner function \<open>location\<close>: SONiC labels on switches, Linux labels on clients.\<close>

definition peer_location :: "manifest \<Rightarrow> link_endpoint \<Rightarrow> location" where
  "peer_location m e =
     (let switch = (case device_named m (ep_device e) of Some p \<Rightarrow> dev_role p \<noteq> CLIENT | None \<Rightarrow> False)
      in \<lparr>loc_device = Some (ep_device e),
          loc_interface = Some (if switch then to_sonic_interface (Some (ep_interface e)) else ep_interface e)\<rparr>)"

fun peer_in_links :: "manifest \<Rightarrow> string \<Rightarrow> string \<Rightarrow> link list \<Rightarrow> location list" where
  "peer_in_links m device iface [] = []"
| "peer_in_links m device iface (l # ls) =
     (let left = fst (link_endpoints l); right = snd (link_endpoints l)
      in if ep_device left = device \<and> are_interfaces_equivalent (Some (ep_interface left)) (Some iface) then
           [peer_location m right]
         else if ep_device right = device \<and> are_interfaces_equivalent (Some (ep_interface right)) (Some iface) then
           [peer_location m left]
         else peer_in_links m device iface ls)"

definition find_link_peer_locations ::
  "(string \<Rightarrow> manifest result) \<Rightarrow> string option \<Rightarrow> string option \<Rightarrow> string option \<Rightarrow> location list result" where
  "find_link_peer_locations load_manifest topology_dir target_device target_interface =
     (case (topology_dir, target_device, target_interface) of
        (Some dir, Some device, Some iface) \<Rightarrow>
          if dir = [] \<or> device = [] \<or> iface = [] then Inr []
          else bindE (load_manifest dir) (\<lambda>m. Inr (peer_in_links m device iface (mf_links m)))
      | _ \<Rightarrow> Inr [])"

section \<open>Ground truth\<close>

definition build_episode_ground_truth ::
  "(string \<Rightarrow> manifest result) \<Rightarrow> episode \<Rightarrow> string option \<Rightarrow> ground_truth result" where
  "build_episode_ground_truth load_manifest e topology_dir =
     (let location = \<lparr>loc_device = ep_target_device e,
            loc_interface = (if given (ep_target_interface e) then ep_target_interface e else None)\<rparr>
      in bindE (if ep_fault_type e \<in> interface_symmetric_fault_types
                then find_link_peer_locations load_manifest topology_dir (ep_target_device e) (ep_target_interface e)
                else Inr [])
           (\<lambda>equivalent. Inr \<lparr>gt_fault_type = ep_fault_type e, gt_location = location,
                              gt_equivalent_locations = equivalent\<rparr>))"

section \<open>The far end is found\<close>

text \<open>An endpoint answers to a device and a label of one of its ports.\<close>

definition answers_to :: "string \<Rightarrow> string \<Rightarrow> link_endpoint \<Rightarrow> bool" where
  "answers_to device iface e \<longleftrightarrow>
     ep_device e = device \<and> are_interfaces_equivalent (Some (ep_interface e)) (Some iface)"

definition link_ends :: "link \<Rightarrow> link_endpoint list" where
  "link_ends l = [fst (link_endpoints l), snd (link_endpoints l)]"

text \<open>
  When exactly one endpoint of all links answers to the target, the other end of its link is
  found, wherever the link stands in the list.
\<close>

lemma peer_in_links_unique:
  assumes "l \<in> set ls" "link_endpoints l = (a, b)"
    and "answers_to d i a" "\<not> answers_to d i b"
    and "\<And>l' e. l' \<in> set ls \<Longrightarrow> l' \<noteq> l \<Longrightarrow> e \<in> set (link_ends l') \<Longrightarrow> \<not> answers_to d i e"
  shows "peer_in_links m d i ls = [peer_location m b]"
  using assms(1,5)
proof (induction ls)
  case (Cons k ks)
  show ?case
  proof (cases "k = l")
    case True
    then show ?thesis using assms(2,3) by (simp add: answers_to_def)
  next
    case False
    then have "\<not> answers_to d i (fst (link_endpoints k))" "\<not> answers_to d i (snd (link_endpoints k))"
      using Cons.prems(2) [of k] by (auto simp: link_ends_def)
    moreover have "peer_in_links m d i ks = [peer_location m b]"
      using Cons False by auto
    ultimately show ?thesis by (auto simp: answers_to_def Let_def)
  qed
qed simp

lemma peer_in_links_unique_right:
  assumes "l \<in> set ls" "link_endpoints l = (a, b)"
    and "answers_to d i b" "\<not> answers_to d i a"
    and "\<And>l' e. l' \<in> set ls \<Longrightarrow> l' \<noteq> l \<Longrightarrow> e \<in> set (link_ends l') \<Longrightarrow> \<not> answers_to d i e"
  shows "peer_in_links m d i ls = [peer_location m a]"
  using assms(1,5)
proof (induction ls)
  case (Cons k ks)
  show ?case
  proof (cases "k = l")
    case True
    then show ?thesis using assms(2,3,4) by (auto simp: answers_to_def)
  next
    case False
    then have "\<not> answers_to d i (fst (link_endpoints k))" "\<not> answers_to d i (snd (link_endpoints k))"
      using Cons.prems(2) [of k] by (auto simp: link_ends_def)
    moreover have "peer_in_links m d i ks = [peer_location m a]"
      using Cons False by auto
    ultimately show ?thesis by (auto simp: answers_to_def Let_def)
  qed
qed simp

end
