(* ===== verification/Incident_Engine.thy ===== *)
theory Incident_Engine
  imports Effects Tool_Registry Incident_Scoring
begin

text \<open>
  \<open>netopsbench/platform/incident/engine.py\<close> and \<open>contracts.py\<close>: the life of one prepared
  incident and of the diagnostic sessions on it.  The backend is the protocol of the source:
  four operations over a state of their own.  Every incident also records the calls it
  made to its backend and to the close callback (\<open>in_trace\<close>), which is what the properties
  about cleanup speak of.  Methods are atomic: the two locks of the source serialise the
  tool calls and the closing of one incident.  A clock reading is an argument.
\<close>

section \<open>Enumerations\<close>

datatype incident_state = CREATED | PREPARING | ACTIVE | CLOSING | CLOSED | BROKEN

fun incident_state_value :: "incident_state \<Rightarrow> string" where
  "incident_state_value CREATED = ''created''"
| "incident_state_value PREPARING = ''preparing''"
| "incident_state_value ACTIVE = ''active''"
| "incident_state_value CLOSING = ''closing''"
| "incident_state_value CLOSED = ''closed''"
| "incident_state_value BROKEN = ''broken''"

datatype session_state = SESSION_ACTIVE | TERMINAL

fun session_state_value :: "session_state \<Rightarrow> string" where
  "session_state_value SESSION_ACTIVE = ''active''"
| "session_state_value TERMINAL = ''terminal''"

datatype failure_domain = INFRASTRUCTURE | AGENT | PROTOCOL | TOOL_EXECUTION | CLEANUP

datatype cleanup_status = NOT_STARTED | SUCCEEDED | FAILED

datatype termination_reason = SUBMITTED | AGENT_ERROR | PROTOCOL_ERROR | LIMIT_EXHAUSTED

section \<open>Contracts\<close>

record simulator_config =
  cf_max_active_runtimes :: int
  cf_max_tool_calls :: int
  cf_max_agent_seconds :: int
  cf_max_tool_result_bytes :: int
  cf_orphan_lease_ttl_seconds :: int

definition default_simulator_config :: simulator_config where
  "default_simulator_config =
     \<lparr>cf_max_active_runtimes = 1, cf_max_tool_calls = 20, cf_max_agent_seconds = 300,
      cf_max_tool_result_bytes = 8192, cf_orphan_lease_ttl_seconds = 3600\<rparr>"

definition validate_lease_deadline :: "simulator_config \<Rightarrow> simulator_config result" where
  "validate_lease_deadline c =
     (if cf_orphan_lease_ttl_seconds c < cf_max_agent_seconds c + 300
      then Inl (ValidationError
        ''orphan_lease_ttl_seconds must cover max_agent_seconds plus 300 seconds of cleanup grace'')
      else Inr c)"

definition make_simulator_config :: "simulator_config \<Rightarrow> simulator_config result" where
  "make_simulator_config c =
     (if cf_max_active_runtimes c < 1 \<or> cf_max_tool_calls c < 1 \<or> cf_max_agent_seconds c < 1
         \<or> cf_max_tool_result_bytes c < 1024 \<or> cf_orphan_lease_ttl_seconds c < 1
      then Inl (ValidationError ''SimulatorConfig'')
      else validate_lease_deadline c)"

record diagnosis_submission =
  ds_verdict :: string
  ds_fault_type :: "string option"
  ds_location :: location
  ds_evidence :: "string list"
  ds_confidence :: rat
  ds_reasoning :: string

definition make_diagnosis_submission :: "diagnosis_submission \<Rightarrow> diagnosis_submission result" where
  "make_diagnosis_submission d =
     (if ds_verdict d \<notin> {''fault_detected'', ''network_healthy'', ''inconclusive''}
         \<or> ds_confidence d < 0 \<or> 1 < ds_confidence d
      then Inl (ValidationError ''DiagnosisSubmission'') else Inr d)"

record agent_usage =
  us_input_tokens :: int
  us_output_tokens :: int

definition total_tokens :: "agent_usage \<Rightarrow> int" where
  "total_tokens u = us_input_tokens u + us_output_tokens u"

datatype action_request = ToolRequest tool_action | SubmitRequest diagnosis_submission agent_usage

section \<open>Failures and transitions\<close>

record execution_failure =
  ef_domain :: failure_domain
  ef_phase :: string
  ef_message :: string
  ef_error_type :: "string option"

record evaluation_metrics =
  em_correct_verdict :: bool
  em_correct_device :: bool
  em_correct_interface :: bool
  em_correct_fault_type :: bool
  em_fault_type_kpi :: rat

text \<open>The metrics dictionary: its fixed entries, and the entries present only after a submission.\<close>

record session_metrics =
  sm_tool_calls :: int
  sm_elapsed_seconds :: rat
  sm_evaluation :: "evaluation_metrics option"
  sm_usage :: "agent_usage option"

record session_transition =
  tr_valid :: bool
  tr_case_valid :: bool
  tr_state :: session_state
  tr_observation :: "(string, json) dict"
  tr_reward :: "rat option"
  tr_reward_components :: "(string, rat) dict"
  tr_metrics :: session_metrics
  tr_termination_reason :: "termination_reason option"
  tr_failure :: "execution_failure option"
  tr_cleanup_failure :: "execution_failure option"
  tr_cleanup_status :: cleanup_status
  tr_error :: "string option"

definition plain_transition :: "session_state \<Rightarrow> session_metrics \<Rightarrow> session_transition" where
  "plain_transition st metrics =
     \<lparr>tr_valid = True, tr_case_valid = True, tr_state = st, tr_observation = [], tr_reward = None,
      tr_reward_components = [], tr_metrics = metrics, tr_termination_reason = None, tr_failure = None,
      tr_cleanup_failure = None, tr_cleanup_status = NOT_STARTED, tr_error = None\<rparr>"

section \<open>Backends, incidents and sessions\<close>

type_synonym observation = "(string, json) dict"

record 'b backend =
  bk_topology_dir :: "'b \<Rightarrow> string option"
  bk_prepare :: "scenario \<Rightarrow> ('b, observation) action"
  bk_call_tool :: "tool_action \<Rightarrow> ('b, json) action"
  bk_refresh :: "rat \<Rightarrow> ('b, unit) action"
  bk_finish :: "bool \<Rightarrow> ('b, unit) action"

datatype backend_call =
    PrepareCall
  | ToolCall tool_action
  | RefreshCall rat
  | FinishCall bool
  | CloseNotified

text \<open>
  The engine: its backend, evaluator, default configuration and close callback, and what the
  module imports from elsewhere (the tool registry, reading a manifest, the scenario's digest).
\<close>

record 'b engine =
  en_backend :: "'b backend"
  en_judge :: "judge option"
  en_default_session_config :: "simulator_config option"
  en_on_close :: bool
  en_tools :: "tool_spec list"
  en_load_manifest :: "string \<Rightarrow> manifest result"
  en_digest :: "scenario \<Rightarrow> string"

record 'b incident =
  in_scenario :: scenario
  in_backend :: 'b
  in_state :: incident_state
  in_observation :: observation
  in_failure :: "execution_failure option"
  in_cleanup_failure :: "execution_failure option"
  in_cleanup_status :: cleanup_status
  in_close_notified :: bool
  in_trace :: "backend_call list"

definition new_incident :: "scenario \<Rightarrow> 'b \<Rightarrow> 'b incident" where
  "new_incident sc b =
     \<lparr>in_scenario = sc, in_backend = b, in_state = CREATED, in_observation = [], in_failure = None,
      in_cleanup_failure = None, in_cleanup_status = NOT_STARTED, in_close_notified = False, in_trace = []\<rparr>"

record session =
  ss_config :: simulator_config
  ss_state :: session_state
  ss_started_at :: rat
  ss_tool_calls :: int
  ss_tool_call_records :: "tool_action list"
  ss_evaluation_result :: "evaluation_result option"

definition new_session :: "simulator_config \<Rightarrow> rat \<Rightarrow> session" where
  "new_session config now =
     \<lparr>ss_config = config, ss_state = SESSION_ACTIVE, ss_started_at = now, ss_tool_calls = 0,
      ss_tool_call_records = [], ss_evaluation_result = None\<rparr>"

section \<open>The incident\<close>

text \<open>Python's \<open>str\<close> and truth of a JSON value.\<close>

fun py_str_json :: "json \<Rightarrow> string" where
  "py_str_json JNull = ''None''"
| "py_str_json (JBool b) = (if b then ''True'' else ''False'')"
| "py_str_json (JInt i) = int_str i"
| "py_str_json (JFloat t) = t"
| "py_str_json (JStr s) = s"
| "py_str_json (JList xs) = ''['' @ str_join '', ''
     (map (\<lambda>v. case v of JStr s \<Rightarrow> py_repr s | _ \<Rightarrow> py_str_json v) xs) @ '']''"
| "py_str_json (JObj kvs) = CHR 0x7B # str_join '', ''
     (map (\<lambda>(k, v). py_repr k @ '': '' @ (case v of JStr s \<Rightarrow> py_repr s | _ \<Rightarrow> py_str_json v)) kvs) @ [CHR 0x7D]"

fun truthy :: "json \<Rightarrow> bool" where
  "truthy JNull = False"
| "truthy (JBool b) = b"
| "truthy (JInt i) = (i \<noteq> 0)"
| "truthy (JFloat t) = (t \<notin> {''0.0'', ''-0.0''})"
| "truthy (JStr s) = (s \<noteq> [])"
| "truthy (JList xs) = (xs \<noteq> [])"
| "truthy (JObj kvs) = (kvs \<noteq> [])"

definition case_id :: "'b engine \<Rightarrow> 'b incident \<Rightarrow> string" where
  "case_id eng i =
     (let value = dict_get_default (in_observation i) ''case_id'' JNull
      in if truthy value then py_str_json value else ''case-'' @ take 12 (en_digest eng (in_scenario i)))"

definition notify_close :: "'b engine \<Rightarrow> 'b incident \<Rightarrow> 'b incident" where
  "notify_close eng i =
     (if \<not> in_close_notified i \<and> en_on_close eng
      then i\<lparr>in_close_notified := True, in_trace := in_trace i @ [CloseNotified]\<rparr> else i)"

definition finish_backend :: "'b engine \<Rightarrow> bool \<Rightarrow> 'b incident \<Rightarrow> 'b incident" where
  "finish_backend eng broken i =
     (case bk_finish (en_backend eng) broken (in_backend i) of
        (Inl e, b) \<Rightarrow>
          notify_close eng
            (i\<lparr>in_backend := b, in_trace := in_trace i @ [FinishCall broken], in_cleanup_status := FAILED,
               in_cleanup_failure := Some \<lparr>ef_domain = CLEANUP, ef_phase = ''cleanup'',
                  ef_message = exc_message e, ef_error_type = Some (exc_type e)\<rparr>,
               in_state := BROKEN\<rparr>)
      | (Inr _, b) \<Rightarrow>
          notify_close eng
            (i\<lparr>in_backend := b, in_trace := in_trace i @ [FinishCall broken], in_cleanup_status := SUCCEEDED,
               in_state := (if broken then BROKEN else CLOSED)\<rparr>))"

definition prepare_incident :: "'b engine \<Rightarrow> ('b incident, unit) action" where
  "prepare_incident eng i =
     (if in_state i \<noteq> CREATED then
        (Inl (RuntimeError (''Incident cannot prepare from '' @ incident_state_value (in_state i))), i)
      else
        (let i1 = i\<lparr>in_state := PREPARING, in_trace := in_trace i @ [PrepareCall]\<rparr>
         in case bk_prepare (en_backend eng) (in_scenario i) (in_backend i) of
              (Inr obs, b) \<Rightarrow> (Inr (), i1\<lparr>in_backend := b, in_observation := obs, in_state := ACTIVE\<rparr>)
            | (Inl e, b) \<Rightarrow>
                (Inr (), finish_backend eng True
                   (i1\<lparr>in_backend := b,
                       in_failure := Some \<lparr>ef_domain = INFRASTRUCTURE, ef_phase = ''prepare'',
                          ef_message = exc_message e, ef_error_type = Some (exc_type e)\<rparr>,
                       in_state := BROKEN\<rparr>))))"

definition engine_prepare :: "'b engine \<Rightarrow> scenario \<Rightarrow> 'b \<Rightarrow> 'b incident" where
  "engine_prepare eng sc b = snd (prepare_incident eng (new_incident sc b))"

definition not_active :: "'b incident \<Rightarrow> exc" where
  "not_active i = RuntimeError (''Incident is not active: '' @ incident_state_value (in_state i))"

definition require_incident_active :: "('b incident, unit) action" where
  "require_incident_active = requireS (\<lambda>i. in_state i = ACTIVE) not_active"

definition refresh_lease :: "'b engine \<Rightarrow> rat \<Rightarrow> ('b incident, unit) action" where
  "refresh_lease eng min_seconds i =
     (case bk_refresh (en_backend eng) min_seconds (in_backend i) of
        (r, b) \<Rightarrow> (r, i\<lparr>in_backend := b, in_trace := in_trace i @ [RefreshCall min_seconds]\<rparr>))"

definition run_tool :: "'b engine \<Rightarrow> tool_action \<Rightarrow> ('b incident, json) action" where
  "run_tool eng act i =
     (case bk_call_tool (en_backend eng) act (in_backend i) of
        (r, b) \<Rightarrow> (r, i\<lparr>in_backend := b, in_trace := in_trace i @ [ToolCall act]\<rparr>))"

text \<open>\<open>open_session\<close>; the clock reading \<open>now\<close> is the one its constructor takes.\<close>

definition open_session ::
  "'b engine \<Rightarrow> simulator_config option \<Rightarrow> rat \<Rightarrow> ('b incident, session) action" where
  "open_session eng config now =
     bindS require_incident_active (\<lambda>_.
       case (case config of Some c \<Rightarrow> Some c | None \<Rightarrow> en_default_session_config eng) of
         None \<Rightarrow> raiseS (ValueError
           ''A SimulatorConfig is required when the incident has no default session config'')
       | Some c \<Rightarrow>
           bindS (refresh_lease eng (of_int (cf_max_agent_seconds c))) (\<lambda>_. returnS (new_session c now)))"

definition incident_call_tool :: "'b engine \<Rightarrow> tool_action \<Rightarrow> ('b incident, json) action" where
  "incident_call_tool eng act =
     bindS require_incident_active (\<lambda>_.
       if \<not> validate_tool_call (en_tools eng) (ta_name act) (ta_arguments act) then
         raiseS (ValueError (''Invalid tool action: '' @ ta_name act))
       else
         bindS (refresh_lease eng 0) (\<lambda>_.
         bindS (run_tool eng act) (\<lambda>r.
         bindS (refresh_lease eng 0) (\<lambda>_. returnS r))))"

definition tool_call_json :: "tool_action \<Rightarrow> json" where
  "tool_call_json act = JObj [(''tool'', JStr (ta_name act)), (''args'', JObj (ta_arguments act))]"

text \<open>The metadata of an agent's output matters only for the two token counts the scorer reads.\<close>

definition agent_output_of ::
  "diagnosis_submission \<Rightarrow> json list \<Rightarrow> rat \<Rightarrow> int \<times> int \<Rightarrow> agent_output" where
  "agent_output_of d tool_calls time_taken tokens =
     \<lparr>ao_verdict = ds_verdict d, ao_fault_type = ds_fault_type d, ao_location = Some (ds_location d),
      ao_evidence = ds_evidence d, ao_confidence = ds_confidence d, ao_reasoning = ds_reasoning d,
      ao_tool_calls = tool_calls, ao_time_taken_seconds = max 0 time_taken,
      ao_input_tokens = fst tokens, ao_output_tokens = snd tokens\<rparr>"

definition incident_ground_truth :: "'b engine \<Rightarrow> 'b incident \<Rightarrow> ground_truth option result" where
  "incident_ground_truth eng i =
     (let e = sc_episode (in_scenario i)
      in if is_healthy e then Inr None
         else bindE (build_episode_ground_truth (en_load_manifest eng) e
                      (bk_topology_dir (en_backend eng) (in_backend i))) (\<lambda>gt. Inr (Some gt)))"

definition metrics_of_evaluation :: "evaluation_result \<Rightarrow> evaluation_metrics" where
  "metrics_of_evaluation r =
     \<lparr>em_correct_verdict = ev_correct_verdict r, em_correct_device = ev_correct_device r,
      em_correct_interface = ev_correct_interface r, em_correct_fault_type = ev_correct_fault_type r,
      em_fault_type_kpi = (if ev_correct_fault_type r then 1 else 0)\<rparr>"

definition incident_evaluate ::
  "'b engine \<Rightarrow> diagnosis_submission \<Rightarrow> json list \<Rightarrow> rat \<Rightarrow> int \<times> int \<Rightarrow>
     ('b incident, rat \<times> evaluation_metrics \<times> evaluation_result) action" where
  "incident_evaluate eng d tool_calls time_taken tokens =
     bindS require_incident_active (\<lambda>_.
     bindS (refresh_lease eng 0) (\<lambda>_ i.
       (bindE (incident_ground_truth eng i) (\<lambda>gt.
        bindE (evaluate (en_judge eng) (agent_output_of d tool_calls time_taken tokens) gt (case_id eng i)) (\<lambda>r.
        Inr (ev_score r, metrics_of_evaluation r, r))), i)))"

definition close_incident :: "'b engine \<Rightarrow> 'b incident \<Rightarrow> 'b incident" where
  "close_incident eng i =
     (if in_state i = CLOSED then i
      else if in_cleanup_status i \<noteq> NOT_STARTED then i
      else (let broken = (in_state i = BROKEN)
            in finish_backend eng broken (if broken then i else i\<lparr>in_state := CLOSING\<rparr>)))"

end
