(* ===== verification/Diagnostic_Session.thy ===== *)
theory Diagnostic_Session
  imports Incident_Engine
begin

text \<open>
  The second half of \<open>netopsbench/platform/incident/engine.py\<close>: \<open>DiagnosticSession\<close>, one agent's
  counters and evaluation over a prepared incident.  The incident is shared: a session
  method maps the session and the incident it refers to.  Then the life cycles of both: cleanup
  happens at most once, and the budget of a session is never exceeded.
\<close>

section \<open>The session\<close>

definition elapsed :: "session \<Rightarrow> rat \<Rightarrow> rat" where
  "elapsed s now = max 0 (now - ss_started_at s)"

definition plain_metrics :: "session \<Rightarrow> rat \<Rightarrow> session_metrics" where
  "plain_metrics s t =
     \<lparr>sm_tool_calls = ss_tool_calls s, sm_elapsed_seconds = t, sm_evaluation = None, sm_usage = None\<rparr>"

definition bounded_tool_observation :: "session \<Rightarrow> observation \<Rightarrow> observation" where
  "bounded_tool_observation s value =
     (case compact_json (JObj value) (cf_max_tool_result_bytes (ss_config s)) of
        JObj kvs \<Rightarrow> kvs
      | bounded \<Rightarrow> [(''result'', bounded)])"

definition session_require_active :: "(session \<times> 'b incident, unit) action" where
  "session_require_active =
     bindS (requireS (\<lambda>(s, i). ss_state s = SESSION_ACTIVE)
              (\<lambda>(s, i). RuntimeError (''Diagnostic session is not active: '' @ session_state_value (ss_state s))))
       (\<lambda>_. requireS (\<lambda>(s, i). in_state i = ACTIVE) (\<lambda>(s, i). not_active i))"

definition zero_reward ::
  "session \<Rightarrow> rat \<Rightarrow> execution_failure \<Rightarrow> termination_reason \<Rightarrow> session_transition" where
  "zero_reward s t failure reason =
     (plain_transition TERMINAL (plain_metrics s t))
       \<lparr>tr_reward := Some 0, tr_reward_components := [(''outcome'', 0)], tr_termination_reason := Some reason,
        tr_failure := Some failure, tr_error := Some (ef_message failure)\<rparr>"

definition limit_message :: "session \<Rightarrow> rat \<Rightarrow> string option" where
  "limit_message s t =
     (if of_int (cf_max_agent_seconds (ss_config s)) < t then Some ''max_agent_seconds exceeded''
      else if cf_max_tool_calls (ss_config s) \<le> ss_tool_calls s then Some ''max_tool_calls exceeded''
      else None)"

definition limit_transition :: "session \<Rightarrow> rat \<Rightarrow> (session_transition \<times> session) option" where
  "limit_transition s t =
     (case limit_message s t of
        None \<Rightarrow> None
      | Some message \<Rightarrow>
          Some (zero_reward s t
                  \<lparr>ef_domain = AGENT, ef_phase = ''limits'', ef_message = message, ef_error_type = None\<rparr>
                  LIMIT_EXHAUSTED,
                s\<lparr>ss_state := TERMINAL\<rparr>))"

text \<open>A tool call that failed, and one that returned a result; the session stays active.\<close>

definition tool_failure :: "session \<Rightarrow> rat \<Rightarrow> tool_action \<Rightarrow> execution_failure \<Rightarrow> session_transition" where
  "tool_failure s t act failure =
     (plain_transition (ss_state s) (plain_metrics s t))
       \<lparr>tr_observation := bounded_tool_observation s
          [(''tool'', JStr (ta_name act)), (''success'', JBool False), (''error'', JStr (ef_message failure))],
        tr_failure := Some failure, tr_error := Some (ef_message failure)\<rparr>"

definition tool_success :: "session \<Rightarrow> rat \<Rightarrow> tool_action \<Rightarrow> json \<Rightarrow> session_transition" where
  "tool_success s t act r =
     (plain_transition (ss_state s) (plain_metrics s t))
       \<lparr>tr_observation := bounded_tool_observation s [(''tool'', JStr (ta_name act)), (''result'', r)]\<rparr>"

definition session_call_tool ::
  "'b engine \<Rightarrow> tool_action \<Rightarrow> rat \<Rightarrow> (session \<times> 'b incident, session_transition) action" where
  "session_call_tool eng act now =
     bindS session_require_active (\<lambda>_ (s, i).
       let t = elapsed s now
       in case limit_transition s t of
            Some (tr, s') \<Rightarrow> (Inr tr, (s', i))
          | None \<Rightarrow>
              (let s1 = s\<lparr>ss_tool_calls := ss_tool_calls s + 1,
                          ss_tool_call_records := ss_tool_call_records s @ [act]\<rparr>
               in if \<not> validate_tool_call (en_tools eng) (ta_name act) (ta_arguments act) then
                    (Inr (tool_failure s1 t act
                        \<lparr>ef_domain = PROTOCOL, ef_phase = ''tool_validation'',
                         ef_message = ''Invalid tool action: '' @ ta_name act, ef_error_type = None\<rparr>), (s1, i))
                  else (case incident_call_tool eng act i of
                      (Inl e, i') \<Rightarrow>
                        (Inr (tool_failure s1 t act
                           \<lparr>ef_domain = TOOL_EXECUTION, ef_phase = ''tool_execution'',
                            ef_message = exc_message e, ef_error_type = Some (exc_type e)\<rparr>), (s1, i'))
                    | (Inr r, i') \<Rightarrow> (Inr (tool_success s1 t act r), (s1, i')))))"

text \<open>
  The optional arguments of \<open>submit\<close>.  The agent's own list of tool calls replaces the recorded
  one unless it is empty; \<open>sa_tokens\<close> stands for the two token counts in \<open>metadata\<close>.
\<close>

record submit_args =
  sa_diagnosis :: diagnosis_submission
  sa_usage :: "agent_usage option"
  sa_tool_calls :: "json list"
  sa_time_taken :: "rat option"
  sa_tokens :: "int \<times> int"

definition accounting_tool_calls :: "session \<Rightarrow> submit_args \<Rightarrow> json list" where
  "accounting_tool_calls s a =
     (if sa_tool_calls a \<noteq> [] then sa_tool_calls a else map tool_call_json (ss_tool_call_records s))"

definition accounting_time :: "rat \<Rightarrow> submit_args \<Rightarrow> rat" where
  "accounting_time t a = (case sa_time_taken a of None \<Rightarrow> t | Some x \<Rightarrow> max 0 x)"

definition session_submit ::
  "'b engine \<Rightarrow> submit_args \<Rightarrow> rat \<Rightarrow> (session \<times> 'b incident, session_transition) action" where
  "session_submit eng a now =
     bindS session_require_active (\<lambda>_ (s, i).
       let t = elapsed s now
       in case limit_transition s t of
            Some (tr, s') \<Rightarrow> (Inr tr, (s', i))
          | None \<Rightarrow>
              (case incident_evaluate eng (sa_diagnosis a) (accounting_tool_calls s a) (accounting_time t a)
                      (sa_tokens a) i of
                 (Inl e, i') \<Rightarrow> (Inl e, (s, i'))
               | (Inr (reward, em, r), i') \<Rightarrow>
                   (Inr ((plain_transition TERMINAL
                            ((plain_metrics s t)\<lparr>sm_tool_calls := int (length (accounting_tool_calls s a)),
                               sm_evaluation := Some em, sm_usage := sa_usage a\<rparr>))
                         \<lparr>tr_reward := Some reward, tr_reward_components := [(''outcome'', reward)],
                          tr_termination_reason := Some SUBMITTED\<rparr>),
                    (s\<lparr>ss_evaluation_result := Some r, ss_state := TERMINAL\<rparr>, i'))))"

definition terminate_failure ::
  "failure_domain \<Rightarrow> string \<Rightarrow> termination_reason \<Rightarrow> rat \<Rightarrow> (session \<times> 'b incident, session_transition) action" where
  "terminate_failure domain message reason now =
     bindS session_require_active (\<lambda>_ (s, i).
       (Inr (zero_reward s (elapsed s now)
               \<lparr>ef_domain = domain, ef_phase = ''diagnosis'', ef_message = message, ef_error_type = None\<rparr> reason),
        (s\<lparr>ss_state := TERMINAL\<rparr>, i)))"

section \<open>Runs\<close>

datatype incident_op =
    OpPrepare
  | OpOpen "simulator_config option" rat
  | OpCallTool tool_action
  | OpEvaluate diagnosis_submission "json list" rat "int \<times> int"
  | OpClose

definition incident_step :: "'b engine \<Rightarrow> 'b incident \<Rightarrow> incident_op \<Rightarrow> 'b incident" where
  "incident_step eng i opn =
     (case opn of
        OpPrepare \<Rightarrow> snd (prepare_incident eng i)
      | OpOpen c now \<Rightarrow> snd (open_session eng c now i)
      | OpCallTool act \<Rightarrow> snd (incident_call_tool eng act i)
      | OpEvaluate d tcs t k \<Rightarrow> snd (incident_evaluate eng d tcs t k i)
      | OpClose \<Rightarrow> close_incident eng i)"

datatype session_op =
    SessionTool tool_action rat
  | SessionSubmit submit_args rat
  | SessionTerminate failure_domain string termination_reason rat

definition session_run ::
  "'b engine \<Rightarrow> session_op \<Rightarrow> (session \<times> 'b incident, session_transition) action" where
  "session_run eng opn =
     (case opn of
        SessionTool act now \<Rightarrow> session_call_tool eng act now
      | SessionSubmit a now \<Rightarrow> session_submit eng a now
      | SessionTerminate d m r now \<Rightarrow> terminate_failure d m r now)"

definition session_step :: "'b engine \<Rightarrow> session \<times> 'b incident \<Rightarrow> session_op \<Rightarrow> session \<times> 'b incident" where
  "session_step eng si opn = snd (session_run eng opn si)"

section \<open>Cleanup happens at most once\<close>

fun quiet_call :: "backend_call \<Rightarrow> bool" where
  "quiet_call (FinishCall b) = False"
| "quiet_call CloseNotified = False"
| "quiet_call _ = True"

definition is_finish :: "backend_call \<Rightarrow> bool" where
  "is_finish c \<longleftrightarrow> (case c of FinishCall b \<Rightarrow> True | _ \<Rightarrow> False)"

text \<open>The steps of an active incident: they only talk to the backend.\<close>

definition quiet_ext :: "'b incident \<Rightarrow> 'b incident \<Rightarrow> bool" where
  "quiet_ext i j \<longleftrightarrow>
     (\<exists>b cs. j = i\<lparr>in_backend := b, in_trace := in_trace i @ cs\<rparr> \<and> list_all quiet_call cs)"

lemma quiet_ext_refl [simp]: "quiet_ext i i"
  unfolding quiet_ext_def by (rule exI [of _ "in_backend i"], rule exI [of _ "[]"]) simp

lemma quiet_ext_step:
  "quiet_ext i j \<Longrightarrow> quiet_call c \<Longrightarrow> quiet_ext i (j\<lparr>in_backend := b, in_trace := in_trace j @ [c]\<rparr>)"
proof -
  assume "quiet_ext i j" "quiet_call c"
  then obtain b' cs where "j = i\<lparr>in_backend := b', in_trace := in_trace i @ cs\<rparr>" "list_all quiet_call cs"
    unfolding quiet_ext_def by blast
  then have "j\<lparr>in_backend := b, in_trace := in_trace j @ [c]\<rparr>
      = i\<lparr>in_backend := b, in_trace := in_trace i @ (cs @ [c])\<rparr>" "list_all quiet_call (cs @ [c])"
    using \<open>quiet_call c\<close> by simp_all
  then show ?thesis unfolding quiet_ext_def by blast
qed

lemma refresh_lease_quiet: "quiet_ext i j \<Longrightarrow> quiet_ext i (snd (refresh_lease eng x j))"
  by (simp add: refresh_lease_def quiet_ext_step split: prod.split)

lemma run_tool_quiet: "quiet_ext i j \<Longrightarrow> quiet_ext i (snd (run_tool eng act j))"
  by (simp add: run_tool_def quiet_ext_step split: prod.split)

lemma require_active_state [simp]: "snd (require_incident_active i) = i"
  by (simp add: require_incident_active_def)

lemma returnS_state [simp]: "snd (returnS x s) = s" "snd (raiseS e s) = s"
  by (simp_all add: returnS_def raiseS_def)

lemma incident_call_tool_quiet: "quiet_ext i (snd (incident_call_tool eng act i))"
  unfolding incident_call_tool_def
  by (rule bindS_keeps [where P = "quiet_ext i"])
    (auto intro!: bindS_keeps [where P = "quiet_ext i"] refresh_lease_quiet run_tool_quiet)

lemma open_session_quiet: "quiet_ext i (snd (open_session eng c now i))"
  unfolding open_session_def
  by (rule bindS_keeps [where P = "quiet_ext i"])
    (auto intro!: bindS_keeps [where P = "quiet_ext i"] refresh_lease_quiet split: option.split)

lemma incident_evaluate_quiet: "quiet_ext i (snd (incident_evaluate eng d tcs t k i))"
  unfolding incident_evaluate_def
  by (rule bindS_keeps [where P = "quiet_ext i"])
    (auto intro!: bindS_keeps [where P = "quiet_ext i"] refresh_lease_quiet)

text \<open>An incident that is not active makes no call at all.\<close>

lemma inactive_idle:
  assumes "in_state i \<noteq> ACTIVE"
  shows "snd (incident_call_tool eng act i) = i" "snd (open_session eng c now i) = i"
    "snd (incident_evaluate eng d tcs t k i) = i"
  using assms
  by (simp_all add: incident_call_tool_def open_session_def incident_evaluate_def require_incident_active_def
      requireS_simps)

text \<open>
  The invariant of an incident.  Before cleanup it is created or active and has made only quiet
  calls; afterwards its last calls are the one \<open>finish\<close>, with \<open>broken\<close> telling whether the
  preparation had failed, and the notification.
\<close>

definition cleanup_calls :: "'b engine \<Rightarrow> bool \<Rightarrow> backend_call list" where
  "cleanup_calls eng broken = FinishCall broken # (if en_on_close eng then [CloseNotified] else [])"

definition before_cleanup :: "'b incident \<Rightarrow> bool" where
  "before_cleanup i \<longleftrightarrow>
     in_cleanup_status i = NOT_STARTED \<and> in_state i \<in> {CREATED, ACTIVE} \<and> \<not> in_close_notified i \<and>
     in_failure i = None \<and> in_cleanup_failure i = None \<and> list_all quiet_call (in_trace i) \<and>
     (in_state i = CREATED \<longrightarrow> in_trace i = [])"

definition after_cleanup :: "'b engine \<Rightarrow> 'b incident \<Rightarrow> bool" where
  "after_cleanup eng i \<longleftrightarrow>
     in_cleanup_status i \<noteq> NOT_STARTED \<and> in_state i \<in> {CLOSED, BROKEN} \<and> in_close_notified i = en_on_close eng \<and>
     (\<exists>cs. list_all quiet_call cs \<and> in_trace i = cs @ cleanup_calls eng (in_failure i \<noteq> None)) \<and>
     (in_state i = CLOSED \<longleftrightarrow> in_failure i = None \<and> in_cleanup_status i = SUCCEEDED) \<and>
     (in_cleanup_status i = FAILED \<longleftrightarrow> in_cleanup_failure i \<noteq> None)"

definition incident_ok :: "'b engine \<Rightarrow> 'b incident \<Rightarrow> bool" where
  "incident_ok eng i \<longleftrightarrow> before_cleanup i \<or> after_cleanup eng i"

lemma incident_ok_quiet:
  assumes "incident_ok eng i" "in_state i = ACTIVE" "quiet_ext i j"
  shows "incident_ok eng j \<and> in_state j = ACTIVE"
  using assms by (auto simp: incident_ok_def quiet_ext_def before_cleanup_def after_cleanup_def)

lemma finish_backend_ok:
  assumes "in_cleanup_status i = NOT_STARTED" "\<not> in_close_notified i" "in_cleanup_failure i = None"
    "list_all quiet_call (in_trace i)" "broken = (in_failure i \<noteq> None)"
  shows "after_cleanup eng (finish_backend eng broken i)"
  using assms
  by (auto simp: finish_backend_def after_cleanup_def notify_close_def cleanup_calls_def
      split: prod.split sum.split)

lemma prepare_incident_ok:
  assumes "incident_ok eng i"
  shows "incident_ok eng (snd (prepare_incident eng i))"
proof (cases "in_state i = CREATED")
  case False
  then show ?thesis using assms by (simp add: prepare_incident_def)
next
  case True
  then have b: "before_cleanup i" using assms by (auto simp: incident_ok_def after_cleanup_def)
  obtain r b' where bk: "bk_prepare (en_backend eng) (in_scenario i) (in_backend i) = (r, b')" by fastforce
  show ?thesis
  proof (cases r)
    case (Inl e)
    then show ?thesis
      using b True by (simp add: prepare_incident_def bk incident_ok_def, intro disjI2 finish_backend_ok)
        (auto simp: before_cleanup_def)
  next
    case (Inr obs)
    then show ?thesis using b True by (auto simp: prepare_incident_def bk incident_ok_def before_cleanup_def)
  qed
qed

lemma close_incident_after: "incident_ok eng i \<Longrightarrow> after_cleanup eng (close_incident eng i)"
proof (cases "before_cleanup i")
  case True
  then have "in_state i \<in> {CREATED, ACTIVE}" by (simp add: before_cleanup_def)
  then show ?thesis
    using True by (auto simp: close_incident_def before_cleanup_def intro!: finish_backend_ok)
next
  case False
  moreover assume "incident_ok eng i"
  ultimately have "after_cleanup eng i" by (simp add: incident_ok_def)
  then show ?thesis by (auto simp: close_incident_def after_cleanup_def)
qed

lemma close_incident_idem: "after_cleanup eng i \<Longrightarrow> close_incident eng i = i"
  by (auto simp: close_incident_def after_cleanup_def)

lemma incident_step_ok:
  assumes "incident_ok eng i"
  shows "incident_ok eng (incident_step eng i opn)"
proof (cases opn)
  case OpPrepare
  then show ?thesis using prepare_incident_ok [OF assms] by (simp add: incident_step_def)
next
  case OpClose
  then show ?thesis using close_incident_after [OF assms] by (simp add: incident_step_def incident_ok_def)
qed (cases "in_state i = ACTIVE";
     simp add: incident_step_def inactive_idle assms incident_ok_quiet [THEN conjunct1, OF assms]
       open_session_quiet incident_call_tool_quiet incident_evaluate_quiet)+

lemma new_incident_ok: "incident_ok eng (new_incident sc b)"
  by (simp add: incident_ok_def before_cleanup_def new_incident_def)

interpretation incidents: started_machine "incident_step eng" "incident_ok eng" "\<lambda>(sc, b). new_incident sc b" for eng
  by unfold_locales (auto intro: incident_step_ok new_incident_ok)

lemma after_cleanup_step: "after_cleanup eng i \<Longrightarrow> incident_step eng i opn = i"
proof (cases opn)
  case OpPrepare
  moreover assume "after_cleanup eng i"
  ultimately show ?thesis by (auto simp: incident_step_def prepare_incident_def after_cleanup_def)
next
  case OpClose
  moreover assume "after_cleanup eng i"
  ultimately show ?thesis using close_incident_idem by (simp add: incident_step_def)
qed (auto simp: incident_step_def after_cleanup_def intro: inactive_idle)

lemma quiet_no_finish: "list_all quiet_call cs \<Longrightarrow> filter is_finish cs = [] \<and> filter ((=) CloseNotified) cs = []"
proof (induction cs)
  case (Cons c cs)
  then show ?case by (cases c) (auto simp: is_finish_def)
qed simp

lemma incident_ok_counts:
  assumes "incident_ok eng i"
  shows "filter is_finish (in_trace i) =
      (if in_cleanup_status i = NOT_STARTED then [] else [FinishCall (in_failure i \<noteq> None)])"
    "filter ((=) CloseNotified) (in_trace i) =
      (if en_on_close eng \<and> in_cleanup_status i \<noteq> NOT_STARTED then [CloseNotified] else [])"
    "in_cleanup_status i = NOT_STARTED \<longleftrightarrow> in_state i \<in> {CREATED, ACTIVE}"
    "in_state i \<in> {CREATED, ACTIVE, CLOSED, BROKEN}"
  using assms
  by (auto simp: incident_ok_def before_cleanup_def after_cleanup_def cleanup_calls_def quiet_no_finish
      is_finish_def)

section \<open>The budget of a session\<close>

definition is_tool_call :: "backend_call \<Rightarrow> bool" where
  "is_tool_call c \<longleftrightarrow> (case c of ToolCall act \<Rightarrow> True | _ \<Rightarrow> False)"

definition tool_count :: "'b incident \<Rightarrow> nat" where
  "tool_count i = length (filter is_tool_call (in_trace i))"

lemma incident_call_tool_count: "tool_count (snd (incident_call_tool eng act i)) \<le> Suc (tool_count i)"
  by (auto simp: incident_call_tool_def bindS_def require_incident_active_def requireS_def refresh_lease_def
      run_tool_def raiseS_def returnS_def tool_count_def is_tool_call_def split: prod.split sum.split)

lemma incident_evaluate_count: "tool_count (snd (incident_evaluate eng d tcs t k i)) = tool_count i"
  by (auto simp: incident_evaluate_def bindS_def require_incident_active_def requireS_def refresh_lease_def
      tool_count_def is_tool_call_def split: prod.split sum.split)

text \<open>A session method on an ended session or an inactive incident raises and changes nothing.\<close>

lemma session_inactive:
  assumes "ss_state s = TERMINAL \<or> in_state i \<noteq> ACTIVE"
  shows "\<exists>msg. session_run eng opn (s, i) = (Inl (RuntimeError msg), (s, i))"
  using assms
  by (cases opn)
    (auto simp: session_run_def session_call_tool_def session_submit_def terminate_failure_def
      session_require_active_def bindS_def requireS_def not_active_def)

lemma session_active_eq:
  assumes "ss_state s = SESSION_ACTIVE" "in_state i = ACTIVE"
  shows "bindS session_require_active f (s, i) = f () (s, i)"
  using assms by (simp add: session_require_active_def bindS_def requireS_def)

definition session_ok :: "simulator_config \<Rightarrow> 'b incident \<Rightarrow> session \<times> 'b incident \<Rightarrow> bool" where
  "session_ok c0 i0 si \<longleftrightarrow>
     (case si of (s, i) \<Rightarrow>
        ss_config s = c0 \<and> quiet_ext i0 i \<and> tool_count i \<le> tool_count i0 + length (ss_tool_call_records s) \<and>
        int (length (ss_tool_call_records s)) = ss_tool_calls s \<and>
        ss_tool_calls s \<le> cf_max_tool_calls c0 \<and>
        (ss_evaluation_result s \<noteq> None \<longrightarrow> ss_state s = TERMINAL))"

lemma quiet_ext_trans: "quiet_ext i j \<Longrightarrow> quiet_ext j k \<Longrightarrow> quiet_ext i k"
proof -
  assume "quiet_ext i j" "quiet_ext j k"
  then obtain b cs b' cs' where "j = i\<lparr>in_backend := b, in_trace := in_trace i @ cs\<rparr>" "list_all quiet_call cs"
    "k = j\<lparr>in_backend := b', in_trace := in_trace j @ cs'\<rparr>" "list_all quiet_call cs'"
    unfolding quiet_ext_def by blast
  then have "k = i\<lparr>in_backend := b', in_trace := in_trace i @ (cs @ cs')\<rparr> \<and> list_all quiet_call (cs @ cs')"
    by simp
  then show ?thesis unfolding quiet_ext_def by blast
qed

lemma quiet_ext_state: "quiet_ext i j \<Longrightarrow> in_state j = in_state i"
  by (auto simp: quiet_ext_def)

lemma limit_None:
  "limit_transition s t = None \<Longrightarrow> ss_tool_calls s < cf_max_tool_calls (ss_config s)"
  by (auto simp: limit_transition_def limit_message_def split: if_splits)

lemma limit_Some: "limit_transition s t = Some (tr, s') \<Longrightarrow> s' = s\<lparr>ss_state := TERMINAL\<rparr>"
  by (auto simp: limit_transition_def split: option.splits)

lemma session_tool_ok:
  assumes "session_ok c0 i0 (s, i)" "ss_state s = SESSION_ACTIVE" "in_state i = ACTIVE"
  shows "session_ok c0 i0 (snd (session_call_tool eng act now (s, i)))"
proof (cases "limit_transition s (elapsed s now)")
  case (Some p)
  then obtain tr s' where p: "limit_transition s (elapsed s now) = Some (tr, s')" by (cases p) auto
  then show ?thesis
    using assms(1) limit_Some [OF p] by (auto simp: session_call_tool_def session_active_eq assms(2,3) session_ok_def)
next
  case None
  obtain r i' where c: "incident_call_tool eng act i = (r, i')" by fastforce
  have q: "quiet_ext i0 i'" "tool_count i' \<le> Suc (tool_count i)"
    using assms(1) incident_call_tool_quiet [of i eng act] incident_call_tool_count [of eng act i]
    by (auto simp: session_ok_def c intro: quiet_ext_trans)
  show ?thesis
    using assms(1,2) limit_None [OF None] q
    by (cases r) (auto simp: session_call_tool_def session_active_eq assms(2,3) session_ok_def None c Let_def)
qed

lemma session_submit_ok:
  assumes "session_ok c0 i0 (s, i)" "ss_state s = SESSION_ACTIVE" "in_state i = ACTIVE"
  shows "session_ok c0 i0 (snd (session_submit eng a now (s, i)))"
proof (cases "limit_transition s (elapsed s now)")
  case (Some p)
  then obtain tr s' where p: "limit_transition s (elapsed s now) = Some (tr, s')" by (cases p) auto
  then show ?thesis
    using assms(1) limit_Some [OF p] by (auto simp: session_submit_def session_active_eq assms(2,3) session_ok_def)
next
  case None
  let ?e = "incident_evaluate eng (sa_diagnosis a) (accounting_tool_calls s a) (accounting_time (elapsed s now) a)
    (sa_tokens a) i"
  obtain r i' where c: "?e = (r, i')" by fastforce
  have q: "quiet_ext i0 i'" "tool_count i' = tool_count i"
    using assms(1) incident_evaluate_quiet [of i eng "sa_diagnosis a" "accounting_tool_calls s a"
        "accounting_time (elapsed s now) a" "sa_tokens a"]
      incident_evaluate_count [of eng "sa_diagnosis a" "accounting_tool_calls s a"
        "accounting_time (elapsed s now) a" "sa_tokens a" i]
    by (auto simp: session_ok_def c intro: quiet_ext_trans)
  show ?thesis
    using assms(1,2) q
    by (cases r) (auto simp: session_submit_def session_active_eq assms(2,3) session_ok_def None c Let_def)
qed

lemma session_step_ok:
  assumes "session_ok c0 i0 si"
  shows "session_ok c0 i0 (session_step eng si opn)"
proof -
  obtain s i where si: "si = (s, i)" by (cases si)
  show ?thesis
  proof (cases "ss_state s = SESSION_ACTIVE \<and> in_state i = ACTIVE")
    case True
    show ?thesis
    proof (cases opn)
      case (SessionTool act now)
      then show ?thesis
        using session_tool_ok [OF assms [unfolded si]] True by (simp add: si session_step_def session_run_def)
    next
      case (SessionSubmit a now)
      then show ?thesis
        using session_submit_ok [OF assms [unfolded si]] True by (simp add: si session_step_def session_run_def)
    next
      case (SessionTerminate d m r now)
      then show ?thesis
        using assms True
        by (simp add: si session_step_def session_run_def terminate_failure_def session_active_eq session_ok_def)
    qed
  next
    case False
    then have "ss_state s = TERMINAL \<or> in_state i \<noteq> ACTIVE" by (cases "ss_state s") auto
    then show ?thesis using session_inactive [of s i eng opn] assms by (auto simp: si session_step_def)
  qed
qed

interpretation sessions: invariant_machine "session_step eng" "session_ok c0 i0" for eng c0 i0
  by unfold_locales (rule session_step_ok)

lemma terminal_step: "ss_state (fst si) = TERMINAL \<Longrightarrow> session_step eng si opn = si"
proof -
  assume t: "ss_state (fst si) = TERMINAL"
  obtain s i where si: "si = (s, i)" by (cases si)
  then show ?thesis using t session_inactive [of s i eng opn] by (auto simp: session_step_def)
qed

interpretation ended: invariant_machine "session_step eng" "\<lambda>si. ss_state (fst si) = TERMINAL" for eng
  by unfold_locales (simp add: terminal_step)

section \<open>Every session comes to an end\<close>

lemma session_tool_progress:
  assumes "in_state i = ACTIVE" "session_call_tool eng act now (s, i) = (r, (s', i'))" "ss_state s = SESSION_ACTIVE"
  shows "in_state i' = ACTIVE \<and> ss_config s' = ss_config s \<and>
    (ss_state s' = TERMINAL \<or> ss_state s' = SESSION_ACTIVE \<and> ss_tool_calls s' = ss_tool_calls s + 1 \<and>
       ss_tool_calls s < cf_max_tool_calls (ss_config s))"
proof (cases "limit_transition s (elapsed s now)")
  case (Some p)
  then show ?thesis
    using assms limit_Some [of s "elapsed s now" "fst p" "snd p"]
    by (cases p) (auto simp: session_call_tool_def session_active_eq)
next
  case None
  obtain q j where c: "incident_call_tool eng act i = (q, j)" by fastforce
  then have "in_state j = ACTIVE"
    using quiet_ext_state [OF incident_call_tool_quiet [of i eng act]] assms(1) by simp
  then show ?thesis
    using assms limit_None [OF None] c
    by (cases q) (auto simp: session_call_tool_def session_active_eq None Let_def split: if_splits)
qed

lemma tool_run_progress:
  assumes "in_state (snd si) = ACTIVE" "ss_state (fst si) = SESSION_ACTIVE"
  shows "let si' = foldl (session_step eng) si (map (\<lambda>(act, now). SessionTool act now) calls) in
    ss_state (fst si') = TERMINAL \<or>
    ss_tool_calls (fst si) + int (length calls) = ss_tool_calls (fst si') \<and>
      (calls \<noteq> [] \<longrightarrow> ss_tool_calls (fst si') \<le> cf_max_tool_calls (ss_config (fst si)))"
  using assms
proof (induction calls arbitrary: si)
  case (Cons p calls)
  obtain act now where p: "p = (act, now)" by (cases p)
  obtain s i where si: "si = (s, i)" by (cases si)
  obtain r s' i' where c: "session_call_tool eng act now (s, i) = (r, (s', i'))"
    by (metis surj_pair)
  have st: "session_step eng (s, i) (SessionTool act now) = (s', i')"
    by (simp add: session_step_def session_run_def c)
  show ?case
  proof (cases "ss_state s' = TERMINAL")
    case True
    then have "ss_state (fst (foldl (session_step eng) (s', i') (map (\<lambda>(act, now). SessionTool act now) calls))) = TERMINAL"
      by (intro ended.inv_run) simp
    then show ?thesis by (simp add: p si st Let_def)
  next
    case False
    then have a: "in_state i' = ACTIVE" "ss_state s' = SESSION_ACTIVE" "ss_tool_calls s' = ss_tool_calls s + 1"
      "ss_tool_calls s < cf_max_tool_calls (ss_config s)" "ss_config s' = ss_config s"
      using session_tool_progress [OF _ c] Cons.prems by (auto simp: si)
    show ?thesis
      using Cons.IH [of "(s', i')"] a by (cases calls) (auto simp: p st si Let_def)
  qed
qed simp

section \<open>What a session hands out\<close>

lemma incident_evaluate_Inr:
  assumes "incident_evaluate eng d tcs t k i = (Inr (x, em, ev), j)"
  shows "quiet_ext i j" "x = ev_score ev" "em = metrics_of_evaluation ev"
    "\<exists>gt. incident_ground_truth eng j = Inr gt \<and>
       evaluate (en_judge eng) (agent_output_of d tcs t k) gt (case_id eng j) = Inr ev"
proof -
  show "quiet_ext i j" using incident_evaluate_quiet [of i eng d tcs t k] assms by simp
  show "x = ev_score ev" "em = metrics_of_evaluation ev"
    "\<exists>gt. incident_ground_truth eng j = Inr gt \<and>
       evaluate (en_judge eng) (agent_output_of d tcs t k) gt (case_id eng j) = Inr ev"
    using assms
    by (auto simp: incident_evaluate_def bindS_def require_incident_active_def requireS_def bindE_Inr_conv
        split: prod.splits sum.splits if_splits)
qed

lemma session_submit_Inr:
  assumes "session_submit eng a now (s, i) = (Inr tr, (s', i'))" "ss_state s = SESSION_ACTIVE" "in_state i = ACTIVE"
  shows "tr_reward tr = Some 0 \<and> i' = i \<and> limit_message s (elapsed s now) \<noteq> None \<or>
    limit_message s (elapsed s now) = None \<and> tr_termination_reason tr = Some SUBMITTED \<and>
    (\<exists>em ev. incident_evaluate eng (sa_diagnosis a) (accounting_tool_calls s a) (accounting_time (elapsed s now) a)
       (sa_tokens a) i = (Inr (ev_score ev, em, ev), i') \<and> tr_reward tr = Some (ev_score ev) \<and>
       ss_evaluation_result s' = Some ev)"
proof (cases "limit_message s (elapsed s now)")
  case (Some message)
  then show ?thesis
    using assms by (auto simp: session_submit_def session_active_eq limit_transition_def zero_reward_def plain_transition_def)
next
  case None
  obtain q j where q: "incident_evaluate eng (sa_diagnosis a) (accounting_tool_calls s a)
      (accounting_time (elapsed s now) a) (sa_tokens a) i = (q, j)" by fastforce
  show ?thesis
  proof (cases q)
    case (Inl e)
    then show ?thesis using assms None q by (simp add: session_submit_def session_active_eq limit_transition_def)
  next
    case (Inr r)
    obtain x em ev where r: "r = (x, em, ev)" by (cases r)
    have "x = ev_score ev" using incident_evaluate_Inr(2) q by (simp add: Inr r)
    then show ?thesis
      using assms None q
      by (auto simp: session_submit_def session_active_eq limit_transition_def Inr r plain_transition_def)
  qed
qed

lemma session_reward_facts:
  assumes "session_run eng opn (s, i) = (Inr tr, (s', i'))"
  shows "tr_state tr = ss_state s'" "tr_reward tr \<noteq> None \<longleftrightarrow> tr_state tr = TERMINAL"
    "tr_reward tr = Some x \<Longrightarrow> x = 0 \<or>
       (\<exists>a now ev. opn = SessionSubmit a now \<and> limit_message s (elapsed s now) = None \<and>
         tr_termination_reason tr = Some SUBMITTED \<and> ss_evaluation_result s' = Some ev \<and> ev_score ev = x \<and>
         quiet_ext i i' \<and>
         (\<exists>gt. incident_ground_truth eng i' = Inr gt \<and>
            evaluate (en_judge eng) (agent_output_of (sa_diagnosis a) (accounting_tool_calls s a)
              (accounting_time (elapsed s now) a) (sa_tokens a)) gt (case_id eng i') = Inr ev))"
proof -
  have act: "ss_state s = SESSION_ACTIVE" "in_state i = ACTIVE"
    using session_inactive [of s i eng opn] assms by (cases "ss_state s"; force)+
  show "tr_state tr = ss_state s'" "tr_reward tr \<noteq> None \<longleftrightarrow> tr_state tr = TERMINAL"
    using assms act
    by (auto simp: session_run_def session_call_tool_def session_submit_def terminate_failure_def session_active_eq
        Let_def plain_transition_def tool_failure_def tool_success_def zero_reward_def limit_transition_def
        split: session_op.splits option.splits if_splits prod.splits sum.splits)
  show "x = 0 \<or>
       (\<exists>a now ev. opn = SessionSubmit a now \<and> limit_message s (elapsed s now) = None \<and>
         tr_termination_reason tr = Some SUBMITTED \<and> ss_evaluation_result s' = Some ev \<and> ev_score ev = x \<and>
         quiet_ext i i' \<and>
         (\<exists>gt. incident_ground_truth eng i' = Inr gt \<and>
            evaluate (en_judge eng) (agent_output_of (sa_diagnosis a) (accounting_tool_calls s a)
              (accounting_time (elapsed s now) a) (sa_tokens a)) gt (case_id eng i') = Inr ev))"
    if x: "tr_reward tr = Some x"
  proof (cases opn)
    case (SessionTool ac now)
    then show ?thesis
      using assms act x
      by (auto simp: session_run_def session_call_tool_def session_active_eq Let_def plain_transition_def
          tool_failure_def tool_success_def zero_reward_def limit_transition_def
          split: option.splits if_splits prod.splits sum.splits)
  next
    case (SessionTerminate d m r now)
    then show ?thesis
      using assms act x
      by (auto simp: session_run_def terminate_failure_def session_active_eq plain_transition_def zero_reward_def)
  next
    case (SessionSubmit a now)
    then have "session_submit eng a now (s, i) = (Inr tr, (s', i'))" using assms by (simp add: session_run_def)
    from session_submit_Inr [OF this act] show ?thesis
    proof (elim disjE conjE exE)
      fix em ev
      assume ev: "incident_evaluate eng (sa_diagnosis a) (accounting_tool_calls s a)
          (accounting_time (elapsed s now) a) (sa_tokens a) i = (Inr (ev_score ev, em, ev), i')"
        "limit_message s (elapsed s now) = None" "tr_termination_reason tr = Some SUBMITTED"
        "tr_reward tr = Some (ev_score ev)" "ss_evaluation_result s' = Some ev"
      then show ?thesis
        using incident_evaluate_Inr(1,4) [OF ev(1)] x SessionSubmit by auto
    qed (use x in simp)
  qed
qed

section \<open>Properties\<close>

text \<open>A backend over a counter: every operation succeeds, and the state counts them.\<close>

definition example_backend :: "nat backend" where
  "example_backend =
     \<lparr>bk_topology_dir = (\<lambda>_. None), bk_prepare = (\<lambda>sc n. (Inr [(''case_id'', JStr ''c1'')], Suc n)),
      bk_call_tool = (\<lambda>act n. (Inr (JInt (int n)), Suc n)), bk_refresh = (\<lambda>x n. (Inr (), Suc n)),
      bk_finish = (\<lambda>broken n. (Inr (), Suc n))\<rparr>"

definition example_engine :: "nat engine" where
  "example_engine =
     \<lparr>en_backend = example_backend, en_judge = None, en_default_session_config = None, en_on_close = True,
      en_tools = [\<lparr>ts_name = ''get_topology'', ts_group = ''inventory'', ts_parameters = []\<rparr>],
      en_load_manifest = (\<lambda>_. Inl (ValueError ''none'')), en_digest = (\<lambda>_. ''0123456789abcdef'')\<rparr>"

definition example_config :: "int \<Rightarrow> simulator_config" where
  "example_config n = default_simulator_config\<lparr>cf_max_tool_calls := n\<rparr>"

definition example_call :: "tool_action" where
  "example_call = \<lparr>ta_name = ''get_topology'', ta_arguments = []\<rparr>"

definition healthy_scenario :: scenario where
  "healthy_scenario =
     \<lparr>sc_id = ''s1'', sc_name = ''healthy'', sc_topology_scale = ''xs'', sc_traffic_profile = ''standard'',
      sc_episode = \<lparr>ep_id = ''e1'', ep_fault_type = ''none'', ep_target_device = None, ep_target_interface = None,
        ep_target_prefix = None, ep_mtu = None, ep_duration_seconds = 30, ep_stabilization_time = 10,
        ep_metadata = [], ep_parameters = []\<rparr>, sc_metadata = []\<rparr>"

definition example_incident :: "nat incident" where
  "example_incident = engine_prepare example_engine healthy_scenario 0"

definition healthy_verdict :: submit_args where
  "healthy_verdict =
     \<lparr>sa_diagnosis = \<lparr>ds_verdict = ''network_healthy'', ds_fault_type = None,
        ds_location = \<lparr>loc_device = None, loc_interface = None\<rparr>, ds_evidence = [], ds_confidence = 1, ds_reasoning = []\<rparr>,
      sa_usage = None, sa_tool_calls = [], sa_time_taken = None, sa_tokens = (0, 0)\<rparr>"

lemma example_incident_active [simp]: "in_state example_incident = ACTIVE"
  by code_simp

lemma example_config_valid: "make_simulator_config (example_config 2) = Inr (example_config 2)"
  by (simp add: make_simulator_config_def validate_lease_deadline_def example_config_def default_simulator_config_def)

text \<open>
  C16. An incident is cleaned up at most once: whatever methods run on it, in whatever order, the
  backend's \<open>finish\<close> is called at most once, with \<open>broken\<close> exactly when the preparation had
  failed, and the close callback at most once.  Closing always ends in "closed" or "broken" with a
  cleanup result, and after that no method calls the backend or changes the incident.
\<close>

theorem incident_cleanup_once:
  "let i = foldl (incident_step eng) (new_incident sc b) ops; c = close_incident eng i in
    filter is_finish (in_trace i) =
      (if in_cleanup_status i = NOT_STARTED then [] else [FinishCall (in_failure i \<noteq> None)]) \<and>
    filter ((=) CloseNotified) (in_trace i) =
      (if en_on_close eng \<and> in_cleanup_status i \<noteq> NOT_STARTED then [CloseNotified] else []) \<and>
    (in_cleanup_status i = NOT_STARTED \<longleftrightarrow> in_state i \<in> {CREATED, ACTIVE}) \<and>
    in_state c \<in> {CLOSED, BROKEN} \<and> in_cleanup_status c \<noteq> NOT_STARTED \<and>
    incident_step eng c opn = c"
proof -
  have ok: "incident_ok eng (foldl (incident_step eng) (new_incident sc b) ops)"
    using incidents.inv_reached [of eng "(sc, b)" ops] by simp
  have ac: "after_cleanup eng (close_incident eng (foldl (incident_step eng) (new_incident sc b) ops))"
    by (rule close_incident_after [OF ok])
  have st: "in_state (close_incident eng (foldl (incident_step eng) (new_incident sc b) ops)) \<in> {CLOSED, BROKEN}"
    "in_cleanup_status (close_incident eng (foldl (incident_step eng) (new_incident sc b) ops)) \<noteq> NOT_STARTED"
    using ac by (simp_all only: after_cleanup_def simp_thms)
  show ?thesis
    unfolding Let_def
    by (intro conjI) (rule incident_ok_counts(1-3) [OF ok] st after_cleanup_step [OF ac])+
qed



text \<open>
  C24. Every session ends: on an active incident, a session is terminal after more tool calls than its
  budget, whatever the tools answer and however long they take; and a terminal session stays
  terminal, every further method raising without any effect.
\<close>

theorem session_terminates:
  assumes "in_state i = ACTIVE" "make_simulator_config config = Inr c" "cf_max_tool_calls c < int (length calls)"
  shows "let si = foldl (session_step eng) (new_session c now, i) (map (\<lambda>(act, t). SessionTool act t) calls) in
    ss_state (fst si) = TERMINAL \<and> (\<exists>msg. session_run eng opn si = (Inl (RuntimeError msg), si))"
proof -
  let ?si = "foldl (session_step eng) (new_session c now, i) (map (\<lambda>(act, t). SessionTool act t) calls)"
  have "1 \<le> cf_max_tool_calls c"
    using assms(2) by (auto simp: make_simulator_config_def validate_lease_deadline_def split: if_splits)
  then have "calls \<noteq> []" using assms(3) by auto
  then have t: "ss_state (fst ?si) = TERMINAL"
    using tool_run_progress [of "(new_session c now, i)" eng calls] assms(1,3)
    by (auto simp: Let_def new_session_def)
  then show ?thesis
    using session_inactive [of "fst ?si" "snd ?si" eng opn] by (simp add: Let_def)
qed

theorem session_terminates_witness:
  "ss_state (fst (foldl (session_step example_engine) (new_session (example_config 2) 0, example_incident)
     (map (\<lambda>(act, t). SessionTool act t) [(example_call, 1), (example_call, 2), (example_call, 3)]))) = TERMINAL"
proof -
  have "cf_max_tool_calls (example_config 2) < int (length [(example_call, 1::rat), (example_call, 2), (example_call, 3)])"
    by (simp add: example_config_def)
  from session_terminates [OF example_incident_active example_config_valid this, of example_engine 0]
  show ?thesis by (simp add: Let_def)
qed

text \<open>
  C23. Rewards: a transition carries a reward exactly when it ends the session; a reward other
  than 0 comes only from a submission within the limits, is the score of evaluating that
  diagnosis against the ground truth of the incident's episode, and is 1/2 or 1.
\<close>

theorem session_rewards:
  assumes "session_run eng opn (s, i) = (Inr tr, (s', i'))"
  shows "tr_state tr = ss_state s' \<and> (tr_reward tr \<noteq> None \<longleftrightarrow> tr_state tr = TERMINAL) \<and>
    (\<forall>x. tr_reward tr = Some x \<longrightarrow> x = 0 \<or> x \<in> {1 / 2, 1} \<and>
       (\<exists>a now ev gt. opn = SessionSubmit a now \<and> limit_message s (elapsed s now) = None \<and>
         tr_termination_reason tr = Some SUBMITTED \<and> ev_score ev = x \<and>
         incident_ground_truth eng i' = Inr gt \<and>
         evaluate (en_judge eng) (agent_output_of (sa_diagnosis a) (accounting_tool_calls s a)
              (accounting_time (elapsed s now) a) (sa_tokens a)) gt (case_id eng i') = Inr ev))"
proof (intro conjI allI impI)
  show "tr_state tr = ss_state s'" "tr_reward tr \<noteq> None \<longleftrightarrow> tr_state tr = TERMINAL"
    using session_reward_facts(1,2) [OF assms] by blast+
next
  fix x
  assume "tr_reward tr = Some x"
  from session_reward_facts(3) [OF assms this]
  show "x = 0 \<or> x \<in> {1 / 2, 1} \<and>
       (\<exists>a now ev gt. opn = SessionSubmit a now \<and> limit_message s (elapsed s now) = None \<and>
         tr_termination_reason tr = Some SUBMITTED \<and> ev_score ev = x \<and>
         incident_ground_truth eng i' = Inr gt \<and>
         evaluate (en_judge eng) (agent_output_of (sa_diagnosis a) (accounting_tool_calls s a)
              (accounting_time (elapsed s now) a) (sa_tokens a)) gt (case_id eng i') = Inr ev)"
    using evaluate_facts by (elim disjE exE conjE) (simp, blast)
qed

theorem session_rewards_witness:
  "\<exists>tr si. session_run example_engine (SessionSubmit healthy_verdict 5)
       (new_session (example_config 2) 0, example_incident) = (Inr tr, si) \<and> tr_reward tr = Some 1"
proof -
  obtain r s' i' where r: "session_run example_engine (SessionSubmit healthy_verdict 5)
       (new_session (example_config 2) 0, example_incident) = (r, (s', i'))" by (metis surj_pair)
  have v: "map_option tr_reward (case r of Inr tr \<Rightarrow> Some tr | Inl e \<Rightarrow> None) = Some (Some 1)"
  proof -
    have "map_option tr_reward (case fst (session_run example_engine (SessionSubmit healthy_verdict 5)
       (new_session (example_config 2) 0, example_incident)) of Inr tr \<Rightarrow> Some tr | Inl e \<Rightarrow> None) = Some (Some 1)"
      by code_simp
    then show ?thesis by (simp add: r)
  qed
  then obtain tr where tr: "r = Inr tr" by (cases r) auto
  from session_rewards [OF r [unfolded tr]] v show ?thesis using r by (auto simp: tr)
qed

end
