(* ===== verification/Environment.thy ===== *)
theory Environment
  imports Diagnostic_Session
begin

text \<open>
  \<open>netopsbench/platform/simulator/environment.py\<close>: the single-use reset/step view of one
  incident and one session, and the abstract life cycle it implements.
\<close>

section \<open>The environment\<close>

text \<open>\<open>env_notifications\<close> counts the calls of the close callback.\<close>

record 'b environment =
  env_scenario :: scenario
  env_config :: simulator_config
  env_incident :: "'b incident option"
  env_session :: "session option"
  env_on_close :: bool
  env_close_notified :: bool
  env_notifications :: nat

definition new_environment :: "scenario \<Rightarrow> simulator_config \<Rightarrow> bool \<Rightarrow> 'b environment" where
  "new_environment sc config on_close =
     \<lparr>env_scenario = sc, env_config = config, env_incident = None, env_session = None,
      env_on_close = on_close, env_close_notified = False, env_notifications = 0\<rparr>"

record reset_result =
  rr_valid :: bool
  rr_case_valid :: bool
  rr_state :: incident_state
  rr_case_id :: string
  rr_observation :: observation
  rr_tools :: "tool_spec list"
  rr_failure :: "execution_failure option"
  rr_cleanup_failure :: "execution_failure option"
  rr_cleanup_status :: cleanup_status
  rr_error :: "string option"

text \<open>\<open>StepResult\<close> has the fields of \<open>SessionTransition\<close> and is built from one.\<close>

type_synonym step_result = session_transition

definition env_state :: "'b environment \<Rightarrow> incident_state" where
  "env_state env = (case env_incident env of None \<Rightarrow> CREATED | Some i \<Rightarrow> in_state i)"

definition env_notify_close :: "'b environment \<Rightarrow> 'b environment" where
  "env_notify_close env =
     (if \<not> env_close_notified env \<and> env_on_close env
      then env\<lparr>env_close_notified := True, env_notifications := env_notifications env + 1\<rparr> else env)"

text \<open>The engine makes a new backend for every incident; \<open>b\<close> is its initial state.\<close>

definition env_reset :: "'b engine \<Rightarrow> 'b \<Rightarrow> rat \<Rightarrow> ('b environment, reset_result) action" where
  "env_reset eng b now env =
     (case env_incident env of
        Some i \<Rightarrow> (Inl (RuntimeError ''Diagnostic environments are single-use; create a new environment''), env)
      | None \<Rightarrow>
          (let i = engine_prepare eng (env_scenario env) b;
               env1 = env\<lparr>env_incident := Some i\<rparr>
           in if in_state i = BROKEN then
                (Inr \<lparr>rr_valid = False, rr_case_valid = False, rr_state = in_state i, rr_case_id = case_id eng i,
                      rr_observation = [], rr_tools = [], rr_failure = in_failure i,
                      rr_cleanup_failure = in_cleanup_failure i, rr_cleanup_status = in_cleanup_status i,
                      rr_error = Some (case in_failure i of Some f \<Rightarrow> ef_message f
                                       | None \<Rightarrow> ''incident preparation failed'')\<rparr>,
                 env_notify_close env1)
              else (case open_session eng (Some (env_config env)) now i of
                  (Inl e, i') \<Rightarrow> (Inl e, env1\<lparr>env_incident := Some i'\<rparr>)
                | (Inr s, i') \<Rightarrow>
                    (Inr \<lparr>rr_valid = True, rr_case_valid = True, rr_state = in_state i', rr_case_id = case_id eng i',
                          rr_observation = in_observation i', rr_tools = en_tools eng, rr_failure = None,
                          rr_cleanup_failure = None, rr_cleanup_status = in_cleanup_status i', rr_error = None\<rparr>,
                     env1\<lparr>env_incident := Some i', env_session := Some s\<rparr>))))"

definition request_args :: "diagnosis_submission \<Rightarrow> agent_usage \<Rightarrow> submit_args" where
  "request_args d usage =
     \<lparr>sa_diagnosis = d, sa_usage = Some usage, sa_tool_calls = [], sa_time_taken = None, sa_tokens = (0, 0)\<rparr>"

definition put_session :: "session \<Rightarrow> 'b incident \<Rightarrow> 'b environment \<Rightarrow> 'b environment" where
  "put_session s i env = env\<lparr>env_session := Some s, env_incident := Some i\<rparr>"

text \<open>The session exists only beside its incident, so the last case is the one of a missing session.\<close>

definition env_step :: "'b engine \<Rightarrow> action_request \<Rightarrow> rat \<Rightarrow> ('b environment, step_result) action" where
  "env_step eng req now env =
     (case (env_session env, env_incident env) of
        (Some s, Some i) \<Rightarrow>
          (case req of
             ToolRequest act \<Rightarrow>
               (case session_call_tool eng act now (s, i) of
                  (r, (s', i')) \<Rightarrow> (r, put_session s' i' env))
           | SubmitRequest d usage \<Rightarrow>
               (case session_submit eng (request_args d usage) now (s, i) of
                  (Inl e, (s', i')) \<Rightarrow> (Inl e, put_session s' i' env)
                | (Inr tr, (s', i')) \<Rightarrow>
                    (let c = close_incident eng i'
                     in (Inr (tr\<lparr>tr_cleanup_status := in_cleanup_status c, tr_cleanup_failure := in_cleanup_failure c,
                                tr_error := map_option ef_message (in_cleanup_failure c)\<rparr>),
                         env_notify_close (put_session s' c env)))))
      | _ \<Rightarrow> (Inl (RuntimeError ''Environment must be reset before step''), env))"

definition env_terminate_protocol :: "'b engine \<Rightarrow> string \<Rightarrow> rat \<Rightarrow> ('b environment, step_result) action" where
  "env_terminate_protocol eng message now env =
     (case (env_session env, env_incident env) of
        (Some s, Some i) \<Rightarrow>
          (case terminate_failure PROTOCOL message PROTOCOL_ERROR now (s, i) of
             (Inl e, (s', i')) \<Rightarrow> (Inl e, put_session s' i' env)
           | (Inr tr, (s', i')) \<Rightarrow>
               (let c = close_incident eng i'
                in (Inr (if in_cleanup_failure c \<noteq> None
                         then tr\<lparr>tr_cleanup_status := in_cleanup_status c, tr_cleanup_failure := in_cleanup_failure c\<rparr>
                         else tr\<lparr>tr_cleanup_status := in_cleanup_status c\<rparr>),
                    env_notify_close (put_session s' c env))))
      | _ \<Rightarrow> (Inl (RuntimeError ''Environment must be reset before protocol termination''), env))"

definition env_close :: "'b engine \<Rightarrow> 'b environment \<Rightarrow> 'b environment" where
  "env_close eng env =
     env_notify_close
       (case env_incident env of None \<Rightarrow> env | Some i \<Rightarrow> env\<lparr>env_incident := Some (close_incident eng i)\<rparr>)"

datatype 'b env_op = EnvReset 'b rat | EnvStep action_request rat | EnvProtocol string rat | EnvClose

definition env_run :: "'b engine \<Rightarrow> 'b environment \<Rightarrow> 'b env_op \<Rightarrow> 'b environment" where
  "env_run eng env opn =
     (case opn of
        EnvReset b now \<Rightarrow> snd (env_reset eng b now env)
      | EnvStep req now \<Rightarrow> snd (env_step eng req now env)
      | EnvProtocol message now \<Rightarrow> snd (env_terminate_protocol eng message now env)
      | EnvClose \<Rightarrow> env_close eng env)"

section \<open>The abstract life cycle\<close>

text \<open>
  Fresh before \<open>reset\<close>; running while the agent may act; spent when its session is over (or was
  never opened) but the incident still holds its runtime; finished after cleanup.
\<close>

datatype phase = Fresh | Running | Spent | Finished

definition phase_of :: "'b environment \<Rightarrow> phase" where
  "phase_of env =
     (case env_incident env of
        None \<Rightarrow> Fresh
      | Some i \<Rightarrow>
          if in_cleanup_status i \<noteq> NOT_STARTED then Finished
          else (case env_session env of
              Some s \<Rightarrow> if ss_state s = SESSION_ACTIVE then Running else Spent
            | None \<Rightarrow> Spent))"

inductive phase_step :: "phase \<Rightarrow> 'b env_op \<Rightarrow> phase \<Rightarrow> bool" where
  reset_ready: "phase_step Fresh (EnvReset b now) Running"
| reset_broken: "phase_step Fresh (EnvReset b now) Finished"
| reset_unopened: "phase_step Fresh (EnvReset b now) Spent"
| tool_observed: "phase_step Running (EnvStep (ToolRequest act) now) Running"
| tool_limit: "phase_step Running (EnvStep (ToolRequest act) now) Spent"
| submitted: "phase_step Running (EnvStep (SubmitRequest d u) now) Finished"
| submit_raised: "phase_step Running (EnvStep (SubmitRequest d u) now) Running"
| protocol: "phase_step Running (EnvProtocol m now) Finished"
| closed: "phase_step p EnvClose (if p = Fresh then Fresh else Finished)"
| refused_reset: "p \<noteq> Fresh \<Longrightarrow> phase_step p (EnvReset b now) p"
| refused_step: "p \<noteq> Running \<Longrightarrow> phase_step p (EnvStep req now) p"
| refused_protocol: "p \<noteq> Running \<Longrightarrow> phase_step p (EnvProtocol m now) p"

inductive_simps phase_step_close [simp]: "phase_step p EnvClose q"
inductive_simps phase_step_finished: "phase_step Finished opn q"

text \<open>A finished environment stays finished.\<close>

lemma finished_final: "phase_step Finished opn q \<Longrightarrow> q = Finished"
  by (auto simp: phase_step_finished)

section \<open>The environment implements its life cycle\<close>

definition env_ok :: "'b engine \<Rightarrow> 'b environment \<Rightarrow> bool" where
  "env_ok eng env \<longleftrightarrow>
     (case env_incident env of
        None \<Rightarrow> env_session env = None
      | Some i \<Rightarrow> incident_ok eng i \<and> in_state i \<noteq> CREATED) \<and>
     env_notifications env = (if env_close_notified env then 1 else 0) \<and>
     (env_close_notified env \<longrightarrow> env_on_close env) \<and>
     (phase_of env = Finished \<longrightarrow> env_close_notified env = env_on_close env)"

lemma phase_of_notify [simp]: "phase_of (env_notify_close env) = phase_of env"
  by (auto simp: phase_of_def env_notify_close_def split: option.split)

lemma notify_fields [simp]:
  "env_incident (env_notify_close env) = env_incident env" "env_session (env_notify_close env) = env_session env"
  "env_on_close (env_notify_close env) = env_on_close env"
  by (simp_all add: env_notify_close_def)

lemma notify_ok:
  "env_notifications env = (if env_close_notified env then 1 else 0) \<Longrightarrow> (env_close_notified env \<longrightarrow> env_on_close env) \<Longrightarrow>
   env_notifications (env_notify_close env) = (if env_close_notified (env_notify_close env) then 1 else 0) \<and>
   env_close_notified (env_notify_close env) = env_on_close env"
  by (auto simp: env_notify_close_def)

lemma ok_active_not_cleaned: "incident_ok eng i \<Longrightarrow> in_cleanup_status i = NOT_STARTED \<Longrightarrow> in_state i \<noteq> CREATED \<Longrightarrow> in_state i = ACTIVE"
  using incident_ok_counts(3) by fastforce

lemma ok_cleaned: "incident_ok eng i \<Longrightarrow> in_cleanup_status i \<noteq> NOT_STARTED \<Longrightarrow> in_state i \<noteq> ACTIVE"
  using incident_ok_counts(3) by fastforce

lemma closed_ok:
  assumes "incident_ok eng i"
  shows "incident_ok eng (close_incident eng i)" "in_state (close_incident eng i) \<noteq> CREATED"
    "in_cleanup_status (close_incident eng i) \<noteq> NOT_STARTED"
  using close_incident_after [OF assms] by (auto simp: incident_ok_def after_cleanup_def)

lemma prepared_state: "in_state (engine_prepare eng sc b) \<in> {ACTIVE, BROKEN}"
  by (auto simp: engine_prepare_def prepare_incident_def new_incident_def finish_backend_def notify_close_def Let_def
      split: prod.split sum.split)

lemma env_reset_ok:
  assumes "env_ok eng env"
  shows "env_ok eng (snd (env_reset eng b now env))"
    "phase_step (phase_of env) (EnvReset b now) (phase_of (snd (env_reset eng b now env)))"
proof -
  have "env_ok eng (snd (env_reset eng b now env)) \<and>
    phase_step (phase_of env) (EnvReset b now) (phase_of (snd (env_reset eng b now env)))"
  proof (cases "env_incident env")
    case (Some i)
    then have "phase_of env \<noteq> Fresh" by (simp add: phase_of_def split: option.split)
    then show ?thesis using assms Some by (simp add: env_reset_def phase_step.refused_reset)
  next
    case None
    let ?i = "engine_prepare eng (env_scenario env) b"
    have fresh: "phase_of env = Fresh" "env_session env = None" using assms None by (auto simp: phase_of_def env_ok_def)
    have ok: "incident_ok eng ?i" "in_state ?i \<noteq> CREATED"
      using prepare_incident_ok [OF new_incident_ok] prepared_state [of eng "env_scenario env" b]
      by (auto simp: engine_prepare_def)
    show ?thesis
    proof (cases "in_state ?i = BROKEN")
      case True
      let ?e = "env\<lparr>env_incident := Some ?i\<rparr>"
      have st: "snd (env_reset eng b now env) = env_notify_close ?e"
        using None True by (simp add: env_reset_def Let_def)
      have "in_cleanup_status ?i \<noteq> NOT_STARTED" using incident_ok_counts(3) [OF ok(1)] True by auto
      then have p: "phase_of ?e = Finished" by (simp add: phase_of_def)
      show ?thesis
        using ok assms None p notify_ok [of ?e]
        by (simp add: st env_ok_def fresh phase_step.reset_broken)
    next
      case False
      obtain r j where o: "open_session eng (Some (env_config env)) now ?i = (r, j)" by fastforce
      have act: "in_state ?i = ACTIVE" using prepared_state [of eng "env_scenario env" b] False by simp
      have "quiet_ext ?i j" using open_session_quiet [of ?i eng "Some (env_config env)" now] by (simp add: o)
      then have j: "incident_ok eng j" "in_state j = ACTIVE" using incident_ok_quiet [OF ok(1) act] by blast+
      then have cs: "in_cleanup_status j = NOT_STARTED" using incident_ok_counts(3) by fastforce
      have new: "ss_state s = SESSION_ACTIVE" if "r = Inr s" for s
        using o that by (auto simp: open_session_def bindS_def returnS_def raiseS_def new_session_def
            split: option.splits prod.splits sum.splits)
      show ?thesis
        using None False assms j cs new
        by (cases r) (auto simp: env_reset_def Let_def o env_ok_def phase_of_def phase_step.reset_ready
            phase_step.reset_unopened)
    qed
  qed
  then show "env_ok eng (snd (env_reset eng b now env))"
    "phase_step (phase_of env) (EnvReset b now) (phase_of (snd (env_reset eng b now env)))" by blast+
qed


text \<open>The session methods keep the incident well formed, and each leads to a known phase.\<close>

lemma session_call_tool_keeps:
  assumes "incident_ok eng i" "session_call_tool eng act now (s, i) = (r, (s', i'))"
  shows "incident_ok eng i' \<and> in_state i' = in_state i \<and> (ss_state s = TERMINAL \<or> in_state i \<noteq> ACTIVE \<longrightarrow> s' = s \<and> i' = i)"
proof (cases "ss_state s = SESSION_ACTIVE \<and> in_state i = ACTIVE")
  case True
  then have c: "session_call_tool eng act now (s, i) = (r, (s', i'))" "ss_state s = SESSION_ACTIVE" "in_state i = ACTIVE"
    using assms(2) by auto
  obtain q j where q: "incident_call_tool eng act i = (q, j)" by fastforce
  have "quiet_ext i j" using incident_call_tool_quiet [of i eng act] q by simp
  then have "incident_ok eng j \<and> in_state j = ACTIVE" by (rule incident_ok_quiet [OF assms(1) c(3)])
  moreover have "i' = i \<or> i' = j"
    using c q by (cases q) (auto simp: session_call_tool_def session_active_eq Let_def split: option.splits if_splits)
  ultimately show ?thesis using assms(1) c by auto
next
  case False
  then have "ss_state s = TERMINAL \<or> in_state i \<noteq> ACTIVE" by (cases "ss_state s") auto
  then have "(s', i') = (s, i)"
    using session_inactive [of s i eng "SessionTool act now"] assms(2) by (auto simp: session_run_def)
  then show ?thesis using assms(1) by simp
qed

lemma session_submit_keeps:
  assumes "incident_ok eng i" "session_submit eng a now (s, i) = (r, (s', i'))"
  shows "incident_ok eng i' \<and> in_state i' = in_state i \<and> (isl r \<longrightarrow> s' = s) \<and>
    (ss_state s = TERMINAL \<or> in_state i \<noteq> ACTIVE \<longrightarrow> isl r \<and> i' = i)"
proof (cases "ss_state s = SESSION_ACTIVE \<and> in_state i = ACTIVE")
  case True
  then have c: "session_submit eng a now (s, i) = (r, (s', i'))" "ss_state s = SESSION_ACTIVE" "in_state i = ACTIVE"
    using assms(2) by auto
  obtain q j where q: "incident_evaluate eng (sa_diagnosis a) (accounting_tool_calls s a)
      (accounting_time (elapsed s now) a) (sa_tokens a) i = (q, j)" by fastforce
  have "quiet_ext i j"
    using incident_evaluate_quiet [of i eng "sa_diagnosis a" "accounting_tool_calls s a"
        "accounting_time (elapsed s now) a" "sa_tokens a"] q by simp
  then have "incident_ok eng j \<and> in_state j = ACTIVE" by (rule incident_ok_quiet [OF assms(1) c(3)])
  moreover have "(i' = i \<or> i' = j) \<and> (isl r \<longrightarrow> s' = s)"
    using c q by (cases q) (auto simp: session_submit_def session_active_eq Let_def split: option.splits)
  ultimately show ?thesis using assms(1) c by auto
next
  case False
  then have "ss_state s = TERMINAL \<or> in_state i \<noteq> ACTIVE" by (cases "ss_state s") auto
  then have "\<exists>msg. (r, (s', i')) = (Inl (RuntimeError msg), (s, i))"
    using session_inactive [of s i eng "SessionSubmit a now"] assms(2) by (auto simp: session_run_def)
  then show ?thesis using assms(1) by auto
qed

text \<open>An environment whose incident was closed and whose callback was told.\<close>

lemma env_closed_ok:
  assumes "env_ok eng env" "env_incident env' = Some (close_incident eng i)" "incident_ok eng i"
    "env_notifications env' = env_notifications env" "env_close_notified env' = env_close_notified env"
    "env_on_close env' = env_on_close env"
  shows "env_ok eng (env_notify_close env') \<and> phase_of (env_notify_close env') = Finished"
proof -
  have "phase_of env' = Finished" using assms(2) closed_ok(3) [OF assms(3)] by (simp add: phase_of_def)
  moreover have "env_notifications env' = (if env_close_notified env' then 1 else 0)"
    "env_close_notified env' \<longrightarrow> env_on_close env'"
    using assms by (simp_all add: env_ok_def)
  ultimately show ?thesis
    using assms(2) closed_ok(1,2) [OF assms(3)] notify_ok [of env'] by (simp add: env_ok_def)
qed


lemma env_step_ok:
  assumes "env_ok eng env"
  shows "env_ok eng (snd (env_step eng req now env)) \<and>
    phase_step (phase_of env) (EnvStep req now) (phase_of (snd (env_step eng req now env)))"
proof (cases "env_session env")
  case None
  then have "phase_of env \<noteq> Running" by (simp add: phase_of_def split: option.split)
  then show ?thesis using assms None by (simp add: env_step_def phase_step.refused_step)
next
  case (Some s)
  then obtain i where i: "env_incident env = Some i" "incident_ok eng i" "in_state i \<noteq> CREATED"
    using assms by (cases "env_incident env") (auto simp: env_ok_def)
  have running: "phase_of env = Running \<longleftrightarrow> ss_state s = SESSION_ACTIVE \<and> in_state i = ACTIVE"
    using i Some ok_active_not_cleaned [OF i(2) _ i(3)] ok_cleaned [OF i(2)] by (auto simp: phase_of_def)
  show ?thesis
  proof (cases req)
    case (ToolRequest act)
    obtain r s' i' where c: "session_call_tool eng act now (s, i) = (r, (s', i'))" by (metis surj_pair)
    note k = session_call_tool_keeps [OF i(2) c]
    have st: "snd (env_step eng req now env) = put_session s' i' env"
      using ToolRequest c i(1) Some by (simp add: env_step_def)
    show ?thesis
    proof (cases "phase_of env = Running")
      case True
      then have cs: "in_cleanup_status i' = NOT_STARTED"
        using k running incident_ok_counts(3) [of eng i'] by auto
      have p: "phase_of (put_session s' i' env) = (if ss_state s' = SESSION_ACTIVE then Running else Spent)"
        by (simp add: phase_of_def put_session_def cs)
      then have "env_ok eng (put_session s' i' env)"
        using assms k i(3) by (auto simp: env_ok_def put_session_def)
      then show ?thesis
        unfolding st p unfolding True ToolRequest
        by (auto intro: phase_step.tool_observed phase_step.tool_limit)
    next
      case False
      then have "s' = s \<and> i' = i" using k running by (cases "ss_state s") auto
      then have "put_session s' i' env = env" using Some i(1) by (simp add: put_session_def)
      then show ?thesis using assms False by (simp add: st phase_step.refused_step)
    qed
  next
    case (SubmitRequest d u)
    obtain r s' i' where c: "session_submit eng (request_args d u) now (s, i) = (r, (s', i'))" by (metis surj_pair)
    note k = session_submit_keeps [OF i(2) c]
    show ?thesis
    proof (cases r)
      case (Inl e)
      then have st: "snd (env_step eng req now env) = put_session s' i' env"
        using SubmitRequest c i(1) Some by (simp add: env_step_def)
      have s': "s' = s" using k Inl by simp
      show ?thesis
      proof (cases "phase_of env = Running")
        case True
        then have cs: "in_cleanup_status i' = NOT_STARTED"
          using k running incident_ok_counts(3) [of eng i'] by auto
        have p: "phase_of (put_session s' i' env) = Running"
          using True running by (simp add: phase_of_def put_session_def cs s')
        then have "env_ok eng (put_session s' i' env)"
          using assms k i(3) by (auto simp: env_ok_def put_session_def)
        then show ?thesis unfolding st p unfolding True SubmitRequest by (auto intro: phase_step.submit_raised)
      next
        case False
        then have "i' = i" using k running by (cases "ss_state s") auto
        then have "put_session s' i' env = env" using Some i(1) s' by (simp add: put_session_def)
        then show ?thesis using assms False by (simp add: st phase_step.refused_step)
      qed
    next
      case (Inr tr)
      let ?e = "put_session s' (close_incident eng i') env"
      have st: "snd (env_step eng req now env) = env_notify_close ?e"
        using SubmitRequest c i(1) Some Inr by (simp add: env_step_def Let_def)
      have run: "phase_of env = Running" using k Inr running by (cases "ss_state s") auto
      have "env_ok eng (env_notify_close ?e) \<and> phase_of (env_notify_close ?e) = Finished"
        using k by (intro env_closed_ok [where i = i', OF assms]) (simp_all add: put_session_def)
      then show ?thesis
        unfolding st unfolding run SubmitRequest by (auto intro: phase_step.submitted simp del: phase_of_notify)
    qed
  qed
qed

lemma env_protocol_ok:
  assumes "env_ok eng env"
  shows "env_ok eng (snd (env_terminate_protocol eng m now env)) \<and>
    phase_step (phase_of env) (EnvProtocol m now) (phase_of (snd (env_terminate_protocol eng m now env)))"
proof (cases "env_session env")
  case None
  then have "phase_of env \<noteq> Running" by (simp add: phase_of_def split: option.split)
  then show ?thesis using assms None by (simp add: env_terminate_protocol_def phase_step.refused_protocol)
next
  case (Some s)
  then obtain i where i: "env_incident env = Some i" "incident_ok eng i" "in_state i \<noteq> CREATED"
    using assms by (cases "env_incident env") (auto simp: env_ok_def)
  have running: "phase_of env = Running \<longleftrightarrow> ss_state s = SESSION_ACTIVE \<and> in_state i = ACTIVE"
    using i Some ok_active_not_cleaned [OF i(2) _ i(3)] ok_cleaned [OF i(2)] by (auto simp: phase_of_def)
  show ?thesis
  proof (cases "phase_of env = Running")
    case True
    let ?e = "put_session (s\<lparr>ss_state := TERMINAL\<rparr>) (close_incident eng i) env"
    have st: "snd (env_terminate_protocol eng m now env) = env_notify_close ?e"
      using True running i(1) Some
      by (simp add: env_terminate_protocol_def terminate_failure_def session_active_eq Let_def)
    have "env_ok eng (env_notify_close ?e) \<and> phase_of (env_notify_close ?e) = Finished"
      using i(2) by (intro env_closed_ok [OF assms]) (simp_all add: put_session_def)
    then show ?thesis using True by (simp add: st phase_step.protocol del: phase_of_notify)
  next
    case False
    then have "ss_state s = TERMINAL \<or> in_state i \<noteq> ACTIVE" using running by (cases "ss_state s") auto
    then obtain msg where "terminate_failure PROTOCOL m PROTOCOL_ERROR now (s, i) = (Inl (RuntimeError msg), (s, i))"
      using session_inactive [of s i eng "SessionTerminate PROTOCOL m PROTOCOL_ERROR now"]
      by (auto simp: session_run_def)
    then have "snd (env_terminate_protocol eng m now env) = env"
      using i(1) Some by (simp add: env_terminate_protocol_def put_session_def)
    then show ?thesis using assms False by (simp add: phase_step.refused_protocol)
  qed
qed

lemma env_close_ok:
  assumes "env_ok eng env"
  shows "env_ok eng (env_close eng env)"
    "phase_of (env_close eng env) = (if phase_of env = Fresh then Fresh else Finished)"
proof -
  have "env_ok eng (env_close eng env) \<and>
    phase_of (env_close eng env) = (if phase_of env = Fresh then Fresh else Finished)"
  proof (cases "env_incident env")
    case None
    then show ?thesis
      using assms notify_ok [of env] by (auto simp: env_close_def env_ok_def phase_of_def)
  next
    case (Some i)
    let ?e = "env\<lparr>env_incident := Some (close_incident eng i)\<rparr>"
    have "incident_ok eng i" using assms Some by (simp add: env_ok_def)
    then have "env_ok eng (env_notify_close ?e) \<and> phase_of (env_notify_close ?e) = Finished"
      by (intro env_closed_ok [OF assms]) simp_all
    moreover have "phase_of env \<noteq> Fresh" using Some by (simp add: phase_of_def split: option.split)
    ultimately show ?thesis using Some by (simp add: env_close_def del: phase_of_notify)
  qed
  then show "env_ok eng (env_close eng env)"
    "phase_of (env_close eng env) = (if phase_of env = Fresh then Fresh else Finished)" by blast+
qed

lemma env_run_ok:
  assumes "env_ok eng env"
  shows "env_ok eng (env_run eng env opn)" "phase_step (phase_of env) opn (phase_of (env_run eng env opn))"
  by (cases opn; simp add: env_run_def env_reset_ok [OF assms] env_step_ok [OF assms] env_protocol_ok [OF assms]
      env_close_ok [OF assms])+

lemma new_environment_ok: "env_ok eng (new_environment sc config on_close)"
  by (simp add: env_ok_def new_environment_def phase_of_def)

lemma new_environment_start:
  "env_ok eng (case a of (sc, config, on_close) \<Rightarrow> new_environment sc config on_close)"
  by (cases a) (simp add: new_environment_ok)

interpretation environments:
  started_machine "env_run eng" "env_ok eng" "\<lambda>(sc, config, on_close). new_environment sc config on_close" for eng
  by unfold_locales (rule env_run_ok(1), assumption, rule new_environment_start)

section \<open>Property\<close>



end
