(* ===== verification/Lease_Pool.thy ===== *)
theory Lease_Pool
  imports Environment
begin

text \<open>
  \<open>RuntimeLeasePool\<close> of \<open>netopsbench/platform/simulator/runtime.py\<close>: the pool of warm runtimes and the
  leases on them.  Runtimes are shared objects that callers keep references to after the
  pool has dropped them, so they live in a store (\<open>lp_records\<close>) and are named by their position
  in it; the pool's lists hold positions.  Each method runs under the pool's lock and is atomic;
  \<open>acquire\<close> gives the lock up while it waits, so it is a sequence of attempts between
  which other methods run.  Provisioning, stopping traffic and tearing down a laboratory are
  outside the pool and are arguments over a state of their own; clock readings are arguments.
\<close>

section \<open>Runtimes and the pool\<close>

record warm_runtime =
  wr_name :: string
  wr_scale :: string
  wr_in_use :: bool
  wr_lease_deadline :: rat
  wr_baseline_signature :: "string option"
  wr_baseline :: "observation option"
  wr_quarantined :: bool

definition new_runtime :: "string \<Rightarrow> string \<Rightarrow> warm_runtime" where
  "new_runtime name scale =
     \<lparr>wr_name = name, wr_scale = scale, wr_in_use = False, wr_lease_deadline = 0,
      wr_baseline_signature = None, wr_baseline = None, wr_quarantined = False\<rparr>"

record 'w lab =
  lab_provision :: "string \<Rightarrow> ('w, string) action"
  lab_stop_traffic :: "warm_runtime \<Rightarrow> ('w, unit) action"
  lab_teardown :: "warm_runtime \<Rightarrow> ('w, unit) action"

record 'w pool =
  lp_config :: simulator_config
  lp_runtimes :: "(string, nat list) dict"
  lp_records :: "warm_runtime list"
  lp_world :: 'w

definition new_pool :: "simulator_config \<Rightarrow> 'w \<Rightarrow> 'w pool" where
  "new_pool config w = \<lparr>lp_config = config, lp_runtimes = [], lp_records = [], lp_world = w\<rparr>"

definition runtime_at :: "'w pool \<Rightarrow> nat \<Rightarrow> warm_runtime" where
  "runtime_at p r = lp_records p ! r"

definition update_runtime :: "nat \<Rightarrow> (warm_runtime \<Rightarrow> warm_runtime) \<Rightarrow> 'w pool \<Rightarrow> 'w pool" where
  "update_runtime r f p = p\<lparr>lp_records := (lp_records p)[r := f (runtime_at p r)]\<rparr>"

text \<open>All pooled runtimes, in the order the nested loops visit them.\<close>

definition pooled :: "'w pool \<Rightarrow> nat list" where
  "pooled p = concat (map snd (lp_runtimes p))"

definition runtime_count :: "'w pool \<Rightarrow> int" where
  "runtime_count p = int (length (pooled p))"

definition idle :: "'w pool \<Rightarrow> nat \<Rightarrow> bool" where
  "idle p r \<longleftrightarrow> \<not> wr_in_use (runtime_at p r) \<and> \<not> wr_quarantined (runtime_at p r)"

section \<open>Releasing, refreshing and quarantining\<close>

definition release :: "nat \<Rightarrow> 'w pool \<Rightarrow> 'w pool" where
  "release r = update_runtime r (\<lambda>x. x\<lparr>wr_in_use := False, wr_lease_deadline := 0\<rparr>)"

definition refresh :: "rat \<Rightarrow> rat \<Rightarrow> nat \<Rightarrow> 'w pool \<Rightarrow> 'w pool" where
  "refresh now min_seconds r p =
     (if wr_in_use (runtime_at p r) \<and> \<not> wr_quarantined (runtime_at p r) then
        update_runtime r (\<lambda>x. x\<lparr>wr_lease_deadline :=
          now + max (of_int (cf_orphan_lease_ttl_seconds (lp_config p))) (min_seconds + 300)\<rparr>) p
      else p)"

definition remove_runtime :: "nat \<Rightarrow> 'w pool \<Rightarrow> 'w pool" where
  "remove_runtime r p =
     (let scale = wr_scale (runtime_at p r); rs = dict_get_default (lp_runtimes p) scale []
      in if r \<in> set rs then p\<lparr>lp_runtimes := dict_set (lp_runtimes p) scale (remove1 r rs)\<rparr> else p)"

text \<open>A failure to stop the traffic is logged only; a failed teardown keeps the runtime pooled.\<close>

definition quarantine :: "'w lab \<Rightarrow> nat \<Rightarrow> ('w pool, unit) action" where
  "quarantine lab r p =
     (let p1 = update_runtime r (\<lambda>x. x\<lparr>wr_quarantined := True, wr_in_use := False, wr_lease_deadline := 0\<rparr>) p;
          w1 = snd (lab_stop_traffic lab (runtime_at p1 r) (lp_world p1))
      in case lab_teardown lab (runtime_at p1 r) w1 of
           (Inl e, w2) \<Rightarrow> (Inl e, p1\<lparr>lp_world := w2\<rparr>)
         | (Inr _, w2) \<Rightarrow> (Inr (), remove_runtime r (p1\<lparr>lp_world := w2\<rparr>)))"

definition quarantine_quietly :: "'w lab \<Rightarrow> nat \<Rightarrow> 'w pool \<Rightarrow> 'w pool" where
  "quarantine_quietly lab r p = snd (quarantine lab r p)"

definition drain_step :: "'w lab \<Rightarrow> nat \<Rightarrow> string list \<times> 'w pool \<Rightarrow> string list \<times> 'w pool" where
  "drain_step lab r fp =
     (case fp of (failures, p) \<Rightarrow>
        (case quarantine lab r p of
           (Inl e, p') \<Rightarrow> (failures @ [wr_name (runtime_at p r) @ '': '' @ exc_type e @ '': '' @ exc_message e], p')
         | (Inr _, p') \<Rightarrow> (failures, p')))"

definition drain :: "'w lab \<Rightarrow> string set option \<Rightarrow> ('w pool, unit) action" where
  "drain lab scales p =
     (let selected = concat (map snd (filter (\<lambda>(scale, rs). case scales of None \<Rightarrow> True | Some S \<Rightarrow> scale \<in> S)
                                        (lp_runtimes p)));
          (failures, p') = fold (drain_step lab) selected ([], p)
      in if failures \<noteq> [] then
           (Inl (RuntimeError (''Simulator runtime drain failed: '' @ str_join ''; '' failures)), p')
         else (Inr (), p'))"

definition stale :: "rat \<Rightarrow> 'w pool \<Rightarrow> nat \<Rightarrow> bool" where
  "stale now p r \<longleftrightarrow>
     wr_in_use (runtime_at p r) \<and> wr_lease_deadline (runtime_at p r) \<noteq> 0 \<and> wr_lease_deadline (runtime_at p r) < now"

definition reap_orphans :: "'w lab \<Rightarrow> rat \<Rightarrow> 'w pool \<Rightarrow> 'w pool" where
  "reap_orphans lab now p = fold (quarantine_quietly lab) (filter (stale now p) (pooled p)) p"

section \<open>Acquiring\<close>

definition next_wait_timeout :: "rat \<Rightarrow> rat \<Rightarrow> 'w pool \<Rightarrow> rat" where
  "next_wait_timeout now remaining p =
     (let active = filter (\<lambda>d. now < d)
            (map (\<lambda>r. wr_lease_deadline (runtime_at p r)) (filter (\<lambda>r. wr_in_use (runtime_at p r)) (pooled p)))
      in if active = [] then remaining else min remaining (max (1 / 100) (Min (set active) - now)))"

fun free_capacity :: "'w lab \<Rightarrow> nat list \<Rightarrow> 'w pool \<Rightarrow> 'w pool" where
  "free_capacity lab [] p = p"
| "free_capacity lab (r # rs) p =
     (case quarantine lab r p of
        (Inl e, p') \<Rightarrow> free_capacity lab rs p'
      | (Inr _, p') \<Rightarrow>
          if runtime_count p' < cf_max_active_runtimes (lp_config p') then p' else free_capacity lab rs p')"

definition make_capacity_for :: "'w lab \<Rightarrow> string \<Rightarrow> 'w pool \<Rightarrow> 'w pool" where
  "make_capacity_for lab scale p =
     (if runtime_count p < cf_max_active_runtimes (lp_config p) then p
      else free_capacity lab
             (filter (idle p) (concat (map snd (filter (\<lambda>(s, rs). s \<noteq> scale) (lp_runtimes p))))) p)"

text \<open>\<open>_provision\<close> and the \<open>append\<close> to the list of its scale.\<close>

definition provision :: "'w lab \<Rightarrow> string \<Rightarrow> ('w pool, nat) action" where
  "provision lab scale p =
     (case lab_provision lab scale (lp_world p) of
        (Inl e, w) \<Rightarrow> (Inl e, p\<lparr>lp_world := w\<rparr>)
      | (Inr name, w) \<Rightarrow>
          (let r = length (lp_records p)
           in (Inr r, p\<lparr>lp_world := w, lp_records := lp_records p @ [new_runtime name scale],
                  lp_runtimes := dict_set (lp_runtimes p) scale
                    (dict_get_default (lp_runtimes p) scale [] @ [r])\<rparr>)))"

definition setdefault_scale :: "string \<Rightarrow> 'w pool \<Rightarrow> 'w pool" where
  "setdefault_scale scale p =
     (case dict_get (lp_runtimes p) scale of
        Some _ \<Rightarrow> p
      | None \<Rightarrow> p\<lparr>lp_runtimes := dict_set (lp_runtimes p) scale []\<rparr>)"

definition grant :: "rat \<Rightarrow> nat \<Rightarrow> 'w pool \<Rightarrow> 'w pool" where
  "grant now r p =
     update_runtime r (\<lambda>x. x\<lparr>wr_in_use := True,
       wr_lease_deadline := now + of_int (cf_orphan_lease_ttl_seconds (lp_config p))\<rparr>) p"

text \<open>
  One round of the loop of \<open>acquire\<close>, up to its \<open>wait\<close>: it grants a runtime, raises, or waits for
  the given time.  The three clock readings are those of reaping, granting and the time-out.
\<close>

datatype outcome = Granted nat | Waits rat

record readings =
  at_reap :: rat
  at_grant :: rat
  at_check :: rat

definition find_available :: "string \<Rightarrow> 'w pool \<Rightarrow> nat option" where
  "find_available scale p = find (idle p) (dict_get_default (lp_runtimes p) scale [])"

text \<open>Both steps that may drop runtimes are followed by \<open>setdefault(scale, [])\<close>.\<close>

definition after_reaping :: "'w lab \<Rightarrow> string \<Rightarrow> rat \<Rightarrow> 'w pool \<Rightarrow> 'w pool" where
  "after_reaping lab scale now p = setdefault_scale scale (reap_orphans lab now p)"

definition after_freeing :: "'w lab \<Rightarrow> string \<Rightarrow> 'w pool \<Rightarrow> 'w pool" where
  "after_freeing lab scale p = setdefault_scale scale (make_capacity_for lab scale p)"

definition acquire_attempt :: "'w lab \<Rightarrow> string \<Rightarrow> rat \<Rightarrow> readings \<Rightarrow> ('w pool, outcome) action" where
  "acquire_attempt lab scale deadline t p0 =
     (let p = after_reaping lab scale (at_reap t) p0
      in case find_available scale p of
           Some r \<Rightarrow> (Inr (Granted r), grant (at_grant t) r p)
         | None \<Rightarrow>
             (let p1 = after_freeing lab scale p
              in if runtime_count p1 < cf_max_active_runtimes (lp_config p1) then
                   (case provision lab scale p1 of
                      (Inl e, p2) \<Rightarrow> (Inl e, p2)
                    | (Inr r, p2) \<Rightarrow> (Inr (Granted r), grant (at_grant t) r p2))
                 else if deadline - at_check t \<le> 0 then
                   (Inl (RuntimeError (''Timed out waiting for runtime lease for scale '' @ scale
                      @ ''; global capacity is '' @ int_str (cf_max_active_runtimes (lp_config p1)))), p1)
                 else (Inr (Waits (next_wait_timeout (at_check t) (deadline - at_check t) p1)), p1)))"

definition lease_wait_timeout_seconds :: rat where
  "lease_wait_timeout_seconds = 1800"

text \<open>
  The whole call: before each round other threads may have changed the pool (\<open>world\<close> of the
  round).  \<open>None\<close> means that the call is still waiting after the given rounds.
\<close>

fun acquire :: "'w lab \<Rightarrow> string \<Rightarrow> rat \<Rightarrow> (('w pool \<Rightarrow> 'w pool) \<times> readings) list \<Rightarrow> 'w pool \<Rightarrow>
    (nat result \<times> 'w pool) option" where
  "acquire lab scale started [] p = None"
| "acquire lab scale started ((others, t) # rounds) p =
     (case acquire_attempt lab scale (started + lease_wait_timeout_seconds) t (others p) of
        (Inl e, p') \<Rightarrow> Some (Inl e, p')
      | (Inr (Granted r), p') \<Rightarrow> Some (Inr r, p')
      | (Inr (Waits s), p') \<Rightarrow> acquire lab scale started rounds p')"

section \<open>The invariant\<close>

definition pool_ok :: "'w pool \<Rightarrow> bool" where
  "pool_ok p \<longleftrightarrow>
     distinct (map fst (lp_runtimes p)) \<and> distinct (pooled p) \<and>
     (\<forall>(scale, rs) \<in> set (lp_runtimes p). \<forall>r \<in> set rs. r < length (lp_records p) \<and> wr_scale (runtime_at p r) = scale) \<and>
     runtime_count p \<le> max 0 (cf_max_active_runtimes (lp_config p)) \<and>
     (\<forall>r < length (lp_records p). wr_in_use (runtime_at p r) \<longrightarrow>
        r \<in> set (pooled p) \<and> \<not> wr_quarantined (runtime_at p r))"


lemma update_split:
  "distinct (map fst d) \<Longrightarrow> map_of d k = Some v \<Longrightarrow>
     \<exists>a b. d = a @ (k, v) # b \<and> AList.update k v' d = a @ (k, v') # b"
proof (induction d)
  case (Cons x d)
  show ?case
  proof (cases "fst x = k")
    case True
    then have "x # d = [] @ (k, v) # d \<and> AList.update k v' (x # d) = [] @ (k, v') # d"
      using Cons.prems by (cases x) auto
    then show ?thesis by blast
  next
    case False
    then obtain a b where "d = a @ (k, v) # b \<and> AList.update k v' d = a @ (k, v') # b"
      using Cons by (cases x) auto
    then have "x # d = (x # a) @ (k, v) # b \<and> AList.update k v' (x # d) = (x # a) @ (k, v') # b"
      using False by (cases x) auto
    then show ?thesis by blast
  qed
qed simp

lemma update_runtime_at:
  "runtime_at (update_runtime r f p) x =
     (if x = r \<and> r < length (lp_records p) then f (runtime_at p r) else runtime_at p x)"
  by (cases "r < length (lp_records p)") (auto simp: runtime_at_def update_runtime_def nth_list_update list_update_beyond)

lemma update_runtime_fields [simp]:
  "lp_runtimes (update_runtime r f p) = lp_runtimes p" "pooled (update_runtime r f p) = pooled p"
  "runtime_count (update_runtime r f p) = runtime_count p" "lp_config (update_runtime r f p) = lp_config p"
  "length (lp_records (update_runtime r f p)) = length (lp_records p)" "lp_world (update_runtime r f p) = lp_world p"
  by (simp_all add: update_runtime_def pooled_def runtime_count_def)

lemma world_fields [simp]:
  "pooled (p\<lparr>lp_world := w\<rparr>) = pooled p" "runtime_at (p\<lparr>lp_world := w\<rparr>) = runtime_at p"
  "runtime_count (p\<lparr>lp_world := w\<rparr>) = runtime_count p" "pool_ok (p\<lparr>lp_world := w\<rparr>) = pool_ok p"
  by (simp_all add: pooled_def runtime_at_def fun_eq_iff runtime_count_def pool_ok_def)

lemma runtimes_fields [simp]:
  "runtime_at (p\<lparr>lp_runtimes := d\<rparr>) = runtime_at p"
  by (simp add: runtime_at_def fun_eq_iff)

lemma update_runtime_ok:
  assumes "pool_ok p" "\<And>x. wr_scale (f x) = wr_scale x"
    "wr_in_use (f (runtime_at p r)) \<Longrightarrow> r \<in> set (pooled p) \<and> \<not> wr_quarantined (f (runtime_at p r))"
  shows "pool_ok (update_runtime r f p)"
proof -
  have "\<forall>(scale, rs) \<in> set (lp_runtimes p). \<forall>x \<in> set rs.
      x < length (lp_records p) \<and> wr_scale (runtime_at (update_runtime r f p) x) = scale"
    using assms(1,2) by (fastforce simp: pool_ok_def update_runtime_at)
  moreover have "\<forall>x < length (lp_records p). wr_in_use (runtime_at (update_runtime r f p) x) \<longrightarrow>
      x \<in> set (pooled p) \<and> \<not> wr_quarantined (runtime_at (update_runtime r f p) x)"
    using assms(1,3) by (simp add: pool_ok_def update_runtime_at)
  ultimately show ?thesis using assms(1) by (simp add: pool_ok_def)
qed

text \<open>Replacing the list of one scale.\<close>

lemma pooled_update:
  assumes "distinct (map fst (lp_runtimes p))" "dict_get (lp_runtimes p) scale = Some rs"
  shows "\<exists>a b. pooled p = a @ rs @ b \<and> pooled (p\<lparr>lp_runtimes := dict_set (lp_runtimes p) scale rs'\<rparr>) = a @ rs' @ b"
proof -
  obtain a b where "lp_runtimes p = a @ (scale, rs) # b" "AList.update scale rs' (lp_runtimes p) = a @ (scale, rs') # b"
    using update_split [OF assms] by blast
  then have "pooled p = concat (map snd a) @ rs @ concat (map snd b)"
    "pooled (p\<lparr>lp_runtimes := dict_set (lp_runtimes p) scale rs'\<rparr>) = concat (map snd a) @ rs' @ concat (map snd b)"
    by (simp_all add: pooled_def)
  then show ?thesis by blast
qed

lemma remove_runtime_ok:
  assumes "pool_ok p" "\<not> wr_in_use (runtime_at p r)"
  shows "pool_ok (remove_runtime r p) \<and> set (pooled (remove_runtime r p)) \<subseteq> set (pooled p)"
proof (cases "r \<in> set (dict_get_default (lp_runtimes p) (wr_scale (runtime_at p r)) [])")
  case False
  then show ?thesis using assms(1) by (simp add: remove_runtime_def Let_def)
next
  case True
  let ?s = "wr_scale (runtime_at p r)"
  obtain rs where rs: "dict_get (lp_runtimes p) ?s = Some rs" "r \<in> set rs"
    using True by (cases "dict_get (lp_runtimes p) ?s") (auto simp: dict_get_default_def)
  let ?q = "p\<lparr>lp_runtimes := dict_set (lp_runtimes p) ?s (remove1 r rs)\<rparr>"
  have q: "remove_runtime r p = ?q" using rs by (simp add: remove_runtime_def Let_def dict_get_default_def)
  have keys: "distinct (map fst (lp_runtimes p))" using assms(1) by (simp add: pool_ok_def)
  obtain a b where ab: "pooled p = a @ rs @ b" "pooled ?q = a @ remove1 r rs @ b"
    using pooled_update [OF keys rs(1)] by blast
  have dis: "distinct (a @ rs @ b)" using assms(1) ab by (simp add: pool_ok_def)
  have sub: "set (pooled ?q) = set (pooled p) - {r}"
    using dis rs(2) by (auto simp: ab)
  have "(\<forall>(scale, xs) \<in> set (lp_runtimes ?q). \<forall>x \<in> set xs. x < length (lp_records p) \<and> wr_scale (runtime_at p x) = scale)"
  proof -
    have "set (lp_runtimes ?q) \<subseteq> insert (?s, remove1 r rs) (set (lp_runtimes p))"
      using set_update_subset by fastforce
    moreover have "(?s, rs) \<in> set (lp_runtimes p)" using rs(1) by (rule map_of_SomeD)
    moreover have old: "\<And>s xs x. (s, xs) \<in> set (lp_runtimes p) \<Longrightarrow> x \<in> set xs \<Longrightarrow>
        x < length (lp_records p) \<and> wr_scale (runtime_at p x) = s"
      using assms(1) unfolding pool_ok_def by blast
    ultimately show ?thesis
      using set_remove1_subset [of r rs] by (intro ballI, clarify) blast
  qed
  moreover have "runtime_count ?q \<le> runtime_count p"
    using length_remove1 [of r rs] by (simp add: runtime_count_def ab)
  moreover have "distinct (pooled ?q)" using dis by (auto simp: ab)
  ultimately show ?thesis
    using assms keys sub unfolding q by (auto simp: pool_ok_def)
qed

lemma quarantine_state:
  "\<exists>w. let p1 = (update_runtime r (\<lambda>x. x\<lparr>wr_quarantined := True, wr_in_use := False, wr_lease_deadline := 0\<rparr>) p)
           \<lparr>lp_world := w\<rparr>
        in snd (quarantine lab r p) = p1 \<or> snd (quarantine lab r p) = remove_runtime r p1"
  by (auto simp: quarantine_def Let_def split: prod.splits sum.splits)

lemma remove_runtime_fields [simp]:
  "runtime_at (remove_runtime r p) = runtime_at p" "lp_config (remove_runtime r p) = lp_config p"
  "lp_records (remove_runtime r p) = lp_records p"
  by (simp_all add: remove_runtime_def Let_def)

text \<open>The runtimes a list of quarantines touches, and what it leaves alone.\<close>

definition quarantined_only :: "nat set \<Rightarrow> 'w pool \<Rightarrow> 'w pool \<Rightarrow> bool" where
  "quarantined_only R p q \<longleftrightarrow>
     (pool_ok p \<longrightarrow> pool_ok q) \<and> lp_config q = lp_config p \<and> length (lp_records q) = length (lp_records p) \<and>
     (\<forall>x. x \<notin> R \<longrightarrow> runtime_at q x = runtime_at p x) \<and>
     (\<forall>x < length (lp_records p). runtime_at q x = runtime_at p x \<or> wr_quarantined (runtime_at q x)) \<and>
     (pool_ok p \<longrightarrow> set (pooled q) \<subseteq> set (pooled p))"

lemma quarantine_only: "quarantined_only {r} p (snd (quarantine lab r p))"
proof -
  let ?f = "\<lambda>x. x\<lparr>wr_quarantined := True, wr_in_use := False, wr_lease_deadline := 0\<rparr>"
  obtain w where w: "let p1 = (update_runtime r ?f p)\<lparr>lp_world := w\<rparr>
        in snd (quarantine lab r p) = p1 \<or> snd (quarantine lab r p) = remove_runtime r p1"
    using quarantine_state [of r p lab] by (rule exE)
  let ?p = "(update_runtime r ?f p)\<lparr>lp_world := w\<rparr>"
  have ok: "pool_ok ?p" if "pool_ok p" using update_runtime_ok [OF that, of ?f r] by simp
  have idle: "\<not> wr_in_use (runtime_at ?p r)" if "r < length (lp_records p)" using that by (simp add: update_runtime_at)
  have q: "quarantined_only {r} p ?p"
    using ok by (simp add: quarantined_only_def update_runtime_at)
  have "quarantined_only {r} p (remove_runtime r ?p)"
  proof (cases "r < length (lp_records p)")
    case True
    then show ?thesis
      using q ok remove_runtime_ok [of ?p r] idle by (auto simp: quarantined_only_def)
  next
    case False
    have "remove_runtime r ?p = ?p" if "pool_ok p"
    proof -
      have "r \<notin> set (dict_get_default (lp_runtimes p) s [])" for s
        using that False by (fastforce simp: pool_ok_def dict_get_default_def dest: map_of_SomeD split: option.splits)
      then show ?thesis by (simp add: remove_runtime_def)
    qed
    then show ?thesis using q by (auto simp: quarantined_only_def)
  qed
  then show ?thesis using w q by (auto simp: Let_def)
qed

lemma quarantined_only_refl [simp]: "quarantined_only R p p"
  by (simp add: quarantined_only_def)

lemma quarantined_only_mono: "quarantined_only R p q \<Longrightarrow> R \<subseteq> S \<Longrightarrow> quarantined_only S p q"
  by (auto simp: quarantined_only_def)

lemma quarantined_only_trans:
  assumes "quarantined_only R p q" "quarantined_only S q s"
  shows "quarantined_only (R \<union> S) p s"
  using assms unfolding quarantined_only_def by (metis Un_iff subset_trans)

lemma fold_quarantine_only: "quarantined_only (set rs) p (fold (quarantine_quietly lab) rs p)"
proof (induction rs arbitrary: p)
  case (Cons r rs)
  have "quarantined_only ({r} \<union> set rs) p (fold (quarantine_quietly lab) rs (quarantine_quietly lab r p))"
    unfolding quarantine_quietly_def
    by (rule quarantined_only_trans [OF quarantine_only Cons.IH [unfolded quarantine_quietly_def]])
  then show ?case by simp
qed simp

lemma free_capacity_only: "quarantined_only (set rs) p (free_capacity lab rs p)"
proof (induction rs arbitrary: p)
  case (Cons r rs)
  obtain q p' where q: "quarantine lab r p = (q, p')" by fastforce
  have s: "quarantined_only {r} p p'" using quarantine_only [of r p lab] by (simp add: q)
  have "quarantined_only ({r} \<union> set rs) p (free_capacity lab rs p')"
    by (rule quarantined_only_trans [OF s Cons.IH])
  then show ?case using quarantined_only_mono [OF s, of "set (r # rs)"] by (simp add: q split: sum.split)
qed simp

lemma drain_only:
  "quarantined_only (set rs) (snd fp) (snd (fold (drain_step lab) rs fp))"
proof (induction rs arbitrary: fp)
  case (Cons r rs)
  obtain fs p where fp: "fp = (fs, p)" by (cases fp)
  obtain q p' where q: "quarantine lab r p = (q, p')" by fastforce
  have s: "quarantined_only {r} p p'" using quarantine_only [of r p lab] by (simp add: q)
  have "quarantined_only ({r} \<union> set rs) p (snd (fold (drain_step lab) rs (fs', p')))" for fs'
    using quarantined_only_trans [OF s Cons.IH [of "(fs', p')", simplified]] by simp
  moreover obtain fs' where "drain_step lab r fp = (fs', p')"
    by (cases q) (simp_all add: fp drain_step_def q)
  ultimately show ?case by (simp add: fp)
qed simp

section \<open>One attempt to acquire\<close>

lemma setdefault_facts [simp]:
  "pooled (setdefault_scale scale p) = pooled p" "runtime_at (setdefault_scale scale p) = runtime_at p"
  "lp_config (setdefault_scale scale p) = lp_config p" "lp_records (setdefault_scale scale p) = lp_records p"
  "runtime_count (setdefault_scale scale p) = runtime_count p"
proof -
  show pe: "pooled (setdefault_scale scale p) = pooled p"
  proof (cases "dict_get (lp_runtimes p) scale")
    case None
    then have "scale \<notin> set (map fst (lp_runtimes p))" by (simp add: map_of_eq_None_iff)
    then show ?thesis by (simp add: setdefault_scale_def pooled_def None update_absent)
  qed (simp add: setdefault_scale_def)
  show "runtime_count (setdefault_scale scale p) = runtime_count p" by (simp add: runtime_count_def pe)
  show "runtime_at (setdefault_scale scale p) = runtime_at p"
    "lp_config (setdefault_scale scale p) = lp_config p" "lp_records (setdefault_scale scale p) = lp_records p"
    by (simp_all add: setdefault_scale_def split: option.split)
qed

lemma setdefault_only: "quarantined_only R p (setdefault_scale scale p)"
proof -
  have "pool_ok (setdefault_scale scale p)" if ok: "pool_ok p"
  proof (cases "dict_get (lp_runtimes p) scale")
    case None
    then have n: "scale \<notin> set (map fst (lp_runtimes p))" by (simp add: map_of_eq_None_iff)
    then have "lp_runtimes (setdefault_scale scale p) = lp_runtimes p @ [(scale, [])]"
      by (simp add: setdefault_scale_def None update_absent)
    then show ?thesis using ok n unfolding pool_ok_def by simp
  next
    case (Some rs)
    then show ?thesis using ok by (simp add: setdefault_scale_def)
  qed
  then show ?thesis by (simp add: quarantined_only_def)
qed

lemma listed_pooled: "dict_get (lp_runtimes p) scale = Some rs \<Longrightarrow> r \<in> set rs \<Longrightarrow> r \<in> set (pooled p)"
  by (force simp: pooled_def dest: map_of_SomeD)

lemma find_available_Some:
  assumes "find_available scale p = Some r"
  shows "r \<in> set (pooled p) \<and> idle p r"
proof (cases "dict_get (lp_runtimes p) scale")
  case None
  then show ?thesis using assms by (simp add: find_available_def dict_get_default_def)
next
  case (Some rs)
  then have "r \<in> set rs" "idle p r"
    using assms find_Some_set [of "idle p" rs r] by (simp_all add: find_available_def dict_get_default_def)
  then show ?thesis using listed_pooled [OF Some] by blast
qed

lemma pooled_in_range: "pool_ok p \<Longrightarrow> r \<in> set (pooled p) \<Longrightarrow> r < length (lp_records p)"
  by (fastforce simp: pool_ok_def pooled_def)

text \<open>Granting an idle runtime of the pool.\<close>

lemma grant_facts:
  assumes "pool_ok p" "r \<in> set (pooled p)" "idle p r"
  shows "pool_ok (grant now r p)" "wr_in_use (runtime_at (grant now r p) r)" "pooled (grant now r p) = pooled p"
    "wr_lease_deadline (runtime_at (grant now r p) r) = now + of_int (cf_orphan_lease_ttl_seconds (lp_config p))"
    "\<And>x. x \<noteq> r \<Longrightarrow> runtime_at (grant now r p) x = runtime_at p x"
    "lp_config (grant now r p) = lp_config p" "length (lp_records (grant now r p)) = length (lp_records p)"
proof -
  show "pool_ok (grant now r p)"
    unfolding grant_def using assms by (intro update_runtime_ok) (simp_all add: idle_def)
  show "wr_in_use (runtime_at (grant now r p) r)"
    "wr_lease_deadline (runtime_at (grant now r p) r) = now + of_int (cf_orphan_lease_ttl_seconds (lp_config p))"
    "\<And>x. x \<noteq> r \<Longrightarrow> runtime_at (grant now r p) x = runtime_at p x"
    using pooled_in_range [OF assms(1,2)] by (simp_all add: grant_def update_runtime_at)
qed (simp_all add: grant_def)

text \<open>Provisioning appends a new idle runtime.\<close>

lemma provision_facts:
  assumes "pool_ok p" "runtime_count p < cf_max_active_runtimes (lp_config p)" "provision lab scale p = (Inr r, q)"
  shows "pool_ok q" "r = length (lp_records p)" "r \<in> set (pooled q)" "idle q r" "lp_config q = lp_config p"
    "\<And>x. x < length (lp_records p) \<Longrightarrow> runtime_at q x = runtime_at p x"
proof -
  obtain name w where q: "q = p\<lparr>lp_world := w, lp_records := lp_records p @ [new_runtime name scale],
      lp_runtimes := dict_set (lp_runtimes p) scale (dict_get_default (lp_runtimes p) scale [] @ [r])\<rparr>"
    and r: "r = length (lp_records p)"
  proof -
    obtain res w where e: "lab_provision lab scale (lp_world p) = (res, w)" by fastforce
    obtain name where n: "res = Inr name" using assms(3) by (cases res) (simp_all add: provision_def e)
    have rq: "r = length (lp_records p)" using assms(3) by (simp add: provision_def e n Let_def)
    have "q = p\<lparr>lp_world := w, lp_records := lp_records p @ [new_runtime name scale],
      lp_runtimes := dict_set (lp_runtimes p) scale (dict_get_default (lp_runtimes p) scale [] @ [r])\<rparr>"
      using assms(3) by (simp only: provision_def e n Let_def rq prod.case sum.case prod.inject)
    then show thesis using that rq by blast
  qed
  have old: "runtime_at q x = runtime_at p x" if "x < length (lp_records p)" for x
    using that by (simp add: q runtime_at_def nth_append)
  have new: "runtime_at q r = new_runtime name scale" by (simp add: q r runtime_at_def)
  have keys: "distinct (map fst (lp_runtimes p))" using assms(1) by (simp add: pool_ok_def)
  have "\<exists>a b. pooled p = a @ b \<and> pooled q = a @ r # b"
  proof (cases "dict_get (lp_runtimes p) scale")
    case None
    then have "scale \<notin> set (map fst (lp_runtimes p))" by (simp add: map_of_eq_None_iff)
    then have "pooled q = pooled p @ r # []"
      by (simp add: q pooled_def update_absent None dict_get_default_def)
    then show ?thesis by (metis append_Nil2)
  next
    case (Some rs)
    obtain a b where "pooled p = a @ rs @ b"
      "pooled (p\<lparr>lp_runtimes := dict_set (lp_runtimes p) scale (rs @ [r])\<rparr>) = a @ (rs @ [r]) @ b"
      using pooled_update [OF keys Some] by blast
    then have "pooled p = (a @ rs) @ b \<and> pooled q = (a @ rs) @ r # b"
      by (simp add: q pooled_def Some dict_get_default_def)
    then show ?thesis by blast
  qed
  then obtain a b where ab: "pooled p = a @ b" "pooled q = a @ r # b" by blast
  have range: "x < length (lp_records p)" if "x \<in> set (pooled p)" for x using pooled_in_range [OF assms(1) that] .
  have dis: "distinct (pooled q)" using assms(1) range r by (force simp: ab pool_ok_def)
  have lists: "\<forall>(s, xs) \<in> set (lp_runtimes q). \<forall>x \<in> set xs. x < length (lp_records q) \<and> wr_scale (runtime_at q x) = s"
  proof -
    have sub: "set (lp_runtimes q) \<subseteq> insert (scale, dict_get_default (lp_runtimes p) scale [] @ [r]) (set (lp_runtimes p))"
      using set_update_subset by (fastforce simp: q)
    have was: "x < length (lp_records p) \<and> wr_scale (runtime_at p x) = s"
      if "(s, xs) \<in> set (lp_runtimes p)" "x \<in> set xs" for s xs x
      using assms(1) that unfolding pool_ok_def by blast
    have mine: "x < length (lp_records p) \<and> wr_scale (runtime_at p x) = scale"
      if "x \<in> set (dict_get_default (lp_runtimes p) scale [])" for x
      using that was [OF map_of_SomeD] by (cases "dict_get (lp_runtimes p) scale") (auto simp: dict_get_default_def)
    have len: "length (lp_records q) = Suc (length (lp_records p))" by (simp add: q)
    have "x < length (lp_records q) \<and> wr_scale (runtime_at q x) = s"
      if e: "(s, xs) \<in> set (lp_runtimes q)" "x \<in> set xs" for s xs x
    proof (cases "(s, xs) \<in> set (lp_runtimes p)")
      case True
      then show ?thesis using was [OF True e(2)] old len by simp
    next
      case False
      then have "s = scale" "xs = dict_get_default (lp_runtimes p) scale [] @ [r]" using sub e(1) by auto
      then show ?thesis
        using e(2) mine [of x] old len new r by (cases "x = r") (auto simp: new_runtime_def)
    qed
    then show ?thesis by blast
  qed
  have "runtime_count q = runtime_count p + 1" by (simp add: runtime_count_def ab)
  moreover have "wr_in_use (runtime_at q x) \<longrightarrow> x \<in> set (pooled q) \<and> \<not> wr_quarantined (runtime_at q x)"
    if "x < length (lp_records q)" for x
  proof (cases "x = r")
    case True
    then show ?thesis by (simp add: new new_runtime_def)
  next
    case False
    then have "x < length (lp_records p)" using that r by (simp add: q)
    then show ?thesis using assms(1) old ab by (auto simp: pool_ok_def)
  qed
  moreover have "distinct (map fst (lp_runtimes q))" using keys by (simp add: q)
  ultimately show "pool_ok q" using dis lists assms(2) by (simp add: pool_ok_def q)
  show "r = length (lp_records p)" "r \<in> set (pooled q)" "idle q r" "lp_config q = lp_config p"
    "\<And>x. x < length (lp_records p) \<Longrightarrow> runtime_at q x = runtime_at p x"
    using ab r old new by (simp_all add: idle_def new_runtime_def) (simp add: q)
qed

lemma reaping_only: "quarantined_only {r. stale now p r} p (after_reaping lab scale now p)"
proof -
  have "quarantined_only (set (filter (stale now p) (pooled p))) p (reap_orphans lab now p)"
    unfolding reap_orphans_def by (rule fold_quarantine_only)
  then have "quarantined_only (set (filter (stale now p) (pooled p)) \<union> {}) p (after_reaping lab scale now p)"
    unfolding after_reaping_def by (rule quarantined_only_trans) (rule setdefault_only)
  then show ?thesis by (rule quarantined_only_mono) auto
qed

lemma freeing_only: "quarantined_only {r. idle p r} p (after_freeing lab scale p)"
proof -
  have "quarantined_only {r. idle p r} p (make_capacity_for lab scale p)"
    unfolding make_capacity_for_def by (auto intro: quarantined_only_mono [OF free_capacity_only])
  then have "quarantined_only ({r. idle p r} \<union> {}) p (after_freeing lab scale p)"
    unfolding after_freeing_def by (rule quarantined_only_trans) (rule setdefault_only)
  then show ?thesis by simp
qed

lemma provision_error_ok:
  "provision lab scale p = (Inl e, q) \<Longrightarrow> pool_ok p \<Longrightarrow> pool_ok q"
  by (cases "lab_provision lab scale (lp_world p)"; cases "fst (lab_provision lab scale (lp_world p))")
    (auto simp: provision_def Let_def)

text \<open>What a lease granted at \<open>now\<close> looks like, seen from the pool before the attempt.\<close>

definition fair_grant :: "rat \<Rightarrow> rat \<Rightarrow> 'w pool \<Rightarrow> 'w pool \<Rightarrow> nat \<Rightarrow> bool" where
  "fair_grant reaped now p0 q r \<longleftrightarrow>
     r \<in> set (pooled q) \<and> wr_in_use (runtime_at q r) \<and>
     wr_lease_deadline (runtime_at q r) = now + of_int (cf_orphan_lease_ttl_seconds (lp_config p0)) \<and>
     (length (lp_records p0) \<le> r \<or> idle p0 r) \<and>
     (\<forall>x < length (lp_records p0). x \<noteq> r \<and> wr_in_use (runtime_at p0 x) \<longrightarrow>
        runtime_at q x = runtime_at p0 x \<or> stale reaped p0 x)"

lemma acquire_attempt_facts:
  assumes ok: "pool_ok p0" and a: "acquire_attempt lab scale deadline t p0 = (res, q)"
  shows "pool_ok q \<and> (\<forall>r. res = Inr (Granted r) \<longrightarrow> fair_grant (at_reap t) (at_grant t) p0 q r)"
proof -
  let ?p = "after_reaping lab scale (at_reap t) p0"
  note reap = reaping_only [of "at_reap t" p0 lab scale, unfolded quarantined_only_def]
  have p: "pool_ok ?p" "lp_config ?p = lp_config p0" "length (lp_records ?p) = length (lp_records p0)"
    using reap ok by blast+
  have keep: "runtime_at ?p x = runtime_at p0 x" if "\<not> stale (at_reap t) p0 x" for x
    using reap that by blast
  have was_idle: "idle p0 r" if "idle ?p r" "r < length (lp_records p0)" for r
    using reap that unfolding idle_def by metis
  show ?thesis
  proof (cases "find_available scale ?p")
    case (Some r)
    have q: "res = Inr (Granted r)" "q = grant (at_grant t) r ?p"
      using a by (simp_all add: acquire_attempt_def Some Let_def)
    have r: "r \<in> set (pooled ?p)" "idle ?p r" using find_available_Some [OF Some] by blast+
    note g = grant_facts [OF p(1) r, where now = "at_grant t"]
    have "r < length (lp_records p0)" using pooled_in_range [OF p(1) r(1)] p(3) by simp
    then show ?thesis
      using g r keep was_idle p(2) by (auto simp: q fair_grant_def)
  next
    case None
    let ?p1 = "after_freeing lab scale ?p"
    note free = freeing_only [of ?p lab scale, unfolded quarantined_only_def]
    have p1: "pool_ok ?p1" "lp_config ?p1 = lp_config p0" "length (lp_records ?p1) = length (lp_records p0)"
      using free p by metis+
    have keep1: "runtime_at ?p1 x = runtime_at p0 x" if "wr_in_use (runtime_at p0 x)" "\<not> stale (at_reap t) p0 x" for x
    proof -
      have "\<not> idle ?p x" using that keep by (simp add: idle_def)
      then have "runtime_at ?p1 x = runtime_at ?p x" using free by blast
      then show ?thesis using keep that(2) by simp
    qed
    show ?thesis
    proof (cases "runtime_count ?p1 < cf_max_active_runtimes (lp_config ?p1)")
      case False
      then show ?thesis
        using a p1(1) by (auto simp: acquire_attempt_def None Let_def split: if_splits)
    next
      case True
      obtain pr p2 where pv: "provision lab scale ?p1 = (pr, p2)" by fastforce
      show ?thesis
      proof (cases pr)
        case (Inl e)
        then show ?thesis
          using a True provision_error_ok [OF pv [unfolded Inl] p1(1)]
          by (auto simp: acquire_attempt_def None Let_def pv)
      next
        case (Inr r)
        have q: "res = Inr (Granted r)" "q = grant (at_grant t) r p2"
          using a True by (simp_all add: acquire_attempt_def None Let_def pv Inr)
        note v = provision_facts [OF p1(1) True pv [unfolded Inr]]
        note g = grant_facts [OF v(1,3,4), where now = "at_grant t"]
        show ?thesis using g v p1 keep1 by (auto simp: q fair_grant_def)
      qed
    qed
  qed
qed

section \<open>Interleavings\<close>

text \<open>
  The steps of the pool: attempts of any thread, and the other methods on any runtime that was
  ever handed out, also after the pool has dropped it.
\<close>

inductive pool_step :: "'w lab \<Rightarrow> 'w pool \<Rightarrow> 'w pool \<Rightarrow> bool" for lab :: "'w lab" where
  attempt: "acquire_attempt lab scale deadline t p = (res, q) \<Longrightarrow> pool_step lab p q"
| release: "r < length (lp_records p) \<Longrightarrow> pool_step lab p (release r p)"
| refresh: "r < length (lp_records p) \<Longrightarrow> pool_step lab p (refresh now secs r p)"
| quarantine: "r < length (lp_records p) \<Longrightarrow> quarantine lab r p = (res, q) \<Longrightarrow> pool_step lab p q"
| drain: "drain lab scales p = (res, q) \<Longrightarrow> pool_step lab p q"
| reap: "pool_step lab p (reap_orphans lab now p)"

inductive pool_reachable :: "'w lab \<Rightarrow> simulator_config \<Rightarrow> 'w pool \<Rightarrow> bool" for lab :: "'w lab" and config where
  start: "pool_reachable lab config (new_pool config w)"
| step: "pool_reachable lab config p \<Longrightarrow> pool_step lab p q \<Longrightarrow> pool_reachable lab config q"

lemma release_ok: "pool_ok p \<Longrightarrow> pool_ok (release r p)"
  unfolding release_def by (rule update_runtime_ok) simp_all

lemma refresh_ok:
  assumes "pool_ok p" "r < length (lp_records p)"
  shows "pool_ok (refresh now secs r p)"
proof (cases "wr_in_use (runtime_at p r) \<and> \<not> wr_quarantined (runtime_at p r)")
  case True
  then have "r \<in> set (pooled p)" using assms by (simp add: pool_ok_def)
  then show ?thesis using assms True by (auto simp: refresh_def intro!: update_runtime_ok)
qed (use assms in \<open>auto simp: refresh_def\<close>)

lemma only_ok: "quarantined_only R p q \<Longrightarrow> pool_ok p \<Longrightarrow> pool_ok q"
  by (simp add: quarantined_only_def)

lemma drain_state: "snd (drain lab scales p) = snd (fold (drain_step lab) (concat (map snd (filter
    (\<lambda>(scale, rs). case scales of None \<Rightarrow> True | Some S \<Rightarrow> scale \<in> S) (lp_runtimes p)))) ([], p))"
  by (simp add: drain_def Let_def split: prod.split)

lemma pool_step_ok: "pool_step lab p q \<Longrightarrow> pool_ok p \<Longrightarrow> pool_ok q"
proof (induction rule: pool_step.induct)
  case (attempt scale deadline t p res q)
  then show ?case using acquire_attempt_facts by blast
next
  case (quarantine r p res q)
  then show ?case using only_ok [OF quarantine_only [of r p lab]] by simp
next
  case (drain scales p res q)
  have "pool_ok (snd (drain lab scales p))"
    unfolding drain_state using only_ok [OF drain_only [of _ "([], p)"]] drain.prems by simp
  then show ?case using drain.hyps by simp
next
  case (reap p now)
  then show ?case unfolding reap_orphans_def by (rule only_ok [OF fold_quarantine_only])
qed (simp_all add: release_ok refresh_ok)

lemma new_pool_ok: "pool_ok (new_pool config w)"
  by (simp add: pool_ok_def new_pool_def pooled_def runtime_count_def)

lemma reachable_ok: "pool_reachable lab config p \<Longrightarrow> pool_ok p"
  by (induction rule: pool_reachable.induct) (auto intro: new_pool_ok pool_step_ok)

lemma setdefault_config: "lp_config (after_reaping lab scale now p) = lp_config p"
  "lp_config (after_freeing lab scale p) = lp_config p"
  using reaping_only [of now p lab scale] freeing_only [of p lab scale] by (simp_all add: quarantined_only_def)

lemma provision_config: "provision lab scale p = (r, q) \<Longrightarrow> lp_config q = lp_config p"
  by (cases "lab_provision lab scale (lp_world p)"; cases "fst (lab_provision lab scale (lp_world p))")
    (auto simp: provision_def Let_def)

lemma acquire_attempt_config: "acquire_attempt lab scale deadline t p = (res, q) \<Longrightarrow> lp_config q = lp_config p"
  by (auto simp: acquire_attempt_def Let_def setdefault_config grant_def
      split: option.splits if_splits prod.splits sum.splits dest!: provision_config)

lemma pool_step_config: "pool_step lab p q \<Longrightarrow> lp_config q = lp_config p"
proof (induction rule: pool_step.induct)
  case (attempt scale deadline t p res q)
  then show ?case by (rule acquire_attempt_config)
next
  case (quarantine r p res q)
  then show ?case using quarantine_only [of r p lab] by (simp add: quarantined_only_def)
next
  case (drain scales p res q)
  have "lp_config (snd (drain lab scales p)) = lp_config p"
    unfolding drain_state using drain_only [of _ "([], p)"] by (simp add: quarantined_only_def)
  then show ?case using drain.hyps by simp
next
  case (reap p now)
  then show ?case unfolding reap_orphans_def using fold_quarantine_only by (auto simp: quarantined_only_def)
qed (simp_all add: release_def refresh_def)

lemma reachable_config: "pool_reachable lab config p \<Longrightarrow> lp_config p = config"
  by (induction rule: pool_reachable.induct) (simp_all add: pool_step_config new_pool_def)

lemma simulator_config_bounds:
  "make_simulator_config c0 = Inr c \<Longrightarrow> 1 \<le> cf_max_active_runtimes c \<and> 1 \<le> cf_max_tool_calls c \<and>
     cf_max_agent_seconds c + 300 \<le> cf_orphan_lease_ttl_seconds c"
  by (auto simp: make_simulator_config_def validate_lease_deadline_def split: if_splits)

lemma next_wait_bounds: "0 < remaining \<Longrightarrow> 0 < next_wait_timeout now remaining p \<and> next_wait_timeout now remaining p \<le> remaining"
  by (auto simp: next_wait_timeout_def Let_def)

lemma acquire_waits:
  "acquire_attempt lab scale deadline t p = (Inr (Waits s), q) \<Longrightarrow>
     at_check t < deadline \<and> 0 < s \<and> s \<le> deadline - at_check t \<and>
     cf_max_active_runtimes (lp_config q) \<le> runtime_count q"
  using next_wait_bounds [of "deadline - at_check t"]
  by (auto simp: acquire_attempt_def Let_def split: option.splits if_splits prod.splits sum.splits)

lemma acquire_returns_by:
  "(others, t) \<in> set rounds \<Longrightarrow> started + lease_wait_timeout_seconds \<le> at_check t \<Longrightarrow>
   acquire lab scale started rounds p \<noteq> None"
proof (induction rounds arbitrary: p)
  case (Cons x rounds)
  obtain o' t' where x: "x = (o', t')" by (cases x)
  obtain res q where a: "acquire_attempt lab scale (started + lease_wait_timeout_seconds) t' (o' p) = (res, q)" by fastforce
  have late: "(others, t) \<in> set rounds" if "res = Inr (Waits s)" for s
    using Cons.prems acquire_waits [OF a [unfolded that]] by (auto simp: x)
  show ?case
    using Cons.IH [OF late Cons.prems(2)] by (auto simp: x a split: sum.split outcome.split)
qed simp

section \<open>Properties\<close>

text \<open>A laboratory in which everything succeeds, over a counter for names.\<close>

definition example_lab :: "nat lab" where
  "example_lab =
     \<lparr>lab_provision = (\<lambda>scale n. (Inr (scale @ nat_str n), Suc n)), lab_stop_traffic = (\<lambda>x n. (Inr (), n)),
      lab_teardown = (\<lambda>x n. (Inr (), n))\<rparr>"

definition readings_at :: "rat \<Rightarrow> readings" where
  "readings_at x = \<lparr>at_reap = x, at_grant = x, at_check = x\<rparr>"

lemma default_config_valid: "make_simulator_config default_simulator_config = Inr default_simulator_config"
  by (simp add: make_simulator_config_def validate_lease_deadline_def default_simulator_config_def)

text \<open>
  C20. The capacity of the pool: in every interleaving of its methods, on fresh or stale references,
  the pool never holds more runtimes than configured, so no more leases are out either:
  every leased runtime is in the pool, listed once, and not quarantined.
\<close>

theorem lease_pool_capacity:
  assumes "make_simulator_config c0 = Inr config" "pool_reachable lab config p"
  shows "runtime_count p \<le> cf_max_active_runtimes config \<and> distinct (pooled p) \<and>
    int (card {r. r < length (lp_records p) \<and> wr_in_use (runtime_at p r)}) \<le> runtime_count p \<and>
    (\<forall>r < length (lp_records p). wr_in_use (runtime_at p r) \<longrightarrow>
       r \<in> set (pooled p) \<and> \<not> wr_quarantined (runtime_at p r))"
proof -
  have ok: "pool_ok p" and c: "lp_config p = config"
    using reachable_ok [OF assms(2)] reachable_config [OF assms(2)] by blast+
  let ?used = "{r. r < length (lp_records p) \<and> wr_in_use (runtime_at p r)}"
  have "?used \<subseteq> set (pooled p)" using ok by (auto simp: pool_ok_def)
  then have "card ?used \<le> card (set (pooled p))" by (simp add: card_mono)
  also have "\<dots> \<le> length (pooled p)" by (rule card_length)
  finally show ?thesis
    using ok simulator_config_bounds [OF assms(1)] by (simp add: pool_ok_def c runtime_count_def)
qed

theorem lease_pool_capacity_witness:
  "runtime_count (snd (acquire_attempt example_lab ''xs'' 1800 (readings_at 0) (new_pool default_simulator_config 0))) \<le> 1"
proof -
  let ?a = "acquire_attempt example_lab ''xs'' 1800 (readings_at 0) (new_pool default_simulator_config 0)"
  have "pool_reachable example_lab default_simulator_config (snd ?a)"
    by (rule pool_reachable.step [OF pool_reachable.start pool_step.attempt]) (rule surjective_pairing)
  from lease_pool_capacity [OF default_config_valid this] show ?thesis by (simp add: default_simulator_config_def)
qed

text \<open>
  C19. Leases are exclusive and long enough: a granted runtime was not leased to anyone before;
  its lease outlasts the agent's time limit by 300 seconds; and every other lease is untouched by
  the attempt unless its deadline had passed when orphans were reaped.  A refresh never
  shortens the remaining lease below that span.
\<close>

theorem lease_exclusive:
  assumes "make_simulator_config c0 = Inr config" "pool_reachable lab config p"
    and "acquire_attempt lab scale deadline t p = (Inr (Granted r), q)"
  shows "(length (lp_records p) \<le> r \<or> \<not> wr_in_use (runtime_at p r)) \<and> wr_in_use (runtime_at q r) \<and>
    at_grant t + of_int (cf_max_agent_seconds config) + 300 \<le> wr_lease_deadline (runtime_at q r) \<and>
    (\<forall>x < length (lp_records p). x \<noteq> r \<and> wr_in_use (runtime_at p x) \<longrightarrow>
       runtime_at q x = runtime_at p x \<or>
       wr_lease_deadline (runtime_at p x) \<noteq> 0 \<and> wr_lease_deadline (runtime_at p x) < at_reap t) \<and>
    now + of_int (cf_max_agent_seconds config) + 300 \<le> wr_lease_deadline (runtime_at (refresh now secs r q) r)"
proof -
  have ok: "pool_ok p" and c: "lp_config p = config"
    using reachable_ok [OF assms(2)] reachable_config [OF assms(2)] by blast+
  have f: "pool_ok q" "fair_grant (at_reap t) (at_grant t) p q r"
    using acquire_attempt_facts [OF ok assms(3)] by blast+
  have ttl: "of_int (cf_max_agent_seconds config) + 300 \<le> (of_int (cf_orphan_lease_ttl_seconds config) :: rat)"
  proof -
    have "of_int (cf_max_agent_seconds config + 300) \<le> (of_int (cf_orphan_lease_ttl_seconds config) :: rat)"
      using simulator_config_bounds [OF assms(1)] by (simp only: of_int_le_iff)
    then show ?thesis by simp
  qed
  have q: "wr_in_use (runtime_at q r)" "r < length (lp_records q)" "\<not> wr_quarantined (runtime_at q r)"
    using f pooled_in_range [OF f(1)] by (auto simp: fair_grant_def pool_ok_def)
  have "lp_config q = config" using acquire_attempt_config [OF assms(3)] c by simp
  then have "now + of_int (cf_max_agent_seconds config) + 300 \<le> wr_lease_deadline (runtime_at (refresh now secs r q) r)"
    using q ttl by (simp add: refresh_def update_runtime_at)
  then show ?thesis using f(2) ttl by (auto simp: fair_grant_def idle_def stale_def c)
qed

theorem lease_exclusive_witness:
  "\<exists>q. acquire_attempt example_lab ''xs'' 1800 (readings_at 0) (new_pool default_simulator_config 0) = (Inr (Granted 0), q)
     \<and> 600 \<le> wr_lease_deadline (runtime_at q 0)"
proof -
  let ?a = "acquire_attempt example_lab ''xs'' 1800 (readings_at 0) (new_pool default_simulator_config 0)"
  have a: "fst ?a = Inr (Granted 0)" by code_simp
  have e: "?a = (Inr (Granted 0), snd ?a)" using a by (metis prod.collapse)
  from lease_exclusive [OF default_config_valid pool_reachable.start e] e show ?thesis
    by (auto simp: default_simulator_config_def readings_at_def)
qed

text \<open>
  C21. Waiting for a lease ends: a round waits only while the pool is full, for a positive time that
  does not exceed what is left of the 1800 seconds; and once a round reads the clock at or after
  the time-out, the call has returned, whatever other threads did to the pool between the
  rounds.
\<close>

theorem acquire_returns:
  "(acquire_attempt lab scale deadline t p = (Inr (Waits s), q) \<longrightarrow>
      0 < s \<and> s \<le> deadline - at_check t \<and> cf_max_active_runtimes (lp_config q) \<le> runtime_count q) \<and>
   ((others, t) \<in> set rounds \<and> started + 1800 \<le> at_check t \<longrightarrow>
      (\<exists>res q. acquire lab scale started rounds p = Some (res, q)))"
  using acquire_waits [of lab scale deadline t p s q] acquire_returns_by [of others t rounds started lab scale p]
  by (auto simp: lease_wait_timeout_seconds_def)

theorem acquire_returns_witness:
  "\<exists>res q. acquire example_lab ''xs'' 0 [(\<lambda>p. p, readings_at 1900)] (new_pool default_simulator_config 0) = Some (res, q)"
  using acquire_returns [of example_lab "''xs''" 1800 "readings_at 1900" "new_pool default_simulator_config 0" 0 "new_pool default_simulator_config 0"
      "\<lambda>p. p" "[(\<lambda>p. p, readings_at 1900)]" 0]
  by (simp add: readings_at_def)

end
