(* ===== verification/Episode_Backend.thy ===== *)
theory Episode_Backend
  imports Lease_Pool Scenario_Validation
begin

text \<open>
  \<open>RuntimeEpisodeBackend\<close> of \<open>netopsbench/platform/simulator/runtime.py\<close>: the backend that serves an
  incident from a leased runtime.  Its state is the lease it holds, whether its delegate exists,
  and the shared pool, whose world is that of the laboratory; the calls that reach the
  laboratory are fields of a record of actions on that world.  While the backend waits for its
  lease nothing else touches the pool; \<open>Lease_Pool\<close> covers the interleavings.
\<close>

section \<open>The calls to the laboratory\<close>

text \<open>
  \<open>rn_schedule\<close> gives the clock readings of one call of \<open>acquire\<close>: its start, its rounds, and a
  last round at or after the time-out, where the call has returned at the latest.  A recovery is
  whether each of its items recovered, and its rendering.
\<close>

record 'w runner =
  rn_schedule :: "'w \<Rightarrow> rat \<times> readings list \<times> readings"
  rn_now :: "'w \<Rightarrow> rat"
  rn_topology_dir :: "warm_runtime \<Rightarrow> string"
  rn_load_manifest :: "string \<Rightarrow> manifest result"
  rn_configdb :: "string \<Rightarrow> json option"
  rn_recover_fault :: "warm_runtime \<Rightarrow> ('w, bool list \<times> string) action"
  rn_sleep :: "warm_runtime \<Rightarrow> ('w, unit) action"
  rn_check_health :: "warm_runtime \<Rightarrow> ('w, string list) action"
  rn_repair :: "warm_runtime \<Rightarrow> ('w, unit) action"
  rn_traffic_complete :: "warm_runtime \<Rightarrow> ('w, bool) action"
  rn_restart_traffic :: "warm_runtime \<Rightarrow> scenario \<Rightarrow> ('w, unit) action"
  rn_signature :: "scenario \<Rightarrow> warm_runtime \<Rightarrow> ('w, string) action"
  rn_observe_baseline :: "warm_runtime \<Rightarrow> ('w, observation) action"
  rn_gate_errors :: "observation \<Rightarrow> string list"
  rn_delegate_prepare :: "scenario \<Rightarrow> observation option \<Rightarrow> ('w, observation) action"
  rn_delegate_call_tool :: "tool_action \<Rightarrow> ('w, json) action"
  rn_delegate_finish :: "bool \<Rightarrow> ('w, observation option) action"

record 'w episode_backend =
  eb_record :: "nat option"
  eb_delegate :: bool
  eb_topology_dir :: "string option"
  eb_pool :: "'w pool"

definition new_episode_backend :: "'w pool \<Rightarrow> 'w episode_backend" where
  "new_episode_backend p = \<lparr>eb_record = None, eb_delegate = False, eb_topology_dir = None, eb_pool = p\<rparr>"

definition on_world :: "('w, 'a) action \<Rightarrow> ('w episode_backend, 'a) action" where
  "on_world m b =
     (case m (lp_world (eb_pool b)) of
        (r, w) \<Rightarrow> (r, b\<lparr>eb_pool := (eb_pool b)\<lparr>lp_world := w\<rparr>\<rparr>))"

definition on_runtime :: "nat \<Rightarrow> (warm_runtime \<Rightarrow> warm_runtime) \<Rightarrow> ('w episode_backend, unit) action" where
  "on_runtime r f b = (Inr (), b\<lparr>eb_pool := update_runtime r f (eb_pool b)\<rparr>)"

definition with_runtime :: "nat \<Rightarrow> (warm_runtime \<Rightarrow> ('w episode_backend, 'a) action) \<Rightarrow> ('w episode_backend, 'a) action" where
  "with_runtime r f b = f (runtime_at (eb_pool b) r) b"

section \<open>Leasing\<close>

definition schedule_rounds :: "rat \<Rightarrow> readings list \<Rightarrow> readings \<Rightarrow> (('w pool \<Rightarrow> 'w pool) \<times> readings) list" where
  "schedule_rounds started ts final =
     map (\<lambda>t. (\<lambda>p. p, t)) (ts @ [final\<lparr>at_check := max (at_check final) (started + lease_wait_timeout_seconds)\<rparr>])"

definition lease :: "'w lab \<Rightarrow> 'w runner \<Rightarrow> string \<Rightarrow> ('w pool, nat) action" where
  "lease lab rn scale p =
     (case rn_schedule rn (lp_world p) of
        (started, ts, final) \<Rightarrow> the (acquire lab scale started (schedule_rounds started ts final) p))"

section \<open>Finishing\<close>

definition eb_refresh :: "'w runner \<Rightarrow> rat \<Rightarrow> ('w episode_backend, unit) action" where
  "eb_refresh rn min_seconds b =
     (case eb_record b of
        None \<Rightarrow> (Inr (), b)
      | Some r \<Rightarrow> (Inr (), b\<lparr>eb_pool := refresh (rn_now rn (lp_world (eb_pool b))) min_seconds r (eb_pool b)\<rparr>))"

text \<open>The delegate's own finish: whether it failed, with the text of the failure.\<close>

definition finish_delegate :: "'w runner \<Rightarrow> bool \<Rightarrow> nat \<Rightarrow> 'w episode_backend \<Rightarrow> string option \<times> 'w episode_backend" where
  "finish_delegate rn broken r b =
     (if \<not> eb_delegate b then (None, b)
      else (case on_world (rn_delegate_finish rn broken) b of
          (Inl e, b') \<Rightarrow> (Some (exc_type e @ '': '' @ exc_message e), b')
        | (Inr None, b') \<Rightarrow> (None, b')
        | (Inr (Some window), b') \<Rightarrow> (None, snd (on_runtime r (\<lambda>x. x\<lparr>wr_baseline := Some window\<rparr>) b'))))"

definition eb_finish :: "'w lab \<Rightarrow> 'w runner \<Rightarrow> bool \<Rightarrow> ('w episode_backend, unit) action" where
  "eb_finish lab rn broken b =
     (case eb_record b of
        None \<Rightarrow> (Inr (), b)
      | Some r \<Rightarrow>
          (case finish_delegate rn broken r b of
             (failure, b1) \<Rightarrow>
               (let b2 = b1\<lparr>eb_delegate := False, eb_record := None\<rparr>
                in if broken \<or> failure \<noteq> None then
                     (case quarantine lab r (eb_pool b2) of
                        (Inl e, p) \<Rightarrow> (Inl e, b2\<lparr>eb_pool := p\<rparr>)
                      | (Inr _, p) \<Rightarrow>
                          (if \<not> broken then
                             (Inl (RuntimeError (case failure of Some f \<Rightarrow> f | None \<Rightarrow> ''Runtime cleanup failed'')), b2\<lparr>eb_pool := p\<rparr>)
                           else (Inr (), b2\<lparr>eb_pool := p\<rparr>)))
                   else (Inr (), b2\<lparr>eb_pool := release r (eb_pool b2)\<rparr>))))"

section \<open>Preparing\<close>

definition clear_baseline :: "nat \<Rightarrow> ('w episode_backend, unit) action" where
  "clear_baseline r = on_runtime r (\<lambda>x. x\<lparr>wr_baseline_signature := None, wr_baseline := None\<rparr>)"

definition whenS :: "bool \<Rightarrow> ('s, unit) action \<Rightarrow> ('s, unit) action" where
  "whenS c m = (if c then m else returnS ())"

definition health_errors :: "'w runner \<Rightarrow> nat \<Rightarrow> ('w episode_backend, string list) action" where
  "health_errors rn r =
     bindS (with_runtime r (\<lambda>x. on_world (rn_check_health rn x))) (\<lambda>errors.
       if errors = [] then returnS errors
       else bindS (with_runtime r (\<lambda>x. on_world (rn_repair rn x))) (\<lambda>_.
            bindS (clear_baseline r) (\<lambda>_. with_runtime r (\<lambda>x. on_world (rn_check_health rn x)))))"

definition required_key :: "observation \<Rightarrow> string \<Rightarrow> (string \<times> json) result" where
  "required_key d k = (case dict_get d k of Some v \<Rightarrow> Inr (k, v) | None \<Rightarrow> Inl (LookupKeyError (py_repr k)))"

definition baseline_of :: "observation \<Rightarrow> observation result" where
  "baseline_of validation =
     bindE (mapE (required_key validation) [''start_time'', ''end_time'', ''duration_seconds'']) (\<lambda>kvs.
       Inr ((''name'', JStr ''baseline'') # kvs))"

definition liftS :: "'a result \<Rightarrow> ('s, 'a) action" where
  "liftS r s = (r, s)"

definition ensure_baseline :: "'w runner \<Rightarrow> scenario \<Rightarrow> nat \<Rightarrow> ('w episode_backend, unit) action" where
  "ensure_baseline rn sc r =
     bindS (with_runtime r (\<lambda>x. on_world (rn_signature rn sc x))) (\<lambda>signature.
     with_runtime r (\<lambda>x.
       if wr_baseline_signature x = Some signature \<and> wr_baseline x \<noteq> None then returnS ()
       else
         bindS (on_world (rn_observe_baseline rn x)) (\<lambda>validation.
           if rn_gate_errors rn validation \<noteq> [] then
             raiseS (BaselineNotReady (''Healthy baseline is unavailable: ''
               @ str_join ''; '' (rn_gate_errors rn validation)))
           else
             bindS (on_runtime r (\<lambda>y. y\<lparr>wr_baseline_signature := Some signature\<rparr>)) (\<lambda>_.
             bindS (liftS (baseline_of validation)) (\<lambda>window.
               on_runtime r (\<lambda>y. y\<lparr>wr_baseline := Some window\<rparr>))))))"

definition set_delegate :: "('w episode_backend, unit) action" where
  "set_delegate b = (Inr (), b\<lparr>eb_delegate := True\<rparr>)"

text \<open>The body of the second \<open>try\<close> of \<open>prepare\<close>.\<close>

definition prepare_leased :: "'w runner \<Rightarrow> scenario \<Rightarrow> nat \<Rightarrow> ('w episode_backend, observation) action" where
  "prepare_leased rn sc r =
     bindS (with_runtime r (\<lambda>x. on_world (rn_recover_fault rn x))) (\<lambda>(recovery, text).
       if \<not> list_all (\<lambda>ok. ok) recovery then raiseS (RuntimeError (''Runtime recovery failed: '' @ text))
       else
         bindS (whenS (recovery \<noteq> [])
                 (bindS (with_runtime r (\<lambda>x. on_world (rn_sleep rn x))) (\<lambda>_. clear_baseline r))) (\<lambda>_.
         bindS (health_errors rn r) (\<lambda>errors.
           if errors \<noteq> [] then
             raiseS (RuntimeError (''Runtime health check failed: '' @ str_join ''; '' errors))
           else
             bindS (with_runtime r (\<lambda>x. on_world (rn_traffic_complete rn x))) (\<lambda>complete.
             bindS (whenS (\<not> complete)
                     (bindS (with_runtime r (\<lambda>x. on_world (rn_restart_traffic rn x sc))) (\<lambda>_. clear_baseline r))) (\<lambda>_.
             bindS (ensure_baseline rn sc r) (\<lambda>_.
             bindS set_delegate (\<lambda>_.
             with_runtime r (\<lambda>x. on_world (rn_delegate_prepare rn sc (wr_baseline x))))))))))"

definition eb_prepare :: "'w lab \<Rightarrow> 'w runner \<Rightarrow> scenario \<Rightarrow> ('w episode_backend, observation) action" where
  "eb_prepare lab rn sc b =
     (case lease lab rn (sc_topology_scale sc) (eb_pool b) of
        (Inl e, p) \<Rightarrow> (Inl e, b\<lparr>eb_pool := p\<rparr>)
      | (Inr r, p) \<Rightarrow>
          (let dir = rn_topology_dir rn (runtime_at p r);
               b1 = b\<lparr>eb_record := Some r, eb_topology_dir := Some dir, eb_pool := p\<rparr>
           in case bindE (rn_load_manifest rn dir) (\<lambda>m. require_scenario_topology (rn_configdb rn) sc m dir) of
                Inl e \<Rightarrow> (Inl e, b1\<lparr>eb_record := None, eb_pool := release r p\<rparr>)
              | Inr _ \<Rightarrow>
                  (case prepare_leased rn sc r b1 of
                     (Inl (BaselineNotReady m), b2) \<Rightarrow>
                       (case eb_finish lab rn False b2 of
                          (Inl e, b3) \<Rightarrow> (Inl e, b3)
                        | (Inr _, b3) \<Rightarrow> (Inl (BaselineNotReady m), b3))
                   | (res, b2) \<Rightarrow> (res, b2))))"

definition eb_call_tool :: "'w runner \<Rightarrow> tool_action \<Rightarrow> ('w episode_backend, json) action" where
  "eb_call_tool rn act b =
     (if \<not> eb_delegate b then (Inl (RuntimeError ''Incident backend is not prepared''), b)
      else on_world (rn_delegate_call_tool rn act) b)"

definition episode_backend_ops :: "'w lab \<Rightarrow> 'w runner \<Rightarrow> 'w episode_backend backend" where
  "episode_backend_ops lab rn =
     \<lparr>bk_topology_dir = eb_topology_dir, bk_prepare = eb_prepare lab rn, bk_call_tool = eb_call_tool rn,
      bk_refresh = eb_refresh rn, bk_finish = eb_finish lab rn\<rparr>"

section \<open>The contract of a lease\<close>

text \<open>
  What the incident needs of a backend that holds a lease: preparing may take it, finishing
  returns it whatever happened, and nothing in between loses track of it.
\<close>

locale lease_contract =
  fixes bk :: "'b backend"
    and fresh held returned :: "'b \<Rightarrow> bool"
  assumes fresh_held: "fresh b \<Longrightarrow> held b"
    and prepare_held: "fresh b \<Longrightarrow> held (snd (bk_prepare bk sc b))"
    and tool_held: "held b \<Longrightarrow> held (snd (bk_call_tool bk act b))"
    and refresh_held: "held b \<Longrightarrow> held (snd (bk_refresh bk secs b))"
    and finish_returned: "held b \<Longrightarrow> returned (snd (bk_finish bk broken b))"
begin

definition leased_ok :: "'b incident \<Rightarrow> bool" where
  "leased_ok i \<longleftrightarrow>
     (if in_cleanup_status i \<noteq> NOT_STARTED then returned (in_backend i)
      else if in_state i = CREATED then fresh (in_backend i) else held (in_backend i))"

lemma refresh_lease_held:
  "en_backend eng = bk \<Longrightarrow> held (in_backend i) \<Longrightarrow> held (in_backend (snd (refresh_lease eng x i)))"
  using refresh_held [of "in_backend i" x] by (auto simp: refresh_lease_def split: prod.split)

lemma run_tool_held:
  "en_backend eng = bk \<Longrightarrow> held (in_backend i) \<Longrightarrow> held (in_backend (snd (run_tool eng act i)))"
  using tool_held [of "in_backend i" act] by (auto simp: run_tool_def split: prod.split)

lemma quiet_held:
  assumes "en_backend eng = bk" "held (in_backend i)"
  shows "held (in_backend (snd (incident_call_tool eng act i)))" "held (in_backend (snd (open_session eng c now i)))"
    "held (in_backend (snd (incident_evaluate eng d tcs t k i)))"
  using assms unfolding incident_call_tool_def open_session_def incident_evaluate_def
  by (auto intro!: bindS_keeps [where P = "\<lambda>i. held (in_backend i)"] refresh_lease_held run_tool_held
      split: option.split)

lemma finish_backend_returned:
  "en_backend eng = bk \<Longrightarrow> held (in_backend i) \<Longrightarrow>
     returned (in_backend (finish_backend eng broken i)) \<and> in_cleanup_status (finish_backend eng broken i) \<noteq> NOT_STARTED"
  using finish_returned [of "in_backend i" broken]
  by (auto simp: finish_backend_def notify_close_def split: prod.split sum.split)

lemma prepare_incident_leased:
  assumes "en_backend eng = bk" "leased_ok i" "incident_ok eng i"
  shows "leased_ok (snd (prepare_incident eng i))"
proof (cases "in_state i = CREATED")
  case False
  then show ?thesis using assms by (simp add: prepare_incident_def)
next
  case True
  then have f: "fresh (in_backend i)"
    using assms incident_ok_counts(3) [of eng i] by (auto simp: leased_ok_def split: if_splits)
  obtain r b where p: "bk_prepare bk (in_scenario i) (in_backend i) = (r, b)" by fastforce
  have h: "held b" using prepare_held [OF f, of "in_scenario i"] by (simp add: p)
  show ?thesis
  proof (cases r)
    case (Inl e)
    then show ?thesis
      using finish_backend_returned [OF assms(1)] h
      by (simp add: prepare_incident_def True assms(1) p Let_def leased_ok_def)
  next
    case (Inr obs)
    then show ?thesis
      using h assms(3) True by (auto simp: prepare_incident_def assms(1) p Let_def leased_ok_def incident_ok_def
          before_cleanup_def after_cleanup_def)
  qed
qed

lemma close_incident_returned:
  assumes "en_backend eng = bk" "leased_ok i" "incident_ok eng i"
  shows "returned (in_backend (close_incident eng i))" "in_cleanup_status (close_incident eng i) \<noteq> NOT_STARTED"
proof -
  show c: "in_cleanup_status (close_incident eng i) \<noteq> NOT_STARTED"
    using close_incident_after [OF assms(3)] by (simp add: after_cleanup_def)
  show "returned (in_backend (close_incident eng i))"
  proof (cases "in_cleanup_status i = NOT_STARTED")
    case True
    then have "held (in_backend i)" using assms(2) fresh_held by (auto simp: leased_ok_def split: if_splits)
    moreover have "in_state i \<noteq> CLOSED" "in_state i \<noteq> BROKEN"
      using incident_ok_counts(3) [OF assms(3)] True by auto
    ultimately show ?thesis
      using finish_backend_returned [OF assms(1)] True by (simp add: close_incident_def)
  next
    case False
    then have "close_incident eng i = i" by (simp add: close_incident_def)
    then show ?thesis using assms(2) False by (simp add: leased_ok_def)
  qed
qed

lemma incident_step_leased:
  assumes "en_backend eng = bk" "leased_ok i" "incident_ok eng i"
  shows "leased_ok (incident_step eng i opn)"
proof -
  have quiet: "leased_ok j"
    if "quiet_ext i j" "in_state i = ACTIVE" "held (in_backend i) \<Longrightarrow> held (in_backend j)" for j
    using that assms(2) by (auto simp: leased_ok_def quiet_ext_def split: if_splits)
      (use incident_ok_counts(3) [OF assms(3)] in auto)
  show ?thesis
  proof (cases opn)
    case OpPrepare
    then show ?thesis using prepare_incident_leased [OF assms] by (simp add: incident_step_def)
  next
    case OpClose
    then show ?thesis
      using close_incident_returned [OF assms] by (simp add: incident_step_def leased_ok_def)
  qed (cases "in_state i = ACTIVE";
       simp add: incident_step_def inactive_idle assms(2) quiet open_session_quiet incident_call_tool_quiet
         incident_evaluate_quiet quiet_held [OF assms(1)])+
qed

lemma leased_run:
  assumes "en_backend eng = bk" "leased_ok i" "incident_ok eng i"
  shows "leased_ok (foldl (incident_step eng) i ops) \<and> incident_ok eng (foldl (incident_step eng) i ops)"
  using assms(2,3)
  by (induction ops arbitrary: i) (auto intro: incident_step_leased [OF assms(1)] incident_step_ok)

text \<open>However the incident was used, closing it returns the lease.\<close>

lemma lease_returned:
  assumes "en_backend eng = bk" "fresh b"
  shows "returned (in_backend (close_incident eng (foldl (incident_step eng) (new_incident sc b) ops)))"
proof -
  have "leased_ok (new_incident sc b)" using assms(2) by (simp add: leased_ok_def new_incident_def)
  from leased_run [OF assms(1) this new_incident_ok] show ?thesis
    using close_incident_returned(1) [OF assms(1)] by blast
qed

end

section \<open>The backend keeps the contract\<close>

definition leased :: "'w pool \<Rightarrow> nat set" where
  "leased p = {r. r < length (lp_records p) \<and> wr_in_use (runtime_at p r)}"

lemma leased_only:
  assumes "quarantined_only R p q" "pool_ok p"
  shows "leased q \<subseteq> leased p"
proof
  fix x
  assume x: "x \<in> leased q"
  have "pool_ok q" and len: "length (lp_records q) = length (lp_records p)"
    using assms by (simp_all add: quarantined_only_def)
  then have "\<not> wr_quarantined (runtime_at q x)" using x by (simp add: leased_def pool_ok_def)
  then have "runtime_at q x = runtime_at p x"
    using assms(1) x len by (auto simp: quarantined_only_def leased_def)
  then show "x \<in> leased p" using x len by (simp add: leased_def)
qed

lemma leased_update:
  "leased (update_runtime r f p) \<subseteq> insert r (leased p)"
  "(\<And>x. wr_in_use (f x) = wr_in_use x) \<Longrightarrow> leased (update_runtime r f p) = leased p"
  "(\<And>x. \<not> wr_in_use (f x)) \<Longrightarrow> leased (update_runtime r f p) = leased p - {r}"
  by (auto simp: leased_def update_runtime_at split: if_splits)

lemma leased_world [simp]: "leased (p\<lparr>lp_world := w\<rparr>) = leased p"
  by (simp add: leased_def)

lemma leased_provision: "provision lab scale p = (res, q) \<Longrightarrow> leased q \<subseteq> leased p"
proof -
  assume a: "provision lab scale p = (res, q)"
  obtain pr w where w: "lab_provision lab scale (lp_world p) = (pr, w)" by fastforce
  have "leased q \<subseteq> leased p"
  proof (cases pr)
    case (Inl e)
    then show ?thesis using a w by (auto simp: provision_def)
  next
    case (Inr name)
    let ?q = "p\<lparr>lp_world := w, lp_records := lp_records p @ [new_runtime name scale],
        lp_runtimes := dict_set (lp_runtimes p) scale (dict_get_default (lp_runtimes p) scale [] @ [length (lp_records p)])\<rparr>"
    have "q = ?q" using a by (simp add: provision_def w Inr Let_def)
    moreover have "leased ?q \<subseteq> leased p"
      by (auto simp: leased_def runtime_at_def nth_append new_runtime_def less_Suc_eq)
    ultimately show ?thesis by simp
  qed
  then show "leased q \<subseteq> leased p" .
qed

lemma attempt_leased:
  assumes "pool_ok p" "acquire_attempt lab scale deadline t p = (res, q)"
  shows "leased q \<subseteq> (case res of Inr (Granted r) \<Rightarrow> insert r (leased p) | _ \<Rightarrow> leased p)"
proof -
  let ?p = "after_reaping lab scale (at_reap t) p" and ?p1 = "after_freeing lab scale (after_reaping lab scale (at_reap t) p)"
  have ok: "pool_ok ?p" using only_ok [OF reaping_only assms(1)] .
  have l: "leased ?p \<subseteq> leased p" using leased_only [OF reaping_only assms(1)] .
  have l1: "leased ?p1 \<subseteq> leased p" using leased_only [OF freeing_only ok] l by blast
  have g: "leased (grant now r p2) \<subseteq> insert r (leased p2)" for now r and p2 :: "'a pool"
    unfolding grant_def by (rule leased_update(1))
  show ?thesis
  proof (cases "find_available scale ?p")
    case (Some r)
    then have "res = Inr (Granted r)" "q = grant (at_grant t) r ?p"
      using assms(2) by (simp_all add: acquire_attempt_def Let_def)
    then show ?thesis using g [of "at_grant t" r ?p] l by auto
  next
    case None
    obtain pr p2 where pv: "provision lab scale ?p1 = (pr, p2)" by fastforce
    have l2: "leased p2 \<subseteq> leased p" using leased_provision [OF pv] l1 by blast
    have g2: "leased (grant (at_grant t) r p2) \<subseteq> insert r (leased p)" for r
      using g [of "at_grant t" r p2] l2 by blast
    show ?thesis
    proof (cases pr)
      case (Inl e)
      then show ?thesis
        using assms(2) l1 l2 by (auto simp: acquire_attempt_def Let_def None pv split: if_splits)
    next
      case (Inr r)
      then show ?thesis
        using assms(2) l1 subsetD [OF g2 [of r]] by (auto simp: acquire_attempt_def Let_def None pv split: if_splits)
    qed
  qed
qed

lemma acquire_sound:
  assumes "pool_ok p" "acquire lab scale started (map (\<lambda>t. (\<lambda>p. p, t)) ts) p = Some (res, q)"
  shows "pool_ok q \<and> leased q \<subseteq> (case res of Inr r \<Rightarrow> insert r (leased p) | Inl e \<Rightarrow> leased p) \<and>
    (\<forall>r. res = Inr r \<longrightarrow> r < length (lp_records q))"
  using assms
proof (induction ts arbitrary: p)
  case (Cons t ts)
  obtain a p' where a: "acquire_attempt lab scale (started + lease_wait_timeout_seconds) t p = (a, p')" by fastforce
  note f = acquire_attempt_facts [OF Cons.prems(1) a] and l = attempt_leased [OF Cons.prems(1) a]
  show ?case
  proof (cases a)
    case (Inl e)
    then show ?thesis using Cons.prems(2) f l by (auto simp: a)
  next
    case (Inr out)
    show ?thesis
    proof (cases out)
      case (Granted r)
      then have "r \<in> set (pooled p')" using f Inr by (simp add: fair_grant_def)
      then show ?thesis using Cons.prems(2) f l pooled_in_range [of p' r] by (auto simp: a Inr Granted)
    next
      case (Waits s)
      then have "acquire lab scale started (map (\<lambda>t. (\<lambda>p. p, t)) ts) p' = Some (res, q)"
        using Cons.prems(2) by (simp add: a Inr)
      from Cons.IH [OF conjunct1 [OF f] this] show ?thesis
        using l by (cases res) (auto simp: Inr Waits)
    qed
  qed
qed simp

lemma lease_returns: "\<exists>res q. acquire lab scale started (schedule_rounds started ts final) p = Some (res, q)"
proof -
  let ?t = "final\<lparr>at_check := max (at_check final) (started + lease_wait_timeout_seconds)\<rparr>"
  have "((\<lambda>p. p), ?t) \<in> set (schedule_rounds started ts final)" by (simp add: schedule_rounds_def)
  moreover have "started + lease_wait_timeout_seconds \<le> at_check ?t" by simp
  ultimately show ?thesis using acquire_returns_by by fast
qed

lemma lease_sound:
  assumes "pool_ok p" "lease lab rn scale p = (res, q)"
  shows "pool_ok q \<and> leased q \<subseteq> (case res of Inr r \<Rightarrow> insert r (leased p) | Inl e \<Rightarrow> leased p) \<and>
    (\<forall>r. res = Inr r \<longrightarrow> r < length (lp_records q))"
proof -
  obtain started ts final where s: "rn_schedule rn (lp_world p) = (started, ts, final)" by (metis surj_pair)
  obtain res' q' where r: "acquire lab scale started (schedule_rounds started ts final) p = Some (res', q')"
    using lease_returns by blast
  then have "res' = res" "q' = q" using assms(2) by (simp_all add: lease_def s)
  then show ?thesis using acquire_sound [OF assms(1)] r unfolding schedule_rounds_def by blast
qed

definition eb_ok :: "nat set \<Rightarrow> 'w episode_backend \<Rightarrow> bool" where
  "eb_ok U b \<longleftrightarrow>
     pool_ok (eb_pool b) \<and> leased (eb_pool b) \<subseteq> U \<union> set_option (eb_record b) \<and>
     (\<forall>r. eb_record b = Some r \<longrightarrow> r < length (lp_records (eb_pool b)))"

definition eb_free :: "nat set \<Rightarrow> 'w episode_backend \<Rightarrow> bool" where
  "eb_free U b \<longleftrightarrow> eb_record b = None \<and> pool_ok (eb_pool b) \<and> leased (eb_pool b) \<subseteq> U"

lemma eb_free_ok: "eb_free U b \<Longrightarrow> eb_ok U b"
  by (simp add: eb_free_def eb_ok_def)

definition eb_at :: "nat set \<Rightarrow> nat \<Rightarrow> 'w episode_backend \<Rightarrow> bool" where
  "eb_at U r b \<longleftrightarrow> eb_ok U b \<and> r < length (lp_records (eb_pool b))"

lemma on_world_at: "eb_at U r b \<Longrightarrow> eb_at U r (snd (on_world m b))"
  by (simp add: on_world_def eb_at_def eb_ok_def split: prod.split)

lemma on_world_ok: "eb_ok U b \<Longrightarrow> eb_ok U (snd (on_world m b))"
  by (simp add: on_world_def eb_ok_def split: prod.split)

lemma on_runtime_at:
  assumes "eb_at U r b" "\<And>x. wr_in_use (f x) = wr_in_use x" "\<And>x. wr_scale (f x) = wr_scale x"
    "\<And>x. wr_quarantined (f x) = wr_quarantined x"
  shows "eb_at U r (snd (on_runtime r f b))"
proof -
  have "pool_ok (update_runtime r f (eb_pool b))"
    using assms by (intro update_runtime_ok) (auto simp: eb_at_def eb_ok_def pool_ok_def)
  then show ?thesis
    using assms(1) leased_update(2) [of f r "eb_pool b", OF assms(2)] by (simp add: on_runtime_def eb_at_def eb_ok_def)
qed

lemma with_runtime_at: "(\<And>x. eb_at U r (snd (f x b))) \<Longrightarrow> eb_at U r (snd (with_runtime r f b))"
  by (simp add: with_runtime_def)

lemma clear_baseline_at: "eb_at U r b \<Longrightarrow> eb_at U r (snd (clear_baseline r b))"
  unfolding clear_baseline_def by (rule on_runtime_at) simp_all

lemma set_delegate_at: "eb_at U r b \<Longrightarrow> eb_at U r (snd (set_delegate b))"
  by (simp add: set_delegate_def eb_at_def eb_ok_def)

lemma whenS_at: "eb_at U r b \<Longrightarrow> (eb_at U r b \<Longrightarrow> eb_at U r (snd (m b))) \<Longrightarrow> eb_at U r (snd (whenS c m b))"
  by (simp add: whenS_def)

lemma liftS_at: "eb_at U r b \<Longrightarrow> eb_at U r (snd (liftS x b))"
  by (simp add: liftS_def)

lemmas eb_at_intros = on_world_at on_runtime_at with_runtime_at clear_baseline_at set_delegate_at whenS_at liftS_at

lemma ensure_baseline_at: "eb_at U r b \<Longrightarrow> eb_at U r (snd (ensure_baseline rn sc r b))"
  unfolding ensure_baseline_def
  by (auto intro!: bindS_keeps [where P = "eb_at U r"] eb_at_intros)

lemma health_errors_at: "eb_at U r b \<Longrightarrow> eb_at U r (snd (health_errors rn r b))"
  unfolding health_errors_def
  by (auto intro!: bindS_keeps [where P = "eb_at U r"] eb_at_intros)

lemma prepare_leased_at: "eb_at U r b \<Longrightarrow> eb_at U r (snd (prepare_leased rn sc r b))"
  unfolding prepare_leased_def
  by (auto intro!: bindS_keeps [where P = "eb_at U r"] eb_at_intros health_errors_at ensure_baseline_at
      split: prod.split)

lemma finish_delegate_at:
  assumes "eb_at U r b"
  shows "eb_at U r (snd (finish_delegate rn broken r b))"
proof (cases "eb_delegate b")
  case True
  obtain q b' where q: "on_world (rn_delegate_finish rn broken) b = (q, b')" by fastforce
  have b': "eb_at U r b'" using on_world_at [OF assms, of "rn_delegate_finish rn broken"] by (simp add: q)
  have "eb_at U r (snd (on_runtime r (\<lambda>x. x\<lparr>wr_baseline := Some w\<rparr>) b'))" for w
    by (rule on_runtime_at [OF b']) simp_all
  then show ?thesis using True b' by (simp add: finish_delegate_def q split: sum.split option.split)
qed (simp add: finish_delegate_def assms)

lemma finish_delegate_record:
  "eb_record (snd (finish_delegate rn broken r b)) = eb_record b"
  by (auto simp: finish_delegate_def on_world_def on_runtime_def split: prod.splits sum.splits option.splits)

lemma quarantine_leased:
  assumes "pool_ok p" "r < length (lp_records p)"
  shows "pool_ok (snd (quarantine lab r p))" "leased (snd (quarantine lab r p)) \<subseteq> leased p - {r}"
proof -
  note q = quarantine_only [of r p lab]
  show "pool_ok (snd (quarantine lab r p))" using only_ok [OF q assms(1)] .
  have "\<not> wr_in_use (runtime_at (snd (quarantine lab r p)) r)"
    using quarantine_state [of r p lab] assms(2) by (auto simp: Let_def update_runtime_at)
  then show "leased (snd (quarantine lab r p)) \<subseteq> leased p - {r}"
    using leased_only [OF q assms(1)] by (auto simp: leased_def)
qed

lemma eb_finish_free:
  assumes "eb_ok U b"
  shows "eb_free U (snd (eb_finish lab rn broken b))"
proof (cases "eb_record b")
  case None
  then show ?thesis using assms by (simp add: eb_finish_def eb_free_def eb_ok_def)
next
  case (Some r)
  obtain failure b1 where f: "finish_delegate rn broken r b = (failure, b1)" by fastforce
  have "eb_at U r b" using assms Some by (simp add: eb_at_def eb_ok_def)
  then have b1: "eb_at U r b1" "eb_record b1 = Some r"
    using finish_delegate_at [of U r b rn broken] finish_delegate_record [of rn broken r b] Some by (simp_all add: f)
  have p: "pool_ok (eb_pool b1)" "r < length (lp_records (eb_pool b1))" "leased (eb_pool b1) \<subseteq> insert r U"
    using b1 by (auto simp: eb_at_def eb_ok_def)
  obtain q p' where q: "quarantine lab r (eb_pool b1) = (q, p')" by fastforce
  have q': "pool_ok p'" "leased p' \<subseteq> U"
    using quarantine_leased [OF p(1,2), of lab] p(3) by (auto simp: q)
  have "pool_ok (release r (eb_pool b1))" "leased (release r (eb_pool b1)) \<subseteq> U"
    using release_ok [OF p(1)] leased_update(3) [of "\<lambda>x. x\<lparr>wr_in_use := False, wr_lease_deadline := 0\<rparr>" r "eb_pool b1"] p(3)
    by (auto simp: release_def)
  then show ?thesis
    using q' by (cases q) (auto simp: eb_finish_def Some f Let_def q eb_free_def)
qed

lemma eb_prepare_ok:
  assumes "eb_free U b"
  shows "eb_ok U (snd (eb_prepare lab rn sc b))"
proof -
  obtain res p where l: "lease lab rn (sc_topology_scale sc) (eb_pool b) = (res, p)" by fastforce
  have s: "pool_ok p" "leased p \<subseteq> (case res of Inr r \<Rightarrow> insert r (leased (eb_pool b)) | Inl e \<Rightarrow> leased (eb_pool b))"
    "res = Inr r \<Longrightarrow> r < length (lp_records p)" for r
    using lease_sound [OF _ l] assms by (auto simp: eb_free_def)
  show ?thesis
  proof (cases res)
    case (Inl e)
    then show ?thesis using s(1,2) assms by (auto simp: eb_prepare_def l eb_ok_def eb_free_def)
  next
    case (Inr r)
    let ?dir = "rn_topology_dir rn (runtime_at p r)"
    let ?b1 = "b\<lparr>eb_record := Some r, eb_topology_dir := Some ?dir, eb_pool := p\<rparr>"
    have b1: "eb_at U r ?b1" using s Inr assms by (auto simp: eb_at_def eb_ok_def eb_free_def)
    obtain out b2 where o: "prepare_leased rn sc r ?b1 = (out, b2)" by fastforce
    have b2: "eb_ok U b2" using prepare_leased_at [OF b1, of rn sc] by (simp add: o eb_at_def)
    have rel: "eb_ok U (?b1\<lparr>eb_record := None, eb_pool := release r p\<rparr>)"
      using release_ok [OF s(1)] s(2) assms Inr
        leased_update(3) [of "\<lambda>x. x\<lparr>wr_in_use := False, wr_lease_deadline := 0\<rparr>" r p]
      by (auto simp: eb_ok_def eb_free_def release_def)
    obtain fr b3 where f: "eb_finish lab rn False b2 = (fr, b3)" by fastforce
    have b3: "eb_ok U b3" using eb_free_ok [OF eb_finish_free [OF b2, of lab rn False]] by (simp add: f)
    show ?thesis
      using b2 b3 rel
      by (cases "bindE (rn_load_manifest rn ?dir) (\<lambda>m. require_scenario_topology (rn_configdb rn) sc m ?dir)"; cases out)
        (auto simp: eb_prepare_def l Inr Let_def o f split: exc.split sum.split)
  qed
qed

lemma eb_refresh_ok: "eb_ok U b \<Longrightarrow> eb_ok U (snd (eb_refresh rn secs b))"
proof (cases "eb_record b")
  case (Some r)
  assume b: "eb_ok U b"
  let ?now = "rn_now rn (lp_world (eb_pool b))"
  have "pool_ok (refresh ?now secs r (eb_pool b))" using b Some by (intro refresh_ok) (auto simp: eb_ok_def)
  moreover have "leased (refresh ?now secs r (eb_pool b)) = leased (eb_pool b)"
    by (simp add: refresh_def leased_update(2))
  moreover have "length (lp_records (refresh ?now secs r (eb_pool b))) = length (lp_records (eb_pool b))"
    by (simp add: refresh_def)
  ultimately show ?thesis using b Some by (simp add: eb_refresh_def eb_ok_def)
qed (simp add: eb_refresh_def)

interpretation episode_lease:
  lease_contract "episode_backend_ops lab rn" "eb_free U" "eb_ok U" "eb_free U" for lab rn U
proof
  fix b :: "'a episode_backend" and sc :: scenario and act :: tool_action and secs :: rat and broken :: bool
  show "eb_free U b \<Longrightarrow> eb_ok U b" by (rule eb_free_ok)
  show "eb_free U b \<Longrightarrow> eb_ok U (snd (bk_prepare (episode_backend_ops lab rn) sc b))"
    by (simp add: episode_backend_ops_def eb_prepare_ok)
  show "eb_ok U b \<Longrightarrow> eb_ok U (snd (bk_call_tool (episode_backend_ops lab rn) act b))"
    by (simp add: episode_backend_ops_def eb_call_tool_def on_world_ok)
  show "eb_ok U b \<Longrightarrow> eb_ok U (snd (bk_refresh (episode_backend_ops lab rn) secs b))"
    by (simp add: episode_backend_ops_def eb_refresh_ok)
  show "eb_ok U b \<Longrightarrow> eb_free U (snd (bk_finish (episode_backend_ops lab rn) broken b))"
    by (simp add: episode_backend_ops_def eb_finish_free)
qed

section \<open>Property\<close>

text \<open>A laboratory call that succeeds at once, and a runner whose topology cannot be read.\<close>

definition example_runner :: "nat runner" where
  "example_runner =
     \<lparr>rn_schedule = (\<lambda>n. (0, [], readings_at 0)), rn_now = (\<lambda>n. 0), rn_topology_dir = (\<lambda>x. ''/topo''),
      rn_load_manifest = (\<lambda>dir. Inl (ValueError dir)), rn_configdb = (\<lambda>path. None),
      rn_recover_fault = (\<lambda>x n. (Inr ([], []), n)), rn_sleep = (\<lambda>x n. (Inr (), n)),
      rn_check_health = (\<lambda>x n. (Inr [], n)), rn_repair = (\<lambda>x n. (Inr (), n)),
      rn_traffic_complete = (\<lambda>x n. (Inr True, n)), rn_restart_traffic = (\<lambda>x sc n. (Inr (), n)),
      rn_signature = (\<lambda>sc x n. (Inr [], n)), rn_observe_baseline = (\<lambda>x n. (Inr [], n)),
      rn_gate_errors = (\<lambda>w. []), rn_delegate_prepare = (\<lambda>sc w n. (Inr [], n)),
      rn_delegate_call_tool = (\<lambda>act n. (Inr JNull, n)), rn_delegate_finish = (\<lambda>broken n. (Inr None, n))\<rparr>"

definition episode_engine :: "'w lab \<Rightarrow> 'w runner \<Rightarrow> judge option \<Rightarrow> tool_spec list \<Rightarrow> 'w episode_backend engine" where
  "episode_engine lab rn judge tools =
     \<lparr>en_backend = episode_backend_ops lab rn, en_judge = judge, en_default_session_config = None, en_on_close = True,
      en_tools = tools, en_load_manifest = rn_load_manifest rn, en_digest = (\<lambda>_. ''0'')\<rparr>"

text \<open>
  C14. No incident leaks its lease: over a leased runtime, whatever fails while it is
  acquired, prepared, used or cleaned up, and whatever methods were called, closing the
  incident leaves the backend without a lease, and every runtime still leased in the pool was
  leased before the incident began; a second close changes nothing.
\<close>

theorem no_lease_leak:
  assumes "en_backend eng = episode_backend_ops lab rn" "pool_ok p"
  shows "let i = close_incident eng (foldl (incident_step eng) (new_incident sc (new_episode_backend p)) ops);
             b = in_backend i
    in eb_record b = None \<and> pool_ok (eb_pool b) \<and>
       (\<forall>r < length (lp_records (eb_pool b)). wr_in_use (runtime_at (eb_pool b) r) \<longrightarrow>
          r < length (lp_records p) \<and> wr_in_use (runtime_at p r)) \<and>
       close_incident eng i = i"
proof -
  let ?i = "close_incident eng (foldl (incident_step eng) (new_incident sc (new_episode_backend p)) ops)"
  have "eb_free (leased p) (new_episode_backend p)" using assms(2) by (simp add: eb_free_def new_episode_backend_def)
  from episode_lease.lease_returned [OF assms(1) this]
  have f: "eb_free (leased p) (in_backend ?i)" .
  have "incident_ok eng (foldl (incident_step eng) (new_incident sc (new_episode_backend p)) ops)"
    using incidents.inv_reached [of eng "(sc, new_episode_backend p)" ops] by simp
  then have "close_incident eng ?i = ?i" by (intro close_incident_idem close_incident_after)
  then show ?thesis using f by (auto simp: Let_def eb_free_def leased_def)
qed

theorem no_lease_leak_witness:
  "eb_record (in_backend (close_incident (episode_engine example_lab example_runner None [])
     (foldl (incident_step (episode_engine example_lab example_runner None []))
        (new_incident healthy_scenario (new_episode_backend (new_pool default_simulator_config 0))) [OpPrepare]))) = None"
proof -
  have e: "en_backend (episode_engine example_lab example_runner None []) = episode_backend_ops example_lab example_runner"
    by (simp add: episode_engine_def)
  from no_lease_leak [OF e new_pool_ok] show ?thesis unfolding Let_def by blast
qed

end
