(* ===== verification/Symmetric_Faults.thy ===== *)
theory Symmetric_Faults
  imports Clos_Builder Incident_Scoring
begin

text \<open>
  Where the fabric builder, the ground truth and the scorer meet: a link fault is visible at
  both ends of its link, so naming either end, by any label of the port, is a full answer.
\<close>

section \<open>Labels of the ports a builder writes\<close>

lemma eth_label: "1 \<le> i \<Longrightarrow> eth i \<in> port_labels (nat i)"
  by (simp add: eth_def numbered_def eth_name_def int_str_nonneg port_labels_def)

lemma peer_location_facts:
  assumes "1 \<le> i"
  shows "loc_device (peer_location m \<lparr>ep_device = dev, ep_interface = eth i\<rparr>) = Some dev"
    "\<exists>x \<in> port_labels (nat i). loc_interface (peer_location m \<lparr>ep_device = dev, ep_interface = eth i\<rparr>) = Some x"
proof -
  have "to_sonic_interface (Some (eth i)) \<in> port_labels (nat i)"
    using conversions_of_port_label [OF _ eth_label [OF assms]] assms by (simp add: port_labels_def)
  then show "\<exists>x \<in> port_labels (nat i). loc_interface (peer_location m \<lparr>ep_device = dev, ep_interface = eth i\<rparr>) = Some x"
    using eth_label [OF assms] by (simp add: peer_location_def Let_def)
qed (simp add: peer_location_def Let_def)

text \<open>An answer that names a candidate by any label of the port matches it.\<close>

lemma label_answer_matches:
  assumes "1 \<le> n" "x \<in> port_labels n" "y \<in> port_labels n"
  shows "device_match dev \<lparr>loc_device = Some dev, loc_interface = Some x\<rparr>"
    "interface_match app (Some y) \<lparr>loc_device = Some dev, loc_interface = Some x\<rparr>"
  using assms by (simp_all add: device_match_def or_empty_def interface_match_def normalize_port_label)

section \<open>The ports of a CLOS fabric\<close>

lemma clos_links_set:
  "k \<in> set (clos_links c) \<longleftrightarrow>
     (\<exists>s \<in> {1..tc_num_spines c}. \<exists>l \<in> {1..tc_num_leafs c}.
        k = make_link ''spine-leaf'' (numbered ''spine'' s, eth l) (numbered ''leaf'' l, eth s)) \<or>
     (\<exists>l \<in> {1..tc_num_leafs c}. \<exists>p \<in> {1..tc_clients_per_leaf c}.
        k = make_link ''leaf-client'' (numbered ''leaf'' l, eth (tc_num_spines c + p))
              (numbered ''client'' (client_index (tc_clients_per_leaf c) l p), eth 1))"
  by (auto simp: clos_links_def)

lemma numbered_kinds [simp]:
  "numbered ''spine'' i \<noteq> numbered ''leaf'' j" "numbered ''leaf'' j \<noteq> numbered ''spine'' i"
  "numbered ''client'' i \<noteq> numbered ''leaf'' j" "numbered ''client'' i \<noteq> numbered ''spine'' j"
  by (simp_all add: numbered_def)

lemma answers_to_eth:
  assumes "1 \<le> i" "1 \<le> j" "x \<in> port_labels (nat j)"
  shows "answers_to dev x \<lparr>ep_device = dev', ep_interface = eth i\<rparr> \<longleftrightarrow> dev' = dev \<and> i = j"
proof -
  have "are_interfaces_equivalent (Some (eth i)) (Some x) \<longleftrightarrow> nat i = nat j"
    using labels_equivalent_iff [OF _ _ eth_label [OF assms(1)] assms(3)] assms(1,2) by simp
  then show ?thesis using assms(1,2) by (auto simp: answers_to_def)
qed

text \<open>No other link of the fabric ends at the port of a spine or of a leaf's uplink.\<close>

lemma spine_port_unique:
  assumes "k \<in> set (clos_links c)" "e \<in> set (link_ends k)" "1 \<le> l" "x \<in> port_labels (nat l)"
    "answers_to (numbered ''spine'' s) x e"
  shows "k = make_link ''spine-leaf'' (numbered ''spine'' s, eth l) (numbered ''leaf'' l, eth s)"
proof -
  have dev: "ep_device e = numbered ''spine'' s" using assms(5) by (simp add: answers_to_def)
  have same: "j = l" if "e = \<lparr>ep_device = numbered ''spine'' s, ep_interface = eth j\<rparr>" "1 \<le> j" for j
    using assms(5) answers_to_eth [OF that(2) assms(3,4), of "numbered ''spine'' s" "numbered ''spine'' s"] that(1) by simp
  from assms(1) show ?thesis
    unfolding clos_links_set using assms(2) dev same by (auto simp: link_ends_def make_link_def)
qed

lemma leaf_port_unique:
  assumes "k \<in> set (clos_links c)" "e \<in> set (link_ends k)" "1 \<le> s" "s \<le> tc_num_spines c" "x \<in> port_labels (nat s)"
    "answers_to (numbered ''leaf'' l) x e"
  shows "k = make_link ''spine-leaf'' (numbered ''spine'' s, eth l) (numbered ''leaf'' l, eth s)"
proof -
  have dev: "ep_device e = numbered ''leaf'' l" using assms(6) by (simp add: answers_to_def)
  have same: "j = s" if "e = \<lparr>ep_device = numbered ''leaf'' l, ep_interface = eth j\<rparr>" "1 \<le> j" for j
    using assms(6) answers_to_eth [OF that(2) assms(3,5), of "numbered ''leaf'' l" "numbered ''leaf'' l"] that(1) by simp
  have far: "e \<noteq> \<lparr>ep_device = numbered ''leaf'' l, ep_interface = eth (tc_num_spines c + p)\<rparr>" if "1 \<le> p" for p
    using same [of "tc_num_spines c + p"] assms(3,4) that by auto
  from assms(1) show ?thesis
    unfolding clos_links_set
  proof (elim disjE bexE)
    fix s' l'
    assume k: "s' \<in> {1..tc_num_spines c}" "l' \<in> {1..tc_num_leafs c}"
      "k = make_link ''spine-leaf'' (numbered ''spine'' s', eth l') (numbered ''leaf'' l', eth s')"
    then show ?thesis using assms(2) dev same [of s'] by (auto simp: link_ends_def make_link_def)
  next
    fix l' p
    assume k: "p \<in> {1..tc_clients_per_leaf c}" "k = make_link ''leaf-client'' (numbered ''leaf'' l', eth (tc_num_spines c + p))
              (numbered ''client'' (client_index (tc_clients_per_leaf c) l' p), eth 1)"
    then show ?thesis using assms(2) dev far [of p] by (auto simp: link_ends_def make_link_def)
  qed
qed

lemma peer_of_spine_port:
  assumes "mf_links m = clos_links c" "s \<in> {1..tc_num_spines c}" "l \<in> {1..tc_num_leafs c}" "x \<in> port_labels (nat l)"
  shows "peer_in_links m (numbered ''spine'' s) x (mf_links m) =
    [peer_location m \<lparr>ep_device = numbered ''leaf'' l, ep_interface = eth s\<rparr>]"
proof -
  let ?k = "make_link ''spine-leaf'' (numbered ''spine'' s, eth l) (numbered ''leaf'' l, eth s)"
  have "?k \<in> set (mf_links m)" unfolding assms(1) clos_links_set using assms(2,3) by blast
  moreover have "link_endpoints ?k = (\<lparr>ep_device = numbered ''spine'' s, ep_interface = eth l\<rparr>,
      \<lparr>ep_device = numbered ''leaf'' l, ep_interface = eth s\<rparr>)" by (simp add: make_link_def)
  ultimately show ?thesis
  proof (rule peer_in_links_unique)
    show "answers_to (numbered ''spine'' s) x \<lparr>ep_device = numbered ''spine'' s, ep_interface = eth l\<rparr>"
      "\<not> answers_to (numbered ''spine'' s) x \<lparr>ep_device = numbered ''leaf'' l, ep_interface = eth s\<rparr>"
      using assms(2,3) by (simp_all add: answers_to_eth [OF _ _ assms(4)])
    show "\<not> answers_to (numbered ''spine'' s) x e" if "l' \<in> set (mf_links m)" "l' \<noteq> ?k" "e \<in> set (link_ends l')" for l' e
      using spine_port_unique [of l' c e l x s] that assms by auto
  qed
qed

lemma peer_of_leaf_port:
  assumes "mf_links m = clos_links c" "s \<in> {1..tc_num_spines c}" "l \<in> {1..tc_num_leafs c}" "x \<in> port_labels (nat s)"
  shows "peer_in_links m (numbered ''leaf'' l) x (mf_links m) =
    [peer_location m \<lparr>ep_device = numbered ''spine'' s, ep_interface = eth l\<rparr>]"
proof -
  let ?k = "make_link ''spine-leaf'' (numbered ''spine'' s, eth l) (numbered ''leaf'' l, eth s)"
  have "?k \<in> set (mf_links m)" unfolding assms(1) clos_links_set using assms(2,3) by blast
  moreover have "link_endpoints ?k = (\<lparr>ep_device = numbered ''spine'' s, ep_interface = eth l\<rparr>,
      \<lparr>ep_device = numbered ''leaf'' l, ep_interface = eth s\<rparr>)" by (simp add: make_link_def)
  ultimately show ?thesis
  proof (rule peer_in_links_unique_right)
    show "answers_to (numbered ''leaf'' l) x \<lparr>ep_device = numbered ''leaf'' l, ep_interface = eth s\<rparr>"
      "\<not> answers_to (numbered ''leaf'' l) x \<lparr>ep_device = numbered ''spine'' s, ep_interface = eth l\<rparr>"
      using assms(2,3) by (simp_all add: answers_to_eth [OF _ _ assms(4)])
    show "\<not> answers_to (numbered ''leaf'' l) x e" if "l' \<in> set (mf_links m)" "l' \<noteq> ?k" "e \<in> set (link_ends l')" for l' e
      using leaf_port_unique [of l' c e s x l] that assms by auto
  qed
qed

section \<open>Either end is a full answer\<close>

text \<open>An answer that fully matches some candidate scores 1.\<close>

lemma candidate_scores_one:
  assumes "ao_verdict out = ''fault_detected''" "ao_location out = Some \<lparr>loc_device = Some dev, loc_interface = Some y\<rparr>"
    and "k \<in> set (gt_location gt # gt_equivalent_locations gt)" "device_match dev k"
    and "interface_match (given (loc_interface (gt_location gt))) (Some y) k"
  shows "\<exists>r. evaluate None out (Some gt) tc = Inr r \<and> ev_score r = 1"
proof -
  obtain r where r: "evaluate None out (Some gt) tc = Inr r"
    using evaluate_raises [of None out "Some gt" tc] by (cases "evaluate None out (Some gt) tc") auto
  let ?best = "match_location dev (Some y) (gt_location gt # gt_equivalent_locations gt)
    (given (loc_interface (gt_location gt)))"
  have "bm_device ?best" "bm_interface ?best"
    using match_location_exact(1,2) [where c = "gt_location gt" and cs = "gt_equivalent_locations gt" and d = dev
        and i = "Some y" and app = "given (loc_interface (gt_location gt))"] assms(3-5) by blast+
  then have "ev_correct_device r" "ev_correct_interface r"
    using r assms(2) by (auto simp: evaluate_def Let_def bindE_Inr_conv or_empty_def)
  then show ?thesis using evaluate_facts [OF r] assms(1) r by auto
qed

text \<open>The two ends of the link between a spine and a leaf.\<close>

definition spine_leaf_ends :: "int \<Rightarrow> int \<Rightarrow> ((string \<times> int) \<times> string \<times> int) set" where
  "spine_leaf_ends s l =
     {((numbered ''spine'' s, l), numbered ''leaf'' l, s), ((numbered ''leaf'' l, s), numbered ''spine'' s, l)}"

lemma peer_of_end:
  assumes "mf_links m = clos_links c" "s \<in> {1..tc_num_spines c}" "l \<in> {1..tc_num_leafs c}"
    and "((dev, i), dev', i') \<in> spine_leaf_ends s l" "x \<in> port_labels (nat i)"
  shows "1 \<le> i" "1 \<le> i'" "dev \<noteq> []"
    "peer_in_links m dev x (mf_links m) = [peer_location m \<lparr>ep_device = dev', ep_interface = eth i'\<rparr>]"
  using assms peer_of_spine_port [OF assms(1-3)] peer_of_leaf_port [OF assms(1-3)]
  by (auto simp: spine_leaf_ends_def numbered_def)

lemma symmetric_ground_truth:
  assumes "load_manifest dir = Inr m" "dir \<noteq> []" "mf_links m = clos_links c"
    and "s \<in> {1..tc_num_spines c}" "l \<in> {1..tc_num_leafs c}"
    and "((dev, i), dev', i') \<in> spine_leaf_ends s l" "x \<in> port_labels (nat i)"
    and "ep_fault_type e \<in> interface_symmetric_fault_types"
    and "ep_target_device e = Some dev" "ep_target_interface e = Some x"
  shows "build_episode_ground_truth load_manifest e (Some dir) =
     Inr \<lparr>gt_fault_type = ep_fault_type e, gt_location = \<lparr>loc_device = Some dev, loc_interface = Some x\<rparr>,
          gt_equivalent_locations = [peer_location m \<lparr>ep_device = dev', ep_interface = eth i'\<rparr>]\<rparr>"
proof -
  have "x \<noteq> []" using port_label_raw [OF assms(7)] by simp
  then show ?thesis
    using peer_of_end [OF assms(3-7)] assms(1,2,8-10)
    by (simp add: build_episode_ground_truth_def find_link_peer_locations_def given_def Let_def)
qed

text \<open>
  C13. A link fault has two right answers: in every CLOS fabric the builder returns, for a symmetric link
  fault injected at either end of a spine-leaf link, the ground truth of the episode exists and a "fault detected" verdict
  naming either end of that link, by any label of its port, scores 1.
\<close>

theorem symmetric_fault_full_score:
  assumes "build_clos_plan d c = Inr fp" "load_manifest dir = Inr (fp_manifest fp)" "dir \<noteq> []"
    and "s \<in> {1..tc_num_spines c}" "l \<in> {1..tc_num_leafs c}"
    and "((dev, i), dev', i') \<in> spine_leaf_ends s l" "x \<in> port_labels (nat i)"
    and "ep_fault_type e \<in> interface_symmetric_fault_types"
    and "ep_target_device e = Some dev" "ep_target_interface e = Some x"
    and "ao_verdict out = ''fault_detected''"
    and "ao_location out = Some \<lparr>loc_device = Some named, loc_interface = Some y\<rparr>"
    and "named = dev \<and> y \<in> port_labels (nat i) \<or> named = dev' \<and> y \<in> port_labels (nat i')"
  shows "\<exists>gt r. build_episode_ground_truth load_manifest e (Some dir) = Inr gt \<and>
    evaluate None out (Some gt) testcase_id = Inr r \<and> ev_score r = 1"
proof -
  let ?m = "fp_manifest fp" and ?far = "\<lparr>ep_device = dev', ep_interface = eth i'\<rparr>"
  have links: "mf_links ?m = clos_links c"
    using build_clos_plan_Inr [OF assms(1)] by (auto simp: clos_manifest_def)
  note gt = symmetric_ground_truth [where load_manifest = load_manifest and dir = dir, OF assms(2,3) links assms(4-10)]
  note ends = peer_of_end [OF links assms(4-7)]
  let ?gt = "\<lparr>gt_fault_type = ep_fault_type e, gt_location = \<lparr>loc_device = Some dev, loc_interface = Some x\<rparr>,
    gt_equivalent_locations = [peer_location ?m ?far]\<rparr>"
  obtain z where z: "z \<in> port_labels (nat i')" "loc_interface (peer_location ?m ?far) = Some z"
    using peer_location_facts(2) [OF ends(2), of ?m dev'] by blast
  have far: "peer_location ?m ?far = \<lparr>loc_device = Some dev', loc_interface = Some z\<rparr>"
    using peer_location_facts(1) [OF ends(2), of ?m dev'] z(2) by (cases "peer_location ?m ?far") simp
  have "\<exists>k \<in> set (gt_location ?gt # gt_equivalent_locations ?gt).
      device_match named k \<and> interface_match (given (loc_interface (gt_location ?gt))) (Some y) k"
    using assms(13) label_answer_matches [OF _ assms(7), of y] label_answer_matches [OF _ z(1), of y] ends(1,2)
    unfolding far by auto
  then show ?thesis using gt candidate_scores_one [OF assms(11,12)] by blast
qed

theorem symmetric_fault_full_score_witness:
  "\<exists>fp gt r. build_clos_plan [] default_clos_example = Inr fp \<and>
     build_episode_ground_truth (\<lambda>dir. Inr (fp_manifest fp))
       \<lparr>ep_id = ''e1'', ep_fault_type = ''link_down'', ep_target_device = Some ''spine2'', ep_target_interface = Some ''Ethernet0'',
        ep_target_prefix = None, ep_mtu = None, ep_duration_seconds = 60, ep_stabilization_time = 10, ep_metadata = [],
        ep_parameters = []\<rparr> (Some ''/tmp/topology'') = Inr gt \<and>
     evaluate None ((example_output ''fault_detected'')
        \<lparr>ao_location := Some \<lparr>loc_device = Some ''leaf1'', loc_interface = Some ''eth2''\<rparr>\<rparr>) (Some gt) ''t1'' = Inr r \<and>
     ev_score r = 1"
proof -
  obtain fp where fp: "build_clos_plan [] default_clos_example = Inr fp"
    using build_clos_plan_succeeds [of default_clos_example "\<lparr>net_address = 2886996992, net_prefix = 24\<rparr>" _ "[]"]
      example_network by (auto simp: net_size_def)
  have ends: "((''spine2'', 1), ''leaf1'', 2) \<in> spine_leaf_ends 2 1"
  proof -
    have "''spine2'' = numbered ''spine'' 2" "''leaf1'' = numbered ''leaf'' 1" by code_simp+
    then show ?thesis by (simp add: spine_leaf_ends_def)
  qed
  have "sonic_name ((1 - 1) * 4) = ''Ethernet0''" "eth_name 2 = ''eth2''" by code_simp+
  then have labels: "''Ethernet0'' \<in> port_labels (nat 1)" "''eth2'' \<in> port_labels (nat 2)"
    unfolding port_labels_def by simp_all
  show ?thesis
    using fp symmetric_fault_full_score [where load_manifest = "\<lambda>dir. Inr (fp_manifest fp)" and dir = "''/tmp/topology''"
        and x = "''Ethernet0''" and y = "''eth2''" and named = "''leaf1''" and testcase_id = "''t1''"
        and out = "(example_output ''fault_detected'')
          \<lparr>ao_location := Some \<lparr>loc_device = Some ''leaf1'', loc_interface = Some ''eth2''\<rparr>\<rparr>"
        and e = "\<lparr>ep_id = ''e1'', ep_fault_type = ''link_down'', ep_target_device = Some ''spine2'',
          ep_target_interface = Some ''Ethernet0'', ep_target_prefix = None, ep_mtu = None, ep_duration_seconds = 60,
          ep_stabilization_time = 10, ep_metadata = [], ep_parameters = []\<rparr>", OF fp _ _ _ _ ends labels(1)] labels
    by (fastforce simp: interface_symmetric_fault_types_def example_output_def)
qed

end
