(* ===== verification/Simulator_Service.thy ===== *)
theory Simulator_Service
  imports Environment Scale_Profiles "HOL-Library.Product_Lexorder"
begin

text \<open>
  \<open>netopsbench/platform/simulator/service.py\<close> and the part of \<open>sdk/simulators.py\<close> it calls: the HTTP
  facade over many environments.  A slot is shared between the table of environments and the
  requests that have looked it up, so slots live in a store and the table maps identifiers to
  references.  A request is split where the code gives up its lock: looking a slot up, working on
  it (under the slot's own lock), and removing it from the table are single steps, which other
  requests may separate.  The event log is not modelled.
\<close>

section \<open>The manager\<close>

record manager =
  mg_registry :: scale_registry
  mg_pool_config :: "(int \<times> int) option"

definition pair_text :: "int \<times> int \<Rightarrow> string" where
  "pair_text p = ''('' @ int_str (fst p) @ '', '' @ int_str (snd p) @ '')''"

text \<open>\<open>create\<close> with \<open>_scenario\<close> and \<open>_engine\<close>: the pool's capacity is fixed by the first configuration.\<close>

definition manager_create ::
  "scenario \<Rightarrow> simulator_config \<Rightarrow> (manager, 'b environment) action" where
  "manager_create sc config mg =
     (case registry_get (mg_registry mg) (sc_topology_scale sc) of
        Inl e \<Rightarrow> (Inl e, mg)
      | Inr _ \<Rightarrow>
          (let physical = (cf_max_active_runtimes config, cf_orphan_lease_ttl_seconds config)
           in case mg_pool_config mg of
                None \<Rightarrow> (Inr (new_environment sc config True), mg\<lparr>mg_pool_config := Some physical\<rparr>)
              | Some fixed \<Rightarrow>
                  if fixed \<noteq> physical then
                    (Inl (ValueError (''Simulator runtime pool capacity is fixed after first use; ''
                       @ ''expected max_active_runtimes/orphan_ttl='' @ pair_text fixed @ '', got '' @ pair_text physical)), mg)
                  else (Inr (new_environment sc config True), mg)))"

section \<open>The service\<close>

definition terminal_tombstone_ttl_seconds :: rat where
  "terminal_tombstone_ttl_seconds = 3600"

definition max_terminal_tombstones :: nat where
  "max_terminal_tombstones = 1024"

record 'b slot =
  sl_environment :: "'b environment option"
  sl_case_id :: string
  sl_terminal :: bool
  sl_terminal_at :: "rat option"

text \<open>\<open>sv_retired\<close> lists the environments the service has let go of, as they were then.\<close>

record 'b service =
  sv_manager :: manager
  sv_config :: simulator_config
  sv_scenarios :: "(string, scenario) dict"
  sv_slots :: "'b slot list"
  sv_environments :: "(string, nat) dict"
  sv_retired :: "'b environment list"

text \<open>\<open>build_public_case_id\<close>; \<open>digest\<close> is the first twelve digits of the SHA-1 hash.\<close>

definition build_public_case_id :: "(string \<Rightarrow> string) \<Rightarrow> string \<Rightarrow> string \<Rightarrow> string" where
  "build_public_case_id digest scenario_id episode_id =
     ''case-'' @ digest (scenario_id @ '':'' @ (if episode_id = [] then ''unknown'' else episode_id))"

definition scenario_case_id :: "(string \<Rightarrow> string) \<Rightarrow> scenario \<Rightarrow> string" where
  "scenario_case_id digest sc = build_public_case_id digest (sc_id sc) (ep_id (sc_episode sc))"

definition new_service ::
  "(string \<Rightarrow> string) \<Rightarrow> manager \<Rightarrow> scenario list \<Rightarrow> simulator_config option \<Rightarrow> 'b service result" where
  "new_service digest mg scenarios config =
     (let table = dict_of (map (\<lambda>sc. (scenario_case_id digest sc, sc)) scenarios)
      in if length table \<noteq> length scenarios then
           Inl (ValueError ''Simulator scenarios must produce unique opaque case ids'')
         else Inr \<lparr>sv_manager = mg, sv_config = (case config of Some c \<Rightarrow> c | None \<Rightarrow> default_simulator_config),
                   sv_scenarios = table, sv_slots = [], sv_environments = [], sv_retired = []\<rparr>)"

definition list_cases :: "'b service \<Rightarrow> string list" where
  "list_cases sv = sort (map fst (sv_scenarios sv))"

definition slot_at :: "'b service \<Rightarrow> nat \<Rightarrow> 'b slot" where
  "slot_at sv r = sv_slots sv ! r"

definition put_slot :: "nat \<Rightarrow> 'b slot \<Rightarrow> 'b service \<Rightarrow> 'b service" where
  "put_slot r s sv = sv\<lparr>sv_slots := (sv_slots sv)[r := s]\<rparr>"

section \<open>Tombstones\<close>

text \<open>A terminal slot whose environment is gone, kept in the table for a while.\<close>

definition tombstone :: "'b slot \<Rightarrow> bool" where
  "tombstone s \<longleftrightarrow> sl_terminal s \<and> sl_environment s = None"

definition expired :: "rat \<Rightarrow> 'b slot \<Rightarrow> bool" where
  "expired now s \<longleftrightarrow>
     tombstone s \<and> (case sl_terminal_at s of Some t \<Rightarrow> terminal_tombstone_ttl_seconds \<le> now - t | None \<Rightarrow> False)"

text \<open>\<open>terminal_at or float("inf")\<close>: infinity is a first component of 1.\<close>

definition age_key :: "'b slot \<Rightarrow> nat \<times> rat" where
  "age_key s = (case sl_terminal_at s of Some t \<Rightarrow> if t = 0 then (1, 0) else (0, t) | None \<Rightarrow> (1, 0))"

definition terminal_ids :: "'b service \<Rightarrow> (string, nat) dict \<Rightarrow> string list" where
  "terminal_ids sv table =
     map fst (filter (\<lambda>(i, r). tombstone (slot_at sv r)) (sort_key (\<lambda>(i, r). age_key (slot_at sv r)) table))"

definition prune_terminal_environments :: "rat \<Rightarrow> 'b service \<Rightarrow> 'b service" where
  "prune_terminal_environments now sv =
     (let kept = filter (\<lambda>(i, r). \<not> expired now (slot_at sv r)) (sv_environments sv);
          ids = terminal_ids sv kept;
          dropped = take (length ids - max_terminal_tombstones) ids
      in sv\<lparr>sv_environments := filter (\<lambda>(i, r). i \<notin> set dropped) kept\<rparr>)"

section \<open>Requests\<close>

datatype service_error = NotFound string | TerminalEnvironment string | Raised exc

text \<open>The clock readings of one request, in the order they are taken.\<close>

record ticks =
  tk_environment :: rat
  tk_prune :: rat
  tk_stamp :: rat
  tk_final :: rat

definition retire :: "'b engine \<Rightarrow> 'b environment \<Rightarrow> 'b service \<Rightarrow> 'b service" where
  "retire eng env sv = sv\<lparr>sv_retired := sv_retired sv @ [env_close eng env]\<rparr>"

definition insert_slot :: "string \<Rightarrow> 'b slot \<Rightarrow> 'b service \<Rightarrow> 'b service" where
  "insert_slot i s sv =
     sv\<lparr>sv_slots := sv_slots sv @ [s], sv_environments := dict_set (sv_environments sv) i (length (sv_slots sv))\<rparr>"

text \<open>
  \<open>create\<close>: \<open>environment_id\<close> is the fresh identifier and \<open>b\<close> the initial state of the new
  environment's backend.
\<close>

definition service_create ::
  "'b engine \<Rightarrow> string \<Rightarrow> string \<Rightarrow> 'b \<Rightarrow> ticks \<Rightarrow> 'b service \<Rightarrow>
   (service_error + (string \<times> reset_result)) \<times> 'b service" where
  "service_create eng cid environment_id b t sv =
     (case dict_get (sv_scenarios sv) cid of
        None \<Rightarrow> (Inl (NotFound cid), sv)
      | Some sc \<Rightarrow>
          (case manager_create sc (sv_config sv) (sv_manager sv) of
             (Inl e, mg) \<Rightarrow> (Inl (Raised e), sv\<lparr>sv_manager := mg\<rparr>)
           | (Inr env0, mg) \<Rightarrow>
               (let sv1 = sv\<lparr>sv_manager := mg\<rparr>
                in case env_reset eng b (tk_environment t) env0 of
                     (Inl e, env) \<Rightarrow> (Inl (Raised e), sv1)
                   | (Inr result, env) \<Rightarrow>
                       (let terminal = (\<not> rr_valid result);
                            sv2 = prune_terminal_environments (tk_prune t) (if terminal then retire eng env sv1 else sv1);
                            sv3 = insert_slot environment_id
                                    \<lparr>sl_environment = (if terminal then None else Some env), sl_case_id = cid,
                                     sl_terminal = terminal,
                                     sl_terminal_at = (if terminal then Some (tk_stamp t) else None)\<rparr> sv2
                        in (Inr (environment_id, result), prune_terminal_environments (tk_final t) sv3)))))"

text \<open>\<open>step\<close>, first part: looking the slot up.\<close>

definition lookup_slot :: "string \<Rightarrow> rat \<Rightarrow> 'b service \<Rightarrow> (service_error + nat) \<times> 'b service" where
  "lookup_slot environment_id now sv =
     (let sv' = prune_terminal_environments now sv
      in case dict_get (sv_environments sv') environment_id of
           None \<Rightarrow> (Inl (NotFound environment_id), sv') | Some r \<Rightarrow> (Inr r, sv'))"

text \<open>
  Second part: working on the slot.  \<open>parse\<close> is the validation of the action envelope, whose error
  text ends the environment with a protocol failure.
\<close>

definition run_slot ::
  "'b engine \<Rightarrow> ('a \<Rightarrow> string + action_request) \<Rightarrow> string \<Rightarrow> nat \<Rightarrow> 'a \<Rightarrow> ticks \<Rightarrow> 'b service \<Rightarrow>
   (service_error + step_result) \<times> 'b service" where
  "run_slot eng parse environment_id r act t sv =
     (let slot = slot_at sv r
      in if sl_terminal slot then (Inl (TerminalEnvironment environment_id), sv)
         else (case sl_environment slot of
             None \<Rightarrow> (Inl (TerminalEnvironment environment_id), sv)
           | Some env \<Rightarrow>
               (case (case parse act of
                        Inl message \<Rightarrow> env_terminate_protocol eng message (tk_environment t) env
                      | Inr req \<Rightarrow> env_step eng req (tk_environment t) env) of
                  (Inl e, env') \<Rightarrow> (Inl (Raised e), put_slot r (slot\<lparr>sl_environment := Some env'\<rparr>) sv)
                | (Inr result, env') \<Rightarrow>
                    if tr_state result = TERMINAL then
                      (Inr result,
                       prune_terminal_environments (tk_final t)
                         (retire eng env' (put_slot r (slot\<lparr>sl_environment := None, sl_terminal := True,
                            sl_terminal_at := Some (tk_stamp t)\<rparr>) sv)))
                    else (Inr result, put_slot r (slot\<lparr>sl_environment := Some env', sl_terminal := False\<rparr>) sv))))"

definition service_step ::
  "'b engine \<Rightarrow> ('a \<Rightarrow> string + action_request) \<Rightarrow> string \<Rightarrow> 'a \<Rightarrow> ticks \<Rightarrow> 'b service \<Rightarrow>
   (service_error + step_result) \<times> 'b service" where
  "service_step eng parse environment_id act t sv =
     (case lookup_slot environment_id (tk_prune t) sv of
        (Inl e, sv') \<Rightarrow> (Inl e, sv')
      | (Inr r, sv') \<Rightarrow> run_slot eng parse environment_id r act t sv')"

text \<open>\<open>delete\<close>: the slot leaves the table, then its environment is closed.\<close>

definition pop_slot :: "string \<Rightarrow> 'b service \<Rightarrow> (service_error + nat) \<times> 'b service" where
  "pop_slot environment_id sv =
     (case dict_get (sv_environments sv) environment_id of
        None \<Rightarrow> (Inl (NotFound environment_id), sv)
      | Some r \<Rightarrow> (Inr r, sv\<lparr>sv_environments := filter (\<lambda>(i, r). i \<noteq> environment_id) (sv_environments sv)\<rparr>))"

definition release_slot :: "'b engine \<Rightarrow> nat \<Rightarrow> 'b service \<Rightarrow> 'b service" where
  "release_slot eng r sv =
     (case sl_environment (slot_at sv r) of
        None \<Rightarrow> sv
      | Some env \<Rightarrow> retire eng env (put_slot r ((slot_at sv r)\<lparr>sl_environment := None\<rparr>) sv))"

definition service_delete :: "'b engine \<Rightarrow> string \<Rightarrow> 'b service \<Rightarrow> (service_error + unit) \<times> 'b service" where
  "service_delete eng environment_id sv =
     (case pop_slot environment_id sv of
        (Inl e, sv') \<Rightarrow> (Inl e, sv')
      | (Inr r, sv') \<Rightarrow> (Inr (), release_slot eng r sv'))"

definition service_close :: "'b engine \<Rightarrow> 'b service \<Rightarrow> 'b service" where
  "service_close eng sv =
     fold (release_slot eng) (map snd (sv_environments sv)) (sv\<lparr>sv_environments := []\<rparr>)"

text \<open>The HTTP status of an error, as \<open>create_app\<close> maps it; any other exception is a server error.\<close>

fun http_status :: "service_error \<Rightarrow> int" where
  "http_status (NotFound i) = 404"
| "http_status (TerminalEnvironment i) = 409"
| "http_status (Raised e) = 500"

section \<open>The operations as a machine\<close>

datatype ('a, 'b) service_op =
    SvCreate string string 'b ticks
  | SvLookup string rat
  | SvRun string nat 'a ticks
  | SvPop string
  | SvRelease nat
  | SvClose

text \<open>A request holds a reference only to a slot that exists.\<close>

definition service_run ::
  "'b engine \<Rightarrow> ('a \<Rightarrow> string + action_request) \<Rightarrow> 'b service \<Rightarrow> ('a, 'b) service_op \<Rightarrow> 'b service" where
  "service_run eng parse sv opn =
     (case opn of
        SvCreate cid i b t \<Rightarrow> snd (service_create eng cid i b t sv)
      | SvLookup i now \<Rightarrow> snd (lookup_slot i now sv)
      | SvRun i r act t \<Rightarrow> if r < length (sv_slots sv) then snd (run_slot eng parse i r act t sv) else sv
      | SvPop i \<Rightarrow> snd (pop_slot i sv)
      | SvRelease r \<Rightarrow> if r < length (sv_slots sv) then release_slot eng r sv else sv
      | SvClose \<Rightarrow> service_close eng sv)"

definition slot_ok :: "'b engine \<Rightarrow> 'b slot \<Rightarrow> bool" where
  "slot_ok eng s \<longleftrightarrow>
     (sl_terminal s \<longrightarrow> sl_environment s = None) \<and>
     (\<forall>env. sl_environment s = Some env \<longrightarrow> env_ok eng env \<and> phase_of env = Running)"

definition table_ok :: "'b service \<Rightarrow> bool" where
  "table_ok sv \<longleftrightarrow>
     distinct (map fst (sv_environments sv)) \<and> (\<forall>(i, r) \<in> set (sv_environments sv). r < length (sv_slots sv))"

definition tombstones :: "'b service \<Rightarrow> nat" where
  "tombstones sv = length (filter (\<lambda>(i, r). tombstone (slot_at sv r)) (sv_environments sv))"

definition slots_ok :: "'b engine \<Rightarrow> 'b service \<Rightarrow> bool" where
  "slots_ok eng sv \<longleftrightarrow> (\<forall>s \<in> set (sv_slots sv). slot_ok eng s) \<and> (\<forall>env \<in> set (sv_retired sv). phase_of env = Finished)"

definition service_ok :: "'b engine \<Rightarrow> 'b service \<Rightarrow> bool" where
  "service_ok eng sv \<longleftrightarrow> slots_ok eng sv \<and> table_ok sv \<and> tombstones sv \<le> max_terminal_tombstones"

section \<open>Pruning\<close>

lemma prune_fields [simp]:
  "sv_slots (prune_terminal_environments now sv) = sv_slots sv"
  "sv_retired (prune_terminal_environments now sv) = sv_retired sv"
  "slot_at (prune_terminal_environments now sv) r = slot_at sv r"
  by (simp_all add: prune_terminal_environments_def Let_def slot_at_def)

lemma prune_slots_ok [simp]: "slots_ok eng (prune_terminal_environments now sv) = slots_ok eng sv"
  by (simp add: slots_ok_def)

lemma prune_subset: "set (sv_environments (prune_terminal_environments now sv)) \<subseteq> set (sv_environments sv)"
  by (auto simp: prune_terminal_environments_def Let_def)

lemma prune_table_ok: "table_ok sv \<Longrightarrow> table_ok (prune_terminal_environments now sv)"
  using prune_subset [of now sv]
  by (auto simp: table_ok_def prune_terminal_environments_def Let_def intro!: distinct_map_filter)

lemma terminal_ids_facts:
  assumes "distinct (map fst table)"
  shows "distinct (terminal_ids sv table)"
    "i \<in> set (terminal_ids sv table) \<longleftrightarrow> (\<exists>r. (i, r) \<in> set table \<and> tombstone (slot_at sv r))"
proof -
  let ?sorted = "sort_key (\<lambda>(i, r). age_key (slot_at sv r)) table"
  have "distinct (map fst ?sorted)"
    using assms by (simp add: distinct_map)
  then show "distinct (terminal_ids sv table)" by (simp add: terminal_ids_def distinct_map_filter)
  show "i \<in> set (terminal_ids sv table) \<longleftrightarrow> (\<exists>r. (i, r) \<in> set table \<and> tombstone (slot_at sv r))"
    by (force simp: terminal_ids_def)
qed

text \<open>Pruning bounds the tombstones, and drops nothing else.\<close>

lemma prune_bounds:
  assumes "distinct (map fst (sv_environments sv))"
  shows "tombstones (prune_terminal_environments now sv) \<le> max_terminal_tombstones"
proof -
  let ?kept = "filter (\<lambda>(i, r). \<not> expired now (slot_at sv r)) (sv_environments sv)"
  let ?ids = "terminal_ids sv ?kept"
  let ?dropped = "take (length ?ids - max_terminal_tombstones) ?ids"
  let ?left = "filter (\<lambda>(i, r). i \<notin> set ?dropped) ?kept"
  have d: "distinct (map fst ?kept)" using assms by (rule distinct_map_filter)
  note ids = terminal_ids_facts [OF d]
  have left: "tombstones (prune_terminal_environments now sv) = length (filter (\<lambda>(i, r). tombstone (slot_at sv r)) ?left)"
    by (simp add: tombstones_def prune_terminal_environments_def Let_def slot_at_def)
  have "distinct (map fst (filter (\<lambda>(i, r). tombstone (slot_at sv r)) ?left))"
    by (intro distinct_map_filter d)
  from distinct_card [OF this] have "length (filter (\<lambda>(i, r). tombstone (slot_at sv r)) ?left) =
      card (set (map fst (filter (\<lambda>(i, r). tombstone (slot_at sv r)) ?left)))"
    by (simp only: length_map)
  also have "\<dots> \<le> card (set (drop (length ?ids - max_terminal_tombstones) ?ids))"
  proof (rule card_mono)
    have "set ?ids = set ?dropped \<union> set (drop (length ?ids - max_terminal_tombstones) ?ids)"
      by (metis append_take_drop_id set_append)
    moreover have "i \<in> set ?ids" if "(i, r) \<in> set ?left" "tombstone (slot_at sv r)" for i r
      using that ids(2) by fastforce
    ultimately show "set (map fst (filter (\<lambda>(i, r). tombstone (slot_at sv r)) ?left)) \<subseteq>
        set (drop (length ?ids - max_terminal_tombstones) ?ids)" by fastforce
  qed simp
  also have "\<dots> \<le> length (drop (length ?ids - max_terminal_tombstones) ?ids)" by (rule card_length)
  finally show ?thesis unfolding left by simp
qed

lemma prune_keeps_live:
  assumes "distinct (map fst (sv_environments sv))" "(i, r) \<in> set (sv_environments sv)" "\<not> tombstone (slot_at sv r)"
  shows "(i, r) \<in> set (sv_environments (prune_terminal_environments now sv))"
proof -
  let ?kept = "filter (\<lambda>(i, r). \<not> expired now (slot_at sv r)) (sv_environments sv)"
  have d: "distinct (map fst ?kept)" using assms(1) by (rule distinct_map_filter)
  have kept: "(i, r) \<in> set ?kept" using assms(2,3) by (simp add: expired_def)
  have "i \<notin> set (terminal_ids sv ?kept)"
  proof
    assume "i \<in> set (terminal_ids sv ?kept)"
    then obtain r' where "(i, r') \<in> set ?kept" "tombstone (slot_at sv r')" using terminal_ids_facts(2) [OF d] by blast
    moreover have "r' = r" using calculation(1) kept d by (metis eq_key_imp_eq_value)
    ultimately show False using assms(3) by simp
  qed
  then show ?thesis
    using kept by (auto simp: prune_terminal_environments_def Let_def dest: in_set_takeD)
qed

lemma prune_ok: "slots_ok eng sv \<Longrightarrow> table_ok sv \<Longrightarrow> service_ok eng (prune_terminal_environments now sv)"
  using prune_table_ok [of sv now] prune_bounds [of sv now] by (simp add: service_ok_def table_ok_def)

section \<open>What one environment answers\<close>

lemma reset_result:
  assumes "env_reset eng b now (new_environment sc c told) = (Inr result, env)"
  shows "env_ok eng env" "phase_of env = (if rr_valid result then Running else Finished)"
proof -
  show ok: "env_ok eng env"
    using env_reset_ok(1) [OF new_environment_ok, of eng b now sc c told] assms by simp
  let ?i = "engine_prepare eng sc b"
  show "phase_of env = (if rr_valid result then Running else Finished)"
  proof (cases "in_state ?i = BROKEN")
    case True
    have e: "env_incident env = Some ?i" "\<not> rr_valid result"
      using assms True by (auto simp: env_reset_def new_environment_def Let_def)
    then have "incident_ok eng ?i" using ok by (simp add: env_ok_def)
    then have "in_cleanup_status ?i \<noteq> NOT_STARTED" using incident_ok_counts(3) [of eng ?i] True by auto
    then show ?thesis using e by (simp add: phase_of_def)
  next
    case False
    obtain r j where o: "open_session eng (Some c) now ?i = (r, j)" by fastforce
    have act: "in_state ?i = ACTIVE" using prepared_state [of eng sc b] False by simp
    have "quiet_ext ?i j" using open_session_quiet [of ?i eng "Some c" now] by (simp add: o)
    then have j: "in_state j = ACTIVE" using quiet_ext_state act by metis
    obtain q where q: "r = Inr q"
      using assms False o by (cases r) (auto simp: env_reset_def new_environment_def Let_def)
    then have e: "env_incident env = Some j" "env_session env = Some q" "rr_valid result"
      using assms False o by (auto simp: env_reset_def new_environment_def Let_def)
    have "ss_state q = SESSION_ACTIVE"
      using o q by (auto simp: open_session_def bindS_def returnS_def raiseS_def new_session_def
          split: option.splits prod.splits sum.splits)
    moreover have "incident_ok eng j" using ok e by (simp add: env_ok_def)
    then have "in_cleanup_status j = NOT_STARTED" using incident_ok_counts(3) [of eng j] j by auto
    ultimately show ?thesis using e by (simp add: phase_of_def)
  qed
qed

lemma running_parts:
  assumes "env_ok eng env" "phase_of env = Running"
  obtains s i where "env_session env = Some s" "env_incident env = Some i" "ss_state s = SESSION_ACTIVE"
    "in_state i = ACTIVE" "incident_ok eng i"
proof -
  obtain i where i: "env_incident env = Some i" using assms(2) by (auto simp: phase_of_def split: option.splits)
  then have "in_cleanup_status i = NOT_STARTED" using assms(2) by (auto simp: phase_of_def split: if_splits)
  moreover have "incident_ok eng i" "in_state i \<noteq> CREATED" using assms(1) i by (simp_all add: env_ok_def)
  ultimately show ?thesis
    using assms(2) i ok_active_not_cleaned that by (auto simp: phase_of_def split: option.splits if_splits)
qed

lemma incident_not_fresh: "env_incident env = Some i \<Longrightarrow> phase_of env \<noteq> Fresh"
  by (simp add: phase_of_def split: option.split)

lemma phase_put_session:
  assumes "incident_ok eng i" "in_state i = ACTIVE"
  shows "phase_of (put_session s i env) = (if ss_state s = SESSION_ACTIVE then Running else Spent)"
  using incident_ok_counts(3) [OF assms(1)] assms(2) by (simp add: phase_of_def put_session_def)

text \<open>A running environment whose step does not end the session is still running.\<close>

definition answered :: "(exc + step_result) \<Rightarrow> 'b environment \<Rightarrow> bool" where
  "answered r env \<longleftrightarrow>
     phase_of env \<noteq> Fresh \<and>
     (case r of Inl e \<Rightarrow> phase_of env = Running | Inr tr \<Rightarrow> tr_state tr \<noteq> TERMINAL \<longrightarrow> phase_of env = Running)"

lemma step_answered:
  assumes "env_ok eng env" "phase_of env = Running" "env_step eng req now env = (r, env')"
  shows "answered r env'"
proof -
  obtain s i where run: "env_session env = Some s" "env_incident env = Some i" "ss_state s = SESSION_ACTIVE"
    "in_state i = ACTIVE" "incident_ok eng i" using running_parts [OF assms(1,2)] .
  show ?thesis
  proof (cases req)
    case (ToolRequest act)
    obtain q s' i' where c: "session_call_tool eng act now (s, i) = (q, (s', i'))" by (metis surj_pair)
    have e: "r = q" "env' = put_session s' i' env" using assms(3) ToolRequest run c by (auto simp: env_step_def)
    have k: "incident_ok eng i'" "in_state i' = ACTIVE" using session_call_tool_keeps [OF run(5) c] run(4) by simp_all
    have "\<exists>tr. q = Inr tr"
      using c run(3,4) by (auto simp: session_call_tool_def session_active_eq Let_def split: option.splits if_splits prod.splits sum.splits)
    then obtain tr where tr: "q = Inr tr" ..
    have "tr_state tr = ss_state s'"
      using session_reward_facts(1) [of eng "SessionTool act now" s i tr s' i'] c by (simp add: session_run_def tr)
    then show ?thesis
      using phase_put_session [OF k, of s' env] by (cases "ss_state s'") (simp_all add: e tr answered_def)
  next
    case (SubmitRequest d u)
    obtain q s' i' where c: "session_submit eng (request_args d u) now (s, i) = (q, (s', i'))" by (metis surj_pair)
    have k: "incident_ok eng i'" "in_state i' = ACTIVE" "isl q \<longrightarrow> s' = s"
      using session_submit_keeps [OF run(5) c] run(4) by simp_all
    show ?thesis
    proof (cases q)
      case (Inl e)
      have "r = Inl e" "env' = put_session s' i' env" using assms(3) SubmitRequest run c Inl by (auto simp: env_step_def)
      then show ?thesis using phase_put_session [OF k(1,2)] k(3) run(3) Inl by (simp add: answered_def)
    next
      case (Inr tr)
      have "tr_state tr = TERMINAL"
        using c run(3,4) Inr
        by (auto simp: session_submit_def session_active_eq Let_def limit_transition_def zero_reward_def plain_transition_def
            split: option.splits prod.splits sum.splits)
      moreover have "phase_of env' \<noteq> Fresh \<and> (\<exists>tr'. r = Inr tr' \<and> tr_state tr' = tr_state tr)"
        using assms(3) SubmitRequest run c Inr
        by (auto simp: env_step_def Let_def put_session_def intro!: incident_not_fresh)
      ultimately show ?thesis by (auto simp: answered_def)
    qed
  qed
qed

lemma protocol_answered:
  assumes "env_ok eng env" "phase_of env = Running" "env_terminate_protocol eng m now env = (r, env')"
  shows "answered r env'"
proof -
  obtain s i where run: "env_session env = Some s" "env_incident env = Some i" "ss_state s = SESSION_ACTIVE"
    "in_state i = ACTIVE" "incident_ok eng i" using running_parts [OF assms(1,2)] .
  have t: "terminate_failure PROTOCOL m PROTOCOL_ERROR now (s, i) =
      (Inr (zero_reward s (elapsed s now)
         \<lparr>ef_domain = PROTOCOL, ef_phase = ''diagnosis'', ef_message = m, ef_error_type = None\<rparr> PROTOCOL_ERROR),
       (s\<lparr>ss_state := TERMINAL\<rparr>, i))"
    using run(3,4) by (simp add: terminate_failure_def session_active_eq)
  have "phase_of env' \<noteq> Fresh"
    using assms(3) by (intro incident_not_fresh) (auto simp: env_terminate_protocol_def run(1,2) t Let_def put_session_def)
  moreover have "\<exists>tr. r = Inr tr \<and> tr_state tr = TERMINAL"
    using assms(3) by (auto simp: env_terminate_protocol_def run(1,2) t Let_def zero_reward_def plain_transition_def)
  ultimately have "phase_of env' \<noteq> Fresh \<and> (\<exists>tr. r = Inr tr \<and> tr_state tr = TERMINAL)" by blast
  then show ?thesis by (auto simp: answered_def)
qed

section \<open>The operations keep the invariant\<close>

lemma slots_ok_retire:
  assumes "slots_ok eng sv" "env_ok eng env" "phase_of env \<noteq> Fresh"
  shows "slots_ok eng (retire eng env sv)"
  using assms env_close_ok(2) [OF assms(2)] by (auto simp: slots_ok_def retire_def)

lemma slots_ok_put: "slots_ok eng sv \<Longrightarrow> slot_ok eng s \<Longrightarrow> slots_ok eng (put_slot r s sv)"
  using set_update_subset_insert [of "sv_slots sv" r s] by (auto simp: slots_ok_def put_slot_def)

lemma slot_at_ok: "slots_ok eng sv \<Longrightarrow> r < length (sv_slots sv) \<Longrightarrow> slot_ok eng (slot_at sv r)"
  by (auto simp: slots_ok_def slot_at_def)

lemma table_ok_simps [simp]:
  "table_ok (retire eng env sv) = table_ok sv" "table_ok (put_slot r s sv) = table_ok sv"
  "table_ok (sv\<lparr>sv_manager := mg\<rparr>) = table_ok sv"
  by (simp_all add: table_ok_def retire_def put_slot_def)

lemma slots_ok_insert: "slots_ok eng sv \<Longrightarrow> slot_ok eng s \<Longrightarrow> slots_ok eng (insert_slot i s sv)"
  by (auto simp: slots_ok_def insert_slot_def)

lemma table_ok_insert: "table_ok sv \<Longrightarrow> table_ok (insert_slot i s sv)"
  using set_update_subset [of i "length (sv_slots sv)" "sv_environments sv"]
  by (force simp: table_ok_def insert_slot_def)

lemma service_create_ok:
  fixes sv :: "'b service"
  assumes "service_ok eng sv"
  shows "service_ok eng (snd (service_create eng cid i b t sv))"
proof -
  have mg: "service_ok eng (sv\<lparr>sv_manager := mg\<rparr>)" for mg
    using assms by (simp add: service_ok_def slots_ok_def tombstones_def slot_at_def)
  show ?thesis
  proof (cases "dict_get (sv_scenarios sv) cid")
    case None
    then show ?thesis using assms by (simp add: service_create_def)
  next
    case (Some sc)
    obtain q :: "exc + 'b environment" and mgr where q: "manager_create sc (sv_config sv) (sv_manager sv) = (q, mgr)" by fastforce
    show ?thesis
    proof (cases q)
      case (Inl e)
      then show ?thesis using Some q mg by (simp add: service_create_def)
    next
      case (Inr env0)
      then have env0: "env0 = new_environment sc (sv_config sv) True"
        using q by (auto simp: manager_create_def Let_def split: sum.splits option.splits if_splits)
      obtain x env where x: "env_reset eng b (tk_environment t) env0 = (x, env)" by fastforce
      show ?thesis
      proof (cases x)
        case (Inl e)
        then show ?thesis using Some q Inr x mg by (simp add: service_create_def Let_def)
      next
        case x_ok: (Inr result)
        let ?sv1 = "sv\<lparr>sv_manager := mgr\<rparr>"
        let ?sv2 = "prune_terminal_environments (tk_prune t) (if \<not> rr_valid result then retire eng env ?sv1 else ?sv1)"
        let ?s = "\<lparr>sl_environment = (if \<not> rr_valid result then None else Some env), sl_case_id = cid,
          sl_terminal = (\<not> rr_valid result), sl_terminal_at = (if \<not> rr_valid result then Some (tk_stamp t) else None)\<rparr>"
        note env = reset_result [OF x [unfolded x_ok env0]]
        have ok1: "slots_ok eng ?sv1" "table_ok ?sv1" using mg [of mgr] by (simp_all add: service_ok_def)
        have "slots_ok eng (if \<not> rr_valid result then retire eng env ?sv1 else ?sv1)"
          using ok1(1) slots_ok_retire [OF ok1(1) env(1)] env(2) by simp
        then have "slots_ok eng ?sv2" by simp
        moreover have "table_ok ?sv2" by (rule prune_table_ok) (use ok1(2) in simp)
        moreover have "slot_ok eng ?s" using env by (simp add: slot_ok_def)
        ultimately have "service_ok eng (prune_terminal_environments (tk_final t) (insert_slot i ?s ?sv2))"
          by (intro prune_ok slots_ok_insert table_ok_insert)
        moreover have "snd (service_create eng cid i b t sv) =
            prune_terminal_environments (tk_final t) (insert_slot i ?s ?sv2)"
          using Some q Inr x x_ok by (simp add: service_create_def Let_def)
        ultimately show ?thesis by simp
      qed
    qed
  qed
qed

lemma length_filter_mono: "(\<And>x. x \<in> set xs \<Longrightarrow> P x \<Longrightarrow> Q x) \<Longrightarrow> length (filter P xs) \<le> length (filter Q xs)"
  by (induction xs) auto

text \<open>Writing a slot that is no tombstone adds none.\<close>

lemma put_slot_ok:
  assumes "service_ok eng sv" "slot_ok eng s" "\<not> tombstone s"
  shows "service_ok eng (put_slot r s sv)"
proof -
  have "tombstones (put_slot r s sv) \<le> tombstones sv"
    unfolding tombstones_def
  proof (simp add: put_slot_def, rule length_filter_mono)
    fix x
    assume x: "x \<in> set (sv_environments sv)"
      "case x of (i, r') \<Rightarrow> tombstone (slot_at (sv\<lparr>sv_slots := (sv_slots sv)[r := s]\<rparr>) r')"
    obtain i r' where p: "x = (i, r')" by (cases x)
    have "r' < length (sv_slots sv)" using assms(1) x(1) p by (auto simp: service_ok_def table_ok_def)
    then show "case x of (i, r') \<Rightarrow> tombstone (slot_at sv r')"
      using x(2) p assms(3) by (cases "r' = r") (auto simp: slot_at_def)
  qed
  then show ?thesis using assms(1,2) slots_ok_put [of eng sv s r] by (simp add: service_ok_def)
qed

lemma retire_ok:
  assumes "service_ok eng sv" "env_ok eng env" "phase_of env \<noteq> Fresh"
  shows "service_ok eng (retire eng env sv)"
  using assms(1) slots_ok_retire [OF _ assms(2,3), of sv]
  by (simp add: service_ok_def tombstones_def slot_at_def retire_def table_ok_def)

lemma run_slot_ok:
  assumes "service_ok eng sv" "r < length (sv_slots sv)"
  shows "service_ok eng (snd (run_slot eng parse i r act t sv))"
proof (cases "sl_terminal (slot_at sv r) \<or> sl_environment (slot_at sv r) = None")
  case True
  then show ?thesis using assms(1) by (auto simp: run_slot_def Let_def split: option.split)
next
  case False
  let ?s = "slot_at sv r"
  obtain env where env: "sl_environment ?s = Some env" "\<not> sl_terminal ?s" using False by auto
  have slots: "slots_ok eng sv" "table_ok sv" using assms(1) by (simp_all add: service_ok_def)
  then have ok: "env_ok eng env" "phase_of env = Running"
    using slot_at_ok [OF slots(1) assms(2)] env(1) by (simp_all add: slot_ok_def)
  obtain q env' where q: "(case parse act of
        Inl message \<Rightarrow> env_terminate_protocol eng message (tk_environment t) env
      | Inr req \<Rightarrow> env_step eng req (tk_environment t) env) = (q, env')" by fastforce
  have "answered q env' \<and> env_ok eng env'"
  proof (cases "parse act")
    case (Inl m)
    then have e: "env_terminate_protocol eng m (tk_environment t) env = (q, env')" using q by simp
    show ?thesis using protocol_answered [OF ok e] env_protocol_ok [OF ok(1), of m "tk_environment t", THEN conjunct1] by (simp add: e)
  next
    case (Inr req)
    then have e: "env_step eng req (tk_environment t) env = (q, env')" using q by simp
    show ?thesis using step_answered [OF ok e] env_step_ok [OF ok(1), of req "tk_environment t", THEN conjunct1] by (simp add: e)
  qed
  then have a: "answered q env'" "env_ok eng env'" by simp_all
  show ?thesis
  proof (cases q)
    case (Inl e)
    then have "snd (run_slot eng parse i r act t sv) = put_slot r (?s\<lparr>sl_environment := Some env'\<rparr>) sv"
      using env q by (simp add: run_slot_def Let_def)
    then show ?thesis
      using a Inl env(2) put_slot_ok [OF assms(1)] by (simp add: slot_ok_def tombstone_def answered_def)
  next
    case (Inr tr)
    show ?thesis
    proof (cases "tr_state tr = TERMINAL")
      case True
      let ?dead = "?s\<lparr>sl_environment := None, sl_terminal := True, sl_terminal_at := Some (tk_stamp t)\<rparr>"
      have "snd (run_slot eng parse i r act t sv) =
          prune_terminal_environments (tk_final t) (retire eng env' (put_slot r ?dead sv))"
        using env q Inr True by (simp add: run_slot_def Let_def)
      moreover have "slots_ok eng (retire eng env' (put_slot r ?dead sv))"
        using a by (intro slots_ok_retire slots_ok_put slots(1)) (simp_all add: slot_ok_def answered_def)
      ultimately show ?thesis using slots(2) by (simp add: prune_ok)
    next
      case False
      then have "snd (run_slot eng parse i r act t sv) =
          put_slot r (?s\<lparr>sl_environment := Some env', sl_terminal := False\<rparr>) sv"
        using env q Inr by (simp add: run_slot_def Let_def)
      then show ?thesis
        using a Inr False put_slot_ok [OF assms(1)] by (simp add: slot_ok_def tombstone_def answered_def)
    qed
  qed
qed

lemma lookup_slot_ok: "service_ok eng sv \<Longrightarrow> service_ok eng (snd (lookup_slot i now sv))"
  by (simp add: lookup_slot_def Let_def service_ok_def [of _ sv] prune_ok split: option.split)

lemma pop_slot_ok:
  assumes "service_ok eng sv"
  shows "service_ok eng (snd (pop_slot i sv))"
proof -
  have "length (filter P (filter Q xs)) \<le> length (filter P xs)" for P Q and xs :: "(string \<times> nat) list"
    by (induction xs) auto
  from le_trans [OF this] show ?thesis
    using assms
    by (auto simp: pop_slot_def service_ok_def slots_ok_def table_ok_def tombstones_def slot_at_def distinct_map_filter
        split: option.split)
qed

lemma release_slot_ok:
  assumes "service_ok eng sv" "r < length (sv_slots sv)"
  shows "service_ok eng (release_slot eng r sv)" "length (sv_slots (release_slot eng r sv)) = length (sv_slots sv)"
proof -
  let ?s = "slot_at sv r"
  have s: "slot_ok eng ?s" using assms slot_at_ok by (auto simp: service_ok_def)
  show "service_ok eng (release_slot eng r sv)"
  proof (cases "sl_environment ?s")
    case None
    then show ?thesis using assms(1) by (simp add: release_slot_def)
  next
    case (Some env)
    have put: "service_ok eng (put_slot r (?s\<lparr>sl_environment := None\<rparr>) sv)"
      using s Some by (intro put_slot_ok [OF assms(1)]) (auto simp: slot_ok_def tombstone_def)
    show ?thesis using retire_ok [OF put, of env] s Some by (simp add: release_slot_def slot_ok_def)
  qed
  show "length (sv_slots (release_slot eng r sv)) = length (sv_slots sv)"
    by (simp add: release_slot_def retire_def put_slot_def split: option.split)
qed

lemma service_close_ok:
  assumes "service_ok eng sv"
  shows "service_ok eng (service_close eng sv)"
proof -
  have run: "service_ok eng (fold (release_slot eng) rs sv)"
    if "service_ok eng sv" "\<forall>r \<in> set rs. r < length (sv_slots sv)" for rs sv
    using that by (induction rs arbitrary: sv) (simp_all add: release_slot_ok)
  show ?thesis unfolding service_close_def
    by (rule run) (use assms in \<open>auto simp: service_ok_def slots_ok_def table_ok_def tombstones_def\<close>)
qed

lemma service_run_ok: "service_ok eng sv \<Longrightarrow> service_ok eng (service_run eng parse sv opn)"
  by (cases opn) (simp_all add: service_run_def service_create_ok lookup_slot_ok run_slot_ok pop_slot_ok release_slot_ok
      service_close_ok)

definition empty_service :: "manager \<Rightarrow> (string, scenario) dict \<Rightarrow> simulator_config \<Rightarrow> 'b service" where
  "empty_service mg table config =
     \<lparr>sv_manager = mg, sv_config = config, sv_scenarios = table, sv_slots = [], sv_environments = [], sv_retired = []\<rparr>"

interpretation services:
  started_machine "service_run eng parse" "service_ok eng" "\<lambda>(mg, table, config). empty_service mg table config" for eng parse
proof
  show "service_ok eng (service_run eng parse s opn)" if "service_ok eng s" for s opn
    by (rule service_run_ok [OF that])
  show "service_ok eng (case a of (mg, table, config) \<Rightarrow> empty_service mg table config)" for a
    by (cases a) (simp add: service_ok_def slots_ok_def table_ok_def tombstones_def empty_service_def)
qed

section \<open>Property\<close>


definition example_requests :: "(action_request, nat) service_op list" where
  "example_requests =
     [SvCreate ''case-1'' ''env-1'' 0 \<lparr>tk_environment = 1, tk_prune = 2, tk_stamp = 3, tk_final = 4\<rparr>,
      SvRun ''env-1'' 0 (ToolRequest example_call) \<lparr>tk_environment = 5, tk_prune = 5, tk_stamp = 5, tk_final = 5\<rparr>,
      SvRelease 0]"


end
