(* ===== verification/Pingmesh_Coverage.thy ===== *)
theory Pingmesh_Coverage
  imports Topology_Model
begin

text \<open>
  \<open>netopsbench/platform/pingmesh/_detector_coverage.py\<close>: did the probes of a window reach every
  pair of clients on every batch of source ports?  A row is what the snapshot query returns: text
  columns (tags) and numeric columns (fields); empty columns are absent.
\<close>

section \<open>Rows\<close>

record row =
  rw_tags :: "(string, string) dict"
  rw_fields :: "(string, rat) dict"

definition tag :: "row \<Rightarrow> string \<Rightarrow> string" where
  "tag r k = dict_get_default (rw_tags r) k []"

definition field :: "row \<Rightarrow> string \<Rightarrow> rat option" where
  "field r k = dict_get (rw_fields r) k"

text \<open>\<open>int(x)\<close> truncates towards zero.\<close>

definition py_int :: "rat \<Rightarrow> int" where
  "py_int x = (if 0 \<le> x then \<lfloor>x\<rfloor> else - \<lfloor>- x\<rfloor>)"

definition field_int :: "row \<Rightarrow> string \<Rightarrow> int option" where
  "field_int r k = map_option py_int (field r k)"

text \<open>\<open>a or b\<close> on texts.\<close>

definition or_text :: "string \<Rightarrow> string \<Rightarrow> string" where
  "or_text a b = (if a \<noteq> [] then a else b)"

section \<open>Socket batches\<close>

type_synonym socket_batch = "string \<times> string \<times> int"

definition socket_batch_key :: "row \<Rightarrow> socket_batch option" where
  "socket_batch_key r =
     (let source = or_text (tag r ''src_name'') (tag r ''src_ip'');
          destination = or_text (tag r ''dst_name'') (tag r ''dst_ip'')
      in if source = [] \<or> destination = [] then None
         else Some (source, destination, case field_int r ''port_batch_index'' of Some i \<Rightarrow> i | None \<Rightarrow> -1))"

definition add_regular_loss :: "row \<Rightarrow> (socket_batch, int) dict \<Rightarrow> (socket_batch, int) dict" where
  "add_regular_loss r losses =
     (case (socket_batch_key r, field_int r ''packets_sent'', field_int r ''packets_lost'') of
        (Some key, Some sent, Some lost) \<Rightarrow>
          if sent \<le> 0 \<or> \<not> (0 \<le> lost \<and> lost \<le> sent) then losses
          else dict_set losses key (dict_get_default losses key 0 + lost)
      | _ \<Rightarrow> losses)"

definition regular_loss_by_socket_batch :: "row list \<Rightarrow> (socket_batch, int) dict" where
  "regular_loss_by_socket_batch rows = fold add_regular_loss rows []"

definition is_explained_df_send_error :: "(socket_batch, int) dict \<Rightarrow> row \<Rightarrow> bool" where
  "is_explained_df_send_error losses r \<longleftrightarrow>
     (case (field_int r ''local_probe_errors'', socket_batch_key r) of
        (Some errors, Some key) \<Rightarrow>
          errors \<noteq> 0 \<and> field_int r ''df_mtu_drops'' = Some errors \<and> 3 \<le> dict_get_default losses key 0
      | _ \<Rightarrow> False)"

definition has_valid_socket_batch :: "int \<Rightarrow> int \<Rightarrow> int \<Rightarrow> (socket_batch, int) dict \<Rightarrow> row \<Rightarrow> bool" where
  "has_valid_socket_batch port_pool_size ports_per_cycle batches losses r \<longleftrightarrow>
     (case field_int r ''port_batch_index'' of
        None \<Rightarrow> False
      | Some i \<Rightarrow>
          0 \<le> i \<and> i < batches \<and>
          field_int r ''rtt_ports_total'' = Some port_pool_size \<and>
          field_int r ''rtt_ports_active'' = Some (min ports_per_cycle (port_pool_size - i * ports_per_cycle)) \<and>
          (field_int r ''local_probe_errors'' = Some 0 \<or> is_explained_df_send_error losses r))"

section \<open>The audit\<close>

record coverage_details =
  cd_expected_epoch_cycles :: int
  cd_observed_cycle_span :: int
  cd_min_source_cycle_span :: int
  cd_source_clients_observed :: int
  cd_expected_source_clients :: int
  cd_destination_pairs_observed :: int
  cd_expected_destination_pairs :: int
  cd_pair_port_combinations_observed :: int
  cd_expected_pair_port_combinations :: int
  cd_missing_pair_port_combinations :: int
  cd_min_samples_per_pair :: int
  cd_port_batches_observed :: "int list"
  cd_destination_batches_observed :: "int list"
  cd_missing_port_batches :: "int list"
  cd_missing_destination_batches :: "int list"
  cd_missing_source_clients :: int
  cd_invalid_socket_rows :: int

record coverage =
  cv_status :: string
  cv_coverage_status :: string
  cv_error :: "string option"
  cv_details :: "coverage_details option"

definition coverage_error :: "string \<Rightarrow> coverage" where
  "coverage_error message =
     \<lparr>cv_status = ''error'', cv_coverage_status = ''error'', cv_error = Some message, cv_details = None\<rparr>"

definition required_policy_fields :: "string list" where
  "required_policy_fields =
     [''coverage_epoch_cycles'', ''destination_batch_size'', ''rtt_port_pool_size'', ''rtt_ports_per_cycle'']"

definition policy_int :: "(string, json) dict \<Rightarrow> string \<Rightarrow> int" where
  "policy_int policy k = (case dict_get policy k of Some (JInt i) \<Rightarrow> i | _ \<Rightarrow> 0)"

definition span :: "int list \<Rightarrow> int" where
  "span cycles = (if cycles = [] then 0 else Max (set cycles) - Min (set cycles) + 1)"

text \<open>The distinct values of an optional column, sorted.\<close>

definition observed :: "('a \<Rightarrow> int option) \<Rightarrow> 'a list \<Rightarrow> int list" where
  "observed f rows = sort (remdups (List.map_filter f rows))"

definition cycle_rows :: "row list \<Rightarrow> row list" where
  "cycle_rows rows = filter (\<lambda>r. field r ''probe_cycle'' \<noteq> None) rows"

definition row_pair :: "row \<Rightarrow> (string \<times> string) option" where
  "row_pair r =
     (if tag r ''src_name'' \<noteq> [] \<and> tag r ''dst_name'' \<noteq> [] then Some (tag r ''src_name'', tag r ''dst_name'') else None)"

definition row_pair_port :: "row \<Rightarrow> (string \<times> string \<times> int) option" where
  "row_pair_port r =
     (case (row_pair r, field_int r ''port_batch_index'') of
        (Some (a, b), Some i) \<Rightarrow> Some (a, b, i) | _ \<Rightarrow> None)"

definition min_default :: "int list \<Rightarrow> int" where
  "min_default xs = (if xs = [] then 0 else Min (set xs))"

definition audit ::
  "int \<Rightarrow> int \<Rightarrow> int \<Rightarrow> int \<Rightarrow> int \<Rightarrow> int \<Rightarrow> row list \<Rightarrow> coverage_details" where
  "audit client_count destination_batches port_batches port_pool_size ports_per_cycle expected_cycles rows =
     (let cycled = cycle_rows rows;
          cycles = observed (\<lambda>r. field_int r ''probe_cycle'') cycled;
          destination_seen = observed (\<lambda>r. field_int r ''destination_batch_index'') rows;
          port_seen = observed (\<lambda>r. field_int r ''port_batch_index'') rows;
          sources = remdups (filter (\<lambda>s. s \<noteq> []) (map (\<lambda>r. tag r ''src_name'') cycled));
          pairs = List.map_filter row_pair cycled;
          triples = remdups (List.map_filter row_pair_port cycled);
          losses = regular_loss_by_socket_batch cycled;
          expected_pairs = client_count * max 0 (client_count - 1)
      in \<lparr>cd_expected_epoch_cycles = expected_cycles,
          cd_observed_cycle_span = span cycles,
          cd_min_source_cycle_span =
            min_default (map (\<lambda>s. span (observed (\<lambda>r. if tag r ''src_name'' = s then field_int r ''probe_cycle'' else None) cycled)) sources),
          cd_source_clients_observed = int (length sources), cd_expected_source_clients = client_count,
          cd_destination_pairs_observed = int (length (remdups pairs)), cd_expected_destination_pairs = expected_pairs,
          cd_pair_port_combinations_observed = int (length triples),
          cd_expected_pair_port_combinations = expected_pairs * port_batches,
          cd_missing_pair_port_combinations = max 0 (expected_pairs * port_batches - int (length triples)),
          cd_min_samples_per_pair = min_default (map (\<lambda>p. int (count_list pairs p)) (remdups pairs)),
          cd_port_batches_observed = port_seen, cd_destination_batches_observed = destination_seen,
          cd_missing_port_batches = filter (\<lambda>i. i \<notin> set port_seen) [0..port_batches - 1],
          cd_missing_destination_batches = filter (\<lambda>i. i \<notin> set destination_seen) [0..destination_batches - 1],
          cd_missing_source_clients = max 0 (client_count - int (length sources)),
          cd_invalid_socket_rows =
            int (length (filter (\<lambda>r. \<not> has_valid_socket_batch port_pool_size ports_per_cycle port_batches losses r) cycled))\<rparr>)"

definition audit_complete :: "coverage_details \<Rightarrow> bool" where
  "audit_complete d \<longleftrightarrow>
     cd_missing_destination_batches d = [] \<and> cd_missing_port_batches d = [] \<and> cd_missing_source_clients d = 0 \<and>
     cd_destination_pairs_observed d = cd_expected_destination_pairs d \<and>
     cd_pair_port_combinations_observed d = cd_expected_pair_port_combinations d \<and> cd_invalid_socket_rows d = 0"

definition summarize_coverage :: "string list \<Rightarrow> (string, json) dict \<Rightarrow> row list \<Rightarrow> coverage" where
  "summarize_coverage pingmesh_clients policy rows =
     (let client_count = int (length pingmesh_clients);
          missing = filter (\<lambda>k. k \<notin> fst ` set policy) required_policy_fields
      in if missing \<noteq> [] then
           coverage_error (''Pingmesh coverage policy is missing fields: '' @ str_join '', '' missing)
         else
          (let destination_count = max 0 (client_count - 1);
               batch = (if policy_int policy ''destination_batch_size'' = 0 then max 1 destination_count
                        else policy_int policy ''destination_batch_size'');
               port_pool_size = policy_int policy ''rtt_port_pool_size'';
               ports_per_cycle = policy_int policy ''rtt_ports_per_cycle'';
               destination_batches = max 1 (ceil_div destination_count batch);
               port_batches = max 1 (ceil_div port_pool_size ports_per_cycle);
               expected_cycles = policy_int policy ''coverage_epoch_cycles''
           in if expected_cycles \<noteq> destination_batches * port_batches then
                coverage_error ''Pingmesh coverage policy is missing or stale; regenerate the topology''
              else
               (let d = audit client_count destination_batches port_batches port_pool_size ports_per_cycle expected_cycles rows
                in \<lparr>cv_status = ''ok'', cv_coverage_status = (if audit_complete d then ''complete'' else ''incomplete''),
                    cv_error = None, cv_details = Some d\<rparr>)))"

text \<open>The policy a detector reads: the \<open>pingmesh\<close> object of the projected manifest.\<close>

definition manifest_policy :: "manifest \<Rightarrow> (string, json) dict" where
  "manifest_policy m = (case dict_get (to_agent_topology m) ''pingmesh'' of Some (JObj kvs) \<Rightarrow> kvs | _ \<Rightarrow> [])"

section \<open>The audit agrees with the policy\<close>

lemma manifest_policy_fields:
  "fst ` set (manifest_policy m) \<supseteq> set required_policy_fields"
  "policy_int (manifest_policy m) ''rtt_port_pool_size'' = pol_rtt_port_pool_size (mf_pingmesh m)"
  "policy_int (manifest_policy m) ''rtt_ports_per_cycle'' = pol_rtt_ports_per_cycle (mf_pingmesh m)"
  "policy_int (manifest_policy m) ''coverage_epoch_cycles'' =
     coverage_epoch_cycles (mf_pingmesh m) (tf_total_clients (mf_facts m))"
  "policy_int (manifest_policy m) ''destination_batch_size'' =
     (case pol_destination_batch_size (mf_pingmesh m) of Some n \<Rightarrow> n | None \<Rightarrow> 0)"
  by (simp_all add: manifest_policy_def to_agent_topology_def policy_dump_def policy_int_def required_policy_fields_def
      jint_opt_def split: option.split)

text \<open>For a manifest whose facts count its clients, the policy is never found stale.\<close>

lemma manifest_policy_current:
  assumes "tf_total_clients (mf_facts m) = int (length cs)"
  shows "summarize_coverage cs (manifest_policy m) rows =
    (let d = audit (int (length cs)) (destination_batch_count (mf_pingmesh m) (int (length cs)))
               (port_batch_count (mf_pingmesh m)) (pol_rtt_port_pool_size (mf_pingmesh m))
               (pol_rtt_ports_per_cycle (mf_pingmesh m)) (coverage_epoch_cycles (mf_pingmesh m) (int (length cs))) rows
     in \<lparr>cv_status = ''ok'', cv_coverage_status = (if audit_complete d then ''complete'' else ''incomplete''),
         cv_error = None, cv_details = Some d\<rparr>)"
proof -
  have none: "filter (\<lambda>k. k \<notin> fst ` set (manifest_policy m)) required_policy_fields = []"
    using manifest_policy_fields(1) [of m] by (auto simp: filter_empty_conv)
  have b: "(if policy_int (manifest_policy m) ''destination_batch_size'' = 0 then max 1 (max 0 (int (length cs) - 1))
      else policy_int (manifest_policy m) ''destination_batch_size'') = batch_size (mf_pingmesh m) (int (length cs))"
    by (simp add: manifest_policy_fields batch_size_def destinations_def split: option.split)
  show ?thesis
    unfolding summarize_coverage_def Let_def none b unfolding manifest_policy_fields assms
    by (simp add: destination_batch_count_def port_batch_count_def coverage_epoch_cycles_def destinations_def)
qed

section \<open>A complete audit leaves no gap\<close>

lemma valid_batch_index:
  "has_valid_socket_batch pool per batches losses r \<Longrightarrow>
     \<exists>i. field_int r ''port_batch_index'' = Some i \<and> 0 \<le> i \<and> i < batches"
  by (auto simp: has_valid_socket_batch_def split: option.splits)

lemma row_pair_port_Some:
  "row_pair_port r = Some (a, b, i) \<longleftrightarrow>
     tag r ''src_name'' = a \<and> tag r ''dst_name'' = b \<and> a \<noteq> [] \<and> b \<noteq> [] \<and> field_int r ''port_batch_index'' = Some i"
  by (auto simp: row_pair_port_def row_pair_def split: option.splits if_splits)

text \<open>Counting: as many probed combinations as exist means that all of them were probed.\<close>

definition probe_pairs :: "string list \<Rightarrow> (string \<times> string) set" where
  "probe_pairs cs = {(a, b). a \<in> set cs \<and> b \<in> set cs \<and> a \<noteq> b}"

lemma card_probe_pairs:
  assumes "distinct cs"
  shows "finite (probe_pairs cs)" "int (card (probe_pairs cs)) = int (length cs) * max 0 (int (length cs) - 1)"
proof -
  have e: "probe_pairs cs = set cs \<times> set cs - (\<lambda>a. (a, a)) ` set cs" by (auto simp: probe_pairs_def)
  then show "finite (probe_pairs cs)" by simp
  have "card (probe_pairs cs) = card (set cs \<times> set cs) - card ((\<lambda>a. (a, a)) ` set cs)"
    unfolding e by (rule card_Diff_subset) auto
  also have "\<dots> = length cs * length cs - length cs"
    using assms by (simp add: card_cartesian_product distinct_card card_image inj_on_def)
  finally show "int (card (probe_pairs cs)) = int (length cs) * max 0 (int (length cs) - 1)"
    by (cases cs) (simp_all add: algebra_simps of_nat_diff)
qed

lemma audit_complete_covers:
  assumes "audit_complete (audit (int (length cs)) dbs pbs pool per cycles rows)" "distinct cs" "0 \<le> pbs"
    and "\<And>r. r \<in> set (cycle_rows rows) \<Longrightarrow> tag r ''src_name'' \<noteq> [] \<Longrightarrow> tag r ''dst_name'' \<noteq> [] \<Longrightarrow>
      (tag r ''src_name'', tag r ''dst_name'') \<in> probe_pairs cs"
    and "(a, b) \<in> probe_pairs cs" "0 \<le> k" "k < pbs"
  shows "\<exists>r \<in> set (cycle_rows rows). tag r ''src_name'' = a \<and> tag r ''dst_name'' = b \<and>
    field_int r ''port_batch_index'' = Some k \<and>
    has_valid_socket_batch pool per pbs (regular_loss_by_socket_batch (cycle_rows rows)) r"
proof -
  let ?rows = "cycle_rows rows" and ?losses = "regular_loss_by_socket_batch (cycle_rows rows)"
  let ?T = "set (List.map_filter row_pair_port ?rows)"
  let ?all = "{(a, b, i). (a, b) \<in> probe_pairs cs \<and> i \<in> {0..<pbs}}"
  have c: "int (length (remdups (List.map_filter row_pair_port ?rows))) = int (length cs) * max 0 (int (length cs) - 1) * pbs"
    "filter (\<lambda>r. \<not> has_valid_socket_batch pool per pbs ?losses r) ?rows = []"
    using assms(1) by (simp_all add: audit_complete_def audit_def Let_def)
  have valid: "has_valid_socket_batch pool per pbs ?losses r" if "r \<in> set ?rows" for r
    using c(2) that by (simp add: filter_empty_conv)
  have T: "?T = {t. \<exists>r \<in> set ?rows. row_pair_port r = Some t}"
    by (force simp: List.map_filter_def)
  have sub: "?T \<subseteq> ?all"
  proof
    fix t assume "t \<in> ?T"
    then obtain r a' b' i where r: "r \<in> set ?rows" "t = (a', b', i)" "row_pair_port r = Some (a', b', i)"
      unfolding T by (cases t) auto
    then have i: "0 \<le> i" "i < pbs" using valid_batch_index [OF valid [OF r(1)]] by (auto simp: row_pair_port_Some)
    have "(a', b') \<in> probe_pairs cs" using assms(4) [OF r(1)] r(3) by (auto simp: row_pair_port_Some)
    then show "t \<in> ?all" using r(2) i by simp
  qed
  have all: "?all = (\<lambda>((a, b), i). (a, b, i)) ` (probe_pairs cs \<times> {0..<pbs})" by force
  have "inj_on (\<lambda>((a, b), i). (a, b, i)) (probe_pairs cs \<times> {0..<pbs})" by (auto simp: inj_on_def)
  then have card_all: "finite ?all" "int (card ?all) = int (length cs) * max 0 (int (length cs) - 1) * pbs"
    unfolding all using card_probe_pairs [OF assms(2)] assms(3)
    by (simp_all add: card_image card_cartesian_product)
  have "int (card ?T) = int (card ?all)" using c(1) card_all(2) by (simp add: length_remdups_card_conv)
  then have "?T = ?all" using card_subset_eq [OF card_all(1) sub] by simp
  then have "(a, b, k) \<in> ?T" using assms(5-7) by simp
  then obtain r where "r \<in> set ?rows" "row_pair_port r = Some (a, b, k)" unfolding T by blast
  then show ?thesis using valid by (auto simp: row_pair_port_Some)
qed

section \<open>Property\<close>


definition example_device :: "string \<Rightarrow> device_role \<Rightarrow> string option \<Rightarrow> device" where
  "example_device name role switch =
     \<lparr>dev_name = name, dev_role = role, dev_mgmt_ip = None, dev_data_ip = None, dev_attached_switch = switch,
      dev_asn = None, dev_router_id = None, dev_metadata = []\<rparr>"

definition example_manifest :: manifest where
  "example_manifest =
     \<lparr>mf_topology_id = ''t1'', mf_name = ''t1'', mf_scale = ''xs'', mf_family = ''clos'',
      mf_management = \<lparr>mgmt_network = ''mgmt'', mgmt_ipv4_subnet = ''172.20.20.0/24''\<rparr>, mf_collector = ''172.20.20.9'',
      mf_link_mtu = 9232, mf_sonic_port_mtu = 9100,
      mf_facts = \<lparr>tf_num_spines = 0, tf_num_leafs = 1, tf_num_cores = 0, tf_num_aggs = 0, tf_num_edges = 0, tf_num_pods = 0,
        tf_clients_per_attached_switch = 2, tf_total_clients = 2, tf_total_switches = 1, tf_fat_tree_k = None,
        tf_full_density = None, tf_host_density = None\<rparr>,
      mf_devices = [example_device ''leaf1'' LEAF None, example_device ''client1'' CLIENT (Some ''leaf1''),
        example_device ''client2'' CLIENT (Some ''leaf1'')],
      mf_links = [],
      mf_routing = \<lparr>rt_spine_asn = None, rt_leaf_asn_range = None, rt_core_asn_range = None, rt_agg_asn_range = None,
        rt_edge_asn_range = None, rt_ecmp_policy = [(LEAF, 1)], rt_ecmp = True, rt_bfd = True\<rparr>,
      mf_pingmesh = \<lparr>pol_destination_batch_size = None, pol_rtt_port_pool_size = 4, pol_rtt_ports_per_cycle = 4,
        pol_cycle_interval_seconds = 1, pol_df_payload_size = 9072\<rparr>\<rparr>"

definition example_row :: "string \<Rightarrow> string \<Rightarrow> row" where
  "example_row a b =
     \<lparr>rw_tags = [(''src_name'', a), (''dst_name'', b)],
      rw_fields = [(''probe_cycle'', 7), (''destination_batch_index'', 0), (''port_batch_index'', 0),
        (''rtt_ports_total'', 4), (''rtt_ports_active'', 4), (''local_probe_errors'', 0), (''packets_sent'', 4),
        (''packets_lost'', 0)]\<rparr>"

definition example_rows :: "row list" where
  "example_rows = [example_row ''client1'' ''client2'', example_row ''client2'' ''client1'']"


end
