(* ===== verification/Pingmesh_Analysis.thy ===== *)
theory Pingmesh_Analysis
  imports Pingmesh_Coverage "HOL-Library.Product_Lexorder"
begin

text \<open>
  \<open>netopsbench/platform/pingmesh/_detector_analysis.py\<close> and the report of \<open>detector.py\<close>: what the
  detector calls an anomaly, given the rows of a baseline and of a current window.  Percentages and
  round-trip times are exact rationals.
\<close>

section \<open>Grouping\<close>

definition as_float :: "row \<Rightarrow> string \<Rightarrow> rat" where
  "as_float r k = (case field r k of Some x \<Rightarrow> x | None \<Rightarrow> 0)"

definition time_of :: "row \<Rightarrow> string" where
  "time_of r = or_text (tag r ''_time'') (tag r ''time'')"

definition add_row :: "(row \<Rightarrow> 'k) \<Rightarrow> row \<Rightarrow> ('k, row list) dict \<Rightarrow> ('k, row list) dict" where
  "add_row key r groups = dict_set groups (key r) (dict_get_default groups (key r) [] @ [r])"

definition group_rows :: "(row \<Rightarrow> 'k) \<Rightarrow> row list \<Rightarrow> ('k, row list) dict" where
  "group_rows key rows = map (\<lambda>(k, points). (k, sort_key time_of points)) (fold (add_row key) rows [])"

type_synonym path = "string \<times> string"

definition path_key :: "row \<Rightarrow> path" where
  "path_key r = (tag r ''src_ip'', tag r ''dst_ip'')"

definition group_by_path :: "row list \<Rightarrow> (path, row list) dict" where
  "group_by_path = group_rows path_key"

text \<open>The port batch stands for the text \<open>str\<close> makes of it.\<close>

definition port_batch_key :: "row \<Rightarrow> path \<times> rat option" where
  "port_batch_key r = (path_key r, field r ''port_batch_index'')"

definition group_by_path_port_batch :: "row list \<Rightarrow> (path \<times> rat option, row list) dict" where
  "group_by_path_port_batch = group_rows port_batch_key"

section \<open>Statistics\<close>

record loss_stats =
  ls_loss_pct :: rat
  ls_sent :: rat
  ls_lost :: rat
  ls_samples :: int
  ls_mtu_drops :: rat

definition loss_stats_of :: "string \<Rightarrow> row list \<Rightarrow> loss_stats option" where
  "loss_stats_of prefix rows =
     (let counted = filter (\<lambda>r. 0 < as_float r (prefix @ ''packets_sent'')) rows;
          sent = sum_list (map (\<lambda>r. as_float r (prefix @ ''packets_sent'')) counted);
          lost = sum_list (map (\<lambda>r. as_float r (prefix @ ''packets_lost'')) counted)
      in if counted = [] then None
         else Some \<lparr>ls_loss_pct = lost / sent * 100, ls_sent = sent, ls_lost = lost, ls_samples = int (length counted),
                    ls_mtu_drops = (if prefix = [] then 0 else sum_list (map (\<lambda>r. as_float r ''df_mtu_drops'') rows))\<rparr>)"

text \<open>\<open>statistics.median\<close> of a non-empty list.\<close>

definition median :: "rat list \<Rightarrow> rat" where
  "median xs =
     (let s = sort xs; n = length s
      in if odd n then s ! (n div 2) else (s ! (n div 2 - 1) + s ! (n div 2)) / 2)"

section \<open>Anomalies\<close>

record anomaly =
  an_type :: string
  an_src_ip :: string
  an_src_name :: string
  an_dst_ip :: string
  an_dst_name :: string
  an_src_leaf :: string
  an_dst_leaf :: string
  an_value :: rat
  an_baseline :: rat
  an_threshold :: rat
  an_severity :: string
  an_timestamp :: string
  an_samples_sent :: int
  an_samples_lost :: int
  an_sample_count :: int
  an_windows_observed :: "string list"
  an_persistence :: "string option"

text \<open>\<open>dt_now\<close> is the text of the clock, used for a row without a time.\<close>

record detector =
  dt_clients :: "string list"
  dt_policy :: "(string, json) dict"
  dt_client_to_leaf :: "(string, string) dict"
  dt_loss_pct_threshold :: rat
  dt_loss_pct_delta :: rat
  dt_now :: string

definition min_latency_delta_ms :: rat where
  "min_latency_delta_ms = 20"

definition min_path_lost_probes :: rat where
  "min_path_lost_probes = 3"

definition min_confirmed_df_probes :: rat where
  "min_confirmed_df_probes = 16"

definition signal_severity :: "string \<Rightarrow> rat \<Rightarrow> rat \<Rightarrow> rat \<Rightarrow> string" where
  "signal_severity kind value baseline threshold =
     (let increase = max 0 (value - baseline)
      in if kind = ''latency_spike'' then
           if 50 \<le> increase then ''high'' else if 10 \<le> increase then ''medium'' else ''low''
         else if threshold = 0 then ''high''
         else if 2 < value / threshold then ''high''
         else if 3 / 2 < value / threshold then ''medium''
         else ''low'')"

definition new_anomaly ::
  "detector \<Rightarrow> string \<Rightarrow> row \<Rightarrow> rat \<Rightarrow> rat \<Rightarrow> rat \<Rightarrow> string option \<Rightarrow> int \<Rightarrow> int \<Rightarrow> int \<Rightarrow> anomaly" where
  "new_anomaly det kind r value baseline threshold severity sent lost samples =
     \<lparr>an_type = kind, an_src_ip = tag r ''src_ip'', an_src_name = tag r ''src_name'', an_dst_ip = tag r ''dst_ip'',
      an_dst_name = tag r ''dst_name'', an_src_leaf = tag r ''src_leaf'', an_dst_leaf = tag r ''dst_leaf'',
      an_value = value, an_baseline = baseline, an_threshold = threshold,
      an_severity = (case severity of Some s \<Rightarrow> s | None \<Rightarrow> signal_severity kind value baseline threshold),
      an_timestamp = or_text (time_of r) (dt_now det), an_samples_sent = sent, an_samples_lost = lost,
      an_sample_count = samples, an_windows_observed = [], an_persistence = None\<rparr>"

definition latency_of_path :: "detector \<Rightarrow> row list \<Rightarrow> row list \<Rightarrow> anomaly option" where
  "latency_of_path det baseline_points current_points =
     (let values = (\<lambda>points. filter (\<lambda>x. 0 < x) (map (\<lambda>r. as_float r ''rtt_avg'') points));
          baseline_values = values baseline_points; current_values = values current_points
      in if current_values = [] \<or> baseline_values = [] then None
         else
          (let baseline = median baseline_values; current = median current_values;
               threshold = baseline + min_latency_delta_ms
           in if current < threshold then None
              else Some (new_anomaly det ''latency_spike'' (hd current_points) current baseline threshold None 0 0
                     (int (length current_values)))))"

definition detect_latency_from_rows :: "detector \<Rightarrow> row list \<Rightarrow> row list \<Rightarrow> anomaly list" where
  "detect_latency_from_rows det baseline_rows current_rows =
     List.map_filter (\<lambda>(key, points). latency_of_path det (dict_get_default (group_by_path baseline_rows) key []) points)
       (group_by_path current_rows)"

text \<open>One path of the loss detector: an anomaly, or a missing baseline (\<open>Inr\<close>), or neither.\<close>

definition loss_of_path :: "detector \<Rightarrow> row list \<Rightarrow> row list \<Rightarrow> (anomaly + unit) option" where
  "loss_of_path det baseline_points current_points =
     (case loss_stats_of [] current_points of
        None \<Rightarrow> None
      | Some current \<Rightarrow>
          if ls_sent current \<le> 0 then None
          else (case loss_stats_of [] baseline_points of
              None \<Rightarrow> Some (Inr ())
            | Some baseline \<Rightarrow>
                (let threshold = max (dt_loss_pct_threshold det) (ls_loss_pct baseline + dt_loss_pct_delta det);
                     report = (\<lambda>kind value thr severity. Some (Inl
                       (new_anomaly det kind (hd current_points) value (ls_loss_pct baseline) thr severity
                         (py_int (ls_sent current)) (py_int (ls_lost current)) (ls_samples current))))
                 in if ls_sent current \<le> ls_lost current then report ''path_unreachable'' 100 100 (Some ''high'')
                    else if threshold \<le> ls_loss_pct current \<and> min_path_lost_probes \<le> ls_lost current then
                      report ''packet_loss'' (ls_loss_pct current) threshold None
                    else None)))"

definition detect_loss_from_rows :: "detector \<Rightarrow> row list \<Rightarrow> row list \<Rightarrow> anomaly list \<times> int" where
  "detect_loss_from_rows det baseline_rows current_rows =
     (let found = List.map_filter
            (\<lambda>(key, points). loss_of_path det (dict_get_default (group_by_path baseline_rows) key []) points)
            (group_by_path current_rows)
      in (List.map_filter (\<lambda>x. case x of Inl a \<Rightarrow> Some a | Inr _ \<Rightarrow> None) found,
          int (length (filter (\<lambda>x. \<not> isl x) found))))"

definition df_of_batch :: "detector \<Rightarrow> row list \<Rightarrow> row list \<Rightarrow> anomaly option" where
  "df_of_batch det baseline_points current_points =
     (case (loss_stats_of ''df_'' baseline_points, loss_stats_of ''df_'' current_points,
            loss_stats_of [] baseline_points, loss_stats_of [] current_points) of
        (Some baseline_df, Some current_df, Some baseline_rtt, Some current_rtt) \<Rightarrow>
          (let rtt_threshold = max (dt_loss_pct_threshold det) (ls_loss_pct baseline_rtt + dt_loss_pct_delta det);
               rtt_healthy = (0 < ls_sent current_rtt \<and> ls_loss_pct current_rtt < rtt_threshold \<and> ls_lost current_rtt = 0);
               df_loss_signal = (min_confirmed_df_probes \<le> ls_sent current_df \<and> ls_sent current_df \<le> ls_lost current_df \<and>
                 15 \<le> ls_loss_pct current_df - ls_loss_pct baseline_df)
           in if \<not> rtt_healthy \<or> \<not> df_loss_signal \<or> 0 < ls_mtu_drops current_df then None
              else Some (new_anomaly det ''mtu_or_fragmentation_suspect'' (hd current_points) (ls_loss_pct current_df)
                     (ls_loss_pct baseline_df) (max 20 (ls_loss_pct baseline_df + 15)) (Some ''high'')
                     (py_int (ls_sent current_df)) (py_int (ls_lost current_df)) (ls_samples current_df)))
      | _ \<Rightarrow> None)"

definition detect_df_from_rows :: "detector \<Rightarrow> row list \<Rightarrow> row list \<Rightarrow> anomaly list" where
  "detect_df_from_rows det baseline_rows current_rows =
     map snd (fold (\<lambda>((path, batch), points) found.
         case df_of_batch det (dict_get_default (group_by_path_port_batch baseline_rows) (path, batch) []) points of
           None \<Rightarrow> found | Some a \<Rightarrow> dict_set found path a)
       (group_by_path_port_batch current_rows) [])"

section \<open>One snapshot\<close>

record quality =
  ql_baseline_paths_observed :: int
  ql_current_paths_observed :: int
  ql_not_observed_paths :: int
  ql_insufficient_baseline_paths :: int
  ql_absolute_unreachable_paths :: int
  ql_absolute_packet_loss_paths :: int
  ql_absolute_network_mtu_paths :: int
  ql_local_df_mtu_drops :: int
  ql_local_probe_errors :: int

definition unreachable_points :: "row list \<Rightarrow> bool" where
  "unreachable_points points \<longleftrightarrow>
     (case loss_stats_of [] points of Some s \<Rightarrow> 0 < ls_sent s \<and> ls_sent s \<le> ls_lost s | None \<Rightarrow> False)"

definition lossy_points :: "detector \<Rightarrow> row list \<Rightarrow> bool" where
  "lossy_points det points \<longleftrightarrow>
     (case loss_stats_of [] points of
        Some s \<Rightarrow> \<not> (0 < ls_sent s \<and> ls_sent s \<le> ls_lost s) \<and> dt_loss_pct_threshold det \<le> ls_loss_pct s \<and>
          min_path_lost_probes \<le> ls_lost s
      | None \<Rightarrow> False)"

definition mtu_points :: "row list \<Rightarrow> bool" where
  "mtu_points points \<longleftrightarrow>
     (case (loss_stats_of [] points, loss_stats_of ''df_'' points) of
        (Some regular, Some df) \<Rightarrow>
          0 < ls_sent regular \<and> ls_lost regular = 0 \<and> min_confirmed_df_probes \<le> ls_sent df \<and>
          ls_sent df \<le> ls_lost df \<and> ls_mtu_drops df = 0
      | _ \<Rightarrow> False)"

definition anomaly_order :: "anomaly \<Rightarrow> string \<times> string \<times> string" where
  "anomaly_order a = (an_type a, an_src_ip a, an_dst_ip a)"

definition analyze_snapshot_rows :: "detector \<Rightarrow> row list \<Rightarrow> row list \<Rightarrow> anomaly list \<times> quality" where
  "analyze_snapshot_rows det baseline_rows current_rows =
     (let loss = detect_loss_from_rows det baseline_rows current_rows;
          anomalies = detect_latency_from_rows det baseline_rows current_rows @ fst loss
                      @ detect_df_from_rows det baseline_rows current_rows;
          baseline_paths = group_by_path baseline_rows;
          current_paths = group_by_path current_rows;
          count_paths = (\<lambda>P. int (length (filter (\<lambda>(key, points). P points) current_paths)));
          mtu_paths = remdups (map (\<lambda>((path, batch), points). path)
            (filter (\<lambda>(key, points). mtu_points points) (group_by_path_port_batch current_rows)));
          losses = regular_loss_by_socket_batch current_rows;
          unexplained = filter (\<lambda>r. \<not> is_explained_df_send_error losses r) current_rows
      in (sort_key anomaly_order anomalies,
          \<lparr>ql_baseline_paths_observed = int (length baseline_paths), ql_current_paths_observed = int (length current_paths),
           ql_not_observed_paths = int (length (filter (\<lambda>(key, points). key \<notin> fst ` set current_paths) baseline_paths)),
           ql_insufficient_baseline_paths = snd loss, ql_absolute_unreachable_paths = count_paths unreachable_points,
           ql_absolute_packet_loss_paths = count_paths (lossy_points det),
           ql_absolute_network_mtu_paths = int (length mtu_paths),
           ql_local_df_mtu_drops = py_int (sum_list (map (\<lambda>r. as_float r ''df_mtu_drops'') unexplained)),
           ql_local_probe_errors = py_int (sum_list (map (\<lambda>r. as_float r ''local_probe_errors'') unexplained))\<rparr>))"

end
