(* ===== verification/Traffic_Estimator.thy ===== *)
theory Traffic_Estimator
  imports Topology_Model
begin

text \<open>
  \<open>netopsbench/platform/traffic/estimator.py\<close>: the packet rates a set of traffic flows puts on
  clients and switches.  A topology is the projection of a manifest (\<open>to_agent_topology\<close>), a
  JSON object; rates are exact rationals.
\<close>

section \<open>Reading the projected topology\<close>

type_synonym entry = "(string, json) dict"

text \<open>\<open>entry.get(key)\<close>: a missing key and \<open>null\<close> are both Python's \<open>None\<close>.\<close>

definition py_get :: "entry \<Rightarrow> string \<Rightarrow> json option" where
  "py_get e k = (case dict_get e k of Some JNull \<Rightarrow> None | x \<Rightarrow> x)"

fun json_true :: "json \<Rightarrow> bool" where
  "json_true JNull = False"
| "json_true (JBool b) = b"
| "json_true (JInt i) = (i \<noteq> 0)"
| "json_true (JFloat t) = (t \<notin> {''0.0'', ''-0.0''})"
| "json_true (JStr s) = (s \<noteq> [])"
| "json_true (JList xs) = (xs \<noteq> [])"
| "json_true (JObj kvs) = (kvs \<noteq> [])"

definition truthy :: "json option \<Rightarrow> bool" where
  "truthy v = (case v of None \<Rightarrow> False | Some x \<Rightarrow> json_true x)"

text \<open>\<open>a or b or c\<close>: the first true value, else the last one.\<close>

fun first_true :: "json option list \<Rightarrow> json option" where
  "first_true [] = None"
| "first_true [v] = v"
| "first_true (v # w # vs) = (if truthy v then v else first_true (w # vs))"

definition as_object :: "json option \<Rightarrow> entry" where
  "as_object v = (case v of Some (JObj kvs) \<Rightarrow> kvs | _ \<Rightarrow> [])"

definition as_list :: "json option \<Rightarrow> json list" where
  "as_list v = (case v of Some (JList xs) \<Rightarrow> xs | _ \<Rightarrow> [])"

text \<open>\<open>topology.get("devices", {}).get(group, [])\<close>.\<close>

definition device_group :: "entry \<Rightarrow> string \<Rightarrow> entry list" where
  "device_group topology key =
     map (\<lambda>v. as_object (Some v)) (as_list (dict_get (as_object (dict_get topology ''devices'')) key))"

text \<open>\<open>device["name"]\<close>, which the projection always writes.\<close>

definition entry_name :: "entry \<Rightarrow> string" where
  "entry_name e = (case dict_get e ''name'' of Some (JStr s) \<Rightarrow> s | _ \<Rightarrow> [])"

definition attached_switch :: "entry \<Rightarrow> json option" where
  "attached_switch e = first_true [py_get e ''leaf'', py_get e ''edge'', py_get e ''attached_switch'']"

definition roles :: "string list" where
  "roles = [''spine'', ''leaf'', ''core'', ''agg'', ''edge'']"

definition role_members :: "entry \<Rightarrow> string \<Rightarrow> string list" where
  "role_members topology role = map entry_name (device_group topology (role @ ''s''))"

definition device_pods :: "entry \<Rightarrow> string \<Rightarrow> json option" where
  "device_pods topology name =
     (case find (\<lambda>e. entry_name e = name) (rev (device_group topology ''aggs'' @ device_group topology ''edges'')) of
        Some e \<Rightarrow> py_get e ''pod'' | None \<Rightarrow> None)"

text \<open>The link MTU: the first positive integer among the candidates, then of the clients.\<close>

definition positive_int :: "json option \<Rightarrow> int option" where
  "positive_int v = (case v of Some (JInt i) \<Rightarrow> if 0 < i then Some i else None
                             | Some (JBool True) \<Rightarrow> Some 1 | _ \<Rightarrow> None)"

definition infer_topology_link_mtu :: "entry \<Rightarrow> int \<Rightarrow> int" where
  "infer_topology_link_mtu topology dflt =
     (let candidates = [py_get (as_object (dict_get topology ''defaults'')) ''link_mtu'',
                        py_get (as_object (dict_get topology ''fabric'')) ''link_mtu'',
                        py_get (as_object (dict_get topology ''routing'')) ''link_mtu'',
                        py_get topology ''link_mtu'']
                       @ map (\<lambda>c. py_get c ''mtu'') (device_group topology ''clients'')
      in case find (\<lambda>v. positive_int v \<noteq> None) candidates of
           Some v \<Rightarrow> the (positive_int v)
         | None \<Rightarrow> dflt)"

section \<open>Flows\<close>

record traffic_flow =
  fl_id :: int
  fl_src :: string
  fl_src_ip :: json
  fl_dst :: string
  fl_dst_ip :: json
  fl_dst_port :: int
  fl_protocol :: string
  fl_bandwidth :: string
  fl_udp_payload_len :: "int option"
  fl_tcp_mss :: "int option"

definition udp_ip_overhead_bytes :: rat where
  "udp_ip_overhead_bytes = 28"

definition tcp_ip_overhead_bytes :: rat where
  "tcp_ip_overhead_bytes = 40"

definition min_tcp_payload_bytes :: rat where
  "min_tcp_payload_bytes = 536"

text \<open>
  \<open>float(s)\<close> on decimal numerals: an optional sign, digits, and optionally a point and more
  digits.  Exponents, \<open>inf\<close> and \<open>nan\<close>, which no bandwidth of the program uses, are rejected here.
\<close>

definition parse_decimal :: "string \<Rightarrow> rat result" where
  "parse_decimal s =
     (let fields = str_split (CHR ''.'') s;
          whole = hd fields; fraction = concat (tl fields)
      in if length fields \<le> 2 \<and> whole @ fraction \<noteq> [] \<and> list_all is_digit (whole @ fraction) then
           Inr (of_nat (digits_val (whole @ fraction)) / 10 ^ length fraction)
         else Inl (ValueError (''could not convert string to float: '' @ py_repr s)))"

definition parse_float :: "string \<Rightarrow> rat result" where
  "parse_float text =
     (case str_strip text of
        c # s \<Rightarrow> if c = CHR ''-'' then bindE (parse_decimal s) (\<lambda>x. Inr (- x))
                 else if c = CHR ''+'' then parse_decimal s else parse_decimal (c # s)
      | [] \<Rightarrow> Inl (ValueError (''could not convert string to float: '' @ py_repr text)))"

definition bandwidth_to_bps :: "string \<Rightarrow> rat result" where
  "bandwidth_to_bps bandwidth =
     (if bandwidth = [] then Inr 0
      else
       (let value = str_upper (str_strip bandwidth);
            scaled = (\<lambda>factor. bindE (parse_float (butlast value)) (\<lambda>x. Inr (x * factor)))
        in if value \<noteq> [] \<and> last value = CHR ''K'' then scaled 1000
           else if value \<noteq> [] \<and> last value = CHR ''M'' then scaled 1000000
           else if value \<noteq> [] \<and> last value = CHR ''G'' then scaled 1000000000
           else parse_float value))"

definition get_int :: "int option \<Rightarrow> int \<Rightarrow> rat" where
  "get_int v dflt = of_int (case v of Some i \<Rightarrow> i | None \<Rightarrow> dflt)"

definition estimate_packet_size_bytes :: "int \<Rightarrow> int \<Rightarrow> traffic_flow \<Rightarrow> rat" where
  "estimate_packet_size_bytes udp_payload_len tcp_mss f =
     (if fl_protocol f = ''udp'' then
        max (get_int (fl_udp_payload_len f) udp_payload_len) 64 + udp_ip_overhead_bytes
      else if fl_protocol f = ''tcp'' then
        max (get_int (fl_tcp_mss f) tcp_mss) min_tcp_payload_bytes + tcp_ip_overhead_bytes
      else 0)"

definition estimate_flow_pps :: "int \<Rightarrow> int \<Rightarrow> traffic_flow \<Rightarrow> rat result" where
  "estimate_flow_pps udp_payload_len tcp_mss f =
     (if fl_protocol f \<notin> {''udp'', ''tcp''} then Inr 0
      else
        bindE (bandwidth_to_bps (fl_bandwidth f)) (\<lambda>bps.
          let size = estimate_packet_size_bytes udp_payload_len tcp_mss f
          in Inr (if bps \<le> 0 \<or> size \<le> 0 then 0 else bps / (size * 8))))"

section \<open>The load of one path\<close>

type_synonym load = "(string, rat) dict"

definition add_pps :: "rat \<Rightarrow> string \<Rightarrow> load \<Rightarrow> load" where
  "add_pps x name additions = dict_set additions name (dict_get_default additions name 0 + x)"

definition named_in :: "json option \<Rightarrow> string list \<Rightarrow> bool" where
  "named_in v names = (case v of Some (JStr s) \<Rightarrow> s \<in> set names | _ \<Rightarrow> False)"

definition add_endpoint :: "(string \<Rightarrow> string list) \<Rightarrow> rat \<Rightarrow> json option \<Rightarrow> load \<Rightarrow> load" where
  "add_endpoint members x v additions =
     (case v of
        Some (JStr s) \<Rightarrow> if s \<in> set (members ''leaf'') \<or> s \<in> set (members ''edge'') then add_pps x s additions else additions
      | _ \<Rightarrow> additions)"

text \<open>A rate shared equally by a group of switches (\<open>pps / len(group)\<close> each).\<close>

definition share :: "rat \<Rightarrow> string list \<Rightarrow> load \<Rightarrow> load" where
  "share x names additions = fold (add_pps (x / of_nat (length names))) names additions"

text \<open>\<open>pods.get(switch)\<close>; only a string is a key.\<close>

definition pod_of :: "(string \<Rightarrow> json option) \<Rightarrow> json option \<Rightarrow> json option" where
  "pod_of pods v = (case v of Some (JStr s) \<Rightarrow> pods s | _ \<Rightarrow> None)"

definition transit_pods :: "json option \<Rightarrow> json option \<Rightarrow> json option list" where
  "transit_pods src_pod dst_pod =
     filter (\<lambda>p. p \<noteq> None) (if src_pod = dst_pod then [src_pod] else [src_pod, dst_pod])"

definition pod_aggs :: "(string \<Rightarrow> string list) \<Rightarrow> (string \<Rightarrow> json option) \<Rightarrow> json option \<Rightarrow> string list" where
  "pod_aggs members pods pod = filter (\<lambda>name. pods name = pod) (members ''agg'')"

definition switch_path_pps ::
  "(string \<Rightarrow> string list) \<Rightarrow> (string \<Rightarrow> json option) \<Rightarrow> json option \<Rightarrow> json option \<Rightarrow> rat \<Rightarrow> load" where
  "switch_path_pps members pods src_switch dst_switch x =
     (let additions = add_endpoint members x dst_switch (add_endpoint members x src_switch [])
      in if \<not> truthy src_switch \<or> \<not> truthy dst_switch \<or> src_switch = dst_switch then additions
         else if named_in src_switch (members ''leaf'') \<and> named_in dst_switch (members ''leaf'') then
           share x (members ''spine'') additions
         else
          (let src_pod = pod_of pods src_switch; dst_pod = pod_of pods dst_switch;
               transit = fold (\<lambda>pod. share x (pod_aggs members pods pod)) (transit_pods src_pod dst_pod) additions
           in if src_pod \<noteq> dst_pod then share x (members ''core'') transit else transit))"

text \<open>\<open>switch_pps[name] += addition\<close> for every addition of a path.\<close>

definition add_load :: "load \<Rightarrow> (string \<Rightarrow> rat) \<Rightarrow> string \<Rightarrow> rat" where
  "add_load additions totals = fold (\<lambda>(name, x) t. t(name := t name + x)) additions totals"

section \<open>The load of all flows\<close>

text \<open>A loop over a state whose body may raise.\<close>

fun foldE :: "('a \<Rightarrow> 's \<Rightarrow> 's result) \<Rightarrow> 'a list \<Rightarrow> 's \<Rightarrow> 's result" where
  "foldE f [] s = Inr s"
| "foldE f (x # xs) s = bindE (f x s) (foldE f xs)"

definition maximum :: "rat list \<Rightarrow> rat" where
  "maximum xs = (case xs of [] \<Rightarrow> 0 | x # ys \<Rightarrow> fold max ys x)"

text \<open>
  The result of \<open>estimate_switch_pps\<close>: per role the rounded rates (\<open>"spines"\<close>, ...) and their
  maximum (\<open>"max_spine_pps"\<close>, ...), and the maximum over all switches.
\<close>

record switch_estimate =
  se_roles :: "(string \<times> (string \<times> rat) list) list"
  se_role_max :: "(string \<times> rat) list"
  se_max_switch_pps :: rat

definition switch_load_step ::
  "(traffic_flow \<Rightarrow> rat result) \<Rightarrow> entry \<Rightarrow> traffic_flow \<Rightarrow> (string \<Rightarrow> rat) \<Rightarrow> (string \<Rightarrow> rat) result" where
  "switch_load_step estimate topology f totals =
     bindE (estimate f) (\<lambda>x.
       if x \<le> 0 then Inr totals
       else
        (let switch_of = (\<lambda>name. case find (\<lambda>c. entry_name c = name) (rev (device_group topology ''clients'')) of
                                   Some c \<Rightarrow> attached_switch c | None \<Rightarrow> None)
         in Inr (add_load (switch_path_pps (role_members topology) (device_pods topology)
                   (switch_of (fl_src f)) (switch_of (fl_dst f)) x) totals)))"

definition estimate_switch_pps ::
  "(traffic_flow \<Rightarrow> rat result) \<Rightarrow> entry \<Rightarrow> traffic_flow list \<Rightarrow> switch_estimate result" where
  "estimate_switch_pps estimate topology flows =
     bindE (foldE (switch_load_step estimate topology) flows (\<lambda>_. 0)) (\<lambda>totals.
       let values = (\<lambda>role. map (\<lambda>name. (name, py_round 2 (totals name))) (role_members topology role))
       in Inr \<lparr>se_roles = map (\<lambda>role. (role @ ''s'', values role)) roles,
               se_role_max = map (\<lambda>role. (''max_'' @ role @ ''_pps'', py_round 2 (maximum (map snd (values role))))) roles,
               se_max_switch_pps = py_round 2 (maximum (map totals (concat (map (role_members topology) roles))))\<rparr>)"

definition add_client_pps :: "(traffic_flow \<Rightarrow> rat result) \<Rightarrow> traffic_flow \<Rightarrow> load \<Rightarrow> load result" where
  "add_client_pps estimate f d =
     (if fl_src f = [] then Inr d else bindE (estimate f) (\<lambda>x. Inr (add_pps x (fl_src f) d)))"

definition estimate_client_pps :: "(traffic_flow \<Rightarrow> rat result) \<Rightarrow> traffic_flow list \<Rightarrow> load result" where
  "estimate_client_pps estimate flows = foldE (add_client_pps estimate) flows []"

section \<open>Loads add up\<close>

lemma foldE_inv:
  assumes "foldE f xs s = Inr s'" "I s"
    and "\<And>x s s'. x \<in> set xs \<Longrightarrow> I s \<Longrightarrow> f x s = Inr s' \<Longrightarrow> I s'"
  shows "I s'"
  using assms by (induction xs arbitrary: s) (auto simp: bindE_Inr_conv)

lemma foldE_succeeds:
  assumes "I s" "\<And>x s. x \<in> set xs \<Longrightarrow> I s \<Longrightarrow> \<exists>s'. f x s = Inr s' \<and> I s'"
  shows "\<exists>s'. foldE f xs s = Inr s' \<and> I s'"
  using assms
proof (induction xs arbitrary: s)
  case (Cons x xs)
  obtain s1 where "f x s = Inr s1" "I s1" using Cons.prems by force
  then show ?case using Cons.IH [of s1] Cons.prems(2) by auto
qed simp

abbreviation load_at :: "load \<Rightarrow> string \<Rightarrow> rat" where
  "load_at additions name \<equiv> dict_get_default additions name 0"

lemma load_at_add_pps [simp]: "load_at (add_pps x n d) m = load_at d m + (if m = n then x else 0)"
  by (simp add: add_pps_def dict_get_default_def split: option.split)

lemma distinct_add_pps [simp]: "distinct (map fst (add_pps x n d)) = distinct (map fst d)"
  by (simp add: add_pps_def)

lemma distinct_share [simp]: "distinct (map fst d) \<Longrightarrow> distinct (map fst (share x ns d))"
proof -
  have "distinct (map fst d) \<Longrightarrow> distinct (map fst (fold (add_pps y) ns d))" for y
    by (induction ns arbitrary: d) auto
  then show "distinct (map fst d) \<Longrightarrow> distinct (map fst (share x ns d))" by (simp add: share_def)
qed

lemma distinct_shares [simp]: "distinct (map fst d) \<Longrightarrow> distinct (map fst (fold (\<lambda>pod. share x (g pod)) pods d))"
  by (induction pods arbitrary: d) auto

lemma distinct_add_endpoint [simp]: "distinct (map fst d) \<Longrightarrow> distinct (map fst (add_endpoint members x v d))"
  by (auto simp: add_endpoint_def split: option.split json.split)

lemma switch_path_distinct [simp]: "distinct (map fst (switch_path_pps members pods a b x))"
  by (simp add: switch_path_pps_def Let_def)

text \<open>A path of rate 0 adds nothing, and no path takes load away.\<close>

lemma load_at_share_nonneg: "0 \<le> x \<Longrightarrow> (\<And>m. 0 \<le> load_at d m) \<Longrightarrow> 0 \<le> load_at (share x ns d) n"
proof -
  have "0 \<le> y \<Longrightarrow> (\<And>m. 0 \<le> load_at d m) \<Longrightarrow> 0 \<le> load_at (fold (add_pps y) ns d) n" for y
    by (induction ns arbitrary: d) auto
  then show "0 \<le> x \<Longrightarrow> (\<And>m. 0 \<le> load_at d m) \<Longrightarrow> 0 \<le> load_at (share x ns d) n" by (simp add: share_def)
qed

lemma load_at_share_zero: "load_at (share 0 ns d) n = load_at d n"
  unfolding share_def by (induction ns arbitrary: d) auto

lemma load_at_shares_nonneg:
  "0 \<le> x \<Longrightarrow> (\<And>m. 0 \<le> load_at d m) \<Longrightarrow> 0 \<le> load_at (fold (\<lambda>pod. share x (g pod)) pods d) n"
  by (induction pods arbitrary: d) (auto intro: load_at_share_nonneg)

lemma load_at_shares_zero: "load_at (fold (\<lambda>pod. share 0 (g pod)) pods d) n = load_at d n"
  by (induction pods arbitrary: d) (auto simp: load_at_share_zero)

lemma load_at_Nil [simp]: "load_at [] n = 0"
  by (simp add: dict_get_default_def)

lemma load_at_endpoint:
  "0 \<le> x \<Longrightarrow> 0 \<le> load_at d n \<Longrightarrow> 0 \<le> load_at (add_endpoint members x v d) n"
  "load_at (add_endpoint members 0 v d) n = load_at d n"
  by (auto simp: add_endpoint_def split: option.split json.split)

lemma switch_path_nonneg: "0 \<le> x \<Longrightarrow> 0 \<le> load_at (switch_path_pps members pods a b x) n"
  by (auto simp: switch_path_pps_def Let_def intro!: load_at_share_nonneg load_at_shares_nonneg load_at_endpoint)

lemma switch_path_zero: "load_at (switch_path_pps members pods a b 0) n = 0"
  by (simp add: switch_path_pps_def Let_def load_at_share_zero load_at_shares_zero load_at_endpoint)

lemma load_at_mem: "distinct (map fst d) \<Longrightarrow> (n, x) \<in> set d \<Longrightarrow> load_at d n = x"
  by (simp add: dict_get_default_def)

lemma load_at_absent: "n \<notin> fst ` set d \<Longrightarrow> load_at d n = 0"
  by (simp add: dict_get_default_def map_of_eq_None_iff [THEN iffD2] split: option.split)

lemma add_load_at: "distinct (map fst d) \<Longrightarrow> add_load d t n = t n + load_at d n"
proof (induction d arbitrary: t)
  case (Cons p d)
  obtain m x where p: "p = (m, x)" by (cases p)
  have IH: "add_load d t' n = t' n + load_at d n" for t' using Cons by simp
  have "load_at (p # d) n = (if n = m then x else load_at d n)" by (simp add: p dict_get_default_def)
  moreover have "n = m \<Longrightarrow> load_at d n = 0" using Cons.prems p by (intro load_at_absent) auto
  moreover have "add_load (p # d) t n = add_load d (t(m := t m + x)) n" by (simp add: p add_load_def)
  ultimately show ?case using IH by simp
qed (simp add: add_load_def)

section \<open>Estimates\<close>

lemma estimate_flow_nonneg: "estimate_flow_pps u t f = Inr x \<Longrightarrow> 0 \<le> x"
  by (auto simp: estimate_flow_pps_def bindE_Inr_conv Let_def split: if_splits)

lemma maximum_le: "(\<And>x. x \<in> set xs \<Longrightarrow> x \<le> b) \<Longrightarrow> 0 \<le> b \<Longrightarrow> maximum xs \<le> b"
proof -
  have "(\<And>x. x \<in> set ys \<Longrightarrow> x \<le> b) \<Longrightarrow> y \<le> b \<Longrightarrow> fold max ys y \<le> b" for ys :: "rat list" and y
    by (induction ys arbitrary: y) auto
  then show "(\<And>x. x \<in> set xs \<Longrightarrow> x \<le> b) \<Longrightarrow> 0 \<le> b \<Longrightarrow> maximum xs \<le> b" by (auto simp: maximum_def split: list.split)
qed

lemma py_round_le_int: "x \<le> of_int i \<Longrightarrow> py_round n x \<le> of_int i"
proof -
  assume "x \<le> of_int i"
  then have "x * 10 ^ n \<le> of_int i * 10 ^ n" by (intro mult_right_mono) auto
  then have "x * 10 ^ n \<le> of_int (i * 10 ^ n)" by simp
  then have "round_half_even (x * 10 ^ n) \<le> i * 10 ^ n" by (rule round_half_even_le)
  then have "of_int (round_half_even (x * 10 ^ n)) \<le> (of_int (i * 10 ^ n) :: rat)" by (simp only: of_int_le_iff)
  then show ?thesis by (simp add: py_round_def divide_le_eq)
qed

end
