(* ===== verification/Traffic_Planner.thy ===== *)
theory Traffic_Planner
  imports Traffic_Estimator "HOL-Library.Product_Lexorder"
begin

text \<open>
  \<open>netopsbench/platform/traffic/planner.py\<close>: the greedy planner of the background traffic.  Its
  nested functions share the counters of \<open>generate_traffic_config_from_topology\<close>, which are the
  record \<open>planner_state\<close> here; a counter is a function whose keys are the names of the clients (or
  switches).  The functions the caller passes in are fields of \<open>planner\<close>.
\<close>

section \<open>Candidate flows\<close>

text \<open>The clients after the source, in cyclic order.\<close>

definition candidate_destinations :: "entry list \<Rightarrow> nat \<Rightarrow> (nat \<times> entry) list" where
  "candidate_destinations cs src_idx =
     map (\<lambda>offset. let dst_idx = (src_idx + offset) mod length cs in (dst_idx, cs ! dst_idx)) [1..<length cs]"

definition client_ip :: "entry \<Rightarrow> json option" where
  "client_ip c = first_true [py_get c ''data_ip'', py_get c ''ip'']"

definition build_candidate_flow ::
  "int \<Rightarrow> int \<Rightarrow> int \<Rightarrow> entry \<Rightarrow> entry \<Rightarrow> string \<Rightarrow> (string, string) dict \<Rightarrow> int \<Rightarrow> traffic_flow result" where
  "build_candidate_flow udp_payload_len tcp_mss flow_id src_client dst_client protocol bandwidths dst_port =
     (case (client_ip src_client, client_ip dst_client) of
        (Some src_ip, Some dst_ip) \<Rightarrow>
          if \<not> json_true src_ip \<or> \<not> json_true dst_ip then
            Inl (ValueError (''Missing client IP for flow '' @ entry_name src_client @ '' -> '' @ entry_name dst_client
              @ ''. Expected 'data_ip' or 'ip' in topology metadata.''))
          else
            (case dict_get bandwidths protocol of
               None \<Rightarrow> Inl (LookupKeyError protocol)
             | Some bandwidth \<Rightarrow>
                 Inr \<lparr>fl_id = flow_id, fl_src = entry_name src_client, fl_src_ip = src_ip,
                      fl_dst = entry_name dst_client, fl_dst_ip = dst_ip, fl_dst_port = dst_port,
                      fl_protocol = protocol, fl_bandwidth = bandwidth,
                      fl_udp_payload_len = (if protocol = ''udp'' then Some udp_payload_len else None),
                      fl_tcp_mss = (if protocol = ''udp'' then None else Some tcp_mss)\<rparr>)
      | _ \<Rightarrow> Inl (ValueError (''Missing client IP for flow '' @ entry_name src_client @ '' -> '' @ entry_name dst_client
              @ ''. Expected 'data_ip' or 'ip' in topology metadata.'')))"

section \<open>The state of the planner\<close>

record planner =
  pn_topology :: entry
  pn_flows_per_client :: int
  pn_max_pps_per_client :: int
  pn_bandwidths :: "(string, string) dict"
  pn_switch_pps_limit :: "int option"
  pn_port_base :: int
  pn_port_pool_size :: int
  pn_build :: "int \<Rightarrow> entry \<Rightarrow> entry \<Rightarrow> string \<Rightarrow> (string, string) dict \<Rightarrow> int \<Rightarrow> traffic_flow result"
  pn_estimate :: "traffic_flow \<Rightarrow> rat result"

record planner_state =
  st_flows :: "traffic_flow list"
  st_flow_id :: int
  st_switch_pps :: "string \<Rightarrow> rat"
  st_client_pps :: "string \<Rightarrow> rat"
  st_source_count :: "string \<Rightarrow> int"
  st_used_dsts :: "string \<Rightarrow> string set"
  st_incoming :: "string \<Rightarrow> int"
  st_cross :: int
  st_same :: int
  st_rejected :: "string \<Rightarrow> int"

definition initial_state :: planner_state where
  "initial_state =
     \<lparr>st_flows = [], st_flow_id = 0, st_switch_pps = (\<lambda>_. 0), st_client_pps = (\<lambda>_. 0), st_source_count = (\<lambda>_. 0),
      st_used_dsts = (\<lambda>_. {}), st_incoming = (\<lambda>_. 0), st_cross = 0, st_same = 0, st_rejected = (\<lambda>_. 0)\<rparr>"

definition topology_clients :: "planner \<Rightarrow> entry list" where
  "topology_clients P = device_group (pn_topology P) ''clients''"

text \<open>\<open>client_to_switch.get(name)\<close>: only attachments that are strings are kept.\<close>

definition is_string :: "json option \<Rightarrow> bool" where
  "is_string v = (case v of Some (JStr s) \<Rightarrow> True | _ \<Rightarrow> False)"

definition client_switch :: "planner \<Rightarrow> string \<Rightarrow> json option" where
  "client_switch P name =
     (case find (\<lambda>c. entry_name c = name \<and> is_string (attached_switch c)) (rev (topology_clients P)) of
        Some c \<Rightarrow> attached_switch c | None \<Rightarrow> None)"

definition flow_path :: "planner \<Rightarrow> string \<Rightarrow> string \<Rightarrow> rat \<Rightarrow> load" where
  "flow_path P src dst x =
     switch_path_pps (role_members (pn_topology P)) (device_pods (pn_topology P)) (client_switch P src) (client_switch P dst) x"

definition flow_type :: "planner \<Rightarrow> string \<Rightarrow> string \<Rightarrow> string" where
  "flow_type P src dst =
     (if truthy (client_switch P src) \<and> truthy (client_switch P dst) \<and> client_switch P src \<noteq> client_switch P dst
      then ''cross'' else ''intra'')"

section \<open>Admission\<close>

definition admission_error :: "planner \<Rightarrow> planner_state \<Rightarrow> traffic_flow \<Rightarrow> string option result" where
  "admission_error P st f =
     (if pn_flows_per_client P \<le> st_source_count st (fl_src f) then Inr (Some ''source_budget'')
      else if pn_flows_per_client P \<le> st_incoming st (fl_dst f) then Inr (Some ''destination_budget'')
      else
        bindE (pn_estimate P f) (\<lambda>x.
          if of_int (pn_max_pps_per_client P) < st_client_pps st (fl_src f) + x then Inr (Some ''pps_budget'')
          else
            (case pn_switch_pps_limit P of
               None \<Rightarrow> Inr None
             | Some limit \<Rightarrow>
                 if \<exists>(name, added) \<in> set (flow_path P (fl_src f) (fl_dst f) x). of_int limit < st_switch_pps st name + added
                 then Inr (Some ''pps_budget'') else Inr None)))"

definition admit_flow :: "planner \<Rightarrow> traffic_flow \<Rightarrow> planner_state \<Rightarrow> planner_state result" where
  "admit_flow P f st =
     bindE (pn_estimate P f) (\<lambda>x.
       let src = fl_src f; dst = fl_dst f; cross = (flow_type P src dst = ''cross'')
       in Inr (st\<lparr>st_client_pps := (st_client_pps st)(src := st_client_pps st src + x),
                 st_source_count := (st_source_count st)(src := st_source_count st src + 1),
                 st_used_dsts := (st_used_dsts st)(src := insert dst (st_used_dsts st src)),
                 st_incoming := (st_incoming st)(dst := st_incoming st dst + 1),
                 st_switch_pps := add_load (flow_path P src dst x) (st_switch_pps st),
                 st_cross := st_cross st + (if cross then 1 else 0), st_same := st_same st + (if cross then 0 else 1),
                 st_flows := st_flows st @ [f], st_flow_id := st_flow_id st + 1\<rparr>))"

definition reject :: "string \<Rightarrow> planner_state \<Rightarrow> planner_state" where
  "reject reason st = st\<lparr>st_rejected := (st_rejected st)(reason := st_rejected st reason + 1)\<rparr>"

section \<open>One source and one round\<close>

definition is_cross :: "entry \<Rightarrow> entry \<Rightarrow> bool" where
  "is_cross src dst \<longleftrightarrow>
     truthy (attached_switch src) \<and> truthy (attached_switch dst) \<and> attached_switch src \<noteq> attached_switch dst"

definition candidate_pool :: "planner \<Rightarrow> planner_state \<Rightarrow> nat \<Rightarrow> string \<Rightarrow> entry list" where
  "candidate_pool P st src_idx pool_type =
     (let src = topology_clients P ! src_idx
      in filter (\<lambda>dst. entry_name dst \<notin> st_used_dsts st (entry_name src) \<and> (pool_type = ''cross'') = is_cross src dst)
           (map snd (candidate_destinations (topology_clients P) src_idx)))"

text \<open>Least loaded destinations first, ties in cyclic order.\<close>

definition ordered_candidates :: "planner_state \<Rightarrow> entry list \<Rightarrow> entry list" where
  "ordered_candidates st pool =
     map snd (sort_key (\<lambda>(rank, c). (st_incoming st (entry_name c), rank)) (enumerate 0 pool))"

fun try_candidates ::
  "planner \<Rightarrow> entry \<Rightarrow> entry list \<Rightarrow> planner_state \<Rightarrow> (bool \<times> planner_state) result" where
  "try_candidates P src [] st = Inr (False, st)"
| "try_candidates P src (dst # dsts) st =
     (let slot = st_incoming st (entry_name dst)
      in if pn_port_pool_size P \<le> slot then try_candidates P src dsts (reject ''destination_budget'' st)
         else
           bindE (pn_build P (st_flow_id st) src dst
                   (if st_source_count st (entry_name src) mod 2 = 0 then ''udp'' else ''tcp'')
                   (pn_bandwidths P) (pn_port_base P + slot)) (\<lambda>f.
           bindE (admission_error P st f) (\<lambda>err.
             case err of
               Some reason \<Rightarrow> try_candidates P src dsts (reject reason st)
             | None \<Rightarrow> bindE (admit_flow P f st) (\<lambda>st'. Inr (True, st')))))"

definition try_add_from_pool ::
  "planner \<Rightarrow> nat \<Rightarrow> string \<Rightarrow> planner_state \<Rightarrow> (bool \<times> planner_state) result" where
  "try_add_from_pool P src_idx pool_type st =
     try_candidates P (topology_clients P ! src_idx) (ordered_candidates st (candidate_pool P st src_idx pool_type)) st"

definition preferred_pools :: "string list" where
  "preferred_pools = [''cross'', ''cross'', ''cross'', ''intra'']"

definition preferred_pool :: "nat \<Rightarrow> string" where
  "preferred_pool round_index = preferred_pools ! min round_index (length preferred_pools - 1)"

definition plan_source :: "planner \<Rightarrow> nat \<Rightarrow> nat \<Rightarrow> planner_state \<Rightarrow> planner_state result" where
  "plan_source P round_index src_idx st =
     (let preferred = preferred_pool round_index;
          fallback = (if preferred = ''cross'' then ''intra'' else ''cross'')
      in if pn_flows_per_client P \<le> st_source_count st (entry_name (topology_clients P ! src_idx)) then
           Inr (reject ''source_budget'' st)
         else
           bindE (try_add_from_pool P src_idx preferred st) (\<lambda>(added, st').
             if added then Inr st'
             else bindE (try_add_from_pool P src_idx fallback st') (\<lambda>(_, st''). Inr st'')))"

definition plan_round :: "planner \<Rightarrow> nat \<Rightarrow> planner_state \<Rightarrow> planner_state result" where
  "plan_round P round_index = foldE (plan_source P round_index) [0..<length (topology_clients P)]"

definition plan_flows :: "planner \<Rightarrow> planner_state result" where
  "plan_flows P = foldE (plan_round P) [0..<nat (pn_flows_per_client P)] initial_state"

section \<open>The plan as it is returned\<close>

record traffic_stats =
  ts_total_flows :: int
  ts_udp_flows :: int
  ts_tcp_flows :: int
  ts_rejected_candidates :: int
  ts_rejected_by_source_budget :: int
  ts_rejected_by_destination_budget :: int
  ts_rejected_by_pps_budget :: int
  ts_outgoing_flows_per_client :: "(string \<times> int) list"
  ts_incoming_flows_per_client :: "(string \<times> int) list"
  ts_min_incoming_flows :: int
  ts_max_incoming_flows :: int
  ts_required_listener_ports :: "int list"
  ts_estimated_pps_per_client :: load
  ts_estimated_max_pps_per_client :: rat
  ts_estimated_udp_pps_per_client :: load
  ts_estimated_max_udp_pps_per_client :: rat
  ts_cross_switch_flows :: int
  ts_same_switch_flows :: int
  ts_cross_switch_flow_ratio :: rat
  ts_estimated_switch_pps :: switch_estimate

record traffic_config =
  tg_name :: string
  tg_description :: string
  tg_scale :: string
  tg_max_pps_per_client :: int
  tg_switch_pps_limit :: "int option"
  tg_link_mtu_bytes :: int
  tg_flows :: "traffic_flow list"
  tg_stats :: traffic_stats

definition sorted_counts :: "string list \<Rightarrow> (string \<Rightarrow> int) \<Rightarrow> (string \<times> int) list" where
  "sorted_counts names count = map (\<lambda>n. (n, count n)) (sort (remdups names))"

definition rounded :: "load \<Rightarrow> load" where
  "rounded d = map (\<lambda>(name, x). (name, py_round 2 x)) d"

definition total_udp_pps :: "(traffic_flow \<Rightarrow> rat result) \<Rightarrow> traffic_flow list \<Rightarrow> load result" where
  "total_udp_pps estimate flows =
     foldE (\<lambda>f d. bindE (estimate f) (\<lambda>x. Inr (add_pps x (fl_src f) d))) (filter (\<lambda>f. fl_protocol f = ''udp'') flows) []"

definition plan_stats ::
  "planner \<Rightarrow> planner_state \<Rightarrow> load \<Rightarrow> load \<Rightarrow> switch_estimate \<Rightarrow> traffic_stats" where
  "plan_stats P st client_pps udp_pps switch_pps =
     (let flows = st_flows st; names = map entry_name (topology_clients P);
          protocol_count = (\<lambda>p. int (length (filter (\<lambda>f. fl_protocol f = p) flows)));
          incoming = map (st_incoming st) (remdups names);
          paths = st_cross st + st_same st
      in \<lparr>ts_total_flows = int (length flows), ts_udp_flows = protocol_count ''udp'', ts_tcp_flows = protocol_count ''tcp'',
          ts_rejected_candidates =
            sum_list (map (st_rejected st) [''source_budget'', ''destination_budget'', ''pps_budget'']),
          ts_rejected_by_source_budget = st_rejected st ''source_budget'',
          ts_rejected_by_destination_budget = st_rejected st ''destination_budget'',
          ts_rejected_by_pps_budget = st_rejected st ''pps_budget'',
          ts_outgoing_flows_per_client = sorted_counts names (st_source_count st),
          ts_incoming_flows_per_client = sorted_counts names (st_incoming st),
          ts_min_incoming_flows = (case incoming of [] \<Rightarrow> 0 | x # xs \<Rightarrow> fold min xs x),
          ts_max_incoming_flows = (case incoming of [] \<Rightarrow> 0 | x # xs \<Rightarrow> fold max xs x),
          ts_required_listener_ports = sort (remdups (map fl_dst_port flows)),
          ts_estimated_pps_per_client = rounded client_pps,
          ts_estimated_max_pps_per_client = py_round 2 (maximum (map snd client_pps)),
          ts_estimated_udp_pps_per_client = rounded udp_pps,
          ts_estimated_max_udp_pps_per_client = py_round 2 (maximum (map snd udp_pps)),
          ts_cross_switch_flows = st_cross st, ts_same_switch_flows = st_same st,
          ts_cross_switch_flow_ratio = py_round 3 (if paths = 0 then 0 else of_int (st_cross st) / of_int paths),
          ts_estimated_switch_pps = switch_pps\<rparr>)"

text \<open>
  \<open>generate_traffic_config_from_topology\<close>; the last two arguments are the client and switch
  estimators the caller passes in.
\<close>

definition plan_traffic ::
  "planner \<Rightarrow> string \<Rightarrow> int \<Rightarrow> (traffic_flow list \<Rightarrow> load result) \<Rightarrow>
   (entry \<Rightarrow> traffic_flow list \<Rightarrow> switch_estimate result) \<Rightarrow> traffic_config result" where
  "plan_traffic P scale link_mtu_bytes estimate_clients estimate_switches =
     bindE (plan_flows P) (\<lambda>st.
     bindE (estimate_clients (st_flows st)) (\<lambda>client_pps.
     bindE (total_udp_pps (pn_estimate P) (st_flows st)) (\<lambda>udp_pps.
     bindE (estimate_switches (pn_topology P) (st_flows st)) (\<lambda>switch_pps.
       Inr \<lparr>tg_name = scale @ ''_standard'',
            tg_description = ''Canonical standard traffic for '' @ scale @ '' topology'', tg_scale = scale,
            tg_max_pps_per_client = pn_max_pps_per_client P, tg_switch_pps_limit = pn_switch_pps_limit P,
            tg_link_mtu_bytes = link_mtu_bytes, tg_flows = st_flows st,
            tg_stats = plan_stats P st client_pps udp_pps switch_pps\<rparr>))))"

section \<open>The invariant of the planner\<close>

definition flow_pps :: "planner \<Rightarrow> traffic_flow \<Rightarrow> rat" where
  "flow_pps P f = (case pn_estimate P f of Inr x \<Rightarrow> x | Inl _ \<Rightarrow> 0)"

definition flow_load :: "planner \<Rightarrow> traffic_flow \<Rightarrow> string \<Rightarrow> rat" where
  "flow_load P f n = load_at (flow_path P (fl_src f) (fl_dst f) (flow_pps P f)) n"

definition from_client :: "string \<Rightarrow> traffic_flow list \<Rightarrow> traffic_flow list" where
  "from_client c flows = filter (\<lambda>f. fl_src f = c) flows"

definition to_client :: "string \<Rightarrow> traffic_flow list \<Rightarrow> traffic_flow list" where
  "to_client c flows = filter (\<lambda>f. fl_dst f = c) flows"

definition client_names :: "planner \<Rightarrow> string set" where
  "client_names P = entry_name ` set (topology_clients P)"

lemma from_to_client_simps [simp]:
  "from_client c [] = []" "to_client c [] = []"
  "from_client c (fs @ gs) = from_client c fs @ from_client c gs"
  "to_client c (fs @ gs) = to_client c fs @ to_client c gs"
  "from_client c [f] = (if fl_src f = c then [f] else [])" "to_client c [f] = (if fl_dst f = c then [f] else [])"
  by (simp_all add: from_client_def to_client_def)

text \<open>What the flows are: numbered, between two clients, no pair twice, protocols in turn.\<close>

definition flows_ok :: "planner \<Rightarrow> planner_state \<Rightarrow> bool" where
  "flows_ok P st \<longleftrightarrow>
     (let flows = st_flows st in
      st_flow_id st = int (length flows) \<and> map fl_id flows = map int [0..<length flows] \<and>
      distinct (map (\<lambda>f. (fl_src f, fl_dst f)) flows) \<and>
      (\<forall>f \<in> set flows. fl_src f \<in> client_names P \<and> fl_dst f \<in> client_names P \<and> fl_src f \<noteq> fl_dst f) \<and>
      (\<forall>c. map fl_protocol (from_client c flows) =
         map (\<lambda>k. if even k then ''udp'' else ''tcp'') [0..<length (from_client c flows)]))"

text \<open>What the counters say of them, and the budgets they keep.\<close>

definition counts_ok :: "planner \<Rightarrow> planner_state \<Rightarrow> bool" where
  "counts_ok P st \<longleftrightarrow>
     (let flows = st_flows st in
      (\<forall>c. st_used_dsts st c = fl_dst ` set (from_client c flows)) \<and>
      (\<forall>c. st_source_count st c = int (length (from_client c flows)) \<and>
           st_source_count st c \<le> max 0 (pn_flows_per_client P)) \<and>
      (\<forall>c. st_incoming st c = int (length (to_client c flows)) \<and>
           st_incoming st c \<le> max 0 (min (pn_flows_per_client P) (pn_port_pool_size P)) \<and>
           map fl_dst_port (to_client c flows) = map (\<lambda>k. pn_port_base P + int k) [0..<length (to_client c flows)]) \<and>
      st_cross st = int (length (filter (\<lambda>f. flow_type P (fl_src f) (fl_dst f) = ''cross'') flows)) \<and>
      st_cross st + st_same st = int (length flows))"

definition rates_ok :: "planner \<Rightarrow> planner_state \<Rightarrow> bool" where
  "rates_ok P st \<longleftrightarrow>
     (let flows = st_flows st in
      (\<forall>f \<in> set flows. \<exists>x. pn_estimate P f = Inr x) \<and>
      (\<forall>c. st_client_pps st c = sum_list (map (flow_pps P) (from_client c flows)) \<and>
           st_client_pps st c \<le> of_int (max 0 (pn_max_pps_per_client P))) \<and>
      (\<forall>n. st_switch_pps st n = sum_list (map (\<lambda>f. flow_load P f n) flows)) \<and>
      (\<forall>limit n. pn_switch_pps_limit P = Some limit \<longrightarrow> st_switch_pps st n \<le> of_int (max 0 limit)))"

definition planner_ok :: "planner \<Rightarrow> planner_state \<Rightarrow> bool" where
  "planner_ok P st \<longleftrightarrow> flows_ok P st \<and> counts_ok P st \<and> rates_ok P st"

lemma planner_ok_initial: "planner_ok P initial_state"
  by (simp add: planner_ok_def flows_ok_def counts_ok_def rates_ok_def initial_state_def)

lemma planner_ok_reject [simp]: "planner_ok P (reject reason st) = planner_ok P st"
  by (simp add: planner_ok_def flows_ok_def counts_ok_def rates_ok_def reject_def)

lemma reject_fields [simp]:
  "st_used_dsts (reject r st) = st_used_dsts st" "st_source_count (reject r st) = st_source_count st"
  "st_incoming (reject r st) = st_incoming st" "st_flow_id (reject r st) = st_flow_id st" "st_flows (reject r st) = st_flows st"
  by (simp_all add: reject_def)

lemma admit_flow_fields:
  assumes "admit_flow P f st = Inr st'"
  obtains x where "pn_estimate P f = Inr x"
    "st' = st\<lparr>st_client_pps := (st_client_pps st)(fl_src f := st_client_pps st (fl_src f) + x),
              st_source_count := (st_source_count st)(fl_src f := st_source_count st (fl_src f) + 1),
              st_used_dsts := (st_used_dsts st)(fl_src f := insert (fl_dst f) (st_used_dsts st (fl_src f))),
              st_incoming := (st_incoming st)(fl_dst f := st_incoming st (fl_dst f) + 1),
              st_switch_pps := add_load (flow_path P (fl_src f) (fl_dst f) x) (st_switch_pps st),
              st_cross := st_cross st + (if flow_type P (fl_src f) (fl_dst f) = ''cross'' then 1 else 0),
              st_same := st_same st + (if flow_type P (fl_src f) (fl_dst f) = ''cross'' then 0 else 1),
              st_flows := st_flows st @ [f], st_flow_id := st_flow_id st + 1\<rparr>"
  using assms by (auto simp: admit_flow_def bindE_Inr_conv Let_def)

text \<open>An admission the budgets allow.\<close>

lemma admitted:
  assumes "admission_error P st f = Inr None"
  shows "st_source_count st (fl_src f) < pn_flows_per_client P" "st_incoming st (fl_dst f) < pn_flows_per_client P"
    and "pn_estimate P f = Inr x \<Longrightarrow> st_client_pps st (fl_src f) + x \<le> of_int (pn_max_pps_per_client P)"
    and "pn_estimate P f = Inr x \<Longrightarrow> pn_switch_pps_limit P = Some limit \<Longrightarrow>
      (n, added) \<in> set (flow_path P (fl_src f) (fl_dst f) x) \<Longrightarrow> st_switch_pps st n + added \<le> of_int limit"
  using assms by (auto simp: admission_error_def bindE_Inr_conv split: if_splits option.splits)

lemma counts_okD:
  assumes "counts_ok P st"
  shows "st_used_dsts st c = fl_dst ` set (from_client c (st_flows st))"
    "st_source_count st c = int (length (from_client c (st_flows st)))"
    "st_incoming st c = int (length (to_client c (st_flows st)))"
    "st_source_count st c \<le> max 0 (pn_flows_per_client P)"
    "st_incoming st c \<le> max 0 (min (pn_flows_per_client P) (pn_port_pool_size P))"
    "map fl_dst_port (to_client c (st_flows st)) =
       map (\<lambda>k. pn_port_base P + int k) [0..<length (to_client c (st_flows st))]"
  using assms unfolding counts_ok_def Let_def by blast+

lemma rates_okD:
  assumes "rates_ok P st"
  shows "st_client_pps st c \<le> of_int (max 0 (pn_max_pps_per_client P))"
    "pn_switch_pps_limit P = Some limit \<Longrightarrow> st_switch_pps st n \<le> of_int (max 0 limit)"
  using assms unfolding rates_ok_def Let_def by blast+

lemma admit_flows_ok:
  assumes "flows_ok P st" "counts_ok P st" "admit_flow P f st = Inr st'"
    and "fl_id f = st_flow_id st" "fl_src f \<in> client_names P" "fl_dst f \<in> client_names P" "fl_src f \<noteq> fl_dst f"
    and "fl_dst f \<notin> st_used_dsts st (fl_src f)"
    and "fl_protocol f = (if st_source_count st (fl_src f) mod 2 = 0 then ''udp'' else ''tcp'')"
  shows "flows_ok P st'"
proof -
  have st': "st_flows st' = st_flows st @ [f]" "st_flow_id st' = st_flow_id st + 1"
    by (rule admit_flow_fields [OF assms(3)]; simp)+
  have new: "(fl_src f, fl_dst f) \<notin> (\<lambda>f. (fl_src f, fl_dst f)) ` set (st_flows st)"
    using assms(8) counts_okD(1) [OF assms(2)] by (auto simp: from_client_def)
  have "(st_source_count st (fl_src f) mod 2 = 0) = even (length (from_client (fl_src f) (st_flows st)))"
    unfolding counts_okD(2) [OF assms(2)] by presburger
  then show ?thesis
    using assms(1,4-7,9) new by (auto simp: flows_ok_def Let_def st')
qed

lemma admit_counts_ok:
  assumes "counts_ok P st" "admit_flow P f st = Inr st'" "admission_error P st f = Inr None"
    and "fl_dst_port f = pn_port_base P + st_incoming st (fl_dst f)" "st_incoming st (fl_dst f) < pn_port_pool_size P"
  shows "counts_ok P st'"
proof -
  have st': "st_flows st' = st_flows st @ [f]"
    "st_used_dsts st' = (st_used_dsts st)(fl_src f := insert (fl_dst f) (st_used_dsts st (fl_src f)))"
    "st_source_count st' = (st_source_count st)(fl_src f := st_source_count st (fl_src f) + 1)"
    "st_incoming st' = (st_incoming st)(fl_dst f := st_incoming st (fl_dst f) + 1)"
    "st_cross st' = st_cross st + (if flow_type P (fl_src f) (fl_dst f) = ''cross'' then 1 else 0)"
    "st_same st' = st_same st + (if flow_type P (fl_src f) (fl_dst f) = ''cross'' then 0 else 1)"
    by (rule admit_flow_fields [OF assms(2)]; simp)+
  have port: "fl_dst_port f = pn_port_base P + int (length (to_client (fl_dst f) (st_flows st)))"
    using assms(4) counts_okD(3) [OF assms(1)] by simp
  have in_budget: "st_incoming st (fl_dst f) + 1 \<le> max 0 (min (pn_flows_per_client P) (pn_port_pool_size P))"
    "st_source_count st (fl_src f) + 1 \<le> max 0 (pn_flows_per_client P)"
    using admitted(1,2) [OF assms(3)] assms(5) by simp_all
  show ?thesis
    unfolding counts_ok_def Let_def
  proof (intro conjI allI)
    fix c
    show "st_used_dsts st' c = fl_dst ` set (from_client c (st_flows st'))"
      "st_source_count st' c = int (length (from_client c (st_flows st')))"
      "st_incoming st' c = int (length (to_client c (st_flows st')))"
      using counts_okD [OF assms(1)] by (auto simp: st')
    show "st_source_count st' c \<le> max 0 (pn_flows_per_client P)"
      "st_incoming st' c \<le> max 0 (min (pn_flows_per_client P) (pn_port_pool_size P))"
      using counts_okD(4,5) [OF assms(1), of c] in_budget by (auto simp: st' simp del: max.bounded_iff)
    show "map fl_dst_port (to_client c (st_flows st')) =
        map (\<lambda>k. pn_port_base P + int k) [0..<length (to_client c (st_flows st'))]"
      using counts_okD(6) [OF assms(1), of c] port by (auto simp: st')
  qed (use assms(1) in \<open>auto simp: st' counts_ok_def Let_def\<close>)
qed

lemma admit_rates_ok:
  assumes "rates_ok P st" "admit_flow P f st = Inr st'" "admission_error P st f = Inr None"
  shows "rates_ok P st'"
proof -
  obtain x where x: "pn_estimate P f = Inr x" by (rule admit_flow_fields [OF assms(2)])
  have pps: "flow_pps P f = x" by (simp add: flow_pps_def x)
  have st': "st_flows st' = st_flows st @ [f]"
    "st_client_pps st' = (st_client_pps st)(fl_src f := st_client_pps st (fl_src f) + x)"
    "st_switch_pps st' = add_load (flow_path P (fl_src f) (fl_dst f) x) (st_switch_pps st)"
    by (rule admit_flow_fields [OF assms(2)]; simp add: x)+
  have path: "distinct (map fst (flow_path P (fl_src f) (fl_dst f) x))" by (simp add: flow_path_def)
  have load: "st_switch_pps st' n = st_switch_pps st n + flow_load P f n" for n
    by (simp add: st' add_load_at [OF path] flow_load_def pps)
  have "st_switch_pps st' n \<le> of_int (max 0 limit)" if "pn_switch_pps_limit P = Some limit" for n limit
  proof (cases "n \<in> fst ` set (flow_path P (fl_src f) (fl_dst f) x)")
    case True
    then obtain added where mem: "(n, added) \<in> set (flow_path P (fl_src f) (fl_dst f) x)" by force
    have "st_switch_pps st' n = st_switch_pps st n + added"
      using load [of n] load_at_mem [OF path mem] by (simp add: flow_load_def pps)
    also have "\<dots> \<le> of_int limit" by (rule admitted(4) [OF assms(3) x that mem])
    finally show ?thesis by simp
  next
    case False
    then show ?thesis
      using load [of n] load_at_absent [OF False] rates_okD(2) [OF assms(1) that, of n]
      by (simp only: flow_load_def pps add_0_right)
  qed
  moreover have "st_client_pps st' c \<le> of_int (max 0 (pn_max_pps_per_client P))" for c
    using admitted(3) [OF assms(3) x] rates_okD(1) [OF assms(1), of c] by (simp add: st' of_int_max max.coboundedI2)
  moreover have "st_client_pps st' c = sum_list (map (flow_pps P) (from_client c (st_flows st')))" for c
    using assms(1) by (simp add: rates_ok_def Let_def st'(1,2) pps)
  moreover have "st_switch_pps st' n = sum_list (map (\<lambda>f. flow_load P f n) (st_flows st'))" for n
    using assms(1) load by (simp add: rates_ok_def Let_def st'(1))
  moreover have "\<forall>f \<in> set (st_flows st'). \<exists>x. pn_estimate P f = Inr x"
    using assms(1) x by (simp add: rates_ok_def Let_def st'(1))
  ultimately show ?thesis unfolding rates_ok_def Let_def by blast
qed

section \<open>The loops keep the invariant\<close>

text \<open>
  What the planner relies on: a built flow has the identity, ends, protocol and port it was
  asked for, and the functions fail only as stated by the client.
\<close>

locale flow_builder =
  fixes build :: "int \<Rightarrow> entry \<Rightarrow> entry \<Rightarrow> string \<Rightarrow> (string, string) dict \<Rightarrow> int \<Rightarrow> traffic_flow result"
  assumes built: "build i s d p bandwidths port = Inr f \<Longrightarrow>
      fl_id f = i \<and> fl_src f = entry_name s \<and> fl_dst f = entry_name d \<and> fl_protocol f = p \<and> fl_dst_port f = port"
begin

lemma try_candidates_ok:
  assumes "pn_build P = build" "try_candidates P src dsts st = Inr (added, st')" "planner_ok P st"
    and "src \<in> set (topology_clients P)"
    and "\<And>d. d \<in> set dsts \<Longrightarrow> d \<in> set (topology_clients P) \<and> entry_name d \<noteq> entry_name src
           \<and> entry_name d \<notin> st_used_dsts st (entry_name src)"
  shows "planner_ok P st'"
  using assms(2,3,5)
proof (induction dsts arbitrary: st)
  case (Cons d ds)
  let ?slot = "st_incoming st (entry_name d)"
  show ?case
  proof (cases "pn_port_pool_size P \<le> ?slot")
    case True
    then show ?thesis using Cons.IH [of "reject ''destination_budget'' st"] Cons.prems by (simp add: Let_def)
  next
    case False
    obtain f err where f: "build (st_flow_id st) src d
          (if st_source_count st (entry_name src) mod 2 = 0 then ''udp'' else ''tcp'') (pn_bandwidths P) (pn_port_base P + ?slot) = Inr f"
      and err: "admission_error P st f = Inr err"
      and rest: "(case err of Some reason \<Rightarrow> try_candidates P src ds (reject reason st)
                  | None \<Rightarrow> bindE (admit_flow P f st) (\<lambda>st'. Inr (True, st'))) = Inr (added, st')"
      using Cons.prems(1) False assms(1) by (auto simp: Let_def bindE_Inr_conv)
    note b = built [OF f]
    show ?thesis
    proof (cases err)
      case (Some reason)
      then show ?thesis using Cons.IH [of "reject reason st"] Cons.prems rest by simp
    next
      case None
      then have st': "admit_flow P f st = Inr st'" "added" using rest by (auto simp: bindE_Inr_conv)
      have ok: "flows_ok P st" "counts_ok P st" "rates_ok P st" using Cons.prems(2) by (simp_all add: planner_ok_def)
      have d: "d \<in> set (topology_clients P)" "entry_name d \<noteq> entry_name src"
        "entry_name d \<notin> st_used_dsts st (entry_name src)" using Cons.prems(3) [of d] by simp_all
      have "flows_ok P st'"
        using b d assms(4) by (intro admit_flows_ok [OF ok(1,2) st'(1)]) (auto simp: client_names_def)
      moreover have "counts_ok P st'"
        using b False by (intro admit_counts_ok [OF ok(2) st'(1) err [unfolded None]]) auto
      moreover have "rates_ok P st'" by (rule admit_rates_ok [OF ok(3) st'(1) err [unfolded None]])
      ultimately show ?thesis using st'(2) by (simp add: planner_ok_def)
    qed
  qed
qed simp

end

text \<open>The candidates of a source are other clients it does not send to yet.\<close>

lemma candidate_clients:
  assumes "d \<in> set (map snd (candidate_destinations cs src_idx))" "src_idx < length cs"
  shows "\<exists>j < length cs. j \<noteq> src_idx \<and> d = cs ! j"
proof -
  obtain k where k: "1 \<le> k" "k < length cs" "d = cs ! ((src_idx + k) mod length cs)"
    using assms(1) by (auto simp: candidate_destinations_def Let_def)
  have "(src_idx + k) mod length cs \<noteq> src_idx"
  proof
    assume "(src_idx + k) mod length cs = src_idx"
    then have "(src_idx + k) mod length cs = (src_idx + 0) mod length cs" using assms(2) by simp
    moreover have "(src_idx + k) mod length cs = src_idx + k - length cs" if "length cs \<le> src_idx + k"
      using that k(2) assms(2) by (simp add: le_mod_geq)
    ultimately show False using k(1,2) assms(2) by (cases "src_idx + k < length cs") auto
  qed
  then show ?thesis using k(2,3) by (intro exI [of _ "(src_idx + k) mod length cs"] conjI mod_less_divisor) auto
qed

lemma candidate_pool_facts:
  assumes "d \<in> set (ordered_candidates st0 (candidate_pool P st i pool_type))" "i < length (topology_clients P)"
    and "distinct (map entry_name (topology_clients P))"
  shows "d \<in> set (topology_clients P) \<and> entry_name d \<noteq> entry_name (topology_clients P ! i)
     \<and> entry_name d \<notin> st_used_dsts st (entry_name (topology_clients P ! i))"
proof -
  have "set (ordered_candidates st0 pool) = set pool" for pool
  proof -
    have "set (ordered_candidates st0 pool) = snd ` set (enumerate 0 pool)" by (simp add: ordered_candidates_def)
    also have "\<dots> = set pool" by (metis list.set_map map_snd_enumerate)
    finally show ?thesis .
  qed
  then have d: "d \<in> set (map snd (candidate_destinations (topology_clients P) i))"
    "entry_name d \<notin> st_used_dsts st (entry_name (topology_clients P ! i))"
    using assms(1) by (auto simp: candidate_pool_def Let_def)
  then obtain j where j: "j < length (topology_clients P)" "j \<noteq> i" "d = topology_clients P ! j"
    using candidate_clients assms(2) by blast
  then have "entry_name d \<noteq> entry_name (topology_clients P ! i)"
    using assms(2) nth_eq_iff_index_eq [OF assms(3), of i j] by auto
  then show ?thesis using j d by simp
qed

context flow_builder
begin

lemma plan_source_ok:
  assumes "pn_build P = build" "plan_source P r i st = Inr st'" "planner_ok P st"
    and "i < length (topology_clients P)" "distinct (map entry_name (topology_clients P))"
  shows "planner_ok P st'"
proof -
  let ?src = "topology_clients P ! i"
  have add: "planner_ok P t'"
    if "try_add_from_pool P i pool t = Inr (added, t')" "planner_ok P t" for pool t added t'
    using that(1) unfolding try_add_from_pool_def
    by (rule try_candidates_ok [OF assms(1) _ that(2)])
      (use candidate_pool_facts [OF _ assms(4,5)] assms(4) in auto)
  show ?thesis
    using assms(2,3) add
    by (auto simp: plan_source_def Let_def bindE_Inr_conv split: if_splits)
qed

lemma plan_flows_ok:
  assumes "pn_build P = build" "plan_flows P = Inr st" "distinct (map entry_name (topology_clients P))"
  shows "planner_ok P st"
  using assms(2) planner_ok_initial unfolding plan_flows_def
proof (rule foldE_inv)
  fix r t t'
  assume "planner_ok P t" "plan_round P r t = Inr t'"
  from this(2,1) show "planner_ok P t'" unfolding plan_round_def
    by (rule foldE_inv) (use plan_source_ok [OF assms(1)] assms(3) in auto)
qed

end

interpretation candidates: flow_builder "build_candidate_flow u t"
  by unfold_locales (auto simp: build_candidate_flow_def split: option.splits if_splits)

section \<open>The loops produce a plan\<close>

text \<open>
  A builder that builds a flow between any two clients that are ready, whose rate the
  estimator knows.
\<close>

locale total_flow_builder = flow_builder +
  fixes estimate :: "traffic_flow \<Rightarrow> rat result"
    and bandwidths :: "(string, string) dict"
    and ready :: "entry \<Rightarrow> bool"
  assumes builds: "ready s \<Longrightarrow> ready d \<Longrightarrow> p \<in> {''udp'', ''tcp''} \<Longrightarrow>
      \<exists>f. build i s d p bandwidths port = Inr f \<and> (\<exists>x. estimate f = Inr x)"
begin

lemma admission_total: "pn_estimate P = estimate \<Longrightarrow> estimate f = Inr x \<Longrightarrow> \<exists>err. admission_error P st f = Inr err"
  by (auto simp: admission_error_def split: option.split)

lemma try_candidates_total:
  assumes "pn_build P = build" "pn_estimate P = estimate" "pn_bandwidths P = bandwidths"
    and "ready src" "\<And>d. d \<in> set dsts \<Longrightarrow> ready d"
  shows "\<exists>r. try_candidates P src dsts st = Inr r"
  using assms(5)
proof (induction dsts arbitrary: st)
  case (Cons d ds)
  have IH: "\<exists>r. try_candidates P src ds t = Inr r" for t using Cons by simp
  let ?p = "if st_source_count st (entry_name src) mod 2 = 0 then ''udp'' else ''tcp''"
  have "?p \<in> {''udp'', ''tcp''}" by simp
  then obtain f x where f: "build (st_flow_id st) src d ?p bandwidths (pn_port_base P + st_incoming st (entry_name d)) = Inr f"
      "estimate f = Inr x"
    using builds [OF assms(4) Cons.prems [of d], of ?p "st_flow_id st" "pn_port_base P + st_incoming st (entry_name d)"]
    by auto
  then obtain err where "admission_error P st f = Inr err" using admission_total assms(2) by blast
  then show ?case
    using f assms(1-3) IH by (cases err) (auto simp: Let_def admit_flow_def)
qed (rule exI [of _ "(False, st)" for st], simp)

lemma plan_flows_total:
  assumes "pn_build P = build" "pn_estimate P = estimate" "pn_bandwidths P = bandwidths"
    and "\<And>c. c \<in> set (topology_clients P) \<Longrightarrow> ready c" "distinct (map entry_name (topology_clients P))"
  shows "\<exists>st. plan_flows P = Inr st"
proof -
  have try_pool: "\<exists>r. try_add_from_pool P i pool st = Inr r" if "i < length (topology_clients P)" for i pool st
    unfolding try_add_from_pool_def
    by (rule try_candidates_total [OF assms(1-3)])
      (use candidate_pool_facts [OF _ that assms(5)] assms(4) that in auto)
  have src: "\<exists>st'. plan_source P r i st = Inr st'" if "i \<in> set [0..<length (topology_clients P)]" for r i st
  proof -
    have i: "i < length (topology_clients P)" using that by simp
    have "\<exists>st'. bindE (try_add_from_pool P i pool st) (\<lambda>(added, st').
        if added then Inr st' else bindE (try_add_from_pool P i other st') (\<lambda>(_, st''). Inr st'')) = Inr st'" for pool other
    proof -
      obtain b t where t: "try_add_from_pool P i pool st = Inr (b, t)" using try_pool [OF i] by fastforce
      obtain b' t' where "try_add_from_pool P i other t = Inr (b', t')" using try_pool [OF i] by fastforce
      then show ?thesis using t by (cases b) auto
    qed
    then show ?thesis by (simp add: plan_source_def Let_def)
  qed
  have "\<exists>st'. plan_round P r st = Inr st' \<and> True" for r st
    unfolding plan_round_def by (rule foldE_succeeds) (use src in auto)
  then have "\<exists>st. plan_flows P = Inr st \<and> True"
    unfolding plan_flows_def by (intro foldE_succeeds) auto
  then show ?thesis by simp
qed

end

section \<open>The estimators recompute what the planner counted\<close>

lemma client_loads:
  assumes "\<And>f. f \<in> set flows \<Longrightarrow> estimate f = Inr (g f)" "distinct (map fst d0)"
  shows "\<exists>d. foldE (add_client_pps estimate) flows d0 = Inr d \<and> distinct (map fst d) \<and>
     (\<forall>n. load_at d n = load_at d0 n + (if n = [] then 0 else sum_list (map g (from_client n flows))))"
  using assms
proof (induction flows arbitrary: d0)
  case (Cons f fs)
  let ?d = "if fl_src f = [] then d0 else add_pps (g f) (fl_src f) d0"
  have "distinct (map fst ?d)" using Cons.prems(2) by simp
  then obtain d where d: "foldE (add_client_pps estimate) fs ?d = Inr d" "distinct (map fst d)"
    "\<forall>n. load_at d n = load_at ?d n + (if n = [] then 0 else sum_list (map g (from_client n fs)))"
    using Cons.IH [of ?d] Cons.prems(1) by auto
  have "add_client_pps estimate f d0 = Inr ?d" using Cons.prems(1) [of f] by (simp add: add_client_pps_def)
  moreover have "from_client n (f # fs) = from_client n [f] @ from_client n fs" for n by (simp add: from_client_def)
  ultimately show ?case using d by (auto simp del: from_to_client_simps(3))
qed simp

lemma switch_loads:
  assumes "\<And>f. f \<in> set flows \<Longrightarrow> estimate f = Inr (g f) \<and> 0 \<le> g f"
    and "\<And>f. f \<in> set flows \<Longrightarrow> switch_of (fl_src f) = a f \<and> switch_of (fl_dst f) = b f"
    and "switch_of = (\<lambda>name. case find (\<lambda>c. entry_name c = name) (rev (device_group topology ''clients'')) of
                               Some c \<Rightarrow> attached_switch c | None \<Rightarrow> None)"
  shows "\<exists>t. foldE (switch_load_step estimate topology) flows t0 = Inr t \<and>
     (\<forall>n. t n = t0 n + sum_list (map (\<lambda>f. load_at (switch_path_pps (role_members topology) (device_pods topology) (a f) (b f) (g f)) n) flows))"
  using assms(1,2)
proof (induction flows arbitrary: t0)
  case (Cons f fs)
  let ?path = "switch_path_pps (role_members topology) (device_pods topology) (a f) (b f) (g f)"
  let ?t = "if g f \<le> 0 then t0 else add_load ?path t0"
  have step: "switch_load_step estimate topology f t0 = Inr ?t"
    using Cons.prems(1) [of f] Cons.prems(2) [of f] by (simp add: switch_load_step_def assms(3))
  have t: "?t n = t0 n + load_at ?path n" for n
  proof (cases "g f \<le> 0")
    case True
    then have "g f = 0" using Cons.prems(1) [of f] by simp
    then show ?thesis by (simp add: switch_path_zero)
  qed (simp add: add_load_at)
  obtain u where u: "foldE (switch_load_step estimate topology) fs ?t = Inr u"
    "\<And>n. u n = ?t n + sum_list (map (\<lambda>f. load_at (switch_path_pps (role_members topology) (device_pods topology) (a f) (b f) (g f)) n) fs)"
    using Cons.IH [of ?t] Cons.prems by auto
  have "foldE (switch_load_step estimate topology) (f # fs) t0 = Inr u" using step u(1) by (simp only: foldE.simps bindE_simps)
  moreover have "u n = t0 n + sum_list (map (\<lambda>f. load_at (switch_path_pps (role_members topology)
      (device_pods topology) (a f) (b f) (g f)) n) (f # fs))" for n
    using u(2) [of n] t [of n] by simp
  ultimately show ?case by blast
qed simp

end
