(* ===== verification/Traffic_Generator.thy ===== *)
theory Traffic_Generator
  imports Traffic_Planner Scale_Profiles
begin

text \<open>
  \<open>netopsbench/platform/traffic/generator.py\<close> and \<open>settings.py\<close>: the standard background traffic of
  a topology, with the constants of the program, and the check every plan has to pass before it
  is started.
\<close>

section \<open>Constants and settings\<close>

definition base_switch_pps_limit :: rat where
  "base_switch_pps_limit = 1000"

definition udp_payload_len_bytes :: int where
  "udp_payload_len_bytes = 1400"

definition tcp_mss_bytes :: int where
  "tcp_mss_bytes = 1360"

definition traffic_listener_port_base :: int where
  "traffic_listener_port_base = 5201"

definition traffic_listener_port_pool_size :: int where
  "traffic_listener_port_pool_size = 4"

definition flows_per_client :: int where
  "flows_per_client = 4"

definition default_switch_pps_limit :: int where
  "default_switch_pps_limit = 5000"

record traffic_settings =
  switch_pps_limit :: "int option"

definition default_traffic_settings :: traffic_settings where
  "default_traffic_settings = \<lparr>switch_pps_limit = Some default_switch_pps_limit\<rparr>"

section \<open>Bandwidths\<close>

text \<open>\<open>int(x)\<close> of a non-negative number is its floor.\<close>

definition format_bandwidth_from_pps :: "rat \<Rightarrow> int \<Rightarrow> string" where
  "format_bandwidth_from_pps pps packet_size_bytes =
     (let bits_per_sec = max pps 1 * of_int packet_size_bytes * 8
      in if 1000000 \<le> bits_per_sec then int_str (max \<lfloor>bits_per_sec / 1000000\<rfloor> 1) @ ''M''
         else int_str (max \<lfloor>bits_per_sec / 1000\<rfloor> 100) @ ''K'')"

definition max_pps_per_client ::
  "scale_registry \<Rightarrow> string \<Rightarrow> int option \<Rightarrow> scale_registry option \<Rightarrow> int result" where
  "max_pps_per_client default_profiles scale limit registry =
     bindE (get_scale_profile default_profiles scale registry) (\<lambda>p.
       let base = tp_max_pps_per_client (sp_traffic p)
       in Inr (case limit of
                 None \<Rightarrow> base
               | Some l \<Rightarrow> max 1 (round_half_even (of_int base * of_int l / base_switch_pps_limit))))"

definition standard_bandwidths :: "int \<Rightarrow> (string, string) dict" where
  "standard_bandwidths max_pps =
     (let pps_per_flow = of_int max_pps / of_int flows_per_client
      in [(''udp'', format_bandwidth_from_pps pps_per_flow (udp_payload_len_bytes + 28)),
          (''tcp'', format_bandwidth_from_pps pps_per_flow (tcp_mss_bytes + 40))])"

definition standard_flow_pps :: "traffic_flow \<Rightarrow> rat result" where
  "standard_flow_pps = estimate_flow_pps udp_payload_len_bytes tcp_mss_bytes"

definition standard_switch_pps :: "entry \<Rightarrow> traffic_flow list \<Rightarrow> switch_estimate result" where
  "standard_switch_pps = estimate_switch_pps standard_flow_pps"

definition standard_client_pps :: "traffic_flow list \<Rightarrow> load result" where
  "standard_client_pps = estimate_client_pps standard_flow_pps"

section \<open>Generation and validation\<close>

definition standard_planner :: "entry \<Rightarrow> int \<Rightarrow> traffic_settings \<Rightarrow> planner" where
  "standard_planner projected max_pps settings =
     \<lparr>pn_topology = projected, pn_flows_per_client = flows_per_client, pn_max_pps_per_client = max_pps,
      pn_bandwidths = standard_bandwidths max_pps, pn_switch_pps_limit = switch_pps_limit settings,
      pn_port_base = traffic_listener_port_base, pn_port_pool_size = traffic_listener_port_pool_size,
      pn_build = build_candidate_flow udp_payload_len_bytes tcp_mss_bytes, pn_estimate = standard_flow_pps\<rparr>"

text \<open>The topology is a manifest the model constructor has accepted.\<close>

definition generate_traffic_config_from_topology ::
  "scale_registry \<Rightarrow> manifest \<Rightarrow> string \<Rightarrow> string \<Rightarrow> traffic_settings option \<Rightarrow> scale_registry option \<Rightarrow>
   traffic_config result" where
  "generate_traffic_config_from_topology default_profiles m scale profile_type settings registry =
     (if profile_type \<noteq> ''standard'' then
        Inl (ValueError (''Only the standard traffic profile is supported, got: '' @ profile_type))
      else
        bindE (get_scale_profile default_profiles scale registry) (\<lambda>_.
        bindE (make_manifest m) (\<lambda>manifest.
          let projected = to_agent_topology manifest;
              setting = (case settings of Some s \<Rightarrow> s | None \<Rightarrow> default_traffic_settings)
          in bindE (max_pps_per_client default_profiles scale (switch_pps_limit setting) registry) (\<lambda>max_pps.
               plan_traffic (standard_planner projected max_pps setting) scale
                 (infer_topology_link_mtu projected default_link_mtu) standard_client_pps standard_switch_pps))))"

text \<open>The text of a refusal leaves out the measured rates the code formats into it.\<close>

definition validate_traffic_config ::
  "scale_registry \<Rightarrow> traffic_config \<Rightarrow> string \<Rightarrow> traffic_settings option \<Rightarrow> scale_registry option \<Rightarrow> bool result" where
  "validate_traffic_config default_profiles config scale settings registry =
     (let setting = (case settings of Some s \<Rightarrow> s | None \<Rightarrow> default_traffic_settings)
      in bindE (max_pps_per_client default_profiles scale (switch_pps_limit setting) registry) (\<lambda>max_allowed.
        let max_client = ts_estimated_max_pps_per_client (tg_stats config);
            max_switch = se_max_switch_pps (ts_estimated_switch_pps (tg_stats config))
        in if of_int max_allowed < max_client then
             Inl (ValueError (''Estimated PPS per client too high (limit '' @ int_str max_allowed @ '')''))
           else
             (case switch_pps_limit setting of
                None \<Rightarrow> Inr True
              | Some limit \<Rightarrow>
                  if of_int limit < max_switch then
                    Inl (ValueError (''Estimated switch PPS too high (limit='' @ int_str limit @ '').''))
                  else Inr True)))"

section \<open>Bandwidth texts are read back\<close>

lemma parse_float_nat [simp]: "parse_float (nat_str n) = Inr (of_nat n)"
proof -
  have ne: "nat_str n \<noteq> []" by simp
  have d: "is_digit (hd (nat_str n))" "is_digit (last (nat_str n))"
    using nat_str_digits [of "hd (nat_str n)" n] nat_str_digits [of "last (nat_str n)" n] by simp_all
  have strip: "str_strip (nat_str n) = nat_str n"
    using d digit_not_special by (intro str_strip_nonspace) auto
  have dot: "CHR ''.'' \<notin> set (nat_str n)" using nat_str_digits digit_not_special by blast
  have "hd (nat_str n) \<noteq> CHR ''-''" "hd (nat_str n) \<noteq> CHR ''+''"
    using d(1) by (auto simp: is_digit_def)
  moreover obtain c cs where c: "nat_str n = c # cs" using ne by (cases "nat_str n") auto
  moreover have "parse_decimal (nat_str n) = Inr (of_nat n)"
    unfolding parse_decimal_def Let_def str_split_absent [OF dot] by simp
  ultimately show ?thesis using strip by (simp add: parse_float_def)
qed

lemma bandwidth_text:
  assumes "u \<in> {CHR ''K'', CHR ''M''}"
  shows "bandwidth_to_bps (nat_str n @ [u]) = Inr (of_nat n * (if u = CHR ''K'' then 1000 else 1000000))"
proof -
  have "is_digit (hd (nat_str n @ [u]))"
    using nat_str_digits [of "hd (nat_str n)" n] by simp
  then have strip: "str_strip (nat_str n @ [u]) = nat_str n @ [u]"
    using assms digit_not_special by (intro str_strip_nonspace) (auto simp: is_space_def)
  have "upper_char c = c" if "is_digit c" for c using that by (auto simp: is_digit_def upper_char_def less_eq_char_def)
  then have "map upper_char (nat_str n) = nat_str n" using nat_str_digits by (intro map_idI) blast
  moreover have "upper_char u = u" using assms by (auto simp: upper_char_def less_eq_char_def)
  ultimately have up: "str_upper (nat_str n @ [u]) = nat_str n @ [u]" by (simp add: str_upper_def)
  show ?thesis using assms by (auto simp: bandwidth_to_bps_def strip up Let_def)
qed

lemma standard_bandwidth_parses:
  assumes "p \<in> {''udp'', ''tcp''}"
  obtains bw bps where "dict_get (standard_bandwidths n) p = Some bw" "bandwidth_to_bps bw = Inr bps"
proof -
  have "\<exists>bps. bandwidth_to_bps (format_bandwidth_from_pps x size) = Inr bps" for x size
    using bandwidth_text [of "CHR ''M''"] bandwidth_text [of "CHR ''K''"]
    by (auto simp: format_bandwidth_from_pps_def Let_def int_str_nonneg le_max_iff_disj)
  moreover obtain x size where "dict_get (standard_bandwidths n) p = Some (format_bandwidth_from_pps x size)"
    using assms by (auto simp: standard_bandwidths_def Let_def)
  ultimately show ?thesis using that by blast
qed

section \<open>The projected clients\<close>

lemma projected_clients:
  "device_group (to_agent_topology m) ''clients'' = map (device_to_agent_entry m) (clients m)"
  by (simp add: device_group_def to_agent_topology_def as_object_def as_list_def agent_groups_def comp_def)

lemma projected_name [simp]: "entry_name (device_to_agent_entry m d) = dev_name d"
  using device_entry_field [of "''name''" m d]
  by (simp add: entry_name_def device_model_fields_def device_dump_def without_none_def)

lemma projected_ip:
  assumes "dev_data_ip d = Some ip" "ip \<noteq> []"
  shows "client_ip (device_to_agent_entry m d) = Some (JStr ip)"
proof -
  have "map_of (device_dump d) ''data_ip'' = Some (JStr ip)"
    using assms(1) by (auto simp: device_dump_def without_none_def jstr_opt_def split: option.split)
  then have "py_get (device_to_agent_entry m d) ''data_ip'' = Some (JStr ip)"
    using device_entry_field [of "''data_ip''" m d] by (simp add: py_get_def device_model_fields_def)
  then show ?thesis using assms(2) by (simp add: client_ip_def truthy_def)
qed

lemma projected_switch:
  assumes "dev_role d = CLIENT" "dev_attached_switch d = Some a" "a \<noteq> []" "''leaf'' \<notin> fst ` set (dev_metadata d)"
  shows "attached_switch (device_to_agent_entry m d) = Some (JStr a)"
proof -
  let ?e = "dict_update (device_dump d) (filter (\<lambda>(k, v). k \<notin> set device_model_fields) (dev_metadata d))"
  have "''leaf'' \<notin> fst ` set (filter (\<lambda>(k, v). k \<notin> set device_model_fields) (dev_metadata d))" using assms(4) by auto
  from dict_update_other [OF this] have "map_of ?e ''leaf'' = None"
    by (simp add: device_dump_def without_none_def)
  then show ?thesis
    using assms(1-3) by (simp add: attached_switch_def py_get_def device_to_agent_entry_def Let_def truthy_def)
qed

text \<open>Clients whose data address is known and whose switch no metadata shadows.\<close>

definition traffic_ready :: "manifest \<Rightarrow> bool" where
  "traffic_ready m \<longleftrightarrow>
     (\<forall>d \<in> set (clients m). (\<exists>ip. dev_data_ip d = Some ip \<and> ip \<noteq> []) \<and> ''leaf'' \<notin> fst ` set (dev_metadata d))"

lemma traffic_ready_client:
  assumes "traffic_ready m" "wf_manifest m" "c \<in> set (device_group (to_agent_topology m) ''clients'')"
  shows "\<exists>ip. client_ip c = Some (JStr ip) \<and> ip \<noteq> []" "is_string (attached_switch c)"
proof -
  obtain d where d: "d \<in> set (clients m)" "c = device_to_agent_entry m d"
    using assms(3) by (auto simp: projected_clients)
  then show "\<exists>ip. client_ip c = Some (JStr ip) \<and> ip \<noteq> []"
    using assms(1) projected_ip by (auto simp: traffic_ready_def)
  have "d \<in> set (mf_devices m)" "dev_role d = CLIENT" using d(1) by (simp_all add: clients_def devices_by_role_def)
  moreover have "\<forall>c \<in> set (mf_devices m). dev_role c = CLIENT \<longrightarrow>
        (\<exists>s \<in> set (mf_devices m). dev_attached_switch c = Some (dev_name s) \<and> dev_name s \<noteq> [] \<and> dev_role s \<noteq> CLIENT)"
    using assms(2) by (simp add: wf_manifest_def)
  ultimately obtain s :: device where "dev_attached_switch d = Some (dev_name s)" "dev_name s \<noteq> []" by auto
  then show "is_string (attached_switch c)"
    using projected_switch \<open>dev_role d = CLIENT\<close> assms(1) d by (auto simp: traffic_ready_def is_string_def)
qed

lemma projected_names_distinct:
  "wf_manifest m \<Longrightarrow> distinct (map entry_name (device_group (to_agent_topology m) ''clients''))"
  by (simp add: projected_clients comp_def clients_def devices_by_role_def distinct_map_filter wf_manifest_def)

section \<open>The standard functions meet the interface\<close>

definition has_ip :: "entry \<Rightarrow> bool" where
  "has_ip c \<longleftrightarrow> (\<exists>ip. client_ip c = Some (JStr ip) \<and> ip \<noteq> [])"

interpretation standard: total_flow_builder "build_candidate_flow udp_payload_len_bytes tcp_mss_bytes"
  standard_flow_pps "standard_bandwidths n" has_ip
proof
  fix s d p i port
  assume ready: "has_ip s" "has_ip d" and p: "p \<in> {''udp'', ''tcp''}"
  obtain bw bps where bw: "dict_get (standard_bandwidths n) p = Some bw" "bandwidth_to_bps bw = Inr bps"
    using standard_bandwidth_parses [OF p] .
  obtain f where f: "build_candidate_flow udp_payload_len_bytes tcp_mss_bytes i s d p (standard_bandwidths n) port = Inr f"
      "fl_bandwidth f = bw"
    using ready bw(1) by (auto simp: build_candidate_flow_def has_ip_def)
  then have "\<exists>x. standard_flow_pps f = Inr x"
    using bw(2) by (simp add: standard_flow_pps_def estimate_flow_pps_def Let_def)
  then show "\<exists>f. build_candidate_flow udp_payload_len_bytes tcp_mss_bytes i s d p (standard_bandwidths n) port = Inr f \<and>
      (\<exists>x. standard_flow_pps f = Inr x)" using f(1) by blast
qed

section \<open>Generated plans\<close>

lemma standard_plan_ok:
  assumes "plan_flows (standard_planner (to_agent_topology m) n setting) = Inr st" "wf_manifest m"
  shows "planner_ok (standard_planner (to_agent_topology m) n setting) st"
  by (rule candidates.plan_flows_ok [OF _ assms(1)])
    (simp_all add: standard_planner_def topology_clients_def projected_names_distinct [OF assms(2)])

lemma standard_plan_exists:
  assumes "wf_manifest m" "traffic_ready m"
  shows "\<exists>st. plan_flows (standard_planner (to_agent_topology m) n setting) = Inr st"
  by (rule standard.plan_flows_total)
    (use traffic_ready_client(1) [OF assms(2,1)] projected_names_distinct [OF assms(1)] in
      \<open>simp_all add: standard_planner_def topology_clients_def has_ip_def\<close>)

text \<open>The estimates of a plan the planner has made stay within its budgets.\<close>

lemma estimates_within_budget:
  assumes ok: "planner_ok P st" and P: "pn_estimate P = standard_flow_pps" "0 \<le> pn_max_pps_per_client P"
    and strings: "\<And>c. c \<in> set (topology_clients P) \<Longrightarrow> is_string (attached_switch c)"
  shows "\<exists>cp. standard_client_pps (st_flows st) = Inr cp \<and> maximum (map snd cp) \<le> of_int (pn_max_pps_per_client P)"
    and "\<exists>se. standard_switch_pps (pn_topology P) (st_flows st) = Inr se \<and>
      (\<forall>limit. pn_switch_pps_limit P = Some limit \<longrightarrow> 0 \<le> limit \<longrightarrow> se_max_switch_pps se \<le> of_int limit)"
    and "\<exists>up. total_udp_pps (pn_estimate P) (st_flows st) = Inr up"
proof -
  have rates: "rates_ok P st" using ok by (simp add: planner_ok_def)
  have est: "standard_flow_pps f = Inr (flow_pps P f) \<and> 0 \<le> flow_pps P f" if f: "f \<in> set (st_flows st)" for f
  proof -
    obtain x where "standard_flow_pps f = Inr x" using rates f P(1) by (auto simp: rates_ok_def Let_def)
    then show ?thesis
      using estimate_flow_nonneg [of udp_payload_len_bytes tcp_mss_bytes f x]
      by (simp add: flow_pps_def P(1) standard_flow_pps_def)
  qed
  obtain cp where cp: "standard_client_pps (st_flows st) = Inr cp" "distinct (map fst cp)"
    "\<And>c. load_at cp c = (if c = [] then 0 else sum_list (map (flow_pps P) (from_client c (st_flows st))))"
    using client_loads [of "st_flows st" standard_flow_pps "flow_pps P" "[]"] est
    by (auto simp: standard_client_pps_def estimate_client_pps_def)
  have "x \<le> of_int (pn_max_pps_per_client P)" if x: "x \<in> set (map snd cp)" for x
  proof -
    obtain c where "(c, x) \<in> set cp" using x by auto
    then have xc: "x = load_at cp c" using load_at_mem [OF cp(2)] by simp
    have "st_client_pps st c = sum_list (map (flow_pps P) (from_client c (st_flows st)))"
      using rates by (simp add: rates_ok_def Let_def)
    then show ?thesis using rates_okD(1) [OF rates, of c] P(2) cp(3) [of c] by (auto simp: xc)
  qed
  then show "\<exists>cp. standard_client_pps (st_flows st) = Inr cp \<and> maximum (map snd cp) \<le> of_int (pn_max_pps_per_client P)"
    using cp(1) P(2) maximum_le [of "map snd cp" "of_int (pn_max_pps_per_client P)"] by auto
  have "\<exists>u. foldE (\<lambda>f d. bindE (standard_flow_pps f) (\<lambda>x. Inr (add_pps x (fl_src f) d)))
      (filter (\<lambda>f. fl_protocol f = ''udp'') (st_flows st)) [] = Inr u \<and> True"
    by (rule foldE_succeeds) (use est in auto)
  then show "\<exists>up. total_udp_pps (pn_estimate P) (st_flows st) = Inr up" by (simp add: total_udp_pps_def P(1))
  define switch_of where "switch_of = (\<lambda>name. case find (\<lambda>c. entry_name c = name)
      (rev (device_group (pn_topology P) ''clients'')) of Some c \<Rightarrow> attached_switch c | None \<Rightarrow> None)"
  have "switch_of name = client_switch P name" for name
  proof -
    have "find (\<lambda>c. entry_name c = name \<and> is_string (attached_switch c)) cs = find (\<lambda>c. entry_name c = name) cs"
      if "set cs \<subseteq> set (topology_clients P)" for cs
      using that strings by (induction cs) auto
    then show ?thesis by (simp add: switch_of_def client_switch_def topology_clients_def)
  qed
  then obtain t where t: "foldE (switch_load_step standard_flow_pps (pn_topology P)) (st_flows st) (\<lambda>_. 0) = Inr t"
    "\<And>n. t n = sum_list (map (\<lambda>f. flow_load P f n) (st_flows st))"
    using switch_loads [OF _ _ switch_of_def, where flows = "st_flows st" and estimate = standard_flow_pps
        and g = "flow_pps P" and a = "\<lambda>f. client_switch P (fl_src f)"
        and b = "\<lambda>f. client_switch P (fl_dst f)" and ?t0.0 = "\<lambda>_. 0"]
      est by (auto simp: flow_load_def flow_path_def)
  have bound: "py_round 2 (maximum (map t ns)) \<le> of_int limit" if "pn_switch_pps_limit P = Some limit" "0 \<le> limit" for limit ns
  proof -
    have "t n \<le> of_int limit" for n
      using rates_okD(2) [OF rates that(1), of n] rates that(2) t(2) [of n] by (simp add: rates_ok_def Let_def)
    then show ?thesis using that(2) by (intro py_round_le_int maximum_le) auto
  qed
  show "\<exists>se. standard_switch_pps (pn_topology P) (st_flows st) = Inr se \<and>
      (\<forall>limit. pn_switch_pps_limit P = Some limit \<longrightarrow> 0 \<le> limit \<longrightarrow> se_max_switch_pps se \<le> of_int limit)"
    using t(1) bound by (simp add: standard_switch_pps_def estimate_switch_pps_def Let_def)
qed

end
