(* ===== verification/Traffic_Correctness.thy ===== *)
theory Traffic_Correctness
  imports Clos_Builder Traffic_Generator
begin

text \<open>
  The background traffic of a whole topology: plans exist, keep every budget and pass the check
  before they are started; the fabrics of the CLOS builder meet what that needs.
\<close>

section \<open>Budgets of a scale\<close>

lemma max_pps_known:
  assumes "get_scale_profile ps scale registry = Inr p" "0 < tp_max_pps_per_client (sp_traffic p)"
  obtains n where "max_pps_per_client ps scale limit registry = Inr n" "0 \<le> n"
proof
  show "max_pps_per_client ps scale limit registry = Inr (case limit of None \<Rightarrow> tp_max_pps_per_client (sp_traffic p)
      | Some l \<Rightarrow> max 1 (round_half_even (of_int (tp_max_pps_per_client (sp_traffic p)) * of_int l / base_switch_pps_limit)))"
    using assms(1) by (simp add: max_pps_per_client_def Let_def)
  show "0 \<le> (case limit of None \<Rightarrow> tp_max_pps_per_client (sp_traffic p)
      | Some l \<Rightarrow> max 1 (round_half_even (of_int (tp_max_pps_per_client (sp_traffic p)) * of_int l / base_switch_pps_limit)))"
    using assms(2) by (auto split: option.split)
qed

text \<open>\<open>settings or TrafficSettings()\<close>.\<close>

definition chosen_settings :: "traffic_settings option \<Rightarrow> traffic_settings" where
  "chosen_settings settings = (case settings of Some s \<Rightarrow> s | None \<Rightarrow> default_traffic_settings)"

lemma generated_unfold:
  assumes "generate_traffic_config_from_topology ps m scale profile_type settings registry = Inr cfg"
  obtains n st client_pps udp_pps switch_pps where "wf_manifest m"
    "plan_flows (standard_planner (to_agent_topology m) n (chosen_settings settings)) = Inr st"
    "tg_flows cfg = st_flows st"
    "tg_stats cfg = plan_stats (standard_planner (to_agent_topology m) n (chosen_settings settings)) st client_pps udp_pps switch_pps"
  using assms
  by (auto simp: generate_traffic_config_from_topology_def bindE_Inr_conv make_manifest_iff Let_def plan_traffic_def
      chosen_settings_def split: if_splits)

lemma client_names_standard: "client_names (standard_planner (to_agent_topology m) n s) = dev_name ` set (clients m)"
  by (simp add: client_names_def topology_clients_def standard_planner_def projected_clients image_image)

section \<open>CLOS fabrics are ready for traffic\<close>

lemma clos_traffic_ready:
  assumes "build_clos_plan d c = Inr fp"
  shows "wf_manifest (fp_manifest fp)" "traffic_ready (fp_manifest fp)"
proof -
  obtain a collector policy where v: "clos_valid c" "clos_addressed c a"
    and m: "fp_manifest fp = clos_manifest c a collector policy (clos_plans c a)"
    using build_clos_plan_Inr [OF assms] by blast
  show "wf_manifest (fp_manifest fp)" using clos_wf_manifest [OF v] by (simp add: m)
  have devs: "mf_devices (fp_manifest fp) = clos_devs c a"
    by (simp add: m clos_manifest_def clos_plans_devices [OF v])
  have "quad w x y z \<noteq> []" for w x y z by (simp add: quad_def)
  then show "traffic_ready (fp_manifest fp)"
    by (auto simp: traffic_ready_def clients_def devices_by_role_def devs clos_devs_def spine_dev_def leaf_dev_def client_dev_def)
qed

section \<open>Generation succeeds\<close>

lemma standard_traffic_generated:
  assumes "make_manifest m = Inr m" "traffic_ready m"
    and "get_scale_profile ps scale registry = Inr p" "0 < tp_max_pps_per_client (sp_traffic p)"
    and "\<forall>limit \<in> set_option (switch_pps_limit (chosen_settings settings)). 0 \<le> limit"
  shows "\<exists>cfg. generate_traffic_config_from_topology ps m scale ''standard'' settings registry = Inr cfg \<and>
    validate_traffic_config ps cfg scale settings registry = Inr True"
proof -
  let ?s = "chosen_settings settings"
  have wf: "wf_manifest m" using assms(1) by (simp add: make_manifest_iff)
  obtain n where n: "max_pps_per_client ps scale (switch_pps_limit ?s) registry = Inr n" "0 \<le> n"
    using max_pps_known [OF assms(3,4)] .
  let ?P = "standard_planner (to_agent_topology m) n ?s"
  have P: "pn_estimate ?P = standard_flow_pps" "pn_max_pps_per_client ?P = n"
    "pn_switch_pps_limit ?P = switch_pps_limit ?s" "pn_topology ?P = to_agent_topology m"
    by (simp_all add: standard_planner_def)
  obtain st where st: "plan_flows ?P = Inr st" using standard_plan_exists [OF wf assms(2)] by blast
  have strings: "is_string (attached_switch c)" if "c \<in> set (topology_clients ?P)" for c
    using traffic_ready_client(2) [OF assms(2) wf] that by (simp add: topology_clients_def P)
  have budget: "0 \<le> pn_max_pps_per_client ?P" using n(2) by (simp add: P)
  note est = estimates_within_budget [OF standard_plan_ok [OF st wf] P(1) budget strings]
  obtain cp where cp: "standard_client_pps (st_flows st) = Inr cp" "maximum (map snd cp) \<le> of_int n"
    using est(1) by (auto simp: P)
  obtain se where se: "standard_switch_pps (to_agent_topology m) (st_flows st) = Inr se"
    "\<And>l. switch_pps_limit ?s = Some l \<Longrightarrow> 0 \<le> l \<Longrightarrow> se_max_switch_pps se \<le> of_int l"
    using est(2) by (auto simp: P)
  obtain up where up: "total_udp_pps standard_flow_pps (st_flows st) = Inr up" using est(3) by (auto simp: P)
  let ?mtu = "infer_topology_link_mtu (to_agent_topology m) default_link_mtu"
  obtain cfg where cfg: "plan_traffic ?P scale ?mtu standard_client_pps standard_switch_pps = Inr cfg"
    "tg_stats cfg = plan_stats ?P st cp up se"
    using st cp(1) se(1) up by (simp add: plan_traffic_def P)
  have "generate_traffic_config_from_topology ps m scale ''standard'' settings registry = Inr cfg"
    using assms(1,3) n(1) cfg(1)
    by (simp add: generate_traffic_config_from_topology_def Let_def chosen_settings_def)
  moreover have "ts_estimated_max_pps_per_client (tg_stats cfg) \<le> of_int n"
    "ts_estimated_switch_pps (tg_stats cfg) = se"
    unfolding cfg(2) using cp(2) by (simp_all add: plan_stats_def Let_def py_round_le_int)
  then have "validate_traffic_config ps cfg scale settings registry = Inr True"
    using n(1) se(2) assms(5)
    by (auto simp: validate_traffic_config_def Let_def chosen_settings_def split: option.splits)
  ultimately show ?thesis by blast
qed

text \<open>The example fabric on its scale.\<close>

definition example_profile :: scale_profile where
  "example_profile = profile_row ''xs'' (ClosTopologyProfile 2 2 1) (24, 100) (None, 16, 8, 1) 250 (1800, 2, 60, None)"

lemma example_profile_known:
  "get_scale_profile builtin_profiles ''xs'' None = Inr example_profile"
  "0 < tp_max_pps_per_client (sp_traffic example_profile)"
  "\<forall>limit \<in> set_option (switch_pps_limit (chosen_settings None)). 0 \<le> limit"
  by code_simp+

lemma example_fabric:
  obtains fp where "build_clos_plan [] default_clos_example = Inr fp"
    "make_manifest (fp_manifest fp) = Inr (fp_manifest fp)" "traffic_ready (fp_manifest fp)"
proof -
  obtain fp where fp: "build_clos_plan [] default_clos_example = Inr fp"
    using build_clos_plan_succeeds [of default_clos_example "\<lparr>net_address = 2886996992, net_prefix = 24\<rparr>" _ "[]"]
      example_network by (auto simp: net_size_def)
  then show ?thesis using that clos_traffic_ready [OF fp] by (simp add: make_manifest_iff)
qed

section \<open>Properties\<close>

text \<open>
  C8. Background traffic exists and is admissible: for every accepted manifest whose clients have a data
  address and whose metadata does not shadow their switch, on a known scale and under a non-negative
  switch limit, the standard plan is generated, and it passes the check of its client and switch
  rates: the estimators, run over the planned flows, never exceed what the greedy planner admitted.
\<close>

theorem generated_traffic_valid:
  assumes "make_manifest m = Inr m" "traffic_ready m"
    and "get_scale_profile ps scale registry = Inr p" "0 < tp_max_pps_per_client (sp_traffic p)"
    and "\<forall>limit \<in> set_option (switch_pps_limit (chosen_settings settings)). 0 \<le> limit"
  shows "\<exists>cfg. generate_traffic_config_from_topology ps m scale ''standard'' settings registry = Inr cfg \<and>
    validate_traffic_config ps cfg scale settings registry = Inr True"
  using assms by (rule standard_traffic_generated)

theorem generated_traffic_valid_witness:
  "\<exists>fp cfg. build_clos_plan [] default_clos_example = Inr fp \<and>
     generate_traffic_config_from_topology builtin_profiles (fp_manifest fp) ''xs'' ''standard'' None None = Inr cfg \<and>
     validate_traffic_config builtin_profiles cfg ''xs'' None None = Inr True"
proof -
  obtain fp where fp: "build_clos_plan [] default_clos_example = Inr fp"
    "make_manifest (fp_manifest fp) = Inr (fp_manifest fp)" "traffic_ready (fp_manifest fp)" by (rule example_fabric)
  show ?thesis using fp(1) generated_traffic_valid [OF fp(2,3) example_profile_known] by blast
qed

text \<open>
  C28. The greedy planner keeps its budgets: in every generated plan the flows are numbered in order and join
  two different clients of the topology, no pair twice; a client starts at most four flows,
  alternating UDP and TCP, and receives at most four, on the consecutive listener ports from
  5201; and the totals of the statistics add up.
\<close>

theorem standard_traffic_budgets:
  assumes "generate_traffic_config_from_topology ps m scale profile_type settings registry = Inr cfg"
  shows "let flows = tg_flows cfg; stats = tg_stats cfg in
    map fl_id flows = map int [0..<length flows] \<and>
    distinct (map (\<lambda>f. (fl_src f, fl_dst f)) flows) \<and>
    (\<forall>f \<in> set flows. fl_src f \<noteq> fl_dst f \<and> {fl_src f, fl_dst f} \<subseteq> dev_name ` set (clients m)) \<and>
    (\<forall>c. length (from_client c flows) \<le> 4 \<and> length (to_client c flows) \<le> 4 \<and>
       map fl_protocol (from_client c flows) = take (length (from_client c flows)) [''udp'', ''tcp'', ''udp'', ''tcp''] \<and>
       map fl_dst_port (to_client c flows) = take (length (to_client c flows)) [5201, 5202, 5203, 5204]) \<and>
    ts_total_flows stats = int (length flows) \<and>
    ts_udp_flows stats + ts_tcp_flows stats = ts_total_flows stats \<and>
    ts_cross_switch_flows stats + ts_same_switch_flows stats = ts_total_flows stats"
proof -
  obtain n st cp up se where wf: "wf_manifest m"
    and st: "plan_flows (standard_planner (to_agent_topology m) n (chosen_settings settings)) = Inr st"
    and cfg: "tg_flows cfg = st_flows st"
      "tg_stats cfg = plan_stats (standard_planner (to_agent_topology m) n (chosen_settings settings)) st cp up se"
    using generated_unfold [OF assms] .
  let ?P = "standard_planner (to_agent_topology m) n (chosen_settings settings)" and ?flows = "st_flows st"
  have P: "pn_flows_per_client ?P = 4" "pn_port_pool_size ?P = 4" "pn_port_base ?P = 5201"
    by (simp_all add: standard_planner_def flows_per_client_def traffic_listener_port_pool_size_def traffic_listener_port_base_def)
  have ok: "flows_ok ?P st" "counts_ok ?P st" using standard_plan_ok [OF st wf] by (simp_all add: planner_ok_def)
  have four: "map g [0..<k] = take k [g 0, g 1, g 2, g 3]" if "k \<le> 4" for g :: "nat \<Rightarrow> 'z" and k
  proof -
    have "[g 0, g 1, g 2, g 3] = map g [0..<4]" by (simp add: numeral_eq_Suc)
    then show ?thesis using that by (simp only: take_map take_upt add_0)
  qed
  have from4: "length (from_client c ?flows) \<le> 4" and to4: "length (to_client c ?flows) \<le> 4" for c
    using counts_okD(2-5) [OF ok(2), of c] by (simp_all add: P)
  have protocols: "map fl_protocol (from_client c ?flows) =
      take (length (from_client c ?flows)) [''udp'', ''tcp'', ''udp'', ''tcp'']" for c
  proof -
    have "map fl_protocol (from_client c ?flows) = map (\<lambda>k. if even k then ''udp'' else ''tcp'') [0..<length (from_client c ?flows)]"
      using ok(1) by (simp add: flows_ok_def Let_def)
    also have "\<dots> = take (length (from_client c ?flows)) [''udp'', ''tcp'', ''udp'', ''tcp'']"
      unfolding four [OF from4] by simp
    finally show ?thesis .
  qed
  have ports: "map fl_dst_port (to_client c ?flows) = take (length (to_client c ?flows)) [5201, 5202, 5203, 5204]" for c
    unfolding counts_okD(6) [OF ok(2)] four [OF to4] by (simp add: P)
  have "fl_protocol f \<in> {''udp'', ''tcp''}" if "f \<in> set ?flows" for f
  proof -
    have "fl_protocol f \<in> set (map fl_protocol (from_client (fl_src f) ?flows))" using that by (auto simp: from_client_def)
    then show ?thesis unfolding protocols by (auto dest: in_set_takeD)
  qed
  then have "filter (\<lambda>f. fl_protocol f = ''tcp'') ?flows = filter (\<lambda>f. fl_protocol f \<noteq> ''udp'') ?flows"
    by (intro filter_cong) auto
  then have "length (filter (\<lambda>f. fl_protocol f = ''udp'') ?flows) + length (filter (\<lambda>f. fl_protocol f = ''tcp'') ?flows) = length ?flows"
    using sum_length_filter_compl [of "\<lambda>f. fl_protocol f = ''udp''" ?flows] by simp
  then have "ts_udp_flows (tg_stats cfg) + ts_tcp_flows (tg_stats cfg) = int (length ?flows)"
    by (simp add: cfg(2) plan_stats_def Let_def flip: of_nat_add)
  then show ?thesis
    unfolding Let_def cfg(1)
    using ok from4 to4 protocols ports client_names_standard [of m n "chosen_settings settings"]
    by (auto simp: flows_ok_def counts_ok_def Let_def cfg(2) plan_stats_def)
qed

theorem standard_traffic_budgets_witness:
  "\<exists>fp cfg. build_clos_plan [] default_clos_example = Inr fp \<and>
     generate_traffic_config_from_topology builtin_profiles (fp_manifest fp) ''xs'' ''standard'' None None = Inr cfg \<and>
     length (from_client ''client1'' (tg_flows cfg)) \<le> 4 \<and> ts_total_flows (tg_stats cfg) = int (length (tg_flows cfg))"
proof -
  obtain fp where fp: "build_clos_plan [] default_clos_example = Inr fp"
    "make_manifest (fp_manifest fp) = Inr (fp_manifest fp)" "traffic_ready (fp_manifest fp)" by (rule example_fabric)
  obtain cfg where cfg: "generate_traffic_config_from_topology builtin_profiles (fp_manifest fp) ''xs'' ''standard'' None None = Inr cfg"
    using standard_traffic_generated [OF fp(2,3) example_profile_known] by blast
  show ?thesis using fp(1) cfg standard_traffic_budgets [OF cfg] by (auto simp: Let_def)
qed

end
