(* ===== verification/Regex.thy ===== *)
theory Regex
  imports Prelude
begin

text \<open>
  The part of Python's \<open>re\<close> the sources use: a backtracking matcher.  A match takes the first
  alternative that leads to an overall match, and repetition takes as much as it can first, so
  the captured groups are those of the library.  A position is the character before it and the
  text after it; a matcher is given what remains to be matched as a continuation.
\<close>

section \<open>Expressions\<close>

datatype regex =
    Epsilon
  | CharIn "char \<Rightarrow> bool"
  | Text string
  | Seq regex regex
  | Alt regex regex
  | Star regex
  | Capture nat regex
  | WordBoundary
  | LineEnd

definition seqs :: "regex list \<Rightarrow> regex" where
  "seqs rs = foldr Seq rs Epsilon"

definition alts :: "string list \<Rightarrow> regex" where
  "alts ss = foldr (\<lambda>s r. Alt (Text s) r) (butlast ss) (Text (last ss))"

definition re_plus :: "regex \<Rightarrow> regex" where
  "re_plus r = Seq r (Star r)"

definition re_optional :: "regex \<Rightarrow> regex" where
  "re_optional r = Alt r Epsilon"

fun re_times :: "nat \<Rightarrow> regex \<Rightarrow> regex" where
  "re_times 0 r = Epsilon"
| "re_times (Suc n) r = Seq r (re_times n r)"

text \<open>\<open>r{m,n}\<close> for \<open>n = m + k\<close>.\<close>

fun up_to :: "nat \<Rightarrow> regex \<Rightarrow> regex" where
  "up_to 0 r = Epsilon"
| "up_to (Suc n) r = re_optional (Seq r (up_to n r))"

definition re_repeat :: "nat \<Rightarrow> nat \<Rightarrow> regex \<Rightarrow> regex" where
  "re_repeat m k r = Seq (re_times m r) (up_to k r)"

abbreviation digit :: regex where
  "digit \<equiv> CharIn is_digit"

abbreviation space :: regex where
  "space \<equiv> CharIn is_space"

abbreviation nonspace :: regex where
  "nonspace \<equiv> CharIn (\<lambda>c. \<not> is_space c)"

definition is_word :: "char \<Rightarrow> bool" where
  "is_word c \<longleftrightarrow> is_digit c \<or> (CHR ''a'' \<le> c \<and> c \<le> CHR ''z'') \<or> (CHR ''A'' \<le> c \<and> c \<le> CHR ''Z'') \<or> c = CHR ''_''"

section \<open>The matcher\<close>

record position =
  ps_before :: "char option"
  ps_rest :: string
  ps_groups :: "(nat \<times> string) list"

type_synonym continuation = "position \<Rightarrow> position option"

definition advance :: "nat \<Rightarrow> position \<Rightarrow> position" where
  "advance n p =
     p\<lparr>ps_before := (if n = 0 then ps_before p else Some (ps_rest p ! (n - 1))), ps_rest := drop n (ps_rest p)\<rparr>"

definition or_else :: "'a option \<Rightarrow> 'a option \<Rightarrow> 'a option" where
  "or_else x y = (case x of None \<Rightarrow> y | Some v \<Rightarrow> Some v)"

text \<open>
  Repetition: another round first, as long as it consumes something, else the continuation.  A
  round that consumes leaves less text, so the length of the text bounds the rounds.
\<close>

fun re_star :: "nat \<Rightarrow> (position \<Rightarrow> continuation \<Rightarrow> position option) \<Rightarrow> position \<Rightarrow> continuation \<Rightarrow> position option" where
  "re_star 0 step p k = k p"
| "re_star (Suc n) step p k =
     or_else (step p (\<lambda>q. if length (ps_rest q) < length (ps_rest p) then re_star n step q k else None)) (k p)"

definition at_word_boundary :: "position \<Rightarrow> bool" where
  "at_word_boundary p \<longleftrightarrow>
     ((case ps_before p of Some c \<Rightarrow> is_word c | None \<Rightarrow> False) \<noteq> (ps_rest p \<noteq> [] \<and> is_word (hd (ps_rest p))))"

primrec re_run :: "regex \<Rightarrow> position \<Rightarrow> continuation \<Rightarrow> position option" where
  "re_run Epsilon p k = k p"
| "re_run (CharIn P) p k =
     (if ps_rest p \<noteq> [] \<and> P (hd (ps_rest p)) then k (advance 1 p) else None)"
| "re_run (Text s) p k = (if starts_with s (ps_rest p) then k (advance (length s) p) else None)"
| "re_run (Seq r s) p k = re_run r p (\<lambda>q. re_run s q k)"
| "re_run (Alt r s) p k = or_else (re_run r p k) (re_run s p k)"
| "re_run (Star r) p k = re_star (Suc (length (ps_rest p))) (re_run r) p k"
| "re_run (Capture n r) p k =
     re_run r p (\<lambda>q. k (q\<lparr>ps_groups :=
       (n, take (length (ps_rest p) - length (ps_rest q)) (ps_rest p)) # ps_groups q\<rparr>))"
| "re_run WordBoundary p k = (if at_word_boundary p then k p else None)"
| "re_run LineEnd p k = (if ps_rest p = [] \<or> ps_rest p = [CHR 0x0A] then k p else None)"

text \<open>A match: its groups; group 0 is the whole matched text.\<close>

type_synonym groups = "(nat \<times> string) list"

definition match_at :: "regex \<Rightarrow> char option \<Rightarrow> string \<Rightarrow> groups option" where
  "match_at r prev s =
     map_option ps_groups (re_run (Capture 0 r) \<lparr>ps_before = prev, ps_rest = s, ps_groups = []\<rparr> Some)"

definition group_text :: "nat \<Rightarrow> groups \<Rightarrow> string option" where
  "group_text n gs = map_of gs n"

definition re_match :: "regex \<Rightarrow> string \<Rightarrow> groups option" where
  "re_match r s = match_at r None s"

fun search_from :: "regex \<Rightarrow> char option \<Rightarrow> string \<Rightarrow> groups option" where
  "search_from r prev [] = match_at r prev []"
| "search_from r prev (c # cs) = or_else (match_at r prev (c # cs)) (search_from r (Some c) cs)"

definition re_search :: "regex \<Rightarrow> string \<Rightarrow> groups option" where
  "re_search r s = search_from r None s"

text \<open>\<open>re.IGNORECASE\<close> on ASCII: pattern texts in lower case against the lowered text.\<close>

definition re_found :: "regex \<Rightarrow> string \<Rightarrow> bool" where
  "re_found r s \<longleftrightarrow> re_search r s \<noteq> None"

section \<open>Matching text and runs of characters\<close>

lemma or_else_simps [simp]: "or_else None y = y" "or_else (Some v) y = Some v"
  by (simp_all add: or_else_def)

lemma re_run_seqs [simp]:
  "re_run (seqs []) p k = k p"
  "re_run (seqs (r # rs)) p k = re_run r p (\<lambda>q. re_run (seqs rs) q k)"
  by (simp_all add: seqs_def)

lemma run_text_append:
  "re_run (Text s) \<lparr>ps_before = b, ps_rest = s @ t, ps_groups = gs\<rparr> k =
     k \<lparr>ps_before = (if s = [] then b else Some (last s)), ps_rest = t, ps_groups = gs\<rparr>"
  by (auto simp: advance_def last_conv_nth nth_append)

text \<open>
  A greedy run of a character class followed by a position where the class cannot continue takes
  exactly the run, provided the rest of the pattern matches there.
\<close>

lemma re_run_class:
  "re_run (CharIn P) \<lparr>ps_before = b, ps_rest = c # s, ps_groups = gs\<rparr> k =
     (if P c then k \<lparr>ps_before = Some c, ps_rest = s, ps_groups = gs\<rparr> else None)"
  "re_run (CharIn P) \<lparr>ps_before = b, ps_rest = [], ps_groups = gs\<rparr> k = None"
  by (simp_all add: advance_def)

lemma re_star_class:
  assumes "list_all P u" "t = [] \<or> \<not> P (hd t)" "length u < n"
    and "k \<lparr>ps_before = (if u = [] then b else Some (last u)), ps_rest = t, ps_groups = gs\<rparr> = Some r"
  shows "re_star n (re_run (CharIn P)) \<lparr>ps_before = b, ps_rest = u @ t, ps_groups = gs\<rparr> k = Some r"
  using assms
proof (induction u arbitrary: n b)
  case Nil
  then show ?case by (cases n; cases t) (simp_all add: re_run_class del: re_run.simps)
next
  case (Cons c u)
  obtain m where n: "n = Suc m" using Cons.prems(3) by (cases n) auto
  have "re_star m (re_run (CharIn P)) \<lparr>ps_before = Some c, ps_rest = u @ t, ps_groups = gs\<rparr> k = Some r"
    using Cons.prems n by (intro Cons.IH) (auto split: if_splits)
  then show ?case using Cons.prems(1) by (simp add: n re_run_class del: re_run.simps)
qed

lemma re_plus_class:
  assumes "list_all P u" "u \<noteq> []" "t = [] \<or> \<not> P (hd t)"
    and "k \<lparr>ps_before = Some (last u), ps_rest = t, ps_groups = gs\<rparr> = Some r"
  shows "re_run (re_plus (CharIn P)) \<lparr>ps_before = b, ps_rest = u @ t, ps_groups = gs\<rparr> k = Some r"
proof -
  obtain c v where u: "u = c # v" using assms(2) by (cases u) auto
  have "re_star (Suc (length (v @ t))) (re_run (CharIn P)) \<lparr>ps_before = Some c, ps_rest = v @ t, ps_groups = gs\<rparr> k = Some r"
    using assms by (intro re_star_class) (auto simp: u split: if_splits)
  then show ?thesis
    using assms(1) unfolding re_plus_def u by (simp add: re_run_class del: re_run.simps(2) re_star.simps)
qed

end
