(* ===== verification/Json_Text.thy ===== *)
theory Json_Text
  imports Json_Payloads Regex
begin

text \<open>
  \<open>json.loads\<close>: the value a text denotes.  A float keeps its text, the later of two equal keys of
  an object wins, and a \<open>\u\<close> escape is read as one code point of up to three UTF-8 bytes.
\<close>

section \<open>Strings and numbers\<close>

definition skip_space :: "string \<Rightarrow> string" where
  "skip_space = dropWhile (\<lambda>c. c \<in> {CHR '' '', CHR 0x09, CHR 0x0A, CHR 0x0D})"

definition hex_val :: "char \<Rightarrow> nat option" where
  "hex_val c =
     (let n = of_char c :: nat
      in if is_digit c then Some (n - 48)
         else if CHR ''a'' \<le> c \<and> c \<le> CHR ''f'' then Some (n - 87)
         else if CHR ''A'' \<le> c \<and> c \<le> CHR ''F'' then Some (n - 55) else None)"

definition utf8 :: "nat \<Rightarrow> string" where
  "utf8 n =
     (if n < 128 then [char_of n]
      else if n < 2048 then [char_of (192 + n div 64), char_of (128 + n mod 64)]
      else [char_of (224 + n div 4096), char_of (128 + n div 64 mod 64), char_of (128 + n mod 64)])"

definition hex4 :: "char \<Rightarrow> char \<Rightarrow> char \<Rightarrow> char \<Rightarrow> nat option" where
  "hex4 a b c d =
     (case (hex_val a, hex_val b, hex_val c, hex_val d) of
        (Some x, Some y, Some z, Some w) \<Rightarrow> Some (((x * 16 + y) * 16 + z) * 16 + w) | _ \<Rightarrow> None)"

definition simple_escape :: "char \<Rightarrow> char option" where
  "simple_escape c =
     map_of [(CHR 0x22, CHR 0x22), (CHR 0x5C, CHR 0x5C), (CHR ''/'', CHR ''/''), (CHR ''b'', CHR 0x08),
             (CHR ''f'', CHR 0x0C), (CHR ''n'', CHR 0x0A), (CHR ''r'', CHR 0x0D), (CHR ''t'', CHR 0x09)] c"

text \<open>The text after an opening quote.\<close>

fun scan_string :: "string \<Rightarrow> (string \<times> string) option" where
  "scan_string [] = None"
| "scan_string (c # s) =
     (if c = CHR 0x22 then Some ([], s)
      else if c = CHR 0x5C then
        (case s of
           [] \<Rightarrow> None
         | e # t \<Rightarrow>
             if e = CHR ''u'' then
               (case t of
                  h1 # h2 # h3 # h4 # u \<Rightarrow>
                    (case (hex4 h1 h2 h3 h4, scan_string u) of
                       (Some n, Some (text', rest)) \<Rightarrow> Some (utf8 n @ text', rest) | _ \<Rightarrow> None)
                | _ \<Rightarrow> None)
             else
               (case (simple_escape e, scan_string t) of
                  (Some x, Some (text', rest)) \<Rightarrow> Some (x # text', rest) | _ \<Rightarrow> None))
      else if (of_char c :: nat) < 32 then None
      else (case scan_string s of Some (text', rest) \<Rightarrow> Some (c # text', rest) | None \<Rightarrow> None))"

definition json_number :: regex where
  "json_number =
     seqs [Capture 1 (seqs [re_optional (Text ''-''),
             Alt (Text ''0'') (Seq (CharIn (\<lambda>c. is_digit c \<and> c \<noteq> CHR ''0'')) (Star digit))]),
           Capture 2 (re_optional (seqs [Text ''.'', re_plus digit])),
           Capture 3 (re_optional (seqs [CharIn (\<lambda>c. c = CHR ''e'' \<or> c = CHR ''E''),
             re_optional (CharIn (\<lambda>c. c = CHR ''+'' \<or> c = CHR ''-'')), re_plus digit]))]"

definition signed_int :: "string \<Rightarrow> int" where
  "signed_int s =
     (if s \<noteq> [] \<and> hd s = CHR ''-'' then - int (digits_val (tl s)) else int (digits_val s))"

definition scan_number :: "string \<Rightarrow> (json \<times> string) option" where
  "scan_number s =
     (case re_match json_number s of
        None \<Rightarrow> None
      | Some gs \<Rightarrow>
          (let whole = the (group_text 0 gs)
           in Some (if group_text 2 gs = Some [] \<and> group_text 3 gs = Some [] then JInt (signed_int whole)
                    else JFloat whole, drop (length whole) s)))"

definition json_words :: "(string \<times> json) list" where
  "json_words =
     [(''null'', JNull), (''true'', JBool True), (''false'', JBool False), (''NaN'', JFloat ''nan''),
      (''Infinity'', JFloat ''inf''), (''-Infinity'', JFloat ''-inf'')]"

section \<open>Values\<close>

text \<open>Every step into a value consumes a character, so the length of the text is fuel enough.\<close>

fun scan_value :: "nat \<Rightarrow> string \<Rightarrow> (json \<times> string) option"
  and scan_items :: "nat \<Rightarrow> string \<Rightarrow> (json list \<times> string) option"
  and scan_members :: "nat \<Rightarrow> (string, json) dict \<Rightarrow> string \<Rightarrow> ((string, json) dict \<times> string) option" where
  "scan_value 0 s = None"
| "scan_value (Suc n) s =
     (case s of
        [] \<Rightarrow> None
      | c # t \<Rightarrow>
          if c = CHR 0x22 then map_option (\<lambda>(x, rest). (JStr x, rest)) (scan_string t)
          else if c = CHR ''['' then
            (case skip_space t of
               [] \<Rightarrow> None
             | d # u \<Rightarrow> if d = CHR '']'' then Some (JList [], u)
                       else map_option (\<lambda>(xs, rest). (JList xs, rest)) (scan_items n (d # u)))
          else if c = CHR ''{'' then
            (case skip_space t of
               [] \<Rightarrow> None
             | d # u \<Rightarrow> if d = CHR ''}'' then Some (JObj [], u)
                       else map_option (\<lambda>(kvs, rest). (JObj kvs, rest)) (scan_members n [] (d # u)))
          else
            (case find (\<lambda>(w, v). starts_with w s) json_words of
               Some (w, v) \<Rightarrow> Some (v, drop (length w) s)
             | None \<Rightarrow> scan_number s))"
| "scan_items 0 s = None"
| "scan_items (Suc n) s =
     (case scan_value n s of
        None \<Rightarrow> None
      | Some (v, rest) \<Rightarrow>
          (case skip_space rest of
             [] \<Rightarrow> None
           | c # t \<Rightarrow> if c = CHR '']'' then Some ([v], t)
                     else if c = CHR '','' then map_option (\<lambda>(vs, u). (v # vs, u)) (scan_items n (skip_space t))
                     else None))"
| "scan_members 0 kvs s = None"
| "scan_members (Suc n) kvs s =
     (case s of
        [] \<Rightarrow> None
      | q # t \<Rightarrow>
          if q \<noteq> CHR 0x22 then None
          else
            (case scan_string t of
               None \<Rightarrow> None
             | Some (key, rest) \<Rightarrow>
                 (case skip_space rest of
                    [] \<Rightarrow> None
                  | c # u \<Rightarrow>
                      if c \<noteq> CHR '':'' then None
                      else
                        (case scan_value n (skip_space u) of
                           None \<Rightarrow> None
                         | Some (v, rest') \<Rightarrow>
                             (case skip_space rest' of
                                [] \<Rightarrow> None
                              | d # w \<Rightarrow>
                                  if d = CHR ''}'' then Some (dict_set kvs key v, w)
                                  else if d = CHR '','' then scan_members n (dict_set kvs key v) (skip_space w)
                                  else None)))))"

definition json_loads :: "string \<Rightarrow> json option" where
  "json_loads s =
     (case scan_value (2 * length s + 2) (skip_space s) of
        Some (v, rest) \<Rightarrow> if skip_space rest = [] then Some v else None
      | None \<Rightarrow> None)"

text \<open>A route table as \<open>ip -j route\<close> prints it, and a broken one.\<close>

lemma json_loads_examples:
  \<open>json_loads ''[ {"dst":"default", "metric": -20 , "x":[1.50e3,true]} ] ''
    = Some (JList [JObj [(''dst'', JStr ''default''), (''metric'', JInt (- 20)),
        (''x'', JList [JFloat ''1.50e3'', JBool True])]])\<close>
  \<open>json_loads ''[{"dst":"default",}]'' = None\<close>
  by code_simp+

end
