(* ===== verification/Python_Text.thy ===== *)
theory Python_Text
  imports Effects Json_Text
begin

text \<open>
  The operations on texts of Python that the sources read the output of devices and databases
  with: lines, words, substrings and numbers.
\<close>

section \<open>Lines, words and numbers\<close>

definition is_line_break :: "char \<Rightarrow> bool" where
  "is_line_break c \<longleftrightarrow> c \<in> {CHR 0x0A, CHR 0x0B, CHR 0x0C, CHR 0x0D, CHR 0x1C, CHR 0x1D, CHR 0x1E}"

text \<open>\<open>s.splitlines()\<close>; a carriage return and a newline together are one break.\<close>

fun splitlines :: "string \<Rightarrow> string list" where
  "splitlines [] = []"
| "splitlines (c # s) =
     (if is_line_break c then
        [] # (if c = CHR 0x0D \<and> s \<noteq> [] \<and> hd s = CHR 0x0A then splitlines (tl s) else splitlines s)
      else (case splitlines s of [] \<Rightarrow> [[c]] | l # ls \<Rightarrow> (c # l) # ls))"

text \<open>\<open>s.split()\<close>.\<close>

fun words_from :: "string \<Rightarrow> string \<Rightarrow> string list" where
  "words_from w [] = (if w = [] then [] else [rev w])"
| "words_from w (c # s) =
     (if is_space c then (if w = [] then words_from [] s else rev w # words_from [] s) else words_from (c # w) s)"

definition str_words :: "string \<Rightarrow> string list" where
  "str_words s = words_from [] s"

text \<open>\<open>needle in s\<close>.\<close>

fun contains :: "string \<Rightarrow> string \<Rightarrow> bool" where
  "contains needle [] = (needle = [])"
| "contains needle (c # s) = (starts_with needle (c # s) \<or> contains needle s)"

text \<open>\<open>int(s)\<close>, or \<open>None\<close> where Python raises \<open>ValueError\<close>.\<close>

definition int_of_text :: "string \<Rightarrow> int option" where
  "int_of_text s =
     (let t = str_strip s;
          u = (if t \<noteq> [] \<and> (hd t = CHR ''-'' \<or> hd t = CHR ''+'') then tl t else t)
      in if u = [] \<or> \<not> list_all is_digit u then None
         else Some (if hd t = CHR ''-'' then - int (digits_val u) else int (digits_val u)))"

text \<open>\<open>f"{value}"\<close> of a number or a text.\<close>

fun json_text :: "json \<Rightarrow> string" where
  "json_text JNull = ''None''"
| "json_text (JBool b) = (if b then ''True'' else ''False'')"
| "json_text (JInt i) = int_str i"
| "json_text (JFloat t) = t"
| "json_text (JStr s) = s"
| "json_text _ = []"

text \<open>\<open>a or b\<close> on texts, and \<open>"; ".join(filter(None, parts))\<close>.\<close>

definition text_or :: "string \<Rightarrow> string \<Rightarrow> string" where
  "text_or a b = (if a \<noteq> [] then a else b)"

definition join_given :: "string list \<Rightarrow> string" where
  "join_given parts = str_join ''; '' (filter (\<lambda>s. s \<noteq> []) parts)"

end
