(* ===== verification/Fault_Runtime.thy ===== *)
theory Fault_Runtime
  imports Python_Text Fault_Types Interface_Names Topology_Model
begin

text \<open>
  \<open>netopsbench/platform/faults/services/\<close>, \<open>context.py\<close> and \<open>ActiveFault\<close> of \<open>models.py\<close>: how fault
  handlers reach devices and remember what they changed.  The laboratory is a parameter: a
  subprocess is a function of its command line and of the state \<open>'w\<close> of the world, which it may
  change in any way.  A handler is an action on the world and the fault tracker together.
\<close>

section \<open>The laboratory\<close>

record completed =
  cp_returncode :: int
  cp_stdout :: string
  cp_stderr :: string

datatype outcome = Finished completed | TimedOut string string | OsFailed string

text \<open>
  \<open>lb_subprocess\<close> is \<open>subprocess.run\<close>; \<open>lb_alive\<close> joins a background thread for at most the given time
  and says whether it is still alive; \<open>lb_activate\<close> pushes a device's configuration again
  (\<open>activate_device\<close> of \<open>platform/runtime/apply_configs.py\<close>, not modelled).
\<close>

record 'w lab =
  lb_subprocess :: "string list \<Rightarrow> 'w \<Rightarrow> outcome \<times> 'w"
  lb_docker_prefix :: "string list"
  lb_sudo_prefix :: "string list"
  lb_sleep :: "rat \<Rightarrow> 'w \<Rightarrow> 'w"
  lb_clock :: "'w \<Rightarrow> rat \<times> 'w"
  lb_alive :: "string \<Rightarrow> rat \<Rightarrow> 'w \<Rightarrow> bool \<times> 'w"
  lb_activate :: "string \<Rightarrow> 'w \<Rightarrow> (bool \<times> string) \<times> 'w"

record fault_context =
  fx_manifest :: manifest
  fx_topology_dir :: string

definition clab_container_name :: "string \<Rightarrow> string \<Rightarrow> string" where
  "clab_container_name lab_name device_name = ''clab-'' @ lab_name @ ''-'' @ device_name"

definition topology_file :: "fault_context \<Rightarrow> string" where
  "topology_file cx = fx_topology_dir cx @ ''/'' @ mf_name (fx_manifest cx) @ ''.clab.yaml''"

definition container_names :: "fault_context \<Rightarrow> string \<Rightarrow> string option" where
  "container_names cx device =
     (if device \<in> dev_name ` set (mf_devices (fx_manifest cx))
      then Some (clab_container_name (mf_name (fx_manifest cx)) device) else None)"

section \<open>Active faults\<close>

text \<open>A missing value is \<open>null\<close>.\<close>

record active_fault =
  af_type :: json
  af_device :: json
  af_interface :: json
  af_success :: json
  af_error :: json
  af_metadata :: "(string, json) dict"

definition fault_to_dict :: "active_fault \<Rightarrow> (string, json) dict" where
  "fault_to_dict f =
     dict_update ([(''type'', af_type f), (''success'', af_success f), (''error'', af_error f)]
       @ (if af_device f \<noteq> JNull then [(''device'', af_device f)] else [])
       @ (if af_interface f \<noteq> JNull then [(''interface'', af_interface f)] else [])) (af_metadata f)"

definition fault_get :: "active_fault \<Rightarrow> string \<Rightarrow> json" where
  "fault_get f k = dict_get_default (fault_to_dict f) k JNull"

text \<open>\<open>fault[key]\<close>.\<close>

definition fault_item :: "active_fault \<Rightarrow> string \<Rightarrow> json result" where
  "fault_item f k = (case dict_get (fault_to_dict f) k of Some v \<Rightarrow> Inr v | None \<Rightarrow> Inl (LookupKeyError k))"

definition fault_from_dict :: "(string, json) dict \<Rightarrow> active_fault result" where
  "fault_from_dict payload =
     (case dict_get payload ''type'' of
        None \<Rightarrow> Inl (LookupKeyError ''type'')
      | Some t \<Rightarrow> Inr \<lparr>af_type = t, af_device = dict_get_default payload ''device'' JNull,
                      af_interface = dict_get_default payload ''interface'' JNull,
                      af_success = dict_get_default payload ''success'' (JBool True),
                      af_error = dict_get_default payload ''error'' JNull,
                      af_metadata = filter (\<lambda>(k, v). k \<notin> {''type'', ''device'', ''interface'', ''success'', ''error''}) payload\<rparr>)"

section \<open>The tracker\<close>

text \<open>A background control says whether its stop event is set.\<close>

record tracker =
  tk_active :: "active_fault list"
  tk_background :: "(string, bool) dict"

record 'w site =
  si_world :: 'w
  si_tracker :: tracker

text \<open>Reading the state, and a result computed without effects.\<close>

definition getS :: "('s \<Rightarrow> 'a) \<Rightarrow> ('s, 'a) action" where
  "getS f s = (Inr (f s), s)"

definition liftS :: "'a result \<Rightarrow> ('s, 'a) action" where
  "liftS r s = (r, s)"

lemma bind_lift: "bindS (liftS (Inr x)) f = f x"
  by (simp add: fun_eq_iff bindS_def liftS_def)

definition set_tracker :: "(tracker \<Rightarrow> tracker) \<Rightarrow> ('w site, unit) action" where
  "set_tracker f s = (Inr (), s\<lparr>si_tracker := f (si_tracker s)\<rparr>)"

definition track :: "(string, json) dict \<Rightarrow> ('w site, active_fault) action" where
  "track fault_info =
     bindS (liftS (fault_from_dict fault_info)) (\<lambda>fault.
     bindS (set_tracker (\<lambda>t. t\<lparr>tk_active := tk_active t @ [fault]\<rparr>)) (\<lambda>_. returnS fault))"

definition residual_payload :: "(string, json) dict \<Rightarrow> string \<Rightarrow> (string, json) dict" where
  "residual_payload fault_info message =
     dict_update fault_info [(''success'', JBool False), (''error'', JStr message), (''residual_mutation'', JBool True)]"

definition track_residual :: "(string, json) dict \<Rightarrow> string \<Rightarrow> ('w site, active_fault) action" where
  "track_residual fault_info message = track (residual_payload fault_info message)"

definition register_background_control :: "string \<Rightarrow> ('w site, unit) action" where
  "register_background_control control_id =
     set_tracker (\<lambda>t. t\<lparr>tk_background := dict_set (tk_background t) control_id False\<rparr>)"

text \<open>\<open>own\<close>: the caller is the background thread itself, which cannot join itself.\<close>

definition stop_background :: "'w lab \<Rightarrow> string \<Rightarrow> rat \<Rightarrow> bool \<Rightarrow> ('w site, bool) action" where
  "stop_background lab control_id join_timeout own s =
     (if dict_get (tk_background (si_tracker s)) control_id = None then (Inr True, s)
      else
       (let t = si_tracker s; stopped = t\<lparr>tk_background := dict_set (tk_background t) control_id True\<rparr>;
            (alive, w) = (if own then (False, si_world s) else lb_alive lab control_id join_timeout (si_world s))
        in if alive then (Inr False, s\<lparr>si_world := w, si_tracker := stopped\<rparr>)
           else (Inr True, s\<lparr>si_world := w,
                  si_tracker := stopped\<lparr>tk_background := filter (\<lambda>(k, v). k \<noteq> control_id) (tk_background stopped)\<rparr>\<rparr>)))"

fun filterE :: "('a \<Rightarrow> bool result) \<Rightarrow> 'a list \<Rightarrow> 'a list result" where
  "filterE p [] = Inr []"
| "filterE p (x # xs) = bindE (p x) (\<lambda>b. bindE (filterE p xs) (\<lambda>ys. Inr (if b then x # ys else ys)))"

definition remove_faults :: "(active_fault \<Rightarrow> bool result) \<Rightarrow> ('w site, unit) action" where
  "remove_faults predicate s =
     (case filterE (\<lambda>f. bindE (predicate f) (\<lambda>b. Inr (\<not> b))) (tk_active (si_tracker s)) of
        Inl e \<Rightarrow> (Inl e, s)
      | Inr kept \<Rightarrow> (Inr (), s\<lparr>si_tracker := (si_tracker s)\<lparr>tk_active := kept\<rparr>\<rparr>))"

text \<open>\<open>fault[k1] == v1 and fault[k2] == v2 and ...\<close>, stopping at the first inequality.\<close>

fun fault_matches :: "(string \<times> json) list \<Rightarrow> active_fault \<Rightarrow> bool result" where
  "fault_matches [] f = Inr True"
| "fault_matches ((k, v) # kvs) f = bindE (fault_item f k) (\<lambda>x. if x = v then fault_matches kvs f else Inr False)"

section \<open>Commands\<close>

definition run_cmd :: "'w lab \<Rightarrow> string list \<Rightarrow> int \<Rightarrow> ('w site, completed) action" where
  "run_cmd lab args timeout s =
     (case lb_subprocess lab args (si_world s) of
        (out, w) \<Rightarrow>
          (Inr (case out of
             Finished c \<Rightarrow> c
           | TimedOut stdout stderr \<Rightarrow>
               \<lparr>cp_returncode = 124, cp_stdout = stdout,
                cp_stderr = text_or stderr (''command timed out after '' @ int_str timeout @ ''s'')\<rparr>
           | OsFailed message \<Rightarrow> \<lparr>cp_returncode = 127, cp_stdout = [], cp_stderr = message\<rparr>),
           s\<lparr>si_world := w\<rparr>))"

definition docker_exec :: "'w lab \<Rightarrow> string \<Rightarrow> string list \<Rightarrow> int \<Rightarrow> ('w site, completed) action" where
  "docker_exec lab container cmd_args timeout =
     run_cmd lab ((lb_docker_prefix lab @ [''docker'', ''exec'', container]) @ cmd_args) timeout"

text \<open>The default time-out of \<open>docker_exec\<close>.\<close>

definition exec :: "'w lab \<Rightarrow> string \<Rightarrow> string list \<Rightarrow> ('w site, completed) action" where
  "exec lab container cmd_args = docker_exec lab container cmd_args 30"

definition sleepS :: "'w lab \<Rightarrow> rat \<Rightarrow> ('w site, unit) action" where
  "sleepS lab seconds s = (Inr (), s\<lparr>si_world := lb_sleep lab seconds (si_world s)\<rparr>)"

definition clockS :: "'w lab \<Rightarrow> ('w site, rat) action" where
  "clockS lab s = (case lb_clock lab (si_world s) of (t, w) \<Rightarrow> (Inr t, s\<lparr>si_world := w\<rparr>))"

text \<open>Python's three-valued readings: \<open>None\<close> is an unreadable state.\<close>

definition container_is_running :: "'w lab \<Rightarrow> string \<Rightarrow> ('w site, bool option) action" where
  "container_is_running lab container =
     bindS (run_cmd lab (lb_docker_prefix lab @ [''docker'', ''inspect'', ''-f'', ''{{.State.Running}}'', container]) 10)
       (\<lambda>r. returnS
          (if cp_returncode r \<noteq> 0 then None
           else let state = str_lower (str_strip (cp_stdout r))
                in if state = ''true'' then Some True else if state = ''false'' then Some False else None))"

section \<open>SONiC commands\<close>

definition known_container :: "fault_context \<Rightarrow> string \<Rightarrow> ('s, string) action" where
  "known_container cx device =
     (case container_names cx device of
        Some c \<Rightarrow> returnS c | None \<Rightarrow> raiseS (ValueError (''Unknown device: '' @ device)))"

definition supervisord_ready :: "'w lab \<Rightarrow> string \<Rightarrow> ('w site, bool) action" where
  "supervisord_ready lab container =
     bindS (docker_exec lab container [''supervisorctl'', ''pid''] 10) (\<lambda>r.
       returnS (cp_returncode r = 0 \<and> str_strip (cp_stdout r) \<noteq> [] \<and> list_all is_digit (str_strip (cp_stdout r))))"

definition vtysh :: "'w lab \<Rightarrow> fault_context \<Rightarrow> string \<Rightarrow> string list \<Rightarrow> ('w site, completed) action" where
  "vtysh lab cx device commands =
     bindS (known_container cx device) (\<lambda>container.
       exec lab container (''vtysh'' # concat (map (\<lambda>c. [''-c'', c]) commands)))"

definition config_cmd :: "'w lab \<Rightarrow> fault_context \<Rightarrow> string \<Rightarrow> string list \<Rightarrow> ('w site, completed) action" where
  "config_cmd lab cx device args =
     bindS (known_container cx device) (\<lambda>container. exec lab container (''config'' # args))"

text \<open>\<open>^\d+\.\d+\.\d+\.\d+\<close>.\<close>

definition address_start :: regex where
  "address_start = seqs [re_plus digit, Text ''.'', re_plus digit, Text ''.'', re_plus digit, Text ''.'', re_plus digit]"

definition bgp_neighbor_states :: "string \<Rightarrow> string list" where
  "bgp_neighbor_states out =
     List.map_filter (\<lambda>raw_line.
       let line = str_strip raw_line; parts = str_words line
       in if re_match address_start line \<noteq> None \<and> 10 \<le> length parts then Some (parts ! 9) else None)
     (splitlines out)"

definition all_digits :: "string \<Rightarrow> bool" where
  "all_digits s \<longleftrightarrow> s \<noteq> [] \<and> list_all is_digit s"

definition bgp_neighbors_established :: "'w lab \<Rightarrow> fault_context \<Rightarrow> string \<Rightarrow> ('w site, bool) action" where
  "bgp_neighbors_established lab cx device =
     bindS (vtysh lab cx device [''show ip bgp summary'']) (\<lambda>r.
       let out = cp_stdout r @ [CHR 0x0A] @ cp_stderr r; lower = str_lower out;
           states = bgp_neighbor_states out
       in returnS (cp_returncode r = 0 \<and> \<not> contains ''bgpd is not running'' lower \<and>
            \<not> contains ''failed to connect to any daemons'' lower \<and> \<not> contains ''% bgp instance not found'' lower \<and>
            states \<noteq> [] \<and> list_all all_digits states))"

definition bgp_neighbor_state :: "'w lab \<Rightarrow> fault_context \<Rightarrow> string \<Rightarrow> string \<Rightarrow> ('w site, bool option) action" where
  "bgp_neighbor_state lab cx device peer_ip =
     bindS (vtysh lab cx device [''show ip bgp summary'']) (\<lambda>r.
       returnS (if cp_returncode r \<noteq> 0 then None
                else (case find (\<lambda>parts. 10 \<le> length parts \<and> hd parts = peer_ip) (map str_words (splitlines (cp_stdout r))) of
                        Some parts \<Rightarrow> Some (all_digits (parts ! 9)) | None \<Rightarrow> Some False)))"

section \<open>Interface MTUs\<close>

definition sonic_min_interface_mtu :: int where
  "sonic_min_interface_mtu = 68"

definition sonic_max_interface_mtu :: int where
  "sonic_max_interface_mtu = 9216"

definition sonic_default_interface_mtu :: int where
  "sonic_default_interface_mtu = 9100"

definition is_valid_sonic_mtu :: "int option \<Rightarrow> bool" where
  "is_valid_sonic_mtu mtu \<longleftrightarrow>
     (case mtu of Some v \<Rightarrow> sonic_min_interface_mtu \<le> v \<and> v \<le> sonic_max_interface_mtu | None \<Rightarrow> False)"

text \<open>The word after the first \<open>mtu\<close> that has one.\<close>

fun word_after :: "string \<Rightarrow> string list \<Rightarrow> string option" where
  "word_after w (x # y # xs) = (if x = w then Some y else word_after w (y # xs))"
| "word_after w _ = None"

definition parse_link_mtu :: "string \<Rightarrow> int option" where
  "parse_link_mtu out =
     (case word_after ''mtu'' (str_words out) of
        Some candidate \<Rightarrow> if is_valid_sonic_mtu (int_of_text candidate) then int_of_text candidate else None
      | None \<Rightarrow> None)"

text \<open>One key of the \<open>PORT\<close> table: its MTU is counted when it is valid.\<close>

definition count_port :: "'w lab \<Rightarrow> string \<Rightarrow> string option \<Rightarrow> string \<Rightarrow> (int, nat) dict \<Rightarrow> ('w site, (int, nat) dict) action" where
  "count_port lab container excluded raw_key counts =
     (let key = str_strip raw_key
      in if \<not> starts_with ''PORT|'' key \<or> Some key = excluded then returnS counts
         else bindS (exec lab container [''sonic-db-cli'', ''CONFIG_DB'', ''hget'', key, ''mtu'']) (\<lambda>r.
           let mtu = int_of_text (str_strip (cp_stdout r))
           in returnS (if is_valid_sonic_mtu mtu
                       then dict_set counts (the mtu) (dict_get_default counts (the mtu) 0 + 1) else counts)))"

fun foldS :: "('a \<Rightarrow> 'b \<Rightarrow> ('s, 'b) action) \<Rightarrow> 'a list \<Rightarrow> 'b \<Rightarrow> ('s, 'b) action" where
  "foldS f [] b = returnS b"
| "foldS f (x # xs) b = bindS (f x b) (foldS f xs)"

text \<open>The most frequent MTU, the largest on a tie.\<close>

definition common_mtu :: "(int, nat) dict \<Rightarrow> int" where
  "common_mtu counts =
     (case counts of
        [] \<Rightarrow> sonic_default_interface_mtu
      | c # cs \<Rightarrow> fst (fold (\<lambda>(m, n) (m', n'). if n' < n \<or> (n = n' \<and> m' < m) then (m, n) else (m', n')) cs c))"

definition get_common_port_mtu :: "'w lab \<Rightarrow> fault_context \<Rightarrow> string \<Rightarrow> string option \<Rightarrow> ('w site, int) action" where
  "get_common_port_mtu lab cx device exclude_interface =
     bindS (known_container cx device) (\<lambda>container.
     bindS (exec lab container [''sonic-db-cli'', ''CONFIG_DB'', ''keys'', ''PORT|*'']) (\<lambda>r.
     let excluded = (if given exclude_interface then Some (''PORT|'' @ the exclude_interface) else None)
     in bindS (foldS (count_port lab container excluded)
                 (if cp_returncode r = 0 then splitlines (cp_stdout r) else []) []) (\<lambda>counts.
        returnS (common_mtu counts))))"

definition get_interface_mtu :: "'w lab \<Rightarrow> fault_context \<Rightarrow> string \<Rightarrow> string \<Rightarrow> ('w site, int) action" where
  "get_interface_mtu lab cx device sonic_interface =
     bindS (known_container cx device) (\<lambda>container.
     bindS (exec lab container [''ip'', ''-o'', ''link'', ''show'', ''dev'', sonic_interface]) (\<lambda>r.
       case parse_link_mtu (if cp_returncode r = 0 then cp_stdout r else []) of
         Some live_mtu \<Rightarrow> returnS live_mtu
       | None \<Rightarrow>
           bindS (exec lab container [''sonic-db-cli'', ''CONFIG_DB'', ''hget'', ''PORT|'' @ sonic_interface, ''mtu'']) (\<lambda>r'.
             let raw = int_of_text (str_strip (cp_stdout r'))
             in if is_valid_sonic_mtu raw then returnS (the raw)
                else get_common_port_mtu lab cx device (Some sonic_interface))))"

definition resolve_recovery_mtu :: "'w lab \<Rightarrow> fault_context \<Rightarrow> string \<Rightarrow> string \<Rightarrow> int option \<Rightarrow> ('w site, int) action" where
  "resolve_recovery_mtu lab cx device sonic_interface original_mtu =
     (if is_valid_sonic_mtu original_mtu then returnS (the original_mtu)
      else get_common_port_mtu lab cx device (Some sonic_interface))"

end
