(* ===== verification/Routing_Runtime.thy ===== *)
theory Routing_Runtime
  imports Fault_Runtime
begin

text \<open>
  \<open>netopsbench/platform/faults/services/routing_runtime.py\<close>: what a fault handler reads from the BGP
  part of a running configuration, and the names it gives to what it adds.
\<close>

section \<open>Lines of an FRR configuration\<close>

abbreviation nonspaces :: regex where
  "nonspaces \<equiv> re_plus nonspace"

definition router_bgp_re :: regex where
  "router_bgp_re = seqs [Text ''router bgp '', Capture 1 (re_plus digit), LineEnd]"

definition neighbor_as_re :: regex where
  "neighbor_as_re = seqs [Text ''neighbor '', Capture 1 nonspaces, Text '' remote-as '', Capture 2 (re_plus digit), LineEnd]"

definition neighbor_password_re :: regex where
  "neighbor_password_re = seqs [Text ''neighbor '', Capture 1 nonspaces, Text '' password '', Capture 2 nonspaces, LineEnd]"

definition neighbor_source_re :: regex where
  "neighbor_source_re = seqs [Text ''neighbor '', Capture 1 nonspaces, Text '' update-source '', Capture 2 nonspaces, LineEnd]"

definition neighbor_map_re :: regex where
  "neighbor_map_re =
     seqs [Text ''neighbor '', Capture 1 nonspaces, Text '' route-map '', Capture 2 nonspaces, Text '' '',
           Capture 3 (alts [''in'', ''out'']), LineEnd]"

definition network_re :: regex where
  "network_re =
     seqs [Text ''network '', Capture 1 nonspaces, re_optional (Seq (Text '' route-map '') (Capture 2 nonspaces)), LineEnd]"

definition group_of :: "groups \<Rightarrow> nat \<Rightarrow> string" where
  "group_of gs n = (case group_text n gs of Some t \<Rightarrow> t | None \<Rightarrow> [])"

section \<open>The snapshot\<close>

record bgp_neighbor =
  bn_peer :: string
  bn_remote :: "int option"
  bn_password :: "string option"
  bn_update_source :: "string option"
  bn_route_maps :: "(string \<times> string) list"

record bgp_snapshot =
  bs_local_as :: "int option"
  bs_neighbors :: "(string, bgp_neighbor) dict"
  bs_networks :: "(string \<times> string option) list"

definition empty_neighbor :: "string \<Rightarrow> bgp_neighbor" where
  "empty_neighbor ip =
     \<lparr>bn_peer = ip, bn_remote = None, bn_password = None, bn_update_source = None, bn_route_maps = []\<rparr>"

definition update_neighbor :: "string \<Rightarrow> (bgp_neighbor \<Rightarrow> bgp_neighbor) \<Rightarrow> bgp_snapshot \<Rightarrow> bgp_snapshot" where
  "update_neighbor ip f b =
     b\<lparr>bs_neighbors := dict_set (bs_neighbors b) ip (f (dict_get_default (bs_neighbors b) ip (empty_neighbor ip)))\<rparr>"

definition add_route_map :: "string \<times> string \<Rightarrow> bgp_neighbor \<Rightarrow> bgp_neighbor" where
  "add_route_map attachment n =
     (if attachment \<in> set (bn_route_maps n) then n else n\<lparr>bn_route_maps := bn_route_maps n @ [attachment]\<rparr>)"

text \<open>\<open>identity = (prefix, route_map or "")\<close>.\<close>

definition network_identity :: "string \<times> string option \<Rightarrow> string \<times> string" where
  "network_identity n = (fst n, case snd n of Some t \<Rightarrow> t | None \<Rightarrow> [])"

definition add_network :: "string \<times> string option \<Rightarrow> bgp_snapshot \<Rightarrow> bgp_snapshot" where
  "add_network n b =
     (if network_identity n \<in> network_identity ` set (bs_networks b) then b
      else b\<lparr>bs_networks := bs_networks b @ [n]\<rparr>)"

definition read_bgp_line :: "string \<Rightarrow> bgp_snapshot \<Rightarrow> bgp_snapshot" where
  "read_bgp_line raw_line b =
     (let line = str_strip raw_line in
      case re_match router_bgp_re line of
        Some gs \<Rightarrow> b\<lparr>bs_local_as := Some (int (digits_val (group_of gs 1)))\<rparr>
      | None \<Rightarrow>
     (case re_match neighbor_as_re line of
        Some gs \<Rightarrow> update_neighbor (group_of gs 1) (\<lambda>n. n\<lparr>bn_remote := Some (int (digits_val (group_of gs 2)))\<rparr>) b
      | None \<Rightarrow>
     (case re_match neighbor_password_re line of
        Some gs \<Rightarrow> update_neighbor (group_of gs 1) (\<lambda>n. n\<lparr>bn_password := Some (group_of gs 2)\<rparr>) b
      | None \<Rightarrow>
     (case re_match neighbor_source_re line of
        Some gs \<Rightarrow> update_neighbor (group_of gs 1) (\<lambda>n. n\<lparr>bn_update_source := Some (group_of gs 2)\<rparr>) b
      | None \<Rightarrow>
     (case re_match neighbor_map_re line of
        Some gs \<Rightarrow> update_neighbor (group_of gs 1) (add_route_map (group_of gs 2, group_of gs 3)) b
      | None \<Rightarrow>
     (case re_match network_re line of
        Some gs \<Rightarrow> add_network (group_of gs 1, group_text 2 gs) b
      | None \<Rightarrow> b))))))"

definition read_bgp_config :: "string list \<Rightarrow> bgp_snapshot" where
  "read_bgp_config config_lines = fold read_bgp_line config_lines \<lparr>bs_local_as = None, bs_neighbors = [], bs_networks = []\<rparr>"

text \<open>The two lists of a snapshot, sorted by peer address and by prefix.\<close>

definition sorted_neighbors :: "bgp_snapshot \<Rightarrow> bgp_neighbor list" where
  "sorted_neighbors b = sort_key bn_peer (map snd (bs_neighbors b))"

definition sorted_networks :: "bgp_snapshot \<Rightarrow> (string \<times> string option) list" where
  "sorted_networks b = sort_key fst (bs_networks b)"

definition get_bgp_config_snapshot :: "'w lab \<Rightarrow> fault_context \<Rightarrow> string \<Rightarrow> ('w site, bgp_snapshot) action" where
  "get_bgp_config_snapshot lab cx device =
     bindS (vtysh lab cx device [''show running-config'']) (\<lambda>r.
       returnS (read_bgp_config (if cp_returncode r = 0 then splitlines (cp_stdout r) else [])))"

section \<open>Selection\<close>

definition get_device_asn :: "'w lab \<Rightarrow> fault_context \<Rightarrow> string \<Rightarrow> ('w site, int option) action" where
  "get_device_asn lab cx device =
     (case find (\<lambda>d. dev_name d = device \<and> dev_asn d \<noteq> None) (routing_devices (fx_manifest cx)) of
        Some d \<Rightarrow> returnS (dev_asn d)
      | None \<Rightarrow> bindS (get_bgp_config_snapshot lab cx device) (\<lambda>b. returnS (bs_local_as b)))"

definition normalize_kind :: "string \<Rightarrow> (string, string) dict \<Rightarrow> string option \<Rightarrow> string" where
  "normalize_kind fallback aliases misconfig_kind =
     (let normalized = str_replace ''-'' ''_'' (str_lower (str_strip
            (if given misconfig_kind then the misconfig_kind else fallback)))
      in dict_get_default aliases normalized normalized)"

definition normalize_bgp_neighbor_kind :: "string option \<Rightarrow> string" where
  "normalize_bgp_neighbor_kind =
     normalize_kind ''peer_as_mismatch''
       [(''peer_as'', ''peer_as_mismatch''), (''remote_as_mismatch'', ''peer_as_mismatch''),
        (''auth_mismatch'', ''password_mismatch''), (''md5_mismatch'', ''password_mismatch''),
        (''update_source'', ''update_source_mismatch'')]"

definition normalize_route_policy_kind :: "string option \<Rightarrow> string" where
  "normalize_route_policy_kind =
     normalize_kind ''network_statement_missing''
       [(''route_origination_missing'', ''network_statement_missing''),
        (''outbound_prefix_filter'', ''route_map_deny_prefix''), (''prefix_filter_misconfig'', ''route_map_deny_prefix'')]"

text \<open>The local AS of the snapshot with the chosen neighbour or network.\<close>

definition pick_bgp_neighbor ::
  "'w lab \<Rightarrow> fault_context \<Rightarrow> string \<Rightarrow> string option \<Rightarrow> ('w site, (int option \<times> bgp_neighbor) option) action" where
  "pick_bgp_neighbor lab cx device peer_ip =
     bindS (get_bgp_config_snapshot lab cx device) (\<lambda>b.
       let neighbors = sorted_neighbors b;
           chosen = (if given peer_ip then find (\<lambda>n. bn_peer n = the peer_ip) neighbors
                     else if neighbors = [] then None else Some (hd (sort_key bn_peer neighbors)))
       in returnS (map_option (\<lambda>n. (bs_local_as b, n)) chosen))"

definition pick_advertised_network ::
  "'w lab \<Rightarrow> fault_context \<Rightarrow> string \<Rightarrow> string option \<Rightarrow>
   ('w site, (int option \<times> string \<times> string option) option) action" where
  "pick_advertised_network lab cx device prefix =
     bindS (get_bgp_config_snapshot lab cx device) (\<lambda>b.
       let networks = sorted_networks b;
           chosen = (if given prefix then find (\<lambda>n. fst n = the prefix) networks
                     else if networks = [] then None else Some (hd (sort_key fst networks)))
       in returnS (map_option (\<lambda>n. (bs_local_as b, n)) chosen))"

section \<open>Names\<close>

text \<open>\<open>re.sub(r"[^A-Za-z0-9]+", "_", raw)\<close>.\<close>

definition is_alnum :: "char \<Rightarrow> bool" where
  "is_alnum c \<longleftrightarrow> is_word c \<and> c \<noteq> CHR ''_''"

fun underscored :: "bool \<Rightarrow> string \<Rightarrow> string" where
  "underscored inside [] = []"
| "underscored inside (c # s) =
     (if is_alnum c then c # underscored False s
      else if inside then underscored True s else CHR ''_'' # underscored True s)"

definition strip_char :: "char \<Rightarrow> string \<Rightarrow> string" where
  "strip_char c s = rev (dropWhile (\<lambda>x. x = c) (rev (dropWhile (\<lambda>x. x = c) s)))"

definition make_policy_artifact_name :: "string \<Rightarrow> string \<Rightarrow> string" where
  "make_policy_artifact_name device prefix =
     text_or (take 60 (str_upper (strip_char (CHR ''_'') (underscored False (''netopsbench_'' @ device @ ''_'' @ prefix)))))
       ''NETOPSBENCH_ROUTE_POLICY''"

definition format_network_statement :: "string \<Rightarrow> string option \<Rightarrow> string" where
  "format_network_statement prefix route_map =
     ''network '' @ prefix @ (if given route_map then '' route-map '' @ the route_map else [])"

end
