(* ===== verification/Impairment_Faults.thy ===== *)
theory Impairment_Faults
  imports Routing_Runtime Traffic_Estimator
begin

text \<open>
  \<open>netopsbench/platform/faults/handlers/impairment.py\<close>: packet loss, corruption and delay as
  \<open>netem\<close> queueing disciplines, and MTU mismatches.  Every injection reads back what it did; when
  the reading does not confirm the fault the handler undoes it, and when that cannot be confirmed
  either it leaves a residual fault behind in the tracker.  \<open>fault_info\<close> is the dictionary the
  handler returns.
\<close>

section \<open>Dictionaries of faults\<close>

type_synonym fault_info = "(string, json) dict"

text \<open>\<open>str(fault_info.get("error") or "")\<close> and \<open>bool(info.get(key))\<close>.\<close>

definition error_text :: "fault_info \<Rightarrow> string" where
  "error_text info = (if truthy (dict_get info ''error'') then json_text (the (dict_get info ''error'')) else [])"

definition info_true :: "fault_info \<Rightarrow> string \<Rightarrow> bool" where
  "info_true info k = truthy (dict_get info k)"

definition jerror :: "bool \<Rightarrow> string \<Rightarrow> json" where
  "jerror success message = (if success then JNull else JStr message)"

text \<open>The numeric value of a parameter, as \<open>float\<close> reads it.\<close>

definition json_float :: "json \<Rightarrow> rat result" where
  "json_float v =
     (case v of JInt i \<Rightarrow> Inr (of_int i) | JBool b \<Rightarrow> Inr (of_bool b) | JFloat t \<Rightarrow> parse_float t
      | JStr t \<Rightarrow> parse_float t | _ \<Rightarrow> Inl (TypeError ''float() argument must be a string or a real number''))"

section \<open>Queueing disciplines\<close>

definition show_qdisc :: "string \<Rightarrow> string list" where
  "show_qdisc linux_if = [''tc'', ''qdisc'', ''show'', ''dev'', linux_if]"

definition qdisc_re :: "string \<Rightarrow> string \<Rightarrow> regex" where
  "qdisc_re impairment u =
     seqs [WordBoundary, Text impairment, re_optional (Seq (re_plus space) (Text ''random'')), re_plus space,
           Capture 1 (Seq (re_plus digit) (re_optional (Seq (Text ''.'') (re_plus digit)))), Text u, Alt space LineEnd]"

definition qdisc_matches :: "'w lab \<Rightarrow> string \<Rightarrow> string \<Rightarrow> string \<Rightarrow> json \<Rightarrow> string \<Rightarrow> ('w site, bool) action" where
  "qdisc_matches lab container linux_if impairment expected_value u =
     bindS (exec lab container (show_qdisc linux_if)) (\<lambda>r.
       let out = str_lower (cp_stdout r)
       in case re_search (qdisc_re impairment u) out of
            Some gs \<Rightarrow>
              if cp_returncode r = 0 \<and> contains ''netem'' out then
                liftS (bindE (parse_float (group_of gs 1)) (\<lambda>x.
                       bindE (json_float expected_value) (\<lambda>y. Inr (\<bar>x - y\<bar> \<le> 1 / 1000))))
              else returnS False
          | None \<Rightarrow> returnS False)"

definition has_netem_qdisc :: "'w lab \<Rightarrow> string \<Rightarrow> string \<Rightarrow> ('w site, bool option) action" where
  "has_netem_qdisc lab container linux_if =
     bindS (exec lab container (show_qdisc linux_if)) (\<lambda>r.
       returnS (if cp_returncode r \<noteq> 0 then None else Some (contains ''netem'' (str_lower (cp_stdout r)))))"

text \<open>Deleting the root discipline; 2 is the return code when there is none.\<close>

definition delete_qdisc :: "'w lab \<Rightarrow> string \<Rightarrow> string \<Rightarrow> ('w site, completed \<times> bool) action" where
  "delete_qdisc lab container linux_if =
     bindS (exec lab container [''tc'', ''qdisc'', ''del'', ''dev'', linux_if, ''root'']) (\<lambda>r.
       if cp_returncode r \<in> {0, 2} then
         bindS (has_netem_qdisc lab container linux_if) (\<lambda>state. returnS (r, state = Some False))
       else returnS (r, False))"

definition finish_netem_injection :: "'w lab \<Rightarrow> string \<Rightarrow> string \<Rightarrow> fault_info \<Rightarrow> ('w site, fault_info) action" where
  "finish_netem_injection lab container linux_if fault_info =
     (if info_true fault_info ''success'' then bindS (track fault_info) (\<lambda>_. returnS fault_info)
      else
        bindS (delete_qdisc lab container linux_if) (\<lambda>(rollback, compensated).
          if compensated then returnS fault_info
          else
           (let message = join_given [error_text fault_info,
                  text_or (cp_stderr rollback) (text_or (cp_stdout rollback) ''netem compensation failed'')];
                info = dict_set fault_info ''error'' (JStr message)
            in bindS (track_residual info message) (\<lambda>_. returnS info))))"

text \<open>One \<open>netem\<close> injection: \<open>tc qdisc replace ... netem impairment value\<close>.\<close>

definition inject_netem ::
  "'w lab \<Rightarrow> fault_context \<Rightarrow> string \<Rightarrow> string \<Rightarrow> string \<Rightarrow> string \<Rightarrow> string \<Rightarrow> string \<Rightarrow> string \<Rightarrow> json \<Rightarrow>
   ('w site, fault_info) action" where
  "inject_netem lab cx kind key impairment u missing device interface v =
     bindS (known_container cx device) (\<lambda>container.
     let linux_if = to_linux_interface (Some interface)
     in bindS (exec lab container [''tc'', ''qdisc'', ''replace'', ''dev'', linux_if, ''root'', ''netem'', impairment, json_text v @ u])
          (\<lambda>r. bindS (if cp_returncode r = 0 then qdisc_matches lab container linux_if impairment v u else returnS False)
          (\<lambda>success. finish_netem_injection lab container linux_if
             [(''type'', JStr kind), (''device'', JStr device), (''interface'', JStr linux_if), (key, v),
              (''success'', JBool success), (''error'', jerror success (text_or (cp_stderr r) missing))])))"

definition inject_packet_corruption :: "'w lab \<Rightarrow> fault_context \<Rightarrow> string \<Rightarrow> string \<Rightarrow> json \<Rightarrow> ('w site, fault_info) action" where
  "inject_packet_corruption lab cx device interface corruption_pct =
     inject_netem lab cx ''packet_corruption'' ''corruption_pct'' ''corrupt'' ''%'' ''netem corruption rule was not observed''
       device interface corruption_pct"

definition inject_packet_loss :: "'w lab \<Rightarrow> fault_context \<Rightarrow> string \<Rightarrow> string \<Rightarrow> json \<Rightarrow> ('w site, fault_info) action" where
  "inject_packet_loss lab cx device interface loss_pct =
     inject_netem lab cx ''packet_loss'' ''loss_pct'' ''loss'' ''%'' ''netem loss rule was not observed'' device interface loss_pct"

definition inject_high_latency :: "'w lab \<Rightarrow> fault_context \<Rightarrow> string \<Rightarrow> string \<Rightarrow> json \<Rightarrow> ('w site, fault_info) action" where
  "inject_high_latency lab cx device interface latency_ms =
     inject_netem lab cx ''high_latency'' ''latency_ms'' ''delay'' ''ms'' ''netem delay rule was not observed''
       device interface latency_ms"

definition tc_fault_types :: "string list" where
  "tc_fault_types = [''packet_corruption'', ''packet_loss'', ''high_latency'']"

definition is_tc_fault :: "string \<Rightarrow> string \<Rightarrow> active_fault \<Rightarrow> bool result" where
  "is_tc_fault device linux_if f =
     bindE (fault_item f ''device'') (\<lambda>d.
       if d \<noteq> JStr device \<or> fault_get f ''interface'' \<noteq> JStr linux_if then Inr False
       else bindE (fault_item f ''type'') (\<lambda>t. Inr (t \<in> JStr ` set tc_fault_types)))"

definition recover_tc_rules :: "'w lab \<Rightarrow> fault_context \<Rightarrow> string \<Rightarrow> string \<Rightarrow> ('w site, fault_info) action" where
  "recover_tc_rules lab cx device interface =
     bindS (known_container cx device) (\<lambda>container.
     let linux_if = to_linux_interface (Some interface)
     in bindS (delete_qdisc lab container linux_if) (\<lambda>(r, recovered).
        bindS (if recovered then remove_faults (is_tc_fault device linux_if) else returnS ()) (\<lambda>_.
        returnS [(''device'', JStr device), (''interface'', JStr linux_if), (''recovered'', JBool recovered),
                 (''error'', jerror recovered (text_or (cp_stderr r) ''netem qdisc remained installed''))])))"

section \<open>MTU mismatches\<close>

definition apply_mtu ::
  "'w lab \<Rightarrow> fault_context \<Rightarrow> string \<Rightarrow> string \<Rightarrow> string \<Rightarrow> string \<Rightarrow> int \<Rightarrow> ('w site, completed \<times> int) action" where
  "apply_mtu lab cx device container sonic_if linux_if target_mtu =
     bindS (config_cmd lab cx device [''interface'', ''mtu'', sonic_if, int_str target_mtu]) (\<lambda>r.
     bindS (get_interface_mtu lab cx device sonic_if) (\<lambda>effective.
       if cp_returncode r \<noteq> 0 \<or> effective \<noteq> target_mtu then
         bindS (exec lab container [''ip'', ''link'', ''set'', linux_if, ''mtu'', int_str target_mtu]) (\<lambda>r'.
         bindS (get_interface_mtu lab cx device sonic_if) (\<lambda>effective'. returnS (r', effective')))
       else returnS (r, effective)))"

definition mtu_text :: "int \<Rightarrow> int \<Rightarrow> string" where
  "mtu_text effective expected = ''effective MTU is '' @ int_str effective @ '', expected '' @ int_str expected"

definition inject_mtu_mismatch :: "'w lab \<Rightarrow> fault_context \<Rightarrow> string \<Rightarrow> string \<Rightarrow> int \<Rightarrow> ('w site, fault_info) action" where
  "inject_mtu_mismatch lab cx device interface mtu =
     bindS (known_container cx device) (\<lambda>container.
     let sonic_if = to_sonic_interface (Some interface); linux_if = to_linux_interface (Some interface)
     in bindS (get_interface_mtu lab cx device sonic_if) (\<lambda>original_mtu.
        bindS (apply_mtu lab cx device container sonic_if linux_if mtu) (\<lambda>(r, effective_mtu).
        let success = (cp_returncode r = 0 \<and> effective_mtu = mtu);
            fault_info = [(''type'', JStr ''mtu_mismatch''), (''device'', JStr device), (''interface'', JStr sonic_if),
              (''linux_interface'', JStr linux_if), (''mtu'', JInt mtu), (''original_mtu'', JInt original_mtu),
              (''success'', JBool success),
              (''error'', jerror success (text_or (cp_stderr r) (mtu_text effective_mtu mtu)))]
        in if success then bindS (track fault_info) (\<lambda>_. returnS fault_info)
           else
             bindS (apply_mtu lab cx device container sonic_if linux_if original_mtu) (\<lambda>(rollback, restored_mtu).
               if cp_returncode rollback = 0 \<and> restored_mtu = original_mtu then returnS fault_info
               else
                (let message = join_given [error_text fault_info,
                       text_or (cp_stderr rollback) (''MTU compensation read back '' @ int_str restored_mtu
                         @ '', expected '' @ int_str original_mtu)];
                     info = dict_set fault_info ''error'' (JStr message)
                 in bindS (track_residual info message) (\<lambda>_. returnS info))))))"

definition recover_mtu_mismatch ::
  "'w lab \<Rightarrow> fault_context \<Rightarrow> string \<Rightarrow> string \<Rightarrow> int option \<Rightarrow> ('w site, fault_info) action" where
  "recover_mtu_mismatch lab cx device interface original_mtu =
     bindS (known_container cx device) (\<lambda>container.
     let sonic_if = to_sonic_interface (Some interface); linux_if = to_linux_interface (Some interface)
     in bindS (resolve_recovery_mtu lab cx device sonic_if original_mtu) (\<lambda>target_mtu.
        bindS (apply_mtu lab cx device container sonic_if linux_if target_mtu) (\<lambda>(r, effective_mtu).
        let recovered = (cp_returncode r = 0 \<and> effective_mtu = target_mtu)
        in bindS (if recovered then remove_faults (fault_matches [(''type'', JStr ''mtu_mismatch''),
                    (''device'', JStr device), (''interface'', JStr sonic_if)]) else returnS ()) (\<lambda>_.
           returnS [(''type'', JStr ''mtu_mismatch''), (''device'', JStr device), (''interface'', JStr sonic_if),
             (''restored_mtu'', JInt target_mtu), (''recovered'', JBool recovered),
             (''error'', jerror recovered (text_or (cp_stderr r) (mtu_text effective_mtu target_mtu)))]))))"

end
