(* ===== verification/Link_Faults.thy ===== *)
theory Link_Faults
  imports Impairment_Faults
begin

text \<open>
  \<open>netopsbench/platform/faults/handlers/link.py\<close>: taking both ends of a topology link down, and
  flapping it from a background thread.  Each end is read back after the change; a failed change
  brings every end that was touched back up, with the routes of clients restored, and leaves a
  residual fault when that cannot be confirmed.
\<close>

section \<open>Endpoints\<close>

record fault_endpoint =
  en_device :: string
  en_container :: string
  en_sonic :: string
  en_linux :: string

definition endpoint_of :: "fault_context \<Rightarrow> string \<Rightarrow> string \<Rightarrow> fault_endpoint result" where
  "endpoint_of cx device interface =
     (case container_names cx device of
        None \<Rightarrow> Inl (ValueError (''Unknown device: '' @ device))
      | Some container \<Rightarrow>
          Inr \<lparr>en_device = device, en_container = container, en_sonic = to_sonic_interface (Some interface),
               en_linux = to_linux_interface (Some interface)\<rparr>)"

definition end_matches :: "string \<Rightarrow> string \<Rightarrow> link_endpoint \<Rightarrow> bool" where
  "end_matches device target_linux e \<longleftrightarrow>
     ep_device e = device \<and> to_linux_interface (Some (ep_interface e)) = target_linux"

definition link_end :: "string \<Rightarrow> string \<Rightarrow> link \<Rightarrow> (link_endpoint \<times> link_endpoint) option" where
  "link_end device target_linux l =
     (let (a, b) = link_endpoints l
      in if end_matches device target_linux a then Some (a, b)
         else if end_matches device target_linux b then Some (b, a) else None)"

definition link_endpoints_of :: "fault_context \<Rightarrow> string \<Rightarrow> string \<Rightarrow> (fault_endpoint \<times> fault_endpoint) result" where
  "link_endpoints_of cx device interface =
     (case List.map_filter (link_end device (to_linux_interface (Some interface))) (mf_links (fx_manifest cx)) of
        [] \<Rightarrow> Inl (ValueError (''Interface is not a topology link endpoint: '' @ device @ '':'' @ interface))
      | (e, peer) # rest \<Rightarrow>
          bindE (endpoint_of cx device (ep_interface e)) (\<lambda>target.
          bindE (endpoint_of cx (ep_device peer) (ep_interface peer)) (\<lambda>other. Inr (target, other))))"

definition endpoint_key :: "fault_endpoint \<Rightarrow> string" where
  "endpoint_key e = en_device e @ '':'' @ en_linux e"

section \<open>The state of one end\<close>

definition show_link :: "string \<Rightarrow> string list" where
  "show_link linux_if = [''ip'', ''-o'', ''link'', ''show'', ''dev'', linux_if]"

text \<open>The flags between angle brackets.\<close>

definition link_flags :: "completed \<Rightarrow> string" where
  "link_flags state =
     (if cp_returncode state = 0 \<and> CHR ''<'' \<in> set (cp_stdout state) \<and> CHR ''>'' \<in> set (cp_stdout state)
      then takeWhile (\<lambda>c. c \<noteq> CHR ''>'') (tl (dropWhile (\<lambda>c. c \<noteq> CHR ''<'') (cp_stdout state))) else [])"

definition reads_as :: "bool \<Rightarrow> completed \<Rightarrow> bool" where
  "reads_as enabled state \<longleftrightarrow>
     cp_returncode state = 0 \<and> link_flags state \<noteq> [] \<and>
     (''UP'' \<in> set (str_split (CHR '','') (link_flags state))) = enabled"

text \<open>The error of a change is \<open>None\<close> when it succeeded.\<close>

definition set_link_admin_state ::
  "'w lab \<Rightarrow> fault_context \<Rightarrow> fault_endpoint \<Rightarrow> bool \<Rightarrow> ('w site, string option) action" where
  "set_link_admin_state lab cx e enabled =
     bindS (config_cmd lab cx (en_device e) [''interface'', if enabled then ''startup'' else ''shutdown'', en_sonic e]) (\<lambda>r0.
     bindS (if cp_returncode r0 \<noteq> 0 then
              exec lab (en_container e) [''ip'', ''link'', ''set'', en_linux e, if enabled then ''up'' else ''down'']
            else returnS r0) (\<lambda>r.
     bindS (exec lab (en_container e) (show_link (en_linux e))) (\<lambda>state.
       returnS (if cp_returncode r = 0 \<and> reads_as enabled state then None
         else Some (text_or (str_strip (text_or (cp_stderr r) (text_or (cp_stdout r)
                      (text_or (cp_stderr state) (cp_stdout state)))))
                (en_device e @ '':'' @ en_sonic e @ '' did not reach '' @ (if enabled then ''up'' else ''down'') @ '' state''))))))"

section \<open>Routes of clients\<close>

type_synonym route = "(string, json) dict"

text \<open>\<open>str(route.get(key) or fallback)\<close>.\<close>

definition route_field :: "route \<Rightarrow> string \<Rightarrow> string \<Rightarrow> string" where
  "route_field r k fallback = (if truthy (dict_get r k) then json_text (the (dict_get r k)) else fallback)"

definition route_identity :: "route \<Rightarrow> string \<times> string \<times> string \<times> string" where
  "route_identity r =
     (route_field r ''dst'' ''default'', route_field r ''gateway'' [], route_field r ''dev'' [], route_field r ''table'' ''main'')"

definition show_routes :: "string \<Rightarrow> string list" where
  "show_routes linux_if = [''ip'', ''-j'', ''route'', ''show'', ''dev'', linux_if]"

text \<open>\<open>json.loads(stdout or "[]")\<close>, of which the objects count; \<open>None\<close> is a decoding error.\<close>

definition read_routes :: "string \<Rightarrow> route list option" where
  "read_routes out =
     map_option (\<lambda>v. List.map_filter (\<lambda>x. case x of JObj kvs \<Rightarrow> Some kvs | _ \<Rightarrow> None) (as_list (Some v)))
       (json_loads (text_or out ''[]''))"

definition route_error :: "completed \<Rightarrow> string \<Rightarrow> string" where
  "route_error r fallback = text_or (str_strip (text_or (cp_stderr r) (cp_stdout r))) fallback"

definition snapshot_client_routes :: "'w lab \<Rightarrow> fault_context \<Rightarrow> fault_endpoint \<Rightarrow> ('w site, route list) action" where
  "snapshot_client_routes lab cx e =
     (if map_option dev_role (device_named (fx_manifest cx) (en_device e)) \<noteq> Some CLIENT then returnS []
      else
        bindS (exec lab (en_container e) (show_routes (en_linux e))) (\<lambda>r.
          if cp_returncode r \<noteq> 0 then
            raiseS (RuntimeError (route_error r (''failed to snapshot routes for '' @ endpoint_key e)))
          else
            (case read_routes (cp_stdout r) of
               None \<Rightarrow> raiseS (RuntimeError (''invalid route snapshot for '' @ endpoint_key e))
             | Some rs \<Rightarrow> returnS (filter (\<lambda>x. route_field x ''protocol'' [] \<noteq> ''kernel'') rs))))"

definition replace_route_command :: "route \<Rightarrow> string \<Rightarrow> string list" where
  "replace_route_command x linux_if =
     [''ip'', ''route'', ''replace'', route_field x ''dst'' ''default'']
     @ (if route_field x ''gateway'' [] \<noteq> [] then [''via'', route_field x ''gateway'' []] else [])
     @ [''dev'', linux_if]
     @ (case py_get x ''metric'' of Some v \<Rightarrow> [''metric'', json_text v] | None \<Rightarrow> [])"

definition restore_route :: "'w lab \<Rightarrow> fault_endpoint \<Rightarrow> route \<Rightarrow> string list \<Rightarrow> ('w site, string list) action" where
  "restore_route lab e x errors =
     bindS (exec lab (en_container e) (replace_route_command x (en_linux e))) (\<lambda>r.
       returnS (if cp_returncode r \<noteq> 0
                then errors @ [route_error r (''failed to restore '' @ route_field x ''dst'' ''default'')] else errors))"

definition missing_routes :: "route list \<Rightarrow> route list \<Rightarrow> route list" where
  "missing_routes routes existing = filter (\<lambda>x. route_identity x \<notin> route_identity ` set existing) routes"

definition restore_client_routes :: "'w lab \<Rightarrow> fault_endpoint \<Rightarrow> route list \<Rightarrow> ('w site, string option) action" where
  "restore_client_routes lab e routes =
     (if routes = [] then returnS None
      else
        bindS (exec lab (en_container e) (show_routes (en_linux e))) (\<lambda>r.
          if cp_returncode r \<noteq> 0 then returnS (Some (route_error r (''failed to read routes for '' @ endpoint_key e)))
          else
            (case read_routes (cp_stdout r) of
               None \<Rightarrow> returnS (Some (''invalid route readback for '' @ endpoint_key e))
             | Some current \<Rightarrow>
                 bindS (foldS (restore_route lab e) (missing_routes routes current) []) (\<lambda>errors.
                 bindS (exec lab (en_container e) (show_routes (en_linux e))) (\<lambda>verify.
                   let restored = (if cp_returncode verify = 0
                         then (case read_routes (cp_stdout verify) of Some rs \<Rightarrow> rs | None \<Rightarrow> []) else []);
                       missing = missing_routes routes restored;
                       all_errors = errors @ (if missing = [] then []
                         else [''missing route readback: ''
                               @ str_join '', '' (map (\<lambda>x. route_field x ''dst'' ''default'') missing)])
                   in returnS (if all_errors = [] then None else Some (str_join ''; '' all_errors)))))))"

section \<open>Both ends\<close>

type_synonym snapshots = "(string, route list) dict"

definition end_error :: "string \<Rightarrow> fault_endpoint \<Rightarrow> string \<Rightarrow> string" where
  "end_error prefix e message = prefix @ en_device e @ '':'' @ en_sonic e @ '': '' @ message"

text \<open>One end brought up, with its routes.\<close>

definition bring_up :: "'w lab \<Rightarrow> fault_context \<Rightarrow> snapshots \<Rightarrow> fault_endpoint \<Rightarrow> ('w site, string option) action" where
  "bring_up lab cx snaps e =
     bindS (set_link_admin_state lab cx e True) (\<lambda>err.
       case err of
         Some message \<Rightarrow> returnS (Some message)
       | None \<Rightarrow> restore_client_routes lab e (dict_get_default snaps (endpoint_key e) []))"

definition collect_error :: "string \<Rightarrow> fault_endpoint \<Rightarrow> string list \<Rightarrow> string option \<Rightarrow> string list" where
  "collect_error prefix e errors err = (case err of None \<Rightarrow> errors | Some message \<Rightarrow> errors @ [end_error prefix e message])"

definition bring_up_all ::
  "'w lab \<Rightarrow> fault_context \<Rightarrow> snapshots \<Rightarrow> string \<Rightarrow> fault_endpoint list \<Rightarrow> ('w site, string list) action" where
  "bring_up_all lab cx snaps prefix ends =
     foldS (\<lambda>e errors. bindS (bring_up lab cx snaps e) (\<lambda>err. returnS (collect_error prefix e errors err))) ends []"

text \<open>Ends taken down in order, up to the first failure: the ends touched, and the error.\<close>

fun take_down ::
  "'w lab \<Rightarrow> fault_context \<Rightarrow> fault_endpoint list \<Rightarrow> fault_endpoint list \<Rightarrow>
   ('w site, fault_endpoint list \<times> string list) action" where
  "take_down lab cx [] attempted = returnS (attempted, [])"
| "take_down lab cx (e # es) attempted =
     bindS (set_link_admin_state lab cx e False) (\<lambda>err.
       case err of
         None \<Rightarrow> take_down lab cx es (attempted @ [e])
       | Some message \<Rightarrow> returnS (attempted @ [e], [end_error [] e message]))"

record link_change =
  lc_success :: bool
  lc_error :: json
  lc_compensated :: "bool option"
  lc_residual :: bool

definition joined_errors :: "string list \<Rightarrow> json" where
  "joined_errors errors = (let s = str_join ''; '' errors in if s = [] then JNull else JStr s)"

definition set_physical_link ::
  "'w lab \<Rightarrow> fault_context \<Rightarrow> fault_endpoint \<times> fault_endpoint \<Rightarrow> bool \<Rightarrow> snapshots \<Rightarrow> ('w site, link_change) action" where
  "set_physical_link lab cx ends enabled snaps =
     (if enabled then
        bindS (bring_up_all lab cx snaps [] [fst ends, snd ends]) (\<lambda>errors.
          returnS \<lparr>lc_success = (errors = []), lc_error = joined_errors errors, lc_compensated = None, lc_residual = False\<rparr>)
      else
        bindS (take_down lab cx [fst ends, snd ends] []) (\<lambda>(attempted, errors).
        bindS (if errors = [] then returnS []
               else bring_up_all lab cx snaps ''compensation '' (rev attempted)) (\<lambda>compensation_errors.
          returnS \<lparr>lc_success = (errors = []), lc_error = joined_errors (errors @ compensation_errors),
            lc_compensated = Some (errors \<noteq> [] \<and> compensation_errors = []),
            lc_residual = (compensation_errors \<noteq> [])\<rparr>)))"

section \<open>Link down\<close>

definition snapshot_both :: "'w lab \<Rightarrow> fault_context \<Rightarrow> fault_endpoint \<times> fault_endpoint \<Rightarrow> ('w site, snapshots) action" where
  "snapshot_both lab cx ends =
     foldS (\<lambda>e snaps. bindS (snapshot_client_routes lab cx e) (\<lambda>rs. returnS (dict_set snaps (endpoint_key e) rs)))
       [fst ends, snd ends] []"

definition snapshots_json :: "snapshots \<Rightarrow> json" where
  "snapshots_json snaps = JObj (map (\<lambda>(k, rs). (k, JList (map JObj rs))) snaps)"

text \<open>\<open>(route_snapshots or {})\<close> read back from a fault.\<close>

definition snapshots_of :: "json option \<Rightarrow> snapshots" where
  "snapshots_of v = map (\<lambda>(k, rs). (k, List.map_filter (\<lambda>x. case x of JObj kvs \<Rightarrow> Some kvs | _ \<Rightarrow> None) (as_list (Some rs)))) (as_object v)"

definition link_info :: "string \<Rightarrow> string \<Rightarrow> fault_endpoint \<times> fault_endpoint \<Rightarrow> fault_info" where
  "link_info kind device ends =
     [(''type'', JStr kind), (''device'', JStr device), (''interface'', JStr (en_sonic (fst ends))),
      (''linux_interface'', JStr (en_linux (fst ends)))]"

definition peer_info :: "fault_endpoint \<times> fault_endpoint \<Rightarrow> snapshots \<Rightarrow> fault_info" where
  "peer_info ends snaps =
     [(''peer_device'', JStr (en_device (snd ends))), (''peer_interface'', JStr (en_sonic (snd ends))),
      (''peer_linux_interface'', JStr (en_linux (snd ends))), (''route_snapshots'', snapshots_json snaps)]"

definition inject_link_down :: "'w lab \<Rightarrow> fault_context \<Rightarrow> string \<Rightarrow> string \<Rightarrow> ('w site, fault_info) action" where
  "inject_link_down lab cx device interface =
     bindS (liftS (link_endpoints_of cx device interface)) (\<lambda>ends.
     bindS (snapshot_both lab cx ends) (\<lambda>snaps.
     bindS (set_physical_link lab cx ends False snaps) (\<lambda>change.
     let info = link_info ''link_down'' device ends @ [(''container'', JStr (en_container (fst ends)))] @ peer_info ends snaps
                @ [(''success'', JBool (lc_success change)), (''error'', lc_error change)]
     in bindS (if lc_success change then bindS (track info) (\<lambda>_. returnS ())
               else if lc_residual change then
                 bindS (track_residual info (text_or (error_text info) ''link compensation failed'')) (\<lambda>_. returnS ())
               else returnS ()) (\<lambda>_. returnS info))))"

definition recovery_ends ::
  "fault_context \<Rightarrow> string \<Rightarrow> string \<Rightarrow> string option \<Rightarrow> string option \<Rightarrow> (fault_endpoint \<times> fault_endpoint) result" where
  "recovery_ends cx device interface peer_device peer_interface =
     bindE (link_endpoints_of cx device interface) (\<lambda>(target, discovered).
       if given peer_device \<and> given peer_interface then
         bindE (endpoint_of cx (the peer_device) (the peer_interface)) (\<lambda>peer. Inr (target, peer))
       else Inr (target, discovered))"

definition link_fault_of :: "string \<Rightarrow> string \<Rightarrow> fault_endpoint \<Rightarrow> active_fault \<Rightarrow> bool result" where
  "link_fault_of kind device target =
     fault_matches [(''type'', JStr kind), (''device'', JStr device), (''interface'', JStr (en_sonic target))]"

definition recover_link_down ::
  "'w lab \<Rightarrow> fault_context \<Rightarrow> string \<Rightarrow> string \<Rightarrow> string option \<Rightarrow> string option \<Rightarrow> snapshots \<Rightarrow> ('w site, fault_info) action" where
  "recover_link_down lab cx device interface peer_device peer_interface snaps =
     bindS (liftS (recovery_ends cx device interface peer_device peer_interface)) (\<lambda>ends.
     bindS (set_physical_link lab cx ends True snaps) (\<lambda>change.
     bindS (if lc_success change then remove_faults (link_fault_of ''link_down'' device (fst ends)) else returnS ()) (\<lambda>_.
       returnS [(''type'', JStr ''link_down''), (''device'', JStr device), (''interface'', JStr (en_sonic (fst ends))),
                (''recovered'', JBool (lc_success change)), (''error'', lc_error change)])))"

section \<open>Flapping\<close>

text \<open>
  \<open>now_ns\<close> is the clock that makes the identifier of the background task unique.  The loop of the
  task is \<open>run_flap_loop\<close>; \<open>waits\<close> says which of its waits on the stop event end because it was set.
\<close>

definition flap_task_id :: "string \<Rightarrow> fault_endpoint \<Rightarrow> int \<Rightarrow> string" where
  "flap_task_id device target now_ns = ''link-flap:'' @ device @ '':'' @ en_sonic target @ '':'' @ int_str now_ns"

fun flap_rounds ::
  "'w lab \<Rightarrow> fault_context \<Rightarrow> fault_endpoint \<times> fault_endpoint \<Rightarrow> snapshots \<Rightarrow> (nat \<Rightarrow> bool) \<Rightarrow> nat \<Rightarrow> nat \<Rightarrow> ('w site, unit) action" where
  "flap_rounds lab cx ends snaps waits index 0 = returnS ()"
| "flap_rounds lab cx ends snaps waits index (Suc n) =
     (if waits (2 * index) then returnS ()
      else
        bindS (set_physical_link lab cx ends True snaps) (\<lambda>_.
          if waits (2 * index + 1) then returnS ()
          else bindS (if n = 0 then returnS () else bindS (set_physical_link lab cx ends False snaps) (\<lambda>_. returnS ()))
                 (\<lambda>_. flap_rounds lab cx ends snaps waits (Suc index) n)))"

definition run_flap_loop ::
  "'w lab \<Rightarrow> fault_context \<Rightarrow> fault_endpoint \<times> fault_endpoint \<Rightarrow> snapshots \<Rightarrow> (nat \<Rightarrow> bool) \<Rightarrow> int \<Rightarrow> string \<Rightarrow> ('w site, bool) action" where
  "run_flap_loop lab cx ends snaps waits iterations control_id =
     bindS (flap_rounds lab cx ends snaps waits 0 (nat (max iterations 1))) (\<lambda>_.
     bindS (set_physical_link lab cx ends True snaps) (\<lambda>_.
       stop_background lab control_id 0 True))"

definition inject_link_flapping ::
  "'w lab \<Rightarrow> fault_context \<Rightarrow> int \<Rightarrow> string \<Rightarrow> string \<Rightarrow> json \<Rightarrow> json \<Rightarrow> json \<Rightarrow> ('w site, fault_info) action" where
  "inject_link_flapping lab cx now_ns device interface iterations down_time up_time =
     bindS (liftS (link_endpoints_of cx device interface)) (\<lambda>ends.
     bindS (snapshot_both lab cx ends) (\<lambda>snaps.
     let control_id = flap_task_id device (fst ends) now_ns
     in bindS (set_physical_link lab cx ends False snaps) (\<lambda>initial.
        if \<not> lc_success initial then
         (let info = [(''type'', JStr ''link_flapping''), (''device'', JStr device), (''interface'', JStr (en_sonic (fst ends))),
                (''success'', JBool False), (''error'', lc_error initial)]
          in bindS (if lc_residual initial then
                      bindS (track_residual info (text_or (error_text info) ''link-flapping compensation failed'')) (\<lambda>_. returnS ())
                    else returnS ()) (\<lambda>_. returnS info))
        else
          bindS (register_background_control control_id) (\<lambda>_.
          let info = link_info ''link_flapping'' device ends @ peer_info ends snaps
                @ [(''iterations'', iterations), (''down_time'', down_time), (''up_time'', up_time),
                   (''task_id'', JStr control_id), (''orchestration'', JStr ''python''), (''success'', JBool True)]
          in bindS (track info) (\<lambda>_. returnS info)))))"

definition recover_link_flapping ::
  "'w lab \<Rightarrow> fault_context \<Rightarrow> string \<Rightarrow> string \<Rightarrow> string option \<Rightarrow> string option \<Rightarrow> string option \<Rightarrow> snapshots \<Rightarrow>
   ('w site, fault_info) action" where
  "recover_link_flapping lab cx device interface task_id peer_device peer_interface snaps =
     bindS (if given task_id then stop_background lab (the task_id) 5 False else returnS True) (\<lambda>stopped.
     bindS (liftS (recovery_ends cx device interface peer_device peer_interface)) (\<lambda>ends.
     bindS (set_physical_link lab cx ends True snaps) (\<lambda>change.
     let recovered = (stopped \<and> lc_success change);
         err = (if stopped then lc_error change
                else JStr (join_given [''failed to stop link flapping task'',
                       (case lc_error change of JStr m \<Rightarrow> m | _ \<Rightarrow> [])]))
     in bindS (if recovered then remove_faults (link_fault_of ''link_flapping'' device (fst ends)) else returnS ()) (\<lambda>_.
        returnS [(''type'', JStr ''link_flapping''), (''device'', JStr device), (''interface'', JStr (en_sonic (fst ends))),
                 (''recovered'', JBool recovered), (''error'', err)]))))"

end
