(* ===== verification/Routing_Faults.thy ===== *)
theory Routing_Faults
  imports Impairment_Faults "HOL-Library.Product_Lexorder"
begin

text \<open>
  \<open>netopsbench/platform/faults/handlers/routing_static.py\<close>, \<open>routing_bgp.py\<close> and \<open>routing_policy.py\<close>:
  faults made by configuring FRR through \<open>vtysh\<close>.  An injection that is not confirmed is undone by the
  recovery of the same fault, and when the recovery does not report success a residual fault stays.
\<close>

section \<open>Shared steps\<close>

definition configure :: "'w lab \<Rightarrow> fault_context \<Rightarrow> string \<Rightarrow> string list \<Rightarrow> ('w site, completed) action" where
  "configure lab cx device commands =
     vtysh lab cx device (''configure terminal'' # commands @ [''end'', ''write memory''])"

definition running_config :: "'w lab \<Rightarrow> fault_context \<Rightarrow> string \<Rightarrow> ('w site, string option) action" where
  "running_config lab cx device =
     bindS (vtysh lab cx device [''show running-config'']) (\<lambda>r.
       returnS (if cp_returncode r = 0 then Some (cp_stdout r) else None))"

definition recovered_info :: "fault_info \<Rightarrow> bool" where
  "recovered_info info = info_true info ''recovered''"

text \<open>The error of a failed injection joined with that of its failed recovery.\<close>

definition compensation_error :: "fault_info \<Rightarrow> fault_info \<Rightarrow> string \<Rightarrow> string" where
  "compensation_error info rollback fallback = join_given [error_text info, text_or (error_text rollback) fallback]"

definition track_failed_compensation :: "fault_info \<Rightarrow> fault_info \<Rightarrow> string \<Rightarrow> ('w site, fault_info) action" where
  "track_failed_compensation info rollback fallback =
     (if recovered_info rollback then returnS info
      else let message = compensation_error info rollback fallback;
               info' = dict_set info ''error'' (JStr message)
           in bindS (track_residual info' message) (\<lambda>_. returnS info'))"

text \<open>A confirmed fault is tracked, any other one is undone.\<close>

definition settle_injection :: "fault_info \<Rightarrow> ('w site, fault_info) action \<Rightarrow> string \<Rightarrow> ('w site, fault_info) action" where
  "settle_injection info recover fallback =
     (if info_true info ''success'' then bindS (track info) (\<lambda>_. returnS info)
      else bindS recover (\<lambda>rollback. track_failed_compensation info rollback fallback))"

text \<open>A reading repeated until it is as wanted, with a pause after every other one.\<close>

fun poll :: "'w lab \<Rightarrow> ('w site, 'a) action \<Rightarrow> ('a \<Rightarrow> bool) \<Rightarrow> nat \<Rightarrow> ('w site, bool) action" where
  "poll lab reading wanted 0 = returnS False"
| "poll lab reading wanted (Suc n) =
     bindS reading (\<lambda>x. if wanted x then returnS True
       else bindS (sleepS lab 1) (\<lambda>_. poll lab reading wanted n))"

section \<open>Static routes\<close>

definition squeezed :: "string \<Rightarrow> string" where
  "squeezed line = str_join '' '' (str_words line)"

definition running_config_contains :: "'w lab \<Rightarrow> fault_context \<Rightarrow> string \<Rightarrow> string \<Rightarrow> ('w site, bool option) action" where
  "running_config_contains lab cx device statement =
     bindS (running_config lab cx device) (\<lambda>config.
       returnS (map_option (\<lambda>out. squeezed statement \<in> set (map (\<lambda>l. squeezed (str_strip l)) (splitlines out))) config))"

definition running_config_has_route :: "'w lab \<Rightarrow> fault_context \<Rightarrow> string \<Rightarrow> string \<Rightarrow> ('w site, bool option) action" where
  "running_config_has_route lab cx device target =
     bindS (running_config lab cx device) (\<lambda>config.
       returnS (map_option (\<lambda>out. list_ex (\<lambda>l. starts_with (''ip route '' @ target @ '' '') (squeezed (str_strip l))) (splitlines out)) config))"

definition operational_route :: "'w lab \<Rightarrow> fault_context \<Rightarrow> string \<Rightarrow> string \<Rightarrow> ('w site, string option) action" where
  "operational_route lab cx device target =
     bindS (vtysh lab cx device [''show ip route '' @ target]) (\<lambda>r.
       returnS (if cp_returncode r \<noteq> 0 then None else Some (cp_stdout r)))"

text \<open>\<open>\b(?:blackhole|discard|Null0)\b\<close>, ignoring case.\<close>

definition blackhole_re :: regex where
  "blackhole_re = seqs [WordBoundary, alts [''blackhole'', ''discard'', ''null0''], WordBoundary]"

definition nexthop_re :: "string \<Rightarrow> regex" where
  "nexthop_re nexthop = seqs [WordBoundary, re_optional (Seq (Text ''via'') (re_plus space)), Text nexthop, WordBoundary]"

definition operational_blackhole_present :: "'w lab \<Rightarrow> fault_context \<Rightarrow> string \<Rightarrow> string \<Rightarrow> ('w site, bool option) action" where
  "operational_blackhole_present lab cx device target =
     bindS (operational_route lab cx device target) (\<lambda>route.
       returnS (map_option (\<lambda>out. contains target out \<and> re_found blackhole_re (str_lower out)) route))"

definition operational_nexthop_present ::
  "'w lab \<Rightarrow> fault_context \<Rightarrow> string \<Rightarrow> string \<Rightarrow> string \<Rightarrow> ('w site, bool option) action" where
  "operational_nexthop_present lab cx device target nexthop =
     bindS (operational_route lab cx device target) (\<lambda>route.
       returnS (map_option (\<lambda>out. contains target out \<and> re_found (nexthop_re nexthop) out) route))"

text \<open>\<open>a() is x and b() is y\<close>: the second reading is taken only if the first is as wanted.\<close>

definition both_read :: "('s, bool option) action \<Rightarrow> bool \<Rightarrow> ('s, bool) action \<Rightarrow> ('s, bool) action" where
  "both_read first wanted second = bindS first (\<lambda>x. if x = Some wanted then second else returnS False)"

definition reads :: "('s, bool option) action \<Rightarrow> bool \<Rightarrow> ('s, bool) action" where
  "reads reading wanted = bindS reading (\<lambda>x. returnS (x = Some wanted))"

definition null_route :: "string \<Rightarrow> string" where
  "null_route target_prefix = ''ip route '' @ target_prefix @ '' Null0''"

definition recover_blackhole_route :: "'w lab \<Rightarrow> fault_context \<Rightarrow> string \<Rightarrow> string \<Rightarrow> ('w site, fault_info) action" where
  "recover_blackhole_route lab cx device target_prefix =
     bindS (known_container cx device) (\<lambda>container.
     bindS (configure lab cx device [''no '' @ null_route target_prefix]) (\<lambda>r.
     bindS (if cp_returncode r = 0 then
              both_read (running_config_contains lab cx device (null_route target_prefix)) False
                (reads (operational_blackhole_present lab cx device target_prefix) False)
            else returnS False) (\<lambda>removed.
     bindS (if removed then remove_faults (fault_matches
              [(''type'', JStr ''blackhole_route''), (''device'', JStr device), (''prefix'', JStr target_prefix)])
            else returnS ()) (\<lambda>_.
     returnS [(''type'', JStr ''blackhole_route''), (''device'', JStr device), (''prefix'', JStr target_prefix),
       (''recovered'', JBool removed),
       (''error'', jerror removed (text_or (cp_stderr r) ''blackhole route remained in running config''))]))))"

definition inject_blackhole_route :: "'w lab \<Rightarrow> fault_context \<Rightarrow> string \<Rightarrow> string \<Rightarrow> ('w site, fault_info) action" where
  "inject_blackhole_route lab cx device target_prefix =
     bindS (known_container cx device) (\<lambda>container.
     bindS (configure lab cx device [null_route target_prefix]) (\<lambda>r.
     bindS (if cp_returncode r = 0 then
              both_read (running_config_contains lab cx device (null_route target_prefix)) True
                (reads (operational_blackhole_present lab cx device target_prefix) True)
            else returnS False) (\<lambda>success.
     settle_injection [(''type'', JStr ''blackhole_route''), (''device'', JStr device), (''prefix'', JStr target_prefix),
         (''success'', JBool success),
         (''error'', jerror success (text_or (cp_stderr r)
            (''blackhole route was not operational: '' @ null_route target_prefix)))]
       (recover_blackhole_route lab cx device target_prefix) ''route compensation failed'')))"

text \<open>Targets chosen from the clients of the manifest.\<close>

definition opt_text :: "string option \<Rightarrow> string" where
  "opt_text x = (case x of Some s \<Rightarrow> s | None \<Rightarrow> [])"

definition before_slash :: "string \<Rightarrow> string" where
  "before_slash s = takeWhile (\<lambda>c. c \<noteq> CHR ''/'') s"

definition pick_reachable_wrong_nexthop :: "fault_context \<Rightarrow> string \<Rightarrow> string \<Rightarrow> string option" where
  "pick_reachable_wrong_nexthop cx target_device target_ip =
     (let all = clients (fx_manifest cx); target = before_slash target_ip;
          candidates = filter (\<lambda>c. given (dev_data_ip c) \<and> dev_data_ip c \<noteq> Some target) all;
          attached = filter (\<lambda>c. str_strip (opt_text (dev_attached_switch c)) = target_device \<and> target_device \<noteq> []) all;
          local = filter (\<lambda>c. dev_data_ip c \<noteq> Some target) attached
      in if candidates = [] then None
         else dev_data_ip (hd (sort_key dev_name (if local \<noteq> [] then local else candidates))))"

definition pick_remote_client_host_route :: "fault_context \<Rightarrow> string \<Rightarrow> string option" where
  "pick_remote_client_host_route cx target_device =
     (let candidates = filter (\<lambda>c. given (dev_data_ip c)) (clients (fx_manifest cx));
          remote = filter (\<lambda>c. dev_attached_switch c \<noteq> Some target_device) candidates;
          pool = (if remote \<noteq> [] then remote else candidates);
          chosen = hd (sort_key (\<lambda>c. (opt_text (dev_attached_switch c), dev_name c)) pool);
          ip = str_strip (before_slash (opt_text (dev_data_ip chosen)))
      in if candidates = [] \<or> ip = [] then None else Some (ip @ ''/32''))"

definition resolve_static_route_target_ip :: "fault_context \<Rightarrow> string \<Rightarrow> string option \<Rightarrow> string option" where
  "resolve_static_route_target_ip cx target_device target_ip =
     (let raw = str_strip (opt_text target_ip)
      in if raw = [] \<or> str_lower raw = ''auto'' then pick_remote_client_host_route cx target_device
         else if CHR ''/'' \<notin> set raw then Some (raw @ ''/32'') else Some raw)"

definition static_route :: "string \<Rightarrow> string \<Rightarrow> string" where
  "static_route target_ip nexthop = ''ip route '' @ target_ip @ '' '' @ nexthop"

definition recover_static_route_misconfig ::
  "'w lab \<Rightarrow> fault_context \<Rightarrow> string \<Rightarrow> string \<Rightarrow> string option \<Rightarrow> ('w site, fault_info) action" where
  "recover_static_route_misconfig lab cx device target_ip wrong_nexthop =
     bindS (known_container cx device) (\<lambda>container.
     bindS (if given wrong_nexthop then
              bindS (configure lab cx device [''no '' @ static_route target_ip (the wrong_nexthop)]) (\<lambda>r.
                if cp_returncode r = 0 then returnS r
                else configure lab cx device [''no ip route '' @ target_ip])
            else configure lab cx device [''no ip route '' @ target_ip]) (\<lambda>r.
     bindS (if cp_returncode r = 0 then
              both_read (running_config_has_route lab cx device target_ip) False
                (if given wrong_nexthop
                 then reads (operational_nexthop_present lab cx device target_ip (the wrong_nexthop)) False
                 else returnS True)
            else returnS False) (\<lambda>removed.
     bindS (if removed then remove_faults (fault_matches
              [(''type'', JStr ''static_route_misconfig''), (''device'', JStr device), (''target_ip'', JStr target_ip)])
            else returnS ()) (\<lambda>_.
     returnS [(''type'', JStr ''static_route_misconfig''), (''device'', JStr device), (''target_ip'', JStr target_ip),
       (''wrong_nexthop'', jstr_opt wrong_nexthop), (''recovered'', JBool removed),
       (''error'', jerror removed (text_or (cp_stderr r) ''static route remained in running config''))]))))"

definition choose_wrong_nexthop :: "fault_context \<Rightarrow> string \<Rightarrow> string \<Rightarrow> string option \<Rightarrow> string result" where
  "choose_wrong_nexthop cx device target_ip wrong_nexthop =
     (if given wrong_nexthop \<and> str_lower (the wrong_nexthop) \<noteq> ''auto'' then Inr (the wrong_nexthop)
      else (let picked = pick_reachable_wrong_nexthop cx device target_ip
            in if given picked then Inr (the picked)
               else Inl (RuntimeError (''Unable to determine reachable wrong next-hop from topology metadata: device=''
                      @ device @ '' target_ip='' @ target_ip))))"

definition inject_static_route_misconfig ::
  "'w lab \<Rightarrow> fault_context \<Rightarrow> string \<Rightarrow> string option \<Rightarrow> string option \<Rightarrow> ('w site, fault_info) action" where
  "inject_static_route_misconfig lab cx device target_ip wrong_nexthop =
     bindS (known_container cx device) (\<lambda>container.
     bindS (liftS (case resolve_static_route_target_ip cx device target_ip of
              Some t \<Rightarrow> if t \<noteq> [] then Inr t
                else Inl (RuntimeError (''Unable to determine target host route from topology metadata: device='' @ device))
            | None \<Rightarrow> Inl (RuntimeError (''Unable to determine target host route from topology metadata: device='' @ device)))) (\<lambda>target.
     bindS (liftS (choose_wrong_nexthop cx device target wrong_nexthop)) (\<lambda>nexthop.
     bindS (configure lab cx device [static_route target nexthop]) (\<lambda>r.
     bindS (if cp_returncode r = 0 then
              both_read (running_config_contains lab cx device (static_route target nexthop)) True
                (reads (operational_nexthop_present lab cx device target nexthop) True)
            else returnS False) (\<lambda>success.
     settle_injection [(''type'', JStr ''static_route_misconfig''), (''device'', JStr device), (''target_ip'', JStr target),
         (''wrong_nexthop'', JStr nexthop), (''success'', JBool success),
         (''error'', jerror success (text_or (cp_stderr r)
            (''static route was not operational: '' @ static_route target nexthop)))]
       (recover_static_route_misconfig lab cx device target (Some nexthop)) ''route compensation failed'')))))"

section \<open>BGP neighbours\<close>

record bgp_originals =
  bo_remote_as :: "int option"
  bo_password :: "string option"
  bo_update_source :: "string option"
  bo_wrong_remote_as :: "int option"
  bo_bad_update_source :: "string option"

definition neighbor_line :: "string \<Rightarrow> string \<Rightarrow> string" where
  "neighbor_line peer_ip rest = ''neighbor '' @ peer_ip @ '' '' @ rest"

definition bgp_undo :: "string \<Rightarrow> string \<Rightarrow> bgp_originals \<Rightarrow> string result" where
  "bgp_undo kind peer_ip o0 =
     (if kind = ''peer_as_mismatch'' then
        (case bo_remote_as o0 of
           None \<Rightarrow> Inl (ValueError ''recover_bgp_neighbor_misconfig requires original_remote_as'')
         | Some asn \<Rightarrow> Inr (neighbor_line peer_ip (''remote-as '' @ int_str asn)))
      else if kind = ''password_mismatch'' then
        Inr (if given (bo_password o0) then neighbor_line peer_ip (''password '' @ the (bo_password o0))
             else ''no '' @ neighbor_line peer_ip ''password'')
      else if kind = ''update_source_mismatch'' then
        Inr (if given (bo_update_source o0) then neighbor_line peer_ip (''update-source '' @ the (bo_update_source o0))
             else ''no '' @ neighbor_line peer_ip (''update-source '' @
                    (if given (bo_bad_update_source o0) then the (bo_bad_update_source o0) else ''Loopback0'')))
      else Inl (ValueError (''Unsupported bgp_neighbor misconfig_kind: '' @ kind)))"

definition recover_bgp_neighbor_misconfig ::
  "'w lab \<Rightarrow> fault_context \<Rightarrow> string \<Rightarrow> string \<Rightarrow> string \<Rightarrow> bgp_originals \<Rightarrow> ('w site, fault_info) action" where
  "recover_bgp_neighbor_misconfig lab cx device peer_ip misconfig_kind o0 =
     bindS (known_container cx device) (\<lambda>container.
     bindS (get_device_asn lab cx device) (\<lambda>local_as.
       case local_as of
         None \<Rightarrow> raiseS (ValueError (''Unable to determine local BGP ASN for '' @ device))
       | Some asn \<Rightarrow>
          (let kind = normalize_bgp_neighbor_kind (Some misconfig_kind)
           in bindS (liftS (bgp_undo kind peer_ip o0)) (\<lambda>line.
              bindS (configure lab cx device [''router bgp '' @ int_str asn, line]) (\<lambda>r.
              bindS (if cp_returncode r = 0
                     then poll lab (bgp_neighbor_state lab cx device peer_ip) (\<lambda>x. x = Some True) 30 else returnS False) (\<lambda>established.
              bindS (if established then remove_faults (\<lambda>f.
                       bindE (fault_matches [(''type'', JStr ''bgp_neighbor_misconfig''), (''device'', JStr device)] f) (\<lambda>b.
                         Inr (b \<and> fault_get f ''peer_ip'' = JStr peer_ip)))
                     else returnS ()) (\<lambda>_.
              returnS [(''type'', JStr ''bgp_neighbor_misconfig''), (''device'', JStr device), (''peer_ip'', JStr peer_ip),
                (''misconfig_kind'', JStr kind), (''wrong_remote_as'', jint_opt (bo_wrong_remote_as o0)),
                (''recovered'', JBool established),
                (''error'', jerror established (text_or (cp_stderr r)
                   (''BGP neighbor '' @ peer_ip @ '' did not re-establish'')))])))))))"

text \<open>
  The line that breaks a neighbour, with what the fault records about it; \<open>None\<close> when the neighbour
  cannot be broken in that way.  \<open>now\<close> is \<open>int(time.time())\<close>.
\<close>

definition wrong_as :: "int \<Rightarrow> int option \<Rightarrow> int" where
  "wrong_as original wrong_remote_as =
     (let w = (case wrong_remote_as of Some w \<Rightarrow> if w = 0 then original + 1000 else w | None \<Rightarrow> original + 1000)
      in if w = original then w + 1000 else w)"

definition bgp_break ::
  "string \<Rightarrow> bgp_neighbor \<Rightarrow> int option \<Rightarrow> string option \<Rightarrow> string option \<Rightarrow> int \<Rightarrow>
   string + (string \<times> fault_info \<times> bgp_originals)" where
  "bgp_break kind n wrong_remote_as password update_source now =
     (let none = \<lparr>bo_remote_as = None, bo_password = None, bo_update_source = None, bo_wrong_remote_as = None,
            bo_bad_update_source = None\<rparr>
      in if kind = ''peer_as_mismatch'' then
           (case bn_remote n of
              None \<Rightarrow> Inl ''Unable to determine original remote-as for neighbor''
            | Some asn \<Rightarrow>
                (let w = wrong_as asn wrong_remote_as
                 in Inr (neighbor_line (bn_peer n) (''remote-as '' @ int_str w),
                      [(''original_remote_as'', JInt asn), (''wrong_remote_as'', JInt w)],
                      none\<lparr>bo_remote_as := Some asn, bo_wrong_remote_as := Some w\<rparr>)))
         else if kind = ''password_mismatch'' then
           (let bad = (if given password then the password else ''netopsbench-'' @ int_str now)
            in Inr (neighbor_line (bn_peer n) (''password '' @ bad),
                 [(''original_password'', jstr_opt (bn_password n)), (''bad_password'', JStr bad)],
                 none\<lparr>bo_password := bn_password n\<rparr>))
         else if kind = ''update_source_mismatch'' then
           (let bad = (if given update_source then the update_source else ''Loopback0'')
            in Inr (neighbor_line (bn_peer n) (''update-source '' @ bad),
                 [(''original_update_source'', jstr_opt (bn_update_source n)), (''bad_update_source'', JStr bad)],
                 none\<lparr>bo_update_source := bn_update_source n, bo_bad_update_source := Some bad\<rparr>))
         else Inl (''Unsupported bgp_neighbor misconfig_kind: '' @ kind))"

text \<open>\<open>neighbor.get("local_as") or self._routing.get_device_asn(device)\<close>.\<close>

definition local_asn :: "'w lab \<Rightarrow> fault_context \<Rightarrow> string \<Rightarrow> int option \<Rightarrow> ('w site, int option) action" where
  "local_asn lab cx device seen =
     (case seen of Some a \<Rightarrow> if a \<noteq> 0 then returnS (Some a) else get_device_asn lab cx device
      | None \<Rightarrow> get_device_asn lab cx device)"

definition py_opt :: "string option \<Rightarrow> string" where
  "py_opt x = (case x of Some s \<Rightarrow> s | None \<Rightarrow> ''None'')"

definition inject_bgp_neighbor_misconfig ::
  "'w lab \<Rightarrow> fault_context \<Rightarrow> int \<Rightarrow> string \<Rightarrow> string option \<Rightarrow> string option \<Rightarrow> int option \<Rightarrow> string option \<Rightarrow> string option \<Rightarrow>
   ('w site, fault_info) action" where
  "inject_bgp_neighbor_misconfig lab cx now device peer_ip misconfig_kind wrong_remote_as password update_source =
     bindS (known_container cx device) (\<lambda>container.
     let kind = normalize_bgp_neighbor_kind misconfig_kind
     in bindS (pick_bgp_neighbor lab cx device peer_ip) (\<lambda>picked.
       case picked of
         None \<Rightarrow> raiseS (RuntimeError (''Unable to determine target BGP neighbor from device config: device='' @ device
                   @ '' peer_ip='' @ py_opt peer_ip))
       | Some (seen, n) \<Rightarrow>
           bindS (local_asn lab cx device seen) (\<lambda>local_as.
             case local_as of
               None \<Rightarrow> raiseS (RuntimeError (''Unable to determine local BGP ASN for target device: device='' @ device))
             | Some asn \<Rightarrow>
                (let base = [(''type'', JStr ''bgp_neighbor_misconfig''), (''device'', JStr device), (''peer_ip'', JStr (bn_peer n)),
                       (''local_as'', JInt asn), (''misconfig_kind'', JStr kind)]
                 in case bgp_break kind n wrong_remote_as password update_source now of
                      Inl message \<Rightarrow> returnS (base @ [(''success'', JBool False), (''error'', JStr message)])
                    | Inr (line, extra, originals) \<Rightarrow>
                        bindS (configure lab cx device [''router bgp '' @ int_str asn, line]) (\<lambda>r.
                        bindS (if cp_returncode r = 0
                               then poll lab (bgp_neighbor_state lab cx device (bn_peer n)) (\<lambda>x. x = Some False) 10
                               else returnS False) (\<lambda>success.
                        settle_injection (base @ [(''success'', JBool success),
                            (''error'', jerror success (text_or (cp_stderr r)
                               (''BGP neighbor '' @ bn_peer n @ '' remained established'')))] @ extra)
                          (recover_bgp_neighbor_misconfig lab cx device (bn_peer n) kind originals)
                          ''BGP compensation failed''))))))"

section \<open>Route policies\<close>

definition bgp_prefix_present :: "'w lab \<Rightarrow> fault_context \<Rightarrow> string \<Rightarrow> string \<Rightarrow> ('w site, bool option) action" where
  "bgp_prefix_present lab cx device prefix =
     bindS (vtysh lab cx device [''show ip bgp '' @ prefix]) (\<lambda>r.
       returnS (if cp_returncode r \<noteq> 0 then None
                else if contains ''network not in table'' (str_lower (cp_stdout r)) \<or>
                        contains ''not found'' (str_lower (cp_stdout r)) then Some False
                else Some (contains prefix (cp_stdout r))))"

text \<open>The last reading is not followed by a pause.\<close>

fun wait_for_bgp_prefix ::
  "'w lab \<Rightarrow> fault_context \<Rightarrow> string \<Rightarrow> string \<Rightarrow> bool \<Rightarrow> nat \<Rightarrow> ('w site, bool) action" where
  "wait_for_bgp_prefix lab cx device prefix wanted 0 = returnS False"
| "wait_for_bgp_prefix lab cx device prefix wanted (Suc n) =
     bindS (bgp_prefix_present lab cx device prefix) (\<lambda>state.
       if state = Some wanted then returnS True
       else if n = 0 then returnS False
       else bindS (sleepS lab 1) (\<lambda>_. wait_for_bgp_prefix lab cx device prefix wanted n))"

definition in_config :: "string option \<Rightarrow> string \<Rightarrow> bool" where
  "in_config running needle = (case running of Some out \<Rightarrow> contains needle out | None \<Rightarrow> False)"

definition address_family :: "int \<Rightarrow> string \<Rightarrow> string list" where
  "address_family asn statement =
     [''router bgp '' @ int_str asn, ''address-family ipv4 unicast'', statement, ''exit-address-family'']"

definition deny_line :: "string \<Rightarrow> int \<Rightarrow> string" where
  "deny_line route_map seq = ''route-map '' @ route_map @ '' deny '' @ int_str seq"

record policy_originals =
  po_route_map :: "string option"
  po_network_statement :: "string option"
  po_prefix_list :: "string option"
  po_sequence :: "int option"

text \<open>The commands of the recovery, and when its reading of the configuration is as wanted.\<close>

definition policy_undo ::
  "string \<Rightarrow> string \<Rightarrow> string \<Rightarrow> int \<Rightarrow> policy_originals \<Rightarrow> (string list \<times> (string option \<Rightarrow> bool)) result" where
  "policy_undo kind device target_prefix asn po =
     (if kind = ''network_statement_missing'' then
        (let statement = (if given (po_network_statement po) then the (po_network_statement po)
                          else format_network_statement target_prefix (po_route_map po))
         in Inr (address_family asn statement, (\<lambda>running. in_config running statement)))
      else if kind = ''route_map_deny_prefix'' then
        (if \<not> given (po_route_map po) then Inl (ValueError ''recover_route_policy_misconfig requires route_map'')
         else
          (let map_name = the (po_route_map po);
               list_name = (if given (po_prefix_list po) then the (po_prefix_list po)
                            else make_policy_artifact_name device target_prefix);
               seq = (case po_sequence po of Some i \<Rightarrow> if i = 0 then 5 else i | None \<Rightarrow> 5)
           in Inr ([''no '' @ deny_line map_name seq, ''no ip prefix-list '' @ list_name],
                (\<lambda>running. running \<noteq> None \<and> \<not> in_config running (deny_line map_name seq) \<and>
                   \<not> in_config running (''ip prefix-list '' @ list_name)))))
      else Inl (ValueError (''Unsupported route_policy misconfig_kind: '' @ kind)))"

definition recover_route_policy_misconfig ::
  "'w lab \<Rightarrow> fault_context \<Rightarrow> string \<Rightarrow> string \<Rightarrow> string \<Rightarrow> policy_originals \<Rightarrow> ('w site, fault_info) action" where
  "recover_route_policy_misconfig lab cx device target_prefix misconfig_kind po =
     bindS (known_container cx device) (\<lambda>container.
     bindS (get_device_asn lab cx device) (\<lambda>local_as.
       case local_as of
         None \<Rightarrow> raiseS (ValueError (''Unable to determine local BGP ASN for '' @ device))
       | Some asn \<Rightarrow>
          (let kind = normalize_route_policy_kind (Some misconfig_kind)
           in bindS (liftS (policy_undo kind device target_prefix asn po)) (\<lambda>(commands, clean).
              bindS (configure lab cx device commands) (\<lambda>r.
              bindS (running_config lab cx device) (\<lambda>running.
              bindS (if cp_returncode r = 0 \<and> clean running
                     then wait_for_bgp_prefix lab cx device target_prefix True 10 else returnS False) (\<lambda>recovered.
              bindS (if recovered then remove_faults (\<lambda>f.
                       bindE (fault_matches [(''type'', JStr ''route_policy_misconfig''), (''device'', JStr device)] f) (\<lambda>b.
                         Inr (b \<and> fault_get f ''target_prefix'' = JStr target_prefix)))
                     else returnS ()) (\<lambda>_.
              returnS [(''type'', JStr ''route_policy_misconfig''), (''device'', JStr device),
                (''target_prefix'', JStr target_prefix), (''misconfig_kind'', JStr kind), (''recovered'', JBool recovered),
                (''error'', jerror recovered (text_or (cp_stderr r) ''route policy recovery was not observed''))]))))))))"

text \<open>The injected change: its commands, what the fault records, and what confirms it.\<close>

definition policy_break ::
  "string \<Rightarrow> string \<Rightarrow> string \<Rightarrow> int \<Rightarrow> string option \<Rightarrow>
   string + (string list \<times> fault_info \<times> policy_originals \<times> (string option \<Rightarrow> bool) \<times> bool)" where
  "policy_break kind device prefix asn route_map =
     (if kind = ''network_statement_missing'' then
        (let statement = format_network_statement prefix route_map
         in Inr (address_family asn (''no '' @ statement),
              [(''route_map'', jstr_opt route_map), (''network_statement'', JStr statement)],
              \<lparr>po_route_map = route_map, po_network_statement = Some statement, po_prefix_list = None, po_sequence = None\<rparr>,
              (\<lambda>running. running \<noteq> None \<and> \<not> in_config running statement), False))
      else if kind = ''route_map_deny_prefix'' then
        (let map_name = (if given route_map then the route_map else ''RM-ALLOW'');
             list_name = make_policy_artifact_name device prefix
         in Inr ([''ip prefix-list '' @ list_name @ '' seq 5 permit '' @ prefix, deny_line map_name 5,
                  ''match ip address prefix-list '' @ list_name, ''exit''],
              [(''route_map'', JStr map_name), (''prefix_list_name'', JStr list_name), (''sequence'', JInt 5)],
              \<lparr>po_route_map = Some map_name, po_network_statement = None, po_prefix_list = Some list_name, po_sequence = Some 5\<rparr>,
              (\<lambda>running. in_config running (deny_line map_name 5) \<and> in_config running (''ip prefix-list '' @ list_name)), True))
      else Inl (''Unsupported route_policy misconfig_kind: '' @ kind))"

definition inject_route_policy_misconfig ::
  "'w lab \<Rightarrow> fault_context \<Rightarrow> string \<Rightarrow> string option \<Rightarrow> string option \<Rightarrow> string option \<Rightarrow> ('w site, fault_info) action" where
  "inject_route_policy_misconfig lab cx device target_prefix misconfig_kind route_map =
     bindS (known_container cx device) (\<lambda>container.
     let kind = normalize_route_policy_kind misconfig_kind
     in bindS (pick_advertised_network lab cx device target_prefix) (\<lambda>picked.
       case picked of
         None \<Rightarrow> raiseS (RuntimeError (''Unable to determine advertised network from device config: device='' @ device
                   @ '' prefix='' @ py_opt target_prefix))
       | Some (seen, prefix, network_map) \<Rightarrow>
           bindS (local_asn lab cx device seen) (\<lambda>local_as.
             case local_as of
               None \<Rightarrow> raiseS (RuntimeError (''Unable to determine local BGP ASN for target device: device='' @ device))
             | Some asn \<Rightarrow>
                (let effective_map = (if given route_map then route_map else network_map);
                     base = [(''type'', JStr ''route_policy_misconfig''), (''device'', JStr device), (''target_prefix'', JStr prefix),
                       (''local_as'', JInt asn), (''misconfig_kind'', JStr kind)]
                 in case policy_break kind device prefix asn effective_map of
                      Inl message \<Rightarrow> returnS (base @ [(''route_map'', jstr_opt effective_map), (''success'', JBool False),
                                                   (''error'', JStr message)])
                    | Inr (commands, extra, originals, confirms, advertised) \<Rightarrow>
                        bindS (configure lab cx device commands) (\<lambda>r.
                        bindS (running_config lab cx device) (\<lambda>running.
                        bindS (if confirms running then wait_for_bgp_prefix lab cx device prefix advertised 10
                               else returnS False) (\<lambda>state_matches.
                        let success = (cp_returncode r = 0 \<and> state_matches)
                        in settle_injection (base @ [(''success'', JBool success),
                             (''error'', jerror success (text_or (cp_stderr r)
                                ''route policy state did not match the injected configuration''))] @ extra)
                           (recover_route_policy_misconfig lab cx device prefix kind originals)
                           ''route-policy compensation failed'')))))))"

end
