(* ===== verification/Acl_Faults.thy ===== *)
theory Acl_Faults
  imports Routing_Faults
begin

text \<open>
  \<open>netopsbench/platform/faults/handlers/acl.py\<close>: an \<open>iptables\<close> rule that drops forwarded packets and
  the matching entries of SONiC's configuration database.
\<close>

section \<open>Names and rules\<close>

definition iptables_tag :: string where
  "iptables_tag = ''NETOPSBENCH_ACL''"

definition acl_name_prefix :: string where
  "acl_name_prefix = ''NETOPSBENCH_DENY''"

text \<open>\<open>^\d{1,3}(\.\d{1,3}){3}/\d{1,2}$\<close>.\<close>

definition prefix_re :: regex where
  "prefix_re =
     seqs [re_repeat 1 2 digit, re_times 3 (Seq (Text ''.'') (re_repeat 1 2 digit)), Text ''/'', re_repeat 1 1 digit, LineEnd]"

definition acl_name_of :: "string \<Rightarrow> string \<Rightarrow> string" where
  "acl_name_of device prefix =
     acl_name_prefix @ ''_'' @ device @ ''_'' @ str_replace ''.'' ''-'' (str_replace ''/'' ''_'' prefix)"

definition iptables_rule_args :: "string \<Rightarrow> string \<Rightarrow> string list" where
  "iptables_rule_args target_prefix acl_name =
     [''FORWARD'', ''-d'', target_prefix, ''-j'', ''DROP'', ''-m'', ''comment'', ''--comment'', iptables_tag @ '':'' @ acl_name]"

definition config_db :: "string list \<Rightarrow> string list" where
  "config_db args = [''sonic-db-cli'', ''CONFIG_DB''] @ args"

definition table_key :: "string \<Rightarrow> string" where
  "table_key acl_name = ''ACL_TABLE|'' @ acl_name"

definition rule_key :: "string \<Rightarrow> string" where
  "rule_key acl_name = ''ACL_RULE|'' @ acl_name @ ''|RULE_1''"

text \<open>The three readings: the rule's return code and whether the two entries exist.\<close>

definition acl_state :: "'w lab \<Rightarrow> string \<Rightarrow> string \<Rightarrow> string \<Rightarrow> ('w site, int \<times> string \<times> string) action" where
  "acl_state lab container target_prefix acl_name =
     bindS (exec lab container ([''iptables'', ''-C''] @ iptables_rule_args target_prefix acl_name)) (\<lambda>rule.
     bindS (exec lab container (config_db [''exists'', table_key acl_name])) (\<lambda>table.
     bindS (exec lab container (config_db [''exists'', rule_key acl_name])) (\<lambda>acl_rule.
       returnS (cp_returncode rule, str_strip (cp_stdout table), str_strip (cp_stdout acl_rule)))))"

definition acl_state_present :: "'w lab \<Rightarrow> string \<Rightarrow> string \<Rightarrow> string \<Rightarrow> ('w site, bool) action" where
  "acl_state_present lab container target_prefix acl_name =
     bindS (acl_state lab container target_prefix acl_name) (\<lambda>st. returnS (st = (0, ''1'', ''1'')))"

definition acl_state_absent :: "'w lab \<Rightarrow> string \<Rightarrow> string \<Rightarrow> string \<Rightarrow> ('w site, bool) action" where
  "acl_state_absent lab container target_prefix acl_name =
     bindS (acl_state lab container target_prefix acl_name) (\<lambda>st. returnS (st = (1, ''0'', ''0'')))"

definition validate_prefix :: "string \<Rightarrow> string result" where
  "validate_prefix prefix =
     (if re_match prefix_re prefix = None then Inl (ValueError (''Invalid prefix format: '' @ prefix)) else Inr prefix)"

section \<open>Recovery\<close>

definition recover_acl_misconfig ::
  "'w lab \<Rightarrow> fault_context \<Rightarrow> string \<Rightarrow> string \<Rightarrow> string option \<Rightarrow> string option \<Rightarrow> ('w site, fault_info) action" where
  "recover_acl_misconfig lab cx device target_prefix interface acl_name =
     bindS (known_container cx device) (\<lambda>container.
     let name = (if given acl_name then the acl_name else acl_name_of device target_prefix)
     in bindS (exec lab container ([''iptables'', ''-D''] @ iptables_rule_args target_prefix name)) (\<lambda>r.
        bindS (exec lab container (config_db [''del'', rule_key name])) (\<lambda>_.
        bindS (exec lab container (config_db [''del'', table_key name])) (\<lambda>_.
        bindS (acl_state_absent lab container target_prefix name) (\<lambda>recovered.
        bindS (if recovered then remove_faults (\<lambda>f.
                 bindE (fault_matches [(''type'', JStr ''acl_misconfig''), (''device'', JStr device)] f) (\<lambda>b.
                   Inr (b \<and> fault_get f ''target_prefix'' = JStr target_prefix)))
               else returnS ()) (\<lambda>_.
        returnS [(''type'', JStr ''acl_misconfig''), (''device'', JStr device), (''target_prefix'', JStr target_prefix),
          (''interface'', jstr_opt interface), (''acl_name'', JStr name), (''recovered'', JBool recovered),
          (''error'', jerror recovered (text_or (cp_stderr r) ''ACL state remained after recovery''))]))))))"

section \<open>Injection\<close>

text \<open>The interface to name in the entry: the first link end of the device, else what the device reports.\<close>

definition first_link_interface :: "fault_context \<Rightarrow> string \<Rightarrow> string option" where
  "first_link_interface cx device =
     find (\<lambda>i. i \<noteq> []) (List.map_filter (\<lambda>l. let (a, b) = link_endpoints l
       in if ep_device a = device then Some (ep_interface a)
          else if ep_device b = device then Some (ep_interface b) else None) (mf_links (fx_manifest cx)))"

definition reported_interface :: "'w lab \<Rightarrow> string \<Rightarrow> ('w site, string option) action" where
  "reported_interface lab container =
     bindS (exec lab container [''vtysh'', ''-c'', ''show interface brief'']) (\<lambda>r.
       returnS (if cp_returncode r = 0
         then map_option hd (find (\<lambda>parts. parts \<noteq> [] \<and> starts_with ''Ethernet'' (hd parts)) (map str_words (splitlines (cp_stdout r))))
         else None))"

definition binding_interface :: "'w lab \<Rightarrow> fault_context \<Rightarrow> string \<Rightarrow> string \<Rightarrow> string option \<Rightarrow> ('w site, string) action" where
  "binding_interface lab cx device container interface =
     (if given interface then returnS (the interface)
      else (case first_link_interface cx device of
          Some i \<Rightarrow> returnS i
        | None \<Rightarrow> bindS (reported_interface lab container) (\<lambda>found.
            case found of Some i \<Rightarrow> returnS i
            | None \<Rightarrow> raiseS (RuntimeError (''Unable to determine interface for ACL binding: device='' @ device)))))"

definition denied_prefix :: "'w lab \<Rightarrow> fault_context \<Rightarrow> string \<Rightarrow> string option \<Rightarrow> ('w site, string) action" where
  "denied_prefix lab cx device target_prefix =
     (if given target_prefix then returnS (the target_prefix)
      else bindS (pick_advertised_network lab cx device None) (\<lambda>picked.
        returnS (case picked of Some (seen, prefix, m) \<Rightarrow> prefix | None \<Rightarrow> ''10.0.0.0/8'')))"

definition table_fields :: "string \<Rightarrow> string \<Rightarrow> string \<Rightarrow> string \<Rightarrow> string list" where
  "table_fields acl_name target_prefix stage interface =
     config_db [''hset'', table_key acl_name, ''policy_desc'', ''netopsbench injected deny '' @ target_prefix,
       ''type'', ''L3'', ''stage'', stage, ''ports@'', interface]"

definition rule_fields :: "string \<Rightarrow> string \<Rightarrow> string list" where
  "rule_fields acl_name target_prefix =
     config_db [''hset'', rule_key acl_name, ''PRIORITY'', ''999'', ''PACKET_ACTION'', ''DROP'', ''DST_IP'', target_prefix]"

definition acl_direction :: "string \<Rightarrow> string" where
  "acl_direction direction = (if str_lower direction \<in> {''in'', ''out''} then str_lower direction else ''in'')"

definition inject_acl_misconfig ::
  "'w lab \<Rightarrow> fault_context \<Rightarrow> string \<Rightarrow> string option \<Rightarrow> string option \<Rightarrow> string \<Rightarrow> ('w site, fault_info) action" where
  "inject_acl_misconfig lab cx device target_prefix interface direction =
     bindS (known_container cx device) (\<lambda>container.
     bindS (denied_prefix lab cx device target_prefix) (\<lambda>wanted.
     bindS (liftS (validate_prefix wanted)) (\<lambda>prefix.
     bindS (binding_interface lab cx device container interface) (\<lambda>port.
     let dir = acl_direction direction; name = acl_name_of device prefix
     in bindS (exec lab container ([''iptables'', ''-I''] @ iptables_rule_args prefix name)) (\<lambda>r.
        bindS (if cp_returncode r = 0 then
                 bindS (exec lab container (table_fields name prefix (if dir = ''in'' then ''ingress'' else ''egress'') port)) (\<lambda>_.
                 bindS (exec lab container (rule_fields name prefix)) (\<lambda>_. returnS ()))
               else returnS ()) (\<lambda>_.
        bindS (acl_state_present lab container prefix name) (\<lambda>success.
        settle_injection [(''type'', JStr ''acl_misconfig''), (''device'', JStr device), (''target_prefix'', JStr prefix),
            (''interface'', JStr port), (''direction'', JStr dir), (''acl_name'', JStr name), (''success'', JBool success),
            (''error'', jerror success (text_or (str_strip (text_or (cp_stderr r) (cp_stdout r)))
               ''ACL data-plane and CONFIG_DB state did not agree''))]
          (recover_acl_misconfig lab cx device prefix (Some port) (Some name)) ''ACL compensation failed'')))))))"

end
