(* ===== verification/System_Faults.thy ===== *)
theory System_Faults
  imports Routing_Faults
begin

text \<open>
  \<open>netopsbench/platform/faults/handlers/system.py\<close>: stopping a device with containerlab, which parks its
  dataplane interfaces in a namespace, and starting it again.  Readings are three-valued; a state
  that is neither cleanly stopped nor cleanly running leaves a residual fault that must not be
  retried.
\<close>

section \<open>Readings\<close>

definition containerlab_node_command :: "'w lab \<Rightarrow> fault_context \<Rightarrow> string \<Rightarrow> string \<Rightarrow> string list" where
  "containerlab_node_command lab cx operation device =
     lb_sudo_prefix lab @ [''containerlab'', operation, ''-t'', topology_file cx, ''--node'', device, ''--timeout'', ''120s'']"

definition containerlab_timeout_seconds :: int where
  "containerlab_timeout_seconds = 150"

definition parking_namespace :: "string \<Rightarrow> string" where
  "parking_namespace container = ''clab-park-'' @ container"

definition parking_namespace_exists :: "'w lab \<Rightarrow> string \<Rightarrow> ('w site, bool option) action" where
  "parking_namespace_exists lab container =
     bindS (run_cmd lab [''ip'', ''netns'', ''list''] 15) (\<lambda>r.
       returnS (if cp_returncode r \<noteq> 0 then None
                else Some (list_ex (\<lambda>l. str_words l \<noteq> [] \<and> hd (str_words l) = parking_namespace container)
                             (splitlines (cp_stdout r)))))"

definition opt_bool_text :: "bool option \<Rightarrow> string" where
  "opt_bool_text x = (case x of Some b \<Rightarrow> if b then ''True'' else ''False'' | None \<Rightarrow> ''None'')"

definition jbool_opt :: "bool option \<Rightarrow> json" where
  "jbool_opt x = (case x of Some b \<Rightarrow> JBool b | None \<Rightarrow> JNull)"

section \<open>Waiting for a stop to settle\<close>

definition stop_settle_timeout_seconds :: rat where
  "stop_settle_timeout_seconds = 30"

text \<open>
  The loop polls once a second until the state is decided or the deadline has passed; the fuel
  bounds the polls, and \<open>device_stop_settles\<close> in \<open>Fault_Settling\<close> says how much is enough.
\<close>

fun settle_polls ::
  "nat \<Rightarrow> 'w lab \<Rightarrow> string \<Rightarrow> rat \<Rightarrow> nat \<Rightarrow> ('w site, (bool option \<times> bool option) option) action" where
  "settle_polls 0 lab container deadline responsive = returnS None"
| "settle_polls (Suc n) lab container deadline responsive =
     bindS (container_is_running lab container) (\<lambda>state.
     bindS (parking_namespace_exists lab container) (\<lambda>parking.
       if state = Some False then returnS (Some (state, parking))
       else
         bindS (if state = Some True \<and> parking = Some False then
                  bindS (docker_exec lab container [''/bin/true''] 10) (\<lambda>r.
                    returnS (if cp_returncode r = 0 then responsive + 1 else 0))
                else returnS 0) (\<lambda>responsive'.
           if 3 \<le> responsive' then returnS (Some (state, parking))
           else
             bindS (clockS lab) (\<lambda>now.
               if deadline \<le> now then returnS (Some (state, parking))
               else bindS (sleepS lab 1) (\<lambda>_. settle_polls n lab container deadline responsive')))))"

definition settled_stop_state ::
  "nat \<Rightarrow> 'w lab \<Rightarrow> string \<Rightarrow> ('w site, (bool option \<times> bool option) option) action" where
  "settled_stop_state fuel lab container =
     bindS (clockS lab) (\<lambda>t. settle_polls fuel lab container (t + stop_settle_timeout_seconds) 0)"

section \<open>Injection\<close>

definition stop_error :: "completed \<Rightarrow> string \<Rightarrow> bool option \<Rightarrow> bool option \<Rightarrow> string" where
  "stop_error r container running parking =
     join_given [str_strip (text_or (cp_stderr r) (cp_stdout r)),
       ''container_running='' @ opt_bool_text running @ '', parking_namespace='' @ py_repr (parking_namespace container)
         @ '', parking_exists='' @ opt_bool_text parking]"

definition settle_device_down ::
  "string \<Rightarrow> string \<Rightarrow> completed \<Rightarrow> bool option \<Rightarrow> bool option \<Rightarrow> ('w site, fault_info) action" where
  "settle_device_down device container r running parking =
     (let success = (running = Some False \<and> parking = Some True);
          message = stop_error r container running parking;
          info = [(''type'', JStr ''device_down''), (''device'', JStr device), (''container'', JStr container),
            (''mode'', JStr ''containerlab_node_stop''), (''success'', JBool success),
            (''parking_namespace'', JStr (parking_namespace container)), (''container_running'', jbool_opt running),
            (''parking_exists'', jbool_opt parking), (''management_unavailable'', JBool (running = Some False)),
            (''control_plane_unavailable'', JBool (running = Some False)),
            (''data_plane_unavailable'', JBool (parking = Some True)), (''error'', jerror success message)]
      in if success then bindS (track info) (\<lambda>_. returnS info)
         else if running = Some True \<and> parking = Some False then returnS info
         else
          (let info' = info @ [(''retryable'', JBool False)]
           in bindS (track_residual info' (text_or message ''device-down state is inconsistent'')) (\<lambda>_. returnS info')))"

text \<open>\<open>None\<close>: the fuel of the settling loop was not enough.\<close>

definition inject_device_down :: "nat \<Rightarrow> 'w lab \<Rightarrow> fault_context \<Rightarrow> string \<Rightarrow> ('w site, fault_info option) action" where
  "inject_device_down fuel lab cx device =
     bindS (known_container cx device) (\<lambda>container.
     bindS (run_cmd lab (containerlab_node_command lab cx ''stop'' device) containerlab_timeout_seconds) (\<lambda>r.
     bindS (settled_stop_state fuel lab container) (\<lambda>settled.
       case settled of
         None \<Rightarrow> returnS None
       | Some (running, parking) \<Rightarrow>
           bindS (settle_device_down device container r running parking) (\<lambda>info. returnS (Some info)))))"

section \<open>Recovery\<close>

definition expected_dataplane_interface_count :: "fault_context \<Rightarrow> string \<Rightarrow> int" where
  "expected_dataplane_interface_count cx device =
     int (length (filter (\<lambda>l. ep_device (fst (link_endpoints l)) = device \<or> ep_device (snd (link_endpoints l)) = device)
       (mf_links (fx_manifest cx))))"

definition count_script :: string where
  "count_script =
     ''count=0; for path in /sys/class/net/eth*; do '' @ ''[ -e '' @ [CHR 0x22] @ ''$path'' @ [CHR 0x22] @ '' ] || continue; [ '' @
     [CHR 0x22] @ ''${path##*/}'' @ [CHR 0x22] @ '' = eth0 ] && continue; '' @ ''count=$((count + 1)); done; '' @
     ''printf '' @ [CHR 0x27] @ ''%s'' @ [CHR 0x5C] @ ''n'' @ [CHR 0x27, CHR '' '', CHR 0x22] @ ''$count'' @ [CHR 0x22]"

definition observed_dataplane_interface_count :: "'w lab \<Rightarrow> string \<Rightarrow> ('w site, int option) action" where
  "observed_dataplane_interface_count lab container =
     bindS (docker_exec lab container [''bash'', ''-lc'', count_script] 15) (\<lambda>r.
       returnS (if cp_returncode r \<noteq> 0 then None else int_of_text (str_strip (cp_stdout r))))"

text \<open>Ready, the error, and whether trying again may help.\<close>

type_synonym readiness = "bool \<times> string \<times> bool"

definition bgp_max_tries :: nat where
  "bgp_max_tries = 20"

fun wait_ready :: "nat \<Rightarrow> 'w lab \<Rightarrow> fault_context \<Rightarrow> string \<Rightarrow> string \<Rightarrow> string \<Rightarrow> ('w site, readiness) action" where
  "wait_ready 0 lab cx device container last_error =
     returnS (False, text_or last_error ''device did not recover after containerlab node start'', True)"
| "wait_ready (Suc n) lab cx device container last_error =
     bindS (container_is_running lab container) (\<lambda>running.
     bindS (if running = Some True then supervisord_ready lab container else returnS False) (\<lambda>supervised.
     bindS (if supervised then bgp_neighbors_established lab cx device else returnS False) (\<lambda>established.
       if established then returnS (True, [], False)
       else
         bindS (if running = Some True then
                  bindS (vtysh lab cx device [''show ip bgp summary'']) (\<lambda>r.
                    returnS (text_or (str_strip (text_or (cp_stderr r) (cp_stdout r))) last_error))
                else if running = None then returnS ''unable to read container running state''
                else returnS last_error) (\<lambda>err.
         bindS (sleepS lab 5) (\<lambda>_. wait_ready n lab cx device container err)))))"

definition start_failure :: "completed \<Rightarrow> bool option \<Rightarrow> bool option \<Rightarrow> readiness" where
  "start_failure start running parking =
     (let detail = text_or (str_strip (text_or (cp_stderr start) (cp_stdout start))) ''containerlab node start failed''
      in if parking = Some False \<and> running \<noteq> Some True then
           (False, detail @ ''; parking namespace was lost before the container recovered'', False)
         else if parking = Some True \<and> running = Some True then
           (False, detail @ ''; container is running while dataplane interfaces remain parked'', False)
         else (False, detail, running = Some False \<and> parking = Some True))"

definition activateS :: "'w lab \<Rightarrow> string \<Rightarrow> ('w site, bool \<times> string) action" where
  "activateS lab device s = (case lb_activate lab device (si_world s) of (x, w) \<Rightarrow> (Inr x, s\<lparr>si_world := w\<rparr>))"

text \<open>After the container runs again: interfaces, supervisor, configuration, sessions.\<close>

definition bring_back :: "'w lab \<Rightarrow> fault_context \<Rightarrow> string \<Rightarrow> string \<Rightarrow> ('w site, readiness) action" where
  "bring_back lab cx device container =
     bindS (observed_dataplane_interface_count lab container) (\<lambda>seen.
       let wanted = expected_dataplane_interface_count cx device
       in if seen \<noteq> Some wanted then
            returnS (False, ''restored dataplane interface count is '' @ (case seen of Some i \<Rightarrow> int_str i | None \<Rightarrow> ''None'')
              @ '', expected '' @ int_str wanted, False)
          else
            bindS (supervisord_ready lab container) (\<lambda>supervised.
            bindS (if supervised then returnS None
                   else bindS (run_cmd lab (lb_docker_prefix lab @ [''docker'', ''exec'', ''-d'', container, ''/usr/local/bin/supervisord'']) 30)
                     (\<lambda>r. returnS (if cp_returncode r = 0 then None
                       else Some (text_or (str_strip (text_or (cp_stderr r) (cp_stdout r))) ''supervisord start failed'')))) (\<lambda>failed.
              case failed of
                Some message \<Rightarrow> returnS (False, message, True)
              | None \<Rightarrow>
                  if device_named (fx_manifest cx) device = None then
                    returnS (False, ''device '' @ py_repr device @ '' is missing from topology manifest'', False)
                  else
                    bindS (activateS lab device) (\<lambda>(activated, activation_error).
                      if \<not> activated then returnS (False, activation_error, True)
                      else wait_ready bgp_max_tries lab cx device container []))))"

definition start_and_wait :: "'w lab \<Rightarrow> fault_context \<Rightarrow> string \<Rightarrow> string \<Rightarrow> ('w site, readiness) action" where
  "start_and_wait lab cx device container =
     bindS (container_is_running lab container) (\<lambda>running.
     bindS (parking_namespace_exists lab container) (\<lambda>parking.
       if running = Some False \<and> parking = Some False then
         returnS (False, ''device container is stopped but its parking namespace is missing'', False)
       else if parking = None then returnS (False, ''unable to inspect the device parking namespace'', True)
       else if running = None then returnS (False, ''unable to inspect the device container state'', True)
       else if running = Some True then
         returnS (False, ''device container is already running while the device-down fault is active'', False)
       else
         bindS (run_cmd lab (containerlab_node_command lab cx ''start'' device) containerlab_timeout_seconds) (\<lambda>start.
         bindS (container_is_running lab container) (\<lambda>running'.
         bindS (parking_namespace_exists lab container) (\<lambda>parking'.
           if running' \<noteq> Some True \<or> parking' \<noteq> Some False then returnS (start_failure start running' parking')
           else bring_back lab cx device container)))))"

definition recover_device_down :: "'w lab \<Rightarrow> fault_context \<Rightarrow> string \<Rightarrow> ('w site, fault_info) action" where
  "recover_device_down lab cx device =
     bindS (known_container cx device) (\<lambda>container.
     bindS (start_and_wait lab cx device container) (\<lambda>(ready, last_error, retryable).
     bindS (if ready then remove_faults (fault_matches [(''type'', JStr ''device_down''), (''device'', JStr device)])
            else returnS ()) (\<lambda>_.
     bindS (container_is_running lab container) (\<lambda>running.
     returnS [(''type'', JStr ''device_down''), (''device'', JStr device), (''recovered'', JBool ready),
       (''container_running'', jbool_opt running), (''sonic_ready'', JBool ready), (''retryable'', JBool retryable),
       (''error'', jerror ready last_error)]))))"

end
