(* ===== verification/Fault_Injector.thy ===== *)
theory Fault_Injector
  imports Acl_Faults Link_Faults System_Faults
begin

text \<open>
  \<open>netopsbench/platform/faults/injector.py\<close>, the callables of \<open>builtin/\<close> and \<open>scenario_execution.py\<close>:
  from the type of an episode to the handler that injects it, and from the list of active faults
  to their recovery.  The callables of a specification are rows of a table, so that fault packs
  may bring their own.
\<close>

section \<open>The injector\<close>

text \<open>
  \<open>ij_now\<close> and \<open>ij_now_ns\<close> are the clock readings that make names unique; \<open>ij_fuel\<close> bounds the polls
  of the loop that waits for a stopped device (see \<open>settle_polls\<close>).
\<close>

record 'w injector =
  ij_lab :: "'w lab"
  ij_context :: fault_context
  ij_fuel :: nat
  ij_now :: int
  ij_now_ns :: int

type_synonym 'w injection = "('w site, fault_info option) action"

record 'w fault_calls =
  fc_inject_episode :: "('w injector \<Rightarrow> episode \<Rightarrow> 'w injection) option"
  fc_recover_active_fault :: "('w injector \<Rightarrow> active_fault \<Rightarrow> ('w site, fault_info) action) option"

section \<open>Arguments\<close>

text \<open>\<open>episode_param(episode, key, default)\<close>.\<close>

definition episode_param :: "episode \<Rightarrow> string \<Rightarrow> json \<Rightarrow> json" where
  "episode_param e key fallback =
     (case dict_get (ep_parameters e) key of
        Some v \<Rightarrow> v
      | None \<Rightarrow> dict_get_default (ep_metadata e) key fallback)"

text \<open>
  Values of dictionaries as arguments of the handlers.  The handlers record texts, integers and
  \<open>null\<close> only; a value of another type raises.
\<close>

fun text_arg :: "json \<Rightarrow> string result" where
  "text_arg (JStr s) = Inr s"
| "text_arg _ = Inl (TypeError ''expected a string'')"

fun opt_text_arg :: "json \<Rightarrow> string option result" where
  "opt_text_arg JNull = Inr None"
| "opt_text_arg v = bindE (text_arg v) (\<lambda>s. Inr (Some s))"

fun opt_int_arg :: "json \<Rightarrow> int option result" where
  "opt_int_arg JNull = Inr None"
| "opt_int_arg (JInt i) = Inr (Some i)"
| "opt_int_arg _ = Inl (TypeError ''expected an integer'')"

definition item_text :: "active_fault \<Rightarrow> string \<Rightarrow> ('s, string) action" where
  "item_text f k = liftS (bindE (fault_item f k) text_arg)"

definition get_text :: "active_fault \<Rightarrow> string \<Rightarrow> ('s, string option) action" where
  "get_text f k = liftS (opt_text_arg (fault_get f k))"

definition get_int :: "active_fault \<Rightarrow> string \<Rightarrow> ('s, int option) action" where
  "get_int f k = liftS (opt_int_arg (fault_get f k))"

definition param_text :: "episode \<Rightarrow> string \<Rightarrow> json \<Rightarrow> ('s, string option) action" where
  "param_text e k fallback = liftS (opt_text_arg (episode_param e k fallback))"

definition param_int :: "episode \<Rightarrow> string \<Rightarrow> ('s, int option) action" where
  "param_int e k = liftS (opt_int_arg (episode_param e k JNull))"

text \<open>\<open>a or b\<close> on an optional text.\<close>

definition or_text :: "string option \<Rightarrow> string \<Rightarrow> string" where
  "or_text a b = (if given a then the a else b)"

definition device_of :: "episode \<Rightarrow> string" where
  "device_of e = py_opt (ep_target_device e)"

definition done_info :: "('s, 'a) action \<Rightarrow> ('s, 'a option) action" where
  "done_info m = bindS m (\<lambda>x. returnS (Some x))"

section \<open>Injection by type\<close>

definition inject_link_down_episode :: "'w injector \<Rightarrow> episode \<Rightarrow> 'w injection" where
  "inject_link_down_episode ij e =
     done_info (inject_link_down (ij_lab ij) (ij_context ij) (device_of e) (py_opt (ep_target_interface e)))"

definition inject_link_flapping_episode :: "'w injector \<Rightarrow> episode \<Rightarrow> 'w injection" where
  "inject_link_flapping_episode ij e =
     done_info (inject_link_flapping (ij_lab ij) (ij_context ij) (ij_now_ns ij) (device_of e)
       (or_text (ep_target_interface e) ''Ethernet0'') (episode_param e ''iterations'' (JInt 10))
       (episode_param e ''down_time'' (JInt 2)) (episode_param e ''up_time'' (JInt 3)))"

definition inject_blackhole_route_episode :: "'w injector \<Rightarrow> episode \<Rightarrow> 'w injection" where
  "inject_blackhole_route_episode ij e =
     done_info (inject_blackhole_route (ij_lab ij) (ij_context ij) (device_of e)
       (or_text (ep_target_prefix e) ''192.168.0.0/16''))"

definition inject_static_route_misconfig_episode :: "'w injector \<Rightarrow> episode \<Rightarrow> 'w injection" where
  "inject_static_route_misconfig_episode ij e =
     bindS (param_text e ''target_ip'' JNull) (\<lambda>target_ip.
     bindS (param_text e ''wrong_nexthop'' JNull) (\<lambda>wrong_nexthop.
       done_info (inject_static_route_misconfig (ij_lab ij) (ij_context ij) (device_of e) target_ip wrong_nexthop)))"

definition inject_bgp_neighbor_misconfig_episode :: "'w injector \<Rightarrow> episode \<Rightarrow> 'w injection" where
  "inject_bgp_neighbor_misconfig_episode ij e =
     bindS (param_text e ''peer_ip'' JNull) (\<lambda>peer_ip.
     bindS (param_text e ''misconfig_kind'' (JStr ''peer_as_mismatch'')) (\<lambda>kind.
     bindS (param_int e ''wrong_remote_as'') (\<lambda>wrong_remote_as.
     bindS (param_text e ''password'' JNull) (\<lambda>password.
     bindS (param_text e ''update_source'' JNull) (\<lambda>update_source.
       done_info (inject_bgp_neighbor_misconfig (ij_lab ij) (ij_context ij) (ij_now ij) (device_of e) peer_ip kind
         wrong_remote_as password update_source))))))"

definition inject_route_policy_misconfig_episode :: "'w injector \<Rightarrow> episode \<Rightarrow> 'w injection" where
  "inject_route_policy_misconfig_episode ij e =
     bindS (if given (ep_target_prefix e) then returnS (ep_target_prefix e) else param_text e ''target_prefix'' JNull) (\<lambda>prefix.
     bindS (param_text e ''misconfig_kind'' (JStr ''network_statement_missing'')) (\<lambda>kind.
     bindS (param_text e ''route_map'' JNull) (\<lambda>route_map.
       done_info (inject_route_policy_misconfig (ij_lab ij) (ij_context ij) (device_of e) prefix kind route_map))))"

definition inject_mtu_mismatch_episode :: "'w injector \<Rightarrow> episode \<Rightarrow> 'w injection" where
  "inject_mtu_mismatch_episode ij e =
     done_info (inject_mtu_mismatch (ij_lab ij) (ij_context ij) (device_of e)
       (case ep_target_interface e of Some i \<Rightarrow> i | None \<Rightarrow> [])
       (case ep_mtu e of Some m \<Rightarrow> if m = 0 then 1400 else m | None \<Rightarrow> 1400))"

definition inject_packet_corruption_episode :: "'w injector \<Rightarrow> episode \<Rightarrow> 'w injection" where
  "inject_packet_corruption_episode ij e =
     done_info (inject_packet_corruption (ij_lab ij) (ij_context ij) (device_of e)
       (or_text (ep_target_interface e) ''eth1'') (episode_param e ''corruption_pct'' (JInt 20)))"

definition inject_packet_loss_episode :: "'w injector \<Rightarrow> episode \<Rightarrow> 'w injection" where
  "inject_packet_loss_episode ij e =
     done_info (inject_packet_loss (ij_lab ij) (ij_context ij) (device_of e)
       (or_text (ep_target_interface e) ''eth1'') (episode_param e ''loss_pct'' (JInt 30)))"

definition inject_high_latency_episode :: "'w injector \<Rightarrow> episode \<Rightarrow> 'w injection" where
  "inject_high_latency_episode ij e =
     done_info (inject_high_latency (ij_lab ij) (ij_context ij) (device_of e)
       (or_text (ep_target_interface e) ''eth1'') (episode_param e ''latency_ms'' (JInt 100)))"

definition inject_device_down_episode :: "'w injector \<Rightarrow> episode \<Rightarrow> 'w injection" where
  "inject_device_down_episode ij e = inject_device_down (ij_fuel ij) (ij_lab ij) (ij_context ij) (device_of e)"

definition inject_acl_misconfig_episode :: "'w injector \<Rightarrow> episode \<Rightarrow> 'w injection" where
  "inject_acl_misconfig_episode ij e =
     bindS (if given (ep_target_prefix e) then returnS (ep_target_prefix e) else param_text e ''target_prefix'' JNull) (\<lambda>prefix.
     bindS (param_text e ''interface'' JNull) (\<lambda>interface.
     bindS (param_text e ''direction'' (JStr ''in'')) (\<lambda>direction.
       case direction of
         None \<Rightarrow> raiseS (TypeError ''direction is not a string'')
       | Some d \<Rightarrow> done_info (inject_acl_misconfig (ij_lab ij) (ij_context ij) (device_of e) prefix
                     (if given interface then interface else ep_target_interface e) d))))"

section \<open>Recovery by type\<close>

definition recover_link_down_fault :: "'w injector \<Rightarrow> active_fault \<Rightarrow> ('w site, fault_info) action" where
  "recover_link_down_fault ij f =
     bindS (item_text f ''device'') (\<lambda>device.
     bindS (item_text f ''interface'') (\<lambda>interface.
     bindS (get_text f ''peer_device'') (\<lambda>peer_device.
     bindS (get_text f ''peer_interface'') (\<lambda>peer_interface.
       recover_link_down (ij_lab ij) (ij_context ij) device interface peer_device peer_interface
         (snapshots_of (dict_get (fault_to_dict f) ''route_snapshots''))))))"

definition recover_link_flapping_fault :: "'w injector \<Rightarrow> active_fault \<Rightarrow> ('w site, fault_info) action" where
  "recover_link_flapping_fault ij f =
     bindS (item_text f ''device'') (\<lambda>device.
     bindS (item_text f ''interface'') (\<lambda>interface.
     bindS (get_text f ''task_id'') (\<lambda>task_id.
     bindS (get_text f ''peer_device'') (\<lambda>peer_device.
     bindS (get_text f ''peer_interface'') (\<lambda>peer_interface.
       recover_link_flapping (ij_lab ij) (ij_context ij) device interface task_id peer_device peer_interface
         (snapshots_of (dict_get (fault_to_dict f) ''route_snapshots'')))))))"

definition recover_blackhole_route_fault :: "'w injector \<Rightarrow> active_fault \<Rightarrow> ('w site, fault_info) action" where
  "recover_blackhole_route_fault ij f =
     bindS (item_text f ''device'') (\<lambda>device.
     bindS (item_text f ''prefix'') (\<lambda>prefix.
       recover_blackhole_route (ij_lab ij) (ij_context ij) device prefix))"

definition recover_static_route_misconfig_fault :: "'w injector \<Rightarrow> active_fault \<Rightarrow> ('w site, fault_info) action" where
  "recover_static_route_misconfig_fault ij f =
     bindS (item_text f ''device'') (\<lambda>device.
     bindS (item_text f ''target_ip'') (\<lambda>target_ip.
     bindS (get_text f ''wrong_nexthop'') (\<lambda>wrong_nexthop.
       recover_static_route_misconfig (ij_lab ij) (ij_context ij) device target_ip wrong_nexthop)))"

text \<open>\<open>fault.get(key, default)\<close> for a text.\<close>

definition get_text_or :: "active_fault \<Rightarrow> string \<Rightarrow> string \<Rightarrow> ('s, string) action" where
  "get_text_or f k fallback = liftS (text_arg (dict_get_default (fault_to_dict f) k (JStr fallback)))"

definition recover_bgp_neighbor_misconfig_fault :: "'w injector \<Rightarrow> active_fault \<Rightarrow> ('w site, fault_info) action" where
  "recover_bgp_neighbor_misconfig_fault ij f =
     bindS (item_text f ''device'') (\<lambda>device.
     bindS (item_text f ''peer_ip'') (\<lambda>peer_ip.
     bindS (get_text_or f ''misconfig_kind'' ''peer_as_mismatch'') (\<lambda>kind.
     bindS (get_int f ''original_remote_as'') (\<lambda>original_as.
     bindS (get_text f ''original_password'') (\<lambda>password.
     bindS (get_text f ''original_update_source'') (\<lambda>update_source.
     bindS (get_int f ''wrong_remote_as'') (\<lambda>bad_as.
     bindS (get_text f ''bad_update_source'') (\<lambda>bad_source.
       recover_bgp_neighbor_misconfig (ij_lab ij) (ij_context ij) device peer_ip kind
         \<lparr>bo_remote_as = original_as, bo_password = password, bo_update_source = update_source,
          bo_wrong_remote_as = bad_as, bo_bad_update_source = bad_source\<rparr>))))))))"

definition recover_route_policy_misconfig_fault :: "'w injector \<Rightarrow> active_fault \<Rightarrow> ('w site, fault_info) action" where
  "recover_route_policy_misconfig_fault ij f =
     bindS (item_text f ''device'') (\<lambda>device.
     bindS (item_text f ''target_prefix'') (\<lambda>prefix.
     bindS (get_text_or f ''misconfig_kind'' ''network_statement_missing'') (\<lambda>kind.
     bindS (get_text f ''route_map'') (\<lambda>route_map.
     bindS (get_text f ''network_statement'') (\<lambda>statement.
     bindS (get_text f ''prefix_list_name'') (\<lambda>list_name.
     bindS (get_int f ''sequence'') (\<lambda>seq.
       recover_route_policy_misconfig (ij_lab ij) (ij_context ij) device prefix kind
         \<lparr>po_route_map = route_map, po_network_statement = statement, po_prefix_list = list_name, po_sequence = seq\<rparr>)))))))"

definition recover_mtu_mismatch_fault :: "'w injector \<Rightarrow> active_fault \<Rightarrow> ('w site, fault_info) action" where
  "recover_mtu_mismatch_fault ij f =
     bindS (item_text f ''device'') (\<lambda>device.
     bindS (item_text f ''interface'') (\<lambda>interface.
     bindS (get_int f ''original_mtu'') (\<lambda>original_mtu.
       recover_mtu_mismatch (ij_lab ij) (ij_context ij) device interface original_mtu)))"

definition recover_tc_fault :: "'w injector \<Rightarrow> active_fault \<Rightarrow> ('w site, fault_info) action" where
  "recover_tc_fault ij f =
     bindS (item_text f ''device'') (\<lambda>device.
     bindS (get_text_or f ''interface'' ''Ethernet0'') (\<lambda>interface.
       recover_tc_rules (ij_lab ij) (ij_context ij) device interface))"

definition recover_device_down_fault :: "'w injector \<Rightarrow> active_fault \<Rightarrow> ('w site, fault_info) action" where
  "recover_device_down_fault ij f =
     bindS (item_text f ''device'') (\<lambda>device. recover_device_down (ij_lab ij) (ij_context ij) device)"

definition recover_acl_misconfig_fault :: "'w injector \<Rightarrow> active_fault \<Rightarrow> ('w site, fault_info) action" where
  "recover_acl_misconfig_fault ij f =
     bindS (item_text f ''device'') (\<lambda>device.
     bindS (item_text f ''target_prefix'') (\<lambda>prefix.
     bindS (get_text f ''interface'') (\<lambda>interface.
     bindS (get_text f ''acl_name'') (\<lambda>acl_name.
       recover_acl_misconfig (ij_lab ij) (ij_context ij) device prefix interface acl_name))))"

section \<open>The builtin table\<close>

definition both_calls ::
  "('w injector \<Rightarrow> episode \<Rightarrow> 'w injection) \<Rightarrow> ('w injector \<Rightarrow> active_fault \<Rightarrow> ('w site, fault_info) action) \<Rightarrow> 'w fault_calls" where
  "both_calls inject recover = \<lparr>fc_inject_episode = Some inject, fc_recover_active_fault = Some recover\<rparr>"

definition builtin_calls :: "(string, 'w fault_calls) dict" where
  "builtin_calls =
     [(''link_down'', both_calls inject_link_down_episode recover_link_down_fault),
      (''link_flapping'', both_calls inject_link_flapping_episode recover_link_flapping_fault),
      (''blackhole_route'', both_calls inject_blackhole_route_episode recover_blackhole_route_fault),
      (''static_route_misconfig'', both_calls inject_static_route_misconfig_episode recover_static_route_misconfig_fault),
      (''bgp_neighbor_misconfig'', both_calls inject_bgp_neighbor_misconfig_episode recover_bgp_neighbor_misconfig_fault),
      (''route_policy_misconfig'', both_calls inject_route_policy_misconfig_episode recover_route_policy_misconfig_fault),
      (''mtu_mismatch'', both_calls inject_mtu_mismatch_episode recover_mtu_mismatch_fault),
      (''packet_corruption'', both_calls inject_packet_corruption_episode recover_tc_fault),
      (''packet_loss'', both_calls inject_packet_loss_episode recover_tc_fault),
      (''high_latency'', both_calls inject_high_latency_episode recover_tc_fault),
      (''device_down'', both_calls inject_device_down_episode recover_device_down_fault),
      (''acl_misconfig'', both_calls inject_acl_misconfig_episode recover_acl_misconfig_fault)]"

text \<open>The callables of the specification a name stands for.\<close>

definition calls_for :: "fault_registry \<Rightarrow> (string, 'w fault_calls) dict \<Rightarrow> string \<Rightarrow> 'w fault_calls option" where
  "calls_for registry table name =
     (case snd (get_spec registry name) of None \<Rightarrow> None | Some spec \<Rightarrow> dict_get table (fs_name spec))"

section \<open>Injecting the fault of an episode\<close>

text \<open>A \<open>RuntimeError\<close> of a handler is an unsuccessful injection; other exceptions pass.\<close>

definition failed_injection :: "string \<Rightarrow> exc \<Rightarrow> 'w injection" where
  "failed_injection fault_type e =
     (case e of
        RuntimeError m \<Rightarrow> returnS (Some [(''success'', JBool False), (''fault_type'', JStr fault_type), (''error'', JStr m)])
      | _ \<Rightarrow> raiseS e)"

definition inject_fault ::
  "fault_registry \<Rightarrow> (string, 'w fault_calls) dict \<Rightarrow> 'w injector \<Rightarrow> episode \<Rightarrow> 'w injection" where
  "inject_fault registry table ij e =
     (if ep_fault_type e = ''none'' then
        returnS (Some [(''success'', JBool True), (''fault_type'', JStr ''none''), (''message'', JStr ''Baseline episode'')])
      else
        (case Option.bind (calls_for registry table (ep_fault_type e)) fc_inject_episode of
           None \<Rightarrow> raiseS (ValueError (''Unsupported fault type: '' @ ep_fault_type e))
         | Some inject \<Rightarrow> catchS (inject ij e) (failed_injection (ep_fault_type e))))"

section \<open>Recovering every active fault\<close>

text \<open>\<open>str(e)\<close>: a \<open>KeyError\<close> shows its key in quotes.\<close>

definition exc_text :: "exc \<Rightarrow> string" where
  "exc_text e = (case e of LookupKeyError k \<Rightarrow> py_repr k | _ \<Rightarrow> exc_message e)"

text \<open>\<open>str(name or "")\<close> of the type of a fault.\<close>

definition type_name :: "json \<Rightarrow> string" where
  "type_name t = (if truthy (Some t) then json_text t else [])"

definition recovery_failure :: "active_fault \<Rightarrow> string \<Rightarrow> fault_info" where
  "recovery_failure f message =
     [(''type'', fault_get f ''type''), (''recovered'', JBool False), (''error'', JStr message)]"

definition recover_one ::
  "fault_registry \<Rightarrow> (string, 'w fault_calls) dict \<Rightarrow> 'w injector \<Rightarrow> active_fault \<Rightarrow> ('w site, fault_info) action" where
  "recover_one registry table ij f =
     catchS
       (bindS (liftS (fault_item f ''type'')) (\<lambda>t.
          case Option.bind (calls_for registry table (type_name t)) fc_recover_active_fault of
            None \<Rightarrow> returnS (recovery_failure f ''Unknown fault type'')
          | Some recover \<Rightarrow> recover ij f))
       (\<lambda>e. returnS (recovery_failure f (exc_text e)))"

fun recover_each ::
  "fault_registry \<Rightarrow> (string, 'w fault_calls) dict \<Rightarrow> 'w injector \<Rightarrow> active_fault list \<Rightarrow>
   ('w site, (fault_info \<times> active_fault) list) action" where
  "recover_each registry table ij [] = returnS []"
| "recover_each registry table ij (f # fs) =
     bindS (recover_one registry table ij f) (\<lambda>info.
     bindS (recover_each registry table ij fs) (\<lambda>rest. returnS ((info, f) # rest)))"

text \<open>The faults active at the start are recovered in order; those not recovered stay active.\<close>

definition recover_all ::
  "fault_registry \<Rightarrow> (string, 'w fault_calls) dict \<Rightarrow> 'w injector \<Rightarrow> ('w site, fault_info list) action" where
  "recover_all registry table ij =
     bindS (getS (\<lambda>s. tk_active (si_tracker s))) (\<lambda>faults.
     bindS (recover_each registry table ij faults) (\<lambda>outcomes.
     bindS (set_tracker (\<lambda>t. t\<lparr>tk_active := map snd (filter (\<lambda>(info, f). \<not> info_true info ''recovered'') outcomes)\<rparr>)) (\<lambda>_.
       returnS (map fst outcomes))))"

end
