(* ===== verification/Fault_Accounting.thy ===== *)
theory Fault_Accounting
  imports Fault_Injector "HOL-Library.Sublist"
begin

text \<open>
  The handlers and the tracker: whatever the laboratory does, an injection that reports success has
  recorded exactly the fault it reports, a failed one has recorded nothing or one residual fault,
  and a recovery removes a fault only when it reports that it recovered it.
\<close>

section \<open>Actions that leave the tracker alone\<close>

lemma bindS_return: "bindS (returnS x) f = f x"
  by (rule ext) simp

lemma bindS_assoc: "bindS (bindS m f) g = bindS m (\<lambda>x. bindS (f x) g)"
  by (rule ext) (simp add: bindS_def split: prod.split sum.split)

lemma keeps_getS [keeps_intros]: "keeps view (getS f)"
  by (simp add: keeps_def getS_def)

lemma keeps_liftS [keeps_intros]: "keeps view (liftS r)"
  by (simp add: keeps_def liftS_def)

lemma keeps_lab [keeps_intros]:
  "keeps si_tracker (run_cmd lab args t)" "keeps si_tracker (sleepS lab d)" "keeps si_tracker (clockS lab)"
  "keeps si_tracker (activateS lab device)"
  by (simp_all add: keeps_def run_cmd_def sleepS_def clockS_def activateS_def split: prod.split)

lemma keeps_known_container [keeps_intros]: "keeps view (known_container cx device)"
  unfolding known_container_def by (intro keeps_intros)

lemma keeps_exec [keeps_intros]:
  "keeps si_tracker (docker_exec lab c args t)" "keeps si_tracker (exec lab c args)"
  unfolding docker_exec_def exec_def by (intro keeps_intros)+

lemma keeps_readers [keeps_intros]:
  "keeps si_tracker (container_is_running lab c)" "keeps si_tracker (supervisord_ready lab c)"
  "keeps si_tracker (vtysh lab cx device commands)" "keeps si_tracker (config_cmd lab cx device args)"
  unfolding container_is_running_def supervisord_ready_def vtysh_def config_cmd_def by (intro keeps_intros)+

lemma keeps_bgp [keeps_intros]:
  "keeps si_tracker (bgp_neighbors_established lab cx device)" "keeps si_tracker (bgp_neighbor_state lab cx device ip)"
  unfolding bgp_neighbors_established_def bgp_neighbor_state_def by (intro keeps_intros)+

lemma keeps_foldS [keeps_intros]: "(\<And>x b. keeps view (f x b)) \<Longrightarrow> keeps view (foldS f xs b)"
  by (induction xs arbitrary: b) (auto intro: keeps_intros)

lemma keeps_mtu [keeps_intros]:
  "keeps si_tracker (count_port lab c ex key counts)" "keeps si_tracker (get_common_port_mtu lab cx device exclude)"
  "keeps si_tracker (get_interface_mtu lab cx device i)" "keeps si_tracker (resolve_recovery_mtu lab cx device i original)"
proof -
  show c: "keeps si_tracker (count_port lab c ex key counts)" for c ex key counts
    unfolding count_port_def by (intro keeps_intros)
  show g: "keeps si_tracker (get_common_port_mtu lab cx device exclude)" for exclude
    unfolding get_common_port_mtu_def by (intro keeps_intros c)
  show "keeps si_tracker (get_interface_mtu lab cx device i)" "keeps si_tracker (resolve_recovery_mtu lab cx device i original)"
    unfolding get_interface_mtu_def resolve_recovery_mtu_def by (intro keeps_intros g)+
qed

lemma keeps_routing [keeps_intros]:
  "keeps si_tracker (get_bgp_config_snapshot lab cx device)" "keeps si_tracker (get_device_asn lab cx device)"
  "keeps si_tracker (pick_bgp_neighbor lab cx device ip)" "keeps si_tracker (pick_advertised_network lab cx device pfx)"
  "keeps si_tracker (configure lab cx device commands)" "keeps si_tracker (running_config lab cx device)"
  "keeps si_tracker (local_asn lab cx device seen)"
proof -
  show s: "keeps si_tracker (get_bgp_config_snapshot lab cx device)"
    unfolding get_bgp_config_snapshot_def by (intro keeps_intros)
  show a: "keeps si_tracker (get_device_asn lab cx device)"
    unfolding get_device_asn_def by (intro keeps_intros s)
  show "keeps si_tracker (pick_bgp_neighbor lab cx device ip)" "keeps si_tracker (pick_advertised_network lab cx device pfx)"
    "keeps si_tracker (configure lab cx device commands)" "keeps si_tracker (running_config lab cx device)"
    "keeps si_tracker (local_asn lab cx device seen)"
    unfolding pick_bgp_neighbor_def pick_advertised_network_def configure_def running_config_def local_asn_def
    by (intro keeps_intros s a)+
qed

lemma keeps_poll [keeps_intros]: "keeps si_tracker m \<Longrightarrow> keeps si_tracker (poll lab m wanted n)"
  by (induction n) (auto intro: keeps_intros)

lemma keeps_static [keeps_intros]:
  "keeps si_tracker (running_config_contains lab cx device st)" "keeps si_tracker (running_config_has_route lab cx device t)"
  "keeps si_tracker (operational_route lab cx device t)" "keeps si_tracker (operational_blackhole_present lab cx device t)"
  "keeps si_tracker (operational_nexthop_present lab cx device t n)"
proof -
  show r: "keeps si_tracker (operational_route lab cx device t)"
    unfolding operational_route_def by (intro keeps_intros)
  show "keeps si_tracker (running_config_contains lab cx device st)" "keeps si_tracker (running_config_has_route lab cx device t)"
    "keeps si_tracker (operational_blackhole_present lab cx device t)" "keeps si_tracker (operational_nexthop_present lab cx device t n)"
    unfolding running_config_contains_def running_config_has_route_def operational_blackhole_present_def
      operational_nexthop_present_def by (intro keeps_intros r)+
qed

lemma keeps_both_read [keeps_intros]:
  "keeps view a \<Longrightarrow> keeps view b \<Longrightarrow> keeps view (both_read a w b)" "keeps view a \<Longrightarrow> keeps view (reads a w)"
  unfolding both_read_def reads_def by (intro keeps_intros; assumption)+

lemma keeps_prefix [keeps_intros]:
  "keeps si_tracker (bgp_prefix_present lab cx device pfx)" "keeps si_tracker (wait_for_bgp_prefix lab cx device pfx w n)"
proof -
  show p: "keeps si_tracker (bgp_prefix_present lab cx device pfx)"
    unfolding bgp_prefix_present_def by (intro keeps_intros)
  show "keeps si_tracker (wait_for_bgp_prefix lab cx device pfx w n)"
  proof (induction n)
    case (Suc n)
    show ?case unfolding wait_for_bgp_prefix.simps by (intro keeps_intros p Suc)
  qed (simp add: keeps_intros)
qed

lemma keeps_netem [keeps_intros]:
  "keeps si_tracker (qdisc_matches lab c i imp v u)" "keeps si_tracker (has_netem_qdisc lab c i)"
  "keeps si_tracker (delete_qdisc lab c i)"
proof -
  show h: "keeps si_tracker (has_netem_qdisc lab c i)"
    unfolding has_netem_qdisc_def by (intro keeps_intros)
  show "keeps si_tracker (qdisc_matches lab c i imp v u)" "keeps si_tracker (delete_qdisc lab c i)"
    unfolding qdisc_matches_def delete_qdisc_def by (intro keeps_intros h)+
qed

lemma keeps_apply_mtu [keeps_intros]: "keeps si_tracker (apply_mtu lab cx device c s i m)"
  unfolding apply_mtu_def by (intro keeps_intros)

lemma keeps_link [keeps_intros]:
  "keeps si_tracker (set_link_admin_state lab cx e b)" "keeps si_tracker (snapshot_client_routes lab cx e)"
  "keeps si_tracker (restore_route lab e x errors)"
  unfolding set_link_admin_state_def snapshot_client_routes_def restore_route_def by (intro keeps_intros)+

lemma keeps_restore [keeps_intros]: "keeps si_tracker (restore_client_routes lab e routes)"
  unfolding restore_client_routes_def by (intro keeps_intros)

lemma keeps_bring_up [keeps_intros]: "keeps si_tracker (bring_up lab cx snaps e)"
  unfolding bring_up_def by (intro keeps_intros)

lemma keeps_both_ends [keeps_intros]:
  "keeps si_tracker (bring_up_all lab cx snaps p es)" "keeps si_tracker (snapshot_both lab cx ends)"
  unfolding bring_up_all_def snapshot_both_def by (intro keeps_intros)+

lemma keeps_take_down [keeps_intros]: "keeps si_tracker (take_down lab cx es attempted)"
  by (induction es arbitrary: attempted) (auto intro!: keeps_intros)

lemma keeps_set_physical_link [keeps_intros]: "keeps si_tracker (set_physical_link lab cx ends b snaps)"
  unfolding set_physical_link_def by (intro keeps_intros)

lemma keeps_acl [keeps_intros]:
  "keeps si_tracker (acl_state lab c pfx name)" "keeps si_tracker (reported_interface lab c)"
  "keeps si_tracker (denied_prefix lab cx device given_prefix)"
  unfolding acl_state_def reported_interface_def denied_prefix_def by (intro keeps_intros)+

lemma keeps_acl_states [keeps_intros]:
  "keeps si_tracker (acl_state_present lab c pfx name)" "keeps si_tracker (acl_state_absent lab c pfx name)"
  "keeps si_tracker (binding_interface lab cx device c interface)"
  unfolding acl_state_present_def acl_state_absent_def binding_interface_def by (intro keeps_intros)+

lemma keeps_parking [keeps_intros]: "keeps si_tracker (parking_namespace_exists lab c)"
  unfolding parking_namespace_exists_def by (intro keeps_intros)

lemma keeps_settle_polls [keeps_intros]: "keeps si_tracker (settle_polls n lab c deadline r)"
  by (induction n arbitrary: r) (auto intro!: keeps_intros)

lemma keeps_settled [keeps_intros]: "keeps si_tracker (settled_stop_state n lab c)"
  unfolding settled_stop_state_def by (intro keeps_intros)

lemma keeps_wait_ready [keeps_intros]: "keeps si_tracker (wait_ready n lab cx device c err)"
  by (induction n arbitrary: err) (auto intro!: keeps_intros)

lemma keeps_count [keeps_intros]: "keeps si_tracker (observed_dataplane_interface_count lab c)"
  unfolding observed_dataplane_interface_count_def by (intro keeps_intros)

lemma keeps_start [keeps_intros]:
  "keeps si_tracker (bring_back lab cx device c)" "keeps si_tracker (start_and_wait lab cx device c)"
proof -
  show b: "keeps si_tracker (bring_back lab cx device c)"
    unfolding bring_back_def by (intro keeps_intros)
  show "keeps si_tracker (start_and_wait lab cx device c)"
    unfolding start_and_wait_def by (intro keeps_intros b)
qed

section \<open>Recording and removing faults\<close>

definition active :: "'w site \<Rightarrow> active_fault list" where
  "active s = tk_active (si_tracker s)"

text \<open>A fault that stands for a change that was neither confirmed nor undone.\<close>

definition is_residual :: "active_fault \<Rightarrow> bool" where
  "is_residual f \<longleftrightarrow> dict_get (af_metadata f) ''residual_mutation'' = Some (JBool True) \<and> af_success f = JBool False"

lemma keeps_active: "keeps si_tracker m \<Longrightarrow> keeps active m"
  by (simp add: keeps_def active_def)

lemma keeps_background [keeps_intros]:
  "keeps active (stop_background lab i t own)" "keeps active (register_background_control i)"
  by (simp_all add: keeps_def active_def stop_background_def register_background_control_def set_tracker_def Let_def
      split: prod.split)

text \<open>An action that leaves the active faults alone, in front of one that does not.\<close>

lemma triple_neutral:
  assumes "keeps active m" "\<And>x. triple (\<lambda>s. active s = old) (f x) Q E" "\<And>e s. active s = old \<Longrightarrow> E e s"
  shows "triple (\<lambda>s. active s = old) (bindS m f) Q E"
proof (rule triple_bind [where R = "\<lambda>_ s. active s = old"])
  have "triple (\<lambda>s. active s = old) m (\<lambda>x s. active s = old) (\<lambda>e s. active s = old)"
    using keeps_triple [OF assms(1), where P = "\<lambda>a. a = old"] .
  then show "triple (\<lambda>s. active s = old) m (\<lambda>_ s. active s = old) E"
    by (rule triple_weaken) (auto intro: assms(3))
qed (rule assms(2))

lemma triple_track:
  "triple (\<lambda>s. active s = old) (track info) (\<lambda>f s. fault_from_dict info = Inr f \<and> active s = old @ [f]) (\<lambda>e s. active s = old)"
  by (auto simp: triple_def track_def bindS_def liftS_def set_tracker_def returnS_def active_def split: sum.split)

lemma map_of_filter_keys: "(\<And>v. P (k, v)) \<Longrightarrow> map_of (filter P d) k = map_of d k"
  by (induction d) auto

lemma residual_fault: "fault_from_dict (residual_payload info message) = Inr f \<Longrightarrow> is_residual f"
  by (auto simp: fault_from_dict_def residual_payload_def dict_update_def is_residual_def dict_get_default_def
      map_of_filter_keys split: option.splits)

lemma filterE_subseq: "filterE p xs = Inr ys \<Longrightarrow> subseq ys xs"
  by (induction xs arbitrary: ys) (auto simp: bindE_def split: sum.splits if_splits)

lemma triple_remove:
  "triple (\<lambda>s. active s = old) (remove_faults p) (\<lambda>_ s. subseq (active s) old) (\<lambda>e s. subseq (active s) old)"
  by (auto simp: triple_def remove_faults_def active_def intro: filterE_subseq split: sum.split)

section \<open>The contract of an injection\<close>

definition accounted :: "active_fault list \<Rightarrow> fault_info \<Rightarrow> active_fault list \<Rightarrow> bool" where
  "accounted old info new \<longleftrightarrow>
     (if info_true info ''success'' then \<exists>f. fault_from_dict info = Inr f \<and> new = old @ [f]
      else \<exists>kept. subseq kept old \<and> (new = kept \<or> (\<exists>f. new = kept @ [f] \<and> is_residual f)))"

definition accounts :: "('w site, fault_info) action \<Rightarrow> bool" where
  "accounts m \<longleftrightarrow>
     (\<forall>old. triple (\<lambda>s. active s = old) m (\<lambda>info s. accounted old info (active s)) (\<lambda>e s. subseq (active s) old))"

named_theorems accounts_intros \<open>injections that account for what they did\<close>

lemma accountsI:
  "(\<And>old. triple (\<lambda>s. active s = old) m (\<lambda>info s. accounted old info (active s)) (\<lambda>e s. subseq (active s) old)) \<Longrightarrow> accounts m"
  by (simp add: accounts_def)

lemma accountsD:
  "accounts m \<Longrightarrow> triple (\<lambda>s. active s = old) m (\<lambda>info s. accounted old info (active s)) (\<lambda>e s. subseq (active s) old)"
  by (simp add: accounts_def)

lemma accounts_bind: "keeps active m \<Longrightarrow> (\<And>x. accounts (f x)) \<Longrightarrow> accounts (bindS m f)"
  by (rule accountsI, rule triple_neutral) (auto intro: accountsD)

lemma accounts_raise: "accounts (raiseS e)"
  by (rule accountsI) (auto intro: triple_raise)

lemma accounts_split:
  "(b \<Longrightarrow> accounts m) \<Longrightarrow> (\<not> b \<Longrightarrow> accounts n) \<Longrightarrow> accounts (if b then m else n)"
  "accounts m \<Longrightarrow> (\<And>y. x = Some y \<Longrightarrow> accounts (f y)) \<Longrightarrow> accounts (case x of None \<Rightarrow> m | Some y \<Rightarrow> f y)"
  "(\<And>a. z = Inl a \<Longrightarrow> accounts (g a)) \<Longrightarrow> (\<And>b. z = Inr b \<Longrightarrow> accounts (h b)) \<Longrightarrow>
   accounts (case z of Inl a \<Rightarrow> g a | Inr b \<Rightarrow> h b)"
  "accounts (k (fst p) (snd p)) \<Longrightarrow> accounts (case p of (a, b) \<Rightarrow> k a b)"
  "accounts (l y) \<Longrightarrow> accounts (Let y l)"
  by (auto split: option.split sum.split prod.split)

lemma accounts_nothing: "\<not> info_true info ''success'' \<Longrightarrow> accounts (returnS info)"
  by (rule accountsI) (auto simp: accounted_def intro!: triple_return)

lemma accounts_track: "info_true info ''success'' \<Longrightarrow> accounts (bindS (track info) (\<lambda>_. returnS info))"
proof (rule accountsI)
  fix old
  assume "info_true info ''success''"
  then show "triple (\<lambda>s. active s = old) (bindS (track info) (\<lambda>_. returnS info))
      (\<lambda>info s. accounted old info (active s)) (\<lambda>e s. subseq (active s) old)"
    by (intro triple_bind [where R = "\<lambda>f s. fault_from_dict info = Inr f \<and> active s = old @ [f]"]
        triple_weaken [OF triple_track] triple_return) (auto simp: accounted_def)
qed

text \<open>Leaving a residual fault after what was removed.\<close>

lemma triple_residual:
  assumes "\<not> info_true info ''success''"
  shows "triple (\<lambda>s. subseq (active s) old) (bindS (track_residual any message) (\<lambda>_. returnS info))
           (\<lambda>info s. accounted old info (active s)) (\<lambda>e s. subseq (active s) old)"
proof (rule tripleI)
  fix s :: "'a site" and e s'
  assume "subseq (active s) old" "bindS (track_residual any message) (\<lambda>_. returnS info) s = (Inl e, s')"
  then show "subseq (active s') old"
    by (auto simp: track_residual_def track_def bindS_def liftS_def set_tracker_def returnS_def split: sum.splits)
next
  fix s :: "'a site" and x s'
  assume p: "subseq (active s) old" and r: "bindS (track_residual any message) (\<lambda>_. returnS info) s = (Inr x, s')"
  then obtain f where "fault_from_dict (residual_payload any message) = Inr f" "active s' = active s @ [f]" "x = info"
    by (auto simp: track_residual_def track_def bindS_def liftS_def set_tracker_def returnS_def active_def split: sum.splits)
  then show "accounted old x (active s')"
    using assms p residual_fault by (auto simp: accounted_def)
qed

lemma accounts_residual:
  "\<not> info_true info ''success'' \<Longrightarrow> accounts (bindS (track_residual any message) (\<lambda>_. returnS info))"
  by (rule accountsI, rule triple_weaken [OF triple_residual]) auto

text \<open>Recoveries only ever remove faults, and none unless they report success.\<close>

definition retains :: "('w site, fault_info) action \<Rightarrow> bool" where
  "retains m \<longleftrightarrow>
     (\<forall>old. triple (\<lambda>s. active s = old) m
        (\<lambda>info s. subseq (active s) old \<and> (\<not> info_true info ''recovered'' \<longrightarrow> active s = old)) (\<lambda>e s. subseq (active s) old))"

lemma retainsI:
  "(\<And>old. triple (\<lambda>s. active s = old) m
     (\<lambda>info s. subseq (active s) old \<and> (\<not> info_true info ''recovered'' \<longrightarrow> active s = old)) (\<lambda>e s. subseq (active s) old)) \<Longrightarrow> retains m"
  by (simp add: retains_def)

lemma retainsD:
  "retains m \<Longrightarrow> triple (\<lambda>s. active s = old) m
     (\<lambda>info s. subseq (active s) old \<and> (\<not> info_true info ''recovered'' \<longrightarrow> active s = old)) (\<lambda>e s. subseq (active s) old)"
  by (simp add: retains_def)

lemma retains_bind: "keeps active m \<Longrightarrow> (\<And>x. retains (f x)) \<Longrightarrow> retains (bindS m f)"
  by (rule retainsI, rule triple_neutral) (auto intro: retainsD)

lemma retains_raise: "retains (raiseS e)"
  by (rule retainsI) (auto intro: triple_raise)

lemma retains_split:
  "(b \<Longrightarrow> retains m) \<Longrightarrow> (\<not> b \<Longrightarrow> retains n) \<Longrightarrow> retains (if b then m else n)"
  "retains m \<Longrightarrow> (\<And>y. x = Some y \<Longrightarrow> retains (f y)) \<Longrightarrow> retains (case x of None \<Rightarrow> m | Some y \<Rightarrow> f y)"
  "retains (k (fst p) (snd p)) \<Longrightarrow> retains (case p of (a, b) \<Rightarrow> k a b)"
  "retains (l y) \<Longrightarrow> retains (Let y l)"
  by (auto split: option.split sum.split prod.split)

text \<open>The end of every recovery: remove the fault if recovered, and report.\<close>

lemma triple_remove_if:
  "triple (\<lambda>s. active s = old) (if b then remove_faults p else returnS ())
     (\<lambda>_ s. subseq (active s) old \<and> (\<not> b \<longrightarrow> active s = old)) (\<lambda>e s. subseq (active s) old)"
  by (cases b) (auto intro: triple_weaken [OF triple_remove] triple_return)

lemma retains_end:
  assumes "info_true info ''recovered'' = b"
  shows "retains (bindS (if b then remove_faults p else returnS ()) (\<lambda>_. returnS info))"
  by (rule retainsI, rule triple_bind [OF triple_remove_if]) (auto simp: assms intro: triple_return)

lemma retains_read_end:
  assumes "\<And>x. info_true (info x) ''recovered'' = b" "keeps active m"
  shows "retains (bindS (if b then remove_faults p else returnS ()) (\<lambda>_. bindS m (\<lambda>x. returnS (info x))))"
proof (rule retainsI)
  fix old
  have "triple (\<lambda>s. subseq (active s) old \<and> (\<not> b \<longrightarrow> active s = old)) m
          (\<lambda>_ s. subseq (active s) old \<and> (\<not> b \<longrightarrow> active s = old)) (\<lambda>e s. subseq (active s) old)"
    using keeps_triple [OF assms(2), where P = "\<lambda>a. subseq a old \<and> (\<not> b \<longrightarrow> a = old)"]
    by (rule triple_weaken) auto
  then show "triple (\<lambda>s. active s = old)
      (bindS (if b then remove_faults p else returnS ()) (\<lambda>_. bindS m (\<lambda>x. returnS (info x))))
      (\<lambda>info s. subseq (active s) old \<and> (\<not> info_true info ''recovered'' \<longrightarrow> active s = old)) (\<lambda>e s. subseq (active s) old)"
    by (intro triple_bind [OF triple_remove_if] triple_bind) (auto simp: assms(1) intro: triple_return)
qed

lemma info_true_simps [simp]:
  "info_true ((k, v) # info) k' = (if k' = k then truthy (Some v) else info_true info k')"
  by (simp add: info_true_def)

lemma info_true_append: "info_true (a @ b) k = (if k \<in> fst ` set a then info_true a k else info_true b k)"
  by (cases "map_of a k") (simp_all add: info_true_def map_add_def dom_map_of_conv_image_fst [symmetric] dom_def)

lemma truthy_bool [simp]: "truthy (Some (JBool b)) = b"
  by (simp add: truthy_def)

lemmas retains_rules = retains_bind retains_raise retains_split retains_end retains_read_end

lemma retains_recover:
  "retains (recover_tc_rules lab cx device i)" "retains (recover_mtu_mismatch lab cx device i original)"
  "retains (recover_link_down lab cx device i peer port snaps)" "retains (recover_link_flapping lab cx device i task peer port snaps)"
  "retains (recover_blackhole_route lab cx device t)" "retains (recover_static_route_misconfig lab cx device t hop)"
  "retains (recover_bgp_neighbor_misconfig lab cx device ip kind o0)"
  "retains (recover_route_policy_misconfig lab cx device t kind po)"
  "retains (recover_acl_misconfig lab cx device t interface name)" "retains (recover_device_down lab cx device)"
  unfolding recover_tc_rules_def recover_mtu_mismatch_def recover_link_down_def recover_link_flapping_def
    recover_blackhole_route_def recover_static_route_misconfig_def recover_bgp_neighbor_misconfig_def
    recover_route_policy_misconfig_def recover_acl_misconfig_def recover_device_down_def
  by (intro retains_rules keeps_background keeps_active keeps_intros; simp)+

section \<open>Every injection accounts for what it did\<close>

lemma info_true_other [simp]: "k \<noteq> k' \<Longrightarrow> info_true (dict_set info k v) k' = info_true info k'"
  by (simp add: info_true_def)

text \<open>An injection that is undone by a recovery.\<close>

lemma accounts_settle:
  assumes "retains recover"
  shows "accounts (settle_injection info recover fallback)"
proof (cases "info_true info ''success''")
  case False
  have t: "triple (\<lambda>s. active s = old)
      (bindS recover (\<lambda>rollback. track_failed_compensation info rollback fallback))
      (\<lambda>info s. accounted old info (active s)) (\<lambda>e s. subseq (active s) old)" for old
  proof (rule triple_bind [where R = "\<lambda>_ s. subseq (active s) old"])
    show "triple (\<lambda>s. active s = old) recover (\<lambda>_ s. subseq (active s) old) (\<lambda>e s. subseq (active s) old)"
      using retainsD [OF assms] by (rule triple_weaken) auto
    show "triple (\<lambda>s. subseq (active s) old) (track_failed_compensation info rollback fallback)
        (\<lambda>info s. accounted old info (active s)) (\<lambda>e s. subseq (active s) old)" for rollback
      unfolding track_failed_compensation_def Let_def
      by (intro triple_if triple_residual triple_return) (use False in \<open>auto simp: accounted_def\<close>)
  qed
  then show ?thesis using False by (auto simp: settle_injection_def intro!: accountsI)
qed (simp add: settle_injection_def accounts_track)

lemma accounts_finish_netem: "accounts (finish_netem_injection lab c i info)"
  unfolding finish_netem_injection_def
  by (intro accounts_bind accounts_split accounts_track accounts_nothing accounts_residual keeps_active keeps_intros
      | simp)+

lemmas accounts_rules = accounts_bind accounts_raise accounts_split accounts_settle accounts_finish_netem
  accounts_track accounts_nothing accounts_residual retains_recover keeps_background

lemma accounts_netem: "accounts (inject_netem lab cx kind key imp u missing device i v)"
  unfolding inject_netem_def by (intro accounts_rules keeps_active keeps_intros)

lemma accounts_impairments:
  "accounts (inject_packet_loss lab cx device i v)" "accounts (inject_packet_corruption lab cx device i v)"
  "accounts (inject_high_latency lab cx device i v)"
  unfolding inject_packet_loss_def inject_packet_corruption_def inject_high_latency_def by (rule accounts_netem)+

lemma accounts_routing:
  "accounts (inject_blackhole_route lab cx device t)" "accounts (inject_static_route_misconfig lab cx device ip hop)"
  "accounts (inject_acl_misconfig lab cx device wanted interface d)"
  unfolding inject_blackhole_route_def inject_static_route_misconfig_def inject_acl_misconfig_def
  by (intro accounts_rules keeps_active keeps_intros)+

lemma accounts_bgp:
  "accounts (inject_bgp_neighbor_misconfig lab cx now device ip kind wrong pw src)"
  "accounts (inject_route_policy_misconfig lab cx device wanted kind rm)"
  unfolding inject_bgp_neighbor_misconfig_def inject_route_policy_misconfig_def
  by (intro accounts_rules keeps_active keeps_intros; simp)+

lemma accounts_mtu: "accounts (inject_mtu_mismatch lab cx device i m)"
  unfolding inject_mtu_mismatch_def
  by (intro accounts_rules keeps_active keeps_intros; simp)

text \<open>Changes of links are tracked before the dictionary is returned.\<close>

lemma accounts_settled:
  assumes "info_true info ''success'' = b"
  shows "accounts (bindS (if b then bindS (track info) (\<lambda>_. returnS ())
           else if r then bindS (track_residual info m) (\<lambda>_. returnS ()) else returnS ()) (\<lambda>_. returnS info))"
  using assms by (cases b; cases r) (simp_all add: bindS_assoc bindS_return accounts_track accounts_nothing accounts_residual)

lemma accounts_link: "accounts (inject_link_down lab cx device i)"
  unfolding inject_link_down_def
  by (intro accounts_settled accounts_rules keeps_active keeps_intros;
      simp add: link_info_def peer_info_def info_true_append)

lemma accounts_flapping: "accounts (inject_link_flapping lab cx now device i n down up)"
  unfolding inject_link_flapping_def
  by (intro accounts_settled [where b = False, simplified] accounts_rules keeps_active keeps_intros;
      simp add: link_info_def peer_info_def info_true_append)

lemma accounts_device: "accounts (settle_device_down device c r running parking)"
  unfolding settle_device_down_def Let_def
  by (intro accounts_rules; simp)

text \<open>The same for injections that may run out of fuel.\<close>

definition accounts_opt :: "'w injection \<Rightarrow> bool" where
  "accounts_opt m \<longleftrightarrow>
     (\<forall>old. triple (\<lambda>s. active s = old) m
        (\<lambda>x s. case x of None \<Rightarrow> active s = old | Some info \<Rightarrow> accounted old info (active s)) (\<lambda>e s. subseq (active s) old))"

lemma accounts_done: "accounts m \<Longrightarrow> accounts_opt (done_info m)"
  unfolding accounts_opt_def accounts_def done_info_def by (auto intro!: triple_bind triple_return)

lemma accounts_opt_bind: "keeps active m \<Longrightarrow> (\<And>x. accounts_opt (f x)) \<Longrightarrow> accounts_opt (bindS m f)"
  unfolding accounts_opt_def by (intro allI triple_neutral) auto

lemma accounts_opt_basic: "accounts_opt (raiseS e)" "accounts_opt (returnS None)"
  "\<not> info_true info ''success'' \<Longrightarrow> accounts_opt (returnS (Some info))"
  unfolding accounts_opt_def by (auto simp: accounted_def intro!: triple_raise triple_return)

lemma accounts_opt_split:
  "accounts_opt m \<Longrightarrow> (\<And>y. x = Some y \<Longrightarrow> accounts_opt (f y)) \<Longrightarrow> accounts_opt (case x of None \<Rightarrow> m | Some y \<Rightarrow> f y)"
  "accounts_opt (k (fst p) (snd p)) \<Longrightarrow> accounts_opt (case p of (a, b) \<Rightarrow> k a b)"
  by (auto split: option.split prod.split)

lemma accounts_opt_device: "accounts_opt (inject_device_down fuel lab cx device)"
  unfolding inject_device_down_def
  by (intro accounts_opt_bind accounts_opt_basic accounts_opt_split keeps_active keeps_intros
      accounts_done [OF accounts_device, unfolded done_info_def])

section \<open>The injector\<close>

lemma keeps_arguments [keeps_intros]:
  "keeps view (item_text f k)" "keeps view (get_text f k)" "keeps view (get_int f k)" "keeps view (param_text e k v)"
  "keeps view (param_int e k)" "keeps view (get_text_or f k w)"
  by (simp_all add: item_text_def get_text_def get_int_def param_text_def param_int_def get_text_or_def keeps_liftS)

lemmas accounts_done_rules = accounts_done [OF accounts_link] accounts_done [OF accounts_flapping]
  accounts_done [OF accounts_mtu] accounts_done [OF accounts_impairments(1)] accounts_done [OF accounts_impairments(2)]
  accounts_done [OF accounts_impairments(3)] accounts_done [OF accounts_routing(1)] accounts_done [OF accounts_routing(2)]
  accounts_done [OF accounts_routing(3)] accounts_done [OF accounts_bgp(1)] accounts_done [OF accounts_bgp(2)]
  accounts_opt_device

lemma accounts_episodes:
  "accounts_opt (inject_link_down_episode ij e)" "accounts_opt (inject_link_flapping_episode ij e)"
  "accounts_opt (inject_blackhole_route_episode ij e)" "accounts_opt (inject_static_route_misconfig_episode ij e)"
  "accounts_opt (inject_bgp_neighbor_misconfig_episode ij e)" "accounts_opt (inject_route_policy_misconfig_episode ij e)"
  "accounts_opt (inject_mtu_mismatch_episode ij e)" "accounts_opt (inject_packet_corruption_episode ij e)"
  "accounts_opt (inject_packet_loss_episode ij e)" "accounts_opt (inject_high_latency_episode ij e)"
  "accounts_opt (inject_device_down_episode ij e)" "accounts_opt (inject_acl_misconfig_episode ij e)"
  unfolding inject_link_down_episode_def inject_link_flapping_episode_def inject_blackhole_route_episode_def
    inject_static_route_misconfig_episode_def inject_bgp_neighbor_misconfig_episode_def
    inject_route_policy_misconfig_episode_def inject_mtu_mismatch_episode_def inject_packet_corruption_episode_def
    inject_packet_loss_episode_def inject_high_latency_episode_def inject_device_down_episode_def
    inject_acl_misconfig_episode_def
  by (intro accounts_done_rules accounts_opt_bind accounts_opt_basic accounts_opt_split keeps_active keeps_intros)+

lemma accounts_builtin:
  assumes "dict_get builtin_calls name = Some c" "fc_inject_episode c = Some inject"
  shows "accounts_opt (inject ij e)"
  using map_of_SomeD [OF assms(1)] assms(2)
  by (auto simp: builtin_calls_def both_calls_def accounts_episodes)

lemma accounts_failed:
  "triple (\<lambda>s. subseq (active s) old) (failed_injection t e)
     (\<lambda>x s. case x of None \<Rightarrow> active s = old | Some info \<Rightarrow> accounted old info (active s)) (\<lambda>e s. subseq (active s) old)"
  by (cases e) (auto simp: failed_injection_def accounted_def intro!: triple_return triple_raise)

lemma accounts_inject_fault:
  fixes ij :: "'w injector"
  assumes "ep_fault_type e \<noteq> ''none''"
  shows "accounts_opt (inject_fault registry builtin_calls ij e)"
proof (cases "Option.bind (calls_for registry builtin_calls (ep_fault_type e)) fc_inject_episode
    :: ('w injector \<Rightarrow> episode \<Rightarrow> 'w injection) option")
  case None
  then show ?thesis using assms by (simp add: inject_fault_def accounts_opt_basic)
next
  case (Some inject)
  then obtain name c where "dict_get builtin_calls name = Some c" "fc_inject_episode c = Some inject"
    by (auto simp: calls_for_def bind_eq_Some_conv split: option.splits)
  from accounts_builtin [OF this] have "accounts_opt (inject ij e)" .
  then have "accounts_opt (catchS (inject ij e) (failed_injection (ep_fault_type e)))"
    unfolding accounts_opt_def by (auto intro: triple_catch accounts_failed)
  then show ?thesis using Some assms by (simp add: inject_fault_def)
qed


section \<open>Recovering everything\<close>

lemma recover_one_returns: "\<exists>info s'. recover_one registry table ij f s = (Inr info, s')"
proof -
  have "triple (\<lambda>_. True) (recover_one registry table ij f) (\<lambda>_ _. True) (\<lambda>_ _. False)"
    unfolding recover_one_def by (rule triple_catch [where R = "\<lambda>_ _. True"])
      (auto simp: triple_def returnS_def split: prod.split sum.split)
  then show ?thesis
    using tripleD(2) [of "\<lambda>_. True" "recover_one registry table ij f"]
    by (cases "recover_one registry table ij f s"; cases "fst (recover_one registry table ij f s)") auto
qed

lemma recover_each_returns:
  "\<exists>outcomes s'. recover_each registry table ij fs s = (Inr outcomes, s') \<and> map snd outcomes = fs"
proof (induction fs arbitrary: s)
  case (Cons f fs)
  obtain info s1 where "recover_one registry table ij f s = (Inr info, s1)" using recover_one_returns by blast
  moreover obtain outcomes s2 where "recover_each registry table ij fs s1 = (Inr outcomes, s2)" "map snd outcomes = fs"
    using Cons by blast
  ultimately show ?case by (simp add: bindS_cases returnS_def)
qed (simp add: returnS_def)

text \<open>
  C4. Recovering everything never raises, whichever fault pack the callables come from: it gives
  one result for each fault that was active, in order, and the faults that stay active are exactly
  those whose result does not say that they were recovered.
\<close>

theorem recover_all_exact:
  "\<exists>results s'. recover_all registry table ij s = (Inr results, s') \<and> length results = length (active s) \<and>
     active s' = map snd (filter (\<lambda>(info, f). \<not> info_true info ''recovered'') (zip results (active s)))"
proof -
  obtain outcomes s1 where r: "recover_each registry table ij (active s) s = (Inr outcomes, s1)" "map snd outcomes = active s"
    using recover_each_returns by blast
  have "zip (map fst outcomes) (active s) = outcomes" unfolding r(2) [symmetric] by (rule zip_map_fst_snd)
  moreover have "length outcomes = length (active s)" by (simp add: r(2) [symmetric])
  moreover have "recover_all registry table ij s =
      (Inr (map fst outcomes), s1\<lparr>si_tracker := (si_tracker s1)\<lparr>tk_active :=
         map snd (filter (\<lambda>(info, f). \<not> info_true info ''recovered'') outcomes)\<rparr>\<rparr>)"
    using r(1) by (simp add: recover_all_def bindS_def getS_def active_def set_tracker_def returnS_def)
  ultimately show ?thesis by (simp add: active_def)
qed

end
