(* ===== verification/Fault_Safety.thy ===== *)
theory Fault_Safety
  imports Fault_Accounting
begin

text \<open>
  What the handlers guarantee about the devices themselves, when the devices answer truthfully:
  an impairment or a link that is still broken when a handler returns is recorded as an active
  fault, so that \<open>recover_all\<close> will find it.
\<close>

section \<open>Impairments\<close>

abbreviation in_container :: "'w lab \<Rightarrow> string \<Rightarrow> string list \<Rightarrow> string list" where
  "in_container lab container args \<equiv> (lb_docker_prefix lab @ [''docker'', ''exec'', container]) @ args"

text \<open>
  \<open>netem w\<close>: the interface has a \<open>netem\<close> discipline in the world \<open>w\<close>.  \<open>tc qdisc show\<close> changes nothing
  and mentions \<open>netem\<close> exactly then; \<open>tc qdisc del\<close> installs nothing.
\<close>

definition qdisc_readback :: "'w lab \<Rightarrow> ('w \<Rightarrow> bool) \<Rightarrow> string \<Rightarrow> string \<Rightarrow> bool" where
  "qdisc_readback lab netem container linux_if \<longleftrightarrow>
     (\<forall>w out w'. lb_subprocess lab (in_container lab container (show_qdisc linux_if)) w = (out, w') \<longrightarrow>
        netem w' = netem w \<and>
        (\<forall>r. out = Finished r \<longrightarrow> cp_returncode r = 0 \<longrightarrow> contains ''netem'' (str_lower (cp_stdout r)) = netem w)) \<and>
     (\<forall>w out w'. lb_subprocess lab (in_container lab container [''tc'', ''qdisc'', ''del'', ''dev'', linux_if, ''root'']) w = (out, w') \<longrightarrow>
        netem w' \<longrightarrow> netem w)"

text \<open>A discipline that is installed is recorded.\<close>

definition netem_recorded :: "('w \<Rightarrow> bool) \<Rightarrow> string \<Rightarrow> string \<Rightarrow> 'w site \<Rightarrow> bool" where
  "netem_recorded netem device linux_if s \<longleftrightarrow>
     (netem (si_world s) \<longrightarrow> (\<exists>f \<in> set (active s). is_tc_fault device linux_if f = Inr True))"

lemma exec_result:
  "exec lab c args s = (r, s') \<Longrightarrow>
     (\<exists>out w'. lb_subprocess lab (in_container lab c args) (si_world s) = (out, w') \<and> s' = s\<lparr>si_world := w'\<rparr> \<and>
        (\<exists>x. r = Inr x \<and> (cp_returncode x = 0 \<longrightarrow> (\<exists>y. out = Finished y \<and> x = y) )))"
  by (cases "lb_subprocess lab (in_container lab c args) (si_world s)"; cases "fst (lb_subprocess lab (in_container lab c args) (si_world s))")
    (auto simp: exec_def docker_exec_def run_cmd_def)

lemma has_netem_reads:
  assumes "qdisc_readback lab netem c i" "has_netem_qdisc lab c i s = (r, s')"
  shows "active s' = active s" "netem (si_world s') = netem (si_world s)" "r = Inr (Some b) \<Longrightarrow> netem (si_world s') = b"
    "\<exists>x. r = Inr x"
proof -
  obtain r0 s0 where e: "exec lab c (show_qdisc i) s = (r0, s0)" by fastforce
  from exec_result [OF this] obtain out w' x where o: "lb_subprocess lab (in_container lab c (show_qdisc i)) (si_world s) = (out, w')"
    "s0 = s\<lparr>si_world := w'\<rparr>" "r0 = Inr x" "cp_returncode x = 0 \<longrightarrow> out = Finished x" by auto
  have r: "(r, s') = (Inr (if cp_returncode x \<noteq> 0 then None else Some (contains ''netem'' (str_lower (cp_stdout x)))), s0)"
    using assms(2) e o(3) by (simp add: has_netem_qdisc_def bindS_def returnS_def)
  have t: "netem w' = netem (si_world s)" "cp_returncode x = 0 \<longrightarrow> contains ''netem'' (str_lower (cp_stdout x)) = netem (si_world s)"
    using assms(1) o(1,4) unfolding qdisc_readback_def by blast+
  show "active s' = active s" "netem (si_world s') = netem (si_world s)" "r = Inr (Some b) \<Longrightarrow> netem (si_world s') = b" "\<exists>x. r = Inr x"
    using r o(2) t by (auto simp: active_def split: if_splits)
qed

lemma delete_qdisc_reads:
  assumes "qdisc_readback lab netem c i" "delete_qdisc lab c i s = (r, s')"
  shows "active s' = active s" "netem (si_world s') \<Longrightarrow> netem (si_world s)" "r = Inr (x, True) \<Longrightarrow> \<not> netem (si_world s')"
    "\<exists>x b. r = Inr (x, b)"
proof -
  obtain r0 s0 where e: "exec lab c [''tc'', ''qdisc'', ''del'', ''dev'', i, ''root''] s = (r0, s0)" by fastforce
  from exec_result [OF this] obtain out w' y where o: "lb_subprocess lab (in_container lab c [''tc'', ''qdisc'', ''del'', ''dev'', i, ''root'']) (si_world s) = (out, w')"
    "s0 = s\<lparr>si_world := w'\<rparr>" "r0 = Inr y" by auto
  have d: "netem w' \<longrightarrow> netem (si_world s)" using assms(1) o(1) unfolding qdisc_readback_def by blast
  obtain r1 s1 where h: "has_netem_qdisc lab c i s0 = (r1, s1)" by fastforce
  note hr = has_netem_reads [OF assms(1) h]
  from hr(4) obtain b where b: "r1 = Inr b" by auto
  have r: "(r, s') = (if cp_returncode y \<in> {0, 2} then (Inr (y, b = Some False), s1) else (Inr (y, False), s0))"
    using assms(2) e o(3) h b by (cases "cp_returncode y \<in> {0, 2}") (auto simp: delete_qdisc_def bindS_def returnS_def)
  show "active s' = active s" "netem (si_world s') \<Longrightarrow> netem (si_world s)" "r = Inr (x, True) \<Longrightarrow> \<not> netem (si_world s')"
    "\<exists>x b. r = Inr (x, b)"
    using r o(2) d hr(1,2) hr(3) [where b = False] b by (auto simp: active_def split: if_splits)
qed

lemma keeps_si_tracker_active: "keeps si_tracker m \<Longrightarrow> m s = (r, s') \<Longrightarrow> active s' = active s"
  using keeps_result [OF keeps_active] by blast

text \<open>What \<open>recover_tc_rules\<close> looks for is what the netem handlers track.\<close>

lemma from_dict_fields:
  assumes "fault_from_dict info = Inr f"
  shows "dict_get info ''type'' = Some (af_type f)" "af_device f = dict_get_default info ''device'' JNull"
    "af_interface f = dict_get_default info ''interface'' JNull"
    "af_metadata f = filter (\<lambda>(k, v). k \<notin> {''type'', ''device'', ''interface'', ''success'', ''error''}) info"
  using assms by (cases "dict_get info ''type''"; force simp: fault_from_dict_def)+

lemma tracked_fields:
  assumes "fault_from_dict info = Inr f" "k \<in> {''type'', ''device'', ''interface''}" "dict_get info k = Some v" "v \<noteq> JNull"
  shows "dict_get (fault_to_dict f) k = Some v"
proof -
  have "k \<notin> fst ` set (af_metadata f)"
    using assms(2) by (auto simp: from_dict_fields(4) [OF assms(1)])
  then have "dict_get (fault_to_dict f) k =
      dict_get ([(''type'', af_type f), (''success'', af_success f), (''error'', af_error f)]
       @ (if af_device f \<noteq> JNull then [(''device'', af_device f)] else [])
       @ (if af_interface f \<noteq> JNull then [(''interface'', af_interface f)] else [])) k"
    by (simp add: fault_to_dict_def dict_update_other)
  then show ?thesis
    using assms(2-4) from_dict_fields(1-3) [OF assms(1)] by (elim insertE emptyE) (simp_all add: dict_get_default_def)
qed

lemma tc_fault_tracked:
  assumes "fault_from_dict info = Inr f" "dict_get info ''type'' = Some (JStr t)" "t \<in> set tc_fault_types"
    "dict_get info ''device'' = Some (JStr d)" "dict_get info ''interface'' = Some (JStr i)"
  shows "is_tc_fault d i f = Inr True"
  using tracked_fields [OF assms(1) _ assms(2)] tracked_fields [OF assms(1) _ assms(4)] tracked_fields [OF assms(1) _ assms(5)]
    assms(3)
  by (simp add: is_tc_fault_def fault_item_def fault_get_def dict_get_default_def bindE_def)

text \<open>Tracking a fault of which \<open>R\<close> holds.\<close>

lemma triple_tracked:
  assumes "\<And>f. fault_from_dict info = Inr f \<Longrightarrow> R f"
  shows "triple P (bindS (track info) (\<lambda>_. returnS x)) (\<lambda>_ s. \<exists>f \<in> set (active s). R f) (\<lambda>_ _. True)"
  using assms by (auto simp: triple_def track_def bindS_def liftS_def set_tracker_def returnS_def active_def split: sum.split)

lemma finish_netem_recorded:
  assumes "qdisc_readback lab netem c i" "dict_get info ''type'' = Some (JStr kind)" "kind \<in> set tc_fault_types"
    "dict_get info ''device'' = Some (JStr d)" "dict_get info ''interface'' = Some (JStr i)"
  shows "triple P (finish_netem_injection lab c i info) (\<lambda>_ s. netem_recorded netem d i s) (\<lambda>_ _. True)"
proof -
  have "triple (\<lambda>_. True) (delete_qdisc lab c i) (\<lambda>x s. snd x \<longrightarrow> \<not> netem (si_world s)) (\<lambda>_ _. True)"
    by (rule tripleI) (auto dest: delete_qdisc_reads(3) [OF assms(1)])
  moreover have "is_tc_fault d i f = Inr True" if "fault_from_dict (residual_payload (dict_set info ''error'' v) m) = Inr f" for f v m
    by (rule tc_fault_tracked [OF that _ assms(3)]) (simp_all add: assms residual_payload_def dict_update_def)
  ultimately have failed: "triple P (bindS (delete_qdisc lab c i) (\<lambda>(rollback, compensated).
      if compensated then returnS info
      else bindS (track (residual_payload (dict_set info ''error'' (v rollback)) (w rollback))) (\<lambda>_. returnS (z rollback))))
      (\<lambda>_ s. netem_recorded netem d i s) (\<lambda>_ _. True)" for v w z
    by (intro triple_bind [where R = "\<lambda>x s. snd x \<longrightarrow> \<not> netem (si_world s)"] triple_case_prod triple_if triple_return
        triple_weaken [OF triple_tracked [where R = "\<lambda>f. is_tc_fault d i f = Inr True"]])
      (auto simp: netem_recorded_def intro: triple_weaken)
  have ok: "triple P (bindS (track info) (\<lambda>_. returnS info)) (\<lambda>_ s. netem_recorded netem d i s) (\<lambda>_ _. True)"
    by (rule triple_weaken [OF triple_tracked [where R = "\<lambda>f. is_tc_fault d i f = Inr True"]])
      (auto simp: netem_recorded_def tc_fault_tracked [OF _ assms(2-5)])
  show ?thesis
    unfolding finish_netem_injection_def track_residual_def Let_def by (intro triple_if ok failed)
qed

lemma triple_known:
  "container_names cx device = Some c \<Longrightarrow> triple P (f c) Q E \<Longrightarrow> triple P (bindS (known_container cx device) f) Q E"
  by (simp add: known_container_def bindS_return)

lemma inject_netem_recorded:
  assumes "container_names cx device = Some c" "kind \<in> set tc_fault_types"
    "key \<notin> {''type'', ''device'', ''interface'', ''success'', ''error''}"
    "qdisc_readback lab netem c (to_linux_interface (Some interface))"
  shows "triple P (inject_netem lab cx kind key imp u missing device interface v)
           (\<lambda>_ s. netem_recorded netem device (to_linux_interface (Some interface)) s) (\<lambda>_ _. True)"
  unfolding inject_netem_def Let_def
  by (rule triple_known [OF assms(1)], intro triple_drop finish_netem_recorded [OF assms(4) _ assms(2)])
    (use assms(3) in \<open>simp_all\<close>)



lemma recover_tc_rules_recorded:
  assumes "container_names cx device = Some c" "qdisc_readback lab netem c (to_linux_interface (Some interface))"
  shows "triple (netem_recorded netem device (to_linux_interface (Some interface)))
           (recover_tc_rules lab cx device interface)
           (\<lambda>info s. netem_recorded netem device (to_linux_interface (Some interface)) s \<and>
              (info_true info ''recovered'' \<longrightarrow> \<not> netem (si_world s))) (\<lambda>_ _. True)"
proof -
  let ?i = "to_linux_interface (Some interface)"
  have del: "triple (netem_recorded netem device ?i) (delete_qdisc lab c ?i)
      (\<lambda>x s. netem_recorded netem device ?i s \<and> (snd x \<longrightarrow> \<not> netem (si_world s))) (\<lambda>_ _. True)"
  proof (rule tripleI)
    fix s x s'
    assume "netem_recorded netem device ?i s" "delete_qdisc lab c ?i s = (Inr x, s')"
    then show "netem_recorded netem device ?i s' \<and> (snd x \<longrightarrow> \<not> netem (si_world s'))"
      using delete_qdisc_reads(1,2) [OF assms(2), of s "Inr x" s'] delete_qdisc_reads(3) [OF assms(2), of s "Inr x" s' "fst x"]
      by (cases x) (auto simp: netem_recorded_def)
  qed simp
  have rem: "triple (\<lambda>s. netem_recorded netem device ?i s \<and> (b \<longrightarrow> \<not> netem (si_world s)))
      (if b then remove_faults (is_tc_fault device ?i) else returnS ())
      (\<lambda>_ s. netem_recorded netem device ?i s \<and> (b \<longrightarrow> \<not> netem (si_world s))) (\<lambda>_ _. True)" for b
    by (auto simp: triple_def remove_faults_def returnS_def netem_recorded_def split: sum.split)
  show ?thesis
    unfolding recover_tc_rules_def Let_def
    by (rule triple_known [OF assms(1)], rule triple_bind [OF del], rule triple_case_prod, rule triple_bind [OF rem],
        rule triple_return) simp
qed

section \<open>Links\<close>

text \<open>
  \<open>down w\<close>: the end is administratively down in the world \<open>w\<close>.  \<open>ip -o link show\<close> reads it truthfully
  and changes nothing, and only the two commands that take this end down ever do so.
\<close>

definition link_truthful :: "'w lab \<Rightarrow> ('w \<Rightarrow> bool) \<Rightarrow> fault_endpoint \<Rightarrow> bool" where
  "link_truthful lab down e \<longleftrightarrow>
     (\<forall>w out w'. lb_subprocess lab (in_container lab (en_container e) (show_link (en_linux e))) w = (out, w') \<longrightarrow>
        down w' = down w \<and> (\<forall>r enabled. out = Finished r \<longrightarrow> reads_as enabled r \<longrightarrow> down w = (\<not> enabled))) \<and>
     (\<forall>args w out w'. lb_subprocess lab args w = (out, w') \<longrightarrow> down w' \<longrightarrow>
        down w \<or> args \<in> {in_container lab (en_container e) [''config'', ''interface'', ''shutdown'', en_sonic e],
                          in_container lab (en_container e) [''ip'', ''link'', ''set'', en_linux e, ''down'']})"

abbreviation up :: "('w \<Rightarrow> bool) \<Rightarrow> 'w site \<Rightarrow> bool" where
  "up down s \<equiv> \<not> down (si_world s)"

text \<open>Actions that take the end down under no circumstances.\<close>

definition stays_up :: "('w \<Rightarrow> bool) \<Rightarrow> ('w site, 'a) action \<Rightarrow> bool" where
  "stays_up down m \<longleftrightarrow> triple (up down) m (\<lambda>_. up down) (\<lambda>_. up down)"

named_theorems stays_up_intros \<open>actions that take an end down under no circumstances\<close>

lemma stays_up_bind [stays_up_intros]: "stays_up down m \<Longrightarrow> (\<And>x. stays_up down (f x)) \<Longrightarrow> stays_up down (bindS m f)"
  unfolding stays_up_def by (rule triple_bind)

lemma stays_up_basic [stays_up_intros]: "stays_up down (returnS x)" "stays_up down (raiseS e)" "stays_up down (liftS r)"
  by (auto simp: stays_up_def triple_def returnS_def raiseS_def liftS_def split: sum.split)

lemma stays_up_split [stays_up_intros]:
  "stays_up down m \<Longrightarrow> stays_up down n \<Longrightarrow> stays_up down (if b then m else n)"
  "stays_up down m \<Longrightarrow> (\<And>y. stays_up down (f y)) \<Longrightarrow> stays_up down (case x of None \<Rightarrow> m | Some y \<Rightarrow> f y)"
  "stays_up down (g y) \<Longrightarrow> stays_up down (Let y g)"
  by (auto split: option.split)

lemma stays_up_foldS [stays_up_intros]: "(\<And>x b. stays_up down (f x b)) \<Longrightarrow> stays_up down (foldS f xs b)"
  by (induction xs arbitrary: b) (auto intro: stays_up_intros)

lemma stays_up_known [stays_up_intros]: "stays_up down (known_container cx device)"
  unfolding known_container_def by (intro stays_up_intros)

lemma stays_up_exec:
  assumes "link_truthful lab down e"
    "c = en_container e \<Longrightarrow> args \<noteq> [''config'', ''interface'', ''shutdown'', en_sonic e]"
    "c = en_container e \<Longrightarrow> args \<noteq> [''ip'', ''link'', ''set'', en_linux e, ''down'']"
  shows "stays_up down (exec lab c args)"
proof -
  have "\<not> down (si_world s')" if "\<not> down (si_world s)" "exec lab c args s = (r, s')" for s r s'
  proof -
    from exec_result [OF that(2)] obtain out w' where
      o: "lb_subprocess lab (in_container lab c args) (si_world s) = (out, w')" "s' = s\<lparr>si_world := w'\<rparr>" by auto
    then have "down w' \<longrightarrow> down (si_world s) \<or>
        in_container lab c args \<in> {in_container lab (en_container e) [''config'', ''interface'', ''shutdown'', en_sonic e],
                          in_container lab (en_container e) [''ip'', ''link'', ''set'', en_linux e, ''down'']}"
      using assms(1) unfolding link_truthful_def by blast
    then show ?thesis using o(2) that(1) assms(2,3) by auto
  qed
  then show ?thesis by (auto simp: stays_up_def intro: tripleI)
qed

text \<open>Reading an end, and bringing any end up, is safe for every end.\<close>

lemma stays_up_routes:
  assumes "link_truthful lab down t"
  shows "stays_up down (snapshot_client_routes lab cx e)" "stays_up down (restore_client_routes lab e routes)"
  unfolding snapshot_client_routes_def restore_client_routes_def restore_route_def
  by (intro stays_up_intros stays_up_exec [OF assms]; simp add: show_routes_def replace_route_command_def)+

lemma stays_up_startup:
  assumes "link_truthful lab down t"
  shows "stays_up down (set_link_admin_state lab cx e True)"
  unfolding set_link_admin_state_def config_cmd_def
  by (intro stays_up_intros stays_up_exec [OF assms]; simp add: show_link_def)

lemma stays_up_bring_up:
  assumes "link_truthful lab down t"
  shows "stays_up down (bring_up lab cx snaps e)"
  unfolding bring_up_def by (intro stays_up_intros stays_up_startup [OF assms] stays_up_routes(2) [OF assms])

text \<open>Taking another device's end down is, too.\<close>

lemma stays_up_other:
  assumes "link_truthful lab down t" "en_container e \<noteq> en_container t"
    "container_names cx (en_device e) = Some (en_container e)"
  shows "stays_up down (set_link_admin_state lab cx e False)"
  unfolding set_link_admin_state_def config_cmd_def known_container_def assms(3) option.case bindS_return
  by (intro stays_up_intros stays_up_exec [OF assms(1)]) (use assms(2) in simp_all)

text \<open>An end that was brought up without an error is up.\<close>

lemma exec_show_up:
  assumes "link_truthful lab down e"
  shows "triple P (exec lab (en_container e) (show_link (en_linux e)))
    (\<lambda>r s. reads_as True r \<longrightarrow> up down s) (\<lambda>_ _. True)"
proof (rule tripleI)
  fix s r s'
  assume "exec lab (en_container e) (show_link (en_linux e)) s = (Inr r, s')"
  from exec_result [OF this] obtain out w' where
    o: "lb_subprocess lab (in_container lab (en_container e) (show_link (en_linux e))) (si_world s) = (out, w')"
    "s' = s\<lparr>si_world := w'\<rparr>" "cp_returncode r = 0 \<longrightarrow> out = Finished r" by auto
  show "reads_as True r \<longrightarrow> up down s'"
  proof
    assume u: "reads_as True r"
    then have "out = Finished r" using o(3) by (simp add: reads_as_def)
    then show "up down s'" using assms o u unfolding link_truthful_def by auto
  qed
qed simp

lemma startup_up:
  assumes "link_truthful lab down e"
  shows "triple P (set_link_admin_state lab cx e True) (\<lambda>err s. err = None \<longrightarrow> up down s) (\<lambda>_ _. True)"
  unfolding set_link_admin_state_def
  by (rule triple_drop, rule triple_drop, rule triple_bind [OF exec_show_up [OF assms]]) (rule triple_return, auto)

lemma bring_up_up:
  assumes "link_truthful lab down e"
  shows "triple P (bring_up lab cx snaps e) (\<lambda>err s. err = None \<longrightarrow> up down s) (\<lambda>_ _. True)"
proof -
  have "triple (up down) (restore_client_routes lab e rs) (\<lambda>err s. err = None \<longrightarrow> up down s) (\<lambda>_ _. True)" for rs
    using stays_up_routes(2) [OF assms, of e rs] unfolding stays_up_def by (rule triple_weaken) auto
  then show ?thesis
    unfolding bring_up_def
    by (intro triple_bind [OF startup_up [OF assms]] triple_case_option triple_return) (auto elim: triple_weaken)
qed

lemma collect_error_nil: "collect_error p e errors err = [] \<longleftrightarrow> errors = [] \<and> err = None"
  by (simp add: collect_error_def split: option.split)

text \<open>\<open>X\<close>: the end is known to be up already.\<close>

lemma bring_up_fold:
  assumes "link_truthful lab down t"
  shows "triple (\<lambda>s. errors = [] \<longrightarrow> X \<longrightarrow> up down s)
    (foldS (\<lambda>e errors. bindS (bring_up lab cx snaps e) (\<lambda>err. returnS (collect_error p e errors err))) es errors)
    (\<lambda>errors s. errors = [] \<longrightarrow> X \<or> t \<in> set es \<longrightarrow> up down s) (\<lambda>_ _. True)"
proof (induction es arbitrary: errors X)
  case Nil
  show ?case unfolding foldS.simps by (rule triple_return) auto
next
  case (Cons e es)
  have "triple (\<lambda>s. errors = [] \<longrightarrow> X \<longrightarrow> up down s) (bring_up lab cx snaps e)
      (\<lambda>err s. errors = [] \<longrightarrow> err = None \<longrightarrow> X \<or> e = t \<longrightarrow> up down s) (\<lambda>_ _. True)"
  proof (cases "e = t")
    case True
    show ?thesis unfolding True
      by (rule triple_weaken [OF bring_up_up [OF assms, where P = "\<lambda>_. True" and cx = cx and snaps = snaps]]) auto
  next
    case False
    have u: "triple (up down) (bring_up lab cx snaps e) (\<lambda>_. up down) (\<lambda>_. up down)"
      using stays_up_bring_up [OF assms] by (simp add: stays_up_def)
    show ?thesis
    proof (cases "errors = [] \<and> X")
      case True
      show ?thesis by (rule triple_weaken [OF u]) (use True in auto)
    next
      case no: False
      show ?thesis by (rule triple_weaken [OF triple_any]) (use False no in auto)
    qed
  qed
  then have "triple (\<lambda>s. errors = [] \<longrightarrow> X \<longrightarrow> up down s)
      (bindS (bring_up lab cx snaps e) (\<lambda>err. returnS (collect_error p e errors err)))
      (\<lambda>errors s. errors = [] \<longrightarrow> X \<or> e = t \<longrightarrow> up down s) (\<lambda>_ _. True)"
    by (rule triple_bind) (rule triple_return, auto simp: collect_error_nil)
  then show ?case
    unfolding foldS.simps
    by (rule triple_bind) (rule triple_weaken [OF Cons [where X = "X \<or> e = t"]], auto)
qed

lemma bring_up_all_up:
  assumes "link_truthful lab down t"
  shows "triple (\<lambda>s. X \<longrightarrow> up down s) (bring_up_all lab cx snaps p es)
    (\<lambda>errors s. errors = [] \<longrightarrow> X \<or> t \<in> set es \<longrightarrow> up down s) (\<lambda>_ _. True)"
  unfolding bring_up_all_def by (rule triple_weaken [OF bring_up_fold [OF assms, where X = X]]) auto

text \<open>The ends that were not touched are as they were.\<close>

definition reachable_end :: "fault_context \<Rightarrow> fault_endpoint \<Rightarrow> bool" where
  "reachable_end cx e \<longleftrightarrow> container_names cx (en_device e) = Some (en_container e)"

lemma take_down_others:
  assumes "link_truthful lab down t" "\<forall>e \<in> set es. reachable_end cx e \<and> (e = t \<or> en_container e \<noteq> en_container t)"
  shows "triple (\<lambda>s. t \<notin> set attempted \<longrightarrow> up down s) (take_down lab cx es attempted)
    (\<lambda>r s. t \<notin> set (fst r) \<longrightarrow> up down s) (\<lambda>_ _. True)"
  using assms(2)
proof (induction es arbitrary: attempted)
  case Nil
  show ?case unfolding take_down.simps by (rule triple_return) simp
next
  case (Cons e es)
  have "triple (\<lambda>s. t \<notin> set attempted \<longrightarrow> up down s) (set_link_admin_state lab cx e False)
      (\<lambda>err s. t \<notin> set (attempted @ [e]) \<longrightarrow> up down s) (\<lambda>_ _. True)"
  proof (cases "e = t")
    case False
    with Cons.prems have "stays_up down (set_link_admin_state lab cx e False)"
      by (intro stays_up_other [OF assms(1)]) (auto simp: reachable_end_def)
    then have u: "triple (up down) (set_link_admin_state lab cx e False) (\<lambda>_. up down) (\<lambda>_. up down)"
      by (simp add: stays_up_def)
    show ?thesis
    proof (cases "t \<in> set attempted")
      case True
      show ?thesis by (rule triple_weaken [OF triple_any]) (use True in auto)
    next
      case no: False
      show ?thesis by (rule triple_weaken [OF u]) (use no in auto)
    qed
  next
    case True
    show ?thesis by (rule triple_weaken [OF triple_any]) (use True in auto)
  qed
  then show ?case
    unfolding take_down.simps
    by (rule triple_bind, intro triple_case_option Cons.IH triple_return) (use Cons.prems in auto)
qed

lemma set_link_down_up:
  assumes "link_truthful lab down t" "t \<in> {a, b}" "reachable_end cx a" "reachable_end cx b"
    "en_container a \<noteq> en_container b"
  shows "triple (up down) (set_physical_link lab cx (a, b) False snaps)
    (\<lambda>change s. \<not> lc_success change \<longrightarrow> \<not> lc_residual change \<longrightarrow> up down s) (\<lambda>_ _. True)"
proof -
  have td: "triple (up down) (take_down lab cx [a, b] []) (\<lambda>r s. t \<notin> set (fst r) \<longrightarrow> up down s) (\<lambda>_ _. True)"
    by (rule triple_weaken [OF take_down_others [OF assms(1), where es = "[a, b]" and attempted = "[]"]])
      (use assms(2-5) in auto)
  have comp: "triple (\<lambda>s. t \<notin> set attempted \<longrightarrow> up down s)
      (if errors = [] then returnS [] else bring_up_all lab cx snaps ''compensation '' (rev attempted))
      (\<lambda>cs s. errors \<noteq> [] \<longrightarrow> cs = [] \<longrightarrow> up down s) (\<lambda>_ _. True)" for attempted :: "fault_endpoint list" and errors :: "string list"
    by (intro triple_if triple_return triple_weaken [OF bring_up_all_up [OF assms(1), where X = "t \<notin> set attempted"]]) auto
  show ?thesis
    unfolding set_physical_link_def fst_conv snd_conv if_False
    by (rule triple_bind [OF td], rule triple_case_prod, rule triple_bind [OF comp], rule triple_return) auto
qed

lemma set_link_up_up:
  assumes "link_truthful lab down t" "t \<in> {a, b}"
  shows "triple P (set_physical_link lab cx (a, b) True snaps) (\<lambda>change s. lc_success change \<longrightarrow> up down s) (\<lambda>_ _. True)"
proof -
  have "triple P (bring_up_all lab cx snaps [] [a, b]) (\<lambda>errors s. errors = [] \<longrightarrow> up down s) (\<lambda>_ _. True)"
    by (rule triple_weaken [OF bring_up_all_up [OF assms(1), where X = False]]) (use assms(2) in auto)
  then show ?thesis
    unfolding set_physical_link_def fst_conv snd_conv if_True
    by (rule triple_bind) (rule triple_return, auto)
qed

section \<open>Link faults\<close>

lemma endpoint_of_reachable: "endpoint_of cx d i = Inr e \<Longrightarrow> reachable_end cx e"
  by (auto simp: endpoint_of_def reachable_end_def split: option.splits)

lemma link_endpoints_reachable:
  assumes "link_endpoints_of cx device interface = Inr (a, b)"
  shows "reachable_end cx a" "reachable_end cx b"
  using assms
  by (auto simp: link_endpoints_of_def bindE_def intro: endpoint_of_reachable split: list.splits prod.splits sum.splits)

lemma link_fault_tracked:
  assumes "fault_from_dict info = Inr f" "dict_get info ''type'' = Some (JStr t)" "dict_get info ''device'' = Some (JStr d)"
    "dict_get info ''interface'' = Some (JStr (en_sonic a))"
  shows "link_fault_of t d a f = Inr True"
  using tracked_fields [OF assms(1) _ assms(2)] tracked_fields [OF assms(1) _ assms(3)] tracked_fields [OF assms(1) _ assms(4)]
  by (simp add: link_fault_of_def fault_item_def bindE_def)

lemma stays_up_snapshots:
  assumes "link_truthful lab down t"
  shows "stays_up down (snapshot_both lab cx ends)"
  unfolding snapshot_both_def by (intro stays_up_intros stays_up_routes [OF assms])

definition link_recorded :: "('w \<Rightarrow> bool) \<Rightarrow> string \<Rightarrow> fault_endpoint \<Rightarrow> 'w site \<Rightarrow> bool" where
  "link_recorded down device a s \<longleftrightarrow>
     (down (si_world s) \<longrightarrow> (\<exists>f \<in> set (active s). link_fault_of ''link_down'' device a f = Inr True))"

lemma track_link_recorded:
  assumes "dict_get info ''type'' = Some (JStr ''link_down'')" "dict_get info ''device'' = Some (JStr device)"
    "dict_get info ''interface'' = Some (JStr (en_sonic a))"
  shows "triple P (bindS (track info) (\<lambda>_. returnS x)) (\<lambda>_. link_recorded down device a) (\<lambda>_ _. True)"
    "triple P (bindS (track_residual info m) (\<lambda>_. returnS x)) (\<lambda>_. link_recorded down device a) (\<lambda>_ _. True)"
proof -
  have "link_fault_of ''link_down'' device a f = Inr True" if "fault_from_dict info = Inr f" for f
    by (rule link_fault_tracked [OF that]) (simp_all add: assms)
  then show "triple P (bindS (track info) (\<lambda>_. returnS x)) (\<lambda>_. link_recorded down device a) (\<lambda>_ _. True)"
    by (intro triple_weaken [OF triple_tracked [where R = "\<lambda>f. link_fault_of ''link_down'' device a f = Inr True"]])
      (auto simp: link_recorded_def)
  have "link_fault_of ''link_down'' device a f = Inr True" if "fault_from_dict (residual_payload info m) = Inr f" for f
    by (rule link_fault_tracked [OF that]) (simp_all add: assms residual_payload_def dict_update_def)
  then show "triple P (bindS (track_residual info m) (\<lambda>_. returnS x)) (\<lambda>_. link_recorded down device a) (\<lambda>_ _. True)"
    unfolding track_residual_def
    by (intro triple_weaken [OF triple_tracked [where R = "\<lambda>f. link_fault_of ''link_down'' device a f = Inr True"]])
      (auto simp: link_recorded_def)
qed

lemma inject_link_down_recorded:
  assumes "link_endpoints_of cx device interface = Inr (a, b)" "en_container a \<noteq> en_container b"
    "link_truthful lab down t" "t \<in> {a, b}"
  shows "triple (up down) (inject_link_down lab cx device interface) (\<lambda>_. link_recorded down device a) (\<lambda>_ _. True)"
proof -
  note reach = link_endpoints_reachable [OF assms(1)]
  have snap: "triple (up down) (snapshot_both lab cx (a, b)) (\<lambda>_. up down) (\<lambda>_ _. True)"
    using stays_up_snapshots [OF assms(3)] unfolding stays_up_def by (rule triple_weaken) auto
  have lift: "liftS (link_endpoints_of cx device interface) = returnS (a, b)"
    by (rule ext) (simp add: liftS_def returnS_def assms(1))
  have settle: "triple (\<lambda>s. \<not> lc_success change \<longrightarrow> \<not> lc_residual change \<longrightarrow> up down s)
      (if lc_success change then bindS (track info) (\<lambda>_. returnS ())
       else if lc_residual change then bindS (track_residual info m) (\<lambda>_. returnS ()) else returnS ())
      (\<lambda>_. link_recorded down device a) (\<lambda>_ _. True)"
    if "dict_get info ''type'' = Some (JStr ''link_down'')" "dict_get info ''device'' = Some (JStr device)"
      "dict_get info ''interface'' = Some (JStr (en_sonic a))" for info change m
    by (intro triple_if track_link_recorded that triple_return) (auto simp: link_recorded_def)
  show ?thesis
    unfolding inject_link_down_def lift bindS_return Let_def
    by (rule triple_bind [OF snap], rule triple_bind [OF set_link_down_up [OF assms(3,4) reach assms(2)]],
        rule triple_bind [OF settle]) (auto simp: link_info_def intro: triple_return)
qed

lemma recover_link_down_up:
  assumes "recovery_ends cx device interface peer_device peer_interface = Inr (a, b)"
    "link_truthful lab down t" "t \<in> {a, b}"
  shows "triple P (recover_link_down lab cx device interface peer_device peer_interface snaps)
    (\<lambda>info s. info_true info ''recovered'' \<longrightarrow> up down s) (\<lambda>_ _. True)"
proof -
  have lift: "liftS (recovery_ends cx device interface peer_device peer_interface) = returnS (a, b)"
    by (rule ext) (simp add: liftS_def returnS_def assms(1))
  have rem: "triple (\<lambda>s. ok \<longrightarrow> up down s) (if ok then remove_faults p else returnS ()) (\<lambda>_ s. ok \<longrightarrow> up down s) (\<lambda>_ _. True)" for ok p
    by (auto simp: triple_def remove_faults_def returnS_def split: sum.split)
  show ?thesis
    unfolding recover_link_down_def lift bindS_return
    by (rule triple_bind [OF set_link_up_up [OF assms(2,3)]], rule triple_bind [OF rem], rule triple_return) auto
qed

section \<open>A laboratory of two switches\<close>

text \<open>
  A laboratory that behaves as the laws say, to run the handlers on: two switches and the link
  between them, with one netem discipline and the administrative state of both ends as its world.
\<close>

record pair_world =
  pw_netem :: bool
  pw_leaf_down :: bool
  pw_spine_down :: bool

abbreviation leaf_box :: string where
  "leaf_box \<equiv> ''clab-pair-leaf1''"

abbreviation spine_box :: string where
  "spine_box \<equiv> ''clab-pair-spine1''"

definition plain_output :: "string \<Rightarrow> outcome" where
  "plain_output out = Finished \<lparr>cp_returncode = 0, cp_stdout = out, cp_stderr = []\<rparr>"

definition flags_text :: "bool \<Rightarrow> string" where
  "flags_text down = (if down then ''2: <BROADCAST>'' else ''2: <UP>'')"

definition pair_subprocess :: "string list \<Rightarrow> pair_world \<Rightarrow> outcome \<times> pair_world" where
  "pair_subprocess args w =
     (if args = [''docker'', ''exec'', leaf_box, ''config'', ''interface'', ''shutdown'', ''Ethernet0'']
      then (plain_output [], w\<lparr>pw_leaf_down := True\<rparr>)
      else if args = [''docker'', ''exec'', spine_box, ''config'', ''interface'', ''shutdown'', ''Ethernet0'']
      then (plain_output [], w\<lparr>pw_spine_down := True\<rparr>)
      else if args = [''docker'', ''exec'', leaf_box, ''config'', ''interface'', ''startup'', ''Ethernet0'']
      then (plain_output [], w\<lparr>pw_leaf_down := False\<rparr>)
      else if args = [''docker'', ''exec'', spine_box, ''config'', ''interface'', ''startup'', ''Ethernet0'']
      then (plain_output [], w\<lparr>pw_spine_down := False\<rparr>)
      else if args = [''docker'', ''exec'', leaf_box] @ show_link ''eth1'' then (plain_output (flags_text (pw_leaf_down w)), w)
      else if args = [''docker'', ''exec'', spine_box] @ show_link ''eth1'' then (plain_output (flags_text (pw_spine_down w)), w)
      else if ''replace'' \<in> set args then (plain_output [], w\<lparr>pw_netem := True\<rparr>)
      else if ''del'' \<in> set args then (plain_output [], w\<lparr>pw_netem := False\<rparr>)
      else if ''qdisc'' \<in> set args then (plain_output (if pw_netem w then ''netem loss 30%'' else ''noqueue''), w)
      else (plain_output [], w))"

definition pair_lab :: "pair_world lab" where
  "pair_lab = \<lparr>lb_subprocess = pair_subprocess, lb_docker_prefix = [], lb_sudo_prefix = [], lb_sleep = (\<lambda>d w. w),
     lb_clock = (\<lambda>w. (0, w)), lb_alive = (\<lambda>i t w. (False, w)), lb_activate = (\<lambda>d w. ((True, []), w))\<rparr>"

definition pair_switch :: "string \<Rightarrow> device_role \<Rightarrow> device" where
  "pair_switch name role = \<lparr>dev_name = name, dev_role = role, dev_mgmt_ip = None, dev_data_ip = None,
     dev_attached_switch = None, dev_asn = None, dev_router_id = None, dev_metadata = []\<rparr>"

definition pair_manifest :: manifest where
  "pair_manifest =
     \<lparr>mf_topology_id = ''t'', mf_name = ''pair'', mf_scale = ''xs'', mf_family = ''clos'',
      mf_management = \<lparr>mgmt_network = ''n'', mgmt_ipv4_subnet = ''172.20.20.0/24''\<rparr>, mf_collector = ''172.20.20.200'',
      mf_link_mtu = 9232, mf_sonic_port_mtu = 9100,
      mf_facts = \<lparr>tf_num_spines = 1, tf_num_leafs = 1, tf_num_cores = 0, tf_num_aggs = 0, tf_num_edges = 0,
        tf_num_pods = 0, tf_clients_per_attached_switch = 0, tf_total_clients = 0, tf_total_switches = 2,
        tf_fat_tree_k = None, tf_full_density = None, tf_host_density = None\<rparr>,
      mf_devices = [pair_switch ''leaf1'' LEAF, pair_switch ''spine1'' SPINE],
      mf_links = [\<lparr>link_kind = ''fabric'', link_endpoints = (\<lparr>ep_device = ''leaf1'', ep_interface = ''eth1''\<rparr>,
        \<lparr>ep_device = ''spine1'', ep_interface = ''eth1''\<rparr>), link_mtu = 9232\<rparr>],
      mf_routing = \<lparr>rt_spine_asn = None, rt_leaf_asn_range = None, rt_core_asn_range = None, rt_agg_asn_range = None,
        rt_edge_asn_range = None, rt_ecmp_policy = [(LEAF, 1)], rt_ecmp = True, rt_bfd = True\<rparr>,
      mf_pingmesh = \<lparr>pol_destination_batch_size = None, pol_rtt_port_pool_size = 4, pol_rtt_ports_per_cycle = 4,
        pol_cycle_interval_seconds = 10, pol_df_payload_size = 9072\<rparr>\<rparr>"

definition pair_context :: fault_context where
  "pair_context = \<lparr>fx_manifest = pair_manifest, fx_topology_dir = ''/t''\<rparr>"

definition pair_start :: "pair_world site" where
  "pair_start = \<lparr>si_world = \<lparr>pw_netem = False, pw_leaf_down = False, pw_spine_down = False\<rparr>,
     si_tracker = \<lparr>tk_active = [], tk_background = []\<rparr>\<rparr>"

definition leaf_end :: fault_endpoint where
  "leaf_end = \<lparr>en_device = ''leaf1'', en_container = leaf_box, en_sonic = ''Ethernet0'', en_linux = ''eth1''\<rparr>"

definition spine_end :: fault_endpoint where
  "spine_end = \<lparr>en_device = ''spine1'', en_container = spine_box, en_sonic = ''Ethernet0'', en_linux = ''eth1''\<rparr>"

lemma pair_names:
  "container_names pair_context ''leaf1'' = Some leaf_box" "container_names pair_context ''spine1'' = Some spine_box"
  by (simp_all add: container_names_def pair_context_def pair_manifest_def pair_switch_def clab_container_name_def)

lemma pair_texts:
  "contains ''netem'' (str_lower ''netem loss 30%'')" "\<not> contains ''netem'' (str_lower ''noqueue'')"
  "to_linux_interface (Some ''eth1'') = ''eth1''" "to_sonic_interface (Some ''eth1'') = ''Ethernet0''"
  by code_simp+

lemma pair_flags:
  "reads_as enabled \<lparr>cp_returncode = 0, cp_stdout = flags_text down, cp_stderr = []\<rparr> \<longleftrightarrow> enabled = (\<not> down)"
proof -
  have "link_flags \<lparr>cp_returncode = 0, cp_stdout = ''2: <BROADCAST>'', cp_stderr = []\<rparr> = ''BROADCAST''"
    "link_flags \<lparr>cp_returncode = 0, cp_stdout = ''2: <UP>'', cp_stderr = []\<rparr> = ''UP''"
    "str_split (CHR '','') ''BROADCAST'' = [''BROADCAST'']" "str_split (CHR '','') ''UP'' = [''UP'']"
    by code_simp+
  then show ?thesis by (cases down) (auto simp: reads_as_def flags_text_def)
qed

lemma pair_readback: "qdisc_readback pair_lab pw_netem leaf_box ''eth1''"
  using pair_texts(1,2)
  by (simp add: qdisc_readback_def pair_lab_def pair_subprocess_def show_qdisc_def show_link_def plain_output_def)

lemma pair_truthful: "link_truthful pair_lab pw_leaf_down leaf_end" "link_truthful pair_lab pw_spine_down spine_end"
  by (auto simp: link_truthful_def pair_lab_def pair_subprocess_def show_link_def plain_output_def leaf_end_def spine_end_def
      pair_flags split: if_splits)

lemma pair_ends: "link_endpoints_of pair_context ''leaf1'' ''eth1'' = Inr (leaf_end, spine_end)"
  by (simp add: link_endpoints_of_def pair_texts pair_context_def pair_manifest_def map_filter_simps link_end_def
      end_matches_def endpoint_of_def pair_names [unfolded pair_context_def pair_manifest_def] bindE_def leaf_end_def spine_end_def)

section \<open>Nothing broken is forgotten\<close>

text \<open>
  C1. When the device reports its queueing disciplines truthfully, an impairment is never
  forgotten: whenever an injection of loss, corruption or delay returns, confirmed or not, a
  discipline that is on the interface is recorded as an active fault of it; recovery keeps that
  so, and reports success only when the discipline is gone.
\<close>

theorem netem_never_forgotten:
  assumes "container_names cx device = Some c" "qdisc_readback lab netem c (to_linux_interface (Some interface))"
  shows "(\<forall>inject s info s'.
            inject \<in> {inject_packet_loss lab cx device interface v, inject_packet_corruption lab cx device interface v,
                      inject_high_latency lab cx device interface v} \<longrightarrow> inject s = (Inr info, s') \<longrightarrow>
            netem_recorded netem device (to_linux_interface (Some interface)) s') \<and>
         (\<forall>s info s'. netem_recorded netem device (to_linux_interface (Some interface)) s \<longrightarrow>
            recover_tc_rules lab cx device interface s = (Inr info, s') \<longrightarrow>
            netem_recorded netem device (to_linux_interface (Some interface)) s' \<and>
            (info_true info ''recovered'' \<longrightarrow> \<not> netem (si_world s')))"
proof (intro conjI allI impI)
  fix inject :: "('a site, fault_info) action" and s info s'
  assume i: "inject \<in> {inject_packet_loss lab cx device interface v, inject_packet_corruption lab cx device interface v,
      inject_high_latency lab cx device interface v}" and r: "inject s = (Inr info, s')"
  have k: "''packet_loss'' \<in> set tc_fault_types" "''packet_corruption'' \<in> set tc_fault_types"
    "''high_latency'' \<in> set tc_fault_types" by (simp_all add: tc_fault_types_def)
  have "triple (\<lambda>_. True) inject (\<lambda>_ s. netem_recorded netem device (to_linux_interface (Some interface)) s) (\<lambda>_ _. True)"
    using i unfolding inject_packet_loss_def inject_packet_corruption_def inject_high_latency_def
    by (elim insertE emptyE) (simp_all add: inject_netem_recorded [OF assms(1) _ _ assms(2)] k)
  from tripleD(1) [OF this TrueI r] show "netem_recorded netem device (to_linux_interface (Some interface)) s'" .
next
  fix s info s'
  assume p: "netem_recorded netem device (to_linux_interface (Some interface)) s"
    "recover_tc_rules lab cx device interface s = (Inr info, s')"
  note q = tripleD(1) [OF recover_tc_rules_recorded [OF assms] p]
  then show "netem_recorded netem device (to_linux_interface (Some interface)) s'" by simp
  from q show "info_true info ''recovered'' \<Longrightarrow> \<not> netem (si_world s')" by simp
qed


lemma pair_runs:
  "case inject_packet_loss pair_lab pair_context ''leaf1'' ''eth1'' (JInt 30) pair_start of
     (Inr info, s) \<Rightarrow> info_true info ''success'' \<and> pw_netem (si_world s) | _ \<Rightarrow> False"
  "case inject_link_down pair_lab pair_context ''leaf1'' ''eth1'' pair_start of
     (Inr info, s) \<Rightarrow> info_true info ''success'' \<and> pw_leaf_down (si_world s) | _ \<Rightarrow> False"
  by code_simp+

theorem netem_never_forgotten_witness:
  "\<exists>info s. inject_packet_loss pair_lab pair_context ''leaf1'' ''eth1'' (JInt 30) pair_start = (Inr info, s) \<and>
     pw_netem (si_world s) \<and> netem_recorded pw_netem ''leaf1'' ''eth1'' s"
proof -
  obtain info s where r: "inject_packet_loss pair_lab pair_context ''leaf1'' ''eth1'' (JInt 30) pair_start = (Inr info, s)"
    "pw_netem (si_world s)"
    using pair_runs(1) by (auto split: prod.splits sum.splits)
  have "qdisc_readback pair_lab pw_netem leaf_box (to_linux_interface (Some ''eth1''))"
    by (simp add: pair_texts pair_readback)
  from netem_never_forgotten [OF pair_names(1) this, where v = "JInt 30"] r(1)
  have "netem_recorded pw_netem ''leaf1'' (to_linux_interface (Some ''eth1'')) s" by blast
  with r show ?thesis by (auto simp: pair_texts)
qed


definition pair_injector :: "pair_world injector" where
  "pair_injector = \<lparr>ij_lab = pair_lab, ij_context = pair_context, ij_fuel = 0, ij_now = 0, ij_now_ns = 0\<rparr>"

definition loss_episode :: episode where
  "loss_episode = \<lparr>ep_id = ''e'', ep_fault_type = ''packet_loss'', ep_target_device = Some ''leaf1'',
     ep_target_interface = Some ''eth1'', ep_target_prefix = None, ep_mtu = None, ep_duration_seconds = 60,
     ep_stabilization_time = 0, ep_metadata = [], ep_parameters = []\<rparr>"

lemma loss_run:
  "case inject_fault create_fault_registry builtin_calls pair_injector loss_episode pair_start of
     (Inr (Some info), s) \<Rightarrow> info_true info ''success'' | _ \<Rightarrow> False"
  by code_simp


end
