(* ===== verification/Fault_Settling.thy ===== *)
theory Fault_Settling
  imports Fault_Safety
begin

text \<open>
  The only unbounded loop of the handlers, the wait for a stopped device to settle, ends: with a
  clock that runs, thirty-one polls are enough.
\<close>

section \<open>Waiting for a stop ends\<close>

text \<open>The clock shows \<open>time w\<close>, never runs backwards, and a pause of \<open>d\<close> seconds takes at least \<open>d\<close>.\<close>

definition clock_runs :: "'w lab \<Rightarrow> ('w \<Rightarrow> rat) \<Rightarrow> bool" where
  "clock_runs lab time \<longleftrightarrow>
     (\<forall>w. fst (lb_clock lab w) = time w \<and> time w \<le> time (snd (lb_clock lab w))) \<and>
     (\<forall>args w. time w \<le> time (snd (lb_subprocess lab args w))) \<and>
     (\<forall>d w. time w + d \<le> time (lb_sleep lab d w))"

text \<open>Time passes: an action that never puts the clock back.\<close>

definition passes :: "('w \<Rightarrow> rat) \<Rightarrow> ('w site, 'a) action \<Rightarrow> bool" where
  "passes time m \<longleftrightarrow> (\<forall>s. time (si_world s) \<le> time (si_world (snd (m s))))"

lemma passes_bind: "passes time m \<Longrightarrow> (\<And>x. passes time (f x)) \<Longrightarrow> passes time (bindS m f)"
  by (simp add: passes_def bindS_def split: prod.split sum.split) (metis order_trans snd_conv)

lemma passes_basic: "passes time (returnS x)" "passes time (raiseS e)"
  by (simp_all add: passes_def returnS_def raiseS_def)

lemma passes_if: "passes time m \<Longrightarrow> passes time n \<Longrightarrow> passes time (if b then m else n)"
  by simp

lemma passes_run: "clock_runs lab time \<Longrightarrow> passes time (run_cmd lab args t)"
  by (auto simp: passes_def run_cmd_def clock_runs_def split: prod.split) (metis snd_conv)

lemma passes_result: "passes time m \<Longrightarrow> m s = (x, s') \<Longrightarrow> time (si_world s) \<le> time (si_world s')"
  by (simp add: passes_def) (metis snd_conv)

lemma run_cmd_returns: "\<exists>x s'. run_cmd lab args t s = (Inr x, s')"
  by (simp add: run_cmd_def split: prod.split)

lemma readers_return:
  "\<exists>x s'. docker_exec lab c args t s = (Inr x, s')" "\<exists>x s'. container_is_running lab c s = (Inr x, s')"
  "\<exists>x s'. parking_namespace_exists lab c s = (Inr x, s')"
  by (simp_all add: docker_exec_def run_cmd_returns container_is_running_def parking_namespace_exists_def bindS_def
      run_cmd_def returnS_def split: prod.split)

lemma settle_polls_end:
  assumes "clock_runs lab time" "0 < n" "deadline \<le> time (si_world s) + of_nat (n - 1)"
  shows "\<exists>x s'. settle_polls n lab c deadline r s = (Inr (Some x), s')"
  using assms(2,3)
proof (induction n arbitrary: r s)
  case (Suc n)
  have p: "passes time (container_is_running lab c)" "passes time (parking_namespace_exists lab c)"
    "passes time (docker_exec lab c args t)" for args t
    unfolding container_is_running_def parking_namespace_exists_def docker_exec_def
    by (intro passes_bind passes_basic passes_run [OF assms(1)])+
  obtain state s1 where a: "container_is_running lab c s = (Inr state, s1)" using readers_return(2) by blast
  obtain parking s2 where b: "parking_namespace_exists lab c s1 = (Inr parking, s2)" using readers_return(3) by blast
  let ?probe = "if state = Some True \<and> parking = Some False then
      bindS (docker_exec lab c [''/bin/true''] 10) (\<lambda>x. returnS (if cp_returncode x = 0 then r + 1 else 0)) else returnS 0"
  obtain y s6 where y: "docker_exec lab c [''/bin/true''] 10 s2 = (Inr y, s6)" using readers_return(1) by blast
  then obtain r' s3 where d: "?probe s2 = (Inr r', s3)"
    by (cases "state = Some True \<and> parking = Some False") (simp_all add: bindS_cases(2) returnS_def)
  have q: "passes time ?probe" by (intro passes_if passes_bind passes_basic p)
  have "time (si_world s) \<le> time (si_world s1)" "time (si_world s1) \<le> time (si_world s2)" "time (si_world s2) \<le> time (si_world s3)"
    using passes_result [OF p(1) a] passes_result [OF p(2) b] passes_result [OF q d] by simp_all
  then have t: "time (si_world s) \<le> time (si_world s3)" by simp
  obtain w4 where k: "lb_clock lab (si_world s3) = (time (si_world s3), w4)" and w4: "time (si_world s3) \<le> time w4"
    using assms(1) unfolding clock_runs_def by (metis prod.collapse)
  let ?s4 = "s3\<lparr>si_world := w4\<rparr>" and ?s5 = "s3\<lparr>si_world := lb_sleep lab 1 w4\<rparr>"
  show ?case
  proof (cases "state = Some False \<or> 3 \<le> r' \<or> deadline \<le> time (si_world s3)")
    case True
    then show ?thesis using a b d k by (auto simp: bindS_cases(2) clockS_def returnS_def simp del: split_paired_Ex)
  next
    case False
    have "time w4 + 1 \<le> time (lb_sleep lab 1 w4)" using assms(1) unfolding clock_runs_def by blast
    moreover have "0 < n" using False Suc.prems(2) t by (cases n) auto
    moreover from this have "of_nat (n - 1) = (of_nat n :: rat) - 1" by (simp add: of_nat_diff)
    ultimately have "\<exists>x s'. settle_polls n lab c deadline r' ?s5 = (Inr (Some x), s')"
      using Suc.prems(2) t w4 by (intro Suc.IH) auto
    then show ?thesis
      using a b d k False by (simp add: bindS_cases(2) clockS_def sleepS_def returnS_def)
  qed
qed simp

text \<open>
  C33. Stopping a device always comes to an end: with a clock that runs, thirty-one polls cover
  the thirty seconds the handler is willing to wait, so the injection never runs out of fuel,
  whatever the container and its parking namespace report.
\<close>

theorem device_stop_settles:
  assumes "clock_runs lab time" "31 \<le> fuel"
  shows "fst (inject_device_down fuel lab cx device s) \<noteq> Inr None"
proof (cases "container_names cx device")
  case None
  then show ?thesis by (simp add: inject_device_down_def known_container_def)
next
  case (Some c)
  obtain r s1 where r: "run_cmd lab (containerlab_node_command lab cx ''stop'' device) containerlab_timeout_seconds s = (Inr r, s1)"
    using run_cmd_returns by blast
  let ?t = "time (si_world s1)" and ?s2 = "s1\<lparr>si_world := snd (lb_clock lab (si_world s1))\<rparr>"
  have k: "clockS lab s1 = (Inr ?t, ?s2)" and k2: "?t \<le> time (si_world ?s2)"
    using assms(1) by (simp_all add: clockS_def clock_runs_def case_prod_beta)
  have "?t + 30 \<le> time (si_world ?s2) + of_nat (fuel - 1)"
    using k2 assms(2) by (intro add_mono) (simp_all add: of_nat_diff)
  then obtain x s3 where x: "settle_polls fuel lab c (?t + stop_settle_timeout_seconds) 0 ?s2 = (Inr (Some x), s3)"
    using settle_polls_end [OF assms(1), of fuel "?t + 30" ?s2 c 0] assms(2) by (auto simp: stop_settle_timeout_seconds_def)
  obtain running parking where xp: "x = (running, parking)" by (cases x)
  have "triple (\<lambda>_. True) (bindS (settle_device_down device c r running parking) (\<lambda>info. returnS (Some info)))
      (\<lambda>y _. y \<noteq> None) (\<lambda>_ _. True)"
    by (rule triple_drop) (auto intro: triple_return)
  note y = tripleD(1) [OF this TrueI]
  have "inject_device_down fuel lab cx device s = bindS (settle_device_down device c r running parking) (\<lambda>info. returnS (Some info)) s3"
    using r k x xp
    by (simp add: inject_device_down_def known_container_def Some settled_stop_state_def bindS_cases(2) bindS_assoc)
  then show ?thesis using y by (cases "fst (inject_device_down fuel lab cx device s)") (auto simp: prod_eq_iff)
qed

text \<open>A laboratory in which nothing can be read and only pauses take time.\<close>

definition silent_lab :: "rat lab" where
  "silent_lab = \<lparr>lb_subprocess = (\<lambda>args w. (OsFailed ''no docker'', w)), lb_docker_prefix = [], lb_sudo_prefix = [],
     lb_sleep = (\<lambda>d w. w + d), lb_clock = (\<lambda>w. (w, w)), lb_alive = (\<lambda>i t w. (False, w)),
     lb_activate = (\<lambda>d w. ((True, []), w))\<rparr>"

theorem device_stop_settles_witness:
  "fst (inject_device_down 31 silent_lab pair_context ''leaf1'' \<lparr>si_world = 0, si_tracker = \<lparr>tk_active = [], tk_background = []\<rparr>\<rparr>)
     \<noteq> Inr None"
  by (rule device_stop_settles [where time = "\<lambda>w. w"]) (simp_all add: clock_runs_def silent_lab_def)

end
