(* ===== verification/Pingmesh_Query.thy ===== *)
theory Pingmesh_Query
  imports Pingmesh_Analysis Python_Text Traffic_Estimator Fault_Types
begin

text \<open>
  \<open>netopsbench/platform/pingmesh/_detector_query.py\<close>: the rows of a window, fetched from InfluxDB in
  shards of source clients.  The database is a parameter, a function from the text of a Flux query
  to the annotated CSV it answers with.
\<close>

section \<open>CSV\<close>

text \<open>
  \<open>csv.reader\<close> with the default dialect: the second argument is the field read so far, backwards,
  the third the fields of the row, backwards.  \<open>in_quotes\<close> is the state between double quotes.
\<close>

abbreviation quote :: char where
  "quote \<equiv> CHR 0x22"

fun csv_fields :: "bool \<Rightarrow> string \<Rightarrow> string list \<Rightarrow> string \<Rightarrow> string list list" where
  "csv_fields in_quotes cell cells [] = (if cell = [] \<and> cells = [] then [] else [rev (rev cell # cells)])"
| "csv_fields True cell cells (c # s) =
     (if c = quote then
        (if s \<noteq> [] \<and> hd s = quote then csv_fields True (quote # cell) cells (tl s) else csv_fields False cell cells s)
      else csv_fields True (c # cell) cells s)"
| "csv_fields False cell cells (c # s) =
     (if c = quote \<and> cell = [] then csv_fields True cell cells s
      else if c = CHR '','' then csv_fields False [] (rev cell # cells) s
      else if c = CHR 0x0A then
        (if cell = [] \<and> cells = [] then csv_fields False [] [] s else rev (rev cell # cells) # csv_fields False [] [] s)
      else csv_fields False (c # cell) cells s)"

text \<open>\<open>csv.DictReader\<close>: the first row names the columns; cells without a name are dropped.\<close>

definition csv_dicts :: "string \<Rightarrow> (string, string) dict list" where
  "csv_dicts txt =
     (case csv_fields False [] [] txt of [] \<Rightarrow> [] | header # records \<Rightarrow> map (\<lambda>r. dict_of (zip header r)) records)"

text \<open>\<open>float(x)\<close> of a cell, which may have an exponent.\<close>

definition cell_float :: "string \<Rightarrow> rat option" where
  "cell_float cell =
     (let lower = str_lower (str_strip cell); mantissa = takeWhile (\<lambda>c. c \<noteq> CHR ''e'') lower;
          exponent = drop (length mantissa) lower
      in case parse_float mantissa of
           Inl _ \<Rightarrow> None
         | Inr x \<Rightarrow>
             if exponent = [] then Some x
             else map_option (\<lambda>e. if 0 \<le> e then x * 10 ^ nat e else x / 10 ^ nat (- e)) (int_of_text (tl exponent)))"

section \<open>Rows of a snapshot\<close>

definition snapshot_fields :: "string list" where
  "snapshot_fields =
     [''rtt_min'', ''rtt_avg'', ''rtt_max'', ''packets_sent'', ''packets_lost'', ''df_packets_sent'', ''df_packets_lost'',
      ''df_mtu_drops'', ''local_probe_errors'', ''probe_cycle'', ''destination_batch_index'', ''port_batch_index'',
      ''rtt_ports_active'', ''rtt_ports_total'']"

text \<open>Columns that are empty or unnamed are absent, and so is a numeric column that is not a number.\<close>

definition snapshot_row :: "(string, string) dict \<Rightarrow> row" where
  "snapshot_row cells =
     (let parsed = filter (\<lambda>(k, v). k \<noteq> [] \<and> v \<noteq> []) cells
      in \<lparr>rw_tags = filter (\<lambda>(k, v). k \<notin> set snapshot_fields) parsed,
          rw_fields = List.map_filter (\<lambda>(k, v). if k \<in> set snapshot_fields then map_option (Pair k) (cell_float v) else None) parsed\<rparr>)"

definition is_data_line :: "string \<Rightarrow> bool" where
  "is_data_line line \<longleftrightarrow> line \<noteq> [] \<and> hd line \<noteq> CHR 0x23"

text \<open>InfluxDB repeats the header before every table; such rows name \<open>_time\<close> as their time.\<close>

definition parse_snapshot_csv :: "string \<Rightarrow> row list" where
  "parse_snapshot_csv txt =
     map snapshot_row
       (filter (\<lambda>cells. dict_get_default cells ''_time'' [] \<notin> {[], ''_time''})
         (csv_dicts (str_join [CHR 0x0A] (filter is_data_line (splitlines txt)))))"

section \<open>Queries\<close>

record snapshot =
  sn_ok :: bool
  sn_rows :: "row list"
  sn_error :: "string option"

record flux_result =
  fq_ok :: bool
  fq_text :: string
  fq_error :: "string option"

definition safe_flux_string :: "string \<Rightarrow> string" where
  "safe_flux_string v = str_replace [quote] [CHR 0x5C, quote] (str_replace [CHR 0x5C] [CHR 0x5C, CHR 0x5C] v)"

definition quoted :: "string \<Rightarrow> string" where
  "quoted s = quote # s @ [quote]"

definition flux_line :: "string \<Rightarrow> string" where
  "flux_line s = s @ [CHR 0x0A]"

definition equals_any :: "string \<Rightarrow> string list \<Rightarrow> string" where
  "equals_any column values = str_join '' or '' (map (\<lambda>v. ''r.'' @ column @ '' == '' @ quoted v) values)"

definition topology_filter :: "string option \<Rightarrow> string" where
  "topology_filter topology_id =
     (if given topology_id
      then flux_line (''  |> filter(fn: (r) => '' @ equals_any ''topology_id'' [safe_flux_string (the topology_id)] @ '')'')
      else [])"

definition columns_text :: "string list \<Rightarrow> string" where
  "columns_text cs = ''['' @ str_join '', '' (map quoted cs) @ '']''"

definition row_columns :: "string list" where
  "row_columns = [''src_ip'', ''dst_ip'', ''src_name'', ''dst_name'', ''src_leaf'', ''dst_leaf'', ''path_type'']"

definition shard_query :: "string \<Rightarrow> string option \<Rightarrow> string \<Rightarrow> string \<Rightarrow> string list \<Rightarrow> string" where
  "shard_query bucket topology_id start_time end_time source_names =
     flux_line (''from(bucket: '' @ quoted (safe_flux_string bucket) @ '')'')
     @ flux_line (''  |> range(start: time(v: '' @ quoted (safe_flux_string start_time) @ ''), stop: time(v: ''
         @ quoted (safe_flux_string end_time) @ ''))'')
     @ flux_line (''  |> filter(fn: (r) => '' @ equals_any ''_measurement'' [''pingmesh''] @ '')'')
     @ topology_filter topology_id
     @ (if source_names = [] then []
        else flux_line (''  |> filter(fn: (r) => '' @ equals_any ''src_name'' (map safe_flux_string source_names) @ '')''))
     @ flux_line (''  |> filter(fn: (r) => '' @ equals_any ''_field'' snapshot_fields @ '')'')
     @ flux_line (''  |> keep(columns: '' @ columns_text ([''_time'', ''_field'', ''_value''] @ row_columns) @ '')'')
     @ flux_line (''  |> pivot(rowKey: '' @ columns_text (''_time'' # row_columns) @ '', columnKey: '' @ columns_text [''_field'']
         @ '', valueColumn: '' @ quoted ''_value'' @ '')'')"

text \<open>The database, as the detector's configuration reaches it, and the pause between two attempts.\<close>

record 'w database =
  db_bucket :: string
  db_topology_id :: "string option"
  db_query :: "string \<Rightarrow> 'w \<Rightarrow> flux_result \<times> 'w"
  db_sleep :: "rat \<Rightarrow> 'w \<Rightarrow> 'w"

definition query_snapshot_shard :: "'w database \<Rightarrow> string \<Rightarrow> string \<Rightarrow> string list \<Rightarrow> 'w \<Rightarrow> snapshot \<times> 'w" where
  "query_snapshot_shard db start_time end_time source_names w =
     (case db_query db (shard_query (db_bucket db) (db_topology_id db) start_time end_time source_names) w of
        (r, w') \<Rightarrow>
          (if fq_ok r then \<lparr>sn_ok = True, sn_rows = parse_snapshot_csv (fq_text r), sn_error = None\<rparr>
           else \<lparr>sn_ok = False, sn_rows = [], sn_error = fq_error r\<rparr>, w'))"

definition snapshot_source_shard_size :: nat where
  "snapshot_source_shard_size = 16"

function chunks :: "nat \<Rightarrow> 'a list \<Rightarrow> 'a list list" where
  "chunks n xs = (if xs = [] \<or> n = 0 then [] else take n xs # chunks n (drop n xs))"
  by pat_completeness auto
termination by (relation "measure (\<lambda>(n, xs). length xs)") auto

declare chunks.simps [simp del]

text \<open>\<open>list(dict.fromkeys(xs))\<close>: without repetitions, in order of first appearance.\<close>

definition unique :: "'a list \<Rightarrow> 'a list" where
  "unique xs = rev (remdups (rev xs))"

definition source_shards :: "string list \<Rightarrow> string list list" where
  "source_shards names =
     (let shards = chunks snapshot_source_shard_size (unique names) in if shards = [] then [[]] else shards)"

text \<open>The worker threads of the pool take the shards in order.\<close>

fun query_shards :: "'w database \<Rightarrow> string \<Rightarrow> string \<Rightarrow> string list list \<Rightarrow> 'w \<Rightarrow> snapshot list \<times> 'w" where
  "query_shards db start_time end_time [] w = ([], w)"
| "query_shards db start_time end_time (shard # shards) w =
     (case query_snapshot_shard db start_time end_time shard w of
        (r, w') \<Rightarrow> (case query_shards db start_time end_time shards w' of (rs, w'') \<Rightarrow> (r # rs, w'')))"

definition text_or_default :: "string option \<Rightarrow> string \<Rightarrow> string" where
  "text_or_default v fallback = (if given v then the v else fallback)"

definition shard_failures :: "snapshot list \<Rightarrow> string list" where
  "shard_failures results =
     List.map_filter (\<lambda>(i, r). if sn_ok r then None
         else Some (''snapshot shard '' @ nat_str i @ ''/'' @ nat_str (length results) @ '' failed: ''
                @ text_or_default (sn_error r) ''query_failed''))
       (enumerate 1 results)"

definition row_order :: "row \<Rightarrow> string \<times> string \<times> string \<times> string \<times> string" where
  "row_order r = (tag r ''_time'', tag r ''src_name'', tag r ''dst_name'', tag r ''src_ip'', tag r ''dst_ip'')"

definition merge_shards :: "snapshot list \<Rightarrow> snapshot" where
  "merge_shards results =
     (let failures = shard_failures results
      in if failures \<noteq> [] then \<lparr>sn_ok = False, sn_rows = [], sn_error = Some (str_join ''; '' failures)\<rparr>
         else \<lparr>sn_ok = True, sn_rows = sort_key row_order (concat (map sn_rows results)), sn_error = None\<rparr>)"

definition query_snapshot :: "'w database \<Rightarrow> detector \<Rightarrow> string \<Rightarrow> string \<Rightarrow> 'w \<Rightarrow> snapshot \<times> 'w" where
  "query_snapshot db det start_time end_time w =
     (case query_shards db start_time end_time (source_shards (dt_clients det)) w of (rs, w') \<Rightarrow> (merge_shards rs, w'))"

end
