(* ===== verification/Pingmesh_Report.thy ===== *)
theory Pingmesh_Report
  imports Pingmesh_Query
begin

text \<open>
  \<open>netopsbench/platform/pingmesh/detector.py\<close>: from the snapshots of a baseline and of a current
  window to the report of anomalies, each labelled by the parts of the window it was seen in.
\<close>

section \<open>Timestamps\<close>

definition is_leap :: "int \<Rightarrow> bool" where
  "is_leap y \<longleftrightarrow> y mod 4 = 0 \<and> (y mod 100 \<noteq> 0 \<or> y mod 400 = 0)"

definition days_in_month :: "int \<Rightarrow> int \<Rightarrow> int" where
  "days_in_month y m = (if m = 2 then if is_leap y then 29 else 28 else if m \<in> {4, 6, 9, 11} then 30 else 31)"

text \<open>\<open>date.toordinal()\<close>.\<close>

definition ordinal_day :: "int \<Rightarrow> int \<Rightarrow> int \<Rightarrow> int" where
  "ordinal_day y m d =
     (y - 1) * 365 + (y - 1) div 4 - (y - 1) div 100 + (y - 1) div 400
     + sum_list (map (days_in_month y) [1..m - 1]) + d"

text \<open>
  The timestamps the program and InfluxDB write: \<open>YYYY-MM-DDTHH:MM:SS\<close>, an optional fraction, and
  \<open>Z\<close> or an offset.  The value is in seconds, with microseconds; \<open>None\<close> is a \<open>ValueError\<close>.
\<close>

definition two_digits :: regex where
  "two_digits = re_times 2 digit"

definition timestamp_re :: regex where
  "timestamp_re =
     seqs [Capture 1 (re_times 4 digit), Text ''-'', Capture 2 two_digits, Text ''-'', Capture 3 two_digits, Text ''T'',
           Capture 4 two_digits, Text '':'', Capture 5 two_digits, Text '':'', Capture 6 two_digits,
           re_optional (Seq (Text ''.'') (Capture 7 (re_plus digit))),
           Alt (Text ''Z'') (seqs [Capture 8 (Alt (Text ''+'') (Text ''-'')), Capture 9 two_digits, Text '':'', Capture 10 two_digits]),
           LineEnd]"

definition timestamp_seconds :: "string \<Rightarrow> rat option" where
  "timestamp_seconds s =
     (case re_match timestamp_re s of
        None \<Rightarrow> None
      | Some gs \<Rightarrow>
         (let part = (\<lambda>n. int (digits_val (case group_text n gs of Some t \<Rightarrow> t | None \<Rightarrow> [])));
              fraction = take 6 (case group_text 7 gs of Some t \<Rightarrow> t | None \<Rightarrow> []);
              offset = (part 9 * 60 + part 10) * 60 * (if group_text 8 gs = Some ''-'' then - 1 else 1)
          in if CHR 0x0A \<in> set s \<or> part 1 < 1 \<or> part 2 \<notin> {1..12} \<or> part 3 < 1 \<or> days_in_month (part 1) (part 2) < part 3 \<or>
                23 < part 4 \<or> 59 < part 5 \<or> 59 < part 6 \<or> 23 < part 9 \<or> 59 < part 10 then None
             else Some (of_int (((ordinal_day (part 1) (part 2) (part 3) * 24 + part 4) * 60 + part 5) * 60 + part 6 - offset)
                        + of_nat (digits_val fraction) / 10 ^ length fraction)))"

definition iso_seconds :: "string \<Rightarrow> rat result" where
  "iso_seconds s =
     (case timestamp_seconds s of
        Some t \<Rightarrow> Inr t | None \<Rightarrow> Inl (ValueError (''Invalid isoformat string: '' @ py_repr s)))"

text \<open>The rows with a readable time in \<open>[start, end)\<close>.\<close>

definition slice_rows :: "row list \<Rightarrow> string \<Rightarrow> string \<Rightarrow> row list result" where
  "slice_rows rows start_time end_time =
     bindE (iso_seconds start_time) (\<lambda>start. bindE (iso_seconds end_time) (\<lambda>stop.
       Inr (filter (\<lambda>r. case timestamp_seconds (tag r ''_time'') of Some t \<Rightarrow> start \<le> t \<and> t < stop | None \<Rightarrow> False) rows)))"

section \<open>Anomalies by leaf\<close>

definition anomaly_family :: "anomaly \<Rightarrow> string" where
  "anomaly_family a = (if an_type a \<in> {''packet_loss'', ''path_unreachable''} then ''loss'' else an_type a)"

definition resolve_leaf :: "detector \<Rightarrow> string \<Rightarrow> string \<Rightarrow> string" where
  "resolve_leaf det leaf_tag client_name =
     (if leaf_tag \<noteq> [] then leaf_tag else dict_get_default (dt_client_to_leaf det) client_name ''unknown'')"

record leaf_counts =
  lf_drop_count :: int
  lf_latency_spikes :: int
  lf_path_unreachable :: int
  lf_mtu_suspects :: int

definition no_counts :: leaf_counts where
  "no_counts = \<lparr>lf_drop_count = 0, lf_latency_spikes = 0, lf_path_unreachable = 0, lf_mtu_suspects = 0\<rparr>"

definition count_type :: "string \<Rightarrow> leaf_counts \<Rightarrow> leaf_counts" where
  "count_type kind c =
     (if kind = ''path_unreachable'' then c\<lparr>lf_path_unreachable := lf_path_unreachable c + 1\<rparr>
      else if kind = ''packet_loss'' then c\<lparr>lf_drop_count := lf_drop_count c + 1\<rparr>
      else if kind = ''mtu_or_fragmentation_suspect'' then c\<lparr>lf_mtu_suspects := lf_mtu_suspects c + 1\<rparr>
      else c\<lparr>lf_latency_spikes := lf_latency_spikes c + 1\<rparr>)"

definition count_leaf :: "(anomaly \<Rightarrow> string) \<Rightarrow> anomaly \<Rightarrow> (string, leaf_counts) dict \<Rightarrow> (string, leaf_counts) dict" where
  "count_leaf leaf a counts =
     dict_set counts (leaf a) (count_type (an_type a) (dict_get_default counts (leaf a) no_counts))"

definition src_leaf_of :: "detector \<Rightarrow> anomaly \<Rightarrow> string" where
  "src_leaf_of det a = resolve_leaf det (an_src_leaf a) (an_src_name a)"

definition dst_leaf_of :: "detector \<Rightarrow> anomaly \<Rightarrow> string" where
  "dst_leaf_of det a = resolve_leaf det (an_dst_leaf a) (an_dst_name a)"

definition aggregate_anomalies ::
  "detector \<Rightarrow> anomaly list \<Rightarrow> (string, leaf_counts) dict \<times> (string, leaf_counts) dict" where
  "aggregate_anomalies det anomalies =
     (fold (count_leaf (src_leaf_of det)) anomalies [], fold (count_leaf (dst_leaf_of det)) anomalies [])"

section \<open>Merging the windows\<close>

type_synonym anomaly_key = "string \<times> string \<times> string"

definition anomaly_key :: "anomaly \<Rightarrow> anomaly_key" where
  "anomaly_key a = (anomaly_family a, an_src_ip a, an_dst_ip a)"

text \<open>The anomalies of the full window, and the windows each was seen in, by key.\<close>

definition full_anomalies :: "(string \<times> anomaly list) list \<Rightarrow> (anomaly_key, anomaly) dict" where
  "full_anomalies analyses =
     fold (\<lambda>a d. dict_set d (anomaly_key a) a) (concat (map snd (filter (\<lambda>(name, as). name = ''full'') analyses))) []"

definition windows_of :: "(string \<times> anomaly list) list \<Rightarrow> anomaly_key \<Rightarrow> string list" where
  "windows_of analyses key =
     sort (remdups (map fst (filter (\<lambda>(name, as). key \<in> anomaly_key ` set as) analyses)))"

definition persistence_of :: "string list \<Rightarrow> string" where
  "persistence_of windows =
     (if ''early'' \<in> set windows \<and> ''steady'' \<in> set windows then ''persistent''
      else if ''early'' \<in> set windows then ''early_only''
      else if ''steady'' \<in> set windows then ''steady_only''
      else ''full_window'')"

definition label_anomaly :: "(string \<times> anomaly list) list \<Rightarrow> anomaly_key \<times> anomaly \<Rightarrow> anomaly" where
  "label_anomaly analyses = (\<lambda>(key, a).
     (let windows = windows_of analyses key
      in a\<lparr>an_windows_observed := windows, an_persistence := Some (persistence_of windows)\<rparr>))"

definition merge_window_anomalies :: "(string \<times> anomaly list) list \<Rightarrow> anomaly list" where
  "merge_window_anomalies analyses =
     sort_key anomaly_order (map (label_anomaly analyses) (full_anomalies analyses))"

section \<open>The report\<close>

record query_status =
  qs_ok :: bool
  qs_error :: "string option"

record report_summary =
  sm_total_anomalies :: int
  sm_latency_spikes :: int
  sm_packet_loss_events :: int
  sm_path_unreachable_events :: int
  sm_mtu_or_fragmentation_events :: int

text \<open>The absolute counts, which only the gates of the executor see.\<close>

record absolute_health =
  ah_unreachable_paths :: int
  ah_packet_loss_paths :: int
  ah_network_mtu_paths :: int

text \<open>\<open>rp_quality\<close> is \<open>None\<close> for the empty dictionary of a failed query.\<close>

record report =
  rp_timestamp :: string
  rp_baseline_window :: "string \<times> string"
  rp_current_window :: "string \<times> string"
  rp_query_status :: query_status
  rp_coverage :: coverage
  rp_quality :: "quality option"
  rp_summary :: report_summary
  rp_anomalies :: "anomaly list"
  rp_returned_anomalies :: int
  rp_truncated :: bool
  rp_aggregated :: "(string, leaf_counts) dict \<times> (string, leaf_counts) dict"
  rp_baseline_health :: "absolute_health option"
  rp_baseline_coverage :: "coverage option"

definition count_of_type :: "string \<Rightarrow> anomaly list \<Rightarrow> int" where
  "count_of_type kind anomalies = int (length (filter (\<lambda>a. an_type a = kind) anomalies))"

definition summary_of :: "anomaly list \<Rightarrow> report_summary" where
  "summary_of anomalies =
     \<lparr>sm_total_anomalies = int (length anomalies), sm_latency_spikes = count_of_type ''latency_spike'' anomalies,
      sm_packet_loss_events = count_of_type ''packet_loss'' anomalies,
      sm_path_unreachable_events = count_of_type ''path_unreachable'' anomalies,
      sm_mtu_or_fragmentation_events = count_of_type ''mtu_or_fragmentation_suspect'' anomalies\<rparr>"

definition build_report ::
  "detector \<Rightarrow> anomaly list \<Rightarrow> string \<times> string \<Rightarrow> string \<times> string \<Rightarrow> query_status \<Rightarrow> coverage \<Rightarrow> quality option \<Rightarrow> report" where
  "build_report det anomalies baseline_window current_window status cov ql =
     \<lparr>rp_timestamp = dt_now det, rp_baseline_window = baseline_window, rp_current_window = current_window,
      rp_query_status = status, rp_coverage = cov, rp_quality = ql, rp_summary = summary_of anomalies,
      rp_anomalies = anomalies, rp_returned_anomalies = int (length anomalies), rp_truncated = False,
      rp_aggregated = aggregate_anomalies det anomalies, rp_baseline_health = None, rp_baseline_coverage = None\<rparr>"

definition error_status :: "snapshot list \<Rightarrow> query_status" where
  "error_status results =
     (let failed = filter (\<lambda>r. \<not> sn_ok r) results;
          errors = List.map_filter (\<lambda>r. if given (sn_error r) then sn_error r else None) failed
      in \<lparr>qs_ok = (failed = []),
          qs_error = (if errors \<noteq> [] then Some (str_join ''; '' (unique errors))
                      else if failed \<noteq> [] then Some ''query_failed'' else None)\<rparr>)"

section \<open>Snapshots with coverage\<close>

definition policy_interval :: "detector \<Rightarrow> int" where
  "policy_interval det =
     (case dict_get (dt_policy det) ''cycle_interval_seconds'' of Some (JInt i) \<Rightarrow> i | _ \<Rightarrow> 1)"

definition expected_seconds :: "detector \<Rightarrow> coverage \<Rightarrow> rat" where
  "expected_seconds det cov =
     of_int ((case cv_details cov of Some d \<Rightarrow> cd_expected_epoch_cycles d | None \<Rightarrow> 0) * policy_interval det)"

definition failed_coverage :: "snapshot \<Rightarrow> coverage" where
  "failed_coverage r = coverage_error (text_or_default (sn_error r) ''query_failed'')"

text \<open>Up to \<open>n\<close> further attempts while a window that is long enough is not covered.\<close>

fun retry_snapshot ::
  "nat \<Rightarrow> 'w database \<Rightarrow> detector \<Rightarrow> string \<Rightarrow> string \<Rightarrow> rat \<Rightarrow> rat \<Rightarrow> snapshot \<Rightarrow> coverage \<Rightarrow> 'w \<Rightarrow> (snapshot \<times> coverage) \<times> 'w" where
  "retry_snapshot 0 db det start_time end_time expected actual r cov w = ((r, cov), w)"
| "retry_snapshot (Suc n) db det start_time end_time expected actual r cov w =
     (if actual < expected \<or> cv_coverage_status cov = ''complete'' then ((r, cov), w)
      else
        (case query_snapshot db det start_time end_time (db_sleep db (of_int (max 1 (policy_interval det))) w) of
           (r', w') \<Rightarrow>
             if \<not> sn_ok r' then ((r', failed_coverage r'), w')
             else retry_snapshot n db det start_time end_time expected actual r'
                    (summarize_coverage (dt_clients det) (dt_policy det) (sn_rows r')) w'))"

definition query_covered_snapshot ::
  "'w database \<Rightarrow> detector \<Rightarrow> string \<Rightarrow> string \<Rightarrow> 'w \<Rightarrow> (snapshot \<times> coverage) result \<times> 'w" where
  "query_covered_snapshot db det start_time end_time w =
     (case query_snapshot db det start_time end_time w of
        (r, w') \<Rightarrow>
          if \<not> sn_ok r then (Inr (r, failed_coverage r), w')
          else
           (case bindE (iso_seconds end_time) (\<lambda>stop. bindE (iso_seconds start_time) (\<lambda>start. Inr (max 0 (stop - start)))) of
              Inl e \<Rightarrow> (Inl e, w')
            | Inr actual \<Rightarrow>
               (let cov = summarize_coverage (dt_clients det) (dt_policy det) (sn_rows r)
                in case retry_snapshot 2 db det start_time end_time (expected_seconds det cov) actual r cov w' of
                     (x, w'') \<Rightarrow> (Inr x, w''))))"

section \<open>The report of a window\<close>

record window =
  wn_name :: string
  wn_start :: string
  wn_end :: string
  wn_duration :: int

definition window_analyses :: "detector \<Rightarrow> row list \<Rightarrow> row list \<Rightarrow> window list \<Rightarrow> (string \<times> anomaly list) list result" where
  "window_analyses det baseline_rows current_rows windows =
     mapE (\<lambda>win. bindE (slice_rows current_rows (wn_start win) (wn_end win)) (\<lambda>rows.
        Inr (or_text (wn_name win) ''window'', fst (analyze_snapshot_rows det baseline_rows rows)))) windows"

definition absolute_health_of :: "quality \<Rightarrow> absolute_health" where
  "absolute_health_of ql =
     \<lparr>ah_unreachable_paths = ql_absolute_unreachable_paths ql, ah_packet_loss_paths = ql_absolute_packet_loss_paths ql,
      ah_network_mtu_paths = ql_absolute_network_mtu_paths ql\<rparr>"

definition analysed_report ::
  "detector \<Rightarrow> snapshot \<times> coverage \<Rightarrow> snapshot \<times> coverage \<Rightarrow> string \<times> string \<Rightarrow> string \<times> string \<Rightarrow> window list \<Rightarrow> bool \<Rightarrow> report result" where
  "analysed_report det baseline current baseline_window current_window windows include_internal_health =
     (let full = analyze_snapshot_rows det (sn_rows (fst baseline)) (sn_rows (fst current))
      in bindE (window_analyses det (sn_rows (fst baseline)) (sn_rows (fst current)) windows) (\<lambda>parts.
         let r = build_report det (merge_window_anomalies ((''full'', fst full) # parts)) baseline_window current_window
                   (error_status [fst baseline, fst current]) (snd current) (Some (snd full))
         in Inr (if include_internal_health
                 then r\<lparr>rp_baseline_health := Some (absolute_health_of (snd full)), rp_baseline_coverage := Some (snd baseline)\<rparr>
                 else r)))"

definition generate_windowed_anomaly_report ::
  "'w database \<Rightarrow> detector \<Rightarrow> string \<times> string \<Rightarrow> string \<times> string \<Rightarrow> window list \<Rightarrow> bool \<Rightarrow> ('w, report) action" where
  "generate_windowed_anomaly_report db det baseline_window current_window windows include_internal_health =
     bindS (query_covered_snapshot db det (fst baseline_window) (snd baseline_window)) (\<lambda>baseline.
     bindS (query_covered_snapshot db det (fst current_window) (snd current_window)) (\<lambda>current.
     let status = error_status [fst baseline, fst current]
     in (\<lambda>w. (if \<not> qs_ok status then
                Inr (build_report det [] baseline_window current_window status
                  (coverage_error (case qs_error status of Some m \<Rightarrow> m | None \<Rightarrow> [])) None)
              else analysed_report det baseline current baseline_window current_window windows include_internal_health, w))))"

section \<open>The merged anomalies\<close>

lemma label_key: "anomaly_key (label_anomaly analyses (k, a)) = anomaly_key a"
  by (simp add: label_anomaly_def anomaly_key_def anomaly_family_def Let_def)

lemma fold_keys:
  "\<forall>(k, a) \<in> set d. anomaly_key a = k \<Longrightarrow> distinct (map fst d) \<Longrightarrow>
   (\<forall>(k, a) \<in> set (fold (\<lambda>a d. dict_set d (anomaly_key a) a) fs d). anomaly_key a = k) \<and>
   distinct (map fst (fold (\<lambda>a d. dict_set d (anomaly_key a) a) fs d)) \<and>
   fst ` set (fold (\<lambda>a d. dict_set d (anomaly_key a) a) fs d) = fst ` set d \<union> anomaly_key ` set fs"
proof (induction fs arbitrary: d)
  case (Cons a fs)
  have "\<forall>(k, b) \<in> set (dict_set d (anomaly_key a) a). anomaly_key b = k"
    using Cons.prems(1) set_update_subset [of "anomaly_key a" a d] by fastforce
  moreover have "fst ` set (dict_set d (anomaly_key a) a) = insert (anomaly_key a) (fst ` set d)"
    by (metis dom_map_of_conv_image_fst dom_fun_upd option.distinct(1) update_conv')
  ultimately show ?case using Cons.IH [of "dict_set d (anomaly_key a) a"] Cons.prems(2) by auto
qed simp

lemma full_anomalies_keys:
  assumes "\<forall>(name, as) \<in> set parts. name \<noteq> ''full''"
  shows "\<forall>(k, a) \<in> set (full_anomalies ((''full'', fs) # parts)). anomaly_key a = k"
    "distinct (map fst (full_anomalies ((''full'', fs) # parts)))"
    "fst ` set (full_anomalies ((''full'', fs) # parts)) = anomaly_key ` set fs"
proof -
  have "filter (\<lambda>(name, as). name = ''full'') parts = []" using assms by (auto simp: filter_empty_conv)
  then have "full_anomalies ((''full'', fs) # parts) = fold (\<lambda>a d. dict_set d (anomaly_key a) a) fs []"
    by (simp add: full_anomalies_def)
  with fold_keys [of "[]" fs] show "\<forall>(k, a) \<in> set (full_anomalies ((''full'', fs) # parts)). anomaly_key a = k"
    "distinct (map fst (full_anomalies ((''full'', fs) # parts)))"
    "fst ` set (full_anomalies ((''full'', fs) # parts)) = anomaly_key ` set fs" by simp_all
qed


section \<open>Sharding does not change a snapshot\<close>

lemma concat_chunks: "0 < n \<Longrightarrow> concat (chunks n xs) = xs"
proof (induction n xs rule: chunks.induct)
  case (1 n xs)
  then show ?case by (subst chunks.simps) (auto simp: append_take_drop_id)
qed

lemma chunks_bounded: "0 < n \<Longrightarrow> ys \<in> set (chunks n xs) \<Longrightarrow> ys \<noteq> [] \<and> length ys \<le> n"
proof (induction n xs rule: chunks.induct)
  case (1 n xs)
  from "1.prems" have "xs \<noteq> []" by (subst (asm) chunks.simps) (auto split: if_splits)
  with 1 show ?case by (subst (asm) (2) chunks.simps) auto
qed

lemma concat_map_concat_aux: "concat (map (\<lambda>ss. concat (map f ss)) xss) = concat (concat (map (map f) xss))"
  by (induction xss) auto

lemma query_shards_ok:
  assumes "\<forall>ss \<in> set shards. \<forall>w. query_snapshot_shard db s e ss w = (\<lparr>sn_ok = True, sn_rows = concat (map rows_of ss), sn_error = None\<rparr>, w)"
  shows "query_shards db s e shards w =
    (map (\<lambda>ss. \<lparr>sn_ok = True, sn_rows = concat (map rows_of ss), sn_error = None\<rparr>) shards, w)"
  using assms by (induction shards) auto

lemma merge_ok: "\<forall>r \<in> set rs. sn_ok r \<Longrightarrow>
    merge_shards rs = \<lparr>sn_ok = True, sn_rows = sort_key row_order (concat (map sn_rows rs)), sn_error = None\<rparr>"
proof -
  assume ok: "\<forall>r \<in> set rs. sn_ok r"
  have "List.map_filter (\<lambda>(i, r). if sn_ok r then None else f i r) (enumerate k rs) = []" for f :: "nat \<Rightarrow> snapshot \<Rightarrow> string option" and k
    using ok by (induction rs arbitrary: k) (auto simp: map_filter_simps)
  then show ?thesis by (simp add: merge_shards_def shard_failures_def Let_def)
qed


definition two_shards :: detector where
  "two_shards = \<lparr>dt_clients = map (\<lambda>n. ''c'' @ [n]) ''abcdefghijklmnopq'', dt_policy = [], dt_client_to_leaf = [],
     dt_loss_pct_threshold = 5, dt_loss_pct_delta = 5, dt_now = ''2024-03-01T10:00:00Z''\<rparr>"

text \<open>A database that holds one row for the client \<open>ca\<close>, and answers a query that does not name it with no rows.\<close>

definition one_row_database :: "unit database" where
  "one_row_database =
     \<lparr>db_bucket = ''b'', db_topology_id = None,
      db_query = (\<lambda>q w. (\<lparr>fq_ok = True,
        fq_text = (if q = shard_query ''b'' None ''s'' ''e'' (take 16 (dt_clients two_shards))
                   then ''result,src_name'' @ [CHR 0x0A] @ '',ca'' else []), fq_error = None\<rparr>, w)),
      db_sleep = (\<lambda>t w. w)\<rparr>"


text \<open>A path with latency in the first half of a window, seen with loss as well in the whole of it.\<close>

definition seen_anomaly :: "string \<Rightarrow> anomaly" where
  "seen_anomaly kind =
     \<lparr>an_type = kind, an_src_ip = ''10.0.0.1'', an_src_name = ''c1'', an_dst_ip = ''10.0.1.1'', an_dst_name = ''c2'',
      an_src_leaf = ''leaf1'', an_dst_leaf = ''leaf2'', an_value = 40, an_baseline = 10, an_threshold = 30,
      an_severity = ''warning'', an_timestamp = ''2024-03-01T10:00:00Z'', an_samples_sent = 10, an_samples_lost = 0,
      an_sample_count = 10, an_windows_observed = [], an_persistence = None\<rparr>"


end
