(* ===== verification/Observation.thy ===== *)
theory Observation
  imports Pingmesh_Report Effects
begin

text \<open>
  \<open>netopsbench/platform/scenario/observation.py\<close>: observation windows in time, their analysis, and
  the gates a healthy baseline and an incident must pass.
\<close>

section \<open>Windows\<close>

text \<open>
  \<open>ob_utc_now\<close> is \<open>datetime.now(UTC).replace(microsecond=0).isoformat()\<close>.  The detector takes the
  time of its report from the same clock.
\<close>

record 'w observer =
  ob_manifest :: manifest
  ob_database :: "'w database"
  ob_detector :: detector
  ob_sleep :: "rat \<Rightarrow> 'w \<Rightarrow> 'w"
  ob_utc_now :: "'w \<Rightarrow> string \<times> 'w"

definition utc_iso :: "string \<Rightarrow> string" where
  "utc_iso value =
     (if drop (length value - 6) value = ''+00:00'' then take (length value - 6) value @ ''Z''
      else if value \<noteq> [] \<and> last value = CHR ''Z'' then value else value @ ''Z'')"

definition utcS :: "'w observer \<Rightarrow> ('w, string) action" where
  "utcS ob w = (case ob_utc_now ob w of (t, w') \<Rightarrow> (Inr (utc_iso t), w'))"

definition complete_observation_seconds :: "'w observer \<Rightarrow> int" where
  "complete_observation_seconds ob =
     complete_window_seconds (mf_pingmesh (ob_manifest ob)) (tf_total_clients (mf_facts (ob_manifest ob)))"

definition baseline_window_seconds :: "'w observer \<Rightarrow> int \<Rightarrow> int" where
  "baseline_window_seconds ob minimum_seconds = max (max 0 minimum_seconds) (complete_observation_seconds ob)"

text \<open>One second at a time.\<close>

definition sleep_seconds :: "'w observer \<Rightarrow> int \<Rightarrow> ('w, unit) action" where
  "sleep_seconds ob seconds w = (Inr (), (ob_sleep ob 1 ^^ nat seconds) w)"

definition capture_observation_window :: "'w observer \<Rightarrow> int \<Rightarrow> string \<Rightarrow> ('w, window) action" where
  "capture_observation_window ob duration name =
     (let safe_duration = max 0 duration
      in bindS (utcS ob) (\<lambda>start_time.
         bindS (sleep_seconds ob safe_duration) (\<lambda>_.
         bindS (utcS ob) (\<lambda>end_time.
           returnS \<lparr>wn_name = name, wn_start = start_time, wn_end = end_time, wn_duration = safe_duration\<rparr>))))"

definition capture_baseline_window :: "'w observer \<Rightarrow> int \<Rightarrow> ('w, window) action" where
  "capture_baseline_window ob minimum_seconds =
     capture_observation_window ob (baseline_window_seconds ob minimum_seconds) ''baseline''"

section \<open>Analysis\<close>

text \<open>
  \<open>on_report\<close> is \<open>None\<close> for the placeholder of an observation without windows.
\<close>

record observation =
  on_start_time :: string
  on_end_time :: string
  on_duration_seconds :: int
  on_report :: "report option"
  on_anomalies_detected :: bool
  on_coverage_status :: string
  on_data_source_status :: string
  on_windows :: "(window \<times> report_summary) list"
  on_coverage_audit :: "coverage option"
  on_baseline_health :: "absolute_health option"
  on_baseline_coverage :: "coverage option"

definition summary_for_window :: "anomaly list \<Rightarrow> string \<Rightarrow> report_summary" where
  "summary_for_window anomalies window_name =
     summary_of (filter (\<lambda>a. window_name \<in> set (an_windows_observed a)) anomalies)"

definition unavailable_observation :: "string \<Rightarrow> int \<Rightarrow> observation" where
  "unavailable_observation now seconds =
     \<lparr>on_start_time = now, on_end_time = now, on_duration_seconds = seconds, on_report = None,
      on_anomalies_detected = False, on_coverage_status = ''incomplete'', on_data_source_status = ''unavailable'',
      on_windows = [], on_coverage_audit = None, on_baseline_health = None, on_baseline_coverage = None\<rparr>"

definition data_source_status :: "query_status \<Rightarrow> string" where
  "data_source_status q =
     (if qs_ok q then ''ok'' else ''error: '' @ text_or_default (qs_error q) ''query_failed'')"

text \<open>The two internal entries are taken out of the report.\<close>

definition observation_of_report :: "window list \<Rightarrow> int \<Rightarrow> string \<times> string \<Rightarrow> report \<Rightarrow> observation" where
  "observation_of_report windows seconds current r =
     \<lparr>on_start_time = fst current, on_end_time = snd current, on_duration_seconds = seconds,
      on_report = Some (r\<lparr>rp_baseline_health := None, rp_baseline_coverage := None\<rparr>),
      on_anomalies_detected = (sm_total_anomalies (rp_summary r) \<noteq> 0),
      on_coverage_status = cv_coverage_status (rp_coverage r),
      on_data_source_status = data_source_status (rp_query_status r),
      on_windows = map (\<lambda>win. (win, summary_for_window (rp_anomalies r) (or_text (wn_name win) ''window''))) windows,
      on_coverage_audit = Some (rp_coverage r), on_baseline_health = rp_baseline_health r,
      on_baseline_coverage = rp_baseline_coverage r\<rparr>"

definition analyze_observation_windows ::
  "'w observer \<Rightarrow> window list \<Rightarrow> int \<Rightarrow> window \<Rightarrow> ('w, observation) action" where
  "analyze_observation_windows ob windows total_duration_seconds baseline =
     (let valid = filter (\<lambda>win. wn_start win \<noteq> []) windows
      in if valid = [] then bindS (utcS ob) (\<lambda>now. returnS (unavailable_observation now total_duration_seconds))
         else if wn_start baseline = [] \<or> wn_end baseline = [] then
           raiseS (ValueError ''baseline_window must contain start_time and end_time'')
         else
          (let current = (wn_start (hd valid), wn_end (last valid))
           in bindS (utcS ob) (\<lambda>now.
              bindS (generate_windowed_anomaly_report (ob_database ob) ((ob_detector ob)\<lparr>dt_now := now\<rparr>)
                       (wn_start baseline, wn_end baseline) current valid True) (\<lambda>r.
                returnS (observation_of_report valid total_duration_seconds current r)))))"

definition wait_and_observe :: "'w observer \<Rightarrow> int \<Rightarrow> window \<Rightarrow> ('w, observation) action" where
  "wait_and_observe ob duration baseline =
     bindS (capture_observation_window ob duration ''steady'') (\<lambda>win.
       analyze_observation_windows ob [win] duration baseline)"

section \<open>Gates\<close>

definition status_errors :: "observation \<Rightarrow> string list" where
  "status_errors o0 =
     (let baseline_status = (case on_baseline_coverage o0 of Some c \<Rightarrow> cv_coverage_status c | None \<Rightarrow> [])
      in (if on_data_source_status o0 \<noteq> ''ok'' then [''data='' @ on_data_source_status o0] else []) @
         (if on_coverage_status o0 \<noteq> ''complete'' then [''coverage='' @ on_coverage_status o0] else []) @
         (if baseline_status \<noteq> ''complete'' then [''baseline_coverage='' @ or_text baseline_status ''missing''] else []))"

definition report_quality :: "observation \<Rightarrow> quality option" where
  "report_quality o0 = Option.bind (on_report o0) rp_quality"

definition quality_count :: "(quality \<Rightarrow> int) \<Rightarrow> observation \<Rightarrow> int" where
  "quality_count f o0 = (case report_quality o0 of Some q \<Rightarrow> f q | None \<Rightarrow> 0)"

definition health_count :: "(absolute_health \<Rightarrow> int) \<Rightarrow> observation \<Rightarrow> int" where
  "health_count f o0 = (case on_baseline_health o0 of Some h \<Rightarrow> f h | None \<Rightarrow> 0)"

definition latency_count :: "observation \<Rightarrow> int" where
  "latency_count o0 = (case on_report o0 of Some r \<Rightarrow> sm_latency_spikes (rp_summary r) | None \<Rightarrow> 0)"

text \<open>The counts that must all be zero, in the order they are reported.\<close>

definition exact_zero :: "observation \<Rightarrow> (string \<times> int) list" where
  "exact_zero o0 =
     [(''absolute_unreachable_paths'', health_count ah_unreachable_paths o0),
      (''latency_spikes'', latency_count o0),
      (''absolute_network_mtu_paths'', health_count ah_network_mtu_paths o0),
      (''local_df_mtu_drops'', quality_count ql_local_df_mtu_drops o0),
      (''local_probe_errors'', quality_count ql_local_probe_errors o0)]"

definition nonzero_errors :: "(string \<times> int) list \<Rightarrow> string list" where
  "nonzero_errors counts = map (\<lambda>(name, n). name @ ''='' @ int_str n) (filter (\<lambda>(name, n). n \<noteq> 0) counts)"

text \<open>\<open>f"{x:.6f}"\<close> of a rate.\<close>

definition six_decimals :: "rat \<Rightarrow> string" where
  "six_decimals x =
     (let n = round_half_even (x * 10 ^ 6); digits = int_str (n mod 10 ^ 6)
      in int_str (n div 10 ^ 6) @ ''.'' @ replicate (6 - length digits) (CHR ''0'') @ digits)"

definition loss_rate :: "observation \<Rightarrow> rat" where
  "loss_rate o0 = of_int (health_count ah_packet_loss_paths o0) / of_int (quality_count ql_current_paths_observed o0)"

definition baseline_gate_errors :: "observation \<Rightarrow> string list" where
  "baseline_gate_errors o0 =
     status_errors o0 @
     (if quality_count ql_current_paths_observed o0 \<le> 0 then [''current_paths_observed=0'']
      else nonzero_errors (exact_zero o0) @
           (if 1 / 1000 < loss_rate o0 then [''packet_loss_path_rate='' @ six_decimals (loss_rate o0)] else []))"

definition observation_integrity_errors :: "observation \<Rightarrow> string list" where
  "observation_integrity_errors o0 =
     status_errors o0 @
     (if quality_count ql_current_paths_observed o0 \<le> 0 then [''current_paths_observed=0''] else []) @
     nonzero_errors [(''local_df_mtu_drops'', quality_count ql_local_df_mtu_drops o0),
                     (''local_probe_errors'', quality_count ql_local_probe_errors o0)]"

section \<open>What passes the gates\<close>

lemma status_errors_nil:
  "status_errors o0 = [] \<longleftrightarrow> on_data_source_status o0 = ''ok'' \<and> on_coverage_status o0 = ''complete'' \<and>
     (\<exists>c. on_baseline_coverage o0 = Some c \<and> cv_coverage_status c = ''complete'')"
  by (auto simp: status_errors_def Let_def split: option.splits)

lemma nonzero_errors_nil: "nonzero_errors counts = [] \<longleftrightarrow> (\<forall>(name, n) \<in> set counts. n = 0)"
  by (auto simp: nonzero_errors_def filter_empty_conv)

lemma loss_rate_le:
  "0 < quality_count ql_current_paths_observed o0 \<Longrightarrow>
     loss_rate o0 \<le> 1 / 1000 \<longleftrightarrow> 1000 * health_count ah_packet_loss_paths o0 \<le> quality_count ql_current_paths_observed o0"
proof -
  assume n: "0 < quality_count ql_current_paths_observed o0"
  have "loss_rate o0 \<le> 1 / 1000 \<longleftrightarrow>
      (of_int (1000 * health_count ah_packet_loss_paths o0) :: rat) \<le> of_int (quality_count ql_current_paths_observed o0)"
    using n by (simp add: loss_rate_def field_simps)
  then show ?thesis by (simp only: of_int_le_iff)
qed


end
