(* ===== verification/Scenario_Executor.thy ===== *)
theory Scenario_Executor
  imports Fault_Injector Observation
begin

text \<open>
  \<open>netopsbench/platform/scenario/executor.py\<close>, \<open>episode_runner.py\<close> and \<open>incident_backend.py\<close>: one episode
  from its baseline over the injection and the observation to the bounded cleanup.
\<close>

section \<open>The executor\<close>

text \<open>
  \<open>xc_traffic\<close> asks the controller of the background traffic, if there is one, whether it has active
  flows and \<open>verify_active_flows()\<close> accepts them.  \<open>xc_worker_health\<close> is \<open>check_worker_health\<close> on the
  worker, if there is one.  \<open>xc_float_text\<close> is the text Python gives a float.
\<close>

record 'w executor =
  xc_observer :: "'w observer"
  xc_injector :: "'w injector"
  xc_registry :: fault_registry
  xc_table :: "(string, 'w fault_calls) dict"
  xc_traffic :: "'w \<Rightarrow> bool option \<times> 'w"
  xc_worker_health :: "('w, string list) action option"
  xc_health_timeout_seconds :: rat
  xc_post_recovery_wait_seconds :: rat
  xc_minimum_baseline_seconds :: int
  xc_float_text :: "rat \<Rightarrow> string"

definition health_poll_interval_seconds :: rat where
  "health_poll_interval_seconds = 5"

text \<open>Actions on the laboratory, in the state that also holds the tracker.\<close>

definition on_world :: "('w, 'a) action \<Rightarrow> ('w site, 'a) action" where
  "on_world m s = (case m (si_world s) of (r, w) \<Rightarrow> (r, s\<lparr>si_world := w\<rparr>))"

definition executor_sleep :: "'w executor \<Rightarrow> rat \<Rightarrow> ('w site, unit) action" where
  "executor_sleep xc seconds = on_world (\<lambda>w. (Inr (), ob_sleep (xc_observer xc) seconds w))"

definition monotonicS :: "'w executor \<Rightarrow> ('w site, rat) action" where
  "monotonicS xc = clockS (ij_lab (xc_injector xc))"

definition executor_inject_fault :: "'w executor \<Rightarrow> episode \<Rightarrow> 'w injection" where
  "executor_inject_fault xc = inject_fault (xc_registry xc) (xc_table xc) (xc_injector xc)"

definition recover_fault :: "'w executor \<Rightarrow> ('w site, fault_info list) action" where
  "recover_fault xc = recover_all (xc_registry xc) (xc_table xc) (xc_injector xc)"

text \<open>\<open>repr\<close> of the values of a fault.\<close>

fun json_repr :: "json \<Rightarrow> string" where
  "json_repr (JStr s) = py_repr s"
| "json_repr (JList vs) = ''['' @ str_join '', '' (map json_repr vs) @ '']''"
| "json_repr (JObj kvs) = ''{'' @ str_join '', '' (map (\<lambda>(k, v). py_repr k @ '': '' @ json_repr v) kvs) @ ''}''"
| "json_repr v = json_text v"

section \<open>Recovery results\<close>

definition recovered_flag :: "fault_info \<Rightarrow> bool" where
  "recovered_flag info \<longleftrightarrow> dict_get info ''recovered'' = Some (JBool True)"

definition recovery_results_succeeded :: "fault_info list option \<Rightarrow> bool" where
  "recovery_results_succeeded results = (case results of Some infos \<Rightarrow> list_all recovered_flag infos | None \<Rightarrow> False)"

definition recovery_has_terminal_failure :: "fault_info list option \<Rightarrow> bool" where
  "recovery_has_terminal_failure results =
     (case results of
        Some infos \<Rightarrow> list_ex (\<lambda>info. \<not> recovered_flag info \<and> dict_get info ''retryable'' = Some (JBool False)) infos
      | None \<Rightarrow> False)"

definition results_text :: "fault_info list option \<Rightarrow> string" where
  "results_text results =
     (case results of Some infos \<Rightarrow> json_repr (JList (map JObj infos)) | None \<Rightarrow> ''None'')"

section \<open>Cleanup after a scenario\<close>

record cleanup_state =
  cs_attempts :: nat
  cs_errors :: "string list"
  cs_recovery_attempted :: bool
  cs_post_recovery_waited :: bool
  cs_convergence_pending :: bool
  cs_terminal :: bool
  cs_results :: "fault_info list option"

definition new_cleanup :: "fault_info list option \<Rightarrow> cleanup_state" where
  "new_cleanup prior =
     \<lparr>cs_attempts = 0, cs_errors = [], cs_recovery_attempted = False, cs_post_recovery_waited = False,
      cs_convergence_pending = False, cs_terminal = False, cs_results = prior\<rparr>"

record cleanup_result =
  cr_success :: bool
  cr_status :: string
  cr_attempts :: nat
  cr_duration_seconds :: rat
  cr_errors :: "string list"
  cr_timeout_seconds :: "rat option"
  cr_remaining_faults :: "int option"
  cr_recovery :: "fault_info list option"
  cr_validated_baseline :: "window option"

definition add_errors :: "string \<Rightarrow> string list \<Rightarrow> cleanup_state \<Rightarrow> cleanup_state" where
  "add_errors label es cs = cs\<lparr>cs_errors := cs_errors cs @ map (\<lambda>e. label @ e) es\<rparr>"

text \<open>The body of \<open>try\<close>: recover everything and judge the results.\<close>

definition run_recovery :: "'w executor \<Rightarrow> cleanup_state \<Rightarrow> ('w site, bool \<times> cleanup_state) action" where
  "run_recovery xc cs =
     bindS (recover_fault xc) (\<lambda>infos.
     bindS (getS (\<lambda>s. tk_active (si_tracker s))) (\<lambda>active_faults.
       let results = Some infos;
           complete = recovery_results_succeeded results \<and> active_faults = [];
           failed = add_errors ''fault_recovery: ''
             [''remaining_faults='' @ nat_str (length active_faults) @ '' results='' @ results_text results] cs
       in returnS (complete,
            if complete then cs\<lparr>cs_results := results\<rparr>
            else failed\<lparr>cs_results := results, cs_terminal := recovery_has_terminal_failure results\<rparr>)))"

definition attempt_recovery :: "'w executor \<Rightarrow> cleanup_state \<Rightarrow> ('w site, bool \<times> cleanup_state) action" where
  "attempt_recovery xc cs =
     bindS (getS (\<lambda>s. tk_active (si_tracker s))) (\<lambda>active_faults.
       if active_faults = [] \<and> (cs_results cs = None \<or> recovery_results_succeeded (cs_results cs))
       then returnS (True, cs)
       else
        (let attempted = cs\<lparr>cs_recovery_attempted := True\<rparr>
         in catchS (run_recovery xc attempted)
              (\<lambda>e. returnS (False, add_errors ''fault_recovery: '' [exc_type e @ '': '' @ exc_text e] attempted))))"

definition wait_after_recovery :: "'w executor \<Rightarrow> cleanup_state \<Rightarrow> ('w site, cleanup_state) action" where
  "wait_after_recovery xc cs =
     (if cs_recovery_attempted cs \<and> cs_results cs \<noteq> None \<and> cs_results cs \<noteq> Some [] \<and> \<not> cs_post_recovery_waited cs then
        bindS (if xc_post_recovery_wait_seconds xc \<noteq> 0 then executor_sleep xc (xc_post_recovery_wait_seconds xc)
               else returnS ()) (\<lambda>_.
          returnS (cs\<lparr>cs_post_recovery_waited := True\<rparr>))
      else returnS cs)"

definition trafficS :: "'w executor \<Rightarrow> ('w site, bool option) action" where
  "trafficS xc = on_world (\<lambda>w. case xc_traffic xc w of (ready, w') \<Rightarrow> (Inr ready, w'))"

definition convergence_errors :: "'w executor \<Rightarrow> ('w site, string list) action" where
  "convergence_errors xc =
     bindS (trafficS xc) (\<lambda>ready.
     bindS (case xc_worker_health xc of None \<Rightarrow> returnS [] | Some check \<Rightarrow> on_world check) (\<lambda>health_errors.
       returnS ((if ready = Some False then [''background traffic is not fully ready''] else []) @ health_errors)))"

definition elapsed :: "'w executor \<Rightarrow> rat \<Rightarrow> ('w site, rat) action" where
  "elapsed xc started = bindS (monotonicS xc) (\<lambda>now. returnS (max 0 (now - started)))"

definition gave_up :: "'w executor \<Rightarrow> rat \<Rightarrow> cleanup_state \<Rightarrow> ('w site, cleanup_result option) action" where
  "gave_up xc started cs =
     bindS (elapsed xc started) (\<lambda>duration.
     bindS (getS (\<lambda>s. tk_active (si_tracker s))) (\<lambda>active_faults.
       returnS (Some
         \<lparr>cr_success = False,
          cr_status = (if cs_terminal cs then ''terminal_recovery_failure''
                       else if cs_convergence_pending cs then ''post_recovery_convergence_timeout'' else ''recovery_timeout''),
          cr_attempts = cs_attempts cs, cr_duration_seconds = duration, cr_errors = unique (cs_errors cs),
          cr_timeout_seconds = Some (xc_health_timeout_seconds xc),
          cr_remaining_faults = Some (int (length active_faults)), cr_recovery = None, cr_validated_baseline = None\<rparr>)))"

definition validated_window :: "observation \<Rightarrow> window" where
  "validated_window v =
     \<lparr>wn_name = ''baseline'', wn_start = on_start_time v, wn_end = on_end_time v, wn_duration = on_duration_seconds v\<rparr>"

text \<open>Everything recovered and converged: the network must still look healthy if something was recovered.\<close>

definition baseline_failed :: "'w executor \<Rightarrow> rat \<Rightarrow> cleanup_state \<Rightarrow> string list \<Rightarrow> ('w site, cleanup_result option) action" where
  "baseline_failed xc started cs es =
     bindS (elapsed xc started) (\<lambda>duration.
       returnS (Some
         \<lparr>cr_success = False, cr_status = ''post_recovery_baseline_failed'', cr_attempts = cs_attempts cs,
          cr_duration_seconds = duration, cr_errors = unique (cs_errors (add_errors ''post_recovery_baseline: '' es cs)),
          cr_timeout_seconds = None, cr_remaining_faults = None, cr_recovery = None, cr_validated_baseline = None\<rparr>))"

definition cleaned :: "'w executor \<Rightarrow> rat \<Rightarrow> cleanup_state \<Rightarrow> window option \<Rightarrow> ('w site, cleanup_result option) action" where
  "cleaned xc started cs validated =
     bindS (elapsed xc started) (\<lambda>duration.
       returnS (Some
         \<lparr>cr_success = True, cr_status = (if cs_attempts cs = 1 then ''clean'' else ''recovered_after_retry''),
          cr_attempts = cs_attempts cs, cr_duration_seconds = duration, cr_errors = unique (cs_errors cs),
          cr_timeout_seconds = None, cr_remaining_faults = None, cr_recovery = cs_results cs,
          cr_validated_baseline = validated\<rparr>))"

definition finish_cleanup ::
  "'w executor \<Rightarrow> window option \<Rightarrow> rat \<Rightarrow> cleanup_state \<Rightarrow> ('w site, cleanup_result option) action" where
  "finish_cleanup xc baseline started cs =
     (case baseline of
        Some b \<Rightarrow>
          if cs_recovery_attempted cs then
            bindS (on_world (wait_and_observe (xc_observer xc) (wn_duration b) b)) (\<lambda>validation.
              let es = baseline_gate_errors validation
              in if es \<noteq> [] then baseline_failed xc started cs es
                 else cleaned xc started cs (Some (validated_window validation)))
          else cleaned xc started cs None
      | None \<Rightarrow> cleaned xc started cs None)"

text \<open>
  The fuel bounds the rounds; \<open>cleanup_ends\<close> in \<open>Cleanup_Safety\<close> says how much is enough.
\<close>

fun cleanup_loop ::
  "nat \<Rightarrow> 'w executor \<Rightarrow> window option \<Rightarrow> rat \<Rightarrow> rat \<Rightarrow> cleanup_state \<Rightarrow> ('w site, cleanup_result option) action" where
  "cleanup_loop 0 xc baseline started deadline cs = returnS None"
| "cleanup_loop (Suc n) xc baseline started deadline cs =
     bindS (if cs_attempts cs = 0 then returnS True
            else bindS (monotonicS xc) (\<lambda>now. returnS (now < deadline))) (\<lambda>continues.
       if \<not> continues then gave_up xc started cs
       else
         bindS (attempt_recovery xc (cs\<lparr>cs_attempts := cs_attempts cs + 1\<rparr>)) (\<lambda>(complete, cs1).
         bindS (if complete then wait_after_recovery xc cs1 else returnS cs1) (\<lambda>cs2.
         bindS (if complete then convergence_errors xc else returnS []) (\<lambda>problems.
           if complete \<and> problems = [] then finish_cleanup xc baseline started cs2
           else if \<not> complete \<and> cs_terminal cs2 then gave_up xc started cs2
           else
            (let cs3 = (if complete then (add_errors ''post_recovery: '' problems cs2)\<lparr>cs_convergence_pending := True\<rparr> else cs2)
             in bindS (monotonicS xc) (\<lambda>now.
                  if deadline - now \<le> 0 then gave_up xc started cs3
                  else bindS (executor_sleep xc (min health_poll_interval_seconds (deadline - now))) (\<lambda>_.
                         cleanup_loop n xc baseline started deadline cs3)))))))"

definition cleanup_after_scenario ::
  "nat \<Rightarrow> 'w executor \<Rightarrow> fault_info list option \<Rightarrow> window option \<Rightarrow> ('w site, cleanup_result option) action" where
  "cleanup_after_scenario fuel xc prior baseline =
     bindS (monotonicS xc) (\<lambda>started.
       cleanup_loop fuel xc baseline started (started + xc_health_timeout_seconds xc) (new_cleanup prior))"

section \<open>Observing an episode\<close>

text \<open>\<open>int(value)\<close>.\<close>

definition json_to_int :: "json \<Rightarrow> int result" where
  "json_to_int v =
     (case v of
        JInt i \<Rightarrow> Inr i
      | JBool b \<Rightarrow> Inr (if b then 1 else 0)
      | JStr s \<Rightarrow> (case int_of_text s of
           Some i \<Rightarrow> Inr i
         | None \<Rightarrow> Inl (ValueError (''invalid literal for int() with base 10: '' @ py_repr s)))
      | JFloat t \<Rightarrow> (case cell_float t of Some x \<Rightarrow> Inr (py_int x) | None \<Rightarrow> Inl (ValueError ''cannot convert float to integer''))
      | _ \<Rightarrow> Inl (TypeError ''int() argument must be a string, a bytes-like object or a real number''))"

record episode_result =
  er_injection :: "fault_info option"
  er_observations :: observation
  er_coverage_audit :: "coverage option"
  er_recovery :: "fault_info list option"

definition observed_result :: "fault_info option \<Rightarrow> observation \<Rightarrow> episode_result" where
  "observed_result injection o0 =
     \<lparr>er_injection = injection,
      er_observations = o0\<lparr>on_coverage_audit := None, on_baseline_health := None\<rparr>,
      er_coverage_audit = on_coverage_audit o0, er_recovery = None\<rparr>"

text \<open>
  How the seconds of an episode are shared: an early window, a pause and a steady window.
\<close>

definition early_default :: "int \<Rightarrow> int" where
  "early_default duration = min 20 (max 10 (duration div 3))"

definition early_seconds :: "episode \<Rightarrow> int result" where
  "early_seconds e =
     bindE (json_to_int (dict_get_default (ep_metadata e) ''early_observation_seconds''
              (JInt (early_default (ep_duration_seconds e))))) (\<lambda>seconds.
       Inr (if ep_duration_seconds e \<le> seconds then max 0 (ep_duration_seconds e - 10) else seconds))"

definition time_budget :: "episode \<Rightarrow> (int \<times> int \<times> int) result" where
  "time_budget e =
     bindE (early_seconds e) (\<lambda>early.
       let stabilization = max 0 (ep_stabilization_time e);
           steady = ep_duration_seconds e - early - stabilization
       in if steady < 1 then
            Inl (ValueError (''Fault observation budget must leave at least one steady-state second: duration='' @
              int_str (ep_duration_seconds e) @ '', early='' @ int_str early @ '', stabilization='' @ int_str stabilization))
          else Inr (early, stabilization, steady))"

definition observe_windows :: "'w executor \<Rightarrow> int \<times> int \<times> int \<Rightarrow> ('w site, window list) action" where
  "observe_windows xc budget =
     (case budget of (early, stabilization, steady) \<Rightarrow>
        bindS (if early \<noteq> 0 then
                 bindS (on_world (capture_observation_window (xc_observer xc) early ''early'')) (\<lambda>win. returnS [win])
               else returnS []) (\<lambda>early_windows.
        bindS (executor_sleep xc (of_int stabilization)) (\<lambda>_.
        bindS (on_world (capture_observation_window (xc_observer xc) steady ''steady'')) (\<lambda>win.
          returnS (early_windows @ [win])))))"

text \<open>\<open>None\<close> when an injection does not return within the fuel of the injector.\<close>

definition observe_episode :: "'w executor \<Rightarrow> episode \<Rightarrow> window \<Rightarrow> ('w site, episode_result option) action" where
  "observe_episode xc e baseline =
     (if is_healthy e then
        bindS (on_world (wait_and_observe (xc_observer xc) (ep_duration_seconds e) baseline)) (\<lambda>o0.
          returnS (Some (observed_result None o0)))
      else
        bindS (executor_inject_fault xc e) (\<lambda>injection.
          case injection of
            None \<Rightarrow> returnS None
          | Some info \<Rightarrow>
              if \<not> info_true info ''success'' then
                raiseS (RuntimeError (''Fault injection failed: '' @ json_repr (JObj info)))
              else
                bindS (liftS (time_budget e)) (\<lambda>budget.
                bindS (observe_windows xc budget) (\<lambda>windows.
                bindS (on_world (analyze_observation_windows (xc_observer xc) windows (ep_duration_seconds e) baseline)) (\<lambda>o0.
                  returnS (Some (observed_result (Some info) o0)))))))"

section \<open>The backend of an incident\<close>

text \<open>
  \<open>setup\<close> stops what is left of the background traffic and starts it, and \<open>publish\<close> builds the public observation for the agent
  (\<open>incident/context.py\<close>); both are arguments.
\<close>

record incident_backend =
  bk_setup_traffic :: bool
  bk_baseline_window :: "window option"
  bk_scenario :: "scenario option"
  bk_episode_result :: "episode_result option"
  bk_cleanup_result :: "cleanup_result option"
  bk_finished :: bool

definition new_backend :: "bool \<Rightarrow> window option \<Rightarrow> incident_backend" where
  "new_backend setup_traffic baseline =
     \<lparr>bk_setup_traffic = setup_traffic, bk_baseline_window = baseline, bk_scenario = None, bk_episode_result = None,
      bk_cleanup_result = None, bk_finished = False\<rparr>"

text \<open>The backend together with the laboratory it works on.\<close>

type_synonym 'w backend_site = "incident_backend \<times> 'w site"

definition on_site :: "('w site, 'a) action \<Rightarrow> ('w backend_site, 'a) action" where
  "on_site m s = (case m (snd s) of (r, s') \<Rightarrow> (r, (fst s, s')))"

definition update_backend :: "(incident_backend \<Rightarrow> incident_backend) \<Rightarrow> ('w backend_site, unit) action" where
  "update_backend f s = (Inr (), (f (fst s), snd s))"

text \<open>A baseline is measured against itself and must pass the gate.\<close>

definition measure_baseline :: "'w executor \<Rightarrow> ('w site, window) action" where
  "measure_baseline xc =
     bindS (on_world (capture_baseline_window (xc_observer xc) (xc_minimum_baseline_seconds xc))) (\<lambda>reference.
     bindS (on_world (wait_and_observe (xc_observer xc) (wn_duration reference) reference)) (\<lambda>validation.
       let es = baseline_gate_errors validation
       in if es \<noteq> [] then raiseS (RuntimeError (''Healthy baseline is unavailable: '' @ str_join ''; '' es))
          else returnS (validated_window validation)))"

definition ensure_traffic :: "'w executor \<Rightarrow> ('w site, unit) action \<Rightarrow> ('w site, unit) action" where
  "ensure_traffic xc setup =
     bindS (trafficS xc) (\<lambda>ready. if ready = Some True then returnS () else setup)"

definition backend_baseline ::
  "'w executor \<Rightarrow> ('w site, unit) action \<Rightarrow> ('w backend_site, window) action" where
  "backend_baseline xc setup =
     bindS (getS fst) (\<lambda>b.
     bindS (if bk_setup_traffic b then
              bindS (on_site (ensure_traffic xc setup)) (\<lambda>_.
                if bk_baseline_window b = None then
                  bindS (on_site (measure_baseline xc)) (\<lambda>win. update_backend (\<lambda>b. b\<lparr>bk_baseline_window := Some win\<rparr>))
                else returnS ())
            else returnS ()) (\<lambda>_.
     bindS (getS (\<lambda>s. bk_baseline_window (fst s))) (\<lambda>baseline.
       case baseline of
         None \<Rightarrow> raiseS (RuntimeError ''Incident preparation requires an explicit Pingmesh baseline window'')
       | Some win \<Rightarrow> returnS win)))"

definition backend_prepare ::
  "'w executor \<Rightarrow> ('w site, unit) action \<Rightarrow> (episode_result \<Rightarrow> ('w site, json) action) \<Rightarrow> scenario \<Rightarrow>
   ('w backend_site, json option) action" where
  "backend_prepare xc setup publish sc =
     bindS (update_backend (\<lambda>b. b\<lparr>bk_scenario := Some sc\<rparr>)) (\<lambda>_.
     bindS (backend_baseline xc setup) (\<lambda>baseline.
     bindS (on_site (observe_episode xc (sc_episode sc) baseline)) (\<lambda>observed.
       case observed of
         None \<Rightarrow> returnS None
       | Some r \<Rightarrow>
           bindS (update_backend (\<lambda>b. b\<lparr>bk_episode_result := Some r\<rparr>)) (\<lambda>_.
             let es = observation_integrity_errors (er_observations r)
             in if es \<noteq> [] then raiseS (RuntimeError (''Incident observation is incomplete: '' @ str_join ''; '' es))
                else bindS (on_site (publish r)) (\<lambda>public. returnS (Some public))))))"

definition record_cleanup :: "cleanup_result \<Rightarrow> incident_backend \<Rightarrow> incident_backend" where
  "record_cleanup cr b =
     b\<lparr>bk_cleanup_result := Some cr,
       bk_episode_result := map_option (\<lambda>r. if cr_recovery cr = None then r else r\<lparr>er_recovery := cr_recovery cr\<rparr>) (bk_episode_result b),
       bk_baseline_window := (if cr_validated_baseline cr = None then bk_baseline_window b else cr_validated_baseline cr)\<rparr>"

text \<open>The dictionary of a result, which the message of a failed cleanup shows.\<close>

definition window_json :: "window \<Rightarrow> json" where
  "window_json win =
     JObj [(''name'', JStr (wn_name win)), (''start_time'', JStr (wn_start win)), (''end_time'', JStr (wn_end win)),
           (''duration_seconds'', JInt (wn_duration win))]"

definition cleanup_json :: "(rat \<Rightarrow> string) \<Rightarrow> cleanup_result \<Rightarrow> json" where
  "cleanup_json float_text cr =
     JObj ([(''success'', JBool (cr_success cr)), (''status'', JStr (cr_status cr)), (''attempts'', JInt (int (cr_attempts cr))),
            (''duration_seconds'', JFloat (float_text (cr_duration_seconds cr)))] @
           (case cr_timeout_seconds cr of Some t \<Rightarrow> [(''timeout_seconds'', JFloat (float_text t))] | None \<Rightarrow> []) @
           (case cr_remaining_faults cr of Some n \<Rightarrow> [(''remaining_faults'', JInt n)] | None \<Rightarrow> []) @
           [(''errors'', JList (map JStr (cr_errors cr)))] @
           (case cr_recovery cr of Some infos \<Rightarrow> [(''recovery'', JList (map JObj infos))] | None \<Rightarrow> []) @
           (case cr_validated_baseline cr of Some win \<Rightarrow> [(''validated_baseline'', window_json win)] | None \<Rightarrow> []))"

definition cleanup_failure_message :: "(rat \<Rightarrow> string) \<Rightarrow> cleanup_result \<Rightarrow> string" where
  "cleanup_failure_message float_text cr = ''Scenario cleanup failed: '' @ json_repr (cleanup_json float_text cr)"

text \<open>\<open>None\<close> when the fuel of the cleanup runs out.\<close>

definition backend_finish :: "nat \<Rightarrow> 'w executor \<Rightarrow> ('w backend_site, unit option) action" where
  "backend_finish fuel xc =
     bindS (getS fst) (\<lambda>b.
       if bk_finished b then returnS (Some ())
       else
         bindS (update_backend (\<lambda>b. b\<lparr>bk_finished := True\<rparr>)) (\<lambda>_.
           if bk_scenario b = None then returnS (Some ())
           else
             bindS (on_site (cleanup_after_scenario fuel xc (Option.bind (bk_episode_result b) er_recovery)
                      (bk_baseline_window b))) (\<lambda>result.
               case result of
                 None \<Rightarrow> returnS None
               | Some cr \<Rightarrow>
                   bindS (update_backend (record_cleanup cr)) (\<lambda>_.
                     if cr_success cr then returnS (Some ())
                     else raiseS (RuntimeError (cleanup_failure_message (xc_float_text xc) cr))))))"

end
