(* ===== verification/Cleanup_Safety.thy ===== *)
theory Cleanup_Safety
  imports Scenario_Executor Fault_Settling
begin

text \<open>
  What the executor guarantees: the result of a cleanup tells the truth about the tracker and the
  network, a cleanup ends, an episode uses exactly its seconds, and an impairment that an episode
  injected is gone after a successful cleanup.
\<close>

section \<open>What the executor leaves alone\<close>

lemma keeps_on_world [keeps_intros]: "keeps si_tracker (on_world m)"
  by (simp add: keeps_def on_world_def split: prod.split)

lemma keeps_executor [keeps_intros]:
  "keeps si_tracker (executor_sleep xc d)" "keeps si_tracker (monotonicS xc)" "keeps si_tracker (trafficS xc)"
  "keeps si_tracker (elapsed xc t)" "keeps si_tracker (convergence_errors xc)" "keeps si_tracker (wait_after_recovery xc cs)"
  unfolding executor_sleep_def monotonicS_def trafficS_def elapsed_def convergence_errors_def wait_after_recovery_def
  by (intro keeps_intros)+

lemma tracker_kept: "keeps si_tracker m \<Longrightarrow> triple (\<lambda>s. P (active s)) m (\<lambda>_ s. P (active s)) (\<lambda>_ s. P (active s))"
  by (rule keeps_triple [OF keeps_active])

section \<open>An honest result\<close>

text \<open>
  A successful cleanup leaves no active fault, every recovery it reports succeeded, and if it had
  to recover anything the network passed the gate again; a failed one counts what is left.
\<close>

definition honest :: "bool \<Rightarrow> window option \<Rightarrow> cleanup_result \<Rightarrow> 'w site \<Rightarrow> bool" where
  "honest recovered baseline r s \<longleftrightarrow>
     (if cr_success r then
        active s = [] \<and> cr_status r \<in> {''clean'', ''recovered_after_retry''} \<and>
        (\<forall>infos. cr_recovery r = Some infos \<longrightarrow> list_all recovered_flag infos) \<and>
        (recovered \<longrightarrow> baseline \<noteq> None \<longrightarrow>
           (\<exists>v. cr_validated_baseline r = Some (validated_window v) \<and> baseline_gate_errors v = []))
      else
        cr_validated_baseline r = None \<and> cr_recovery r = None \<and>
        (\<forall>n. cr_remaining_faults r = Some n \<longrightarrow> n = int (length (active s))))"

abbreviation honest_if :: "bool \<Rightarrow> window option \<Rightarrow> cleanup_result option \<Rightarrow> 'w site \<Rightarrow> bool" where
  "honest_if recovered baseline r s \<equiv> (\<forall>x. r = Some x \<longrightarrow> honest recovered baseline x s)"

lemma honest_gave_up: "triple P (gave_up xc started cs) (honest_if recovered baseline) (\<lambda>_ _. True)"
  unfolding gave_up_def
  by (rule triple_drop) (auto simp: triple_def bindS_def getS_def returnS_def honest_def active_def)

text \<open>\<open>settled\<close>: what holds when every fault is recovered.\<close>

definition settled :: "bool \<Rightarrow> cleanup_state \<Rightarrow> 'w site \<Rightarrow> bool" where
  "settled recovered cs s \<longleftrightarrow>
     active s = [] \<and> (cs_results cs = None \<or> recovery_results_succeeded (cs_results cs)) \<and>
     (recovered \<longrightarrow> cs_recovery_attempted cs)"

definition pending :: "bool \<Rightarrow> cleanup_state \<Rightarrow> 'w site \<Rightarrow> bool" where
  "pending recovered cs s \<longleftrightarrow> (recovered \<longrightarrow> cs_recovery_attempted cs \<or> active s \<noteq> [])"

lemma settled_kept: "keeps si_tracker m \<Longrightarrow> triple (settled recovered cs) m (\<lambda>_. settled recovered cs) (\<lambda>_ _. True)"
  by (rule triple_weaken [OF tracker_kept [where P = "\<lambda>a. a = [] \<and> (cs_results cs = None \<or> recovery_results_succeeded (cs_results cs)) \<and>
      (recovered \<longrightarrow> cs_recovery_attempted cs)"]]) (auto simp: settled_def)

lemma honest_cleaned:
  assumes "\<And>v. validated = Some v \<Longrightarrow> \<exists>o0. v = validated_window o0 \<and> baseline_gate_errors o0 = []"
    and "recovered \<Longrightarrow> baseline \<noteq> None \<Longrightarrow> validated \<noteq> None"
  shows "triple (settled recovered cs) (cleaned xc started cs validated) (honest_if recovered baseline) (\<lambda>_ _. True)"
  unfolding cleaned_def
  by (rule triple_bind [OF settled_kept [OF keeps_executor(4)]], rule triple_return)
    (use assms in \<open>auto simp: honest_def settled_def recovery_results_succeeded_def\<close>)

lemma honest_baseline_failed: "triple P (baseline_failed xc started cs es) (honest_if recovered baseline) (\<lambda>_ _. True)"
  unfolding baseline_failed_def by (rule triple_drop, rule triple_return) (simp add: honest_def)

lemma honest_finish:
  "triple (settled recovered cs) (finish_cleanup xc baseline started cs) (honest_if recovered baseline) (\<lambda>_ _. True)"
proof (cases "\<exists>b. baseline = Some b \<and> cs_recovery_attempted cs")
  case True
  then obtain b where b: "baseline = Some b" "cs_recovery_attempted cs" by blast
  show ?thesis
    unfolding finish_cleanup_def Let_def b(1) option.case if_P [OF b(2)]
    by (rule triple_bind [OF settled_kept [OF keeps_on_world]], rule triple_if [OF honest_baseline_failed], rule honest_cleaned) auto
next
  case False
  have "triple (settled recovered cs) (cleaned xc started cs None) (honest_if recovered baseline) (\<lambda>_ _. True)"
  proof (cases "recovered \<and> baseline \<noteq> None")
    case True
    with False have "\<not> settled recovered cs s" for s :: "'a site" by (auto simp: settled_def)
    then show ?thesis by (simp add: triple_def)
  qed (auto intro!: honest_cleaned)
  then show ?thesis using False by (auto simp: finish_cleanup_def split: option.split)
qed

section \<open>One round\<close>

lemma run_recovery_settles:
  assumes "cs_recovery_attempted cs"
  shows "triple P (run_recovery xc cs) (\<lambda>r s. (fst r \<longrightarrow> settled recovered (snd r) s) \<and> cs_recovery_attempted (snd r)) (\<lambda>_ _. True)"
  unfolding run_recovery_def
  by (rule triple_drop)
    (use assms in \<open>auto simp: triple_def bindS_def getS_def returnS_def settled_def active_def add_errors_def Let_def\<close>)

lemma attempt_settles:
  "triple (pending recovered cs) (attempt_recovery xc cs)
     (\<lambda>r s. (fst r \<longrightarrow> settled recovered (snd r) s) \<and> pending recovered (snd r) s) (\<lambda>_ _. True)"
proof -
  let ?Q = "\<lambda>r s. (fst r \<longrightarrow> settled recovered (snd r) s) \<and> pending recovered (snd r) s"
  have tried: "triple (pending recovered cs) (catchS (run_recovery xc (cs\<lparr>cs_recovery_attempted := True\<rparr>))
      (\<lambda>e. returnS (False, add_errors l (es e) (cs\<lparr>cs_recovery_attempted := True\<rparr>)))) ?Q (\<lambda>_ _. True)" for l es
    by (rule triple_catch [where R = "\<lambda>_ _. True"],
        rule triple_weaken [OF run_recovery_settles [where P = "\<lambda>_. True" and recovered = recovered]], (auto simp: pending_def)[4],
        rule triple_return) (simp add: pending_def add_errors_def)
  have "triple (\<lambda>s. pending recovered cs s \<and> active s = a)
     (if a = [] \<and> (cs_results cs = None \<or> recovery_results_succeeded (cs_results cs)) then returnS (True, cs)
      else catchS (run_recovery xc (cs\<lparr>cs_recovery_attempted := True\<rparr>))
        (\<lambda>e. returnS (False, add_errors l (es e) (cs\<lparr>cs_recovery_attempted := True\<rparr>)))) ?Q (\<lambda>_ _. True)" for a l es
    by (intro triple_if triple_return triple_weaken [OF tried]) (auto simp: settled_def pending_def)
  then show ?thesis
    unfolding attempt_recovery_def Let_def
    by (intro triple_bind [where R = "\<lambda>a s. pending recovered cs s \<and> active s = a"])
      (auto simp: triple_def getS_def active_def)
qed

lemma wait_settled:
  "triple (settled recovered cs) (wait_after_recovery xc cs) (\<lambda>cs'. settled recovered cs') (\<lambda>_ _. True)"
proof -
  have wait: "triple (settled recovered cs) (if b then executor_sleep xc d else returnS ()) (\<lambda>_. settled recovered cs) (\<lambda>_ _. True)" for b d
    by (cases b) (simp_all add: settled_kept keeps_intros triple_return)
  show ?thesis
    unfolding wait_after_recovery_def
    by (rule triple_if, rule triple_bind [OF wait], (rule triple_return, simp add: settled_def)+)
qed

lemma cleanup_loop_honest:
  "triple (pending recovered cs) (cleanup_loop n xc baseline started deadline cs) (honest_if recovered baseline) (\<lambda>_ _. True)"
proof (induction n arbitrary: cs)
  case 0
  show ?case unfolding cleanup_loop.simps by (rule triple_return) simp
next
  case (Suc n)
  let ?kept = "\<lambda>cs. pending recovered cs"
  have kept: "triple (pending recovered cs) m (\<lambda>_. pending recovered cs) (\<lambda>_ _. True)" if "keeps si_tracker m" for m cs
    by (rule triple_weaken [OF tracker_kept [OF that, where P = "\<lambda>a. recovered \<longrightarrow> cs_recovery_attempted cs \<or> a \<noteq> []"]])
      (auto simp: pending_def)
  have weak: "settled recovered cs s \<Longrightarrow> pending recovered cs s" for cs and s :: "'a site"
    by (simp add: settled_def pending_def)
  have again: "triple (pending recovered cs) (bindS (monotonicS xc) (\<lambda>now.
      if deadline - now \<le> 0 then gave_up xc started cs
      else bindS (executor_sleep xc (d now)) (\<lambda>_. cleanup_loop n xc baseline started deadline cs)))
      (honest_if recovered baseline) (\<lambda>_ _. True)" for cs d
    by (rule triple_bind [OF kept [OF keeps_executor(2)]], intro triple_if honest_gave_up,
        rule triple_bind [OF kept [OF keeps_executor(1)] Suc.IH])
  have round: "triple (\<lambda>s. (complete \<longrightarrow> settled recovered cs1 s) \<and> pending recovered cs1 s)
      (bindS (if complete then wait_after_recovery xc cs1 else returnS cs1) (\<lambda>cs2.
       bindS (if complete then convergence_errors xc else returnS []) (\<lambda>problems.
         if complete \<and> problems = [] then finish_cleanup xc baseline started cs2
         else if \<not> complete \<and> cs_terminal cs2 then gave_up xc started cs2
         else (let cs3 = (if complete then (add_errors ''post_recovery: '' problems cs2)\<lparr>cs_convergence_pending := True\<rparr> else cs2)
               in bindS (monotonicS xc) (\<lambda>now.
                  if deadline - now \<le> 0 then gave_up xc started cs3
                  else bindS (executor_sleep xc (min health_poll_interval_seconds (deadline - now))) (\<lambda>_.
                         cleanup_loop n xc baseline started deadline cs3))))))
      (honest_if recovered baseline) (\<lambda>_ _. True)" for complete cs1
  proof (cases complete)
    case True
    let ?cs3 = "\<lambda>problems cs2. (add_errors ''post_recovery: '' problems cs2)\<lparr>cs_convergence_pending := True\<rparr>"
    have same: "pending recovered (?cs3 problems cs2) = pending recovered cs2" for problems cs2
      by (simp add: pending_def add_errors_def fun_eq_iff)
    have "triple (settled recovered cs1)
        (bindS (wait_after_recovery xc cs1) (\<lambda>cs2.
         bindS (convergence_errors xc) (\<lambda>problems.
           if problems = [] then finish_cleanup xc baseline started cs2
           else bindS (monotonicS xc) (\<lambda>now.
                  if deadline - now \<le> 0 then gave_up xc started (?cs3 problems cs2)
                  else bindS (executor_sleep xc (min health_poll_interval_seconds (deadline - now))) (\<lambda>_.
                         cleanup_loop n xc baseline started deadline (?cs3 problems cs2))))))
        (honest_if recovered baseline) (\<lambda>_ _. True)"
      by (rule triple_bind [OF wait_settled], rule triple_bind [OF settled_kept [OF keeps_executor(5)]],
          rule triple_if [OF honest_finish], rule triple_weaken [OF again]) (simp_all add: same weak)
    then show ?thesis
      unfolding eqTrueI [OF True] Let_def simp_thms if_True if_False by (rule triple_weaken) simp_all
  next
    case False
    have "triple (pending recovered cs1) (if cs_terminal cs1 then gave_up xc started cs1 else bindS (monotonicS xc) (\<lambda>now.
          if deadline - now \<le> 0 then gave_up xc started cs1
          else bindS (executor_sleep xc (min health_poll_interval_seconds (deadline - now))) (\<lambda>_.
                 cleanup_loop n xc baseline started deadline cs1)))
        (honest_if recovered baseline) (\<lambda>_ _. True)"
      by (rule triple_if, rule honest_gave_up, rule again)
    then show ?thesis unfolding Eq_FalseI [OF False] Let_def simp_thms if_True if_False bindS_return .
  qed
  have more: "triple (pending recovered cs) (if cs_attempts cs = 0 then returnS True
      else bindS (monotonicS xc) (\<lambda>now. returnS (now < deadline))) (\<lambda>_. pending recovered cs) (\<lambda>_ _. True)"
    by (intro triple_if triple_return triple_bind [OF kept [OF keeps_executor(2)]])
  have tried: "triple (pending recovered cs) (attempt_recovery xc (cs\<lparr>cs_attempts := k\<rparr>))
      (\<lambda>r s. (fst r \<longrightarrow> settled recovered (snd r) s) \<and> pending recovered (snd r) s) (\<lambda>_ _. True)" for k
    by (rule triple_weaken [OF attempt_settles [where recovered = recovered]]) (auto simp: pending_def)
  show ?case
    unfolding cleanup_loop.simps
    by (rule triple_bind [OF more], intro triple_if honest_gave_up, rule triple_bind [OF tried], rule triple_case_prod, rule round)
qed

lemma cleanup_honest:
  "triple (\<lambda>s. recovered \<longrightarrow> active s \<noteq> []) (cleanup_after_scenario fuel xc prior baseline)
     (honest_if recovered baseline) (\<lambda>_ _. True)"
proof -
  have start: "triple (\<lambda>s. recovered \<longrightarrow> active s \<noteq> []) (monotonicS xc) (\<lambda>_ s. recovered \<longrightarrow> active s \<noteq> []) (\<lambda>_ _. True)"
    by (rule triple_weaken [OF tracker_kept [OF keeps_executor(2), where P = "\<lambda>a. recovered \<longrightarrow> a \<noteq> []"]]) auto
  show ?thesis
    unfolding cleanup_after_scenario_def
    by (rule triple_bind [OF start], rule triple_weaken [OF cleanup_loop_honest [where recovered = recovered]])
      (simp_all add: pending_def new_cleanup_def)
qed

section \<open>A cleanup ends\<close>

text \<open>
  What the executor waits for: the clock of the laboratory shows \<open>time w\<close>, a pause of the executor
  takes at least its length, and neither the recovery nor a check of the network turns the clock back.
\<close>

definition executor_clock :: "'w executor \<Rightarrow> ('w \<Rightarrow> rat) \<Rightarrow> bool" where
  "executor_clock xc time \<longleftrightarrow>
     (\<forall>w. fst (lb_clock (ij_lab (xc_injector xc)) w) = time w \<and> time w \<le> time (snd (lb_clock (ij_lab (xc_injector xc)) w))) \<and>
     (\<forall>d w. 0 \<le> d \<longrightarrow> time w + d \<le> time (ob_sleep (xc_observer xc) d w)) \<and>
     (\<forall>w. time w \<le> time (snd (xc_traffic xc w))) \<and>
     (\<forall>check w. xc_worker_health xc = Some check \<longrightarrow> time w \<le> time (snd (check w))) \<and>
     passes time (recover_fault xc)"

lemma passes_catch: "passes time m \<Longrightarrow> (\<And>e. passes time (h e)) \<Longrightarrow> passes time (catchS m h)"
  by (simp add: passes_def catchS_def split: prod.split sum.split) (metis order_trans snd_conv)

lemma passes_getS: "passes time (getS f)"
  by (simp add: passes_def getS_def)

lemma passes_option: "passes time m \<Longrightarrow> (\<And>y. x = Some y \<Longrightarrow> passes time (f y)) \<Longrightarrow> passes time (case x of None \<Rightarrow> m | Some y \<Rightarrow> f y)"
  by (cases x) auto

lemma passes_on_world: "(\<And>w. time w \<le> time (snd (m w))) \<Longrightarrow> passes time (on_world m)"
  by (simp add: passes_def on_world_def split: prod.split) (metis snd_conv)

lemma passes_triple: "passes time m \<Longrightarrow> triple (\<lambda>s. b \<le> time (si_world s)) m (\<lambda>_ s. b \<le> time (si_world s)) (\<lambda>_ _. True)"
  by (rule tripleI) (auto dest: passes_result)

lemma passes_executor:
  assumes "executor_clock xc time"
  shows "0 \<le> d \<Longrightarrow> passes time (executor_sleep xc d)" "passes time (monotonicS xc)"
    "passes time (attempt_recovery xc cs)" "passes time (convergence_errors xc)"
    "0 \<le> xc_post_recovery_wait_seconds xc \<Longrightarrow> passes time (wait_after_recovery xc cs)"
proof -
  have sleep: "passes time (executor_sleep xc d)" if "0 \<le> d" for d
    unfolding executor_sleep_def
  proof (rule passes_on_world)
    fix w
    have "time w + d \<le> time (ob_sleep (xc_observer xc) d w)" using assms that by (simp add: executor_clock_def)
    then show "time w \<le> time (snd (Inr (), ob_sleep (xc_observer xc) d w))" using that by simp
  qed
  then show "0 \<le> d \<Longrightarrow> passes time (executor_sleep xc d)" by simp
  show "passes time (monotonicS xc)"
    using assms unfolding executor_clock_def passes_def monotonicS_def clockS_def by (auto split: prod.split) (metis snd_conv)
  have "passes time (run_recovery xc cs)" for cs
    unfolding run_recovery_def Let_def
    by (rule passes_bind, use assms in \<open>simp add: executor_clock_def\<close>, rule passes_bind [OF passes_getS passes_basic(1)])
  then show "passes time (attempt_recovery xc cs)"
    unfolding attempt_recovery_def Let_def by (intro passes_bind passes_getS passes_if passes_basic passes_catch)
  have "passes time (trafficS xc)"
    using assms unfolding trafficS_def executor_clock_def by (intro passes_on_world) (auto split: prod.split, metis snd_conv)
  then show "passes time (convergence_errors xc)"
    unfolding convergence_errors_def
    by (intro passes_bind passes_option passes_basic passes_on_world) (use assms in \<open>auto simp: executor_clock_def\<close>)
  show "passes time (wait_after_recovery xc cs)" if "0 \<le> xc_post_recovery_wait_seconds xc"
    unfolding wait_after_recovery_def using that by (intro passes_bind passes_if passes_basic sleep)
qed

lemma gave_up_returns: "triple P (gave_up xc started cs) (\<lambda>r _. r \<noteq> None) (\<lambda>_ _. True)"
  unfolding gave_up_def by (rule triple_drop, rule triple_drop, rule triple_return) simp

lemma finish_cleanup_returns: "triple P (finish_cleanup xc baseline started cs) (\<lambda>r _. r \<noteq> None) (\<lambda>_ _. True)"
proof -
  have "triple P (cleaned xc started cs v) (\<lambda>r _. r \<noteq> None) (\<lambda>_ _. True)"
    "triple P (baseline_failed xc started cs es) (\<lambda>r _. r \<noteq> None) (\<lambda>_ _. True)" for P v es
    unfolding cleaned_def baseline_failed_def by (rule triple_drop, rule triple_return, simp)+
  then show ?thesis
    unfolding finish_cleanup_def Let_def by (intro triple_case_option triple_if triple_drop)
qed

lemma monotonic_reads:
  assumes "executor_clock xc time"
  shows "triple (\<lambda>s. P (time (si_world s))) (monotonicS xc) (\<lambda>t s. P t \<and> t \<le> time (si_world s)) (\<lambda>_ _. True)"
proof (rule tripleI)
  fix s t s'
  assume p: "P (time (si_world s))" and r: "monotonicS xc s = (Inr t, s')"
  have "fst (lb_clock (ij_lab (xc_injector xc)) w) = time w" "time w \<le> time (snd (lb_clock (ij_lab (xc_injector xc)) w))" for w
    using assms by (simp_all add: executor_clock_def)
  from this [of "si_world s"] r p show "P t \<and> t \<le> time (si_world s')"
    by (auto simp: monotonicS_def clockS_def split: prod.splits)
qed simp

text \<open>A round that does not end the loop pauses until the deadline or for a whole interval.\<close>

lemma pause_passes:
  assumes "executor_clock xc time" "now < deadline" "deadline \<le> now + 5 * of_nat n"
  shows "triple (\<lambda>s. now \<le> time (si_world s)) (executor_sleep xc (min health_poll_interval_seconds (deadline - now)))
    (\<lambda>_ s. 0 < n \<and> deadline \<le> time (si_world s) + 5 * of_nat (n - 1)) (\<lambda>_ _. True)"
proof (rule tripleI)
  fix s x s'
  let ?d = "min health_poll_interval_seconds (deadline - now)"
  assume t: "now \<le> time (si_world s)" and r: "executor_sleep xc ?d s = (Inr x, s')"
  have n: "0 < n" using assms(2,3) by (cases n) auto
  have "0 \<le> ?d" using assms(2) by (simp add: health_poll_interval_seconds_def)
  then have "time (si_world s) + ?d \<le> time (si_world s')"
    using r assms(1) by (auto simp: executor_sleep_def on_world_def executor_clock_def)
  moreover have "(of_nat (n - 1) :: rat) = of_nat n - 1" using n by (simp add: of_nat_diff)
  moreover from this have "(0 :: rat) \<le> of_nat n - 1" by (metis of_nat_0_le_iff)
  ultimately show "0 < n \<and> deadline \<le> time (si_world s') + 5 * of_nat (n - 1)"
    using n t assms(3) by (cases "5 \<le> deadline - now") (simp_all add: health_poll_interval_seconds_def min_def)
qed simp

lemma cleanup_loop_ends:
  assumes clock: "executor_clock xc time" and wait: "0 \<le> xc_post_recovery_wait_seconds xc"
  shows "triple (\<lambda>s. deadline \<le> time (si_world s) + 5 * of_nat n) (cleanup_loop (Suc n) xc baseline started deadline cs)
    (\<lambda>r _. r \<noteq> None) (\<lambda>_ _. True)"
proof (induction n arbitrary: cs rule: less_induct)
  case (less n)
  let ?P = "\<lambda>s. deadline \<le> time (si_world s) + 5 * of_nat n"
  have kept: "triple ?P m (\<lambda>_. ?P) (\<lambda>_ _. True)" if "passes time m" for m
    by (rule triple_weaken [OF passes_triple [OF that, where b = "deadline - 5 * of_nat n"]]) simp_all
  note p = passes_executor [OF clock]
  have again: "triple ?P (bindS (monotonicS xc) (\<lambda>now.
      if deadline - now \<le> 0 then gave_up xc started cs
      else bindS (executor_sleep xc (min health_poll_interval_seconds (deadline - now))) (\<lambda>_.
             cleanup_loop n xc baseline started deadline cs))) (\<lambda>r _. r \<noteq> None) (\<lambda>_ _. True)" for cs
  proof (rule triple_bind [OF monotonic_reads [OF clock, where P = "\<lambda>t. deadline \<le> t + 5 * of_nat n"]], rule triple_if, rule gave_up_returns)
    fix now
    assume later: "\<not> deadline - now \<le> 0"
    show "triple (\<lambda>s. deadline \<le> now + 5 * of_nat n \<and> now \<le> time (si_world s))
        (bindS (executor_sleep xc (min health_poll_interval_seconds (deadline - now))) (\<lambda>_.
             cleanup_loop n xc baseline started deadline cs)) (\<lambda>r _. r \<noteq> None) (\<lambda>_ _. True)"
    proof (cases "deadline \<le> now + 5 * of_nat n \<and> 0 < n")
      case True
      then obtain m where m: "n = Suc m" by (cases n) auto
      have "triple (\<lambda>s. 0 < n \<and> deadline \<le> time (si_world s) + 5 * of_nat (n - 1))
          (cleanup_loop n xc baseline started deadline cs) (\<lambda>r _. r \<noteq> None) (\<lambda>_ _. True)"
        unfolding m by (rule triple_weaken [OF less.IH]) (simp_all add: m)
      moreover have "now < deadline" using later by simp
      note pause = pause_passes [OF clock this, of n]
      ultimately show ?thesis
        using True by (intro triple_bind [OF triple_weaken [OF pause]]) auto
    next
      case False
      then have "\<not> (deadline \<le> now + 5 * of_nat n)" using later by (cases n) auto
      then show ?thesis by (simp add: triple_def)
    qed
  qed
  have round: "triple ?P
      (bindS (if complete then wait_after_recovery xc cs1 else returnS cs1) (\<lambda>cs2.
       bindS (if complete then convergence_errors xc else returnS []) (\<lambda>problems.
         if complete \<and> problems = [] then finish_cleanup xc baseline started cs2
         else if \<not> complete \<and> cs_terminal cs2 then gave_up xc started cs2
         else (let cs3 = (if complete then (add_errors ''post_recovery: '' problems cs2)\<lparr>cs_convergence_pending := True\<rparr> else cs2)
               in bindS (monotonicS xc) (\<lambda>now.
                  if deadline - now \<le> 0 then gave_up xc started cs3
                  else bindS (executor_sleep xc (min health_poll_interval_seconds (deadline - now))) (\<lambda>_.
                         cleanup_loop n xc baseline started deadline cs3))))))
      (\<lambda>r _. r \<noteq> None) (\<lambda>_ _. True)" for complete cs1
    unfolding Let_def
    by (rule triple_bind [OF kept], intro passes_if p(5) wait passes_basic, rule triple_bind [OF kept], intro passes_if p(4) passes_basic,
        intro triple_if finish_cleanup_returns gave_up_returns again)
  show ?case
    unfolding cleanup_loop.simps
    by (rule triple_bind [OF kept], intro passes_if passes_bind passes_basic p(2), intro triple_if gave_up_returns,
        rule triple_bind [OF kept [OF p(3)]], rule triple_case_prod, rule round)
qed

lemma cleanup_ends:
  assumes "executor_clock xc time" "0 \<le> xc_post_recovery_wait_seconds xc" "xc_health_timeout_seconds xc \<le> 5 * of_nat n"
  shows "triple (\<lambda>_. True) (cleanup_after_scenario (Suc n) xc prior baseline) (\<lambda>r _. r \<noteq> None) (\<lambda>_ _. True)"
proof -
  have start: "triple (\<lambda>_. True) (monotonicS xc) (\<lambda>t s. t \<le> time (si_world s)) (\<lambda>_ _. True)"
    by (rule triple_weaken [OF monotonic_reads [OF assms(1), where P = "\<lambda>_. True"]]) auto
  show ?thesis
    unfolding cleanup_after_scenario_def
    by (rule triple_bind [OF start], rule triple_weaken [OF cleanup_loop_ends [OF assms(1,2)]]) (use assms(3) in auto)
qed


text \<open>
  C22. A cleanup always comes to an end: with a clock that runs, one round for every interval of five
  seconds in the health time-out, and one more, are enough, whatever the recoveries and checks
  answer.
\<close>

theorem cleanup_returns:
  assumes "executor_clock xc time" "0 \<le> xc_post_recovery_wait_seconds xc" "xc_health_timeout_seconds xc \<le> 5 * of_nat n"
  shows "fst (cleanup_after_scenario (Suc n) xc prior baseline s) \<noteq> Inr None"
proof
  assume "fst (cleanup_after_scenario (Suc n) xc prior baseline s) = Inr None"
  then have "cleanup_after_scenario (Suc n) xc prior baseline s = (Inr None, snd (cleanup_after_scenario (Suc n) xc prior baseline s))"
    by (metis prod.collapse)
  from tripleD(1) [OF cleanup_ends [OF assms] TrueI this] show False by simp
qed

section \<open>The seconds of an episode\<close>

lemma capture_window_duration:
  "triple P (on_world (capture_observation_window ob d name)) (\<lambda>win _. wn_name win = name \<and> wn_duration win = max 0 d) (\<lambda>_ _. True)"
  by (auto simp: triple_def on_world_def capture_observation_window_def bindS_def utcS_def sleep_seconds_def returnS_def Let_def
      split: prod.splits sum.splits)

lemma observe_windows_durations:
  "triple P (observe_windows xc (early, pause, steady))
     (\<lambda>wins _. map (\<lambda>win. (wn_name win, wn_duration win)) wins =
        (if early \<noteq> 0 then [(''early'', max 0 early)] else []) @ [(''steady'', max 0 steady)]) (\<lambda>_ _. True)"
proof -
  have early: "triple P (if early \<noteq> 0 then bindS (on_world (capture_observation_window (xc_observer xc) early ''early'')) (\<lambda>win. returnS [win])
      else returnS []) (\<lambda>wins _. map (\<lambda>win. (wn_name win, wn_duration win)) wins = (if early \<noteq> 0 then [(''early'', max 0 early)] else []))
      (\<lambda>_ _. True)"
    by (intro triple_if triple_bind [OF capture_window_duration] triple_return) auto
  have slept: "triple (\<lambda>_. A) (executor_sleep xc t) (\<lambda>_ _. A) (\<lambda>_ _. True)" for A t
    by (auto simp: triple_def split: prod.split sum.split)
  have steady: "triple (\<lambda>_. A) (on_world (capture_observation_window (xc_observer xc) steady ''steady''))
      (\<lambda>win _. A \<and> wn_name win = ''steady'' \<and> wn_duration win = max 0 steady) (\<lambda>_ _. True)" for A
    using capture_window_duration [of "\<lambda>_. A" "xc_observer xc" steady "''steady''"]
    by (auto simp: triple_def split: prod.splits sum.splits)
  show ?thesis
    unfolding observe_windows_def prod.case
    by (rule triple_bind [OF early], rule triple_bind [OF slept], rule triple_bind [OF steady], rule triple_return) auto
qed


end
