(* ===== verification/Impairment_Cleanup.thy ===== *)
theory Impairment_Cleanup
  imports Cleanup_Safety
begin

text \<open>
  The life of an impairment across components: the handler installs it, the tracker records it, the
  executor observes and cleans up, and after a successful cleanup the interface is free of it.
\<close>

section \<open>Calm actions\<close>

text \<open>An action on the world that never installs a discipline.\<close>

definition calm :: "('w \<Rightarrow> bool) \<Rightarrow> ('w \<Rightarrow> 'x \<times> 'w) \<Rightarrow> bool" where
  "calm netem m \<longleftrightarrow> (\<forall>w. netem (snd (m w)) \<longrightarrow> netem w)"

text \<open>Neither waiting, nor reading the clock, the database or the state of the network installs one.\<close>

definition calm_executor :: "('w \<Rightarrow> bool) \<Rightarrow> 'w executor \<Rightarrow> bool" where
  "calm_executor netem xc \<longleftrightarrow>
     (\<forall>d. calm netem (\<lambda>w. ((), ob_sleep (xc_observer xc) d w))) \<and>
     calm netem (ob_utc_now (xc_observer xc)) \<and>
     (\<forall>q. calm netem (db_query (ob_database (xc_observer xc)) q)) \<and>
     (\<forall>d. calm netem (\<lambda>w. ((), db_sleep (ob_database (xc_observer xc)) d w))) \<and>
     calm netem (lb_clock (ij_lab (xc_injector xc))) \<and>
     calm netem (xc_traffic xc) \<and>
     (\<forall>check. xc_worker_health xc = Some check \<longrightarrow> calm netem check)"

lemma calmD: "calm netem m \<Longrightarrow> m w = (r, w') \<Longrightarrow> netem w' \<Longrightarrow> netem w"
  unfolding calm_def by (metis snd_conv)

lemma calmI: "(\<And>w r w'. m w = (r, w') \<Longrightarrow> netem w' \<Longrightarrow> netem w) \<Longrightarrow> calm netem m"
  unfolding calm_def by (metis prod.collapse)

lemma calm_basic: "calm netem (returnS x)" "calm netem (raiseS e)" "calm netem (\<lambda>w. (r, w))"
  by (simp_all add: calm_def returnS_def raiseS_def)

text \<open>One action and then another, in the two forms the sources have.\<close>

lemma calm_then:
  assumes "calm netem m" "\<And>x. calm netem (f x)"
  shows "calm netem (\<lambda>w. case m w of (x, w') \<Rightarrow> f x w')"
proof (rule calmI)
  fix w r w''
  assume r: "(case m w of (x, w') \<Rightarrow> f x w') = (r, w'')" and n: "netem w''"
  obtain x w' where m: "m w = (x, w')" by fastforce
  with r have "f x w' = (r, w'')" by simp
  with n have "netem w'" using calmD [OF assms(2)] by blast
  with m show "netem w" using calmD [OF assms(1)] by blast
qed

lemma calm_bind: "calm netem m \<Longrightarrow> (\<And>x. calm netem (f x)) \<Longrightarrow> calm netem (bindS m f)"
proof -
  assume m: "calm netem m" and f: "\<And>x. calm netem (f x)"
  have "calm netem (case r of Inl e \<Rightarrow> (\<lambda>w. (Inl e, w)) | Inr x \<Rightarrow> f x)" for r
    by (cases r) (simp_all add: f calm_basic)
  note calm_then [OF m this]
  moreover have "bindS m f = (\<lambda>w. case m w of (r, w') \<Rightarrow> (case r of Inl e \<Rightarrow> (\<lambda>w. (Inl e, w)) | Inr x \<Rightarrow> f x) w')"
    by (rule ext) (simp add: bindS_def split: prod.split sum.split)
  ultimately show ?thesis by simp
qed

lemma calm_if: "calm netem m \<Longrightarrow> calm netem n \<Longrightarrow> calm netem (if b then m else n)"
  by simp

lemma calm_pause:
  assumes "calm netem (\<lambda>w. ((), p w))" "calm netem m"
  shows "calm netem (\<lambda>w. m (p w))"
  using calm_then [OF assms(1), of "\<lambda>_. m"] assms(2) by simp

lemma calm_query_snapshot:
  assumes "\<And>q. calm netem (db_query db q)"
  shows "calm netem (query_snapshot db det start_time end_time)"
proof -
  have shard: "calm netem (query_snapshot_shard db s e ns)" for s e ns
    unfolding query_snapshot_shard_def by (intro calm_then assms calm_basic)
  have shards: "calm netem (query_shards db s e shards)" for s e shards
  proof (induction shards)
    case (Cons ns shards)
    have "query_shards db s e (ns # shards) = (\<lambda>w. case query_snapshot_shard db s e ns w of
        (r, w') \<Rightarrow> (case query_shards db s e shards w' of (rs, w'') \<Rightarrow> (r # rs, w'')))"
      by (rule ext) simp
    then show ?case by (simp only:) (intro calm_then shard Cons calm_basic)
  qed (simp add: calm_def)
  show ?thesis unfolding query_snapshot_def by (intro calm_then shards calm_basic)
qed

lemma calm_retry:
  assumes "\<And>q. calm netem (db_query db q)" "\<And>d. calm netem (\<lambda>w. ((), db_sleep db d w))"
  shows "calm netem (retry_snapshot n db det s e expected actual r cov)"
proof (induction n arbitrary: r cov)
  case (Suc n)
  let ?next = "\<lambda>r'. if \<not> sn_ok r' then (\<lambda>w. ((r', failed_coverage r'), w))
      else retry_snapshot n db det s e expected actual r' (summarize_coverage (dt_clients det) (dt_policy det) (sn_rows r'))"
  have "calm netem (\<lambda>w. case query_snapshot db det s e (db_sleep db d w) of (r', w') \<Rightarrow> ?next r' w')" for d
    by (rule calm_then [OF calm_pause [OF assms(2) calm_query_snapshot [OF assms(1)]]], intro calm_if calm_basic Suc)
  moreover have "retry_snapshot (Suc n) db det s e expected actual r cov =
      (if actual < expected \<or> cv_coverage_status cov = ''complete'' then (\<lambda>w. ((r, cov), w))
       else (\<lambda>w. case query_snapshot db det s e (db_sleep db (of_int (max 1 (policy_interval det))) w) of (r', w') \<Rightarrow> ?next r' w'))"
    by (rule ext) (simp split: prod.split)
  ultimately show ?case by (simp only:) (intro calm_if calm_basic)
next
  case 0
  show ?case by (simp add: calm_def)
qed

lemma calm_covered:
  assumes "\<And>q. calm netem (db_query db q)" "\<And>d. calm netem (\<lambda>w. ((), db_sleep db d w))"
  shows "calm netem (query_covered_snapshot db det s e)"
proof -
  let ?age = "bindE (iso_seconds e) (\<lambda>stop. bindE (iso_seconds s) (\<lambda>start. Inr (max 0 (stop - start))))"
  let ?next = "\<lambda>r. if \<not> sn_ok r then (\<lambda>w. (Inr (r, failed_coverage r), w))
      else (case ?age of Inl err \<Rightarrow> (\<lambda>w. (Inl err, w))
        | Inr actual \<Rightarrow> (\<lambda>w. case retry_snapshot 2 db det s e
            (expected_seconds det (summarize_coverage (dt_clients det) (dt_policy det) (sn_rows r))) actual r
            (summarize_coverage (dt_clients det) (dt_policy det) (sn_rows r)) w of (x, w'') \<Rightarrow> (Inr x, w'')))"
  have "calm netem (?next r)" for r
    by (cases ?age) (simp_all only: sum.case, (intro calm_if calm_basic calm_then calm_retry assms)+)
  moreover have "query_covered_snapshot db det s e = (\<lambda>w. case query_snapshot db det s e w of (r, w') \<Rightarrow> ?next r w')"
    by (rule ext) (simp add: query_covered_snapshot_def Let_def split: prod.split sum.split)
  ultimately show ?thesis by (simp only:) (intro calm_then calm_query_snapshot assms)
qed

lemma calm_report:
  assumes "\<And>q. calm netem (db_query db q)" "\<And>d. calm netem (\<lambda>w. ((), db_sleep db d w))"
  shows "calm netem (generate_windowed_anomaly_report db det b c ws internal)"
  unfolding generate_windowed_anomaly_report_def Let_def
  by (intro calm_bind calm_covered assms calm_basic)

lemma calm_executorD:
  assumes "calm_executor netem xc"
  shows "\<And>d. calm netem (\<lambda>w. ((), ob_sleep (xc_observer xc) d w))" "calm netem (ob_utc_now (xc_observer xc))"
    "\<And>q. calm netem (db_query (ob_database (xc_observer xc)) q)"
    "\<And>d. calm netem (\<lambda>w. ((), db_sleep (ob_database (xc_observer xc)) d w))"
    "calm netem (lb_clock (ij_lab (xc_injector xc)))" "calm netem (xc_traffic xc)"
    "\<And>check. xc_worker_health xc = Some check \<Longrightarrow> calm netem check"
  using assms by (simp_all add: calm_executor_def)

lemma calm_observer:
  assumes "calm_executor netem xc"
  shows "calm netem (capture_observation_window (xc_observer xc) d name)"
    "calm netem (analyze_observation_windows (xc_observer xc) ws seconds b)"
    "calm netem (wait_and_observe (xc_observer xc) d b)"
proof -
  note calm = calm_executorD [OF assms]
  have utc: "calm netem (utcS (xc_observer xc))"
    unfolding utcS_def by (intro calm_then calm(2) calm_basic)
  have "netem ((ob_sleep (xc_observer xc) 1 ^^ n) w) \<Longrightarrow> netem w" for n w
    using calm(1) by (induction n) (auto simp: calm_def)
  then have sleep: "calm netem (sleep_seconds (xc_observer xc) s)" for s
    by (simp add: calm_def sleep_seconds_def)
  show win: "calm netem (capture_observation_window (xc_observer xc) d name)" for d name
    unfolding capture_observation_window_def Let_def by (intro calm_bind utc sleep calm_basic)
  show ana: "calm netem (analyze_observation_windows (xc_observer xc) ws seconds b)" for ws seconds
    unfolding analyze_observation_windows_def Let_def
    by (intro calm_if calm_bind utc calm_basic calm_report calm(3,4))
  show "calm netem (wait_and_observe (xc_observer xc) d b)"
    unfolding wait_and_observe_def by (intro calm_bind win ana)
qed

section \<open>What is active and what is installed\<close>

definition all_tc :: "string \<Rightarrow> string \<Rightarrow> active_fault list \<Rightarrow> bool" where
  "all_tc device linux_if fs \<longleftrightarrow> (\<forall>f \<in> set fs. is_tc_fault device linux_if f = Inr True)"

text \<open>Only impairments of the interface are active, and one that is installed is.\<close>

definition impaired_ok :: "('w \<Rightarrow> bool) \<Rightarrow> string \<Rightarrow> string \<Rightarrow> 'w site \<Rightarrow> bool" where
  "impaired_ok netem device linux_if s \<longleftrightarrow>
     all_tc device linux_if (active s) \<and> (netem (si_world s) \<longrightarrow> active s \<noteq> [])"

abbreviation keeps_ok :: "('w \<Rightarrow> bool) \<Rightarrow> string \<Rightarrow> string \<Rightarrow> ('w site, 'a) action \<Rightarrow> bool" where
  "keeps_ok netem device linux_if m \<equiv>
     triple (impaired_ok netem device linux_if) m (\<lambda>_. impaired_ok netem device linux_if) (\<lambda>_. impaired_ok netem device linux_if)"

named_theorems ok_intros \<open>actions that keep an impairment on record\<close>

lemma ok_basic [ok_intros]:
  "keeps_ok netem d i (returnS x)" "keeps_ok netem d i (raiseS e)" "keeps_ok netem d i (getS f)" "keeps_ok netem d i (liftS r)"
  by (auto simp: triple_def returnS_def raiseS_def getS_def liftS_def split: sum.split)

lemma ok_bind [ok_intros]: "keeps_ok netem d i m \<Longrightarrow> (\<And>x. keeps_ok netem d i (f x)) \<Longrightarrow> keeps_ok netem d i (bindS m f)"
  by (rule triple_bind)

lemma ok_catch [ok_intros]: "keeps_ok netem d i m \<Longrightarrow> (\<And>e. keeps_ok netem d i (h e)) \<Longrightarrow> keeps_ok netem d i (catchS m h)"
  by (rule triple_catch)

lemma ok_split [ok_intros]:
  "keeps_ok netem d i m \<Longrightarrow> keeps_ok netem d i n \<Longrightarrow> keeps_ok netem d i (if b then m else n)"
  "keeps_ok netem d i m \<Longrightarrow> (\<And>y. x = Some y \<Longrightarrow> keeps_ok netem d i (f y)) \<Longrightarrow> keeps_ok netem d i (case x of None \<Rightarrow> m | Some y \<Rightarrow> f y)"
  "keeps_ok netem d i (g (fst p) (snd p)) \<Longrightarrow> keeps_ok netem d i (case p of (a, b) \<Rightarrow> g a b)"
  by (auto split: option.split prod.split)

lemma ok_on_world: "calm netem m \<Longrightarrow> keeps_ok netem d i (on_world m)"
  by (auto simp: triple_def on_world_def impaired_ok_def active_def dest: calmD split: prod.split sum.split)

lemma ok_executor:
  assumes "calm_executor netem xc"
  shows "keeps_ok netem d i (executor_sleep xc t)" "keeps_ok netem d i (monotonicS xc)" "keeps_ok netem d i (trafficS xc)"
    "keeps_ok netem d i (convergence_errors xc)" "keeps_ok netem d i (elapsed xc t)" "keeps_ok netem d i (wait_after_recovery xc cs)"
proof -
  note calm = calm_executorD [OF assms]
  show sleep: "keeps_ok netem d i (executor_sleep xc t)" for t
    unfolding executor_sleep_def using calm(1) by (intro ok_on_world) (simp add: calm_def)
  have "monotonicS xc = on_world (\<lambda>w. case lb_clock (ij_lab (xc_injector xc)) w of (t, w') \<Rightarrow> (Inr t, w'))"
    by (rule ext) (simp add: monotonicS_def clockS_def on_world_def split: prod.split)
  then show mono: "keeps_ok netem d i (monotonicS xc)"
    by (simp only:) (intro ok_on_world calm_then calm(5) calm_basic)
  show traffic: "keeps_ok netem d i (trafficS xc)"
    unfolding trafficS_def by (intro ok_on_world calm_then calm(6) calm_basic)
  show "keeps_ok netem d i (convergence_errors xc)"
    unfolding convergence_errors_def by (intro ok_intros traffic ok_on_world) (rule calm(7))
  show "keeps_ok netem d i (elapsed xc t)" unfolding elapsed_def by (intro ok_intros mono)
  show "keeps_ok netem d i (wait_after_recovery xc cs)" unfolding wait_after_recovery_def by (intro ok_intros sleep)
qed

section \<open>Recovery\<close>

lemma recover_tc_rules_clears:
  assumes "container_names cx device = Some c" "qdisc_readback lab netem c (to_linux_interface (Some interface))"
  shows "triple (\<lambda>_. True) (recover_tc_rules lab cx device interface)
           (\<lambda>info s. info_true info ''recovered'' \<longrightarrow> \<not> netem (si_world s)) (\<lambda>_ _. True)"
proof -
  have del: "triple (\<lambda>_. True) (delete_qdisc lab c (to_linux_interface (Some interface)))
      (\<lambda>x s. snd x \<longrightarrow> \<not> netem (si_world s)) (\<lambda>_ _. True)"
    by (rule tripleI) (auto dest: delete_qdisc_reads(3) [OF assms(2)])
  have rem: "triple (\<lambda>s. b \<longrightarrow> \<not> netem (si_world s)) (if b then remove_faults p else returnS ())
      (\<lambda>_ s. b \<longrightarrow> \<not> netem (si_world s)) (\<lambda>_ _. True)" for b p
    by (auto simp: triple_def remove_faults_def returnS_def split: sum.split)
  show ?thesis
    unfolding recover_tc_rules_def Let_def
    by (rule triple_known [OF assms(1)], rule triple_bind [OF del], rule triple_case_prod, rule triple_bind [OF rem],
        rule triple_return) simp
qed

lemma tc_fault_fields:
  assumes "is_tc_fault d i f = Inr True"
  shows "fault_item f ''device'' = Inr (JStr d)" "fault_get f ''interface'' = JStr i"
    "\<exists>t \<in> set tc_fault_types. fault_item f ''type'' = Inr (JStr t)"
  using assms by (auto simp: is_tc_fault_def bindE_def split: sum.splits if_splits)

definition tc_injections :: "('w injector \<Rightarrow> episode \<Rightarrow> 'w injection) set" where
  "tc_injections = {inject_packet_loss_episode, inject_packet_corruption_episode, inject_high_latency_episode}"

lemma tc_calls:
  assumes "t \<in> set tc_fault_types"
  shows "\<exists>inject \<in> tc_injections. calls_for create_fault_registry builtin_calls t = Some (both_calls inject recover_tc_fault)"
    "type_name (JStr t) = t"
proof -
  have "list_all (\<lambda>t. map_option fs_name (snd (get_spec create_fault_registry t)) = Some t \<and> type_name (JStr t) = t) tc_fault_types"
    by code_simp
  then obtain spec where "snd (get_spec create_fault_registry t) = Some spec" "fs_name spec = t" "type_name (JStr t) = t"
    using assms by (auto simp: list_all_iff)
  then show "\<exists>inject \<in> tc_injections. calls_for create_fault_registry builtin_calls t = Some (both_calls inject recover_tc_fault)"
    "type_name (JStr t) = t"
    using assms by (auto simp: calls_for_def builtin_calls_def tc_fault_types_def tc_injections_def)
qed

lemma recover_one_clears:
  assumes "container_names (ij_context ij) d = Some c" "qdisc_readback (ij_lab ij) netem c i"
    "to_linux_interface (Some i) = i" "is_tc_fault d i f = Inr True"
  shows "triple (\<lambda>_. True) (recover_one create_fault_registry builtin_calls ij f)
           (\<lambda>info s. info_true info ''recovered'' \<longrightarrow> \<not> netem (si_world s)) (\<lambda>_ _. True)"
proof -
  note fields = tc_fault_fields [OF assms(4)]
  obtain t inject where t: "fault_item f ''type'' = Inr (JStr t)"
    "calls_for create_fault_registry builtin_calls t = Some (both_calls inject recover_tc_fault :: 'a fault_calls)"
    "type_name (JStr t) = t"
    using fields(3) tc_calls by blast
  have "dict_get_default (fault_to_dict f) ''interface'' v = JStr i" for v
    using fields(2) by (auto simp: fault_get_def dict_get_default_def split: option.splits)
  then have "recover_tc_fault ij f = recover_tc_rules (ij_lab ij) (ij_context ij) d i"
    by (rule_tac ext) (simp add: recover_tc_fault_def item_text_def get_text_or_def fields(1) bindE_def bindS_def liftS_def)
  then have run: "(bindS (liftS (fault_item f ''type'')) (\<lambda>t.
          case Option.bind (calls_for create_fault_registry builtin_calls (type_name t)) fc_recover_active_fault of
            None \<Rightarrow> returnS (recovery_failure f ''Unknown fault type'')
          | Some recover \<Rightarrow> recover ij f)) = recover_tc_rules (ij_lab ij) (ij_context ij) d i"
    by (rule_tac ext) (simp add: t bindS_def liftS_def both_calls_def)
  have "triple (\<lambda>_. True) (recover_tc_rules (ij_lab ij) (ij_context ij) d i)
      (\<lambda>info s. info_true info ''recovered'' \<longrightarrow> \<not> netem (si_world s)) (\<lambda>_ _. True)"
    by (rule recover_tc_rules_clears [OF assms(1)]) (simp add: assms(2,3))
  then show ?thesis
    unfolding recover_one_def run
    by (rule triple_catch) (rule triple_return, simp add: recovery_failure_def info_true_def truthy_def)
qed

lemma recover_each_clears:
  assumes "container_names (ij_context ij) d = Some c" "qdisc_readback (ij_lab ij) netem c i" "to_linux_interface (Some i) = i"
  shows "fs \<noteq> [] \<Longrightarrow> all_tc d i fs \<Longrightarrow> triple (\<lambda>_. True) (recover_each create_fault_registry builtin_calls ij fs)
    (\<lambda>outcomes s. netem (si_world s) \<longrightarrow> (\<exists>(info, f) \<in> set outcomes. \<not> info_true info ''recovered'')) (\<lambda>_ _. True)"
proof (induction fs)
  case (Cons f fs)
  then have f: "is_tc_fault d i f = Inr True" by (simp add: all_tc_def)
  show ?case
  proof (cases "fs = []")
    case True
    show ?thesis
      unfolding True recover_each.simps bindS_return
      by (rule triple_bind [OF recover_one_clears [OF assms f]], rule triple_return) auto
  next
    case False
    have "all_tc d i fs" using Cons.prems(2) by (simp add: all_tc_def)
    note rest = Cons.IH [OF False this]
    show ?thesis
      unfolding recover_each.simps by (rule triple_drop, rule triple_bind [OF rest], rule triple_return) auto
  qed
qed simp

lemma ok_recover_fault:
  assumes "xc_registry xc = create_fault_registry" "xc_table xc = builtin_calls"
    "container_names (ij_context (xc_injector xc)) d = Some c" "qdisc_readback (ij_lab (xc_injector xc)) netem c i"
    "to_linux_interface (Some i) = i"
  shows "keeps_ok netem d i (recover_fault xc)"
proof -
  have "\<exists>r s'. recover_fault xc s = (Inr r, s') \<and> impaired_ok netem d i s'" if ok: "impaired_ok netem d i s" for s
  proof -
    let ?each = "recover_each create_fault_registry builtin_calls (xc_injector xc) (active s)"
    obtain outcomes s1 where o0: "?each s = (Inr outcomes, s1)" "map snd outcomes = active s"
      using recover_each_returns by blast
    let ?kept = "map snd (filter (\<lambda>(info, f). \<not> info_true info ''recovered'') outcomes)"
    have "netem (si_world s1) \<longrightarrow> ?kept \<noteq> []"
    proof (cases "active s = []")
      case True
      then show ?thesis using ok o0(1) by (auto simp: impaired_ok_def returnS_def)
    next
      case False
      have "all_tc d i (active s)" using ok by (simp add: impaired_ok_def)
      from tripleD(1) [OF recover_each_clears [OF assms(3-5) False this] TrueI o0(1)]
      show ?thesis by (auto simp: filter_empty_conv)
    qed
    moreover have "set ?kept \<subseteq> set (active s)" unfolding o0(2) [symmetric] by auto
    then have "all_tc d i ?kept" using ok by (auto simp: impaired_ok_def all_tc_def)
    moreover have "recover_fault xc s = (Inr (map fst outcomes),
        s1\<lparr>si_tracker := (si_tracker s1)\<lparr>tk_active := ?kept\<rparr>\<rparr>)"
      using o0(1) by (simp add: recover_fault_def recover_all_def assms(1,2) bindS_def getS_def active_def set_tracker_def returnS_def)
    ultimately show ?thesis by (simp add: impaired_ok_def active_def)
  qed
  then show ?thesis by (force simp: triple_def)
qed

section \<open>Cleanup\<close>

lemma ok_cleanup:
  assumes calm: "calm_executor netem xc" and recover: "keeps_ok netem d i (recover_fault xc)"
  shows "keeps_ok netem d i (cleanup_after_scenario fuel xc prior baseline)"
proof -
  note quiet = ok_executor [OF calm]
  have gave: "keeps_ok netem d i (gave_up xc started cs)" for started cs
    unfolding gave_up_def by (intro ok_intros quiet)
  have attempt: "keeps_ok netem d i (attempt_recovery xc cs)" for cs
    unfolding attempt_recovery_def run_recovery_def Let_def by (intro ok_intros recover)
  have finish: "keeps_ok netem d i (finish_cleanup xc baseline started cs)" for started cs
    unfolding finish_cleanup_def cleaned_def baseline_failed_def Let_def
    by (intro ok_intros quiet ok_on_world calm_observer [OF calm])
  have "keeps_ok netem d i (cleanup_loop n xc baseline started deadline cs)" for n started deadline cs
  proof (induction n arbitrary: cs)
    case 0
    show ?case unfolding cleanup_loop.simps by (intro ok_intros)
  next
    case (Suc n)
    show ?case unfolding cleanup_loop.simps Let_def
      by (intro ok_intros quiet gave attempt finish Suc)
  qed
  then show ?thesis unfolding cleanup_after_scenario_def by (intro ok_intros quiet)
qed

section \<open>Injection\<close>

abbreviation no_runtime_error :: "exc \<Rightarrow> 's \<Rightarrow> bool" where
  "no_runtime_error e s \<equiv> \<forall>m. e \<noteq> RuntimeError m"

lemma number_errors:
  "parse_float t = Inl e \<Longrightarrow> e \<noteq> RuntimeError m" "json_float v = Inl e \<Longrightarrow> e \<noteq> RuntimeError m"
proof -
  have d: "parse_decimal t = Inl e \<Longrightarrow> e \<noteq> RuntimeError m" for t e
    by (auto simp: parse_decimal_def Let_def split: if_splits)
  show f: "parse_float t = Inl e \<Longrightarrow> e \<noteq> RuntimeError m" for t e
    using d by (auto simp: parse_float_def bindE_def split: list.splits if_splits sum.splits)
  show "json_float v = Inl e \<Longrightarrow> e \<noteq> RuntimeError m"
    using f by (auto simp: json_float_def split: json.splits)
qed

lemma exec_active: "triple (\<lambda>s. P (active s)) (exec lab c args) (\<lambda>_ s. P (active s)) (\<lambda>_ _. False)"
  by (auto simp: triple_def active_def dest!: exec_result split: prod.splits sum.splits)

lemma qdisc_matches_active:
  "triple (\<lambda>s. P (active s)) (qdisc_matches lab c i imp v u) (\<lambda>_ s. P (active s)) no_runtime_error"
proof -
  have read: "triple (\<lambda>s. P (active s)) (exec lab c (show_qdisc i)) (\<lambda>_ s. P (active s)) no_runtime_error"
    by (rule triple_weaken [OF exec_active]) auto
  have "triple (\<lambda>s. P (active s)) (liftS r) (\<lambda>_ s. P (active s)) no_runtime_error"
    if "\<And>e m. r = Inl e \<Longrightarrow> e \<noteq> RuntimeError m" for r :: "bool result"
    using that by (auto simp: triple_def liftS_def split: sum.split)
  note lift = this
  show ?thesis
    unfolding qdisc_matches_def Let_def
    by (rule triple_bind [OF read], intro triple_case_option triple_if triple_return lift)
      (auto simp: bindE_def dest: number_errors split: sum.splits)
qed

lemma track_all_tc:
  assumes "\<And>f. fault_from_dict info = Inr f \<Longrightarrow> is_tc_fault d i f = Inr True"
  shows "triple (\<lambda>s. all_tc d i (active s)) (bindS (track info) (\<lambda>_. returnS x)) (\<lambda>_ s. all_tc d i (active s)) no_runtime_error"
  using assms by (auto simp: triple_def track_def bindS_def liftS_def set_tracker_def returnS_def active_def all_tc_def
      fault_from_dict_def split: sum.splits option.splits)

lemma delete_qdisc_active:
  "triple (\<lambda>s. P (active s)) (delete_qdisc lab c i) (\<lambda>_ s. P (active s)) (\<lambda>_ _. False)"
  unfolding delete_qdisc_def has_netem_qdisc_def
  by (rule triple_bind [OF exec_active], intro triple_if triple_return, rule triple_bind, rule triple_bind [OF exec_active],
      (rule triple_return, assumption)+)

lemma finish_netem_all_tc:
  assumes "dict_get info ''type'' = Some (JStr kind)" "kind \<in> set tc_fault_types"
    "dict_get info ''device'' = Some (JStr d)" "dict_get info ''interface'' = Some (JStr i)"
  shows "triple (\<lambda>s. all_tc d i (active s)) (finish_netem_injection lab c i info) (\<lambda>_ s. all_tc d i (active s)) no_runtime_error"
proof -
  have residual: "is_tc_fault d i f = Inr True"
    if "fault_from_dict (residual_payload (dict_set info ''error'' v) m) = Inr f" for f v m
    by (rule tc_fault_tracked [OF that _ assms(2)]) (simp_all add: assms residual_payload_def dict_update_def)
  have "triple (\<lambda>s. all_tc d i (active s)) (delete_qdisc lab c i) (\<lambda>_ s. all_tc d i (active s)) no_runtime_error"
    by (rule triple_weaken [OF delete_qdisc_active]) auto
  then show ?thesis
    unfolding finish_netem_injection_def track_residual_def Let_def
    by (intro triple_if track_all_tc triple_bind [where R = "\<lambda>_ s. all_tc d i (active s)"] triple_case_prod triple_return)
      (auto intro: tc_fault_tracked [OF _ assms] dest: residual)
qed

lemma inject_netem_ok:
  assumes "container_names cx device = Some c" "kind \<in> set tc_fault_types"
    "key \<notin> {''type'', ''device'', ''interface'', ''success'', ''error''}"
    "qdisc_readback lab netem c (to_linux_interface (Some interface))"
  shows "triple (\<lambda>s. active s = []) (inject_netem lab cx kind key imp u missing device interface v)
           (\<lambda>_. impaired_ok netem device (to_linux_interface (Some interface))) no_runtime_error"
proof -
  let ?i = "to_linux_interface (Some interface)"
  have e: "triple (\<lambda>s. all_tc device ?i (active s)) (exec lab c args) (\<lambda>_ s. all_tc device ?i (active s)) no_runtime_error" for args
    by (rule triple_weaken [OF exec_active]) auto
  have "triple (\<lambda>s. all_tc device ?i (active s)) (inject_netem lab cx kind key imp u missing device interface v)
      (\<lambda>_ s. all_tc device ?i (active s)) no_runtime_error"
    unfolding inject_netem_def Let_def
    by (rule triple_known [OF assms(1)], rule triple_bind [OF e],
        rule triple_bind [where R = "\<lambda>_ s. all_tc device ?i (active s)"], intro triple_if qdisc_matches_active triple_return, assumption,
        rule finish_netem_all_tc [OF _ assms(2)]) (use assms(3) in simp_all)
  then have "triple (\<lambda>s. active s = []) (inject_netem lab cx kind key imp u missing device interface v)
      (\<lambda>_ s. all_tc device ?i (active s)) no_runtime_error"
    by (rule triple_weaken) (auto simp: all_tc_def)
  from triple_conj [OF this inject_netem_recorded [OF assms]] show ?thesis
    by (rule triple_weaken) (auto simp: impaired_ok_def netem_recorded_def)
qed

lemma inject_fault_ok:
  assumes "ep_fault_type e \<in> set tc_fault_types" "container_names (ij_context ij) (device_of e) = Some c"
    "qdisc_readback (ij_lab ij) netem c i" "i = to_linux_interface (Some (Fault_Injector.or_text (ep_target_interface e) ''eth1''))"
  shows "triple (\<lambda>s. active s = []) (inject_fault create_fault_registry builtin_calls ij e)
    (\<lambda>_. impaired_ok netem (device_of e) i) (\<lambda>_ _. True)"
proof -
  obtain inject where inj: "inject \<in> tc_injections"
    "calls_for create_fault_registry builtin_calls (ep_fault_type e) = Some (both_calls inject recover_tc_fault :: 'a fault_calls)"
    using tc_calls(1) [OF assms(1)] by blast
  have kinds: "''packet_loss'' \<in> set tc_fault_types" "''packet_corruption'' \<in> set tc_fault_types"
    "''high_latency'' \<in> set tc_fault_types" by (simp_all add: tc_fault_types_def)
  have some: "triple P (done_info m) (\<lambda>_. Q) E" if "triple P m (\<lambda>_. Q) E" for P :: "'a site \<Rightarrow> bool" and m :: "('a site, fault_info) action" and Q E
    unfolding done_info_def by (rule triple_bind [OF that], rule triple_return) simp
  have run: "triple (\<lambda>s. active s = []) (inject ij e) (\<lambda>_. impaired_ok netem (device_of e) i) no_runtime_error"
    using inj(1) unfolding tc_injections_def assms(4)
    by (elim insertE emptyE; simp only: inject_packet_loss_episode_def inject_packet_corruption_episode_def inject_high_latency_episode_def
        inject_packet_loss_def inject_packet_corruption_def inject_high_latency_def)
      (rule some, rule inject_netem_ok [OF assms(2) _ _ assms(3) [unfolded assms(4)]], simp_all add: kinds)+
  have failed: "triple (no_runtime_error e0) (failed_injection t e0) (\<lambda>_. impaired_ok netem (device_of e) i) (\<lambda>_ _. True)" for t e0
    by (cases e0) (simp_all add: failed_injection_def triple_def raiseS_def)
  have "triple (\<lambda>s. active s = []) (catchS (inject ij e) (failed_injection (ep_fault_type e)))
      (\<lambda>_. impaired_ok netem (device_of e) i) (\<lambda>_ _. True)"
    by (rule triple_catch [OF run failed])
  moreover have "ep_fault_type e \<noteq> ''none''" using assms(1) by (auto simp: tc_fault_types_def)
  ultimately show ?thesis by (simp add: inject_fault_def inj(2) both_calls_def)
qed

lemma ok_observe_rest:
  assumes "calm_executor netem xc"
  shows "keeps_ok netem d i (observe_windows xc budget)"
    "keeps_ok netem d i (on_world (analyze_observation_windows (xc_observer xc) ws seconds b))"
proof -
  show "keeps_ok netem d i (observe_windows xc budget)"
    unfolding observe_windows_def by (intro ok_intros ok_executor [OF assms] ok_on_world calm_observer [OF assms])
  show "keeps_ok netem d i (on_world (analyze_observation_windows (xc_observer xc) ws seconds b))"
    by (intro ok_on_world calm_observer [OF assms])
qed

lemma observe_episode_ok:
  assumes "calm_executor netem xc" "executor_inject_fault xc e s = (Inr injection, s0)" "ep_fault_type e \<noteq> ''none''"
    "impaired_ok netem d i s0" "observe_episode xc e baseline s = (r, s1)"
  shows "impaired_ok netem d i s1"
proof -
  let ?rest = "\<lambda>injection. case injection of
            None \<Rightarrow> returnS None
          | Some info \<Rightarrow>
              if \<not> info_true info ''success'' then
                raiseS (RuntimeError (''Fault injection failed: '' @ json_repr (JObj info)))
              else
                bindS (liftS (time_budget e)) (\<lambda>budget.
                bindS (observe_windows xc budget) (\<lambda>windows.
                bindS (on_world (analyze_observation_windows (xc_observer xc) windows (ep_duration_seconds e) baseline)) (\<lambda>o0.
                  returnS (Some (observed_result (Some info) o0)))))"
  have kept: "keeps_ok netem d i (?rest injection)" by (intro ok_intros ok_observe_rest [OF assms(1)])
  have run: "?rest injection s0 = (r, s1)"
    using assms(2,3,5) by (simp add: observe_episode_def is_healthy_def bindS_cases(2))
  show ?thesis
  proof (cases r)
    case (Inl e)
    show ?thesis by (rule tripleD(2) [OF kept assms(4) run [unfolded Inl]])
  next
    case (Inr x)
    show ?thesis by (rule tripleD(1) [OF kept assms(4) run [unfolded Inr]])
  qed
qed

section \<open>After a successful cleanup\<close>

text \<open>
  C2. The life of an impairment: on a laboratory that reports its queueing disciplines truthfully
  and where only \<open>tc\<close> changes them, take any episode with loss, corruption or delay whose
  injection returns.  However its observation ends, a cleanup that reports success has left no
  active fault and no impairment on the interface.
\<close>

theorem impairment_cleaned_up:
  assumes "xc_registry xc = create_fault_registry" "xc_table xc = builtin_calls"
    and "ep_fault_type e \<in> set tc_fault_types"
    and "container_names (ij_context (xc_injector xc)) (device_of e) = Some c"
    and "i = to_linux_interface (Some (Fault_Injector.or_text (ep_target_interface e) ''eth1''))" "to_linux_interface (Some i) = i"
    and "qdisc_readback (ij_lab (xc_injector xc)) netem c i" "calm_executor netem xc"
    and "active s = []" "executor_inject_fault xc e s = (Inr injection, s0)"
    and "observe_episode xc e baseline s = (r, s1)"
    and "cleanup_after_scenario fuel xc prior window0 s1 = (Inr (Some cr), s2)" "cr_success cr"
  shows "active s2 = [] \<and> \<not> netem (si_world s2)"
proof -
  have "impaired_ok netem (device_of e) i s0"
    using tripleD(1) [OF inject_fault_ok [OF assms(3,4,7,5)] assms(9)] assms(10)
    by (simp add: executor_inject_fault_def assms(1,2))
  moreover have "ep_fault_type e \<noteq> ''none''" using assms(3) by (auto simp: tc_fault_types_def)
  ultimately have "impaired_ok netem (device_of e) i s1"
    using observe_episode_ok [OF assms(8,10)] assms(11) by blast
  from tripleD(1) [OF ok_cleanup [OF assms(8) ok_recover_fault [OF assms(1,2,4,7,6)]] this assms(12)]
  have ok: "impaired_ok netem (device_of e) i s2" .
  have "honest False window0 cr s2"
    using tripleD(1) [OF cleanup_honest [where recovered = False] _ assms(12)] by simp
  then have "active s2 = []" using assms(13) by (simp add: honest_def)
  then show ?thesis using ok by (auto simp: impaired_ok_def)
qed

definition pair_observer :: "pair_world observer" where
  "pair_observer =
     \<lparr>ob_manifest = pair_manifest,
      ob_database = \<lparr>db_bucket = ''b'', db_topology_id = None,
        db_query = (\<lambda>q w. (\<lparr>fq_ok = False, fq_text = [], fq_error = Some ''database is down''\<rparr>, w)), db_sleep = (\<lambda>t w. w)\<rparr>,
      ob_detector = \<lparr>dt_clients = [], dt_policy = [], dt_client_to_leaf = [], dt_loss_pct_threshold = 5,
        dt_loss_pct_delta = 5, dt_now = []\<rparr>,
      ob_sleep = (\<lambda>t w. w), ob_utc_now = (\<lambda>w. (''2024-03-01T10:00:00+00:00'', w))\<rparr>"

definition pair_executor :: "pair_world executor" where
  "pair_executor =
     \<lparr>xc_observer = pair_observer, xc_injector = pair_injector, xc_registry = create_fault_registry, xc_table = builtin_calls,
      xc_traffic = (\<lambda>w. (None, w)), xc_worker_health = None, xc_health_timeout_seconds = 60,
      xc_post_recovery_wait_seconds = 2, xc_minimum_baseline_seconds = 10, xc_float_text = (\<lambda>x. [])\<rparr>"

definition pair_baseline :: window where
  "pair_baseline = \<lparr>wn_name = ''baseline'', wn_start = ''2024-03-01T09:00:00Z'', wn_end = ''2024-03-01T09:01:00Z'', wn_duration = 60\<rparr>"

lemma pair_calm: "calm_executor pw_netem pair_executor"
  by (simp add: calm_executor_def calm_def pair_executor_def pair_observer_def pair_injector_def pair_lab_def)

lemma pair_cleanup_run:
  "case observe_episode pair_executor loss_episode pair_baseline pair_start of (r, s1) \<Rightarrow>
     pw_netem (si_world s1) \<and>
     (case cleanup_after_scenario 1 pair_executor None None s1 of (Inr (Some cr), s2) \<Rightarrow> cr_success cr | _ \<Rightarrow> False)"
  by code_simp

text \<open>The episode injects loss, its observation fails on the database, and the cleanup succeeds.\<close>

theorem impairment_cleaned_up_witness:
  "\<exists>r s1 cr s2. observe_episode pair_executor loss_episode pair_baseline pair_start = (r, s1) \<and> pw_netem (si_world s1) \<and>
     cleanup_after_scenario 1 pair_executor None None s1 = (Inr (Some cr), s2) \<and> active s2 = [] \<and> \<not> pw_netem (si_world s2)"
proof -
  obtain r s1 where o0: "observe_episode pair_executor loss_episode pair_baseline pair_start = (r, s1)" by fastforce
  then obtain cr s2 where c: "cleanup_after_scenario 1 pair_executor None None s1 = (Inr (Some cr), s2)" "cr_success cr"
    "pw_netem (si_world s1)"
    using pair_cleanup_run by (auto split: prod.splits sum.splits option.splits)
  obtain info s0 where i: "executor_inject_fault pair_executor loss_episode pair_start = (Inr (Some info), s0)"
    using loss_run by (auto simp: executor_inject_fault_def pair_executor_def split: prod.splits sum.splits option.splits)
  have target: "device_of loss_episode = ''leaf1''" "Fault_Injector.or_text (ep_target_interface loss_episode) ''eth1'' = ''eth1''"
    by code_simp+
  have parts: "xc_registry pair_executor = create_fault_registry" "xc_table pair_executor = builtin_calls"
    "ij_context (xc_injector pair_executor) = pair_context" "ij_lab (xc_injector pair_executor) = pair_lab"
    "ep_fault_type loss_episode \<in> set tc_fault_types"
    by (simp_all add: pair_executor_def pair_injector_def loss_episode_def tc_fault_types_def)
  have "active s2 = [] \<and> \<not> pw_netem (si_world s2)"
    by (rule impairment_cleaned_up [OF parts(1,2,5) _ _ _ _ pair_calm _ i o0 c(1,2), where c = leaf_box and i = "''eth1''"])
      (simp_all add: parts target pair_names pair_texts pair_readback, simp add: pair_start_def active_def)
  with o0 c show ?thesis by blast
qed


section \<open>A cleanup that never succeeds\<close>

text \<open>No recovery is known for the fault, and the clock runs only while the executor waits.\<close>

definition stuck_executor :: "rat executor" where
  "stuck_executor =
     \<lparr>xc_observer = \<lparr>ob_manifest = pair_manifest,
        ob_database = \<lparr>db_bucket = ''b'', db_topology_id = None,
          db_query = (\<lambda>q w. (\<lparr>fq_ok = False, fq_text = [], fq_error = None\<rparr>, w)), db_sleep = (\<lambda>t w. w + t)\<rparr>,
        ob_detector = ob_detector pair_observer, ob_sleep = (\<lambda>t w. w + t), ob_utc_now = (\<lambda>w. (''2024-03-01T10:00:00Z'', w))\<rparr>,
      xc_injector = \<lparr>ij_lab = silent_lab, ij_context = pair_context, ij_fuel = 0, ij_now = 0, ij_now_ns = 0\<rparr>,
      xc_registry = create_fault_registry, xc_table = [], xc_traffic = (\<lambda>w. (Some True, w)), xc_worker_health = None,
      xc_health_timeout_seconds = 60, xc_post_recovery_wait_seconds = 2, xc_minimum_baseline_seconds = 10,
      xc_float_text = (\<lambda>x. [])\<rparr>"

lemma keeps_world_unknown: "keeps si_world (recover_all registry [] ij)"
proof -
  have none: "calls_for registry [] t = (None :: 'a fault_calls option)" for t
    by (simp add: calls_for_def split: option.split)
  have one: "keeps si_world (recover_one registry [] ij f)" for f
    unfolding recover_one_def none Option.bind.bind_lzero option.case by (intro keeps_intros)
  have "keeps si_world (recover_each registry [] ij fs)" for fs
    by (induction fs) (auto intro!: keeps_intros one)
  moreover have "keeps si_world (set_tracker g)" for g :: "tracker \<Rightarrow> tracker" by (simp add: keeps_def set_tracker_def)
  ultimately show ?thesis unfolding recover_all_def by (intro keeps_intros)
qed

lemma stuck_clock: "executor_clock stuck_executor (\<lambda>w. w)"
proof -
  have "si_world (snd (recover_all create_fault_registry [] ij s)) = si_world s" for ij and s :: "rat site"
    by (rule keepsD [OF keeps_world_unknown])
  then show ?thesis by (simp add: executor_clock_def stuck_executor_def silent_lab_def passes_def recover_fault_def)
qed

theorem cleanup_returns_witness:
  "fst (cleanup_after_scenario 13 stuck_executor None None
     \<lparr>si_world = 0, si_tracker = \<lparr>tk_active = [\<lparr>af_type = JStr ''unknown'', af_device = JNull, af_interface = JNull,
        af_success = JBool True, af_error = JNull, af_metadata = []\<rparr>], tk_background = []\<rparr>\<rparr>) \<noteq> Inr None"
  using cleanup_returns [OF stuck_clock, of 12] by (simp add: stuck_executor_def)


end
