(* ===== verification/Scenario_Files.thy ===== *)
theory Scenario_Files
  imports Fault_Types Python_Text Pingmesh_Query Traffic_Estimator
begin

text \<open>
  The validation and the dictionary form of \<open>ScenarioSpec\<close> (\<open>netopsbench/models/scenario.py\<close>) and the
  reader and writer of scenario files in \<open>platform/scenario/parser.py\<close>.  YAML is a parameter.  A
  \<open>scenario_file\<close> is a \<open>ScenarioSpec\<close>: the scenario the rest of the program works with, and the fields
  only the file has.  Validation stops at the first field it refuses, where the library collects
  all of them, so the text of the error is only the name of a field.
\<close>

section \<open>Fields\<close>

record scenario_file =
  sf_scenario :: scenario
  sf_description :: string
  sf_episode_description :: string
  sf_parameters :: "(string, json) dict"

definition refuse :: "string \<Rightarrow> 'a result" where
  "refuse key = Inl (ValidationError key)"

text \<open>A field without a default is required.\<close>

definition text_field :: "string \<Rightarrow> string option \<Rightarrow> bool \<Rightarrow> (string, json) dict \<Rightarrow> string result" where
  "text_field key default_value nonempty d =
     (case dict_get d key of
        None \<Rightarrow> (case default_value of Some s \<Rightarrow> Inr s | None \<Rightarrow> refuse key)
      | Some (JStr s) \<Rightarrow> if nonempty \<and> s = [] then refuse key else Inr s
      | Some _ \<Rightarrow> refuse key)"

definition literal_field :: "string \<Rightarrow> string \<Rightarrow> (string, json) dict \<Rightarrow> string result" where
  "literal_field key value d =
     (case dict_get d key of None \<Rightarrow> Inr value | Some v \<Rightarrow> if v = JStr value then Inr value else refuse key)"

definition optional_text_field :: "string \<Rightarrow> (string, json) dict \<Rightarrow> string option result" where
  "optional_text_field key d =
     (case dict_get d key of
        None \<Rightarrow> Inr None | Some JNull \<Rightarrow> Inr None | Some (JStr s) \<Rightarrow> Inr (Some s) | Some _ \<Rightarrow> refuse key)"

text \<open>An integer may be given as a truth value, an integral float or a numeral.\<close>

definition json_int :: "json \<Rightarrow> int option" where
  "json_int v =
     (case v of
        JInt i \<Rightarrow> Some i
      | JBool b \<Rightarrow> Some (if b then 1 else 0)
      | JStr s \<Rightarrow> int_of_text s
      | JFloat t \<Rightarrow> Option.bind (cell_float t) (\<lambda>x. if x = of_int \<lfloor>x\<rfloor> then Some \<lfloor>x\<rfloor> else None)
      | _ \<Rightarrow> None)"

definition int_field :: "string \<Rightarrow> int \<Rightarrow> int \<Rightarrow> (string, json) dict \<Rightarrow> int result" where
  "int_field key default_value least d =
     (case dict_get d key of
        None \<Rightarrow> Inr default_value
      | Some v \<Rightarrow> (case json_int v of Some i \<Rightarrow> if least \<le> i then Inr i else refuse key | None \<Rightarrow> refuse key))"

definition optional_int_field :: "string \<Rightarrow> int \<Rightarrow> (string, json) dict \<Rightarrow> int option result" where
  "optional_int_field key least d =
     (if dict_get d key \<in> {None, Some JNull} then Inr None
      else bindE (int_field key 0 least d) (\<lambda>i. Inr (Some i)))"

definition object_field :: "string \<Rightarrow> (string, json) dict \<Rightarrow> (string, json) dict result" where
  "object_field key d =
     (case dict_get d key of None \<Rightarrow> Inr [] | Some (JObj kvs) \<Rightarrow> Inr kvs | Some _ \<Rightarrow> refuse key)"

text \<open>\<open>extra="forbid"\<close>.\<close>

definition only_fields :: "string list \<Rightarrow> (string, json) dict \<Rightarrow> unit result" where
  "only_fields names d =
     (case find (\<lambda>(k, v). k \<notin> set names) d of None \<Rightarrow> Inr () | Some (k, v) \<Rightarrow> refuse k)"

section \<open>The models\<close>

definition episode_fields :: "string list" where
  "episode_fields =
     [''episode_id'', ''description'', ''fault_type'', ''target_device'', ''target_interface'', ''target_prefix'',
      ''mtu'', ''duration_seconds'', ''stabilization_time'', ''metadata'', ''parameters'']"

definition validate_episode_model :: "(string, json) dict \<Rightarrow> (episode \<times> string) result" where
  "validate_episode_model d =
     bindE (text_field ''episode_id'' None True d) (\<lambda>eid.
     bindE (text_field ''description'' (Some []) False d) (\<lambda>description.
     bindE (text_field ''fault_type'' (Some ''none'') True d) (\<lambda>fault_type.
     bindE (optional_text_field ''target_device'' d) (\<lambda>device.
     bindE (optional_text_field ''target_interface'' d) (\<lambda>iface.
     bindE (optional_text_field ''target_prefix'' d) (\<lambda>target_prefix.
     bindE (optional_int_field ''mtu'' 1 d) (\<lambda>mtu.
     bindE (int_field ''duration_seconds'' 30 1 d) (\<lambda>duration.
     bindE (int_field ''stabilization_time'' 10 0 d) (\<lambda>stabilization.
     bindE (object_field ''metadata'' d) (\<lambda>metadata.
     bindE (object_field ''parameters'' d) (\<lambda>parameters.
     bindE (only_fields episode_fields d) (\<lambda>_.
       Inr (\<lparr>ep_id = eid, ep_fault_type = fault_type, ep_target_device = device, ep_target_interface = iface,
             ep_target_prefix = target_prefix, ep_mtu = mtu, ep_duration_seconds = duration,
             ep_stabilization_time = stabilization, ep_metadata = metadata, ep_parameters = parameters\<rparr>,
            description)))))))))))))"

definition scenario_fields :: "string list" where
  "scenario_fields =
     [''schema_version'', ''scenario_id'', ''name'', ''description'', ''topology_scale'', ''traffic_profile'',
      ''episode'', ''metadata'', ''parameters'']"

definition validate_scenario_model :: "(string, json) dict \<Rightarrow> scenario_file result" where
  "validate_scenario_model d =
     bindE (literal_field ''schema_version'' ''1'' d) (\<lambda>_.
     bindE (text_field ''scenario_id'' None True d) (\<lambda>sid.
     bindE (text_field ''name'' None True d) (\<lambda>name.
     bindE (text_field ''description'' (Some []) False d) (\<lambda>description.
     bindE (text_field ''topology_scale'' (Some ''xs'') True d) (\<lambda>scale.
     bindE (literal_field ''traffic_profile'' ''standard'' d) (\<lambda>profile.
     bindE (case dict_get d ''episode'' of Some (JObj e) \<Rightarrow> validate_episode_model e | _ \<Rightarrow> refuse ''episode'')
       (\<lambda>(episode, episode_description).
     bindE (object_field ''metadata'' d) (\<lambda>metadata.
     bindE (object_field ''parameters'' d) (\<lambda>parameters.
     bindE (only_fields scenario_fields d) (\<lambda>_.
       Inr \<lparr>sf_scenario = \<lparr>sc_id = sid, sc_name = name, sc_topology_scale = scale, sc_traffic_profile = profile,
              sc_episode = episode, sc_metadata = metadata\<rparr>,
            sf_description = description, sf_episode_description = episode_description,
            sf_parameters = parameters\<rparr>))))))))))"

definition optional_entry :: "string \<Rightarrow> ('a \<Rightarrow> json) \<Rightarrow> 'a option \<Rightarrow> (string \<times> json) list" where
  "optional_entry key f x = (case x of Some v \<Rightarrow> [(key, f v)] | None \<Rightarrow> [])"

definition episode_to_dict :: "episode \<Rightarrow> string \<Rightarrow> (string, json) dict" where
  "episode_to_dict e description =
     [(''episode_id'', JStr (ep_id e)), (''description'', JStr description), (''fault_type'', JStr (ep_fault_type e))]
     @ optional_entry ''target_device'' JStr (ep_target_device e)
     @ optional_entry ''target_interface'' JStr (ep_target_interface e)
     @ optional_entry ''target_prefix'' JStr (ep_target_prefix e)
     @ optional_entry ''mtu'' JInt (ep_mtu e)
     @ [(''duration_seconds'', JInt (ep_duration_seconds e)), (''stabilization_time'', JInt (ep_stabilization_time e)),
        (''metadata'', JObj (ep_metadata e)), (''parameters'', JObj (ep_parameters e))]"

definition scenario_to_dict :: "scenario_file \<Rightarrow> (string, json) dict" where
  "scenario_to_dict f =
     (let sc = sf_scenario f
      in [(''schema_version'', JStr ''1''), (''scenario_id'', JStr (sc_id sc)), (''name'', JStr (sc_name sc)),
          (''description'', JStr (sf_description f)), (''topology_scale'', JStr (sc_topology_scale sc)),
          (''traffic_profile'', JStr (sc_traffic_profile sc)),
          (''episode'', JObj (episode_to_dict (sc_episode sc) (sf_episode_description f))),
          (''metadata'', JObj (sc_metadata sc)), (''parameters'', JObj (sf_parameters f))])"

section \<open>The parser\<close>

text \<open>\<open>dict(payload.get("episode") or {})\<close>; a list, which could only be one of pairs, is refused.\<close>

definition episode_payload :: "(string, json) dict \<Rightarrow> (string, json) dict result" where
  "episode_payload data =
     (case dict_get data ''episode'' of
        Some (JObj kvs) \<Rightarrow> Inr kvs
      | v \<Rightarrow> if truthy v then Inl (TypeError ''cannot convert the episode to a dictionary'') else Inr [])"

text \<open>\<open>str(name or "")\<close> of the fault type.\<close>

definition fault_name_text :: "json \<Rightarrow> string option" where
  "fault_name_text v = (if json_true v then Some (json_text v) else None)"

definition invalid_schema :: "exc \<Rightarrow> exc" where
  "invalid_schema e = (case e of ValidationError m \<Rightarrow> ValueError (''Invalid scenario schema: '' @ m) | _ \<Rightarrow> e)"

definition scenario_from_dict :: "(string, json) dict \<Rightarrow> scenario_file result" where
  "scenario_from_dict data =
     (if dict_get data ''episodes'' \<noteq> None then
        Inl (ValueError (''Legacy multi-episode scenarios are unsupported; regenerate the scenario with a single ''
          @ py_repr ''episode''))
      else bindE (episode_payload data) (\<lambda>episode.
        let fault_type = canonicalize_fault_name
              (fault_name_text (dict_get_default episode ''fault_type'' (JStr ''none'')));
            payload = dict_set data ''episode'' (JObj (dict_set episode ''fault_type'' (JStr fault_type)))
        in case validate_scenario_model payload of Inr f \<Rightarrow> Inr f | Inl e \<Rightarrow> Inl (invalid_schema e)))"

text \<open>\<open>safe_load\<close> is \<open>None\<close> where the library raises \<open>YAMLError\<close>.\<close>

definition parse_scenario_file :: "(string \<Rightarrow> json option) \<Rightarrow> string \<Rightarrow> string \<Rightarrow> scenario_file result" where
  "parse_scenario_file safe_load path txt =
     (case safe_load txt of
        None \<Rightarrow> Inl (ValueError (''Invalid scenario YAML '' @ path))
      | Some v \<Rightarrow>
          (case (if json_true v then v else JObj []) of
             JObj payload \<Rightarrow> scenario_from_dict payload
           | _ \<Rightarrow> Inl (ValueError (''Scenario payload must be a mapping: '' @ path))))"

definition save_scenario_file :: "(json \<Rightarrow> string) \<Rightarrow> scenario_file \<Rightarrow> string" where
  "save_scenario_file safe_dump f = safe_dump (JObj (scenario_to_dict f))"

section \<open>What the parser accepts\<close>

definition valid_scenario_file :: "scenario_file \<Rightarrow> bool" where
  "valid_scenario_file f \<longleftrightarrow>
     (let sc = sf_scenario f; e = sc_episode sc
      in sc_id sc \<noteq> [] \<and> sc_name sc \<noteq> [] \<and> sc_topology_scale sc \<noteq> [] \<and> sc_traffic_profile sc = ''standard'' \<and>
         ep_id e \<noteq> [] \<and> ep_fault_type e \<noteq> [] \<and> canonicalize_fault_name (Some (ep_fault_type e)) = ep_fault_type e \<and>
         (case ep_mtu e of Some mtu \<Rightarrow> 0 < mtu | None \<Rightarrow> True) \<and> 0 < ep_duration_seconds e \<and> 0 \<le> ep_stabilization_time e)"

named_theorems field_defs \<open>the fields of the models\<close>

lemmas [field_defs] = text_field_def literal_field_def optional_text_field_def int_field_def optional_int_field_def
  object_field_def only_fields_def refuse_def json_int_def

lemma text_field_nonempty: "text_field key default_value True d = Inr s \<Longrightarrow> default_value \<noteq> Some [] \<Longrightarrow>
   s \<noteq> [] \<and> (\<forall>t. dict_get d key = Some (JStr t) \<longrightarrow> s = t)"
  by (auto simp: text_field_def refuse_def split: option.splits json.splits if_splits)

lemma literal_field_value: "literal_field key value d = Inr s \<Longrightarrow> s = value"
  by (auto simp: literal_field_def refuse_def split: option.splits if_splits)

lemma int_field_least: "int_field key default_value least d = Inr i \<Longrightarrow> least \<le> default_value \<Longrightarrow> least \<le> i"
  by (auto simp: int_field_def refuse_def split: option.splits if_splits)

lemma optional_int_field_least: "optional_int_field key least d = Inr (Some i) \<Longrightarrow> least \<le> i"
  by (auto simp: optional_int_field_def int_field_def refuse_def bindE_def split: option.splits if_splits sum.splits)

lemma canonicalize_fault_name_idem: "canonicalize_fault_name (Some (canonicalize_fault_name x)) = canonicalize_fault_name x"
  unfolding canonicalize_fault_name_registry by (rule canonicalize_idem [OF builtin_reg_ok])

text \<open>The model of an episode and its dictionary.\<close>

lemma validate_episode_model_ok:
  assumes "validate_episode_model d = Inr (e, t)"
  shows "ep_id e \<noteq> [] \<and> ep_fault_type e \<noteq> [] \<and> (case ep_mtu e of Some mtu \<Rightarrow> 0 < mtu | None \<Rightarrow> True) \<and>
    0 < ep_duration_seconds e \<and> 0 \<le> ep_stabilization_time e \<and>
    (\<forall>s. dict_get d ''fault_type'' = Some (JStr s) \<longrightarrow> ep_fault_type e = s)"
  using assms unfolding validate_episode_model_def bindE_Inr_conv
  by (auto dest!: text_field_nonempty int_field_least optional_int_field_least split: option.split)

lemma validate_episode_model_dict:
  assumes "ep_id e \<noteq> []" "ep_fault_type e \<noteq> []" "case ep_mtu e of Some mtu \<Rightarrow> 0 < mtu | None \<Rightarrow> True"
    and "0 < ep_duration_seconds e" "0 \<le> ep_stabilization_time e"
  shows "validate_episode_model (episode_to_dict e t) = Inr (e, t)"
proof -
  have entries: "dict_get (episode_to_dict e t) ''episode_id'' = Some (JStr (ep_id e))"
    "dict_get (episode_to_dict e t) ''description'' = Some (JStr t)"
    "dict_get (episode_to_dict e t) ''fault_type'' = Some (JStr (ep_fault_type e))"
    "dict_get (episode_to_dict e t) ''target_device'' = map_option JStr (ep_target_device e)"
    "dict_get (episode_to_dict e t) ''target_interface'' = map_option JStr (ep_target_interface e)"
    "dict_get (episode_to_dict e t) ''target_prefix'' = map_option JStr (ep_target_prefix e)"
    "dict_get (episode_to_dict e t) ''mtu'' = map_option JInt (ep_mtu e)"
    "dict_get (episode_to_dict e t) ''duration_seconds'' = Some (JInt (ep_duration_seconds e))"
    "dict_get (episode_to_dict e t) ''stabilization_time'' = Some (JInt (ep_stabilization_time e))"
    "dict_get (episode_to_dict e t) ''metadata'' = Some (JObj (ep_metadata e))"
    "dict_get (episode_to_dict e t) ''parameters'' = Some (JObj (ep_parameters e))"
    by (simp_all add: episode_to_dict_def optional_entry_def split: option.split)
  have only: "only_fields episode_fields (episode_to_dict e t) = Inr ()"
    by (simp add: only_fields_def episode_fields_def episode_to_dict_def optional_entry_def split: option.split)
  have fields: "text_field ''episode_id'' None True (episode_to_dict e t) = Inr (ep_id e)"
    "text_field ''description'' (Some []) False (episode_to_dict e t) = Inr t"
    "text_field ''fault_type'' (Some ''none'') True (episode_to_dict e t) = Inr (ep_fault_type e)"
    "int_field ''duration_seconds'' 30 1 (episode_to_dict e t) = Inr (ep_duration_seconds e)"
    "int_field ''stabilization_time'' 10 0 (episode_to_dict e t) = Inr (ep_stabilization_time e)"
    "object_field ''metadata'' (episode_to_dict e t) = Inr (ep_metadata e)"
    "object_field ''parameters'' (episode_to_dict e t) = Inr (ep_parameters e)"
    using assms by (simp_all add: field_defs entries)
  have options: "optional_text_field ''target_device'' (episode_to_dict e t) = Inr (ep_target_device e)"
    "optional_text_field ''target_interface'' (episode_to_dict e t) = Inr (ep_target_interface e)"
    "optional_text_field ''target_prefix'' (episode_to_dict e t) = Inr (ep_target_prefix e)"
    "optional_int_field ''mtu'' 1 (episode_to_dict e t) = Inr (ep_mtu e)"
    using assms(3) by (auto simp: field_defs entries split: option.split)
  show ?thesis
    by (simp add: validate_episode_model_def fields options only)
qed

lemma validate_scenario_model_ok:
  assumes "validate_scenario_model d = Inr f"
  shows "sc_id (sf_scenario f) \<noteq> [] \<and> sc_name (sf_scenario f) \<noteq> [] \<and> sc_topology_scale (sf_scenario f) \<noteq> [] \<and>
    sc_traffic_profile (sf_scenario f) = ''standard'' \<and>
    (\<exists>ed. dict_get d ''episode'' = Some (JObj ed) \<and>
      validate_episode_model ed = Inr (sc_episode (sf_scenario f), sf_episode_description f))"
proof -
  have episode: "\<exists>ed. dict_get d ''episode'' = Some (JObj ed) \<and> validate_episode_model ed = Inr x"
    if "(case dict_get d ''episode'' of Some (JObj ed) \<Rightarrow> validate_episode_model ed | _ \<Rightarrow> refuse ''episode'') = Inr x" for x
    using that by (auto simp: refuse_def split: option.splits json.splits)
  from assms show ?thesis
    unfolding validate_scenario_model_def bindE_Inr_conv
    by (auto simp: bindE_Inr_conv dest!: text_field_nonempty literal_field_value episode)
qed

lemma scenario_from_dict_valid:
  assumes "scenario_from_dict d = Inr f"
  shows "valid_scenario_file f"
proof -
  obtain ep where ep: "episode_payload d = Inr ep"
    using assms by (auto simp: scenario_from_dict_def bindE_Inr_conv split: if_splits)
  define ft where "ft = canonicalize_fault_name (fault_name_text (dict_get_default ep ''fault_type'' (JStr ''none'')))"
  have f: "validate_scenario_model (dict_set d ''episode'' (JObj (dict_set ep ''fault_type'' (JStr ft)))) = Inr f"
    using assms by (auto simp: scenario_from_dict_def ep ft_def Let_def split: if_splits sum.splits)
  have "canonicalize_fault_name (Some ft) = ft"
    unfolding ft_def by (rule canonicalize_fault_name_idem)
  then show ?thesis
    using validate_scenario_model_ok [OF f] unfolding valid_scenario_file_def Let_def
    by (auto dest!: validate_episode_model_ok)
qed

lemma scenario_from_dict_of_valid:
  assumes "valid_scenario_file f"
  shows "scenario_from_dict (scenario_to_dict f) = Inr f"
proof -
  let ?sc = "sf_scenario f"
  let ?e = "sc_episode ?sc"
  let ?ed = "episode_to_dict ?e (sf_episode_description f)"
  have ft: "dict_get_default ?ed ''fault_type'' (JStr ''none'') = JStr (ep_fault_type ?e)"
    by (simp add: dict_get_default_def episode_to_dict_def)
  have same: "dict_set ?ed ''fault_type'' (JStr (ep_fault_type ?e)) = ?ed"
    by (simp add: episode_to_dict_def)
  have payload: "dict_set (scenario_to_dict f) ''episode'' (JObj ?ed) = scenario_to_dict f"
    by (simp add: scenario_to_dict_def Let_def)
  have ep: "episode_payload (scenario_to_dict f) = Inr ?ed"
    by (simp add: episode_payload_def scenario_to_dict_def Let_def)
  have model: "validate_scenario_model (scenario_to_dict f) = Inr f"
    using assms validate_episode_model_dict [of ?e "sf_episode_description f"]
    by (simp add: validate_scenario_model_def scenario_to_dict_def Let_def field_defs scenario_fields_def valid_scenario_file_def)
  have "canonicalize_fault_name (fault_name_text (JStr (ep_fault_type ?e))) = ep_fault_type ?e"
    using assms by (simp add: valid_scenario_file_def Let_def fault_name_text_def)
  moreover have "dict_get (scenario_to_dict f) ''episodes'' = None"
    by (simp add: scenario_to_dict_def Let_def)
  ultimately show ?thesis
    by (simp add: scenario_from_dict_def ep ft same payload model Let_def)
qed

text \<open>
  C37. Scenario files are read back as they were written, exactly when they are valid: the scenarios
  the parser returns, from whatever dictionary, are those with identifiers, the standard traffic, a
  canonical fault type and sensible numbers, and precisely these survive being written and read
  again unchanged.
\<close>

theorem scenario_file_roundtrip:
  "(scenario_from_dict (scenario_to_dict f) = Inr f) = valid_scenario_file f \<and>
   {f. \<exists>d. scenario_from_dict d = Inr f} = {f. valid_scenario_file f}"
  using scenario_from_dict_valid scenario_from_dict_of_valid by blast

end
