(* ===== verification/Scenario_Inventory.thy ===== *)
theory Scenario_Inventory
  imports Scenario_Validation Python_Text Regex Fabric_Plan
begin

text \<open>
  The first half of \<open>netopsbench/platform/scenario/generator.py\<close>: what a generated topology offers
  as targets.  Interfaces and their direction come from the manifest, interface names and addresses from
  the ConfigDB artifacts (\<open>platform/topology/configdb_payload.py\<close>), sessions and networks from the FRR
  artifacts.  The files of a topology are a parameter; addresses are IPv4, as everything the builders
  write.
\<close>

section \<open>Interface names\<close>

definition is_number :: "string \<Rightarrow> bool" where
  "is_number s \<longleftrightarrow> s \<noteq> [] \<and> list_all is_digit s"

definition front_port :: "int \<Rightarrow> string option" where
  "front_port idx = (if 1 \<le> idx then Some (''Ethernet'' @ int_str ((idx - 1) * 4)) else None)"

definition short_port :: "string \<Rightarrow> string \<Rightarrow> string option" where
  "short_port label raw =
     (if starts_with label (str_lower raw) \<and> is_number (drop 3 raw) then front_port (int (digits_val (drop 3 raw))) else None)"

definition normalize_sonic_name :: "string \<Rightarrow> string" where
  "normalize_sonic_name name =
     (if name = [] then name
      else (let raw = str_strip name; lower = str_lower raw
        in if starts_with ''ethernet'' lower \<and> is_number (drop 8 raw) then
             ''Ethernet'' @ int_str (int (digits_val (drop 8 raw)))
           else case short_port ''eth'' raw of Some port \<Rightarrow> port
         | None \<Rightarrow> (case short_port ''e1-'' raw of Some port \<Rightarrow> port
         | None \<Rightarrow>
             if contains ''ethernet-1/'' lower then
               (case Option.bind (int_of_text (last (str_split (CHR ''/'') raw))) front_port of
                  Some port \<Rightarrow> port | None \<Rightarrow> raw)
             else raw)))"

definition normalize_sonic_interface :: "string option \<Rightarrow> string option" where
  "normalize_sonic_interface = map_option normalize_sonic_name"

section \<open>ConfigDB artifacts\<close>

text \<open>
  Ports by number, then other names.  Two spellings of one number keep the order of the Python set,
  which is not specified; here they are in the order of the names.
\<close>

definition port_number :: "string \<Rightarrow> nat option" where
  "port_number name =
     (if starts_with ''Ethernet'' name \<and> is_number (drop 8 name) then Some (digits_val (drop 8 name)) else None)"

definition ordered_names :: "string set \<Rightarrow> string list" where
  "ordered_names names =
     (let ns = sorted_list_of_set names
      in sort_key (\<lambda>n. the (port_number n)) (filter (\<lambda>n. port_number n \<noteq> None) ns) @ filter (\<lambda>n. port_number n = None) ns)"

definition parse_network_interfaces :: "json \<Rightarrow> string list" where
  "parse_network_interfaces payload = ordered_names (interface_names_from_payload payload)"

text \<open>A network is kept as its value instead of the text that is parsed again by the caller.\<close>

definition interface_networks_from_payload :: "json \<Rightarrow> (string, ipv4_network) dict" where
  "interface_networks_from_payload payload =
     (case payload of
        JObj kvs \<Rightarrow> (case map_of kvs ''INTERFACE'' of
            Some (JObj entries) \<Rightarrow>
              fold (\<lambda>(key, v) networks.
                if CHR ''|'' \<notin> set key then networks
                else (case ip_network (tl (dropWhile (\<lambda>c. c \<noteq> CHR ''|'') key)) of
                        Inr n \<Rightarrow> dict_set networks (takeWhile (\<lambda>c. c \<noteq> CHR ''|'') key) n
                      | Inl _ \<Rightarrow> networks)) entries []
          | _ \<Rightarrow> [])
      | _ \<Rightarrow> [])"

section \<open>FRR artifacts\<close>

record frr_neighbor =
  fn_peer_ip :: string
  fn_remote_as :: "int option"
  fn_route_maps :: "(string \<times> string) list"
  fn_interface :: "string option"
  fn_interface_role :: "string option"

record frr_network =
  fw_prefix :: string
  fw_route_map :: "string option"

record frr_config =
  fc_local_as :: "int option"
  fc_neighbors :: "(string, frr_neighbor) dict"
  fc_networks :: "frr_network list"

definition local_as_re :: regex where
  "local_as_re = seqs [Text ''router bgp '', Capture 1 (re_plus digit), LineEnd]"

definition neighbor_re :: regex where
  "neighbor_re =
     seqs [Text ''neighbor '', Capture 1 (re_plus nonspace), Text '' remote-as '', Capture 2 (re_plus digit), LineEnd]"

definition neighbor_rm_re :: regex where
  "neighbor_rm_re =
     seqs [Text ''neighbor '', Capture 1 (re_plus nonspace), Text '' route-map '', Capture 2 (re_plus nonspace), Text '' '',
           Capture 3 (alts [''in'', ''out'']), LineEnd]"

definition network_re :: regex where
  "network_re =
     seqs [Text ''network '', Capture 1 (re_plus nonspace),
           re_optional (Seq (Text '' route-map '') (Capture 2 (re_plus nonspace))), LineEnd]"

definition new_neighbor :: "string \<Rightarrow> frr_neighbor" where
  "new_neighbor peer_ip =
     \<lparr>fn_peer_ip = peer_ip, fn_remote_as = None, fn_route_maps = [], fn_interface = None, fn_interface_role = None\<rparr>"

definition captured :: "nat \<Rightarrow> groups \<Rightarrow> string" where
  "captured n gs = (case group_text n gs of Some t \<Rightarrow> t | None \<Rightarrow> [])"

definition update_neighbor :: "string \<Rightarrow> (frr_neighbor \<Rightarrow> frr_neighbor) \<Rightarrow> frr_config \<Rightarrow> frr_config" where
  "update_neighbor peer_ip f config =
     config\<lparr>fc_neighbors :=
       dict_set (fc_neighbors config) peer_ip (f (dict_get_default (fc_neighbors config) peer_ip (new_neighbor peer_ip)))\<rparr>"

definition attach_route_map :: "string \<Rightarrow> string \<Rightarrow> frr_neighbor \<Rightarrow> frr_neighbor" where
  "attach_route_map name direction peer =
     (if (name, direction) \<in> set (fn_route_maps peer) then peer
      else peer\<lparr>fn_route_maps := fn_route_maps peer @ [(name, direction)]\<rparr>)"

text \<open>\<open>seen_networks\<close> is the set of the identities of the networks collected so far.\<close>

definition network_identity :: "frr_network \<Rightarrow> string \<times> string" where
  "network_identity n = (fw_prefix n, case fw_route_map n of Some t \<Rightarrow> t | None \<Rightarrow> [])"

definition add_network :: "frr_network \<Rightarrow> frr_config \<Rightarrow> frr_config" where
  "add_network n config =
     (if network_identity n \<in> network_identity ` set (fc_networks config) then config
      else config\<lparr>fc_networks := fc_networks config @ [n]\<rparr>)"

definition parse_bgp_line :: "string \<Rightarrow> frr_config \<Rightarrow> frr_config" where
  "parse_bgp_line raw config =
     (let line = str_strip raw
      in case re_match local_as_re line of
           Some gs \<Rightarrow> config\<lparr>fc_local_as := Some (int (digits_val (captured 1 gs)))\<rparr>
         | None \<Rightarrow> (case re_match neighbor_re line of
           Some gs \<Rightarrow> update_neighbor (captured 1 gs)
             (\<lambda>peer. peer\<lparr>fn_remote_as := Some (int (digits_val (captured 2 gs)))\<rparr>) config
         | None \<Rightarrow> (case re_match neighbor_rm_re line of
           Some gs \<Rightarrow> update_neighbor (captured 1 gs) (attach_route_map (captured 2 gs) (captured 3 gs)) config
         | None \<Rightarrow> (case re_match network_re line of
           Some gs \<Rightarrow> add_network \<lparr>fw_prefix = captured 1 gs, fw_route_map = group_text 2 gs\<rparr> config
         | None \<Rightarrow> config))))"

text \<open>Lines of a text file, with universal newlines.\<close>

definition text_lines :: "string \<Rightarrow> string list" where
  "text_lines txt = str_split (CHR 0x0A) (map (\<lambda>c. if c = CHR 0x0D then CHR 0x0A else c) txt)"

definition empty_config :: frr_config where
  "empty_config = \<lparr>fc_local_as = None, fc_neighbors = [], fc_networks = []\<rparr>"

definition parse_bgp_config :: "string option \<Rightarrow> int option \<times> frr_neighbor list \<times> frr_network list" where
  "parse_bgp_config file =
     (case file of
        None \<Rightarrow> (None, [], [])
      | Some txt \<Rightarrow>
          (let config = fold parse_bgp_line (text_lines txt) empty_config
           in (fc_local_as config, sort_key fn_peer_ip (map snd (fc_neighbors config)), sort_key fw_prefix (fc_networks config))))"

section \<open>Facts of the manifest\<close>

type_synonym name_sets = "(string, string set) dict"

definition add_to :: "string \<Rightarrow> string \<Rightarrow> name_sets \<Rightarrow> name_sets" where
  "add_to key name d = dict_set d key (insert name (dict_get_default d key {}))"

definition no_roles :: name_sets where
  "no_roles = [(''uplink'', {}), (''downlink'', {}), (''any'', {})]"

definition add_role :: "string \<Rightarrow> string \<Rightarrow> string \<Rightarrow> (string, name_sets) dict \<Rightarrow> (string, name_sets) dict" where
  "add_role device iface role interface_roles =
     dict_set interface_roles device
       (add_to ''any'' (normalize_sonic_name iface)
         (add_to role (normalize_sonic_name iface) (dict_get_default interface_roles device no_roles)))"

fun uplink_peers :: "device_role \<Rightarrow> device_role set" where
  "uplink_peers LEAF = {SPINE}"
| "uplink_peers EDGE = {AGG}"
| "uplink_peers AGG = {CORE}"
| "uplink_peers _ = {}"

fun downlink_peers :: "device_role \<Rightarrow> device_role set" where
  "downlink_peers LEAF = {CLIENT}"
| "downlink_peers EDGE = {CLIENT}"
| "downlink_peers AGG = {EDGE}"
| "downlink_peers _ = {}"

record link_facts =
  lf_switch_interfaces :: name_sets
  lf_interface_roles :: "(string, name_sets) dict"
  lf_client_interfaces :: name_sets

definition add_link_end :: "device \<times> string \<times> device \<Rightarrow> link_facts \<Rightarrow> link_facts" where
  "add_link_end = (\<lambda>(d, iface, peer) facts.
     if dev_role d = CLIENT then
       facts\<lparr>lf_client_interfaces := add_to (dev_name d) iface (lf_client_interfaces facts)\<rparr>
     else
      (let known = facts\<lparr>lf_switch_interfaces := add_to (dev_name d) (normalize_sonic_name iface) (lf_switch_interfaces facts)\<rparr>
       in if dev_role peer \<in> uplink_peers (dev_role d) then
            known\<lparr>lf_interface_roles := add_role (dev_name d) iface ''uplink'' (lf_interface_roles known)\<rparr>
          else if dev_role peer \<in> downlink_peers (dev_role d) then
            known\<lparr>lf_interface_roles := add_role (dev_name d) iface ''downlink'' (lf_interface_roles known)\<rparr>
          else known))"

definition devices_by_name :: "manifest \<Rightarrow> (string, device) dict" where
  "devices_by_name m = dict_of (map (\<lambda>d. (dev_name d, d)) (mf_devices m))"

definition known_device :: "manifest \<Rightarrow> string \<Rightarrow> device result" where
  "known_device m name = (case dict_get (devices_by_name m) name of Some d \<Rightarrow> Inr d | None \<Rightarrow> Inl (LookupKeyError name))"

text \<open>Both ends of every link, each with the device it is on and the device it leads to.\<close>

definition directed_ends :: "manifest \<Rightarrow> (link_endpoint \<times> link_endpoint) list" where
  "directed_ends m =
     concat (map (\<lambda>l. let (left, right) = link_endpoints l in [(left, right), (right, left)]) (mf_links m))"

definition resolved_ends :: "manifest \<Rightarrow> (device \<times> string \<times> device) list result" where
  "resolved_ends m =
     mapE (\<lambda>(this, peer).
       bindE (known_device m (ep_device this)) (\<lambda>d.
       bindE (known_device m (ep_device peer)) (\<lambda>p. Inr (d, ep_interface this, p)))) (directed_ends m)"

definition no_facts :: link_facts where
  "no_facts = \<lparr>lf_switch_interfaces = [], lf_interface_roles = [], lf_client_interfaces = []\<rparr>"

definition sorted_names :: "name_sets \<Rightarrow> (string, string list) dict" where
  "sorted_names = map (\<lambda>(name, names). (name, sorted_list_of_set names))"

definition interface_facts_from_manifest ::
  "manifest \<Rightarrow> ((string, string list) dict \<times> (string, (string, string list) dict) dict \<times> (string, string list) dict) result" where
  "interface_facts_from_manifest m =
     bindE (resolved_ends m) (\<lambda>ends.
       let facts = fold add_link_end ends no_facts
       in Inr (sorted_names (lf_switch_interfaces facts),
               map (\<lambda>(name, roles). (name, sorted_names roles)) (lf_interface_roles facts),
               sorted_names (lf_client_interfaces facts)))"

section \<open>Loading a topology\<close>

text \<open>The files of a generated topology: \<open>None\<close> for a missing file.\<close>

record topology_files =
  fl_manifest :: "string \<Rightarrow> manifest result option"
  fl_configdb :: "string \<Rightarrow> json option"
  fl_frr :: "string \<Rightarrow> string option"

record topology_context =
  tc_topology_dir :: string
  tc_manifest :: manifest
  tc_device_interfaces :: "(string, string list) dict"
  tc_leaf_interface_roles :: "(string, (string, string list) dict) dict"
  tc_client_interfaces :: "(string, string list) dict"
  tc_device_asns :: "(string, int) dict"
  tc_bgp_neighbors :: "(string, frr_neighbor list) dict"
  tc_bgp_networks :: "(string, frr_network list) dict"

definition frr_path :: "string \<Rightarrow> string \<Rightarrow> string" where
  "frr_path topology_dir device = topology_dir @ ''/configs/frr/'' @ device @ ''.conf''"

definition locate_neighbor ::
  "(string, ipv4_network) dict \<Rightarrow> (string, string list) dict \<Rightarrow> frr_neighbor \<Rightarrow> frr_neighbor" where
  "locate_neighbor networks roles neighbor =
     (case parse_ipv4 (fn_peer_ip neighbor) of
        None \<Rightarrow> neighbor
      | Some peer_ip \<Rightarrow>
          (case find (\<lambda>(name, network). in_network peer_ip network) networks of
             None \<Rightarrow> neighbor
           | Some (iface, _) \<Rightarrow>
               neighbor\<lparr>fn_interface := Some iface,
                 fn_interface_role := find (\<lambda>role. iface \<in> set (dict_get_default roles role [])) [''uplink'', ''downlink'']\<rparr>))"

definition load_switch ::
  "topology_files \<Rightarrow> string \<Rightarrow> (string, (string, string list) dict) dict \<Rightarrow> string \<Rightarrow>
   (string \<times> string list \<times> int \<times> frr_neighbor list \<times> frr_network list) result" where
  "load_switch files topology_dir interface_roles device =
     (let cfg = config_path topology_dir device; frr_cfg = frr_path topology_dir device
      in case fl_configdb files cfg of
           None \<Rightarrow> Inl (FileNotFoundError (''SONiC ConfigDB artifact not found: '' @ cfg))
         | Some payload \<Rightarrow>
             if fl_frr files frr_cfg = None then Inl (FileNotFoundError (''FRR artifact not found: '' @ frr_cfg))
             else if parse_network_interfaces payload = [] then
               Inl (ValueError (''SONiC ConfigDB has no interfaces: '' @ cfg))
             else
               (case parse_bgp_config (fl_frr files frr_cfg) of
                  (None, neighbors, networks) \<Rightarrow> Inl (ValueError (''FRR artifact has no BGP router stanza: '' @ frr_cfg))
                | (Some local_as, neighbors, networks) \<Rightarrow>
                    Inr (device, parse_network_interfaces payload, local_as,
                         map (locate_neighbor (interface_networks_from_payload payload)
                                (dict_get_default interface_roles device [])) neighbors,
                         networks)))"

definition load_topology :: "topology_files \<Rightarrow> string \<Rightarrow> topology_context result" where
  "load_topology files topology_dir =
     (let metadata_path = topology_dir @ ''/topology.json''
      in case fl_manifest files metadata_path of
           None \<Rightarrow> Inl (FileNotFoundError (''Topology metadata not found: '' @ metadata_path))
         | Some read \<Rightarrow>
             bindE read (\<lambda>m.
             bindE (interface_facts_from_manifest m) (\<lambda>(device_interfaces, roles, client_interfaces).
             bindE (mapE (\<lambda>d. load_switch files topology_dir roles (dev_name d)) (switches m)) (\<lambda>facts.
               Inr \<lparr>tc_topology_dir = topology_dir, tc_manifest = m,
                    tc_device_interfaces = fold (\<lambda>(device, names, _). \<lambda>d. dict_set d device names) facts device_interfaces,
                    tc_leaf_interface_roles = roles, tc_client_interfaces = client_interfaces,
                    tc_device_asns = dict_of (map (\<lambda>(device, _, local_as, _). (device, local_as)) facts),
                    tc_bgp_neighbors = dict_of (map (\<lambda>(device, _, _, neighbors, _). (device, neighbors)) facts),
                    tc_bgp_networks = dict_of (map (\<lambda>(device, _, _, _, networks). (device, networks)) facts)\<rparr>))))"

section \<open>Interfaces and roles follow the links\<close>

text \<open>The interfaces of a device on links whose far end has one of the given roles.\<close>

definition link_interfaces :: "manifest \<Rightarrow> string \<Rightarrow> device_role set \<Rightarrow> string set" where
  "link_interfaces m name roles =
     {ep_interface this | this peer l. l \<in> set (mf_links m) \<and> link_endpoints l \<in> {(this, peer), (peer, this)} \<and>
        ep_device this = name \<and> (\<exists>p \<in> set (mf_devices m). dev_name p = ep_device peer \<and> dev_role p \<in> roles)}"

lemma directed_ends_iff:
  "(this, peer) \<in> set (directed_ends m) \<longleftrightarrow> (\<exists>l \<in> set (mf_links m). link_endpoints l \<in> {(this, peer), (peer, this)})"
proof -
  have both: "(this, peer) \<in> set (let (left, right) = link_endpoints l in [(left, right), (right, left)]) \<longleftrightarrow>
      link_endpoints l \<in> {(this, peer), (peer, this)}" for l
    by (cases "link_endpoints l") auto
  show ?thesis by (simp only: directed_ends_def set_concat set_map UN_iff bex_simps both)
qed

abbreviation names_in :: "name_sets \<Rightarrow> string \<Rightarrow> string set" where
  "names_in d key \<equiv> dict_get_default d key {}"

definition role_names_in :: "(string, name_sets) dict \<Rightarrow> string \<Rightarrow> string \<Rightarrow> string set" where
  "role_names_in rs device role = names_in (dict_get_default rs device no_roles) role"

lemma names_add_to [simp]: "names_in (add_to key name d) k = (if k = key then insert name (names_in d k) else names_in d k)"
  by (auto simp: add_to_def dict_get_default_def split: option.splits)

lemma names_nil [simp]: "names_in [] key = {}"
  by (simp add: dict_get_default_def)

lemma names_no_roles [simp]: "names_in no_roles role = {}"
  by (simp add: no_roles_def dict_get_default_def)

lemma get_default_set: "dict_get_default (dict_set d k v) k' x = (if k' = k then v else dict_get_default d k' x)"
  by (simp add: dict_get_default_def)

lemma role_names_add_role:
  "role_names_in (add_role d i r rs) d' q =
     (if d' = d \<and> (q = r \<or> q = ''any'') then insert (normalize_sonic_name i) (role_names_in rs d' q) else role_names_in rs d' q)"
  by (auto simp: role_names_in_def add_role_def get_default_set)

lemma peers_disjoint: "uplink_peers r \<inter> downlink_peers r = {}"
  by (cases r) auto

text \<open>What the links collect, one end after the other.\<close>

lemma add_link_end_names:
  "names_in (lf_client_interfaces (add_link_end (d, i, p) f)) name = names_in (lf_client_interfaces f) name \<union>
     (if dev_name d = name \<and> dev_role d = CLIENT then {i} else {})"
  "names_in (lf_switch_interfaces (add_link_end (d, i, p) f)) name = names_in (lf_switch_interfaces f) name \<union>
     (if dev_name d = name \<and> dev_role d \<noteq> CLIENT then {normalize_sonic_name i} else {})"
  by (simp_all add: add_link_end_def Let_def)

lemma add_link_end_roles:
  "role_names_in (lf_interface_roles (add_link_end (d, i, p) f)) name ''uplink'' =
     role_names_in (lf_interface_roles f) name ''uplink'' \<union>
     (if dev_name d = name \<and> dev_role p \<in> uplink_peers (dev_role d) then {normalize_sonic_name i} else {})"
  "role_names_in (lf_interface_roles (add_link_end (d, i, p) f)) name ''downlink'' =
     role_names_in (lf_interface_roles f) name ''downlink'' \<union>
     (if dev_name d = name \<and> dev_role p \<in> downlink_peers (dev_role d) then {normalize_sonic_name i} else {})"
proof -
  have "dev_role p \<in> downlink_peers (dev_role d) \<Longrightarrow> dev_role p \<notin> uplink_peers (dev_role d)"
    using peers_disjoint [of "dev_role d"] by auto
  moreover have "dev_role d = CLIENT \<Longrightarrow> uplink_peers (dev_role d) = {} \<and> downlink_peers (dev_role d) = {}"
    by simp
  ultimately show
    "role_names_in (lf_interface_roles (add_link_end (d, i, p) f)) name ''uplink'' =
       role_names_in (lf_interface_roles f) name ''uplink'' \<union>
       (if dev_name d = name \<and> dev_role p \<in> uplink_peers (dev_role d) then {normalize_sonic_name i} else {})"
    "role_names_in (lf_interface_roles (add_link_end (d, i, p) f)) name ''downlink'' =
       role_names_in (lf_interface_roles f) name ''downlink'' \<union>
       (if dev_name d = name \<and> dev_role p \<in> downlink_peers (dev_role d) then {normalize_sonic_name i} else {})"
    by (auto simp: add_link_end_def Let_def role_names_add_role)
qed

lemma fold_collects:
  assumes "\<And>e f. view (step e f) = view f \<union> part e"
  shows "view (fold step es f) = view f \<union> (\<Union>e \<in> set es. part e)"
  by (induction es arbitrary: f) (auto simp: assms)

lemma union_of_ends:
  "(\<Union>e \<in> set ends. case e of (d, i, p) \<Rightarrow> if P d p then {h i} else {}) = h ` {i. \<exists>d p. (d, i, p) \<in> set ends \<and> P d p}"
proof (intro set_eqI iffI)
  fix x assume "x \<in> (\<Union>e \<in> set ends. case e of (d, i, p) \<Rightarrow> if P d p then {h i} else {})"
  then obtain d i p where "(d, i, p) \<in> set ends" "P d p" "x = h i" by (force split: if_splits)
  then show "x \<in> h ` {i. \<exists>d p. (d, i, p) \<in> set ends \<and> P d p}" by blast
qed force

lemma fold_link_ends:
  fixes ends :: "(device \<times> string \<times> device) list"
  defines "facts \<equiv> fold add_link_end ends no_facts"
  shows "names_in (lf_client_interfaces facts) name = {i. \<exists>d p. (d, i, p) \<in> set ends \<and> dev_name d = name \<and> dev_role d = CLIENT}"
    "names_in (lf_switch_interfaces facts) name =
       normalize_sonic_name ` {i. \<exists>d p. (d, i, p) \<in> set ends \<and> dev_name d = name \<and> dev_role d \<noteq> CLIENT}"
    "role_names_in (lf_interface_roles facts) name ''uplink'' =
       normalize_sonic_name ` {i. \<exists>d p. (d, i, p) \<in> set ends \<and> dev_name d = name \<and> dev_role p \<in> uplink_peers (dev_role d)}"
    "role_names_in (lf_interface_roles facts) name ''downlink'' =
       normalize_sonic_name ` {i. \<exists>d p. (d, i, p) \<in> set ends \<and> dev_name d = name \<and> dev_role p \<in> downlink_peers (dev_role d)}"
proof -
  have start: "names_in (lf_client_interfaces no_facts) name = {}" "names_in (lf_switch_interfaces no_facts) name = {}"
    "role_names_in (lf_interface_roles no_facts) name ''uplink'' = {}" "role_names_in (lf_interface_roles no_facts) name ''downlink'' = {}"
    by (simp_all add: no_facts_def role_names_in_def dict_get_default_def [of "[] :: (string, name_sets) dict"])
  let ?client = "\<lambda>(d, i, p :: device). if dev_name d = name \<and> dev_role d = CLIENT then {i} else {}"
  let ?switch = "\<lambda>(d, i, p :: device). if dev_name d = name \<and> dev_role d \<noteq> CLIENT then {normalize_sonic_name i} else {}"
  let ?up = "\<lambda>(d, i, p). if dev_name d = name \<and> dev_role p \<in> uplink_peers (dev_role d) then {normalize_sonic_name i} else {}"
  let ?down = "\<lambda>(d, i, p). if dev_name d = name \<and> dev_role p \<in> downlink_peers (dev_role d) then {normalize_sonic_name i} else {}"
  have "names_in (lf_client_interfaces facts) name = names_in (lf_client_interfaces no_facts) name \<union> (\<Union>e \<in> set ends. ?client e)"
    unfolding facts_def by (rule fold_collects) (auto simp: add_link_end_names)
  then show "names_in (lf_client_interfaces facts) name = {i. \<exists>d p. (d, i, p) \<in> set ends \<and> dev_name d = name \<and> dev_role d = CLIENT}"
    by (simp only: union_of_ends [where ends = ends and P = "\<lambda>d p. dev_name d = name \<and> dev_role d = CLIENT" and h = "\<lambda>i. i"] start Un_empty_left image_ident)
  have "names_in (lf_switch_interfaces facts) name = names_in (lf_switch_interfaces no_facts) name \<union> (\<Union>e \<in> set ends. ?switch e)"
    unfolding facts_def by (rule fold_collects) (auto simp: add_link_end_names)
  then show "names_in (lf_switch_interfaces facts) name =
       normalize_sonic_name ` {i. \<exists>d p. (d, i, p) \<in> set ends \<and> dev_name d = name \<and> dev_role d \<noteq> CLIENT}"
    by (simp only: union_of_ends [where ends = ends and P = "\<lambda>d p. dev_name d = name \<and> dev_role d \<noteq> CLIENT" and h = normalize_sonic_name] start Un_empty_left image_ident)
  have "role_names_in (lf_interface_roles facts) name ''uplink'' =
      role_names_in (lf_interface_roles no_facts) name ''uplink'' \<union> (\<Union>e \<in> set ends. ?up e)"
    unfolding facts_def
    by (rule fold_collects [where view = "\<lambda>f. role_names_in (lf_interface_roles f) name ''uplink''"]) (clarsimp simp only: add_link_end_roles prod.case)
  then show "role_names_in (lf_interface_roles facts) name ''uplink'' =
       normalize_sonic_name ` {i. \<exists>d p. (d, i, p) \<in> set ends \<and> dev_name d = name \<and> dev_role p \<in> uplink_peers (dev_role d)}"
    by (simp only: union_of_ends [where ends = ends and P = "\<lambda>d p. dev_name d = name \<and> dev_role p \<in> uplink_peers (dev_role d)" and h = normalize_sonic_name] start Un_empty_left image_ident)
  have "role_names_in (lf_interface_roles facts) name ''downlink'' =
      role_names_in (lf_interface_roles no_facts) name ''downlink'' \<union> (\<Union>e \<in> set ends. ?down e)"
    unfolding facts_def
    by (rule fold_collects [where view = "\<lambda>f. role_names_in (lf_interface_roles f) name ''downlink''"]) (clarsimp simp only: add_link_end_roles prod.case)
  then show "role_names_in (lf_interface_roles facts) name ''downlink'' =
       normalize_sonic_name ` {i. \<exists>d p. (d, i, p) \<in> set ends \<and> dev_name d = name \<and> dev_role p \<in> downlink_peers (dev_role d)}"
    by (simp only: union_of_ends [where ends = ends and P = "\<lambda>d p. dev_name d = name \<and> dev_role p \<in> downlink_peers (dev_role d)" and h = normalize_sonic_name] start Un_empty_left image_ident)
qed

lemma known_device_iff:
  assumes "distinct (map dev_name (mf_devices m))"
  shows "known_device m name = Inr d \<longleftrightarrow> d \<in> set (mf_devices m) \<and> dev_name d = name"
proof -
  have d: "distinct (map fst (map (\<lambda>d. (dev_name d, d)) (mf_devices m)))" using assms by (simp add: comp_def)
  have "dict_get (devices_by_name m) name = Some d \<longleftrightarrow> d \<in> set (mf_devices m) \<and> dev_name d = name" for d
    unfolding devices_by_name_def dict_of_distinct [OF d] map_of_eq_Some_iff [OF d] by auto
  then show ?thesis
    by (cases "dict_get (devices_by_name m) name") (auto simp: known_device_def)
qed

lemma directed_ends_devices: "wf_manifest m \<Longrightarrow> (this, peer) \<in> set (directed_ends m) \<Longrightarrow>
  (\<exists>d \<in> set (mf_devices m). dev_name d = ep_device this) \<and> (\<exists>d \<in> set (mf_devices m). dev_name d = ep_device peer)"
proof -
  assume wf: "wf_manifest m" and t: "(this, peer) \<in> set (directed_ends m)"
  from t obtain l where l: "l \<in> set (mf_links m)" "link_endpoints l \<in> {(this, peer), (peer, this)}"
    by (auto simp: directed_ends_iff)
  from l(2) have "this \<in> set [fst (link_endpoints l), snd (link_endpoints l)]" "peer \<in> set [fst (link_endpoints l), snd (link_endpoints l)]"
    by (cases "link_endpoints l"; auto)+
  with l(1) have "this \<in> set (link_ends m)" "peer \<in> set (link_ends m)"
    unfolding link_ends_def by auto
  with wf show ?thesis by (force simp: wf_manifest_def)
qed

text \<open>For an accepted manifest every end finds its devices.\<close>

lemma resolved_ends_wf:
  assumes "wf_manifest m"
  obtains ends where "resolved_ends m = Inr ends"
    "\<And>d i p. (d, i, p) \<in> set ends \<longleftrightarrow> d \<in> set (mf_devices m) \<and> p \<in> set (mf_devices m) \<and>
       (\<exists>this peer. (this, peer) \<in> set (directed_ends m) \<and> ep_device this = dev_name d \<and> ep_interface this = i \<and> ep_device peer = dev_name p)"
proof -
  have names: "distinct (map dev_name (mf_devices m))" using assms by (simp add: wf_manifest_def)
  define dev where "dev = (\<lambda>name. projr (known_device m name))"
  have dev: "known_device m (dev_name d) = Inr d \<and> dev (dev_name d) = d" if "d \<in> set (mf_devices m)" for d
    using known_device_iff [OF names, of "dev_name d" d] that by (simp add: dev_def)
  define g where "g = (\<lambda>(this :: link_endpoint, peer :: link_endpoint). (dev (ep_device this), ep_interface this, dev (ep_device peer)))"
  have "resolved_ends m = Inr (map g (directed_ends m))"
    unfolding resolved_ends_def
  proof (rule mapE_Inr_map, clarify)
    fix this peer :: link_endpoint assume "(this, peer) \<in> set (directed_ends m)"
    from directed_ends_devices [OF assms this] obtain d p where
      "d \<in> set (mf_devices m)" "dev_name d = ep_device this" "p \<in> set (mf_devices m)" "dev_name p = ep_device peer" by blast
    then have "known_device m (ep_device this) = Inr d" "dev (ep_device this) = d"
      "known_device m (ep_device peer) = Inr p" "dev (ep_device peer) = p"
      using dev by metis+
    then show "bindE (known_device m (ep_device this)) (\<lambda>d. bindE (known_device m (ep_device peer)) (\<lambda>p. Inr (d, ep_interface this, p)))
        = Inr (g (this, peer))" by (simp add: g_def)
  qed
  moreover have "(d, i, p) \<in> set (map g (directed_ends m)) \<longleftrightarrow> d \<in> set (mf_devices m) \<and> p \<in> set (mf_devices m) \<and>
       (\<exists>this peer. (this, peer) \<in> set (directed_ends m) \<and> ep_device this = dev_name d \<and> ep_interface this = i \<and> ep_device peer = dev_name p)"
    for d i p
  proof
    assume "(d, i, p) \<in> set (map g (directed_ends m))"
    then obtain this peer where t: "(this, peer) \<in> set (directed_ends m)" "g (this, peer) = (d, i, p)" by force
    from directed_ends_devices [OF assms t(1)] t dev
    show "d \<in> set (mf_devices m) \<and> p \<in> set (mf_devices m) \<and>
       (\<exists>this peer. (this, peer) \<in> set (directed_ends m) \<and> ep_device this = dev_name d \<and> ep_interface this = i \<and> ep_device peer = dev_name p)"
      by (fastforce simp: g_def)
  next
    assume a: "d \<in> set (mf_devices m) \<and> p \<in> set (mf_devices m) \<and>
       (\<exists>this peer. (this, peer) \<in> set (directed_ends m) \<and> ep_device this = dev_name d \<and> ep_interface this = i \<and> ep_device peer = dev_name p)"
    then obtain this peer where t: "(this, peer) \<in> set (directed_ends m)" "ep_device this = dev_name d" "ep_interface this = i"
      "ep_device peer = dev_name p" by blast
    with a dev have "g (this, peer) = (d, i, p)" by (simp add: g_def)
    with t(1) show "(d, i, p) \<in> set (map g (directed_ends m))" by force
  qed
  ultimately show ?thesis by (rule that)
qed

text \<open>
  C36. The targets offered for a fault are those of the topology: for every accepted manifest the facts
  are derived without an error; the interfaces of a client are those of its links, the interfaces of
  a switch are the normal forms of those of its links, and its uplinks and downlinks are the normal
  forms of the interfaces that lead to the layer above and to the layer below.
\<close>

theorem interface_facts_exact:
  assumes "make_manifest m = Inr m" "d \<in> set (mf_devices m)"
  shows "\<exists>interfaces roles client_interfaces.
    interface_facts_from_manifest m = Inr (interfaces, roles, client_interfaces) \<and>
    (if dev_role d = CLIENT then
       set (dict_get_default client_interfaces (dev_name d) []) = link_interfaces m (dev_name d) UNIV
     else
       set (dict_get_default interfaces (dev_name d) []) = normalize_sonic_name ` link_interfaces m (dev_name d) UNIV \<and>
       set (dict_get_default (dict_get_default roles (dev_name d) []) ''uplink'' []) =
         normalize_sonic_name ` link_interfaces m (dev_name d) (uplink_peers (dev_role d)) \<and>
       set (dict_get_default (dict_get_default roles (dev_name d) []) ''downlink'' []) =
         normalize_sonic_name ` link_interfaces m (dev_name d) (downlink_peers (dev_role d)))"
proof -
  have wf: "wf_manifest m" using assms(1) by (simp add: make_manifest_iff)
  obtain ends where e: "resolved_ends m = Inr ends"
    and ends: "\<And>d i p. (d, i, p) \<in> set ends \<longleftrightarrow> d \<in> set (mf_devices m) \<and> p \<in> set (mf_devices m) \<and>
       (\<exists>this peer. (this, peer) \<in> set (directed_ends m) \<and> ep_device this = dev_name d \<and> ep_interface this = i \<and> ep_device peer = dev_name p)"
    using resolved_ends_wf [OF wf] by blast
  define facts where "facts = fold add_link_end ends no_facts"
  have same: "d' = d" if "d' \<in> set (mf_devices m)" "dev_name d' = dev_name d" for d'
    using wf that assms(2) by (auto simp: wf_manifest_def distinct_map inj_on_def)
  have collected: "{i. \<exists>d' p. (d', i, p) \<in> set ends \<and> dev_name d' = dev_name d \<and> P d' p} = link_interfaces m (dev_name d) roles"
    if "\<And>p. p \<in> set (mf_devices m) \<Longrightarrow> P d p \<longleftrightarrow> dev_role p \<in> roles" for P roles
  proof (rule set_eqI)
    fix i
    have "(\<exists>d' p. (d', i, p) \<in> set ends \<and> dev_name d' = dev_name d \<and> P d' p) \<longleftrightarrow>
        (\<exists>p. (d, i, p) \<in> set ends \<and> dev_role p \<in> roles)"
      using same that ends by metis
    also have "\<dots> \<longleftrightarrow> i \<in> link_interfaces m (dev_name d) roles"
    proof
      assume "i \<in> link_interfaces m (dev_name d) roles"
      then obtain this peer p where "(this, peer) \<in> set (directed_ends m)" "ep_device this = dev_name d" "ep_interface this = i"
        "p \<in> set (mf_devices m)" "dev_name p = ep_device peer" "dev_role p \<in> roles"
        unfolding link_interfaces_def directed_ends_iff by blast
      with assms(2) have "(d, i, p) \<in> set ends" unfolding ends by metis
      with \<open>dev_role p \<in> roles\<close> show "\<exists>p. (d, i, p) \<in> set ends \<and> dev_role p \<in> roles" by blast
    next
      assume "\<exists>p. (d, i, p) \<in> set ends \<and> dev_role p \<in> roles"
      then show "i \<in> link_interfaces m (dev_name d) roles"
        unfolding ends link_interfaces_def mem_Collect_eq directed_ends_iff by (elim exE conjE bexE) metis
    qed
    finally show "i \<in> {i. \<exists>d' p. (d', i, p) \<in> set ends \<and> dev_name d' = dev_name d \<and> P d' p} \<longleftrightarrow>
        i \<in> link_interfaces m (dev_name d) roles" by simp
  qed
  have fin: "finite (names_in (lf_client_interfaces facts) n)" "finite (names_in (lf_switch_interfaces facts) n)"
    "finite (role_names_in (lf_interface_roles facts) n ''uplink'')" "finite (role_names_in (lf_interface_roles facts) n ''downlink'')" for n
  proof -
    have "finite {i. \<exists>d p. (d, i, p) \<in> set ends \<and> P d p}" for P
      by (rule finite_subset [of _ "(\<lambda>(d, i, p). i) ` set ends"]) force+
    note collected_finite = this
    show "finite (names_in (lf_client_interfaces facts) n)" "finite (names_in (lf_switch_interfaces facts) n)"
      "finite (role_names_in (lf_interface_roles facts) n ''uplink'')" "finite (role_names_in (lf_interface_roles facts) n ''downlink'')"
      unfolding facts_def fold_link_ends by (rule finite_imageI collected_finite)+
  qed
  have names: "set (dict_get_default (sorted_names d) n []) = names_in d n" if "finite (names_in d n)" for d n
    using that by (auto simp: sorted_names_def dict_get_default_def map_of_map split: option.splits)
  have roles: "set (dict_get_default (dict_get_default (map (\<lambda>(name, roles). (name, sorted_names roles)) rs) n []) q []) =
      role_names_in rs n q" if "finite (role_names_in rs n q)" for rs n q
    using that names [of "dict_get_default rs n no_roles" q]
    by (cases "map_of rs n") (auto simp: role_names_in_def dict_get_default_def map_of_map no_roles_def)
  have "dev_role d = CLIENT \<Longrightarrow> names_in (lf_client_interfaces facts) (dev_name d) = link_interfaces m (dev_name d) UNIV"
    unfolding facts_def fold_link_ends by (rule collected) simp
  moreover have "names_in (lf_switch_interfaces facts) (dev_name d) = normalize_sonic_name ` link_interfaces m (dev_name d) UNIV"
    if "dev_role d \<noteq> CLIENT"
    unfolding facts_def fold_link_ends using that by (intro arg_cong [of _ _ "image _"] collected) simp
  moreover have "role_names_in (lf_interface_roles facts) (dev_name d) ''uplink'' =
      normalize_sonic_name ` link_interfaces m (dev_name d) (uplink_peers (dev_role d))"
    unfolding facts_def fold_link_ends by (intro arg_cong [of _ _ "image _"] collected) simp
  moreover have "role_names_in (lf_interface_roles facts) (dev_name d) ''downlink'' =
      normalize_sonic_name ` link_interfaces m (dev_name d) (downlink_peers (dev_role d))"
    unfolding facts_def fold_link_ends by (intro arg_cong [of _ _ "image _"] collected) simp
  ultimately show ?thesis
    unfolding interface_facts_from_manifest_def e bindE_simps Let_def facts_def [symmetric]
    by (simp add: names [OF fin(1)] names [OF fin(2)] roles [OF fin(3)] roles [OF fin(4)])
qed

definition small_fabric :: manifest where
  "small_fabric =
     (let switch = (\<lambda>name role. \<lparr>dev_name = name, dev_role = role, dev_mgmt_ip = None, dev_data_ip = None,
            dev_attached_switch = None, dev_asn = None, dev_router_id = None, dev_metadata = []\<rparr>);
          link_of = (\<lambda>a i b j. \<lparr>link_kind = ''fabric'', link_endpoints = (\<lparr>ep_device = a, ep_interface = i\<rparr>,
            \<lparr>ep_device = b, ep_interface = j\<rparr>), link_mtu = 9232\<rparr>)
      in example_manifest\<lparr>
           mf_devices := [switch ''spine1'' SPINE, switch ''leaf1'' LEAF,
             (switch ''client1'' CLIENT)\<lparr>dev_attached_switch := Some ''leaf1'', dev_data_ip := Some ''10.1.1.2''\<rparr>],
           mf_links := [link_of ''spine1'' ''eth1'' ''leaf1'' ''eth1'', link_of ''leaf1'' ''eth2'' ''client1'' ''eth1''],
           mf_routing := (mf_routing example_manifest)\<lparr>rt_ecmp_policy := [(LEAF, 1), (SPINE, 1)]\<rparr>\<rparr>)"

lemma small_fabric_ok: "make_manifest small_fabric = Inr small_fabric"
  unfolding make_manifest_iff by (auto simp: wf_manifest_def small_fabric_def example_manifest_def present_def switches_def link_ends_def)

theorem interface_facts_exact_witness:
  "\<exists>interfaces roles clients. interface_facts_from_manifest small_fabric = Inr (interfaces, roles, clients) \<and>
     set (dict_get_default (dict_get_default roles ''leaf1'' []) ''uplink'' []) = {''Ethernet0''} \<and>
     set (dict_get_default (dict_get_default roles ''leaf1'' []) ''downlink'' []) = {''Ethernet4''}"
proof -
  have "\<exists>d \<in> set (mf_devices small_fabric). dev_name d = ''leaf1'' \<and> dev_role d = LEAF"
    by (simp add: small_fabric_def)
  then obtain d where leaf: "d \<in> set (mf_devices small_fabric)" "dev_name d = ''leaf1''" "dev_role d = LEAF" by blast
  have links: "link_interfaces small_fabric ''leaf1'' {SPINE} = {''eth1''}" "link_interfaces small_fabric ''leaf1'' {CLIENT} = {''eth2''}"
    by (auto simp: link_interfaces_def small_fabric_def conj_disj_distribL conj_disj_distribR ex_disj_distrib)
  have names: "normalize_sonic_name ''eth1'' = ''Ethernet0''" "normalize_sonic_name ''eth2'' = ''Ethernet4''"
    by code_simp+
  have role: "(LEAF = CLIENT) = False" by simp
  from interface_facts_exact [OF small_fabric_ok leaf(1)]
  obtain interfaces roles cs where f: "interface_facts_from_manifest small_fabric = Inr (interfaces, roles, cs)"
    and "set (dict_get_default (dict_get_default roles ''leaf1'' []) ''uplink'' []) = {''Ethernet0''}"
      "set (dict_get_default (dict_get_default roles ''leaf1'' []) ''downlink'' []) = {''Ethernet4''}"
    unfolding leaf(2,3) role if_False uplink_peers.simps downlink_peers.simps links image_insert image_empty names
    by (elim exE conjE)
  then show ?thesis by (intro exI conjI)
qed

end
