(* ===== verification/Scenario_Generator.thy ===== *)
theory Scenario_Generator
  imports Scenario_Inventory Scenario_Files Scenario_Executor
begin

text \<open>
  The second half of \<open>netopsbench/platform/scenario/generator.py\<close>: targets of faults, payloads of scenarios,
  and the campaign that generates them.  \<open>random.Random\<close> is a parameter with a state of its own:
  \<open>rd_below n\<close> draws a number below \<open>n\<close>, and \<open>choice\<close> and \<open>shuffle\<close> are those of the library over it.
\<close>

section \<open>Random choices\<close>

record 'r random_source =
  rd_seed :: "nat \<Rightarrow> 'r"
  rd_below :: "nat \<Rightarrow> 'r \<Rightarrow> nat \<times> 'r"
  rd_sha256 :: "string \<Rightarrow> nat list"

definition below :: "'r random_source \<Rightarrow> nat \<Rightarrow> ('r, nat) action" where
  "below rd n r = (case rd_below rd n r of (i, r') \<Rightarrow> (Inr i, r'))"

definition rng_choice :: "'r random_source \<Rightarrow> 'a list \<Rightarrow> ('r, 'a) action" where
  "rng_choice rd xs =
     (if xs = [] then raiseS (IndexError ''Cannot choose from an empty sequence'')
      else bindS (below rd (length xs)) (\<lambda>i. returnS (xs ! i)))"

fun shuffle_from :: "'r random_source \<Rightarrow> nat \<Rightarrow> 'a list \<Rightarrow> ('r, 'a list) action" where
  "shuffle_from rd 0 xs = returnS xs"
| "shuffle_from rd (Suc i) xs =
     bindS (below rd (i + 2)) (\<lambda>j. shuffle_from rd i (xs[Suc i := xs ! j, j := xs ! Suc i]))"

definition rng_shuffle :: "'r random_source \<Rightarrow> 'a list \<Rightarrow> ('r, 'a list) action" where
  "rng_shuffle rd xs = shuffle_from rd (length xs - 1) xs"

section \<open>Choosing devices and interfaces\<close>

type_synonym template = "(string, json) dict"

definition device_names :: "topology_context \<Rightarrow> device_role \<Rightarrow> string list" where
  "device_names topo role = map dev_name (devices_by_role (tc_manifest topo) role)"

text \<open>The clients as agents see them.\<close>

definition client_entries :: "topology_context \<Rightarrow> (string, json) dict list" where
  "client_entries topo = map (device_to_agent_entry (tc_manifest topo)) (clients (tc_manifest topo))"

definition entry_name :: "(string, json) dict \<Rightarrow> string" where
  "entry_name entry = json_text (dict_get_default entry ''name'' JNull)"

definition or_names :: "string list \<Rightarrow> string list \<Rightarrow> string list" where
  "or_names a b = (if a \<noteq> [] then a else b)"

definition device_candidates :: "string \<Rightarrow> topology_context \<Rightarrow> string list result" where
  "device_candidates role topo =
     (if role = ''spine'' \<or> role = ''core'' then Inr (or_names (device_names topo CORE) (device_names topo SPINE))
      else if role = ''leaf'' \<or> role = ''edge'' then Inr (or_names (device_names topo EDGE) (device_names topo LEAF))
      else if role = ''agg'' then
        (if device_names topo AGG = [] then
           Inl (ValueError (''device_role '' @ py_repr ''agg'' @ '' requires a fat-tree topology''))
         else Inr (device_names topo AGG))
      else if role = ''client'' then Inr (map entry_name (client_entries topo))
      else Inl (ValueError (''Unknown role: '' @ role)))"

definition pick_device :: "'r random_source \<Rightarrow> string \<Rightarrow> topology_context \<Rightarrow> ('r, string) action" where
  "pick_device rd role topo = bindS (liftS (device_candidates role topo)) (rng_choice rd)"

definition or_default_port :: "string list \<Rightarrow> string list" where
  "or_default_port names = (if names = [] then [''Ethernet0''] else names)"

definition normalized_interfaces :: "topology_context \<Rightarrow> string \<Rightarrow> string list" where
  "normalized_interfaces topo device =
     map normalize_sonic_name (or_default_port (dict_get_default (tc_device_interfaces topo) device []))"

definition pick_network_interface :: "'r random_source \<Rightarrow> string \<Rightarrow> topology_context \<Rightarrow> ('r, string) action" where
  "pick_network_interface rd device topo = rng_choice rd (normalized_interfaces topo device)"

definition pick_bgp_neighbor ::
  "'r random_source \<Rightarrow> string \<Rightarrow> topology_context \<Rightarrow> json option \<Rightarrow> ('r, frr_neighbor) action" where
  "pick_bgp_neighbor rd device topo interface_role =
     (let neighbors = dict_get_default (tc_bgp_neighbors topo) device [];
          candidates = (if truthy interface_role
                        then filter (\<lambda>n. Some (jstr_opt (fn_interface_role n)) = interface_role) neighbors else neighbors);
          suffix = (if truthy interface_role then '' for interface_role='' @ json_text (the interface_role) else [])
      in if candidates = [] then raiseS (ValueError (''Device '' @ device @ '' has no parsed BGP neighbors'' @ suffix))
         else rng_choice rd candidates)"

definition pick_advertised_network :: "'r random_source \<Rightarrow> string \<Rightarrow> topology_context \<Rightarrow> ('r, frr_network) action" where
  "pick_advertised_network rd device topo =
     (let candidates = dict_get_default (tc_bgp_networks topo) device []
      in if candidates = [] then raiseS (ValueError (''Device '' @ device @ '' has no parsed BGP networks''))
         else rng_choice rd candidates)"

text \<open>\<open>str(entry.get(a) or entry.get(b) or "").strip()\<close>.\<close>

definition entry_text :: "(string, json) dict \<Rightarrow> string list \<Rightarrow> string" where
  "entry_text entry keys =
     str_strip (case find (\<lambda>key. truthy (dict_get entry key)) keys of
       Some key \<Rightarrow> json_text (the (dict_get entry key)) | None \<Rightarrow> [])"

definition client_leaf :: "(string, json) dict \<Rightarrow> string" where
  "client_leaf client = entry_text client [''leaf'', ''edge'']"

definition pick_client_for_route_fault ::
  "'r random_source \<Rightarrow> topology_context \<Rightarrow> string option \<Rightarrow> ('r, (string, json) dict) action" where
  "pick_client_for_route_fault rd topo excluded_leaf =
     (let candidates = client_entries topo;
          remote = filter (\<lambda>c. Some (client_leaf c) \<noteq> excluded_leaf) candidates
      in rng_choice rd (if given excluded_leaf \<and> remote \<noteq> [] then remote else candidates))"

definition missing_data_ip :: "(string, json) dict \<Rightarrow> exc" where
  "missing_data_ip client =
     ValueError (''Client '' @ json_text (dict_get_default client ''name'' (JStr ''unknown''))
       @ '' missing data_ip in topology metadata'')"

definition client_subnet :: "(string, json) dict \<Rightarrow> nat \<Rightarrow> string result" where
  "client_subnet client prefix_len =
     (let ip = entry_text client [''data_ip'']
      in if ip = [] then Inl (missing_data_ip client)
         else (case parse_ipv4 ip of
                 None \<Rightarrow> Inl (ValueError ip)
               | Some n \<Rightarrow> Inr (network_str (masked_network n prefix_len))))"

definition client_host_route :: "(string, json) dict \<Rightarrow> string result" where
  "client_host_route client =
     (let ip = entry_text client [''data_ip'']
      in if ip = [] then Inl (missing_data_ip client) else Inr (ip @ ''/32''))"

definition has_role :: "topology_context \<Rightarrow> string \<Rightarrow> device_role list \<Rightarrow> bool" where
  "has_role topo device allowed =
     (case device_named (tc_manifest topo) device of Some d \<Rightarrow> dev_role d \<in> set allowed | None \<Rightarrow> False)"

definition role_pool :: "topology_context \<Rightarrow> string \<Rightarrow> string \<Rightarrow> string list" where
  "role_pool topo device role = dict_get_default (dict_get_default (tc_leaf_interface_roles topo) device []) role []"

definition pick_link_down_interface :: "'r random_source \<Rightarrow> string \<Rightarrow> topology_context \<Rightarrow> ('r, string) action" where
  "pick_link_down_interface rd device topo =
     (if has_role topo device [LEAF, EDGE] \<and> role_pool topo device ''downlink'' \<noteq> [] then
        rng_choice rd (role_pool topo device ''downlink'')
      else rng_choice rd (normalized_interfaces topo device))"

definition pick_leaf_interface :: "'r random_source \<Rightarrow> string \<Rightarrow> topology_context \<Rightarrow> string \<Rightarrow> ('r, string) action" where
  "pick_leaf_interface rd device topo role =
     (let wanted = str_lower (text_or role ''any'');
          pool = or_names (role_pool topo device wanted) (role_pool topo device ''any'')
      in if pool \<noteq> [] then rng_choice rd pool else pick_network_interface rd device topo)"

definition is_role_aware_switch :: "string \<Rightarrow> topology_context \<Rightarrow> bool" where
  "is_role_aware_switch device topo = has_role topo device [LEAF, EDGE, AGG]"

definition pick_client_interface :: "'r random_source \<Rightarrow> string \<Rightarrow> topology_context \<Rightarrow> ('r, string) action" where
  "pick_client_interface rd device topo =
     (let candidates = dict_get_default (tc_client_interfaces topo) device []
      in if candidates \<noteq> [] then rng_choice rd candidates else returnS ''eth1'')"

section \<open>Targets of faults\<close>

record build_target =
  tg_device :: string
  tg_interface :: "string option"
  tg_prefix :: "string option"
  tg_mtu :: "int option"
  tg_metadata :: "(string, json) dict"

definition new_target :: "string \<Rightarrow> build_target" where
  "new_target device = \<lparr>tg_device = device, tg_interface = None, tg_prefix = None, tg_mtu = None, tg_metadata = []\<rparr>"

text \<open>\<open>role.lower()\<close> needs a text.\<close>

definition role_text :: "json \<Rightarrow> string result" where
  "role_text v =
     (case v of JStr s \<Rightarrow> Inr s | _ \<Rightarrow> Inl (AttributeError ''interface_role has no attribute lower''))"

definition template_get :: "template \<Rightarrow> string \<Rightarrow> json \<Rightarrow> json" where
  "template_get template key default_value = dict_get_default template key default_value"

definition role_or_uplink :: "template \<Rightarrow> json" where
  "role_or_uplink template =
     (let v = dict_get template ''interface_role'' in if truthy v then the v else JStr ''uplink'')"

type_synonym 'r target_builder =
  "'r random_source \<Rightarrow> topology_context \<Rightarrow> template \<Rightarrow> string option \<Rightarrow> ('r, build_target) action"

definition chosen_device :: "'r random_source \<Rightarrow> string option \<Rightarrow> string \<Rightarrow> topology_context \<Rightarrow> ('r, string) action" where
  "chosen_device rd target_device role topo =
     (if given target_device then returnS (the target_device) else pick_device rd role topo)"

definition generic_fault_target :: "'r target_builder" where
  "generic_fault_target rd topo template target_device =
     bindS (chosen_device rd target_device (json_text (template_get template ''device_role'' (JStr ''leaf''))) topo)
       (\<lambda>device. returnS (new_target device))"

definition with_interface :: "('r, string) action \<Rightarrow> build_target \<Rightarrow> ('r, build_target) action" where
  "with_interface pick target = bindS pick (\<lambda>iface. returnS (target\<lparr>tg_interface := Some iface\<rparr>))"

definition role_interface :: "'r random_source \<Rightarrow> topology_context \<Rightarrow> string \<Rightarrow> json \<Rightarrow> ('r, string) action" where
  "role_interface rd topo device role =
     (if is_role_aware_switch device topo then bindS (liftS (role_text role)) (pick_leaf_interface rd device topo)
      else pick_network_interface rd device topo)"

definition link_down_target :: "'r target_builder" where
  "link_down_target rd topo template target_device =
     bindS (generic_fault_target rd topo template target_device) (\<lambda>target.
       let role = dict_get template ''interface_role''
       in with_interface
            (if \<not> truthy role then pick_link_down_interface rd (tg_device target) topo
             else role_interface rd topo (tg_device target) (the role)) target)"

definition role_interface_target :: "'r target_builder" where
  "role_interface_target rd topo template target_device =
     bindS (generic_fault_target rd topo template target_device) (\<lambda>target.
       with_interface (role_interface rd topo (tg_device target) (role_or_uplink template)) target)"

definition packet_fault_target :: "'r target_builder" where
  "packet_fault_target rd topo template target_device =
     bindS (generic_fault_target rd topo template target_device) (\<lambda>target.
       with_interface
         (if has_role topo (tg_device target) [CLIENT] then pick_client_interface rd (tg_device target) topo
          else role_interface rd topo (tg_device target) (role_or_uplink template)) target)"

definition blackhole_target :: "'r target_builder" where
  "blackhole_target rd topo template target_device =
     bindS (generic_fault_target rd topo template target_device) (\<lambda>target.
     bindS (pick_client_for_route_fault rd topo (Some (tg_device target))) (\<lambda>client.
     bindS (liftS (client_subnet client 30)) (\<lambda>subnet. returnS (target\<lparr>tg_prefix := Some subnet\<rparr>))))"

definition static_route_target :: "'r target_builder" where
  "static_route_target rd topo template target_device =
     bindS (chosen_device rd target_device ''leaf'' topo) (\<lambda>device.
     bindS (pick_client_for_route_fault rd topo (Some device)) (\<lambda>client.
     bindS (liftS (client_host_route client)) (\<lambda>route.
       returnS ((new_target device)\<lparr>tg_metadata := [(''target_ip'', JStr route), (''wrong_nexthop'', JStr ''auto'')]\<rparr>))))"

definition bgp_neighbor_target :: "'r target_builder" where
  "bgp_neighbor_target rd topo template target_device =
     bindS (generic_fault_target rd topo template target_device) (\<lambda>target.
     bindS (pick_bgp_neighbor rd (tg_device target) topo (dict_get template ''interface_role'')) (\<lambda>neighbor.
       returnS (target\<lparr>tg_metadata :=
         [(''peer_ip'', JStr (fn_peer_ip neighbor)),
          (''misconfig_kind'', template_get template ''misconfig_kind'' (JStr ''peer_as_mismatch''))]
         @ optional_entry ''original_remote_as'' JInt (fn_remote_as neighbor)\<rparr>)))"

definition route_policy_target :: "'r target_builder" where
  "route_policy_target rd topo template target_device =
     bindS (generic_fault_target rd topo template target_device) (\<lambda>target.
     bindS (pick_advertised_network rd (tg_device target) topo) (\<lambda>network.
       returnS (target\<lparr>tg_prefix := Some (fw_prefix network), tg_metadata :=
         [(''misconfig_kind'', template_get template ''misconfig_kind'' (JStr ''network_statement_missing''))]
         @ (if given (fw_route_map network) then [(''route_map'', jstr_opt (fw_route_map network))] else [])\<rparr>)))"

definition acl_target :: "'r target_builder" where
  "acl_target rd topo template target_device =
     bindS (generic_fault_target rd topo template target_device) (\<lambda>target.
     bindS (pick_advertised_network rd (tg_device target) topo) (\<lambda>network.
     bindS (with_interface (role_interface rd topo (tg_device target) (JStr ''uplink''))
              (target\<lparr>tg_prefix := Some (fw_prefix network)\<rparr>)) (\<lambda>target'.
       returnS (target'\<lparr>tg_metadata := [(''direction'', template_get template ''direction'' (JStr ''in''))]\<rparr>))))"

definition fault_scenario_builders :: "(string \<times> 'r target_builder) list" where
  "fault_scenario_builders =
     [(''device_down'', generic_fault_target), (''link_down'', link_down_target), (''link_flapping'', role_interface_target),
      (''mtu_mismatch'', role_interface_target), (''high_latency'', role_interface_target),
      (''packet_loss'', packet_fault_target), (''packet_corruption'', packet_fault_target),
      (''blackhole_route'', blackhole_target), (''static_route_misconfig'', static_route_target),
      (''bgp_neighbor_misconfig'', bgp_neighbor_target), (''route_policy_misconfig'', route_policy_target),
      (''acl_misconfig'', acl_target)]"

section \<open>One scenario\<close>

definition diagnostic_observation_duration :: "int \<Rightarrow> manifest \<Rightarrow> int" where
  "diagnostic_observation_duration base_duration m =
     max base_duration (complete_window_seconds (mf_pingmesh m) (tf_total_clients (mf_facts m)))"

text \<open>\<open>int(d.get(key, default))\<close>.\<close>

definition int_setting :: "template \<Rightarrow> string \<Rightarrow> json \<Rightarrow> int result" where
  "int_setting d key default_value = json_to_int (template_get d key default_value)"

text \<open>\<open>f"{idx:03d}"\<close>.\<close>

definition three_digits :: "nat \<Rightarrow> string" where
  "three_digits idx = (let t = nat_str idx in replicate (3 - length t) (CHR ''0'') @ t)"

definition generator_metadata :: "json \<Rightarrow> topology_context \<Rightarrow> template \<Rightarrow> template \<Rightarrow> string \<Rightarrow> (string, json) dict" where
  "generator_metadata difficulty topo defaults template name =
     [(''difficulty'', difficulty),
      (''generator'', JObj [(''seed'', template_get defaults ''seed'' JNull), (''topology_dir'', JStr (tc_topology_dir topo)),
         (''template'', template_get template ''name'' (JStr name))])]"

definition scale_of :: "topology_context \<Rightarrow> string" where
  "scale_of topo = mf_scale (tc_manifest topo)"

definition healthy_payload ::
  "json \<Rightarrow> topology_context \<Rightarrow> template \<Rightarrow> template \<Rightarrow> nat \<Rightarrow> int \<Rightarrow> (string, json) dict" where
  "healthy_payload difficulty topo defaults template idx duration =
     [(''schema_version'', JStr ''1''),
      (''scenario_id'', JStr (''generated_healthy_network_'' @ scale_of topo @ ''_'' @ three_digits idx)),
      (''name'', JStr (''Generated healthy network case #'' @ nat_str idx @ '' ('' @ scale_of topo @ '')'')),
      (''description'', JStr (''Auto-generated healthy network scenario ('' @ scale_of topo @ '' topology).'')),
      (''topology_scale'', JStr (scale_of topo)), (''traffic_profile'', JStr ''standard''),
      (''metadata'', JObj (generator_metadata difficulty topo defaults template ''healthy_network'')),
      (''episode'', JObj [(''episode_id'', JStr ''diagnosis''),
         (''description'', JStr ''Observe healthy network without fault injection''), (''fault_type'', JStr ''none''),
         (''duration_seconds'', JInt duration), (''stabilization_time'', JInt 0)])]"

text \<open>\<open>{**template, **template["parameters"]}\<close>.\<close>

definition merged_template :: "template \<Rightarrow> template result" where
  "merged_template template =
     (case dict_get template ''parameters'' of
        None \<Rightarrow> Inr template
      | Some (JObj kvs) \<Rightarrow> Inr (dict_update template kvs)
      | Some _ \<Rightarrow> Inl (TypeError ''parameters is not a mapping''))"

definition parameter_defaults :: "string \<Rightarrow> (string \<times> int) list" where
  "parameter_defaults fault_type =
     dict_get_default
       [(''link_flapping'', [(''iterations'', 6), (''down_time'', 2), (''up_time'', 3)]),
        (''packet_loss'', [(''loss_pct'', 30)]), (''packet_corruption'', [(''corruption_pct'', 20)]),
        (''high_latency'', [(''latency_ms'', 100)])] fault_type []"

definition copy_if_true :: "template \<Rightarrow> string \<Rightarrow> (string, json) dict \<Rightarrow> (string, json) dict" where
  "copy_if_true template key d =
     (if truthy (dict_get template key) then dict_set d key (the (dict_get template key)) else d)"

definition set_parameters :: "template \<Rightarrow> string \<Rightarrow> (string, json) dict \<Rightarrow> (string, json) dict result" where
  "set_parameters template fault_type d =
     bindE (mapE (\<lambda>(key, default_value). bindE (int_setting template key (JInt default_value)) (\<lambda>i. Inr (key, JInt i)))
              (parameter_defaults fault_type)) (\<lambda>parameters. Inr (dict_update d parameters))"

definition fault_episode :: "string \<Rightarrow> build_target \<Rightarrow> template \<Rightarrow> (string, json) dict \<Rightarrow> int \<Rightarrow> int \<Rightarrow> (string, json) dict" where
  "fault_episode fault_type target template extra duration stabilization =
     [(''episode_id'', JStr ''diagnosis''),
      (''description'', JStr (''Inject '' @ fault_type @ '' on '' @ tg_device target)), (''fault_type'', JStr fault_type),
      (''target_device'', JStr (tg_device target)), (''duration_seconds'', JInt duration),
      (''stabilization_time'', JInt stabilization),
      (''metadata'', JObj (dict_update [(''severity'', template_get template ''severity'' (JStr ''medium''))] extra))]
     @ (if given (tg_interface target) then [(''target_interface'', jstr_opt (tg_interface target))] else [])
     @ (if given (tg_prefix target) then [(''target_prefix'', jstr_opt (tg_prefix target))] else [])
     @ (if tg_mtu target \<notin> {None, Some 0} then [(''mtu'', jint_opt (tg_mtu target))] else [])"

definition fault_payload ::
  "string \<Rightarrow> json \<Rightarrow> topology_context \<Rightarrow> template \<Rightarrow> template \<Rightarrow> nat \<Rightarrow> (string, json) dict \<Rightarrow> (string, json) dict" where
  "fault_payload fault_type difficulty topo defaults template idx episode =
     [(''schema_version'', JStr ''1''),
      (''scenario_id'', JStr (''generated_'' @ fault_type @ ''_'' @ scale_of topo @ ''_'' @ three_digits idx)),
      (''name'', JStr (''Generated '' @ fault_type @ '' case #'' @ nat_str idx @ '' ('' @ scale_of topo @ '')'')),
      (''description'', template_get template ''description'' (JStr (''Auto-generated '' @ fault_type
         @ '' localization scenario for '' @ scale_of topo @ '' topology.''))),
      (''topology_scale'', JStr (scale_of topo)), (''traffic_profile'', JStr ''standard''),
      (''metadata'', JObj (generator_metadata difficulty topo defaults template fault_type)),
      (''episode'', JObj episode)]"

definition base_duration :: "template \<Rightarrow> int result" where
  "base_duration defaults = int_setting defaults ''fault_duration_seconds'' (JInt 30)"

text \<open>What is computed once the target is known.\<close>

definition payload_for_target ::
  "string \<Rightarrow> json \<Rightarrow> topology_context \<Rightarrow> template \<Rightarrow> template \<Rightarrow> nat \<Rightarrow> build_target \<Rightarrow> (string, json) dict result" where
  "payload_for_target fault_type difficulty topo defaults template idx target0 =
     bindE (set_parameters template fault_type
              (copy_if_true template ''recovery_mode'' (copy_if_true template ''variant'' (tg_metadata target0)))) (\<lambda>extra.
     bindE (if fault_type = ''mtu_mismatch''
            then bindE (int_setting template ''mtu'' (JInt 1400)) (\<lambda>mtu. Inr (target0\<lparr>tg_mtu := Some mtu\<rparr>))
            else Inr target0) (\<lambda>target.
     bindE (base_duration defaults) (\<lambda>base.
     bindE (int_setting template ''fault_stabilization_seconds''
              (template_get defaults ''fault_stabilization_seconds'' (JInt 5))) (\<lambda>stabilization.
       Inr (fault_payload fault_type difficulty topo defaults template idx
         (fault_episode fault_type target template extra
            (diagnostic_observation_duration base (tc_manifest topo)) stabilization))))))"

definition build_fault_instance ::
  "'r random_source \<Rightarrow> string \<Rightarrow> json \<Rightarrow> topology_context \<Rightarrow> template \<Rightarrow> template \<Rightarrow> nat \<Rightarrow> string option \<Rightarrow>
   ('r, (string, json) dict) action" where
  "build_fault_instance rd fault_type difficulty topo defaults template0 idx target_device =
     (if fault_type = ''none'' then
        bindS (liftS (base_duration defaults)) (\<lambda>base.
          returnS (healthy_payload difficulty topo defaults template0 idx
            (diagnostic_observation_duration base (tc_manifest topo))))
      else
        bindS (liftS (merged_template template0)) (\<lambda>template.
          case map_of fault_scenario_builders fault_type of
            None \<Rightarrow> raiseS (ValueError (''No scenario builder registered for fault type: '' @ fault_type))
          | Some builder \<Rightarrow>
              bindS (builder rd topo template target_device) (\<lambda>target.
                liftS (payload_for_target fault_type difficulty topo defaults template idx target))))"

section \<open>Devices of a template\<close>

definition bytes_to_int :: "nat list \<Rightarrow> nat" where
  "bytes_to_int bytes = foldl (\<lambda>n b. 256 * n + b) 0 bytes"

definition stable_template_seed :: "'r random_source \<Rightarrow> int \<Rightarrow> string \<Rightarrow> string \<Rightarrow> nat" where
  "stable_template_seed rd seed scale template_name =
     bytes_to_int (take 8 (rd_sha256 rd (int_str seed @ [CHR 0x00] @ scale @ [CHR 0x00] @ template_name)))"

type_synonym pods = "(int, string list) dict"

definition device_pod :: "topology_context \<Rightarrow> string \<Rightarrow> int option result" where
  "device_pod topo name =
     bindE (known_device (tc_manifest topo) name) (\<lambda>d.
       case dict_get (dev_metadata d) ''pod'' of
         None \<Rightarrow> Inr None | Some JNull \<Rightarrow> Inr None | Some v \<Rightarrow> bindE (json_to_int v) (\<lambda>i. Inr (Some i)))"

definition add_to_pod :: "string \<times> int option \<Rightarrow> pods \<Rightarrow> pods" where
  "add_to_pod = (\<lambda>(name, pod) groups.
     case pod of Some p \<Rightarrow> dict_set groups p (dict_get_default groups p [] @ [name]) | None \<Rightarrow> groups)"

fun shuffle_pods :: "'r random_source \<Rightarrow> pods \<Rightarrow> ('r, pods) action" where
  "shuffle_pods rd [] = returnS []"
| "shuffle_pods rd ((pod, names) # groups) =
     bindS (rng_shuffle rd names) (\<lambda>names'.
     bindS (shuffle_pods rd groups) (\<lambda>groups'. returnS ((pod, names') # groups')))"

definition deal_one :: "int \<Rightarrow> pods \<times> string list \<Rightarrow> pods \<times> string list" where
  "deal_one pod = (\<lambda>(groups, ordered).
     let names = dict_get_default groups pod []
     in if names = [] then (groups, ordered) else (dict_set groups pod (butlast names), ordered @ [last names]))"

text \<open>
  The \<open>while\<close> loop: a round deals one device of each pod that has some left.  The fuel is the number
  of devices; a round deals at least one.
\<close>

fun deal_rounds :: "nat \<Rightarrow> int list \<Rightarrow> pods \<times> string list \<Rightarrow> string list" where
  "deal_rounds 0 pod_order st = snd st"
| "deal_rounds (Suc n) pod_order st =
     (if list_all (\<lambda>(pod, names). names = []) (fst st) then snd st
      else deal_rounds n pod_order (fold deal_one pod_order st))"

definition ordered_template_devices :: "'r random_source \<Rightarrow> string \<Rightarrow> topology_context \<Rightarrow> ('r, string list) action" where
  "ordered_template_devices rd role topo =
     bindS (liftS (device_candidates role topo)) (\<lambda>candidates.
     bindS (liftS (mapE (\<lambda>name. bindE (device_pod topo name) (\<lambda>pod. Inr (name, pod))) candidates)) (\<lambda>named.
       let groups = fold add_to_pod named []; without_pod = map fst (filter (\<lambda>(name, pod). pod = None) named)
       in if groups = [] then rng_shuffle rd candidates
          else
            bindS (rng_shuffle rd (sort (map fst groups))) (\<lambda>pod_order.
            bindS (shuffle_pods rd groups) (\<lambda>groups'.
            bindS (rng_shuffle rd without_pod) (\<lambda>rest.
              returnS (deal_rounds (length candidates) pod_order (groups', []) @ rest))))))"

section \<open>A campaign\<close>

text \<open>The parsed specification: a mapping of defaults and a list of templates.\<close>

record campaign =
  cp_defaults :: template
  cp_fault_templates :: "template list"

definition bad_profile :: "json option \<Rightarrow> bool" where
  "bad_profile v \<longleftrightarrow> v \<notin> {None, Some JNull, Some (JStr ''standard'')}"

definition validate_traffic_profiles :: "campaign \<Rightarrow> unit result" where
  "validate_traffic_profiles spec =
     (case find bad_profile (map (\<lambda>d. dict_get d ''traffic_profile'') (cp_defaults spec # cp_fault_templates spec)) of
        Some v \<Rightarrow> Inl (ValueError (''Only the standard traffic profile is supported, got: '' @ json_text (the v)))
      | None \<Rightarrow> Inr ())"

definition count_for_scale :: "template \<Rightarrow> string \<Rightarrow> int \<Rightarrow> int result" where
  "count_for_scale item scale default_count =
     (case dict_get item ''count_per_scale'' of
        Some (JObj cps) \<Rightarrow>
          (case dict_get cps scale of Some v \<Rightarrow> json_to_int v
           | None \<Rightarrow> int_setting item ''count'' (JInt default_count))
      | _ \<Rightarrow> int_setting item ''count'' (JInt default_count))"

definition text_or_json :: "json option \<Rightarrow> string \<Rightarrow> string" where
  "text_or_json v default_text = (if truthy v then json_text (the v) else default_text)"

definition template_targets ::
  "'r random_source \<Rightarrow> topology_context \<Rightarrow> template \<Rightarrow> string \<Rightarrow> string \<Rightarrow> nat \<Rightarrow> ('r, string option list) action" where
  "template_targets rd topo template fault_type template_name count =
     (if fault_type = ''none'' then returnS (replicate count None)
      else
       (let role = (if fault_type = ''static_route_misconfig'' then ''leaf''
                    else text_or_json (dict_get template ''device_role'') ''leaf'')
        in bindS (ordered_template_devices rd role topo) (\<lambda>ordered.
             if length ordered < count then
               raiseS (ValueError (''Template '' @ template_name @ '' requests '' @ nat_str count @ '' unique '' @ role
                 @ '' devices, but topology '' @ scale_of topo @ '' has only '' @ nat_str (length ordered)))
             else returnS (map Some (take count ordered)))))"

text \<open>
  The state of a campaign: the generator of the template at hand, the files written, and the next
  index of every fault type.
\<close>

record 'r generation =
  gn_rng :: 'r
  gn_files :: "(string, scenario_file) dict"
  gn_next_index :: "(string, nat) dict"

definition on_rng :: "('r, 'a) action \<Rightarrow> ('r generation, 'a) action" where
  "on_rng m s = (case m (gn_rng s) of (x, r) \<Rightarrow> (x, s\<lparr>gn_rng := r\<rparr>))"

definition changeS :: "('s \<Rightarrow> 's) \<Rightarrow> ('s, unit) action" where
  "changeS f s = (Inr (), f s)"

definition scenario_path :: "string \<Rightarrow> scenario_file \<Rightarrow> string" where
  "scenario_path out_dir f = out_dir @ ''/'' @ sc_id (sf_scenario f) @ ''.yaml''"

definition write_scenario ::
  "'r random_source \<Rightarrow> topology_context \<Rightarrow> template \<Rightarrow> string \<Rightarrow> template \<Rightarrow> string \<Rightarrow> json \<Rightarrow> string option \<Rightarrow>
   ('r generation, string) action" where
  "write_scenario rd topo defaults out_dir template fault_type difficulty target_device =
     bindS (changeS (\<lambda>s. s\<lparr>gn_next_index := dict_set (gn_next_index s) fault_type
              (dict_get_default (gn_next_index s) fault_type 0 + 1)\<rparr>)) (\<lambda>_.
     bindS (getS (\<lambda>s. dict_get_default (gn_next_index s) fault_type 0)) (\<lambda>idx.
     bindS (on_rng (build_fault_instance rd fault_type difficulty topo defaults template idx target_device)) (\<lambda>payload.
     bindS (liftS (validate_scenario_model payload)) (\<lambda>f.
     bindS (changeS (\<lambda>s. s\<lparr>gn_files := dict_set (gn_files s) (scenario_path out_dir f) f\<rparr>)) (\<lambda>_.
       returnS (scenario_path out_dir f))))))"

fun each_target :: "('a \<Rightarrow> ('s, 'b) action) \<Rightarrow> 'a list \<Rightarrow> ('s, 'b list) action" where
  "each_target f [] = returnS []"
| "each_target f (x # xs) = bindS (f x) (\<lambda>y. bindS (each_target f xs) (\<lambda>ys. returnS (y # ys)))"

definition run_template ::
  "'r random_source \<Rightarrow> topology_context \<Rightarrow> template \<Rightarrow> int \<Rightarrow> int \<Rightarrow> string \<Rightarrow> template \<Rightarrow> ('r generation, string list) action" where
  "run_template rd topo defaults default_count seed out_dir template =
     bindS (liftS (case dict_get template ''fault_type'' of Some v \<Rightarrow> Inr (json_text v) | None \<Rightarrow> Inl (LookupKeyError ''fault_type'')))
       (\<lambda>fault_type.
     bindS (liftS (count_for_scale template (scale_of topo) default_count)) (\<lambda>count.
       if count \<le> 0 then returnS []
       else
        (let template_name = text_or_json (dict_get template ''name'') fault_type;
             difficulty = template_get template ''difficulty'' (JStr ''medium'')
         in bindS (changeS (\<lambda>s. s\<lparr>gn_rng := rd_seed rd (stable_template_seed rd seed (scale_of topo) template_name)\<rparr>)) (\<lambda>_.
            bindS (on_rng (template_targets rd topo template fault_type template_name (nat count)))
              (each_target (write_scenario rd topo defaults out_dir template fault_type difficulty))))))"

definition generate ::
  "'r random_source \<Rightarrow> campaign \<Rightarrow> topology_context \<Rightarrow> string \<Rightarrow> int \<Rightarrow> ('r generation, string list) action" where
  "generate rd spec topo out_dir seed =
     bindS (liftS (validate_traffic_profiles spec)) (\<lambda>_.
       let defaults = dict_set (cp_defaults spec) ''seed'' (JInt seed)
       in bindS (liftS (int_setting defaults ''count_per_fault'' (JInt 5))) (\<lambda>default_count.
          bindS (each_target (run_template rd topo defaults default_count seed out_dir) (cp_fault_templates spec)) (\<lambda>paths.
            returnS (concat paths))))"

end
