(* ===== verification/Campaign_Targets.thy ===== *)
theory Campaign_Targets
  imports Scenario_Generator "HOL-Library.Multiset"
begin

text \<open>
  The devices a campaign aims at: with a random source that draws within its bounds, the devices of
  a template are a permutation of the candidates, dealt round by round over the pods.
\<close>

section \<open>Shuffling\<close>

definition fair :: "'r random_source \<Rightarrow> bool" where
  "fair rd \<longleftrightarrow> (\<forall>n r. 0 < n \<longrightarrow> fst (rd_below rd n r) < n)"

text \<open>\<open>draws\<close>: an action that always returns, with a result of a certain kind.\<close>

abbreviation draws :: "('r, 'a) action \<Rightarrow> ('a \<Rightarrow> bool) \<Rightarrow> bool" where
  "draws m Q \<equiv> triple (\<lambda>_. True) m (\<lambda>x _. Q x) (\<lambda>_ _. False)"

lemma drawsD: "draws m Q \<Longrightarrow> \<exists>x r'. m r = (Inr x, r') \<and> Q x"
  by (auto simp: triple_def split: prod.splits sum.splits) (metis old.sum.exhaust surj_pair)

lemma draws_bind: "draws m P \<Longrightarrow> (\<And>x. P x \<Longrightarrow> draws (f x) Q) \<Longrightarrow> draws (bindS m f) Q"
  by (rule triple_bind [where R = "\<lambda>x _. P x"]) (auto simp: triple_def)

lemma draws_return: "Q x \<Longrightarrow> draws (returnS x) Q"
  by (simp add: triple_def returnS_def)

lemma draws_weaken: "draws m P \<Longrightarrow> (\<And>x. P x \<Longrightarrow> Q x) \<Longrightarrow> draws m Q"
  by (fastforce simp: triple_def split: prod.splits sum.splits)

lemma draws_below: "fair rd \<Longrightarrow> 0 < n \<Longrightarrow> draws (below rd n) (\<lambda>i. i < n)"
  by (auto simp: triple_def below_def fair_def split: prod.splits) (metis fst_conv)

lemma draws_shuffle_from: "fair rd \<Longrightarrow> i < length xs \<or> i = 0 \<Longrightarrow> draws (shuffle_from rd i xs) (\<lambda>ys. mset ys = mset xs)"
proof (induction i arbitrary: xs)
  case 0
  then show ?case by (auto intro: draws_return)
next
  case (Suc i)
  then have i: "Suc i < length xs" by simp
  show ?case
    unfolding shuffle_from.simps
  proof (rule draws_bind [OF draws_below [OF Suc.prems(1)]])
    fix j assume "j < i + 2"
    then have "mset (xs[Suc i := xs ! j, j := xs ! Suc i]) = mset xs" using i by (intro mset_swap) auto
    then show "draws (shuffle_from rd i (xs[Suc i := xs ! j, j := xs ! Suc i])) (\<lambda>ys. mset ys = mset xs)"
      using Suc.IH [OF Suc.prems(1), of "xs[Suc i := xs ! j, j := xs ! Suc i]"] i by simp
  qed simp
qed

lemma draws_shuffle: "fair rd \<Longrightarrow> draws (rng_shuffle rd xs) (\<lambda>ys. mset ys = mset xs)"
  unfolding rng_shuffle_def by (rule draws_shuffle_from) auto

lemma draws_choice: "fair rd \<Longrightarrow> xs \<noteq> [] \<Longrightarrow> draws (rng_choice rd xs) (\<lambda>x. x \<in> set xs)"
  unfolding rng_choice_def by (auto intro!: draws_bind draws_below draws_return)

section \<open>Pods\<close>

definition members :: "pods \<Rightarrow> string multiset" where
  "members groups = mset (concat (map snd groups))"

definition pods_ok :: "(string \<Rightarrow> int option) \<Rightarrow> pods \<Rightarrow> bool" where
  "pods_ok pod groups \<longleftrightarrow> distinct (map fst groups) \<and> (\<forall>(p, names) \<in> set groups. \<forall>n \<in> set names. pod n = Some p)"

definition none_empty :: "pods \<Rightarrow> bool" where
  "none_empty groups \<longleftrightarrow> (\<forall>(p, names) \<in> set groups. names \<noteq> [])"

lemma members_set:
  "distinct (map fst groups) \<Longrightarrow>
     members (dict_set groups p names) + mset (dict_get_default groups p []) = members groups + mset names"
  by (induction groups) (auto simp: members_def dict_get_default_def ac_simps)

lemma pods_ok_set:
  assumes "pods_ok pod groups" "\<forall>n \<in> set names. pod n = Some p"
  shows "pods_ok pod (dict_set groups p names)"
proof -
  have "set (dict_set groups p names) \<subseteq> insert (p, names) (set groups)" by (rule set_update_subset)
  then show ?thesis using assms by (fastforce simp: pods_ok_def)
qed

lemma pods_ok_get: "pods_ok pod groups \<Longrightarrow> n \<in> set (dict_get_default groups p []) \<Longrightarrow> pod n = Some p"
  by (auto simp: pods_ok_def dict_get_default_def split: option.splits dest!: map_of_SomeD)

lemma pods_built:
  assumes "\<forall>(n, p) \<in> set named. p = pod n"
  shows "pods_ok pod groups \<Longrightarrow> none_empty groups \<Longrightarrow>
    pods_ok pod (fold add_to_pod named groups) \<and> none_empty (fold add_to_pod named groups) \<and>
    members (fold add_to_pod named groups) + mset (map fst (filter (\<lambda>(n, p). p = None) named)) =
      members groups + mset (map fst named)"
  using assms
proof (induction named arbitrary: groups)
  case (Cons x named)
  obtain n p where x: "x = (n, p)" by (cases x)
  show ?case
  proof (cases p)
    case None
    then have "add_to_pod x groups = groups" by (simp add: x add_to_pod_def)
    then show ?thesis using Cons None by (simp add: x)
  next
    case (Some q)
    let ?g = "dict_set groups q (dict_get_default groups q [] @ [n])"
    have g: "add_to_pod x groups = ?g" by (simp add: x Some add_to_pod_def)
    have ok: "pods_ok pod ?g"
      using Cons.prems Some pods_ok_get [OF Cons.prems(1), of _ q] by (intro pods_ok_set) (auto simp: x)
    have full: "none_empty ?g"
      using set_update_subset [of q "dict_get_default groups q [] @ [n]" groups] Cons.prems(2) by (fastforce simp: none_empty_def)
    have m: "members ?g = members groups + {#n#}"
      using members_set [of groups q "dict_get_default groups q [] @ [n]"] Cons.prems(1) by (simp add: pods_ok_def)
    have "map fst (filter (\<lambda>(n, p). p = None) (x # named)) = map fst (filter (\<lambda>(n, p). p = None) named)"
      by (simp add: x Some)
    moreover have "\<forall>(n, p) \<in> set named. p = pod n" using Cons.prems(3) by simp
    moreover have "mset (map fst (x # named)) = {#n#} + mset (map fst named)" by (simp add: x)
    ultimately show ?thesis
      using Cons.IH [OF ok full] unfolding fold_simps g m by (simp add: add.assoc)
  qed
qed simp

lemma draws_shuffle_pods:
  "fair rd \<Longrightarrow> draws (shuffle_pods rd groups)
     (\<lambda>gs. map fst gs = map fst groups \<and> list_all2 (\<lambda>g h. mset (snd g) = mset (snd h)) gs groups)"
proof (induction rd groups rule: shuffle_pods.induct)
  case (2 rd p names groups)
  show ?case
    unfolding shuffle_pods.simps
    by (rule draws_bind [OF draws_shuffle [OF 2(2)]], rule draws_bind [OF 2(1) [OF 2(2)]], rule draws_return) simp
qed (auto intro: draws_return)

lemma shuffled_pods:
  assumes "list_all2 (\<lambda>g h. mset (snd g) = mset (snd h)) gs groups" "map fst gs = map fst groups"
    and "pods_ok pod groups" "none_empty groups"
  shows "members gs = members groups \<and> pods_ok pod gs \<and> none_empty gs"
proof -
  have "members gs = members groups"
    using assms(1) unfolding members_def by (induction rule: list_all2_induct) auto
  moreover have "\<exists>h \<in> set groups. fst h = fst g \<and> mset (snd g) = mset (snd h)" if "g \<in> set gs" for g
  proof -
    from that obtain i where i: "i < length gs" "g = gs ! i" by (auto simp: in_set_conv_nth)
    then have "fst (gs ! i) = fst (groups ! i)" "i < length groups"
      using assms(2) by (metis length_map nth_map)+
    with i list_all2_nthD [OF assms(1), of i] show ?thesis by (metis nth_mem)
  qed
  ultimately show ?thesis
    using assms(2,3,4) by (fastforce simp: pods_ok_def none_empty_def dest: mset_eq_setD)
qed

section \<open>Rounds\<close>

definition pool :: "pods \<times> string list \<Rightarrow> string multiset" where
  "pool st = members (fst st) + mset (snd st)"

definition left :: "pods \<times> string list \<Rightarrow> nat" where
  "left st = size (members (fst st))"

lemma deal_one_pool:
  assumes "pods_ok pod (fst st)"
  shows "pods_ok pod (fst (deal_one p st)) \<and> map fst (fst (deal_one p st)) = map fst (fst st) \<and> pool (deal_one p st) = pool st \<and>
    (\<exists>ds. snd (deal_one p st) = snd st @ ds)"
proof -
  obtain groups acc where st: "st = (groups, acc)" by (cases st)
  let ?names = "dict_get_default groups p []"
  show ?thesis
  proof (cases "?names = []")
    case True
    then show ?thesis using assms by (simp add: st deal_one_def)
  next
    case False
    then have d: "deal_one p st = (dict_set groups p (butlast ?names), acc @ [last ?names])"
      by (simp add: st deal_one_def Let_def)
    have ok: "pods_ok pod (dict_set groups p (butlast ?names))"
      using assms pods_ok_get [of pod groups _ p] by (intro pods_ok_set) (auto simp: st dest: in_set_butlastD)
    have split: "mset ?names = mset (butlast ?names) + {#last ?names#}"
      using False by (metis append_butlast_last_id mset.simps mset_append)
    have "p \<in> set (map fst groups)" using False by (force simp: dict_get_default_def split: option.splits dest!: map_of_SomeD)
    then have "map fst (dict_set groups p (butlast ?names)) = map fst groups" by (simp add: keys_update)
    moreover have "pool (deal_one p st) = pool st"
      using members_set [of groups p "butlast ?names"] assms unfolding d pool_def
      by (simp add: st pods_ok_def split)
    ultimately show ?thesis using ok d [unfolded st] by (auto simp: st)
  qed
qed

lemma deal_round_pool:
  "pods_ok pod (fst st) \<Longrightarrow>
     pods_ok pod (fst (fold deal_one ps st)) \<and> map fst (fst (fold deal_one ps st)) = map fst (fst st) \<and>
     pool (fold deal_one ps st) = pool st \<and> (\<exists>ds. snd (fold deal_one ps st) = snd st @ ds)"
proof (induction ps arbitrary: st)
  case (Cons p ps)
  from deal_one_pool [OF Cons.prems, of p] Cons.IH [of "deal_one p st"] show ?case by auto
qed simp

lemma pool_left: "size (pool st) = left st + length (snd st)"
  by (simp add: pool_def left_def)

text \<open>A round in which some pod has a device left deals at least one.\<close>

lemma deal_round_progress:
  assumes "pods_ok pod (fst st)" "p \<in> set ps" "dict_get_default (fst st) p [] \<noteq> []"
  shows "left (fold deal_one ps st) < left st"
  using assms
proof (induction ps arbitrary: st)
  case (Cons q ps)
  show ?case
  proof (cases "dict_get_default (fst st) q [] = []")
    case True
    then have same: "deal_one q st = st" by (cases st) (simp add: deal_one_def)
    have "p \<in> set ps" using Cons.prems(2,3) True by auto
    from Cons.IH [OF Cons.prems(1) this Cons.prems(3)] show ?thesis by (simp add: same)
  next
    case False
    then have "length (snd (deal_one q st)) = Suc (length (snd st))"
      by (cases st) (simp add: deal_one_def Let_def)
    moreover obtain ds where "snd (fold deal_one ps (deal_one q st)) = snd (deal_one q st) @ ds"
      using deal_round_pool [of pod "deal_one q st" ps] deal_one_pool [OF Cons.prems(1), of q] by blast
    ultimately have "length (snd st) < length (snd (fold deal_one (q # ps) st))" by simp
    moreover have "pool (fold deal_one (q # ps) st) = pool st" using deal_round_pool [OF Cons.prems(1)] by blast
    ultimately show ?thesis using pool_left [of st] pool_left [of "fold deal_one (q # ps) st"] by simp
  qed
qed simp

lemma deal_rounds_all:
  assumes "pods_ok pod (fst st)" "set pod_order = fst ` set (fst st)" "left st \<le> n"
  shows "mset (deal_rounds n pod_order st) = pool st \<and> (\<exists>ds. deal_rounds n pod_order st = snd st @ ds)"
  using assms
proof (induction n arbitrary: st)
  case 0
  then show ?case by (simp add: pool_def left_def)
next
  case (Suc n)
  let ?st = "fold deal_one pod_order st"
  show ?case
  proof (cases "list_all (\<lambda>(pod, names). names = []) (fst st)")
    case True
    then have "concat (map snd (fst st)) = []" by (auto simp: list_all_iff)
    then have "members (fst st) = {#}" by (simp only: members_def mset.simps)
    then show ?thesis using True by (simp add: pool_def)
  next
    case False
    then obtain p names where p: "(p, names) \<in> set (fst st)" "names \<noteq> []" by (auto simp: list_all_iff)
    then have get: "dict_get_default (fst st) p [] \<noteq> []"
      using Suc.prems(1) by (simp add: pods_ok_def dict_get_default_def)
    have "p \<in> set pod_order" using p Suc.prems(2) by force
    from deal_round_progress [OF Suc.prems(1) this get] Suc.prems(3) have less: "left ?st \<le> n" by simp
    have round: "pods_ok pod (fst ?st)" "map fst (fst ?st) = map fst (fst st)" "pool ?st = pool st" "\<exists>ds. snd ?st = snd st @ ds"
      using deal_round_pool [OF Suc.prems(1)] by blast+
    have "set pod_order = fst ` set (fst ?st)" using Suc.prems(2) round(2) by (metis set_map)
    from Suc.IH [OF round(1) this less] round(3,4) show ?thesis using False by auto
  qed
qed

text \<open>The first round deals one device of every pod, in the order of the pods.\<close>

lemma first_round:
  assumes "pods_ok pod groups" "distinct ps" "\<forall>p \<in> set ps. dict_get_default groups p [] \<noteq> []"
  shows "\<exists>ds. snd (fold deal_one ps (groups, acc)) = acc @ ds \<and> map pod ds = map Some ps"
  using assms
proof (induction ps arbitrary: groups acc)
  case (Cons p ps)
  let ?names = "dict_get_default groups p []"
  have d: "deal_one p (groups, acc) = (dict_set groups p (butlast ?names), acc @ [last ?names])"
    using Cons.prems(3) by (simp add: deal_one_def Let_def)
  have "pods_ok pod (dict_set groups p (butlast ?names))"
    using deal_one_pool [of pod "(groups, acc)" p] Cons.prems(1) d by simp
  moreover have "\<forall>q \<in> set ps. dict_get_default (dict_set groups p (butlast ?names)) q [] \<noteq> []"
    using Cons.prems(2,3) by (auto simp: dict_get_default_def)
  ultimately obtain ds where ds: "snd (fold deal_one ps (deal_one p (groups, acc))) = (acc @ [last ?names]) @ ds" "map pod ds = map Some ps"
    using Cons.IH [of _ "acc @ [last ?names]"] Cons.prems(2) unfolding d by auto
  have "pod (last ?names) = Some p" using Cons.prems(3) by (intro pods_ok_get [OF Cons.prems(1)]) simp
  then show ?case using ds by (intro exI [of _ "last ?names # ds"]) simp
qed simp

section \<open>The targets of a template\<close>

lemma draws_ordered:
  assumes fair: "fair rd"
    and candidates: "device_candidates role topo = Inr candidates"
    and pods: "mapE (device_pod topo) candidates = Inr ps" "\<And>n. n \<in> set candidates \<Longrightarrow> device_pod topo n = Inr (pod n)"
  shows "draws (ordered_template_devices rd role topo) (\<lambda>ordered. mset ordered = mset candidates \<and>
     (let k = card {p. Some p \<in> pod ` set candidates}
      in distinct (map pod (take k ordered)) \<and> None \<notin> pod ` set (take k ordered)))"
proof -
  define named where "named = map (\<lambda>n. (n, pod n)) candidates"
  define groups where "groups = fold add_to_pod named []"
  define rest where "rest = map fst (filter (\<lambda>(n, p). p = None) named)"
  have n: "mapE (\<lambda>name. bindE (device_pod topo name) (\<lambda>pod. Inr (name, pod))) candidates = Inr named"
    unfolding named_def by (rule mapE_Inr_map) (simp add: pods(2))
  have built: "pods_ok pod groups" "none_empty groups" "members groups + mset rest = mset candidates"
    using pods_built [of named pod "[]"] unfolding groups_def rest_def
    by (auto simp: named_def pods_ok_def none_empty_def members_def comp_def)
  have keys: "fst ` set groups = {p. Some p \<in> pod ` set candidates}"
  proof (intro set_eqI iffI)
    fix p assume "p \<in> fst ` set groups"
    then obtain names where g: "(p, names) \<in> set groups" by force
    then obtain x where x: "x \<in> set names" "pod x = Some p" using built(1,2) by (fastforce simp: pods_ok_def none_empty_def neq_Nil_conv)
    have "x \<in># members groups" using g x(1) by (force simp: members_def)
    then have "x \<in> set candidates" using built(3) by (metis set_mset_mset union_iff)
    with x(2) show "p \<in> {p. Some p \<in> pod ` set candidates}" by (metis (mono_tags) image_eqI mem_Collect_eq)
  next
    fix p assume "p \<in> {p. Some p \<in> pod ` set candidates}"
    then obtain x where x: "x \<in> set candidates" "pod x = Some p" by force
    then have "x \<notin> set rest" by (auto simp: rest_def named_def)
    then have "x \<in># members groups" using built(3) x(1) by (metis set_mset_mset union_iff)
    then obtain q names where "(q, names) \<in> set groups" "x \<in> set names" by (auto simp: members_def)
    then show "p \<in> fst ` set groups" using built(1) x(2) by (force simp: pods_ok_def)
  qed
  then have k: "card {p. Some p \<in> pod ` set candidates} = length groups"
    using built(1) by (metis distinct_card length_map list.set_map pods_ok_def)
  have unfolded: "ordered_template_devices rd role topo =
      (if groups = [] then rng_shuffle rd candidates
       else bindS (rng_shuffle rd (sort (map fst groups))) (\<lambda>pod_order. bindS (shuffle_pods rd groups) (\<lambda>groups'.
         bindS (rng_shuffle rd rest) (\<lambda>rest. returnS (deal_rounds (length candidates) pod_order (groups', []) @ rest)))))"
    by (simp add: ordered_template_devices_def candidates n bind_lift groups_def rest_def Let_def)
  show ?thesis
  proof (cases "groups = []")
    case True
    then show ?thesis
      unfolding unfolded k by (auto intro!: draws_weaken [OF draws_shuffle [OF fair, of candidates]])
  next
    case False
    have deal: "draws (bindS (rng_shuffle rd (sort (map fst groups))) (\<lambda>pod_order. bindS (shuffle_pods rd groups) (\<lambda>groups'.
        bindS (rng_shuffle rd rest) (\<lambda>rest. returnS (deal_rounds (length candidates) pod_order (groups', []) @ rest)))))
      (\<lambda>ordered. mset ordered = mset candidates \<and>
         (let k = length groups in distinct (map pod (take k ordered)) \<and> None \<notin> pod ` set (take k ordered)))"
    proof (rule draws_bind [OF draws_shuffle [OF fair]], rule draws_bind [OF draws_shuffle_pods [OF fair]],
        rule draws_bind [OF draws_shuffle [OF fair]], rule draws_return)
      fix pod_order gs rest'
      assume o: "mset pod_order = mset (sort (map fst groups))" and r: "mset rest' = mset rest"
        and g: "map fst gs = map fst groups \<and> list_all2 (\<lambda>g h. mset (snd g) = mset (snd h)) gs groups"
      have gs: "members gs = members groups" "pods_ok pod gs" "none_empty gs"
        using shuffled_pods [of gs groups pod] g built by blast+
      have order: "set pod_order = fst ` set gs" "distinct pod_order" "length pod_order = length groups"
      proof -
        have same: "mset pod_order = mset (map fst gs)" using o g by simp
        from mset_eq_setD [OF this] show "set pod_order = fst ` set gs" by simp
        from mset_eq_imp_distinct_iff [OF same] gs(2) show "distinct pod_order" by (simp add: pods_ok_def)
        have "length gs = length groups" using g by (metis length_map)
        with mset_eq_length [OF same] show "length pod_order = length groups" by simp
      qed
      let ?dealt = "deal_rounds (length candidates) pod_order (gs, [])"
      have "left (gs, []) \<le> length candidates"
        using built(3) gs(1) by (metis fst_conv le_add1 left_def size_mset size_union)
      then have all: "mset ?dealt = members groups"
        using deal_rounds_all [of pod "(gs, [])" pod_order] gs order(1) by (simp add: pool_def)
      then have "mset (?dealt @ rest') = mset candidates" using built(3) r by simp
      moreover have "\<exists>ds tail. ?dealt = ds @ tail \<and> map pod ds = map Some pod_order"
      proof -
        obtain p names where p: "(p, names) \<in> set gs" "names \<noteq> []"
          using False g gs(3) by (cases gs) (auto simp: none_empty_def)
        have "members gs \<noteq> {#}" using p by (force simp: members_def)
        then obtain m where m: "length candidates = Suc m"
          using built(3) gs(1) by (cases candidates) auto
        have "\<forall>p \<in> set pod_order. dict_get_default gs p [] \<noteq> []"
          using order(1) gs(2,3) by (force simp: pods_ok_def none_empty_def dict_get_default_def)
        from first_round [OF gs(2) order(2) this, of "[]"] obtain ds where
          ds: "snd (fold deal_one pod_order (gs, [])) = ds" "map pod ds = map Some pod_order" by auto
        let ?st = "fold deal_one pod_order (gs, [])"
        have more: "\<not> list_all (\<lambda>(pod, names). names = []) (fst (gs, []))"
          using p by (auto simp: list_all_iff)
        have round: "pods_ok pod (fst ?st)" "map fst (fst ?st) = map fst gs" "pool ?st = pool (gs, [])"
          using deal_round_pool [of pod "(gs, [])" pod_order] gs(2) by auto
        have "left ?st \<le> m"
        proof -
          have "size (pool ?st) \<le> length candidates"
            using round(3) built(3) gs(1) by (metis add.right_neutral fst_conv le_add1 mset.simps(1) pool_def size_mset size_union snd_conv)
          moreover have "1 \<le> length (snd ?st)"
          proof -
            have "length ds = length pod_order" using ds(2) by (metis length_map)
            then show ?thesis using ds(1) order(3) False by (cases groups) auto
          qed
          ultimately show ?thesis using pool_left [of ?st] m by simp
        qed
        moreover have "set pod_order = fst ` set (fst ?st)" using order(1) round(2) by (metis set_map)
        ultimately obtain tail where "deal_rounds m pod_order ?st = snd ?st @ tail"
          using deal_rounds_all [OF round(1)] by blast
        then have "?dealt = ds @ tail" using more ds(1) by (simp add: m)
        then show ?thesis using ds(2) by blast
      qed
      then obtain ds tail where ds: "?dealt = ds @ tail" "map pod ds = map Some pod_order" by blast
      then have "length ds = length groups" using order(3) by (metis length_map)
      then have first: "take (length groups) (?dealt @ rest') = ds" using ds(1) by simp
      have "distinct (map pod ds)" "None \<notin> set (map pod ds)" unfolding ds(2) using order(2) by (auto simp: distinct_map)
      ultimately show "mset (?dealt @ rest') = mset candidates \<and>
          (let k = length groups in distinct (map pod (take k (?dealt @ rest'))) \<and> None \<notin> pod ` set (take k (?dealt @ rest')))"
        unfolding Let_def first by simp
    qed
    then show ?thesis unfolding unfolded k using False by simp
  qed
qed

text \<open>The candidates of a role are different devices of the manifest.\<close>

lemma entry_name: "entry_name (device_to_agent_entry m d) = dev_name d"
  by (simp add: entry_name_def dict_get_default_def device_entry_field device_model_fields_def device_dump_def without_none_def)

lemma candidates_known:
  assumes "device_candidates role topo = Inr cs"
  shows "\<exists>P. cs = map dev_name (filter P (mf_devices (tc_manifest topo)))"
  using assms
  by (auto simp: device_candidates_def or_names_def device_names_def devices_by_role_def client_entries_def entry_name
      clients_def comp_def split: if_splits)

lemma candidates_distinct:
  assumes "wf_manifest (tc_manifest topo)" "device_candidates role topo = Inr cs"
  shows "distinct cs"
  using assms(1) candidates_known [OF assms(2)] by (auto simp: wf_manifest_def distinct_map inj_on_def)

text \<open>
  C29. The devices of a template are fair game and well spread.  If the random source draws within
  its bounds, a template whose devices are known gets devices of the wanted role, no device twice, and
  among the first ones, as many as there are pods, each is in a pod of its own; it is refused exactly
  when it asks for more devices than there are.
\<close>

theorem template_targets_spread:
  assumes "fair rd" "wf_manifest (tc_manifest topo)" "fault_type \<noteq> ''none''"
    and "role = (if fault_type = ''static_route_misconfig'' then ''leaf''
                 else text_or_json (dict_get template ''device_role'') ''leaf'')"
    and "device_candidates role topo = Inr candidates" "mapE (device_pod topo) candidates = Inr pods"
  shows "\<exists>ordered r'. mset ordered = mset candidates \<and>
    template_targets rd topo template fault_type name number r =
      (if length candidates < number
       then Inl (ValueError (''Template '' @ name @ '' requests '' @ nat_str number @ '' unique '' @ role
              @ '' devices, but topology '' @ scale_of topo @ '' has only '' @ nat_str (length candidates)))
       else Inr (map Some (take number ordered)), r') \<and>
    distinct ordered \<and>
    distinct (map (\<lambda>n. projr (device_pod topo n)) (take (card {p. Some p \<in> set pods}) ordered))"
proof -
  define pod where "pod = (\<lambda>n. projr (device_pod topo n))"
  have pod: "device_pod topo n = Inr (pod n)" if "n \<in> set candidates" for n
    using mapE_Inr_all [OF assms(6) that] by (auto simp: pod_def)
  have "map (\<lambda>p. p) pods = map pod candidates"
    by (rule mapE_eq_map [OF assms(6)]) (auto simp: pod)
  then have pods: "pods = map pod candidates" by simp
  obtain ordered r' where o: "ordered_template_devices rd role topo r = (Inr ordered, r')" "mset ordered = mset candidates"
    "distinct (map pod (take (card {p. Some p \<in> pod ` set candidates}) ordered))"
    using drawsD [OF draws_ordered [OF assms(1,5,6) pod], of r] by (auto simp: Let_def)
  have len: "length ordered = length candidates" using o(2) by (rule mset_eq_length)
  have "distinct candidates"
    using assms(2,5) candidates_distinct by blast
  then have "distinct ordered" using mset_eq_imp_distinct_iff [OF o(2)] by simp
  moreover have "template_targets rd topo template fault_type name number r =
      (if length candidates < number
       then Inl (ValueError (''Template '' @ name @ '' requests '' @ nat_str number @ '' unique '' @ role
              @ '' devices, but topology '' @ scale_of topo @ '' has only '' @ nat_str (length candidates)))
       else Inr (map Some (take number ordered)), r')"
    using assms(3) o(1) unfolding template_targets_def assms(4) [symmetric] Let_def
    by (simp add: bindS_def len raiseS_def returnS_def)
  ultimately show ?thesis using o(2,3) unfolding pods pod_def set_map by blast
qed

definition first_source :: "nat random_source" where
  "first_source = \<lparr>rd_seed = (\<lambda>_. 0), rd_below = (\<lambda>n r. (r mod n, Suc r)), rd_sha256 = (\<lambda>_. [])\<rparr>"

definition podded_context :: topology_context where
  "podded_context =
     (let edge = (\<lambda>name pod. \<lparr>dev_name = name, dev_role = EDGE, dev_mgmt_ip = None, dev_data_ip = None,
            dev_attached_switch = None, dev_asn = None, dev_router_id = None, dev_metadata = [(''pod'', JInt pod)]\<rparr>)
      in \<lparr>tc_topology_dir = ''lab'',
          tc_manifest = example_manifest\<lparr>mf_family := ''fat-tree'',
            mf_devices := [edge ''edge1'' 0, edge ''edge2'' 0, edge ''edge3'' 1],
            mf_routing := (mf_routing example_manifest)\<lparr>rt_ecmp_policy := [(EDGE, 1)]\<rparr>\<rparr>,
          tc_device_interfaces = [], tc_leaf_interface_roles = [], tc_client_interfaces = [], tc_device_asns = [],
          tc_bgp_neighbors = [], tc_bgp_networks = []\<rparr>)"

lemma first_source_fair: "fair first_source"
  by (simp add: fair_def first_source_def)

theorem template_targets_spread_witness:
  "\<exists>ordered r'. set ordered = {''edge1'', ''edge2'', ''edge3''} \<and>
     template_targets first_source podded_context [] ''device_down'' ''t'' 2 7 = (Inr (map Some (take 2 ordered)), r') \<and>
     distinct (map (\<lambda>n. projr (device_pod podded_context n)) (take 2 ordered))"
proof -
  let ?cs = "[''edge1'', ''edge2'', ''edge3'']"
  have wf: "wf_manifest (tc_manifest podded_context)"
    by (auto simp: wf_manifest_def podded_context_def example_manifest_def present_def switches_def link_ends_def)
  have cs: "device_candidates ''leaf'' podded_context = Inr ?cs"
    by (simp add: device_candidates_def or_names_def device_names_def devices_by_role_def podded_context_def)
  have pods: "mapE (device_pod podded_context) ?cs = Inr [Some 0, Some 0, Some 1]"
    by (simp add: device_pod_def known_device_def devices_by_name_def dict_of_def podded_context_def json_to_int_def)
  have "{p :: int. Some p \<in> set [Some 0, Some 0, Some 1]} = {0, 1}" by auto
  then have two: "card {p :: int. Some p \<in> set [Some 0, Some 0, Some 1]} = 2" by simp
  from template_targets_spread [OF first_source_fair wf _ _ cs pods, of "''device_down''" "[]" "''t''" 2 7]
  obtain ordered r' where "mset ordered = mset ?cs"
    "template_targets first_source podded_context [] ''device_down'' ''t'' 2 7 = (Inr (map Some (take 2 ordered)), r')"
    "distinct (map (\<lambda>n. projr (device_pod podded_context n)) (take (card {p :: int. Some p \<in> set [Some 0, Some 0, Some 1]}) ordered))"
    by (auto simp: text_or_json_def truthy_def)
  moreover from this(1) have "set ordered = set ?cs" by (rule mset_eq_setD)
  ultimately show ?thesis unfolding two by (intro exI [of _ ordered] exI [of _ r']) simp
qed

end
