(* ===== verification/Campaign_Correctness.thy ===== *)
theory Campaign_Correctness
  imports Campaign_Targets
begin

text \<open>
  What a campaign writes: every file is a scenario for the topology it was generated from, and no file
  overwrites another.
\<close>

section \<open>Targets are devices of the topology\<close>

abbreviation known_names :: "topology_context \<Rightarrow> string set" where
  "known_names topo \<equiv> dev_name ` set (mf_devices (tc_manifest topo))"

definition known_target :: "topology_context \<Rightarrow> string option \<Rightarrow> bool" where
  "known_target topo target \<longleftrightarrow> (\<forall>d. target = Some d \<longrightarrow> d \<in> known_names topo)"

lemma candidates_subset: "device_candidates role topo = Inr cs \<Longrightarrow> set cs \<subseteq> known_names topo"
  by (auto dest!: candidates_known)

lemma chosen_device_known:
  assumes "fair rd" "known_target topo target"
  shows "triple P (chosen_device rd target role topo) (\<lambda>d _. d \<in> known_names topo) (\<lambda>_ _. True)"
proof (cases "given target")
  case True
  then show ?thesis using assms(2) by (auto simp: chosen_device_def given_def known_target_def intro!: triple_return split: option.splits)
next
  case False
  have choice: "triple (\<lambda>_. set cs \<subseteq> known_names topo) (rng_choice rd cs) (\<lambda>d _. d \<in> known_names topo) (\<lambda>_ _. True)" for cs
    using draws_choice [OF assms(1), of cs] by (cases "cs = []") (fastforce simp: rng_choice_def triple_def raiseS_def split: prod.splits sum.splits)+
  have "triple P (liftS (device_candidates role topo)) (\<lambda>cs _. set cs \<subseteq> known_names topo) (\<lambda>_ _. True)"
    using candidates_subset by (cases "device_candidates role topo") (auto simp: triple_def liftS_def)
  with False show ?thesis unfolding chosen_device_def pick_device_def by (auto intro: triple_bind choice)
qed

lemma with_interface_device: "triple P (with_interface pick target) (\<lambda>t _. tg_device t = tg_device target) (\<lambda>_ _. True)"
  unfolding with_interface_def by (rule triple_drop, rule triple_return) simp

lemma builders_known:
  assumes "(name, builder) \<in> set fault_scenario_builders" "fair rd" "known_target topo target"
  shows "triple P (builder rd topo template target) (\<lambda>t _. tg_device t \<in> known_names topo) (\<lambda>_ _. True)"
proof -
  let ?Q = "\<lambda>t (_ :: 'a). tg_device t \<in> known_names topo"
  have chosen: "triple P (chosen_device rd target role topo) (\<lambda>d _. d \<in> known_names topo) (\<lambda>_ _. True)" for P role
    by (rule chosen_device_known [OF assms(2,3)])
  have generic: "triple P (generic_fault_target rd topo template target) ?Q (\<lambda>_ _. True)" for P
    unfolding generic_fault_target_def
    by (rule triple_bind [OF chosen], rule triple_return) (simp add: new_target_def)
  have interfaces: "triple (?Q t) (with_interface pick t) ?Q (\<lambda>_ _. True)" for t pick
    using with_interface_device [of "?Q t" pick t] by (fastforce simp: triple_def split: prod.splits sum.splits)
  have later: "triple (?Q t) (bindS m (\<lambda>x. returnS (f x))) ?Q (\<lambda>_ _. True)" if "\<And>x. tg_device (f x) = tg_device t"
    for t and m :: "('a, 'b) action" and f :: "'b \<Rightarrow> build_target"
    using that by (auto simp: triple_def bindS_def returnS_def split: prod.split sum.split)
  have later2: "triple (?Q t) (bindS m (\<lambda>x. bindS (n x) (\<lambda>y. returnS (f x y)))) ?Q (\<lambda>_ _. True)"
    if "\<And>x y. tg_device (f x y) = tg_device t"
    for t and m :: "('a, 'b) action" and n :: "'b \<Rightarrow> ('a, 'c) action" and f :: "'b \<Rightarrow> 'c \<Rightarrow> build_target"
    using that by (auto simp: triple_def bindS_def returnS_def split: prod.split sum.split)
  have "triple P (link_down_target rd topo template target) ?Q (\<lambda>_ _. True)"
    "triple P (role_interface_target rd topo template target) ?Q (\<lambda>_ _. True)"
    "triple P (packet_fault_target rd topo template target) ?Q (\<lambda>_ _. True)"
    unfolding link_down_target_def role_interface_target_def packet_fault_target_def Let_def
    by (rule triple_bind [OF generic interfaces])+
  moreover have "triple P (blackhole_target rd topo template target) ?Q (\<lambda>_ _. True)"
    unfolding blackhole_target_def by (rule triple_bind [OF generic later2]) simp
  moreover have "triple P (static_route_target rd topo template target) ?Q (\<lambda>_ _. True)"
    unfolding static_route_target_def
    by (rule triple_bind [OF chosen]) (auto simp: triple_def bindS_def returnS_def new_target_def split: prod.split sum.split)
  moreover have "triple P (bgp_neighbor_target rd topo template target) ?Q (\<lambda>_ _. True)"
    "triple P (route_policy_target rd topo template target) ?Q (\<lambda>_ _. True)"
    unfolding bgp_neighbor_target_def route_policy_target_def by (rule triple_bind [OF generic later], simp)+
  moreover have "triple P (acl_target rd topo template target) ?Q (\<lambda>_ _. True)"
  proof -
    have "triple (?Q t) (bindS (with_interface pick (t\<lparr>tg_prefix := p\<rparr>)) (\<lambda>t'. returnS (t'\<lparr>tg_metadata := m\<rparr>))) ?Q (\<lambda>_ _. True)"
      for t pick p m
      using interfaces [of "t\<lparr>tg_prefix := p\<rparr>" pick]
      by (auto simp: triple_def bindS_def returnS_def split: prod.splits sum.splits)
    then have "triple (?Q t) (bindS n (\<lambda>x. bindS (with_interface (pick x) (t\<lparr>tg_prefix := p x\<rparr>)) (\<lambda>t'. returnS (t'\<lparr>tg_metadata := m x\<rparr>)))) ?Q (\<lambda>_ _. True)"
      for t p m and n :: "('a, frr_network) action" and pick
      by (rule triple_bind [where R = "\<lambda>_. ?Q t", rotated]) (auto simp: triple_def split: prod.split sum.split)
    then show ?thesis unfolding acl_target_def by (rule triple_bind [OF generic])
  qed
  ultimately show ?thesis
    using assms(1) generic by (auto simp: fault_scenario_builders_def)
qed

section \<open>What a payload becomes\<close>

definition scenario_id_of :: "string \<Rightarrow> string \<Rightarrow> nat \<Rightarrow> string" where
  "scenario_id_of fault_type scale idx =
     ''generated_'' @ (if fault_type = ''none'' then ''healthy_network'' else fault_type) @ ''_'' @ scale @ ''_'' @ three_digits idx"

definition generated_faults :: "string set" where
  "generated_faults = {''none'', ''device_down'', ''link_down'', ''link_flapping'', ''mtu_mismatch'', ''high_latency'', ''packet_loss'',
     ''packet_corruption'', ''blackhole_route'', ''static_route_misconfig'', ''bgp_neighbor_misconfig'',
     ''route_policy_misconfig'', ''acl_misconfig''}"

lemma builder_names: "map_of fault_scenario_builders ft = Some b \<Longrightarrow> ft \<in> generated_faults \<and> ft \<noteq> ''none''"
  by (auto simp: fault_scenario_builders_def generated_faults_def split: if_splits)

text \<open>A scenario generated for the topology from index \<open>idx\<close> of its fault type.\<close>

definition made_for :: "topology_context \<Rightarrow> string \<Rightarrow> nat \<Rightarrow> scenario_file \<Rightarrow> bool" where
  "made_for topo fault_type idx f \<longleftrightarrow>
     (let sc = sf_scenario f; e = sc_episode sc; m = tc_manifest topo
      in fault_type \<in> generated_faults \<and> ep_fault_type e = fault_type \<and>
         sc_id sc = scenario_id_of fault_type (mf_scale m) idx \<and> sc_topology_scale sc = mf_scale m \<and>
         sc_traffic_profile sc = ''standard'' \<and>
         complete_window_seconds (mf_pingmesh m) (tf_total_clients (mf_facts m)) \<le> ep_duration_seconds e \<and>
         (fault_type \<noteq> ''none'' \<longrightarrow> (\<exists>d. ep_target_device e = Some d \<and> d \<in> known_names topo)))"

lemma text_field_given: "dict_get d key = Some (JStr t) \<Longrightarrow> text_field key dv b d = Inr s \<Longrightarrow> s = t"
  by (auto simp: text_field_def refuse_def split: if_splits)

lemma int_field_given: "dict_get d key = Some (JInt t) \<Longrightarrow> int_field key dv least d = Inr i \<Longrightarrow> i = t"
  by (auto simp: int_field_def json_int_def refuse_def split: if_splits)

lemma optional_text_given: "dict_get d key = Some (JStr t) \<Longrightarrow> optional_text_field key d = Inr s \<Longrightarrow> s = Some t"
  by (auto simp: optional_text_field_def)

lemma episode_given:
  assumes "validate_episode_model d = Inr (e, t)"
    and "dict_get d ''fault_type'' = Some (JStr ft)" "dict_get d ''duration_seconds'' = Some (JInt duration)"
  shows "ep_fault_type e = ft \<and> ep_duration_seconds e = duration \<and>
    (\<forall>s. dict_get d ''target_device'' = Some (JStr s) \<longrightarrow> ep_target_device e = Some s)"
  using assms unfolding validate_episode_model_def bindE_Inr_conv
  by (auto dest: text_field_given int_field_given optional_text_given)

lemma scenario_given:
  assumes "validate_scenario_model d = Inr f"
    and "dict_get d ''scenario_id'' = Some (JStr sid)" "dict_get d ''topology_scale'' = Some (JStr scale)"
    and "dict_get d ''episode'' = Some (JObj ed)"
  shows "sc_id (sf_scenario f) = sid \<and> sc_topology_scale (sf_scenario f) = scale \<and>
    sc_traffic_profile (sf_scenario f) = ''standard'' \<and>
    validate_episode_model ed = Inr (sc_episode (sf_scenario f), sf_episode_description f)"
proof -
  from assms(1) show ?thesis
    unfolding validate_scenario_model_def bindE_Inr_conv
    using assms(2-4) by (auto simp: bindE_Inr_conv dest: text_field_given literal_field_value)
qed

lemma healthy_made:
  assumes "validate_scenario_model (healthy_payload difficulty topo defaults template idx
      (diagnostic_observation_duration base (tc_manifest topo))) = Inr f"
  shows "made_for topo ''none'' idx f"
proof -
  let ?d = "healthy_payload difficulty topo defaults template idx (diagnostic_observation_duration base (tc_manifest topo))"
  have entries: "dict_get ?d ''scenario_id'' = Some (JStr (scenario_id_of ''none'' (scale_of topo) idx))"
    "dict_get ?d ''topology_scale'' = Some (JStr (scale_of topo))"
    by (simp_all add: healthy_payload_def scenario_id_of_def)
  obtain ed where ed: "dict_get ?d ''episode'' = Some (JObj ed)" "dict_get ed ''fault_type'' = Some (JStr ''none'')"
    "dict_get ed ''duration_seconds'' = Some (JInt (diagnostic_observation_duration base (tc_manifest topo)))"
    by (simp add: healthy_payload_def)
  from scenario_given [OF assms entries ed(1)] episode_given [OF _ ed(2,3)] show ?thesis
    by (auto simp: made_for_def Let_def scale_of_def generated_faults_def diagnostic_observation_duration_def)
qed

lemma fault_made:
  assumes "payload_for_target fault_type difficulty topo defaults template idx target = Inr payload"
    and "validate_scenario_model payload = Inr f" "fault_type \<in> generated_faults" "fault_type \<noteq> ''none''"
    and "tg_device target \<in> known_names topo"
  shows "made_for topo fault_type idx f"
proof -
  from assms(1) obtain extra target' base stabilization where
    t: "(if fault_type = ''mtu_mismatch'' then bindE (int_setting template ''mtu'' (JInt 1400)) (\<lambda>mtu. Inr (target\<lparr>tg_mtu := Some mtu\<rparr>))
        else Inr target) = Inr target'" and
    p: "(Inr (fault_payload fault_type difficulty topo defaults template idx
         (fault_episode fault_type target' template extra (diagnostic_observation_duration base (tc_manifest topo)) stabilization)) :: (string, json) dict result) = Inr payload"
    unfolding payload_for_target_def bindE_Inr_conv by (elim exE conjE) (rule that, assumption+)
  let ?duration = "diagnostic_observation_duration base (tc_manifest topo)"
  let ?ed = "fault_episode fault_type target' template extra ?duration stabilization"
  have device: "tg_device target' = tg_device target" using t by (auto simp: bindE_Inr_conv split: if_splits)
  have payload: "payload = fault_payload fault_type difficulty topo defaults template idx ?ed" using p by simp
  have entries: "dict_get payload ''scenario_id'' = Some (JStr (scenario_id_of fault_type (scale_of topo) idx))"
    "dict_get payload ''topology_scale'' = Some (JStr (scale_of topo))" "dict_get payload ''episode'' = Some (JObj ?ed)"
    using assms(4) by (simp_all add: payload fault_payload_def scenario_id_of_def)
  have ed: "dict_get ?ed ''fault_type'' = Some (JStr fault_type)" "dict_get ?ed ''duration_seconds'' = Some (JInt ?duration)"
    "dict_get ?ed ''target_device'' = Some (JStr (tg_device target))"
    by (simp_all add: fault_episode_def device)
  from scenario_given [OF assms(2) entries] episode_given [OF _ ed(1,2)] ed(3) assms(3-5) show ?thesis
    by (auto simp: made_for_def Let_def scale_of_def diagnostic_observation_duration_def)
qed

lemma build_made:
  fixes rd :: "'r random_source"
  assumes "fair rd" "known_target topo target"
  shows "triple P (build_fault_instance rd fault_type difficulty topo defaults template idx target)
    (\<lambda>payload _. \<forall>f. validate_scenario_model payload = Inr f \<longrightarrow> made_for topo fault_type idx f) (\<lambda>_ _. True)"
proof (cases "fault_type = ''none''")
  case True
  then show ?thesis
    unfolding build_fault_instance_def by (auto intro!: triple_drop triple_return healthy_made)
next
  case False
  show ?thesis
  proof (cases "map_of (fault_scenario_builders :: (string \<times> 'r target_builder) list) fault_type")
    case None
    then show ?thesis using False unfolding build_fault_instance_def by (auto intro!: triple_drop triple_raise)
  next
    case (Some builder)
    have lift: "triple (\<lambda>_. tg_device t \<in> known_names topo) (liftS (payload_for_target fault_type difficulty topo defaults tm idx t))
        (\<lambda>payload _. \<forall>f. validate_scenario_model payload = Inr f \<longrightarrow> made_for topo fault_type idx f) (\<lambda>_ _. True)" for t tm
      using fault_made [OF _ _ _ False] builder_names [OF Some] by (auto simp: triple_def liftS_def split: sum.split)
    show ?thesis
      using False Some unfolding build_fault_instance_def
      by (auto intro!: triple_drop triple_bind [OF builders_known [OF map_of_SomeD [OF Some] assms]] lift)
  qed
qed

section \<open>Different indices, different files\<close>

lemma digits_val_zeros: "digits_val (replicate k (CHR ''0'') @ s) = digits_val s"
  by (induction k) (simp_all add: digits_val_def digit_val_def)

lemma three_digits_val: "digits_val (three_digits n) = n"
  by (simp add: three_digits_def Let_def digits_val_zeros)

lemma three_digits_chars: "CHR ''_'' \<notin> set (three_digits n)"
proof -
  have "is_digit c" if "c \<in> set (three_digits n)" for c
  proof -
    have "c = CHR ''0'' \<or> c \<in> set (nat_str n)" using that by (auto simp: three_digits_def Let_def)
    then show ?thesis by (rule disjE) (simp add: is_digit_def, rule nat_str_digits)
  qed
  from this [of "CHR ''_''"] show ?thesis by (intro notI) (simp add: is_digit_def)
qed

lemma append_last_sep:
  assumes "c \<notin> set ys" "c \<notin> set zs" "xs @ c # ys = ws @ c # zs"
  shows "xs = ws \<and> ys = zs"
proof -
  have "rev ys @ c # rev xs = rev zs @ c # rev ws" using arg_cong [OF assms(3), of rev] by simp
  with sep_append_inject [of c "rev ys" "rev zs" "rev xs" "rev ws"] assms(1,2) show ?thesis by simp
qed

lemma scenario_id_inject:
  assumes "scenario_id_of ft scale i = scenario_id_of ft' scale j" "ft \<in> generated_faults" "ft' \<in> generated_faults"
  shows "ft = ft' \<and> i = j"
proof -
  let ?label = "\<lambda>ft. if ft = ''none'' then ''healthy_network'' else ft"
  have "(?label ft @ ''_'' @ scale) @ CHR ''_'' # three_digits i = (?label ft' @ ''_'' @ scale) @ CHR ''_'' # three_digits j"
    using assms(1) by (simp add: scenario_id_of_def split: if_splits)
  from append_last_sep [OF three_digits_chars three_digits_chars this]
  have "?label ft = ?label ft'" "three_digits i = three_digits j" by simp_all
  moreover have "''healthy_network'' \<notin> generated_faults" by (simp add: generated_faults_def)
  ultimately show ?thesis using assms(2,3) three_digits_val by (metis (no_types, lifting))
qed

section \<open>The files of a campaign\<close>

definition campaign_file :: "topology_context \<Rightarrow> string \<Rightarrow> (string, nat) dict \<Rightarrow> string \<times> scenario_file \<Rightarrow> bool" where
  "campaign_file topo out_dir next = (\<lambda>(path, f).
     path = scenario_path out_dir f \<and>
     (\<exists>ft idx. made_for topo ft idx f \<and> idx \<le> dict_get_default next ft 0))"

definition written :: "topology_context \<Rightarrow> string \<Rightarrow> string list \<Rightarrow> 'r generation \<Rightarrow> bool" where
  "written topo out_dir paths s \<longleftrightarrow>
     map fst (gn_files s) = paths \<and> distinct paths \<and> list_all (campaign_file topo out_dir (gn_next_index s)) (gn_files s)"

lemma written_rng [simp]: "written topo out_dir paths (s\<lparr>gn_rng := r\<rparr>) = written topo out_dir paths s"
  by (simp add: written_def)

text \<open>Counting up keeps the files, and the next file is a new one.\<close>

lemma campaign_file_count:
  "campaign_file topo out_dir next x \<Longrightarrow>
   campaign_file topo out_dir (dict_set next ft (Suc (dict_get_default next ft 0))) x"
proof (cases x)
  case (Pair path f)
  assume "campaign_file topo out_dir next x"
  then obtain ft' idx where "path = scenario_path out_dir f" "made_for topo ft' idx f" "idx \<le> dict_get_default next ft' 0"
    by (auto simp: campaign_file_def Pair)
  moreover from this(3) have "idx \<le> dict_get_default (dict_set next ft (Suc (dict_get_default next ft 0))) ft' 0"
    by (auto simp: get_default_set)
  ultimately show ?thesis unfolding campaign_file_def Pair by auto
qed

lemma written_count:
  "written topo out_dir paths s \<Longrightarrow>
   written topo out_dir paths (s\<lparr>gn_next_index := dict_set (gn_next_index s) ft (dict_get_default (gn_next_index s) ft 0 + 1)\<rparr>)"
  by (auto simp: written_def list_all_iff intro: campaign_file_count)

lemma write_new:
  assumes w: "written topo out_dir paths s"
    and made: "made_for topo ft (dict_get_default (gn_next_index s) ft 0 + 1) f"
  defines "s1 \<equiv> s\<lparr>gn_next_index := dict_set (gn_next_index s) ft (dict_get_default (gn_next_index s) ft 0 + 1)\<rparr>"
  shows "written topo out_dir (paths @ [scenario_path out_dir f])
    (s1\<lparr>gn_rng := r, gn_files := dict_set (gn_files s1) (scenario_path out_dir f) f\<rparr>)"
proof -
  let ?path = "scenario_path out_dir f"
  let ?idx = "dict_get_default (gn_next_index s) ft 0 + 1"
  have fresh: "?path \<notin> set (map fst (gn_files s))"
  proof
    assume "?path \<in> set (map fst (gn_files s))"
    then obtain g where "(?path, g) \<in> set (gn_files s)" by auto
    then have "campaign_file topo out_dir (gn_next_index s) (?path, g)" using w by (auto simp: written_def list_all_iff)
    then obtain ft' j where g: "?path = scenario_path out_dir g" "made_for topo ft' j g" "j \<le> dict_get_default (gn_next_index s) ft' 0"
      by (auto simp: campaign_file_def)
    then have "scenario_id_of ft (scale_of topo) ?idx = scenario_id_of ft' (scale_of topo) j"
      using made by (simp add: scenario_path_def made_for_def Let_def scale_of_def)
    then have "ft = ft' \<and> ?idx = j"
      using made g(2) by (intro scenario_id_inject) (auto simp: made_for_def Let_def)
    with g(3) show False by auto
  qed
  then have "dict_set (gn_files s) ?path f = gn_files s @ [(?path, f)]" by (rule update_absent)
  moreover have "campaign_file topo out_dir (gn_next_index s1) (?path, f)"
    using made unfolding campaign_file_def s1_def by (auto simp: get_default_set)
  ultimately show ?thesis
    using w written_count [OF w, of ft] fresh by (auto simp: written_def s1_def)
qed

lemma write_scenario_written:
  assumes "fair rd" "known_target topo target"
  shows "triple (written topo out_dir paths)
    (write_scenario rd topo defaults out_dir template ft difficulty target)
    (\<lambda>path. written topo out_dir (paths @ [path])) (\<lambda>_ s. \<exists>paths. written topo out_dir paths s)"
proof (rule tripleI)
  fix s e s' assume w: "written topo out_dir paths s"
    and "write_scenario rd topo defaults out_dir template ft difficulty target s = (Inl e, s')"
  then show "\<exists>paths. written topo out_dir paths s'"
    using written_count [OF w, of ft]
    by (auto simp: write_scenario_def bindS_def changeS_def getS_def on_rng_def liftS_def returnS_def split: prod.splits sum.splits)
next
  fix s path s' assume w: "written topo out_dir paths s"
    and run: "write_scenario rd topo defaults out_dir template ft difficulty target s = (Inr path, s')"
  let ?idx = "dict_get_default (gn_next_index s) ft 0 + 1"
  let ?s1 = "s\<lparr>gn_next_index := dict_set (gn_next_index s) ft ?idx\<rparr>"
  obtain payload r f where
    b: "build_fault_instance rd ft difficulty topo defaults template ?idx target (gn_rng s) = (Inr payload, r)"
    and f: "validate_scenario_model payload = Inr f"
    and s': "path = scenario_path out_dir f" "s' = ?s1\<lparr>gn_rng := r, gn_files := dict_set (gn_files ?s1) path f\<rparr>"
    using run
    by (auto simp: write_scenario_def bindS_def changeS_def getS_def on_rng_def liftS_def returnS_def get_default_set
        split: prod.splits sum.splits)
  have "made_for topo ft ?idx f"
    using tripleD(1) [OF build_made [OF assms, where P = "\<lambda>_. True"] _ b] f by simp
  from write_new [OF w this] show "written topo out_dir (paths @ [path]) s'" by (simp add: s')
qed

section \<open>A campaign\<close>

lemma each_target_collects:
  assumes "\<And>x paths. x \<in> set xs \<Longrightarrow> triple (I paths) (f x) (\<lambda>y. I (paths @ g y)) E"
  shows "triple (I paths) (each_target f xs) (\<lambda>ys. I (paths @ concat (map g ys))) E"
  using assms
proof (induction xs arbitrary: paths)
  case Nil
  then show ?case by (auto intro!: triple_return)
next
  case (Cons x xs)
  have rest: "triple (I (paths @ g y)) (bindS (each_target f xs) (\<lambda>ys. returnS (y # ys))) (\<lambda>ys. I (paths @ concat (map g ys))) E" for y
    by (rule triple_bind [OF Cons.IH], use Cons.prems in simp, rule triple_return) simp
  show ?case
    unfolding each_target.simps by (rule triple_bind [OF Cons.prems rest]) simp
qed

lemma template_targets_known:
  assumes "fair rd"
  shows "triple P (template_targets rd topo template ft name number) (\<lambda>ts _. \<forall>t \<in> set ts. known_target topo t) (\<lambda>_ _. True)"
proof (cases "ft = ''none''")
  case True
  then show ?thesis by (auto simp: template_targets_def known_target_def intro!: triple_return)
next
  case False
  define role where "role = (if ft = ''static_route_misconfig'' then ''leaf'' else text_or_json (dict_get template ''device_role'') ''leaf'')"
  have ordered: "triple P (ordered_template_devices rd role topo) (\<lambda>ordered _. set ordered \<subseteq> known_names topo) (\<lambda>_ _. True)"
  proof (cases "device_candidates role topo")
    case (Inl e)
    then show ?thesis by (auto simp: ordered_template_devices_def triple_def bindS_def liftS_def)
  next
    case (Inr cs)
    show ?thesis
    proof (cases "mapE (device_pod topo) cs")
      case (Inl e)
      have "\<exists>e. mapE (\<lambda>name. bindE (device_pod topo name) (\<lambda>pod. Inr (name, pod))) cs = Inl e"
        using Inl by (induction cs) (auto simp: bindE_def split: sum.splits)
      then show ?thesis using Inr by (auto simp: ordered_template_devices_def triple_def bindS_def liftS_def)
    next
      case pods: (Inr ps)
      have "device_pod topo n = Inr (projr (device_pod topo n))" if "n \<in> set cs" for n
        using mapE_Inr_all [OF pods that] by auto
      from draws_ordered [OF assms Inr pods this] show ?thesis
        by (rule triple_weaken) (use candidates_subset [OF Inr] mset_eq_setD in \<open>simp_all, blast\<close>)
    qed
  qed
  show ?thesis
    using False unfolding template_targets_def role_def [symmetric] Let_def
    by (auto intro!: triple_bind [OF ordered] triple_if triple_raise triple_return simp: known_target_def dest!: in_set_takeD)
qed

lemma run_template_written:
  assumes "fair rd"
  shows "triple (written topo out_dir paths) (run_template rd topo defaults default_count seed out_dir template)
    (\<lambda>new. written topo out_dir (paths @ new)) (\<lambda>_ s. \<exists>paths. written topo out_dir paths s)"
proof -
  let ?E = "\<lambda>(_ :: exc) s. \<exists>paths. written topo out_dir paths s"
  have lift: "triple (written topo out_dir paths) (liftS x) (\<lambda>_. written topo out_dir paths) ?E" for x :: "'b result"
    by (auto simp: triple_def liftS_def split: sum.split)
  have reseed: "triple (written topo out_dir paths) (changeS (\<lambda>s. s\<lparr>gn_rng := r\<rparr>)) (\<lambda>_. written topo out_dir paths) ?E" for r
    by (auto simp: triple_def changeS_def)
  have targets: "triple (written topo out_dir paths) (on_rng (template_targets rd topo template ft name number))
      (\<lambda>ts s. (\<forall>t \<in> set ts. known_target topo t) \<and> written topo out_dir paths s) ?E" for ft name number
    using template_targets_known [OF assms, where P = "\<lambda>_. True"]
    by (fastforce simp: triple_def on_rng_def split: prod.splits sum.splits)
  have each: "triple (\<lambda>s. (\<forall>t \<in> set ts. known_target topo t) \<and> written topo out_dir paths s)
      (each_target (write_scenario rd topo defaults out_dir template ft difficulty) ts)
      (\<lambda>new. written topo out_dir (paths @ new)) ?E" for ts ft difficulty
  proof (cases "\<forall>t \<in> set ts. known_target topo t")
    case True
    have "triple (written topo out_dir paths) (each_target (write_scenario rd topo defaults out_dir template ft difficulty) ts)
      (\<lambda>ys. written topo out_dir (paths @ concat (map (\<lambda>p. [p]) ys))) ?E"
      by (rule each_target_collects [where I = "written topo out_dir" and g = "\<lambda>p. [p]"]) (use True in \<open>auto intro: write_scenario_written [OF assms]\<close>)
    moreover have "concat (map (\<lambda>p. [p]) ys) = ys" for ys :: "string list" by (induction ys) auto
    ultimately show ?thesis using True by simp
  qed (auto simp: triple_def)
  show ?thesis
    unfolding run_template_def Let_def
    by (intro triple_bind [OF lift] triple_if triple_return triple_bind [OF reseed] triple_bind [OF targets] each) simp
qed

lemma generate_written:
  assumes "fair rd"
  shows "triple (written topo out_dir []) (generate rd spec topo out_dir seed)
    (\<lambda>paths. written topo out_dir paths) (\<lambda>_ s. \<exists>paths. written topo out_dir paths s)"
proof -
  let ?E = "\<lambda>(_ :: exc) s. \<exists>paths. written topo out_dir paths s"
  have lift: "triple (written topo out_dir []) (liftS x) (\<lambda>_. written topo out_dir []) ?E" for x :: "'b result"
    by (auto simp: triple_def liftS_def split: sum.split)
  have each: "triple (written topo out_dir []) (each_target (run_template rd topo defaults default_count seed out_dir) ts)
      (\<lambda>yss. written topo out_dir (concat yss)) ?E" for defaults default_count ts
    using each_target_collects [where I = "written topo out_dir" and g = "\<lambda>ys. ys" and E = ?E and paths = "[]" and xs = ts,
        OF run_template_written [OF assms]] by simp
  show ?thesis
    unfolding generate_def Let_def
    by (rule triple_bind [OF lift], rule triple_bind [OF lift], rule triple_bind [OF each], rule triple_return) simp
qed

text \<open>
  C18. Whatever campaign is generated for a topology, and whether or not it runs to its end: every
  file it has written is a scenario of that topology with the standard traffic, of a fault the
  injector knows or of the healthy network, aimed at a device of the topology, and long enough for a
  complete probe window; a scenario without a target interface is accepted for the topology.  No
  file overwrites another, and a campaign that succeeds reports exactly its files.
\<close>

theorem campaign_files:
  assumes "fair rd" "generate rd spec topo out_dir seed s = (r, s')" "gn_files s = []"
  shows "(\<forall>(path, f) \<in> set (gn_files s'). path = scenario_path out_dir f \<and> (\<exists>ft idx. made_for topo ft idx f) \<and>
      (mf_scale (tc_manifest topo) \<noteq> ''unknown'' \<longrightarrow> ep_target_interface (sc_episode (sf_scenario f)) = None \<longrightarrow>
         require_scenario_topology configdb (sf_scenario f) (tc_manifest topo) dir = Inr ())) \<and>
    distinct (map fst (gn_files s')) \<and> (\<forall>paths. r = Inr paths \<longrightarrow> paths = map fst (gn_files s'))"
proof -
  have "written topo out_dir [] s" using assms(3) by (simp add: written_def)
  from tripleD [OF generate_written [OF assms(1)] this] assms(2)
  have w: "\<exists>paths. written topo out_dir paths s' \<and> (\<forall>ps. r = Inr ps \<longrightarrow> ps = paths)"
    by (cases r) auto
  have fits: "require_scenario_topology configdb (sf_scenario f) (tc_manifest topo) dir = Inr ()"
    if "made_for topo ft idx f" "mf_scale (tc_manifest topo) \<noteq> ''unknown''" "ep_target_interface (sc_episode (sf_scenario f)) = None" for ft idx f
    using that by (auto simp: require_scenario_topology_def validate_scenario_topology_def topology_errors_def Let_def made_for_def)
  from w show ?thesis
    by (fastforce simp: written_def list_all_iff campaign_file_def intro: fits)
qed

definition small_campaign :: campaign where
  "small_campaign =
     \<lparr>cp_defaults = [(''traffic_profile'', JStr ''standard'')],
      cp_fault_templates = [[(''fault_type'', JStr ''device_down''), (''name'', JStr ''edge_down''), (''count'', JInt 1)]]\<rparr>"

definition new_generation :: "nat generation" where
  "new_generation = \<lparr>gn_rng = 0, gn_files = [], gn_next_index = []\<rparr>"

theorem campaign_files_witness:
  "\<exists>s' f ft idx. generate first_source small_campaign podded_context ''out'' 7 new_generation =
       (Inr [''out/generated_device_down_xs_001.yaml''], s') \<and>
     gn_files s' = [(''out/generated_device_down_xs_001.yaml'', f)] \<and> made_for podded_context ft idx f"
proof -
  have "fst (generate first_source small_campaign podded_context ''out'' 7 new_generation) =
      Inr [''out/generated_device_down_xs_001.yaml'']" by code_simp
  then obtain s' where run: "generate first_source small_campaign podded_context ''out'' 7 new_generation =
      (Inr [''out/generated_device_down_xs_001.yaml''], s')" by (metis prod.collapse)
  have "gn_files new_generation = []" by (simp add: new_generation_def)
  from campaign_files [OF first_source_fair run this, where configdb = "\<lambda>_. None" and dir = "[]"] have
    files: "map fst (gn_files s') = [''out/generated_device_down_xs_001.yaml'']"
    and made: "\<forall>(path, f) \<in> set (gn_files s'). \<exists>ft idx. made_for podded_context ft idx f"
    by auto
  from files obtain f where f: "gn_files s' = [(''out/generated_device_down_xs_001.yaml'', f)]"
    by (cases "gn_files s'") auto
  with made obtain ft idx where "made_for podded_context ft idx f" by auto
  with run f show ?thesis by blast
qed

end
