(* ===== verification/Spec2Isabelle.thy ===== *)
theory Spec2Isabelle
  imports Interface_Names Scale_Profiles Json_Payloads Topology_Model Addressing Fabric_Plan
    Clos_Builder Fat_Tree_Builder Fault_Types Fault_Judge Scenario_Validation Scorer
    Effects Tool_Registry Incident_Scoring Incident_Engine Diagnostic_Session Environment
    Lease_Pool Episode_Backend Symmetric_Faults Simulator_Service
    Pingmesh_Coverage Pingmesh_Analysis Traffic_Estimator Traffic_Planner Traffic_Generator Traffic_Correctness
    Regex Json_Text Python_Text Fault_Runtime Routing_Runtime Impairment_Faults Link_Faults Routing_Faults
    Acl_Faults System_Faults Fault_Injector Fault_Accounting Fault_Safety Fault_Settling
    Pingmesh_Query Pingmesh_Report Observation Scenario_Executor Cleanup_Safety Impairment_Cleanup
    Scenario_Files Scenario_Inventory Scenario_Generator Campaign_Targets Campaign_Correctness
begin

text \<open>
  NetOpsBench benchmarks network-troubleshooting agents.  It plans a data-centre fabric of SONiC
  switches and client hosts, deploys it, injects one fault per episode, lets an agent
  diagnose the network through bounded tools, and scores the diagnosis.  This development
  models the parts of the Python package \<open>src/netopsbench\<close> that decide what is built, which
  scenarios are legal, what an agent sees and how its answer is scored.

  \<^bold>\<open>Theories and code.\<close>

  \<^item> \<open>Prelude\<close>: exceptions as values of a sum type, the string, number, dictionary and rounding
    operations of Python the sources use, and the interface \<open>keyed_store\<close>.
  \<^item> \<open>Interface_Names\<close>: \<open>platform/utils/interface_names.py\<close>.  \<open>port_aliases_exact\<close>, \<open>sonic_linux_roundtrip\<close>.
  \<^item> \<open>Scale_Profiles\<close>: \<open>models/profiles.py\<close>, the validated profiles and the registry with its merge.
    The interpretation \<open>profiles\<close> of \<open>keyed_store\<close> gives the batch laws of the merge.  \<open>merged_lookup\<close>.
  \<^item> \<open>Json_Payloads\<close>: \<open>platform/incident/payloads.py\<close>, JSON values with their serialised size.  C34.
  \<^item> \<open>Topology_Model\<close>: \<open>models/topology.py\<close>, the manifest, the Pingmesh arithmetic and the agent
    view.  C40, \<open>complete_window_covers\<close>, \<open>agent_entry_faithful\<close>.
  \<^item> \<open>Addressing\<close>: \<open>ManagementAddressing\<close> of \<open>platform/topology/planning.py\<close> and the part of
    \<open>ipaddress\<close> it uses; the interface \<open>address_allocator\<close> and its interpretation \<open>mgmt\<close>.  \<open>host_ip_allocates\<close>.
  \<^item> \<open>Fabric_Plan\<close>: \<open>platform/topology/plan.py\<close>, \<open>config.py\<close> and the rest of \<open>planning.py\<close>.
  \<^item> \<open>Builder_Lib\<close>, \<open>Clos_Builder\<close>, \<open>Fat_Tree_Builder\<close>: \<open>platform/topology/clos_builder.py\<close> and
    \<open>fat_tree_builder.py\<close>, from the configuration to the complete plan.  C9, C12, C11, C10, \<open>fat_tree_asns_distinct_iff\<close>.
  \<^item> \<open>Fault_Types\<close>: \<open>platform/faults/specs.py\<close>, \<open>models.py\<close>, \<open>builtin/\<close> and \<open>models/scenario.py\<close>.
  \<^item> \<open>Fault_Judge\<close>: \<open>evaluator/fault_type_judge.py\<close>.  C32.
  \<^item> \<open>Scenario_Validation\<close>: \<open>platform/scenario/validator.py\<close> and
    \<open>platform/topology/configdb_payload.py\<close>.  \<open>validate_scenario_iff\<close>, C35.
  \<^item> \<open>Scorer\<close>: \<open>evaluator/scorer.py\<close>.  C31, C30, \<open>generate_report_consistent\<close>.
  \<^item> \<open>Effects\<close>: methods that change their object and may raise, as functions from the state to a
    result and the state after it; the interfaces \<open>invariant_machine\<close> (every operation keeps an
    invariant, so every run does) and \<open>started_machine\<close> (and the initial states have it).
  \<^item> \<open>Tool_Registry\<close>: \<open>platform/toolkit/mcp/registry.py\<close>, which tool calls are well formed.
  \<^item> \<open>Incident_Scoring\<close>: \<open>platform/incident/scoring.py\<close>, the ground truth of an episode.
  \<^item> \<open>Incident_Engine\<close>: \<open>IncidentEngine\<close> and \<open>PreparedIncident\<close> of \<open>platform/incident/engine.py\<close>, with
    \<open>contracts.py\<close>.  The backend is a record of operations on a state of its own.
  \<^item> \<open>Diagnostic_Session\<close>: \<open>DiagnosticSession\<close> of the same file.  The interpretations \<open>incidents\<close>,
    \<open>sessions\<close> and \<open>ended\<close> give the invariants of every run of methods.  C16, C15, C24, C23.
  \<^item> \<open>Environment\<close>: \<open>platform/simulator/environment.py\<close>, refining the life cycle \<open>phase_step\<close>.  C17.
  \<^item> \<open>Lease_Pool\<close>, \<open>Episode_Backend\<close>: \<open>platform/simulator/runtime.py\<close>.  \<open>pool_step\<close> is one critical
    section of the pool, and \<open>pool_reachable\<close> any interleaving of them.  The interface \<open>lease_contract\<close> is
    what the incident engine needs of a backend; the interpretation \<open>episode_lease\<close> gives it.  C20, C19, C21, C14.
  \<^item> \<open>Symmetric_Faults\<close>: the CLOS builder, the ground truth and the scorer together.  C13.
  \<^item> \<open>Simulator_Service\<close>: \<open>platform/simulator/service.py\<close> and \<open>SimulatorManager.create\<close> of
    \<open>sdk/simulators.py\<close>.  Slots are shared between the table and the requests that looked them up; a request
    is split where it gives up a lock, and the interpretation \<open>services\<close> ranges over every interleaving.  C7.
  \<^item> \<open>Pingmesh_Coverage\<close>, \<open>Pingmesh_Analysis\<close>: \<open>platform/pingmesh/_detector_coverage.py\<close> and
    \<open>_detector_analysis.py\<close>, the coverage audit of a window and the anomalies in it.  C27.
  \<^item> \<open>Pingmesh_Query\<close>, \<open>Pingmesh_Report\<close>: \<open>_detector_query.py\<close> and \<open>detector.py\<close>, the sharded queries of
    a window and the report of its anomalies; \<open>database\<close> is InfluxDB.  C25, C26.
  \<^item> \<open>Regex\<close>, \<open>Json_Text\<close>, \<open>Python_Text\<close>: Python's \<open>re\<close>, \<open>json.loads\<close> and text operations, as far as
    the code that reads the output of devices and of the database uses them.
  \<^item> \<open>Fault_Runtime\<close>, \<open>Routing_Runtime\<close>: \<open>platform/faults/services/\<close>, \<open>context.py\<close> and \<open>models.py\<close>: commands on
    devices, the tracker of active faults, and what handlers read from SONiC and FRR.  The record \<open>lab\<close> is
    docker: \<open>subprocess.run\<close> as a function of the state of the world, the clock and the sleep.
  \<^item> \<open>Impairment_Faults\<close>, \<open>Link_Faults\<close>, \<open>Routing_Faults\<close>, \<open>Acl_Faults\<close>, \<open>System_Faults\<close>:
    \<open>platform/faults/handlers/\<close>, each handler whole, on a state (\<open>site\<close>) of world and tracker.
  \<^item> \<open>Fault_Injector\<close>: \<open>platform/faults/injector.py\<close>, \<open>builtin/\<close> and \<open>scenario_execution.py\<close>.
  \<^item> \<open>Fault_Accounting\<close>: what every handler does to the list of active faults, whatever the devices
    answer.  C5, C4.
  \<^item> \<open>Fault_Safety\<close>: what the handlers guarantee about devices that answer truthfully; the devices
    themselves stay arbitrary.  C1, C6.
  \<^item> \<open>Fault_Settling\<close>: the wait for a stopped device ends; its fuel is the number of polls, and
    thirty-one are enough because each lasts a second of a time-out of thirty.  C33.
  \<^item> \<open>Observation\<close>: \<open>platform/scenario/observation.py\<close>, windows in time, their analysis and the gates.  C39.
  \<^item> \<open>Scenario_Executor\<close>: \<open>executor.py\<close>, \<open>episode_runner.py\<close> and \<open>incident_backend.py\<close> of the same package, an
    episode from its baseline over the injection and the observation to the bounded cleanup.
  \<^item> \<open>Cleanup_Safety\<close>, \<open>Impairment_Cleanup\<close>: what a cleanup reports is true, it comes back (its fuel is
    one round per five seconds of the health time-out and one more, for between two rounds it sleeps five
    seconds or up to its deadline), and together with the handlers a reported success means that the
    impairment is gone.  C3, C22, C38, C2.
  \<^item> \<open>Scenario_Files\<close>: the validation and the dictionary form of \<open>models/scenario.py\<close>, and
    \<open>platform/scenario/parser.py\<close>.  C37.
  \<^item> \<open>Scenario_Inventory\<close>, \<open>Scenario_Generator\<close>: \<open>platform/scenario/generator.py\<close>, what a topology offers as
    targets, and the campaign that turns templates into scenario files.  The random source is a record
    of operations on a state of its own; the fuel of \<open>deal_rounds\<close> is the number of devices, each round
    deals at least one.  C36.
  \<^item> \<open>Campaign_Targets\<close>, \<open>Campaign_Correctness\<close>: the devices a campaign aims at, and the files it
    writes.  C29, C18.
  \<^item> \<open>Traffic_Estimator\<close>, \<open>Traffic_Planner\<close>, \<open>Traffic_Generator\<close>: \<open>platform/traffic/\<close>, the load of a set
    of flows, the greedy planner as a fold over \<open>planner_state\<close>, and the program's constants.  The
    interfaces \<open>flow_builder\<close> and \<open>total_flow_builder\<close> say what the planner needs of the function that
    builds its flows; the interpretations \<open>candidates\<close> and \<open>standard\<close> give it.
  \<^item> \<open>Traffic_Correctness\<close>: the planner against the estimator and the check.  C8, C28.

  \<^bold>\<open>Conventions.\<close>  An exception is a value of the sum type \<open>'a result\<close>; a method that changes its
  object returns the object after it also when it raises.  Every clock reading is an argument of the method that
  reads it, in rational seconds.  A method body under the pool's lock is one step; between the rounds of
  \<open>acquire\<close>, where the code waits on the condition variable, other threads may do anything to the pool (an
  arbitrary function of each round), and C21 shows that the call returns once the clock has passed its
  time-out, so no fuel is needed.  The ghost field \<open>in_trace\<close> of an incident lists what its
  backend and its owner were told.
  Packet rates, percentages and round-trip times are exact rationals.

  \<^bold>\<open>Not modelled.\<close>  Code that drives the outside world (containerlab, SSH,
  Telegraf, files) and the agents; the laboratory, the traffic processes, the reading of
  manifests and the language-model judge are parameters here.  An exception raised by the close callback itself,
  tracing and logging, and floating-point rounding other than \<open>round\<close> are left out.
\<close>

end
